(* ===== verification/Rushes_Prelude.thy ===== *)
theory Rushes_Prelude
  imports Complex_Main "HOL-Library.Sublist" "HOL-Library.Multiset" "HOL-Library.AList"
    "HOL-Library.Log_Nat" "HOL-Library.Char_ord" "HOL-Library.List_Lexorder"
    "HOL-Library.Product_Lexorder"
begin

text \<open>
  Shared vocabulary of the development: Go's 64-bit \<open>int\<close> with its wrap-around, decimal
  formatting (\<open>%d\<close> and \<open>%03d\<close>), \<open>strings.TrimSpace\<close> on UTF-8 byte strings, results with an
  error value, and generic lemmas on lists and sums that the component theories share.
\<close>

section \<open>Collections of rules\<close>

named_theorems reach \<open>the steps a transaction of the reducer is made of\<close>

section \<open>Go integers\<close>

text \<open>
  Go's \<open>int\<close> is 64 bits wide on the platforms the project builds for.  A Go integer is an
  \<open>int\<close> here, and every addition, subtraction or multiplication of the code that could leave the
  range is wrapped with \<open>i64\<close>.
\<close>

type_synonym goint = int

definition i64 :: "int \<Rightarrow> goint" where
  "i64 x = (x + 9223372036854775808) mod 18446744073709551616 - 9223372036854775808"

lemma i64_id [simp]:
  "- 9223372036854775808 \<le> x \<Longrightarrow> x < 9223372036854775808 \<Longrightarrow> i64 x = x"
  by (simp add: i64_def)

lemma i64_range: "- 9223372036854775808 \<le> i64 x" "i64 x < 9223372036854775808"
proof -
  have "0 \<le> (x + 9223372036854775808) mod 18446744073709551616"
    and "(x + 9223372036854775808) mod 18446744073709551616 < 18446744073709551616"
    by simp_all
  then show "- 9223372036854775808 \<le> i64 x" "i64 x < 9223372036854775808"
    unfolding i64_def by linarith+
qed

text \<open>\<open>clampInt\<close> of the editing code: the lower bound is tested first.\<close>

definition clampInt :: "goint \<Rightarrow> goint \<Rightarrow> goint \<Rightarrow> goint" where
  "clampInt v lo hi = (if v < lo then lo else if v > hi then hi else v)"

lemma clampInt_bounds: "lo \<le> hi \<Longrightarrow> lo \<le> clampInt v lo hi \<and> clampInt v lo hi \<le> hi"
  by (simp add: clampInt_def)

lemma clampInt_id [simp]: "lo \<le> v \<Longrightarrow> v \<le> hi \<Longrightarrow> clampInt v lo hi = v"
  by (simp add: clampInt_def)

section \<open>Decimal formatting\<close>

definition digit_char :: "nat \<Rightarrow> char" where
  "digit_char d = char_of (48 + d)"

fun show_nat :: "nat \<Rightarrow> string" where
  "show_nat n = (if n < 10 then [digit_char n] else show_nat (n div 10) @ [digit_char (n mod 10)])"

declare show_nat.simps [simp del]

text \<open>\<open>fmt.Sprintf("%d", n)\<close> and \<open>fmt.Sprintf("%03d", n)\<close>: the sign counts for the width.\<close>

definition show_int :: "int \<Rightarrow> string" where
  "show_int n = (if n < 0 then ''-'' @ show_nat (nat (- n)) else show_nat (nat n))"

definition show_int03 :: "int \<Rightarrow> string" where
  "show_int03 n =
     (if n < 0 then ''-'' @ replicate (2 - length (show_nat (nat (- n)))) (digit_char 0) @ show_nat (nat (- n))
      else replicate (3 - length (show_nat (nat n))) (digit_char 0) @ show_nat (nat n))"

lemma digit_char_inj: "d < 10 \<Longrightarrow> e < 10 \<Longrightarrow> digit_char d = digit_char e \<Longrightarrow> d = e"
proof -
  assume "d < 10" "e < 10" and eq: "digit_char d = digit_char e"
  from eq have "of_char (digit_char d) = (of_char (digit_char e) :: nat)" by simp
  with \<open>d < 10\<close> \<open>e < 10\<close> show ?thesis by (simp add: digit_char_def)
qed

lemma digit_char_not_minus: "d < 10 \<Longrightarrow> digit_char d \<noteq> CHR ''-''"
proof
  assume "d < 10" and eq: "digit_char d = CHR ''-''"
  from eq have "of_char (digit_char d) = (of_char (CHR ''-'') :: nat)" by simp
  with \<open>d < 10\<close> show False by (simp add: digit_char_def)
qed

lemma show_nat_nonempty [simp]: "show_nat n \<noteq> []"
  by (subst show_nat.simps) simp

lemma Nil_not_show_nat [simp]: "[] \<noteq> show_nat n"
  using show_nat_nonempty [of n] by metis

lemma show_nat_inj: "show_nat m = show_nat n \<Longrightarrow> m = n"
proof (induction m arbitrary: n rule: show_nat.induct)
  case (1 m)
  show ?case
  proof (cases "m < 10")
    case True
    with "1.prems" show ?thesis
      by (cases "n < 10") (auto simp: show_nat.simps [of m] show_nat.simps [of n] digit_char_inj)
  next
    case False
    with "1.prems" have n: "\<not> n < 10"
      by (auto simp: show_nat.simps [of m] show_nat.simps [of n])
    from "1.prems" False n
    have "show_nat (m div 10) = show_nat (n div 10)" and "digit_char (m mod 10) = digit_char (n mod 10)"
      by (auto simp: show_nat.simps [of m] show_nat.simps [of n])
    then have "m div 10 = n div 10" and "m mod 10 = n mod 10"
      using "1.IH" [OF False] digit_char_inj [of "m mod 10" "n mod 10"] by auto
    then show ?thesis by (metis div_mult_mod_eq)
  qed
qed

lemma set_show_nat: "c \<in> set (show_nat n) \<Longrightarrow> \<exists>d < 10. c = digit_char d"
proof (induction n rule: show_nat.induct)
  case (1 n)
  then show ?case
    by (cases "n < 10") (auto simp: show_nat.simps [of n] intro: exI [of _ "n mod 10"])
qed

lemma show_int_inj: "show_int m = show_int n \<Longrightarrow> m = n"
proof -
  assume eq: "show_int m = show_int n"
  have minus: "show_nat k \<noteq> CHR ''-'' # xs" for k xs
    using set_show_nat [of "CHR ''-''" k] digit_char_not_minus by (metis list.set_intros(1))
  show "m = n"
    using eq show_nat_inj [of "nat (- m)" "nat (- n)"] show_nat_inj [of "nat m" "nat n"]
    by (auto simp: show_int_def minus minus [symmetric] split: if_splits)
qed

section \<open>TrimSpace\<close>

text \<open>
  \<open>strings.TrimSpace\<close> removes the Unicode white space at both ends.  Strings are byte strings in
  UTF-8, so white space is the list of its UTF-8 encodings.
\<close>

definition bytes :: "nat list \<Rightarrow> string" where
  "bytes ns = map char_of ns"

definition space_seqs :: "string list" where
  "space_seqs = map bytes
     ([[32], [9], [10], [11], [12], [13], [194, 133], [194, 160], [225, 154, 128]]
      @ map (\<lambda>b. [226, 128, b]) [128 ..< 139]
      @ [[226, 128, 168], [226, 128, 169], [226, 128, 175], [226, 129, 159], [227, 128, 128]])"

lemma space_seqs_nonempty: "p \<in> set space_seqs \<Longrightarrow> p \<noteq> []"
  by (auto simp: space_seqs_def bytes_def)

function strip_seqs :: "string list \<Rightarrow> string \<Rightarrow> string" where
  "strip_seqs ps s =
     (case find (\<lambda>p. p \<noteq> [] \<and> prefix p s) ps of None \<Rightarrow> s | Some p \<Rightarrow> strip_seqs ps (drop (length p) s))"
  by pat_completeness auto
termination
  by (relation "measure (\<lambda>(ps, s). length s)") (auto simp: find_Some_iff prefix_def)

declare strip_seqs.simps [simp del]

definition TrimSpace :: "string \<Rightarrow> string" where
  "TrimSpace s = rev (strip_seqs (map rev space_seqs) (rev (strip_seqs space_seqs s)))"

lemma TrimSpace_Nil [simp]: "TrimSpace [] = []"
  by (simp add: TrimSpace_def strip_seqs.simps space_seqs_def bytes_def)

text \<open>A text that begins and ends with a visible ASCII character has nothing to trim.\<close>

definition graphic :: "char \<Rightarrow> bool" where
  "graphic c \<longleftrightarrow> 32 < (of_char c :: nat) \<and> (of_char c :: nat) < 127"

lemma strip_seqs_id: "(\<And>p. p \<in> set ps \<Longrightarrow> p \<noteq> [] \<Longrightarrow> \<not> prefix p s) \<Longrightarrow> strip_seqs ps s = s"
proof -
  assume "\<And>p. p \<in> set ps \<Longrightarrow> p \<noteq> [] \<Longrightarrow> \<not> prefix p s"
  then have "find (\<lambda>p. p \<noteq> [] \<and> prefix p s) ps = None" by (auto simp: find_None_iff)
  then show ?thesis by (subst strip_seqs.simps) simp
qed

lemma space_ends:
  "list_all (\<lambda>p. \<not> graphic (hd p) \<and> \<not> graphic (last p)) space_seqs"
  by code_simp

lemma TrimSpace_graphic: "s \<noteq> [] \<Longrightarrow> graphic (hd s) \<Longrightarrow> graphic (last s) \<Longrightarrow> TrimSpace s = s"
proof -
  assume s: "s \<noteq> []" "graphic (hd s)" "graphic (last s)"
  have ends: "\<not> graphic (hd p)" "\<not> graphic (hd (rev p))" if "p \<in> set space_seqs" for p
    using space_ends that by (simp_all add: list_all_iff hd_rev)
  have prefixes: "hd p = hd u" if "prefix p u" "p \<noteq> []" for p u :: string
    using that by (auto simp: prefix_def)
  have "strip_seqs space_seqs s = s"
    by (rule strip_seqs_id) (use s(2) ends prefixes in metis)
  moreover have "strip_seqs (map rev space_seqs) (rev s) = rev s"
  proof (rule strip_seqs_id)
    fix q assume q: "q \<in> set (map rev space_seqs)" "q \<noteq> []"
    then have "\<not> graphic (hd q)" using ends(2) by auto
    moreover have "graphic (hd (rev s))" using s(3) by (simp add: hd_rev)
    ultimately show "\<not> prefix q (rev s)" using prefixes q(2) by metis
  qed
  ultimately show ?thesis by (simp add: TrimSpace_def)
qed

text \<open>\<open>valueOr\<close>: the fallback replaces a value that is blank.\<close>

definition valueOr :: "string \<Rightarrow> string \<Rightarrow> string" where
  "valueOr v fallback = (if TrimSpace v = [] then fallback else v)"

lemma valueOr_Nil [simp]: "valueOr [] b = b"
  by (simp add: valueOr_def)

section \<open>Results\<close>

definition bind_sum :: "'e + 'a \<Rightarrow> ('a \<Rightarrow> 'e + 'b) \<Rightarrow> 'e + 'b" where
  "bind_sum r f = (case r of Inl e \<Rightarrow> Inl e | Inr x \<Rightarrow> f x)"

lemma bind_sum_simps [simp]:
  "bind_sum (Inl e) f = Inl e"
  "bind_sum (Inr x) f = f x"
  by (simp_all add: bind_sum_def)

lemma bind_sum_Inr [simp]: "bind_sum r f = Inr y \<longleftrightarrow> (\<exists>x. r = Inr x \<and> f x = Inr y)"
  by (cases r) auto

text \<open>An early return of an error is a guard: these rules read a chain of checks as a conjunction.\<close>

lemma guard_simps [simp]:
  "(if b then Inl e else r) = Inr x \<longleftrightarrow> \<not> b \<and> r = Inr x"
  "(if b then r else Inl e) = Inr x \<longleftrightarrow> b \<and> r = Inr x"
  "(case v of None \<Rightarrow> Inl e | Some y \<Rightarrow> f y) = Inr x \<longleftrightarrow> (\<exists>y. v = Some y \<and> f y = Inr x)"
  "(case v of None \<Rightarrow> r | Some y \<Rightarrow> Inl (g y)) = Inr x \<longleftrightarrow> v = None \<and> r = Inr x"
  "(case s of Inl e' \<Rightarrow> h e' | Inr z \<Rightarrow> Inl (k z)) = Inr x \<longleftrightarrow> (\<exists>e'. s = Inl e' \<and> h e' = Inr x)"
  by (cases v; cases s; auto)+

lemma bind_sum_InrE:
  assumes "bind_sum r f = Inr y"
  obtains x where "r = Inr x" and "f x = Inr y"
  using assms by auto

text \<open>A loop over a list that stops at the first error.\<close>

fun map_bind :: "('a \<Rightarrow> 'e + 'b) \<Rightarrow> 'a list \<Rightarrow> 'e + 'b list" where
  "map_bind f [] = Inr []"
| "map_bind f (x # xs) = bind_sum (f x) (\<lambda>y. bind_sum (map_bind f xs) (\<lambda>ys. Inr (y # ys)))"

lemma map_bind_Inr: "map_bind f xs = Inr ys \<longleftrightarrow> list_all2 (\<lambda>x y. f x = Inr y) xs ys"
  by (induction xs arbitrary: ys) (auto simp: list_all2_Cons1)

lemma map_bind_set: "map_bind f xs = Inr ys \<Longrightarrow> y \<in> set ys \<Longrightarrow> \<exists>x \<in> set xs. f x = Inr y"
  by (induction xs arbitrary: ys) auto

lemma map_bind_member: "map_bind f xs = Inr ys \<Longrightarrow> x \<in> set xs \<Longrightarrow> \<exists>y \<in> set ys. f x = Inr y"
  by (induction xs arbitrary: ys) auto

lemma map_bind_map: "(\<And>x. x \<in> set xs \<Longrightarrow> f (g x) = Inr (h x)) \<Longrightarrow> map_bind f (map g xs) = Inr (map h xs)"
  by (induction xs) simp_all

section \<open>Lists\<close>

lemma in_set_update_map:
  "i < length xs \<Longrightarrow> set (xs[i := f (xs ! i)]) \<subseteq> set xs \<union> f ` set xs"
  using set_update_subset_insert [of xs i "f (xs ! i)"] by auto

lemma sort_key_filter_const:
  "distinct (map f xs) \<Longrightarrow> distinct (map f (sort_key k xs))"
  by (metis distinct_map distinct_sort set_sort mset_map mset_sort mset_eq_imp_distinct_iff)

end
