(* ===== verification/GoFloat.thy ===== *)
theory GoFloat
  imports Rushes_Prelude
begin

text \<open>
  Go's \<open>float64\<close> as executable IEEE-754 binary64 arithmetic: a finite value is the rational it
  denotes, and every operation is the exact rational result rounded once to nearest, ties to even
  (\<open>rnd64\<close>).  The two zeros are identified: no code path of the model divides by a zero or
  prints one.  \<open>int(x)\<close> on a value outside the range of \<open>int\<close> is what amd64 computes.
\<close>

section \<open>Values\<close>

datatype f64 = FNaN | FPosInf | FNegInf | Fin rat

definition pow2 :: "int \<Rightarrow> rat" where
  "pow2 e = (if 0 \<le> e then 2 ^ nat e else 1 / 2 ^ nat (- e))"

text \<open>Largest \<open>k\<close> with \<open>2\<^sup>k \<le> x\<close>, for a positive \<open>x\<close>.\<close>

definition ilog2 :: "rat \<Rightarrow> int" where
  "ilog2 x = (let (p, q) = quotient_of x; k = bitlen p - bitlen q
              in if pow2 k \<le> x then k else k - 1)"

definition round_even :: "rat \<Rightarrow> int" where
  "round_even y = (let f = \<lfloor>y\<rfloor>; d = y - of_int f
     in if d < 1 / 2 then f else if d > 1 / 2 then f + 1 else if even f then f else f + 1)"

definition rnd64 :: "rat \<Rightarrow> f64" where
  "rnd64 x = (if x = 0 then Fin 0 else
     let e = max (ilog2 \<bar>x\<bar> - 52) (- 1074); r = of_int (round_even (x / pow2 e)) * pow2 e
     in if r \<ge> pow2 1024 then FPosInf else if r \<le> - pow2 1024 then FNegInf else Fin r)"

section \<open>Operations\<close>

definition f_of_int :: "int \<Rightarrow> f64" where
  "f_of_int n = rnd64 (of_int n)"

fun fadd :: "f64 \<Rightarrow> f64 \<Rightarrow> f64" where
  "fadd (Fin x) (Fin y) = rnd64 (x + y)"
| "fadd FNaN _ = FNaN"
| "fadd _ FNaN = FNaN"
| "fadd FPosInf FNegInf = FNaN"
| "fadd FNegInf FPosInf = FNaN"
| "fadd FPosInf _ = FPosInf"
| "fadd _ FPosInf = FPosInf"
| "fadd FNegInf _ = FNegInf"
| "fadd _ FNegInf = FNegInf"

fun fneg :: "f64 \<Rightarrow> f64" where
  "fneg (Fin x) = Fin (- x)"
| "fneg FNaN = FNaN"
| "fneg FPosInf = FNegInf"
| "fneg FNegInf = FPosInf"

definition fsub :: "f64 \<Rightarrow> f64 \<Rightarrow> f64" where
  "fsub x y = fadd x (fneg y)"

definition finf :: "rat \<Rightarrow> f64" where
  "finf s = (if s > 0 then FPosInf else if s < 0 then FNegInf else FNaN)"

fun fsgn :: "f64 \<Rightarrow> rat" where
  "fsgn (Fin x) = sgn x"
| "fsgn FNaN = 0"
| "fsgn FPosInf = 1"
| "fsgn FNegInf = - 1"

fun fmul :: "f64 \<Rightarrow> f64 \<Rightarrow> f64" where
  "fmul (Fin x) (Fin y) = rnd64 (x * y)"
| "fmul FNaN _ = FNaN"
| "fmul _ FNaN = FNaN"
| "fmul x y = finf (fsgn x * fsgn y)"

fun fdiv :: "f64 \<Rightarrow> f64 \<Rightarrow> f64" where
  "fdiv (Fin x) (Fin y) = (if y = 0 then finf x else rnd64 (x / y))"
| "fdiv FNaN _ = FNaN"
| "fdiv _ FNaN = FNaN"
| "fdiv (Fin _) _ = Fin 0"
| "fdiv x (Fin y) = (if y = 0 then x else finf (fsgn x * sgn y))"
| "fdiv _ _ = FNaN"

fun fabs :: "f64 \<Rightarrow> f64" where
  "fabs (Fin x) = Fin \<bar>x\<bar>"
| "fabs FNaN = FNaN"
| "fabs _ = FPosInf"

fun flt :: "f64 \<Rightarrow> f64 \<Rightarrow> bool" where
  "flt (Fin x) (Fin y) \<longleftrightarrow> x < y"
| "flt (Fin _) FPosInf \<longleftrightarrow> True"
| "flt FNegInf (Fin _) \<longleftrightarrow> True"
| "flt FNegInf FPosInf \<longleftrightarrow> True"
| "flt _ _ \<longleftrightarrow> False"

fun feq :: "f64 \<Rightarrow> f64 \<Rightarrow> bool" where
  "feq FNaN _ \<longleftrightarrow> False"
| "feq _ FNaN \<longleftrightarrow> False"
| "feq x y \<longleftrightarrow> x = y"

definition fle :: "f64 \<Rightarrow> f64 \<Rightarrow> bool" where
  "fle x y \<longleftrightarrow> flt x y \<or> feq x y"

definition fmax :: "f64 \<Rightarrow> f64 \<Rightarrow> f64" where
  "fmax x y = (if x = FPosInf \<or> y = FPosInf then FPosInf
     else if x = FNaN \<or> y = FNaN then FNaN else if flt x y then y else x)"

definition IsNaN :: "f64 \<Rightarrow> bool" where
  "IsNaN x \<longleftrightarrow> x = FNaN"

definition IsInf :: "f64 \<Rightarrow> bool" where
  "IsInf x \<longleftrightarrow> x = FPosInf \<or> x = FNegInf"

text \<open>\<open>math.Round\<close> (half away from zero) and \<open>math.Trunc\<close> are exact.\<close>

definition round_away :: "rat \<Rightarrow> int" where
  "round_away x = (if x < 0 then - \<lfloor>- x + 1 / 2\<rfloor> else \<lfloor>x + 1 / 2\<rfloor>)"

definition trunc_rat :: "rat \<Rightarrow> int" where
  "trunc_rat x = (if x < 0 then - \<lfloor>- x\<rfloor> else \<lfloor>x\<rfloor>)"

fun Round :: "f64 \<Rightarrow> f64" where
  "Round (Fin x) = Fin (of_int (round_away x))"
| "Round x = x"

fun Trunc :: "f64 \<Rightarrow> f64" where
  "Trunc (Fin x) = Fin (of_int (trunc_rat x))"
| "Trunc x = x"

fun int_of_f :: "f64 \<Rightarrow> goint" where
  "int_of_f (Fin x) = (if - 9223372036854775808 \<le> trunc_rat x \<and> trunc_rat x < 9223372036854775808
     then trunc_rat x else - 9223372036854775808)"
| "int_of_f _ = - 9223372036854775808"

section \<open>Exactness on integers\<close>

lemma pow2_pos [simp]: "0 < pow2 e"
  by (simp add: pow2_def)

lemma pow2_nonzero [simp]: "pow2 e \<noteq> 0"
  by (simp add: pow2_def)

lemma pow2_powi: "pow2 e = 2 powi e"
  by (simp add: pow2_def power_int_def inverse_eq_divide power_one_over)

lemma pow2_add: "pow2 (a + b) = pow2 a * pow2 b"
  by (simp add: pow2_powi power_int_add)

lemma pow2_mono: "a \<le> b \<Longrightarrow> pow2 a \<le> pow2 b"
  by (simp add: pow2_powi power_int_increasing)

lemma pow2_less: "a < b \<Longrightarrow> pow2 a < pow2 b"
  by (simp add: pow2_powi power_int_strict_increasing)

lemma pow2_less_iff [simp]: "pow2 a < pow2 b \<longleftrightarrow> a < b"
  using pow2_less [of a b] pow2_mono [of b a] by (auto simp: not_less [symmetric])

lemma pow2_nat: "0 \<le> e \<Longrightarrow> pow2 e = of_int (2 ^ nat e)"
  by (simp add: pow2_def)

lemma bitlen_rat:
  assumes "0 < (p :: int)"
  shows "pow2 (bitlen p - 1) \<le> of_int p" and "of_int p < pow2 (bitlen p)"
proof -
  have b: "2 ^ nat (bitlen p - 1) \<le> p \<and> p < 2 ^ nat (bitlen p)"
    by (rule bitlen_bounds [OF assms])
  have pos: "0 < bitlen p"
    using assms by (simp add: bitlen_alt_def add_pos_nonneg add.commute)
  then have "pow2 (bitlen p - 1) = of_int (2 ^ nat (bitlen p - 1))"
    and "pow2 (bitlen p) = of_int (2 ^ nat (bitlen p))"
    by (simp_all add: pow2_nat)
  with b show "pow2 (bitlen p - 1) \<le> of_int p" and "of_int p < pow2 (bitlen p)"
    by (simp_all only: of_int_le_iff of_int_less_iff)
qed

lemma ilog2_bounds:
  assumes "0 < x"
  shows "pow2 (ilog2 x) \<le> x" and "x < pow2 (ilog2 x + 1)"
proof -
  obtain p q where pq: "quotient_of x = (p, q)" by (cases "quotient_of x")
  then have x: "x = of_int p / of_int q" and q: "0 < q"
    by (simp_all add: quotient_of_div quotient_of_denom_pos)
  with assms have p: "0 < p" by (simp add: zero_less_divide_iff)
  let ?k = "bitlen p - bitlen q"
  have q': "(0::rat) < of_int q" using q by simp
  have "x < pow2 (bitlen p) / pow2 (bitlen q - 1)"
    unfolding x using bitlen_rat [OF p] bitlen_rat [OF q] q'
    by (intro frac_less) (simp_all add: p less_imp_le)
  also have "\<dots> = pow2 (?k + 1)"
    by (simp add: pow2_powi power_int_add power_int_diff)
  finally have up: "x < pow2 (?k + 1)" .
  have "pow2 (?k - 1) = pow2 (bitlen p - 1) / pow2 (bitlen q)"
    by (simp add: pow2_powi power_int_diff)
  also have "\<dots> \<le> x"
    unfolding x using bitlen_rat [OF p] bitlen_rat [OF q] q'
    by (intro frac_le) (simp_all add: less_imp_le p)
  finally have lo: "pow2 (?k - 1) \<le> x" .
  show "pow2 (ilog2 x) \<le> x" and "x < pow2 (ilog2 x + 1)"
    using up lo by (auto simp: ilog2_def pq not_le Let_def)
qed

lemma round_even_of_int [simp]: "round_even (of_int n) = n"
  by (simp add: round_even_def)

lemma round_even_abs: "of_int \<bar>round_even y\<bar> \<le> 2 * \<bar>y\<bar>"
proof -
  have f: "of_int \<lfloor>y\<rfloor> \<le> y" "y < of_int \<lfloor>y\<rfloor> + 1" by linarith+
  consider "\<lfloor>y\<rfloor> = 0" | "1 \<le> \<lfloor>y\<rfloor>" | "\<lfloor>y\<rfloor> \<le> - 1" by linarith
  then show ?thesis
  proof cases
    case 1
    with f show ?thesis by (auto simp: round_even_def Let_def)
  next
    case 2
    then have "(1::rat) \<le> of_int \<lfloor>y\<rfloor>" by linarith
    with f have "of_int \<lfloor>y\<rfloor> + 1 \<le> 2 * y \<or> y - of_int \<lfloor>y\<rfloor> < 1 / 2" by linarith
    moreover have "\<bar>y\<bar> = y" and "of_int \<lfloor>y\<rfloor> \<le> 2 * y"
      using f \<open>1 \<le> of_int \<lfloor>y\<rfloor>\<close> by linarith+
    ultimately show ?thesis
      using 2 by (auto simp: round_even_def Let_def)
  next
    case 3
    then have "of_int \<lfloor>y\<rfloor> \<le> (- 1 :: rat)" by linarith
    with f 3 show ?thesis
      by (auto simp: round_even_def Let_def abs_if split: if_splits)
  qed
qed

text \<open>An integer of at most 53 bits is a \<open>float64\<close>.\<close>

lemma rnd64_of_int [simp]:
  assumes "\<bar>n\<bar> \<le> 9007199254740992"
  shows "rnd64 (of_int n) = Fin (of_int n)"
proof (cases "n = 0")
  case True
  then show ?thesis by (simp add: rnd64_def)
next
  case False
  let ?x = "\<bar>of_int n :: rat\<bar>"
  let ?e = "max (ilog2 ?x - 52) (- 1074)"
  have pos: "0 < ?x" using False by simp
  have big: "?x \<le> pow2 53" using assms by (simp add: pow2_def flip: of_int_abs)
  have one: "1 \<le> ?x" using False by (auto simp: abs_if)
  have "pow2 (ilog2 ?x) \<le> pow2 53" using ilog2_bounds(1) [OF pos] big by linarith
  then have le53: "ilog2 ?x \<le> 53" using pow2_less_iff [of 53 "ilog2 ?x"] by linarith
  have "pow2 0 < pow2 (ilog2 ?x + 1)" using ilog2_bounds(2) [OF pos] one by (simp add: pow2_def)
  then have ge0: "0 \<le> ilog2 ?x" by simp
  have "\<exists>m. of_int n / pow2 ?e = of_int m"
  proof (cases "ilog2 ?x = 53")
    case True
    then have "pow2 53 \<le> ?x" using ilog2_bounds(1) [OF pos] by simp
    with big have "?x = pow2 53" by simp
    then have "\<bar>n\<bar> = 9007199254740992"
      by (simp add: pow2_def flip: of_int_abs)
    then have "n = 9007199254740992 \<or> n = - 9007199254740992" by linarith
    with True show ?thesis
      by (auto simp: pow2_def intro: exI [of _ 4503599627370496] exI [of _ "- 4503599627370496"])
  next
    case False
    then have "?e \<le> 0" using le53 by simp
    then have "of_int n / pow2 ?e = of_int (n * 2 ^ nat (- ?e))"
      by (cases "?e = 0") (simp_all add: pow2_def)
    then show ?thesis by blast
  qed
  then obtain m where m: "of_int n / pow2 ?e = of_int m" by blast
  then have "of_int (round_even (of_int n / pow2 ?e)) * pow2 ?e = of_int n"
    by (metis nonzero_eq_divide_eq pow2_nonzero round_even_of_int)
  moreover have "of_int n < pow2 1024" and "- pow2 1024 < of_int n"
    using big pow2_less [of 53 1024] by linarith+
  ultimately show ?thesis using False by (simp add: rnd64_def Let_def)
qed

lemma rnd64_0 [simp]: "rnd64 0 = Fin 0"
  using rnd64_of_int [of 0] by simp

lemma rnd64_numeral [simp]:
  "numeral k \<le> (9007199254740992 :: int) \<Longrightarrow> rnd64 (numeral k) = Fin (numeral k)"
  using rnd64_of_int [of "numeral k"] by simp

lemma f_of_int_exact [simp]: "\<bar>n\<bar> \<le> 9007199254740992 \<Longrightarrow> f_of_int n = Fin (of_int n)"
  by (simp add: f_of_int_def)

text \<open>Rounding never more than doubles a magnitude.\<close>

lemma rnd64_bound:
  assumes "rnd64 x = Fin r"
  shows "\<bar>r\<bar> \<le> 2 * \<bar>x\<bar>"
proof (cases "x = 0")
  case True
  with assms show ?thesis by simp
next
  case False
  let ?e = "max (ilog2 \<bar>x\<bar> - 52) (- 1074)"
  have r: "r = of_int (round_even (x / pow2 ?e)) * pow2 ?e"
    using assms False by (simp add: rnd64_def Let_def split: if_splits)
  have "\<bar>r\<bar> = of_int \<bar>round_even (x / pow2 ?e)\<bar> * pow2 ?e"
    unfolding r using pow2_pos [of ?e] by (simp add: abs_mult abs_of_pos del: pow2_pos)
  also have "\<dots> \<le> 2 * \<bar>x / pow2 ?e\<bar> * pow2 ?e"
    by (intro mult_right_mono round_even_abs) (simp add: less_imp_le)
  also have "\<dots> = 2 * \<bar>x\<bar>"
    using pow2_pos [of ?e] by (simp add: abs_divide abs_of_pos del: pow2_pos)
  finally show ?thesis .
qed

section \<open>Frames through floating point\<close>

lemma round_away_of_int [simp]: "round_away (of_int n) = n"
proof -
  have "\<lfloor>of_int m + 1 / 2 :: rat\<rfloor> = m" for m by linarith
  from this [of n] this [of "- n"] show ?thesis by (auto simp: round_away_def)
qed

lemma trunc_rat_of_int [simp]: "trunc_rat (of_int n) = n"
  using floor_of_int [of "- n", where 'a = rat] by (auto simp: trunc_rat_def simp flip: of_int_minus)

lemma round_away_abs: "of_int \<bar>round_away x\<bar> \<le> 2 * \<bar>x\<bar>"
proof -
  have *: "of_int \<bar>\<lfloor>y + 1 / 2\<rfloor>\<bar> \<le> 2 * y" if "0 \<le> y" for y :: rat
  proof (cases "y < 1 / 2")
    case True
    with that have "\<lfloor>y + 1 / 2\<rfloor> = 0" by linarith
    with that show ?thesis by simp
  next
    case False
    then have "0 \<le> \<lfloor>y + 1 / 2\<rfloor>" by linarith
    moreover have "of_int \<lfloor>y + 1 / 2\<rfloor> \<le> y + 1 / 2" by linarith
    ultimately show ?thesis using False by linarith
  qed
  from * [of x] * [of "- x"] show ?thesis by (cases "x < 0") (simp_all add: round_away_def)
qed

lemma Round_mono: "x \<le> y \<Longrightarrow> round_away x \<le> round_away y"
  unfolding round_away_def by (auto; linarith)

text \<open>\<open>int(math.Round(float64(n) * 1))\<close> and \<open>int(math.Round(float64(n) / 1))\<close> give \<open>n\<close> back.\<close>

lemma unit_rate_exact [simp]:
  assumes "\<bar>n\<bar> \<le> 9007199254740992"
  shows "int_of_f (Round (fmul (f_of_int n) (Fin 1))) = n"
    and "int_of_f (Round (fdiv (f_of_int n) (Fin 1))) = n"
  using assms by auto

lemma int_of_f_range: "- 9223372036854775808 \<le> int_of_f x" "int_of_f x < 9223372036854775808"
  by (cases x; simp)+

end
