(* ===== verification/GoValue.thy ===== *)
theory GoValue
  imports GoFloat
begin

text \<open>
  Dynamically typed Go values (\<open>any\<close>) as the editing code meets them: what \<open>encoding/json\<close>
  decodes, and what the code itself stores in \<open>map[string]any\<close> values.  A Go map is an
  association list with distinct keys; the order of the list plays no role.  \<open>float32\<close> values do
  not occur: neither JSON decoding nor the code creates one.  \<open>GNilMap\<close> is a \<open>nil\<close> map inside an
  interface, which is not the \<open>nil\<close> interface: it is found by a type switch, reads like an empty
  map and encodes as \<open>null\<close>.
\<close>

section \<open>Values and maps\<close>

datatype gval =
    GNil
  | GBool bool
  | GFloat f64
  | GInt goint
  | GInt64 goint
  | GStr string
  | GStrs "string list"
  | GArr "gval list"
  | GObj "(string \<times> gval) list"
  | GNilMap

type_synonym gmap = "(string \<times> gval) list"

text \<open>\<open>m[k]\<close> yields \<open>nil\<close> for a missing key; \<open>_, ok := m[k]\<close> is \<open>map_of m k \<noteq> None\<close>.\<close>

definition gget :: "gmap \<Rightarrow> string \<Rightarrow> gval" where
  "gget m k = (case map_of m k of None \<Rightarrow> GNil | Some v \<Rightarrow> v)"

definition ghas :: "gmap \<Rightarrow> string \<Rightarrow> bool" where
  "ghas m k \<longleftrightarrow> map_of m k \<noteq> None"

definition gput :: "string \<Rightarrow> gval \<Rightarrow> gmap \<Rightarrow> gmap" where
  "gput k v m = AList.update k v m"

lemma gget_gput [simp]: "gget (gput k v m) k' = (if k' = k then v else gget m k')"
  by (simp add: gget_def gput_def update_conv')

lemma ghas_gput [simp]: "ghas (gput k v m) k' \<longleftrightarrow> k' = k \<or> ghas m k'"
  by (auto simp: ghas_def gput_def update_conv')

lemma gget_Nil [simp]: "gget [] k = GNil"
  by (simp add: gget_def)

lemma ghas_Nil [simp]: "\<not> ghas [] k"
  by (simp add: ghas_def)

lemma gget_Cons [simp]: "gget ((k, v) # m) k' = (if k' = k then v else gget m k')"
  by (simp add: gget_def)

lemma ghas_Cons [simp]: "ghas ((k, v) # m) k' \<longleftrightarrow> k' = k \<or> ghas m k'"
  by (simp add: ghas_def)

section \<open>Readers\<close>

fun stringValue :: "gval \<Rightarrow> string" where
  "stringValue (GStr s) = s"
| "stringValue _ = []"

fun boolValue :: "gval \<Rightarrow> bool option" where
  "boolValue (GBool b) = Some b"
| "boolValue _ = None"

fun objectValue :: "gval \<Rightarrow> gmap option" where
  "objectValue (GObj m) = Some m"
| "objectValue GNilMap = Some []"
| "objectValue _ = None"

fun numberValue :: "gval \<Rightarrow> f64" where
  "numberValue (GFloat x) = x"
| "numberValue (GInt n) = f_of_int n"
| "numberValue (GInt64 n) = f_of_int n"
| "numberValue _ = Fin 0"

text \<open>\<open>numericValue\<close>: the number when the second Go result is true.\<close>

fun numericValue :: "gval \<Rightarrow> f64 option" where
  "numericValue (GFloat x) = (if \<not> IsNaN x \<and> \<not> IsInf x then Some x else None)"
| "numericValue (GInt n) = Some (f_of_int n)"
| "numericValue (GInt64 n) = Some (f_of_int n)"
| "numericValue _ = None"

section \<open>The JSON round trip\<close>

text \<open>
  \<open>json.Marshal\<close> refuses NaN and the infinities.  Decoding into \<open>any\<close> turns every number into
  a \<open>float64\<close> and every array into \<open>[]any\<close>.  \<open>json_norm\<close> keeps the texts, as \<open>json.Marshal\<close> does when they are
  valid UTF-8; \<open>json_stored\<close> of \<open>GoJson\<close> replaces the bytes of all other texts the way it does.
\<close>

fun finite_f :: "f64 \<Rightarrow> bool" where
  "finite_f (Fin _) \<longleftrightarrow> True"
| "finite_f _ \<longleftrightarrow> False"

fun json_ok :: "gval \<Rightarrow> bool" where
  "json_ok (GFloat x) \<longleftrightarrow> finite_f x"
| "json_ok (GArr vs) \<longleftrightarrow> list_all json_ok vs"
| "json_ok (GObj m) \<longleftrightarrow> list_all (\<lambda>(k, v). json_ok v) m"
| "json_ok _ \<longleftrightarrow> True"

fun json_norm :: "gval \<Rightarrow> gval" where
  "json_norm (GInt n) = GFloat (f_of_int n)"
| "json_norm (GInt64 n) = GFloat (f_of_int n)"
| "json_norm (GStrs ss) = GArr (map GStr ss)"
| "json_norm (GArr vs) = GArr (map json_norm vs)"
| "json_norm (GObj m) = GObj (map (\<lambda>(k, v). (k, json_norm v)) m)"
| "json_norm GNilMap = GNil"
| "json_norm v = v"

definition json_norm_map :: "gmap \<Rightarrow> gmap" where
  "json_norm_map m = map (\<lambda>(k, v). (k, json_norm v)) m"

lemma json_norm_idem [simp]: "json_norm (json_norm v) = json_norm v"
  by (induction v rule: json_norm.induct) auto

lemma json_norm_map_idem [simp]: "json_norm_map (json_norm_map m) = json_norm_map m"
  by (auto simp: json_norm_map_def)

lemma map_of_json_norm_map: "map_of (json_norm_map m) k = map_option json_norm (map_of m k)"
  by (induction m) (auto simp: json_norm_map_def)

lemma stringValue_json_norm [simp]: "stringValue (json_norm v) = stringValue v"
  by (cases v) auto

lemma stringValue_gget_norm [simp]:
  "stringValue (gget (json_norm_map m) k) = stringValue (gget m k)"
  by (simp add: gget_def map_of_json_norm_map split: option.split)

section \<open>\<open>reflect.DeepEqual\<close>\<close>

function deep_eq :: "gval \<Rightarrow> gval \<Rightarrow> bool" where
  "deep_eq GNil w \<longleftrightarrow> w = GNil"
| "deep_eq (GBool b) w \<longleftrightarrow> w = GBool b"
| "deep_eq (GFloat x) w \<longleftrightarrow> (case w of GFloat y \<Rightarrow> feq x y | _ \<Rightarrow> False)"
| "deep_eq (GInt n) w \<longleftrightarrow> w = GInt n"
| "deep_eq (GInt64 n) w \<longleftrightarrow> w = GInt64 n"
| "deep_eq (GStr s) w \<longleftrightarrow> w = GStr s"
| "deep_eq (GStrs s) w \<longleftrightarrow> w = GStrs s"
| "deep_eq (GArr vs) w \<longleftrightarrow> (case w of
       GArr ws \<Rightarrow> length vs = length ws \<and> list_all (\<lambda>(v, w). deep_eq v w) (zip vs ws)
     | _ \<Rightarrow> False)"
| "deep_eq (GObj m) w \<longleftrightarrow> (case w of
       GObj n \<Rightarrow> length m = length n \<and>
         list_all (\<lambda>(k, v). case map_of n k of None \<Rightarrow> False | Some u \<Rightarrow> deep_eq v u) m
     | _ \<Rightarrow> False)"
| "deep_eq GNilMap w \<longleftrightarrow> w = GNilMap"
  by pat_completeness auto
termination
proof (relation "measure (\<lambda>(v, w). size v)")
  fix vs ws x and v w u :: gval
  assume "x \<in> set (zip vs ws)" and "(v, w) = x"
  then have "v \<in> set vs" by (metis set_zip_leftD)
  then show "((v, w), (GArr vs, u)) \<in> measure (\<lambda>(v, w). size v)"
    by (simp add: size_list_estimation' less_Suc_eq_le)
next
  fix m n :: gmap and x and k :: string and v w u :: gval
  assume "x \<in> set m" and "(k, v) = x" and "map_of n k = Some w"
  then have "size v \<le> size_list (size_prod (\<lambda>_. 0) size) m"
    by (intro size_list_estimation' [of x]) auto
  then show "((v, w), (GObj m, u)) \<in> measure (\<lambda>(v, w). size v)"
    by (simp add: less_Suc_eq_le)
qed simp_all

definition deep_eq_map :: "gmap \<Rightarrow> gmap \<Rightarrow> bool" where
  "deep_eq_map m n \<longleftrightarrow> deep_eq (GObj m) (GObj n)"

end
