(* ===== verification/Timeline_Model.thy ===== *)
theory Timeline_Model
  imports GoValue
begin

text \<open>
  The data model of \<open>go/internal/timeline\<close>: documents, tracks and clips, the errors of the
  package, lookups by id, and the metadata maps.

  A clip's \<open>Metadata\<close> is a Go map, a reference: the code copies clips by value and then writes
  through the copied reference.  Documents are therefore polymorphic in what a clip carries as
  metadata: a \<open>gmap option\<close> in a stored document (\<open>vdoc\<close>), a reference in the working copy an
  operation edits (\<open>rdoc\<close>).  An operation returns the new working copy and, in program order, the
  writes it makes through references; \<open>store_writes\<close> replays them on the store, so two clips that
  share a map see each other's writes.
\<close>

section \<open>Records\<close>

record TrackDucking =
  Enabled :: bool
  DuckDB :: f64
  TriggerTracks :: "string list"

record 'm Clip =
  TimelineClipID :: string
  ClipTrackID :: string
  AssetID :: string
  AssetKind :: string
  Role :: string
  ClipText :: string
  TimelineStartFrame :: goint
  TimelineEndFrame :: goint
  SourceStartFrame :: goint
  SourceEndFrame :: goint
  PlaybackRate :: f64
  ClipGainDB :: f64
  FadeInFrames :: goint
  FadeOutFrames :: goint
  SubtitleStyle :: string
  ParentBlockID :: string
  Linked :: bool
  Effects :: "gmap list option"
  Metadata :: 'm

record 'm Track =
  TrackID :: string
  TrackType :: string
  Clips :: "'m Clip list"
  Muted :: bool
  Solo :: bool
  Locked :: bool
  GainDB :: f64
  Ducking :: "TrackDucking option"

record 'm Document =
  TimelineID :: string
  DraftID :: string
  Version :: goint
  FPS :: goint
  DurationFrames :: goint
  Tracks :: "'m Track list"

type_synonym ref = "nat \<times> nat"
type_synonym vclip = "gmap option Clip"
type_synonym rclip = "ref option Clip"
type_synonym vtrack = "gmap option Track"
type_synonym rtrack = "ref option Track"
type_synonym vdoc = "gmap option Document"
type_synonym rdoc = "ref option Document"

text \<open>The zero value \<open>Clip{}\<close>.\<close>

definition zero_clip :: "'m option Clip" where
  "zero_clip = \<lparr>TimelineClipID = [], ClipTrackID = [], AssetID = [], AssetKind = [], Role = [],
     ClipText = [], TimelineStartFrame = 0, TimelineEndFrame = 0, SourceStartFrame = 0,
     SourceEndFrame = 0, PlaybackRate = Fin 0, ClipGainDB = Fin 0, FadeInFrames = 0,
     FadeOutFrames = 0, SubtitleStyle = [], ParentBlockID = [], Linked = False, Effects = None,
     Metadata = None\<rparr>"

definition empty_track :: "string \<times> string \<Rightarrow> 'm Track" where
  "empty_track it = \<lparr>TrackID = fst it, TrackType = snd it, Clips = [], Muted = False, Solo = False,
     Locked = False, GainDB = Fin 0, Ducking = None\<rparr>"

definition DefaultFPS :: goint where
  "DefaultFPS = 30"

definition requiredTracks :: "(string \<times> string) list" where
  "requiredTracks =
    [(''visual_base'', ''primary_visual''), (''visual_overlay'', ''visual_overlay''),
     (''original_audio'', ''audio''), (''voiceover'', ''audio''), (''bgm'', ''audio''),
     (''subtitles'', ''text''), (''sfx'', ''audio'')]"

definition timeline_id :: "string \<Rightarrow> goint \<Rightarrow> string" where
  "timeline_id draft v = draft @ '':v'' @ show_int v"

definition EmptyDocument :: "string \<Rightarrow> goint \<Rightarrow> 'm Document" where
  "EmptyDocument draftID version =
     \<lparr>TimelineID = timeline_id draftID version, DraftID = draftID, Version = version,
      FPS = DefaultFPS, DurationFrames = 1, Tracks = map empty_track requiredTracks\<rparr>"

definition SubtitleStyleNames :: "string list" where
  "SubtitleStyleNames = [''default'', ''large_center'', ''top_bar'', ''minimal'', ''bold_bottom'']"

definition isSubtitleStyle :: "string \<Rightarrow> bool" where
  "isSubtitleStyle s \<longleftrightarrow> s \<in> set SubtitleStyleNames"

definition preservedAudioLineageMetadataKey :: string where
  "preservedAudioLineageMetadataKey = ''_rushes_preserved_audio_lineage''"

definition ensureRequiredTracks :: "'m Document \<Rightarrow> 'm Document" where
  "ensureRequiredTracks d =
     d\<lparr>Tracks := Tracks d @ map empty_track
        (filter (\<lambda>it. fst it \<notin> set (map TrackID (Tracks d))) requiredTracks)\<rparr>"

section \<open>Errors\<close>

text \<open>
  \<open>SemanticError\<close> by kind, with the facts it carries; \<open>OpFieldError\<close>; \<open>errors.Join\<close>; and plain
  \<open>errors.New\<close> values, named by a tag.
\<close>

datatype tl_error =
    ErrPlain string
  | ErrJoin "tl_error list"
  | OpFieldError string string string
  | ClipNotFound string
  | FrameRange string goint goint goint goint goint
  | TimelineRange goint goint goint
  | TrackLocked string string
  | RippleLocked string

definition trackLockedError :: "string \<Rightarrow> tl_error" where
  "trackLockedError tid = TrackLocked tid []"

definition clipFrameRangeError :: "'m Clip \<Rightarrow> goint \<Rightarrow> tl_error" where
  "clipFrameRangeError c frame = FrameRange (TimelineClipID c) frame (TimelineStartFrame c)
     (TimelineEndFrame c) (SourceStartFrame c) (SourceEndFrame c)"

text \<open>\<open>if startErr != nil || endErr != nil { return errors.Join(startErr, endErr) }\<close>\<close>

definition join2 :: "tl_error + 'a \<Rightarrow> tl_error + 'b \<Rightarrow> tl_error + 'a \<times> 'b" where
  "join2 a b = (case (a, b) of
       (Inr x, Inr y) \<Rightarrow> Inr (x, y)
     | (Inl e, Inr _) \<Rightarrow> Inl (ErrJoin [e])
     | (Inr _, Inl e) \<Rightarrow> Inl (ErrJoin [e])
     | (Inl e, Inl e') \<Rightarrow> Inl (ErrJoin [e, e']))"

lemma join2_Inr [simp]: "join2 a b = Inr xy \<longleftrightarrow> a = Inr (fst xy) \<and> b = Inr (snd xy)"
  by (cases a; cases b; cases xy) (auto simp: join2_def)

definition frameValue :: "gmap \<Rightarrow> string \<Rightarrow> tl_error + goint" where
  "frameValue op key =
     (case map_of op key of
        None \<Rightarrow> Inl (ErrPlain (''missing '' @ key))
      | Some (GInt n) \<Rightarrow> Inr n
      | Some (GInt64 n) \<Rightarrow> if i64 n \<noteq> n then Inl (ErrPlain (''out of range '' @ key)) else Inr (i64 n)
      | Some (GFloat x) \<Rightarrow>
          if IsNaN x \<or> IsInf x \<or> \<not> feq (Trunc x) x then Inl (ErrPlain (''not a frame '' @ key))
          else if \<not> feq (f_of_int (int_of_f x)) x then Inl (ErrPlain (''out of range '' @ key))
          else Inr (int_of_f x)
      | Some _ \<Rightarrow> Inl (ErrPlain (''not a frame '' @ key)))"

section \<open>Rates and families\<close>

definition effectiveRate :: "'m Clip \<Rightarrow> f64" where
  "effectiveRate c = (if flt (Fin 0) (PlaybackRate c) then PlaybackRate c else Fin 1)"

text \<open>\<open>int(math.Round(float64(n) * rate))\<close> and \<open>int(math.Round(float64(n) / rate))\<close>.\<close>

definition scale_frames :: "goint \<Rightarrow> f64 \<Rightarrow> goint" where
  "scale_frames n rate = int_of_f (Round (fmul (f_of_int n) rate))"

definition unscale_frames :: "goint \<Rightarrow> f64 \<Rightarrow> goint" where
  "unscale_frames n rate = int_of_f (Round (fdiv (f_of_int n) rate))"

lemma scale_frames_1 [simp]: "\<bar>n\<bar> \<le> 9007199254740992 \<Longrightarrow> scale_frames n (Fin 1) = n"
  unfolding scale_frames_def by (rule unit_rate_exact)

lemma unscale_frames_1 [simp]: "\<bar>n\<bar> \<le> 9007199254740992 \<Longrightarrow> unscale_frames n (Fin 1) = n"
  unfolding unscale_frames_def by (rule unit_rate_exact)

definition trackFamily :: "'m Track \<Rightarrow> string" where
  "trackFamily t =
     (if TrackID t = ''visual_base'' \<or> TrackID t = ''visual_overlay'' then ''visual''
      else if TrackID t = ''original_audio'' \<or> TrackID t = ''voiceover'' \<or> TrackID t = ''bgm''
        \<or> TrackID t = ''sfx'' then ''audio''
      else if TrackID t = ''subtitles'' then ''text''
      else if TrackType t = ''primary_visual'' \<or> TrackType t = ''visual_overlay''
        \<or> TrackType t = ''video'' then ''visual''
      else if TrackType t = ''audio'' then ''audio''
      else if TrackType t = ''text'' then ''text''
      else TrackType t)"

definition tracksCompatible :: "'m Track \<Rightarrow> 'm Track \<Rightarrow> 'm Clip \<Rightarrow> bool" where
  "tracksCompatible source target c \<longleftrightarrow>
     trackFamily source = trackFamily target \<and>
     (if trackFamily target = ''visual'' then
        AssetID c \<noteq> [] \<and> (AssetKind c = [] \<or> AssetKind c = ''video'' \<or> AssetKind c = ''image'')
      else if trackFamily target = ''audio'' then
        AssetID c \<noteq> [] \<and> (AssetKind c = [] \<or> AssetKind c = ''video'' \<or> AssetKind c = ''audio'')
      else if trackFamily target = ''text'' then TrimSpace (ClipText c) \<noteq> []
      else TrackType source = TrackType target)"

definition defaultClipRole :: "string \<Rightarrow> string" where
  "defaultClipRole tid =
     (if tid \<in> {''original_audio'', ''voiceover'', ''bgm'', ''sfx''} then tid else ''b_roll'')"

section \<open>Lookups\<close>

fun index_of :: "('a \<Rightarrow> bool) \<Rightarrow> 'a list \<Rightarrow> nat option" where
  "index_of P [] = None"
| "index_of P (x # xs) = (if P x then Some 0 else map_option Suc (index_of P xs))"

lemma index_of_Some:
  "index_of P xs = Some i \<longleftrightarrow> i < length xs \<and> P (xs ! i) \<and> (\<forall>j < i. \<not> P (xs ! j))"
proof (induction xs arbitrary: i)
  case (Cons x xs)
  show ?case
    by (cases i) (auto simp: Cons.IH less_Suc_eq_0_disj)
qed simp

lemma index_of_None [simp]: "index_of P xs = None \<longleftrightarrow> (\<forall>x \<in> set xs. \<not> P x)"
  by (induction xs) auto

text \<open>\<open>trackByID\<close> gives the place of the first track with the id.\<close>

definition trackByID :: "'m Document \<Rightarrow> string \<Rightarrow> nat option" where
  "trackByID d tid = index_of (\<lambda>t. TrackID t = tid) (Tracks d)"

type_synonym loc = "nat \<times> nat"

fun locate_in :: "string \<Rightarrow> nat \<Rightarrow> 'm Track list \<Rightarrow> loc option" where
  "locate_in cid i [] = None"
| "locate_in cid i (t # ts) =
     (case index_of (\<lambda>c. TimelineClipID c = cid) (Clips t) of
        Some j \<Rightarrow> Some (i, j)
      | None \<Rightarrow> locate_in cid (Suc i) ts)"

definition locateClip :: "'m Document \<Rightarrow> string \<Rightarrow> tl_error + loc" where
  "locateClip d cid =
     (case locate_in cid 0 (Tracks d) of None \<Rightarrow> Inl (ClipNotFound cid) | Some l \<Rightarrow> Inr l)"

definition track_at :: "'m Document \<Rightarrow> loc \<Rightarrow> 'm Track" where
  "track_at d l = Tracks d ! fst l"

definition clip_at :: "'m Document \<Rightarrow> loc \<Rightarrow> 'm Clip" where
  "clip_at d l = Clips (track_at d l) ! snd l"

definition valid_loc :: "'m Document \<Rightarrow> loc \<Rightarrow> bool" where
  "valid_loc d l \<longleftrightarrow> fst l < length (Tracks d) \<and> snd l < length (Clips (track_at d l))"

definition editableLocation :: "'m Document \<Rightarrow> gmap \<Rightarrow> tl_error + loc" where
  "editableLocation d op =
     (let cid = stringValue (gget op ''timeline_clip_id'') in
      if cid = [] then Inl (ErrPlain ''timeline_clip_id missing'')
      else bind_sum (locateClip d cid) (\<lambda>l.
        if Locked (track_at d l) then Inl (TrackLocked (TrackID (track_at d l)) cid) else Inr l))"

definition linkedGroup :: "'m Document \<Rightarrow> string \<Rightarrow> loc list" where
  "linkedGroup d gid =
     (if gid = [] then [] else
        concat (map (\<lambda>i. map (\<lambda>j. (i, j))
          (filter (\<lambda>j. Linked (Clips (Tracks d ! i) ! j) \<and> ParentBlockID (Clips (Tracks d ! i) ! j) = gid)
            [0 ..< length (Clips (Tracks d ! i))])) [0 ..< length (Tracks d)]))"

text \<open>The clips a handler edits: the located clip, or its whole group when it is linked.\<close>

definition edit_members :: "'m Document \<Rightarrow> loc \<Rightarrow> loc list" where
  "edit_members d l =
     (if Linked (clip_at d l) \<and> ParentBlockID (clip_at d l) \<noteq> []
      then linkedGroup d (ParentBlockID (clip_at d l)) else [l])"

text \<open>The lock loop over the members: the first locked track is the error.\<close>

definition members_unlocked :: "'m Document \<Rightarrow> loc list \<Rightarrow> tl_error + unit" where
  "members_unlocked d ms =
     (case find (\<lambda>m. Locked (track_at d m)) ms of
        Some m \<Rightarrow> Inl (trackLockedError (TrackID (track_at d m)))
      | None \<Rightarrow> Inr ())"

definition has_primary :: "'m Document \<Rightarrow> loc list \<Rightarrow> bool" where
  "has_primary d ms \<longleftrightarrow> (\<exists>m \<in> set ms. TrackID (track_at d m) = ''visual_base'')"

section \<open>Updates in place\<close>

definition update_track :: "nat \<Rightarrow> ('m Track \<Rightarrow> 'm Track) \<Rightarrow> 'm Document \<Rightarrow> 'm Document" where
  "update_track i f d = d\<lparr>Tracks := (Tracks d)[i := f (Tracks d ! i)]\<rparr>"

definition update_clip :: "loc \<Rightarrow> ('m Clip \<Rightarrow> 'm Clip) \<Rightarrow> 'm Document \<Rightarrow> 'm Document" where
  "update_clip l f d =
     update_track (fst l) (\<lambda>t. t\<lparr>Clips := (Clips t)[snd l := f (Clips t ! snd l)]\<rparr>) d"

definition update_members :: "loc list \<Rightarrow> ('m Clip \<Rightarrow> 'm Clip) \<Rightarrow> 'm Document \<Rightarrow> 'm Document" where
  "update_members ms f d = fold (\<lambda>l. update_clip l f) ms d"

definition map_tracks :: "('m Track \<Rightarrow> 'm Track) \<Rightarrow> 'm Document \<Rightarrow> 'm Document" where
  "map_tracks f d = d\<lparr>Tracks := map f (Tracks d)\<rparr>"

definition doc_clips :: "'m Document \<Rightarrow> 'm Clip list" where
  "doc_clips d = concat (map Clips (Tracks d))"

text \<open>\<open>sort.SliceStable\<close> by start frame, then by id; Go compares strings bytewise.\<close>

definition sortTrack :: "'m Track \<Rightarrow> 'm Track" where
  "sortTrack t = t\<lparr>Clips := sort_key (\<lambda>c. (TimelineStartFrame c, TimelineClipID c)) (Clips t)\<rparr>"

section \<open>Metadata maps\<close>

datatype meta_write =
    MShift ref goint
  | MPlace ref goint goint
  | MSet ref gmap

type_synonym store = "ref \<Rightarrow> gmap"

definition semanticTimelineMetadataKeys :: "string list" where
  "semanticTimelineMetadataKeys =
    [''anchor_timeline_start_frame'', ''anchor_timeline_end_frame'',
     ''placement_timeline_start_frame'', ''placement_timeline_end_frame'']"

definition semantic_anchor :: "gmap \<Rightarrow> bool" where
  "semantic_anchor m \<longleftrightarrow> stringValue (gget m ''kind'') = ''b_roll_semantic_anchor''"

definition shift_key :: "goint \<Rightarrow> string \<Rightarrow> gmap \<Rightarrow> gmap" where
  "shift_key delta k m =
     (case numericValue (gget m k) of
        None \<Rightarrow> m
      | Some v \<Rightarrow> if \<not> feq (Trunc v) v then m else gput k (GInt (i64 (int_of_f v + delta))) m)"

definition shift_meta :: "goint \<Rightarrow> gmap \<Rightarrow> gmap" where
  "shift_meta delta m =
     (if delta = 0 \<or> \<not> semantic_anchor m then m
      else fold (shift_key delta) semanticTimelineMetadataKeys m)"

definition place_meta :: "goint \<Rightarrow> goint \<Rightarrow> gmap \<Rightarrow> gmap" where
  "place_meta s e m =
     (if \<not> semantic_anchor m then m
      else gput ''placement_timeline_end_frame'' (GInt e)
             (gput ''placement_timeline_start_frame'' (GInt s) m))"

fun store_write :: "meta_write \<Rightarrow> store \<Rightarrow> store" where
  "store_write (MShift r delta) st = st(r := shift_meta delta (st r))"
| "store_write (MPlace r s e) st = st(r := place_meta s e (st r))"
| "store_write (MSet r m) st = st(r := m)"

definition store_writes :: "meta_write list \<Rightarrow> store \<Rightarrow> store" where
  "store_writes ws st = fold store_write ws st"

definition shiftClipTimelineMetadata :: "rclip \<Rightarrow> goint \<Rightarrow> meta_write list" where
  "shiftClipTimelineMetadata c delta =
     (case Metadata c of None \<Rightarrow> [] | Some r \<Rightarrow> [MShift r delta])"

definition syncClipPlacementMetadata :: "rclip \<Rightarrow> meta_write list" where
  "syncClipPlacementMetadata c =
     (case Metadata c of None \<Rightarrow> [] | Some r \<Rightarrow> [MPlace r (TimelineStartFrame c) (TimelineEndFrame c)])"

section \<open>Clone\<close>

text \<open>
  \<open>clone\<close> marshals the document to JSON and back: NaN and infinities are errors, empty metadata
  and effects are dropped (\<open>omitempty\<close>), and numbers inside metadata become \<open>float64\<close>.  The
  decoded maps are fresh: clip \<open>j\<close> of track \<open>i\<close> gets the reference \<open>(i, j)\<close>.
\<close>

definition with_meta :: "'b \<Rightarrow> 'a Clip \<Rightarrow> 'b Clip" where
  "with_meta m c = \<lparr>TimelineClipID = TimelineClipID c, ClipTrackID = ClipTrackID c,
     AssetID = AssetID c, AssetKind = AssetKind c, Role = Role c, ClipText = ClipText c,
     TimelineStartFrame = TimelineStartFrame c, TimelineEndFrame = TimelineEndFrame c,
     SourceStartFrame = SourceStartFrame c, SourceEndFrame = SourceEndFrame c,
     PlaybackRate = PlaybackRate c, ClipGainDB = ClipGainDB c, FadeInFrames = FadeInFrames c,
     FadeOutFrames = FadeOutFrames c, SubtitleStyle = SubtitleStyle c,
     ParentBlockID = ParentBlockID c, Linked = Linked c, Effects = Effects c, Metadata = m\<rparr>"

definition with_clips :: "'b Clip list \<Rightarrow> 'a Track \<Rightarrow> 'b Track" where
  "with_clips cs t = \<lparr>TrackID = TrackID t, TrackType = TrackType t, Clips = cs, Muted = Muted t,
     Solo = Solo t, Locked = Locked t, GainDB = GainDB t, Ducking = Ducking t\<rparr>"

definition with_tracks :: "'b Track list \<Rightarrow> 'a Document \<Rightarrow> 'b Document" where
  "with_tracks ts d = \<lparr>TimelineID = TimelineID d, DraftID = DraftID d, Version = Version d,
     FPS = FPS d, DurationFrames = DurationFrames d, Tracks = ts\<rparr>"

definition clip_json_ok :: "vclip \<Rightarrow> bool" where
  "clip_json_ok c \<longleftrightarrow> finite_f (PlaybackRate c) \<and> finite_f (ClipGainDB c)
     \<and> (case Effects c of None \<Rightarrow> True | Some es \<Rightarrow> list_all (\<lambda>m. json_ok (GObj m)) es)
     \<and> (case Metadata c of None \<Rightarrow> True | Some m \<Rightarrow> json_ok (GObj m))"

definition track_json_ok :: "vtrack \<Rightarrow> bool" where
  "track_json_ok t \<longleftrightarrow> finite_f (GainDB t)
     \<and> (case Ducking t of None \<Rightarrow> True | Some k \<Rightarrow> finite_f (DuckDB k))
     \<and> list_all clip_json_ok (Clips t)"

definition norm_effects :: "gmap list option \<Rightarrow> gmap list option" where
  "norm_effects e = (case e of None \<Rightarrow> None | Some [] \<Rightarrow> None | Some es \<Rightarrow> Some (map json_norm_map es))"

definition clip_clone :: "ref \<Rightarrow> vclip \<Rightarrow> rclip" where
  "clip_clone r c = (with_meta (case Metadata c of None \<Rightarrow> None | Some [] \<Rightarrow> None | Some _ \<Rightarrow> Some r) c)
     \<lparr>Effects := norm_effects (Effects c)\<rparr>"

definition track_clone :: "nat \<Rightarrow> vtrack \<Rightarrow> rtrack" where
  "track_clone i t = with_clips
     (map (\<lambda>(j, c). clip_clone (i, j) c) (zip [0 ..< length (Clips t)] (Clips t))) t"

definition doc_store :: "vdoc \<Rightarrow> store" where
  "doc_store d = (\<lambda>(i, j).
     if i < length (Tracks d) \<and> j < length (Clips (Tracks d ! i))
     then (case Metadata (Clips (Tracks d ! i) ! j) of None \<Rightarrow> [] | Some m \<Rightarrow> json_norm_map m)
     else [])"

definition clone :: "vdoc \<Rightarrow> tl_error + rdoc \<times> store" where
  "clone d = (if list_all track_json_ok (Tracks d)
     then Inr (with_tracks (map (\<lambda>(i, t). track_clone i t)
            (zip [0 ..< length (Tracks d)] (Tracks d))) d, doc_store d)
     else Inl (ErrPlain ''json: unsupported value''))"

text \<open>Reading the working copy back: every reference is replaced by the map it points to.\<close>

definition resolve :: "store \<Rightarrow> rdoc \<Rightarrow> vdoc" where
  "resolve st d = with_tracks (map (\<lambda>t. with_clips
     (map (\<lambda>c. with_meta (map_option st (Metadata c)) c) (Clips t)) t) (Tracks d)) d"

text \<open>A reference no clip of the working copy uses: for a map an operation brings in.\<close>

definition fresh_ref :: "rdoc \<Rightarrow> ref" where
  "fresh_ref d = (length (Tracks d), 0)"

end
