(* ===== verification/Timeline_Frames.thy ===== *)
theory Timeline_Frames
  imports Timeline_Model
begin

text \<open>
  The abstract picture of a track: a multiset of half-open frame intervals.  \<open>tiles M D\<close> says that
  the intervals of \<open>M\<close> show every frame of \<open>[0, D)\<close> exactly once.  The lemmas say what the frame
  arithmetic of the editor does to such a picture; they know nothing of clips or documents.
\<close>

section \<open>Intervals\<close>

type_synonym interval = "goint \<times> goint"

definition shows_frame :: "interval \<Rightarrow> goint \<Rightarrow> bool" where
  "shows_frame s f \<longleftrightarrow> fst s \<le> f \<and> f < snd s"

definition cover :: "interval multiset \<Rightarrow> goint \<Rightarrow> nat" where
  "cover M f = size (filter_mset (\<lambda>s. shows_frame s f) M)"

definition tiles :: "interval multiset \<Rightarrow> goint \<Rightarrow> bool" where
  "tiles M D \<longleftrightarrow> 0 \<le> D \<and> (\<forall>s \<in># M. fst s < snd s)
     \<and> (\<forall>f. cover M f = (if 0 \<le> f \<and> f < D then 1 else 0))"

lemma cover_empty [simp]: "cover {#} f = 0"
  by (simp add: cover_def)

lemma cover_add [simp]: "cover (add_mset s M) f = (if shows_frame s f then Suc (cover M f) else cover M f)"
  by (simp add: cover_def)

lemma cover_union [simp]: "cover (M + N) f = cover M f + cover N f"
  by (simp add: cover_def)

lemma cover_sum: "cover (\<Sum>\<^sub># P) f = (\<Sum>M \<in># P. cover M f)"
  by (induction P) auto

lemma cover_zero_iff: "cover M f = 0 \<longleftrightarrow> (\<forall>s \<in># M. \<not> shows_frame s f)"
  by (induction M) auto

lemma cover_pos: "s \<in># M \<Longrightarrow> shows_frame s f \<Longrightarrow> 0 < cover M f"
  using cover_zero_iff [of M f] by auto

lemma tilesD:
  assumes "tiles M D" and "s \<in># M"
  shows "0 \<le> fst s" and "fst s < snd s" and "snd s \<le> D"
proof -
  show lt: "fst s < snd s" using assms by (auto simp: tiles_def)
  have "0 < cover M (fst s)" and "0 < cover M (snd s - 1)"
    using assms lt by (auto intro!: cover_pos [of s] simp: shows_frame_def)
  then have "0 \<le> fst s \<and> fst s < D" and "0 \<le> snd s - 1 \<and> snd s - 1 < D"
    using assms(1) unfolding tiles_def by (metis less_irrefl)+
  then show "0 \<le> fst s" and "snd s \<le> D" by auto
qed

lemma tiles_disjoint:
  assumes "tiles (add_mset s M) D" and "t \<in># M"
  shows "snd t \<le> fst s \<or> snd s \<le> fst t"
proof (rule ccontr)
  assume "\<not> ?thesis"
  moreover have "fst s < snd s" "fst t < snd t"
    using assms by (auto simp: tiles_def)
  ultimately have "shows_frame s (max (fst s) (fst t))" and "shows_frame t (max (fst s) (fst t))"
    by (auto simp: shows_frame_def)
  then have "1 < cover (add_mset s M) (max (fst s) (fst t))"
    using cover_pos [OF assms(2)] by simp
  moreover have "cover (add_mset s M) (max (fst s) (fst t)) \<le> 1"
    using assms(1) by (auto simp: tiles_def)
  ultimately show False by simp
qed

lemma cover_image_ge:
  assumes "\<And>s. s \<in># M \<Longrightarrow> shows_frame (g s) f = shows_frame s f'"
  shows "cover (image_mset g M) f = cover M f'"
  using assms by (induction M) auto

section \<open>Growing and shrinking in place\<close>

definition shift_span :: "goint \<Rightarrow> goint \<Rightarrow> interval \<Rightarrow> interval" where
  "shift_span b delta s = (if fst s \<ge> b then (fst s + delta, snd s + delta) else s)"

lemma cover_shift_low:
  assumes "\<And>s. s \<in># M \<Longrightarrow> fst s \<ge> b \<or> snd s \<le> b'" and "f < b" "f < b + delta"
  shows "cover (image_mset (shift_span b delta) M) f = cover M f"
  by (rule cover_image_ge) (use assms in \<open>auto simp: shift_span_def shows_frame_def\<close>)

lemma cover_shift_high:
  assumes "\<And>s. s \<in># M \<Longrightarrow> fst s \<ge> b \<or> snd s \<le> b'" and "b' \<le> f" "b' \<le> f - delta"
  shows "cover (image_mset (shift_span b delta) M) f = cover M (f - delta)"
proof (rule cover_image_ge)
  fix s assume "s \<in># M"
  then show "shows_frame (shift_span b delta s) f = shows_frame s (f - delta)"
    using assms(1) [of s] assms(2,3) by (auto simp: shift_span_def shows_frame_def)
qed

text \<open>The clip at \<open>[a, b)\<close> becomes \<open>n\<close> frames long and everything behind it moves along.\<close>

lemma tiles_retime:
  assumes t: "tiles (add_mset (a, b) M) D" and n: "0 < n"
  shows "tiles (add_mset (a, a + n) (image_mset (shift_span b (n - (b - a))) M)) (D + (n - (b - a)))"
proof -
  let ?d = "n - (b - a)"
  have ab: "0 \<le> a" "a < b" "b \<le> D" using tilesD [OF t, of "(a, b)"] by auto
  have dis: "fst s \<ge> b \<or> snd s \<le> a" if "s \<in># M" for s
    using tiles_disjoint [OF t that] by auto
  have "cover (add_mset (a, a + n) (image_mset (shift_span b ?d) M)) f
      = (if 0 \<le> f \<and> f < D + ?d then 1 else 0)" for f
  proof -
    have orig: "cover (add_mset (a, b) M) g = (if 0 \<le> g \<and> g < D then 1 else 0)" for g
      using t by (simp add: tiles_def)
    consider "f < a" | "a \<le> f" "f < a + n" | "a + n \<le> f" by linarith
    then show ?thesis
    proof cases
      case 1
      then have "cover (image_mset (shift_span b ?d) M) f = cover M f"
        using dis ab n by (intro cover_shift_low) auto
      then show ?thesis using 1 ab n orig [of f] by (auto simp: shows_frame_def split: if_splits)
    next
      case 2
      have "cover (image_mset (shift_span b ?d) M) f = 0"
        unfolding cover_zero_iff using 2 dis
        by (fastforce simp: shift_span_def shows_frame_def)
      then show ?thesis using 2 ab by (auto simp: shows_frame_def)
    next
      case 3
      then have "cover (image_mset (shift_span b ?d) M) f = cover M (f - ?d)"
        using dis ab n by (intro cover_shift_high [where b' = a]) auto
      then show ?thesis using 3 ab n orig [of "f - ?d"] by (auto simp: shows_frame_def split: if_splits)
    qed
  qed
  moreover have "\<forall>s \<in># image_mset (shift_span b ?d) M. fst s < snd s"
    using t by (auto simp: tiles_def shift_span_def)
  ultimately show ?thesis using ab n by (auto simp: tiles_def)
qed

text \<open>Room for \<open>n\<close> frames is made at a cut \<open>p\<close>, and filled.\<close>

lemma tiles_insert:
  assumes t: "tiles M D" and p: "0 \<le> p" "p \<le> D" and n: "0 < n"
    and cut: "\<And>s. s \<in># M \<Longrightarrow> snd s \<le> p \<or> p \<le> fst s"
  shows "tiles (add_mset (p, p + n) (image_mset (shift_span p n) M)) (D + n)"
proof -
  have "cover (add_mset (p, p + n) (image_mset (shift_span p n) M)) f
      = (if 0 \<le> f \<and> f < D + n then 1 else 0)" for f
  proof -
    have orig: "cover M g = (if 0 \<le> g \<and> g < D then 1 else 0)" for g
      using t by (simp add: tiles_def)
    consider "f < p" | "p \<le> f" "f < p + n" | "p + n \<le> f" by linarith
    then show ?thesis
    proof cases
      case 1
      then have "cover (image_mset (shift_span p n) M) f = cover M f"
        using cut n by (intro cover_shift_low [where b' = p]) auto
      then show ?thesis using 1 p n orig [of f] by (simp add: shows_frame_def)
    next
      case 2
      have "cover (image_mset (shift_span p n) M) f = 0"
        unfolding cover_zero_iff using 2 cut
        by (fastforce simp: shift_span_def shows_frame_def)
      then show ?thesis using 2 p by (simp add: shows_frame_def)
    next
      case 3
      then have "cover (image_mset (shift_span p n) M) f = cover M (f - n)"
        using cut n by (intro cover_shift_high [where b' = p]) auto
      then show ?thesis using 3 p n orig [of "f - n"] by (simp add: shows_frame_def)
    qed
  qed
  moreover have "\<forall>s \<in># image_mset (shift_span p n) M. fst s < snd s"
    using t by (auto simp: tiles_def shift_span_def)
  ultimately show ?thesis using t n by (auto simp: tiles_def)
qed

lemma tiles_append:
  assumes "tiles M D" and "0 < n"
  shows "tiles (add_mset (D, D + n) M) (D + n)"
  using assms by (auto simp: tiles_def shows_frame_def)

section \<open>Deleting a range\<close>

definition delete_span :: "goint \<Rightarrow> goint \<Rightarrow> interval \<Rightarrow> interval multiset" where
  "delete_span s e ab = (let a = fst ab; b = snd ab; d = e - s in
     if b \<le> s then {#(a, b)#}
     else if a \<ge> e then {#(a - d, b - d)#}
     else if a < s \<and> b > e then {#(a, s), (s, b - d)#}
     else if a < s then {#(a, s)#}
     else if b > e then {#(s, b - d)#}
     else {#})"

text \<open>Frame \<open>f\<close> of the new timeline shows what frame \<open>pull s e f\<close> of the old one showed.\<close>

definition pull :: "goint \<Rightarrow> goint \<Rightarrow> goint \<Rightarrow> goint" where
  "pull s e f = (if f < s then f else f + (e - s))"

lemma cover_delete_span:
  assumes "s < e"
  shows "cover (delete_span s e ab) f = (if shows_frame ab (pull s e f) then 1 else 0)"
  using assms by (cases ab) (auto simp: delete_span_def Let_def pull_def shows_frame_def)

lemma cover_delete:
  assumes "s < e"
  shows "cover (\<Sum>ab \<in># M. delete_span s e ab) f = cover M (pull s e f)"
  by (induction M) (auto simp: cover_delete_span [OF assms])

lemma delete_span_pos: "fst ab < snd ab \<Longrightarrow> t \<in># delete_span s e ab \<Longrightarrow> fst t < snd t"
  by (cases ab) (auto simp: delete_span_def Let_def split: if_splits)

lemma tiles_delete:
  assumes t: "tiles M D" and r: "0 \<le> s" "s < e" "e \<le> D"
  shows "tiles (\<Sum>ab \<in># M. delete_span s e ab) (D - (e - s))"
proof -
  have "cover (\<Sum>ab \<in># M. delete_span s e ab) f = (if 0 \<le> f \<and> f < D - (e - s) then 1 else 0)" for f
    using t r unfolding cover_delete [OF r(2)] by (auto simp: tiles_def pull_def)
  moreover have "\<forall>t \<in># (\<Sum>ab \<in># M. delete_span s e ab). fst t < snd t"
    using t by (fastforce simp: tiles_def dest: delete_span_pos)
  ultimately show ?thesis using r by (auto simp: tiles_def)
qed

text \<open>Taking a whole tile out and closing the gap.\<close>

lemma tiles_remove:
  assumes t: "tiles (add_mset (a, b) M) D"
  shows "tiles (\<Sum>ab \<in># M. delete_span a b ab) (D - (b - a))"
proof -
  have ab: "0 \<le> a" "a < b" "b \<le> D" using tilesD [OF t, of "(a, b)"] by auto
  have "delete_span a b (a, b) = {#}" using ab by (simp add: delete_span_def)
  with tiles_delete [OF t ab] show ?thesis by simp
qed

section \<open>Overwriting a range\<close>

definition erase_span :: "goint \<Rightarrow> goint \<Rightarrow> interval \<Rightarrow> interval multiset" where
  "erase_span s e ab = (let a = fst ab; b = snd ab in
     if b \<le> s \<or> a \<ge> e then {#(a, b)#}
     else (if a < s then {#(a, s)#} else {#}) + (if b > e then {#(e, b)#} else {#}))"

lemma cover_erase_span:
  assumes "s < e"
  shows "cover (erase_span s e ab) f = (if shows_frame ab f \<and> \<not> (s \<le> f \<and> f < e) then 1 else 0)"
  using assms by (cases ab) (auto simp: erase_span_def Let_def shows_frame_def)

lemma cover_erase:
  assumes "s < e"
  shows "cover (\<Sum>ab \<in># M. erase_span s e ab) f = (if s \<le> f \<and> f < e then 0 else cover M f)"
  by (induction M) (auto simp: cover_erase_span [OF assms])

lemma erase_span_pos: "fst ab < snd ab \<Longrightarrow> t \<in># erase_span s e ab \<Longrightarrow> fst t < snd t"
  by (cases ab) (auto simp: erase_span_def Let_def split: if_splits)

lemma tiles_overwrite:
  assumes t: "tiles M D" and r: "0 \<le> s" "s < e" "e \<le> D"
  shows "tiles (add_mset (s, e) (\<Sum>ab \<in># M. erase_span s e ab)) D"
proof -
  have "cover (add_mset (s, e) (\<Sum>ab \<in># M. erase_span s e ab)) f = (if 0 \<le> f \<and> f < D then 1 else 0)" for f
    using t r by (auto simp: cover_erase [OF r(2)] tiles_def shows_frame_def)
  moreover have "\<forall>t \<in># (\<Sum>ab \<in># M. erase_span s e ab). fst t < snd t"
    using t by (fastforce simp: tiles_def dest: erase_span_pos)
  ultimately show ?thesis using t r by (auto simp: tiles_def)
qed

section \<open>Cutting\<close>

definition cut_span :: "goint \<Rightarrow> interval \<Rightarrow> interval multiset" where
  "cut_span p ab = {#(fst ab, p), (p, snd ab)#}"

lemma tiles_cut:
  assumes t: "tiles (add_mset (a, b) M) D" and p: "a < p" "p < b"
  shows "tiles (add_mset (a, p) (add_mset (p, b) M)) D"
proof -
  have "cover (add_mset (a, p) (add_mset (p, b) M)) f = cover (add_mset (a, b) M) f" for f
    using p by (auto simp: shows_frame_def)
  with t p show ?thesis by (auto simp: tiles_def)
qed

section \<open>Tilings as chains\<close>

text \<open>A list of intervals laid end to end from \<open>a\<close> to \<open>b\<close>.\<close>

fun chain :: "goint \<Rightarrow> interval list \<Rightarrow> goint \<Rightarrow> bool" where
  "chain a [] b \<longleftrightarrow> a = b"
| "chain a (s # ss) b \<longleftrightarrow> fst s = a \<and> a < snd s \<and> chain (snd s) ss b"

lemma chain_le: "chain a ss b \<Longrightarrow> a \<le> b"
  by (induction ss arbitrary: a) fastforce+

lemma chain_starts: "chain a ss b \<Longrightarrow> s \<in> set ss \<Longrightarrow> a \<le> fst s \<and> fst s < snd s \<and> snd s \<le> b"
proof (induction ss arbitrary: a)
  case (Cons x ss)
  then show ?case using chain_le by fastforce
qed simp

lemma chain_cover:
  "chain a ss b \<Longrightarrow> cover (mset ss) f = (if a \<le> f \<and> f < b then 1 else 0)"
proof (induction ss arbitrary: a)
  case (Cons s ss)
  then have "snd s \<le> b" using chain_le by auto
  with Cons show ?case by (auto simp: shows_frame_def)
qed auto

lemma chain_tiles: "chain 0 ss D \<Longrightarrow> tiles (mset ss) D"
  using chain_cover [of 0 ss D] chain_starts [of 0 ss D] chain_le [of 0 ss D]
  by (auto simp: tiles_def)

lemma chain_length: "chain a ss b \<Longrightarrow> b - a = sum_list (map (\<lambda>s. snd s - fst s) ss)"
  by (induction ss arbitrary: a) fastforce+

lemma cover_chain:
  assumes "sorted (map fst ss)" and "\<forall>s \<in> set ss. fst s < snd s" and "a \<le> b"
    and "\<And>f. cover (mset ss) f = (if a \<le> f \<and> f < b then 1 else 0)"
  shows "chain a ss b"
  using assms
proof (induction ss arbitrary: a)
  case Nil
  then have "\<not> a < b" by (metis cover_empty mset.simps(1) order_refl zero_neq_one)
  with Nil show ?case by simp
next
  case (Cons s ss)
  have pos: "fst s < snd s" using Cons.prems(2) by simp
  have "0 < cover (mset (s # ss)) (fst s)"
    using pos by (intro cover_pos [of s]) (auto simp: shows_frame_def)
  then have s_ge: "a \<le> fst s" "fst s < b" using Cons.prems(4) by (auto split: if_splits)
  then have "0 < cover (mset (s # ss)) a" using Cons.prems(4) [of a] by simp
  then obtain t where "t \<in> set (s # ss)" "shows_frame t a"
    using cover_zero_iff [of "mset (s # ss)" a] by (metis less_irrefl set_mset_mset)
  with Cons.prems(1) have "fst s \<le> a" by (auto simp: shows_frame_def)
  with s_ge have sa: "fst s = a" by simp
  have "0 < cover (mset (s # ss)) (snd s - 1)"
    using pos by (intro cover_pos [of s]) (auto simp: shows_frame_def)
  then have s_le: "snd s \<le> b" using Cons.prems(4) [of "snd s - 1"] by (auto split: if_splits)
  have "cover (mset ss) f = (if snd s \<le> f \<and> f < b then 1 else 0)" for f
    using Cons.prems(4) [of f] sa pos s_le by (auto simp: shows_frame_def split: if_splits)
  then have "chain (snd s) ss b"
    using Cons.prems(1,2) s_le by (intro Cons.IH) auto
  with sa pos show ?case by simp
qed

lemma tiles_iff_chain:
  assumes "sorted (map fst ss)"
  shows "tiles (mset ss) D \<longleftrightarrow> chain 0 ss D"
  using assms chain_tiles cover_chain [of ss 0 D] by (auto simp: tiles_def)

end
