(* ===== verification/Timeline_Validate.thy ===== *)
theory Timeline_Validate
  imports Timeline_Model
begin

text \<open>
  \<open>Validate\<close>: the acceptance check of a document.  An issue is its code and the id it names; the
  prose of the messages is left out.  Go visits the linked groups in an arbitrary order and sorts
  the primary clips with an unstable sort; the list of issues here has one of those orders, and
  whether it is empty does not depend on them.
\<close>

type_synonym issue = "string \<times> string"

definition issue_if :: "bool \<Rightarrow> string \<Rightarrow> string \<Rightarrow> issue list" where
  "issue_if b code subject = (if b then [(code, subject)] else [])"

lemma issue_if_Nil [simp]: "issue_if b code subject = [] \<longleftrightarrow> \<not> b"
  by (simp add: issue_if_def)

section \<open>Tracks and clips\<close>

fun trigger_issues :: "string \<Rightarrow> string list \<Rightarrow> string list \<Rightarrow> issue list" where
  "trigger_issues tid seen [] = []"
| "trigger_issues tid seen (x # xs) =
     issue_if (x \<noteq> ''voiceover'' \<and> x \<noteq> ''original_audio'') ''invalid_ducking_trigger'' tid
     @ issue_if (x \<in> set seen) ''duplicate_ducking_trigger'' tid
     @ trigger_issues tid (x # seen) xs"

definition ducking_issues :: "'m Track \<Rightarrow> issue list" where
  "ducking_issues t = (case Ducking t of None \<Rightarrow> []
     | Some k \<Rightarrow>
         issue_if (TrackID t \<noteq> ''bgm'') ''invalid_track_ducking'' (TrackID t)
         @ issue_if (IsNaN (DuckDB k) \<or> IsInf (DuckDB k) \<or> flt (DuckDB k) (Fin (- 18))
                     \<or> flt (Fin (- 3)) (DuckDB k)) ''invalid_duck_db'' (TrackID t)
         @ trigger_issues (TrackID t) [] (TriggerTracks k)
         @ issue_if (TriggerTracks k = []) ''empty_ducking_triggers'' (TrackID t))"

definition clip_issues :: "goint \<Rightarrow> 'm Track \<Rightarrow> string list \<Rightarrow> 'm Clip \<Rightarrow> issue list" where
  "clip_issues duration t seen c =
     (let cid = TimelineClipID c;
          clipDuration = i64 (TimelineEndFrame c - TimelineStartFrame c) in
      (if cid = [] then [(''missing_clip_id'', TrackID t)]
       else issue_if (cid \<in> set seen) ''duplicate_clip_id'' cid)
      @ issue_if (ClipTrackID c \<noteq> TrackID t) ''clip_track_mismatch'' cid
      @ issue_if (TimelineStartFrame c < 0 \<or> TimelineEndFrame c \<le> TimelineStartFrame c
                  \<or> TimelineEndFrame c > duration) ''invalid_clip_range'' cid
      @ issue_if (AssetID c \<noteq> [] \<and> SourceEndFrame c \<le> SourceStartFrame c) ''invalid_source_range'' cid
      @ issue_if (flt (PlaybackRate c) (Fin 0)) ''invalid_playback_rate'' cid
      @ issue_if (flt (ClipGainDB c) (Fin (- 60)) \<or> flt (Fin 12) (ClipGainDB c)) ''invalid_clip_gain'' cid
      @ (if SubtitleStyle c \<noteq> [] then
           issue_if (TrackID t \<noteq> ''subtitles'') ''invalid_subtitle_style_track'' cid
           @ issue_if (\<not> isSubtitleStyle (SubtitleStyle c)) ''invalid_subtitle_style'' cid
         else [])
      @ issue_if (FadeInFrames c < 0 \<or> FadeOutFrames c < 0
                  \<or> i64 (FadeInFrames c + FadeOutFrames c) > clipDuration) ''invalid_clip_fades'' cid
      @ issue_if (Linked c \<and> ParentBlockID c = []) ''linked_clip_missing_parent'' cid)"

definition see_id :: "'m Clip \<Rightarrow> string list \<Rightarrow> string list" where
  "see_id c seen = (if TimelineClipID c = [] \<or> TimelineClipID c \<in> set seen then seen
                    else TimelineClipID c # seen)"

fun clips_issues :: "goint \<Rightarrow> 'm Track \<Rightarrow> string list \<Rightarrow> 'm Clip list \<Rightarrow> issue list" where
  "clips_issues duration t seen [] = []"
| "clips_issues duration t seen (c # cs) =
     clip_issues duration t seen c @ clips_issues duration t (see_id c seen) cs"

fun tracks_issues :: "goint \<Rightarrow> string list \<Rightarrow> string list \<Rightarrow> 'm Track list \<Rightarrow> issue list" where
  "tracks_issues duration seenTracks seen [] = []"
| "tracks_issues duration seenTracks seen (t # ts) =
     issue_if (TrackID t \<in> set seenTracks) ''duplicate_track'' (TrackID t)
     @ issue_if (flt (GainDB t) (Fin (- 60)) \<or> flt (Fin 12) (GainDB t)) ''invalid_track_gain'' (TrackID t)
     @ ducking_issues t
     @ clips_issues duration t seen (Clips t)
     @ tracks_issues duration (TrackID t # seenTracks) (fold see_id (Clips t) seen) ts"

section \<open>The primary track\<close>

fun coverage_issues :: "goint \<Rightarrow> goint \<Rightarrow> 'm Clip list \<Rightarrow> issue list" where
  "coverage_issues duration cursor [] =
     issue_if (cursor \<noteq> duration) ''primary_visual_not_full_coverage'' []"
| "coverage_issues duration cursor (c # cs) =
     issue_if (AssetKind c \<noteq> [] \<and> AssetKind c \<noteq> ''video'' \<and> AssetKind c \<noteq> ''image'')
       ''invalid_primary_visual_asset_kind'' (TimelineClipID c)
     @ issue_if (TimelineStartFrame c \<noteq> cursor) ''primary_visual_gap_or_overlap'' (TimelineClipID c)
     @ coverage_issues duration (TimelineEndFrame c) cs"

text \<open>Of several tracks with one id the map \<open>tracks\<close> keeps the last.\<close>

definition last_track :: "'m Document \<Rightarrow> string \<Rightarrow> 'm Track option" where
  "last_track d tid = find (\<lambda>t. TrackID t = tid) (rev (Tracks d))"

definition primary_issues :: "'m Document \<Rightarrow> issue list" where
  "primary_issues d = (case last_track d ''visual_base'' of
       None \<Rightarrow> [(''empty_primary_visual'', [])]
     | Some p \<Rightarrow>
         if DurationFrames d = 0 \<and> Clips p = [] then []
         else if Clips p = [] then [(''empty_primary_visual'', [])]
         else coverage_issues (DurationFrames d) 0 (sort_key TimelineStartFrame (Clips p)))"

section \<open>Linked groups\<close>

definition group_clips :: "'m Document \<Rightarrow> string \<Rightarrow> string \<Rightarrow> 'm Clip list" where
  "group_clips d tid gid = concat (map (\<lambda>t. if TrackID t = tid
     then filter (\<lambda>c. Linked c \<and> ParentBlockID c = gid) (Clips t) else []) (Tracks d))"

definition group_ids :: "'m Document \<Rightarrow> string list" where
  "group_ids d = remdups (map ParentBlockID (filter (\<lambda>c. Linked c \<and> ParentBlockID c \<noteq> []) (doc_clips d)))"

definition pair_issues :: "string \<Rightarrow> 'm Clip \<Rightarrow> 'm Clip \<Rightarrow> issue list" where
  "pair_issues gid picture sound =
     issue_if (AssetID picture \<noteq> AssetID sound) ''linked_av_asset_mismatch'' gid
     @ issue_if (TimelineStartFrame picture \<noteq> TimelineStartFrame sound
                 \<or> TimelineEndFrame picture \<noteq> TimelineEndFrame sound) ''linked_av_timeline_mismatch'' gid
     @ issue_if (SourceStartFrame picture \<noteq> SourceStartFrame sound
                 \<or> SourceEndFrame picture \<noteq> SourceEndFrame sound) ''linked_av_source_mismatch'' gid
     @ issue_if (flt (rnd64 (1 / 1000000)) (fabs (fsub (effectiveRate picture) (effectiveRate sound))))
         ''linked_av_rate_mismatch'' gid"

definition group_issues :: "'m Document \<Rightarrow> string \<Rightarrow> issue list" where
  "group_issues d gid =
     (let visual = group_clips d ''visual_base'' gid; audio = group_clips d ''original_audio'' gid in
      if visual = [] \<and> audio = [] then []
      else if length visual \<noteq> 1 \<or> length audio \<noteq> 1 then [(''linked_av_missing_pair'', gid)]
      else pair_issues gid (hd visual) (hd audio))"

section \<open>The report\<close>

definition Validate :: "'m Document \<Rightarrow> issue list" where
  "Validate d =
     issue_if (FPS d \<le> 0 \<or> DurationFrames d < 0 \<or> Version d < 1) ''invalid_document'' []
     @ tracks_issues (DurationFrames d) [] [] (Tracks d)
     @ concat (map (\<lambda>it. issue_if (fst it \<notin> set (map TrackID (Tracks d))) ''missing_track'' (fst it)) requiredTracks)
     @ primary_issues d
     @ concat (map (group_issues d) (group_ids d))"

text \<open>\<open>report.Valid\<close>: no issue was added.\<close>

definition valid_document :: "'m Document \<Rightarrow> bool" where
  "valid_document d \<longleftrightarrow> Validate d = []"

end
