(* ===== verification/Timeline_Wf.thy ===== *)
theory Timeline_Wf
  imports Timeline_Frames Timeline_Validate
begin

text \<open>
  What a valid document gives the editor: distinct ids, clips inside the timeline, a primary track
  that tiles it, linked picture and sound on the same frames.  And why the working copy an
  operation edits is valid when the stored document is: cloning and resolving change metadata and
  effects only.
\<close>

section \<open>The core of a document\<close>

definition core_clip :: "'m Clip \<Rightarrow> unit Clip" where
  "core_clip c = (with_meta () c)\<lparr>Effects := None\<rparr>"

definition core_track :: "'m Track \<Rightarrow> unit Track" where
  "core_track t = with_clips (map core_clip (Clips t)) t"

definition core :: "'m Document \<Rightarrow> unit Document" where
  "core d = with_tracks (map core_track (Tracks d)) d"

lemma core_clip_simps [simp]:
  "TimelineClipID (core_clip c) = TimelineClipID c" "ClipTrackID (core_clip c) = ClipTrackID c"
  "AssetID (core_clip c) = AssetID c" "AssetKind (core_clip c) = AssetKind c"
  "Role (core_clip c) = Role c" "ClipText (core_clip c) = ClipText c"
  "TimelineStartFrame (core_clip c) = TimelineStartFrame c"
  "TimelineEndFrame (core_clip c) = TimelineEndFrame c"
  "SourceStartFrame (core_clip c) = SourceStartFrame c"
  "SourceEndFrame (core_clip c) = SourceEndFrame c"
  "PlaybackRate (core_clip c) = PlaybackRate c" "ClipGainDB (core_clip c) = ClipGainDB c"
  "FadeInFrames (core_clip c) = FadeInFrames c" "FadeOutFrames (core_clip c) = FadeOutFrames c"
  "SubtitleStyle (core_clip c) = SubtitleStyle c" "ParentBlockID (core_clip c) = ParentBlockID c"
  "Linked (core_clip c) = Linked c"
  by (simp_all add: core_clip_def with_meta_def)

lemma core_track_simps [simp]:
  "TrackID (core_track t) = TrackID t" "TrackType (core_track t) = TrackType t"
  "Clips (core_track t) = map core_clip (Clips t)" "Muted (core_track t) = Muted t"
  "Solo (core_track t) = Solo t" "Locked (core_track t) = Locked t" "GainDB (core_track t) = GainDB t"
  "Ducking (core_track t) = Ducking t"
  by (simp_all add: core_track_def with_clips_def)

lemma core_simps [simp]:
  "TimelineID (core d) = TimelineID d" "DraftID (core d) = DraftID d" "Version (core d) = Version d"
  "FPS (core d) = FPS d" "DurationFrames (core d) = DurationFrames d"
  "Tracks (core d) = map core_track (Tracks d)"
  by (simp_all add: core_def with_tracks_def)

lemma effectiveRate_core [simp]: "effectiveRate (core_clip c) = effectiveRate c"
  by (simp add: effectiveRate_def)

lemma core_clip_meta [simp]: "core_clip (with_meta m c) = core_clip c"
  by (simp add: core_clip_def with_meta_def)

lemma core_clip_effects [simp]: "core_clip (c\<lparr>Effects := es\<rparr>) = core_clip c"
  by (simp add: core_clip_def with_meta_def)

lemma core_clip_clone [simp]: "core_clip (clip_clone r c) = core_clip c"
  by (simp add: clip_clone_def)

lemma core_track_clips: "map core_clip cs = map core_clip (Clips t) \<Longrightarrow> core_track (with_clips cs t) = core_track t"
  by (simp add: core_track_def with_clips_def)

lemma core_doc_tracks: "map core_track ts = map core_track (Tracks d) \<Longrightarrow> core (with_tracks ts d) = core d"
  by (simp add: core_def with_tracks_def)

lemma map_zip_index: "(\<And>i x. g (f (i, x)) = h x) \<Longrightarrow> map (g \<circ> f) (zip [0 ..< length xs] xs) = map h xs"
  by (rule nth_equalityI) auto

lemma core_track_clone [simp]: "core_track (track_clone i t) = core_track t"
  unfolding track_clone_def
  by (rule core_track_clips) (simp add: map_zip_index)

lemma core_clone: "clone d = Inr (d', st) \<Longrightarrow> core d' = core d"
  by (auto simp: clone_def map_zip_index intro!: core_doc_tracks split: if_splits)

lemma core_resolve [simp]: "core (resolve st d) = core d"
  unfolding resolve_def by (intro core_doc_tracks) (simp add: core_track_clips)

section \<open>Validation sees the core only\<close>

lemma insort_key_map: "(\<And>x. f (g x) = f' x) \<Longrightarrow> insort_key f (g x) (map g xs) = map g (insort_key f' x xs)"
  by (induction xs) auto

lemma sort_key_map: "(\<And>x. f (g x) = f' x) \<Longrightarrow> sort_key f (map g xs) = map g (sort_key f' xs)"
  by (induction xs) (simp_all add: insort_key_map)

lemma ducking_issues_core [simp]: "ducking_issues (core_track t) = ducking_issues t"
  by (auto simp: ducking_issues_def split: option.split)

lemma clip_issues_core [simp]: "clip_issues D (core_track t) seen (core_clip c) = clip_issues D t seen c"
  by (simp add: clip_issues_def Let_def cong: if_cong)

lemma see_id_core [simp]: "see_id (core_clip c) = see_id c"
  by (simp add: see_id_def fun_eq_iff)

lemma clips_issues_core [simp]:
  "clips_issues D (core_track t) seen (map core_clip cs) = clips_issues D t seen cs"
  by (induction cs arbitrary: seen) simp_all

lemma tracks_issues_core [simp]:
  "tracks_issues D seenTracks seen (map core_track ts) = tracks_issues D seenTracks seen ts"
  by (induction ts arbitrary: seenTracks seen) (simp_all add: fold_map comp_def)

lemma coverage_issues_core [simp]: "coverage_issues D k (map core_clip cs) = coverage_issues D k cs"
  by (induction cs arbitrary: k) simp_all

lemma find_map: "find P (map f xs) = map_option f (find (P \<circ> f) xs)"
  by (induction xs) auto

lemma primary_issues_core [simp]: "primary_issues (core d) = primary_issues d"
  by (auto simp: primary_issues_def last_track_def rev_map find_map comp_def
      sort_key_map [where f' = TimelineStartFrame] split: option.splits)

lemma doc_clips_core [simp]: "doc_clips (core d) = map core_clip (doc_clips d)"
  by (simp add: doc_clips_def map_concat comp_def)

lemma group_ids_core [simp]: "group_ids (core d) = group_ids d"
  by (simp add: group_ids_def filter_map comp_def)

lemma group_clips_core [simp]: "group_clips (core d) tid gid = map core_clip (group_clips d tid gid)"
  by (simp add: group_clips_def map_concat comp_def filter_map if_distrib cong: if_cong)

lemma group_issues_core [simp]: "group_issues (core d) = group_issues d"
proof
  fix gid
  show "group_issues (core d) gid = group_issues d gid"
    by (cases "group_clips d ''visual_base'' gid"; cases "group_clips d ''original_audio'' gid")
      (auto simp: group_issues_def pair_issues_def Let_def)
qed

lemma Validate_core [simp]: "Validate (core d) = Validate d"
  by (simp add: Validate_def comp_def)

lemma valid_document_core: "core d = core d' \<Longrightarrow> valid_document d \<longleftrightarrow> valid_document d'"
  unfolding valid_document_def by (metis Validate_core)

section \<open>Spans of clips\<close>

definition span :: "'m Clip \<Rightarrow> interval" where
  "span c = (TimelineStartFrame c, TimelineEndFrame c)"

definition track_spans :: "'m Track \<Rightarrow> interval multiset" where
  "track_spans t = image_mset span (mset (Clips t))"

definition primary_spans :: "'m Document \<Rightarrow> interval multiset" where
  "primary_spans d = (case trackByID d ''visual_base'' of None \<Rightarrow> {#} | Some p \<Rightarrow> track_spans (Tracks d ! p))"

definition picture_tiled :: "'m Document \<Rightarrow> bool" where
  "picture_tiled d \<longleftrightarrow> trackByID d ''visual_base'' \<noteq> None \<and> tiles (primary_spans d) (DurationFrames d)"

lemma span_simps [simp]: "fst (span c) = TimelineStartFrame c" "snd (span c) = TimelineEndFrame c"
  by (simp_all add: span_def)

lemma span_core [simp]: "span (core_clip c) = span c"
  by (simp add: span_def)

lemma track_spans_core [simp]: "track_spans (core_track t) = track_spans t"
  by (simp add: track_spans_def image_mset.compositionality comp_def)

lemma index_of_map: "index_of P (map f xs) = index_of (P \<circ> f) xs"
  by (induction xs) auto

lemma trackByID_ids: "map TrackID (Tracks d) = map TrackID (Tracks d') \<Longrightarrow> trackByID d = trackByID d'"
proof
  fix tid assume "map TrackID (Tracks d) = map TrackID (Tracks d')"
  then have "index_of (\<lambda>i. i = tid) (map TrackID (Tracks d)) = index_of (\<lambda>i. i = tid) (map TrackID (Tracks d'))"
    by simp
  then show "trackByID d tid = trackByID d' tid"
    by (simp add: trackByID_def index_of_map comp_def)
qed

lemma trackByID_core [simp]: "trackByID (core d) = trackByID d"
  by (rule trackByID_ids) simp

lemma trackByID_Some:
  "trackByID d tid = Some i \<Longrightarrow> i < length (Tracks d) \<and> TrackID (Tracks d ! i) = tid"
  by (auto simp: trackByID_def index_of_Some)

lemma trackByID_distinct:
  assumes "distinct (map TrackID (Tracks d))"
  shows "trackByID d tid = Some i \<longleftrightarrow> i < length (Tracks d) \<and> TrackID (Tracks d ! i) = tid"
  using assms by (auto simp: trackByID_def index_of_Some distinct_conv_nth)

lemma primary_spans_core [simp]: "primary_spans (core d) = primary_spans d"
  by (auto simp: primary_spans_def dest: trackByID_Some split: option.split)

lemma picture_tiled_core: "core d = core d' \<Longrightarrow> picture_tiled d \<longleftrightarrow> picture_tiled d'"
  unfolding picture_tiled_def by (metis core_simps(5) primary_spans_core trackByID_core)

section \<open>Facts of a valid document\<close>

definition clip_in :: "goint \<Rightarrow> 'm Clip \<Rightarrow> bool" where
  "clip_in D c \<longleftrightarrow> 0 \<le> TimelineStartFrame c \<and> TimelineStartFrame c < TimelineEndFrame c \<and> TimelineEndFrame c \<le> D"

text \<open>Linked picture and sound: one of each in the group, on the same frames.\<close>

definition groups_paired :: "'m Document \<Rightarrow> bool" where
  "groups_paired d \<longleftrightarrow> (\<forall>gid. gid \<noteq> [] \<longrightarrow>
     (group_clips d ''visual_base'' gid = [] \<and> group_clips d ''original_audio'' gid = [])
     \<or> (\<exists>v a. group_clips d ''visual_base'' gid = [v] \<and> group_clips d ''original_audio'' gid = [a] \<and> span v = span a))"

definition wf :: "'m Document \<Rightarrow> bool" where
  "wf d \<longleftrightarrow> distinct (map TrackID (Tracks d)) \<and> distinct (map TimelineClipID (doc_clips d))
     \<and> (\<forall>c \<in> set (doc_clips d). TimelineClipID c \<noteq> [] \<and> clip_in (DurationFrames d) c)
     \<and> picture_tiled d \<and> groups_paired d"

lemma set_see_id: "set (fold see_id cs seen) = set seen \<union> (TimelineClipID ` set cs - {[]})"
  by (induction cs arbitrary: seen) (auto simp: see_id_def)

lemma clips_issues_Nil:
  assumes "clips_issues D t seen cs = []"
  shows "distinct (map TimelineClipID cs)" and "set seen \<inter> TimelineClipID ` set cs = {}"
    and "\<forall>c \<in> set cs. TimelineClipID c \<noteq> [] \<and> clip_in D c"
proof -
  have "distinct (map TimelineClipID cs) \<and> set seen \<inter> TimelineClipID ` set cs = {}
     \<and> (\<forall>c \<in> set cs. TimelineClipID c \<noteq> [] \<and> clip_in D c)"
    using assms
  proof (induction cs arbitrary: seen)
    case (Cons c cs)
    from Cons.prems have c: "TimelineClipID c \<noteq> []" "TimelineClipID c \<notin> set seen" "clip_in D c"
      by (auto simp: clip_issues_def Let_def clip_in_def not_le not_less split: if_splits)
    with Cons.IH [of "see_id c seen"] Cons.prems show ?case
      by (auto simp: see_id_def split: if_splits)
  qed simp
  then show "distinct (map TimelineClipID cs)" and "set seen \<inter> TimelineClipID ` set cs = {}"
    and "\<forall>c \<in> set cs. TimelineClipID c \<noteq> [] \<and> clip_in D c"
    by blast+
qed

lemma tracks_issues_Nil:
  assumes "tracks_issues D seenTracks seen ts = []"
  shows "distinct (map TrackID ts) \<and> set seenTracks \<inter> TrackID ` set ts = {}
    \<and> distinct (map TimelineClipID (concat (map Clips ts)))
    \<and> set seen \<inter> TimelineClipID ` set (concat (map Clips ts)) = {}
    \<and> (\<forall>c \<in> set (concat (map Clips ts)). TimelineClipID c \<noteq> [] \<and> clip_in D c)"
  using assms
proof (induction ts arbitrary: seenTracks seen)
  case (Cons t ts)
  from Cons.prems have cs: "clips_issues D t seen (Clips t) = []" by simp
  note here = clips_issues_Nil [OF cs]
  have rest: "set (fold see_id (Clips t) seen) \<inter> TimelineClipID ` set (concat (map Clips ts)) = {}"
    and IH: "distinct (map TrackID ts)" "TrackID t \<notin> TrackID ` set ts"
      "set seenTracks \<inter> TrackID ` set ts = {}"
      "distinct (map TimelineClipID (concat (map Clips ts)))"
      "\<forall>c \<in> set (concat (map Clips ts)). TimelineClipID c \<noteq> [] \<and> clip_in D c"
    using Cons.IH [of "TrackID t # seenTracks" "fold see_id (Clips t) seen"] Cons.prems by auto
  have "(set seen \<union> TimelineClipID ` set (Clips t)) \<inter> TimelineClipID ` set (concat (map Clips ts)) = {}"
    using rest here(3) unfolding set_see_id by blast
  then show ?case using here IH Cons.prems by auto
qed simp

lemma coverage_issues_Nil:
  assumes "coverage_issues D k cs = []" and "\<forall>c \<in> set cs. TimelineStartFrame c < TimelineEndFrame c"
  shows "chain k (map span cs) D"
  using assms by (induction cs arbitrary: k) (auto simp: span_def)

lemma group_member_id:
  assumes "c \<in> set (group_clips d tid gid)" and "gid \<noteq> []"
  shows "gid \<in> set (group_ids d)"
  using assms by (force simp: group_clips_def group_ids_def doc_clips_def split: if_splits)

lemma find_rev_distinct:
  assumes "distinct (map TrackID ts)" and "index_of (\<lambda>t. TrackID t = tid) ts = Some p"
  shows "find (\<lambda>t. TrackID t = tid) (rev ts) = Some (ts ! p)"
proof -
  have p: "p < length ts" "TrackID (ts ! p) = tid" using assms(2) by (auto simp: index_of_Some)
  then have "find (\<lambda>t. TrackID t = tid) (rev ts) \<noteq> None"
    unfolding find_None_iff by (metis nth_mem set_rev)
  then obtain t where t: "find (\<lambda>t. TrackID t = tid) (rev ts) = Some t" by blast
  then have "t \<in> set ts" "TrackID t = tid"
    by (auto simp: find_Some_iff) (metis length_rev nth_mem set_rev)
  with assms(1) p have "t = ts ! p" by (metis distinct_map inj_on_eq_iff nth_mem)
  with t show ?thesis by simp
qed

lemma valid_paired:
  assumes "valid_document d"
  shows "groups_paired d"
  unfolding groups_paired_def
proof (intro allI impI)
  fix gid :: string assume "gid \<noteq> []"
  show "(group_clips d ''visual_base'' gid = [] \<and> group_clips d ''original_audio'' gid = [])
     \<or> (\<exists>v a. group_clips d ''visual_base'' gid = [v] \<and> group_clips d ''original_audio'' gid = [a] \<and> span v = span a)"
  proof (cases "gid \<in> set (group_ids d)")
    case True
    with assms have "group_issues d gid = []"
      by (auto simp: valid_document_def Validate_def)
    then show ?thesis
      by (auto simp: group_issues_def Let_def pair_issues_def span_def length_Suc_conv split: if_splits)
  next
    case False
    then have "group_clips d tid gid = []" for tid
      using group_member_id [OF _ \<open>gid \<noteq> []\<close>] by (metis last_in_set)
    then show ?thesis by simp
  qed
qed

lemma valid_wf:
  assumes v: "valid_document d"
  shows "wf d"
proof -
  have ti: "tracks_issues (DurationFrames d) [] [] (Tracks d) = []"
    and pi: "primary_issues d = []" and D: "0 \<le> DurationFrames d"
    and rt: "''visual_base'' \<in> set (map TrackID (Tracks d))"
    using v by (auto simp: valid_document_def Validate_def requiredTracks_def)
  note t = tracks_issues_Nil [OF ti]
  from rt have "trackByID d ''visual_base'' \<noteq> None"
    unfolding trackByID_def by (subst index_of_None) auto
  then obtain p where p: "trackByID d ''visual_base'' = Some p" by blast
  let ?t = "Tracks d ! p"
  have lt: "last_track d ''visual_base'' = Some ?t"
    using t p by (simp add: last_track_def trackByID_def find_rev_distinct)
  have pos: "\<forall>c \<in> set (Clips ?t). clip_in (DurationFrames d) c"
    using t trackByID_Some [OF p] by (auto simp: nth_mem)
  have "tiles (track_spans ?t) (DurationFrames d)"
  proof (cases "Clips ?t = []")
    case True
    with pi lt have "DurationFrames d = 0" by (auto simp: primary_issues_def split: if_splits)
    with True show ?thesis by (simp add: track_spans_def tiles_def)
  next
    case False
    let ?cs = "sort_key TimelineStartFrame (Clips ?t)"
    have "coverage_issues (DurationFrames d) 0 ?cs = []"
      using pi lt False by (auto simp: primary_issues_def split: if_splits)
    then have "chain 0 (map span ?cs) (DurationFrames d)"
      using pos by (intro coverage_issues_Nil) (auto simp: clip_in_def)
    then have "tiles (mset (map span ?cs)) (DurationFrames d)" by (rule chain_tiles)
    then show ?thesis by (simp add: track_spans_def)
  qed
  then have "picture_tiled d" using p by (simp add: picture_tiled_def primary_spans_def)
  with t valid_paired [OF v] show ?thesis by (simp add: wf_def doc_clips_def)
qed

end
