(* ===== verification/Timeline_Ripple.thy ===== *)
theory Timeline_Ripple
  imports Timeline_Model
begin

text \<open>
  The frame arithmetic every handler is built from: ripple deletion and ripple shifts over all
  tracks, the cuts of one clip (\<open>splitClipValue\<close>, \<open>splitClipAroundDeletedRange\<close>,
  \<open>eraseTrackRange\<close>, \<open>shiftTrackForInsert\<close>) and the lock checks that guard them.  A step on one
  clip returns the clips that replace it and its metadata writes.
\<close>

type_synonym edit = "rdoc \<times> meta_write list"
type_synonym clip_step = "rclip \<Rightarrow> rclip list \<times> meta_write list"

text \<open>A loop over the clips of a track, and over all tracks, that rebuilds the clip lists.\<close>

definition step_track :: "clip_step \<Rightarrow> rtrack \<Rightarrow> rtrack" where
  "step_track f t = t\<lparr>Clips := concat (map (fst \<circ> f) (Clips t))\<rparr>"

definition step_writes :: "clip_step \<Rightarrow> rclip list \<Rightarrow> meta_write list" where
  "step_writes f cs = concat (map (snd \<circ> f) cs)"

section \<open>Lock checks\<close>

definition ensureShiftAfterUnlocked :: "rdoc \<Rightarrow> goint \<Rightarrow> tl_error + unit" where
  "ensureShiftAfterUnlocked d boundary =
     (case find (\<lambda>t. Locked t \<and> (\<exists>c \<in> set (Clips t). TimelineStartFrame c \<ge> boundary)) (Tracks d) of
        Some t \<Rightarrow> Inl (RippleLocked (TrackID t))
      | None \<Rightarrow> Inr ())"

definition ensureRippleUnlocked :: "rdoc \<Rightarrow> goint \<Rightarrow> string \<Rightarrow> tl_error + unit" where
  "ensureRippleUnlocked d boundary exceptTrackID =
     (case find (\<lambda>t. \<not> (\<not> Locked t \<or> TrackID t = exceptTrackID)
                   \<and> (\<exists>c \<in> set (Clips t). TimelineEndFrame c > boundary)) (Tracks d) of
        Some t \<Rightarrow> Inl (RippleLocked (TrackID t))
      | None \<Rightarrow> Inr ())"

section \<open>Shifting\<close>

definition shift_clip :: "goint \<Rightarrow> rclip \<Rightarrow> rclip" where
  "shift_clip delta c = c\<lparr>TimelineStartFrame := i64 (TimelineStartFrame c + delta),
                          TimelineEndFrame := i64 (TimelineEndFrame c + delta)\<rparr>"

definition shift_from :: "goint \<Rightarrow> goint \<Rightarrow> clip_step" where
  "shift_from boundary delta c =
     (if TimelineStartFrame c \<ge> boundary
      then ([shift_clip delta c], shiftClipTimelineMetadata c delta) else ([c], []))"

definition shiftAfter :: "rdoc \<Rightarrow> goint \<Rightarrow> goint \<Rightarrow> edit" where
  "shiftAfter d boundary delta =
     (if delta = 0 then (d, [])
      else ((map_tracks (step_track (shift_from boundary delta)) d)
              \<lparr>DurationFrames := i64 (DurationFrames d + delta)\<rparr>,
            step_writes (shift_from boundary delta) (doc_clips d)))"

section \<open>Deleting a range\<close>

definition splitClipAroundDeletedRange :: "rclip \<Rightarrow> goint \<Rightarrow> goint \<Rightarrow> rclip \<times> rclip \<times> meta_write list" where
  "splitClipAroundDeletedRange c s e =
     (let rate = effectiveRate c;
          left = c\<lparr>TimelineEndFrame := s,
                   SourceEndFrame := (if AssetID c \<noteq> []
                     then i64 (SourceStartFrame c + scale_frames (i64 (s - TimelineStartFrame c)) rate)
                     else SourceEndFrame c)\<rparr>;
          right = c\<lparr>TimelineStartFrame := s,
                    TimelineEndFrame := i64 (TimelineEndFrame c - i64 (e - s)),
                    SourceStartFrame := (if AssetID c \<noteq> []
                      then i64 (SourceStartFrame c + scale_frames (i64 (e - TimelineStartFrame c)) rate)
                      else SourceStartFrame c),
                    TimelineClipID := TimelineClipID c @ ''_after_'' @ show_int e,
                    ParentBlockID := (if ParentBlockID c \<noteq> []
                      then ParentBlockID c @ ''_after_'' @ show_int e else ParentBlockID c)\<rparr>
      in (left, right, syncClipPlacementMetadata left
            @ shiftClipTimelineMetadata right (i64 (- i64 (e - s))) @ syncClipPlacementMetadata right))"

definition delete_range_step :: "goint \<Rightarrow> goint \<Rightarrow> clip_step" where
  "delete_range_step s e c =
     (let delta = i64 (e - s); rate = effectiveRate c in
      if TimelineEndFrame c \<le> s then ([c], [])
      else if TimelineStartFrame c \<ge> e then
        let c' = c\<lparr>TimelineStartFrame := i64 (TimelineStartFrame c - delta),
                   TimelineEndFrame := i64 (TimelineEndFrame c - delta)\<rparr>
        in ([c'], shiftClipTimelineMetadata c' (i64 (- delta)))
      else if TimelineStartFrame c < s \<and> TimelineEndFrame c > e then
        (case splitClipAroundDeletedRange c s e of (l, r, ws) \<Rightarrow> ([l, r], ws))
      else if TimelineStartFrame c < s then
        let c' = c\<lparr>TimelineEndFrame := s,
                   SourceEndFrame := (if AssetID c \<noteq> []
                     then i64 (SourceStartFrame c + scale_frames (i64 (s - TimelineStartFrame c)) rate)
                     else SourceEndFrame c)\<rparr>
        in ([c'], syncClipPlacementMetadata c')
      else if TimelineEndFrame c > e then
        let removed = i64 (e - TimelineStartFrame c);
            c' = c\<lparr>TimelineStartFrame := s,
                   TimelineEndFrame := i64 (TimelineEndFrame c - delta),
                   SourceStartFrame := (if AssetID c \<noteq> []
                     then i64 (SourceStartFrame c + scale_frames removed rate)
                     else SourceStartFrame c)\<rparr>
        in ([c'], syncClipPlacementMetadata c')
      else ([], []))"

definition deleteRange :: "rdoc \<Rightarrow> gmap \<Rightarrow> tl_error + edit" where
  "deleteRange d op =
     bind_sum (join2 (frameValue op ''start_frame'') (frameValue op ''end_frame'')) (\<lambda>(s, e).
     if s < 0 \<or> e \<le> s \<or> e > DurationFrames d \<or> i64 (e - s) > DurationFrames d
     then Inl (TimelineRange s e (DurationFrames d))
     else bind_sum (ensureRippleUnlocked d s []) (\<lambda>_.
       let delta = i64 (e - s);
           d1 = map_tracks (step_track (delete_range_step s e)) d;
           d2 = d1\<lparr>DurationFrames := i64 (DurationFrames d1 - delta)\<rparr>
       in Inr (map_tracks sortTrack d2, step_writes (delete_range_step s e) (doc_clips d))))"

text \<open>The map the Go code passes when it calls \<open>deleteRange\<close> itself.\<close>

definition range_op :: "goint \<Rightarrow> goint \<Rightarrow> gmap" where
  "range_op s e = [(''start_frame'', GInt s), (''end_frame'', GInt e)]"

section \<open>Deleting by source range\<close>

definition exactTimelineOffset :: "goint \<Rightarrow> f64 \<Rightarrow> goint option" where
  "exactTimelineOffset sourceOffset rate =
     (if sourceOffset < 0 \<or> fle rate (Fin 0) \<or> IsNaN rate \<or> IsInf rate then None
      else let rounded = unscale_frames sourceOffset rate;
               tolerance = fmul (rnd64 (1 / 1000000000)) (fmax (Fin 1) (fabs (f_of_int sourceOffset)))
           in if flt tolerance (fabs (fsub (fmul (f_of_int rounded) rate) (f_of_int sourceOffset)))
              then None else Some rounded)"

record mappedSourceSegment =
  seg_sourceStart :: goint
  seg_sourceEnd :: goint
  seg_timelineStart :: goint
  seg_timelineEnd :: goint

text \<open>One turn of the loop over the primary clips: nothing, a segment, or an error.\<close>

definition source_segment ::
  "string \<Rightarrow> goint \<Rightarrow> goint \<Rightarrow> rclip \<Rightarrow> tl_error + mappedSourceSegment list" where
  "source_segment assetID sourceStart sourceEnd c =
     (let start = max sourceStart (SourceStartFrame c); end' = min sourceEnd (SourceEndFrame c) in
      if AssetID c \<noteq> assetID \<or> end' \<le> start then Inr []
      else (case (exactTimelineOffset (i64 (start - SourceStartFrame c)) (effectiveRate c),
                  exactTimelineOffset (i64 (end' - SourceStartFrame c)) (effectiveRate c)) of
          (Some startOffset, Some endOffset) \<Rightarrow>
            let ts = max (TimelineStartFrame c) (i64 (TimelineStartFrame c + startOffset));
                te = min (TimelineEndFrame c) (i64 (TimelineStartFrame c + endOffset))
            in if te \<le> ts then Inl (ErrPlain ''delete_source_range: empty mapping'')
               else Inr [\<lparr>seg_sourceStart = start, seg_sourceEnd = end',
                          seg_timelineStart = ts, seg_timelineEnd = te\<rparr>]
        | _ \<Rightarrow> Inl (ErrPlain ''delete_source_range: no exact frame mapping'')))"

fun collect :: "('a \<Rightarrow> 'e + 'b list) \<Rightarrow> 'a list \<Rightarrow> 'e + 'b list" where
  "collect f [] = Inr []"
| "collect f (x # xs) = bind_sum (f x) (\<lambda>ys. bind_sum (collect f xs) (\<lambda>zs. Inr (ys @ zs)))"

text \<open>The scan over the sorted segments; the frame cursors start at \<open>-1\<close>.\<close>

fun join_segments ::
  "goint \<Rightarrow> goint \<Rightarrow> goint \<Rightarrow> mappedSourceSegment list \<Rightarrow> tl_error + goint \<times> goint \<times> goint" where
  "join_segments cursor ts te [] = Inr (cursor, ts, te)"
| "join_segments cursor ts te (g # gs) =
     (if seg_sourceStart g < cursor then Inl (ErrPlain ''delete_source_range: duplicate mapping'')
      else if seg_sourceStart g > cursor then Inl (ErrPlain ''delete_source_range: source gap'')
      else if ts < 0 then join_segments (seg_sourceEnd g) (seg_timelineStart g) (seg_timelineEnd g) gs
      else if seg_timelineStart g \<noteq> te then Inl (ErrPlain ''delete_source_range: timeline gap'')
      else join_segments (seg_sourceEnd g) ts (seg_timelineEnd g) gs)"

definition deleteSourceRange :: "rdoc \<Rightarrow> gmap \<Rightarrow> tl_error + edit" where
  "deleteSourceRange d op =
     (let assetID = TrimSpace (stringValue (gget op ''asset_id'')) in
      bind_sum (join2 (frameValue op ''source_start_frame'') (frameValue op ''source_end_frame''))
        (\<lambda>(sourceStart, sourceEnd).
        if assetID = [] \<or> sourceStart < 0 \<or> sourceEnd \<le> sourceStart
        then Inl (ErrPlain ''delete_source_range: bad arguments'')
        else (case trackByID d ''visual_base'' of
          None \<Rightarrow> Inl (ErrPlain ''delete_source_range: no primary track'')
        | Some i \<Rightarrow>
            bind_sum (collect (source_segment assetID sourceStart sourceEnd) (Clips (Tracks d ! i)))
              (\<lambda>segments.
              let sorted = sort_key seg_timelineStart segments in
              if sorted = [] then Inl (ErrPlain ''delete_source_range: no match'')
              else bind_sum (join_segments sourceStart (- 1) (- 1) sorted) (\<lambda>(cursor, ts, te).
                if cursor \<noteq> sourceEnd then Inl (ErrPlain ''delete_source_range: incomplete cover'')
                else deleteRange d ((''kind'', GStr ''delete_range'') # range_op ts te))))))"

section \<open>Splitting\<close>

definition splitClipValue ::
  "rclip \<Rightarrow> goint \<Rightarrow> string \<Rightarrow> string \<Rightarrow> tl_error + rclip \<times> rclip \<times> meta_write list" where
  "splitClipValue c frame leftGroup rightGroup =
     (if AssetID c = [] then Inl (ErrPlain ''split_clip: not a media clip'')
      else if frame \<le> TimelineStartFrame c \<or> frame \<ge> TimelineEndFrame c
      then Inl (clipFrameRangeError c frame)
      else let sourceSplit = i64 (SourceStartFrame c
                   + scale_frames (i64 (frame - TimelineStartFrame c)) (effectiveRate c)) in
        if sourceSplit \<le> SourceStartFrame c \<or> sourceSplit \<ge> SourceEndFrame c
        then Inl (clipFrameRangeError c frame)
        else let
          left = c\<lparr>TimelineEndFrame := frame, SourceEndFrame := sourceSplit, FadeOutFrames := 0,
                   ParentBlockID := (if Linked c then leftGroup else ParentBlockID c)\<rparr>;
          right = c\<lparr>TimelineClipID := TimelineClipID c @ ''_split_'' @ show_int frame,
                    TimelineStartFrame := frame, SourceStartFrame := sourceSplit, FadeInFrames := 0,
                    ParentBlockID := (if Linked c then rightGroup else ParentBlockID c)\<rparr>
        in Inr (left, right, syncClipPlacementMetadata left @ syncClipPlacementMetadata right))"

definition should_split :: "string \<Rightarrow> string \<Rightarrow> rclip \<Rightarrow> bool" where
  "should_split selectedID groupID c \<longleftrightarrow>
     TimelineClipID c = selectedID \<or> (groupID \<noteq> [] \<and> Linked c \<and> ParentBlockID c = groupID)"

definition split_step :: "string \<Rightarrow> string \<Rightarrow> string \<Rightarrow> string \<Rightarrow> goint \<Rightarrow> rclip
    \<Rightarrow> tl_error + rclip list \<times> meta_write list" where
  "split_step selectedID groupID rightGroupID newID frame c =
     (if \<not> should_split selectedID groupID c then Inr ([c], [])
      else bind_sum (splitClipValue c frame groupID rightGroupID) (\<lambda>(left, right, ws).
        let right' = (if TimelineClipID c = selectedID
              then right\<lparr>TimelineClipID := valueOr newID (TimelineClipID right)\<rparr> else right)
        in Inr ([left, right'], ws)))"

definition split_track :: "(rclip \<Rightarrow> tl_error + rclip list \<times> meta_write list) \<Rightarrow> rtrack
    \<Rightarrow> tl_error + rtrack \<times> meta_write list" where
  "split_track f t = bind_sum (map_bind f (Clips t)) (\<lambda>rs.
     Inr (t\<lparr>Clips := concat (map fst rs)\<rparr>, concat (map snd rs)))"

definition splitClip :: "rdoc \<Rightarrow> gmap \<Rightarrow> tl_error + edit" where
  "splitClip d op =
     bind_sum (editableLocation d op) (\<lambda>l.
     bind_sum (frameValue op ''split_frame'') (\<lambda>frame.
     let selected = clip_at d l;
         groupID = (if Linked selected then ParentBlockID selected else []);
         rightGroupID = (if groupID \<noteq> [] then groupID @ ''_split_'' @ show_int frame else groupID);
         bad = (\<lambda>m. Locked (track_at d m) \<or> frame \<le> TimelineStartFrame (clip_at d m)
                    \<or> frame \<ge> TimelineEndFrame (clip_at d m))
     in case find bad (linkedGroup d groupID) of
          Some m \<Rightarrow> Inl (if Locked (track_at d m) then trackLockedError (TrackID (track_at d m))
                         else clipFrameRangeError (clip_at d m) frame)
        | None \<Rightarrow>
            bind_sum (map_bind (split_track (split_step (TimelineClipID selected) groupID rightGroupID
                (stringValue (gget op ''new_timeline_clip_id'')) frame)) (Tracks d)) (\<lambda>rs.
              Inr (d\<lparr>Tracks := map fst rs\<rparr>, concat (map snd rs)))))"

text \<open>The first clip that stops the scan of \<open>splitDocumentPrimaryAt\<close>; \<open>None\<close>: nothing to split.\<close>

fun clip_to_split :: "goint \<Rightarrow> rclip list \<Rightarrow> rclip option" where
  "clip_to_split frame [] = None"
| "clip_to_split frame (c # cs) =
     (if frame = TimelineStartFrame c \<or> frame = TimelineEndFrame c then None
      else if frame < TimelineStartFrame c \<or> frame > TimelineEndFrame c then clip_to_split frame cs
      else Some c)"

definition splitDocumentPrimaryAt :: "rdoc \<Rightarrow> goint \<Rightarrow> tl_error + edit" where
  "splitDocumentPrimaryAt d frame =
     (if frame \<le> 0 then Inr (d, [])
      else (case trackByID d ''visual_base'' of
        None \<Rightarrow> Inl (ErrPlain ''primary track missing'')
      | Some i \<Rightarrow> (case clip_to_split frame (Clips (Tracks d ! i)) of
          None \<Rightarrow> Inr (d, [])
        | Some c \<Rightarrow> splitClip d [(''timeline_clip_id'', GStr (TimelineClipID c)),
                                 (''split_frame'', GInt frame)])))"

section \<open>Making room on one track\<close>

definition erase_step :: "goint \<Rightarrow> goint \<Rightarrow> clip_step" where
  "erase_step s e c =
     (if TimelineEndFrame c \<le> s \<or> TimelineStartFrame c \<ge> e then ([c], [])
      else
        let rate = effectiveRate c;
            left = c\<lparr>TimelineEndFrame := s,
                     SourceEndFrame := (if AssetID c \<noteq> []
                       then i64 (SourceEndFrame c - scale_frames (i64 (TimelineEndFrame c - s)) rate)
                       else SourceEndFrame c)\<rparr>;
            right = c\<lparr>TimelineClipID := TimelineClipID c @ ''_after_'' @ show_int e,
                      TimelineStartFrame := e,
                      SourceStartFrame := (if AssetID c \<noteq> []
                        then i64 (SourceStartFrame c + scale_frames (i64 (e - TimelineStartFrame c)) rate)
                        else SourceStartFrame c)\<rparr>
        in ((if TimelineStartFrame c < s then [left] else []) @ (if TimelineEndFrame c > e then [right] else []),
            (if TimelineStartFrame c < s then syncClipPlacementMetadata left else [])
            @ (if TimelineEndFrame c > e then syncClipPlacementMetadata right else [])))"

definition insert_shift_step :: "goint \<Rightarrow> goint \<Rightarrow> goint \<Rightarrow> clip_step" where
  "insert_shift_step frame duration timelineDuration c =
     (let c1 = (if TimelineStartFrame c \<ge> frame then shift_clip duration c else c);
          w1 = (if TimelineStartFrame c \<ge> frame then shiftClipTimelineMetadata c duration else []) in
      if TimelineStartFrame c1 \<ge> timelineDuration then ([], w1)
      else if TimelineEndFrame c1 > timelineDuration then
        let overflow = i64 (TimelineEndFrame c1 - timelineDuration);
            c2 = c1\<lparr>TimelineEndFrame := timelineDuration,
                    SourceEndFrame := (if AssetID c1 \<noteq> []
                      then i64 (SourceEndFrame c1 - scale_frames overflow (effectiveRate c1))
                      else SourceEndFrame c1)\<rparr>
        in ([c2], w1 @ syncClipPlacementMetadata c2)
      else ([c1], w1))"

definition eraseTrackRange :: "nat \<Rightarrow> goint \<Rightarrow> goint \<Rightarrow> rdoc \<Rightarrow> edit" where
  "eraseTrackRange i s e d =
     (update_track i (step_track (erase_step s e)) d,
      step_writes (erase_step s e) (Clips (Tracks d ! i)))"

definition shiftTrackForInsert :: "nat \<Rightarrow> goint \<Rightarrow> goint \<Rightarrow> goint \<Rightarrow> rdoc \<Rightarrow> edit" where
  "shiftTrackForInsert i frame duration timelineDuration d =
     (update_track i (step_track (insert_shift_step frame duration timelineDuration)) d,
      step_writes (insert_shift_step frame duration timelineDuration) (Clips (Tracks d ! i)))"

end
