(* ===== verification/Timeline_Edit.thy ===== *)
theory Timeline_Edit
  imports Timeline_Ripple
begin

text \<open>
  The handlers of the nineteen patch operations (\<open>timeline.go\<close>, \<open>editing.go\<close>).  Each takes the
  working copy and the operation's map and returns an error or the edited copy with its metadata
  writes.  The checks come in the order of the code.
\<close>

section \<open>Trimming and playback rate\<close>

text \<open>
  \<open>trimClip\<close> and \<open>setPlaybackRate\<close> share their second half: check the locks of the members,
  rewrite each member, and ripple everything behind the old end when the group has the picture.
\<close>

definition retime_members :: "rdoc \<Rightarrow> loc \<Rightarrow> goint \<Rightarrow> (rclip \<Rightarrow> rclip) \<Rightarrow> tl_error + edit" where
  "retime_members d l newDuration f =
     (let selected = clip_at d l; members = edit_members d l;
          oldDuration = i64 (TimelineEndFrame selected - TimelineStartFrame selected);
          boundary = i64 (TimelineStartFrame selected + oldDuration);
          ripple = has_primary d members \<and> newDuration \<noteq> oldDuration;
          g = (\<lambda>c. (f c)\<lparr>TimelineEndFrame := i64 (TimelineStartFrame c + newDuration)\<rparr>)
      in bind_sum (members_unlocked d members) (\<lambda>_.
         bind_sum (if ripple then ensureShiftAfterUnlocked d boundary else Inr ()) (\<lambda>_.
         let d1 = update_members members g d;
             w1 = concat (map (\<lambda>m. syncClipPlacementMetadata (clip_at d1 m)) members)
         in if ripple
            then (case shiftAfter d1 boundary (i64 (newDuration - oldDuration)) of
                    (d2, w2) \<Rightarrow> Inr (d2, w1 @ w2))
            else Inr (d1, w1))))"

definition trimClip :: "rdoc \<Rightarrow> gmap \<Rightarrow> tl_error + edit" where
  "trimClip d op =
     bind_sum (editableLocation d op) (\<lambda>l.
     bind_sum (join2 (frameValue op ''source_start_frame'') (frameValue op ''source_end_frame''))
       (\<lambda>(start, end').
       if start < 0 \<or> end' \<le> start then Inl (ErrPlain ''trim_clip: bad source range'')
       else retime_members d l
         (max 1 (unscale_frames (i64 (end' - start)) (effectiveRate (clip_at d l))))
         (\<lambda>c. c\<lparr>SourceStartFrame := start, SourceEndFrame := end'\<rparr>)))"

definition setPlaybackRate :: "rdoc \<Rightarrow> gmap \<Rightarrow> tl_error + edit" where
  "setPlaybackRate d op =
     bind_sum (editableLocation d op) (\<lambda>l.
     let rate = numberValue (gget op ''playback_rate''); selected = clip_at d l in
     if fle rate (Fin 0) \<or> flt (Fin 8) rate then Inl (ErrPlain ''playback_rate out of range'')
     else retime_members d l
       (max 1 (unscale_frames (i64 (SourceEndFrame selected - SourceStartFrame selected)) rate))
       (\<lambda>c. c\<lparr>PlaybackRate := rate\<rparr>))"

section \<open>Reordering the primary track\<close>

text \<open>Go's integer division truncates.\<close>

definition half :: "goint \<Rightarrow> goint" where
  "half x = (if x < 0 then - ((- x) div 2) else x div 2)"

fun insert_index :: "goint \<Rightarrow> rclip list \<Rightarrow> nat" where
  "insert_index target [] = 0"
| "insert_index target (c # cs) =
     (if target < i64 (TimelineStartFrame c + half (i64 (TimelineEndFrame c - TimelineStartFrame c)))
      then 0 else Suc (insert_index target cs))"

text \<open>Clip \<open>k\<close> taken out and put back before the first clip whose middle is behind the target.\<close>

definition moved_to :: "goint \<Rightarrow> nat \<Rightarrow> rclip list \<Rightarrow> rclip list" where
  "moved_to target k clips =
     (let rest = take k clips @ drop (Suc k) clips; pos = insert_index target rest
      in take pos rest @ [clips ! k] @ drop pos rest)"

fun relay :: "goint \<Rightarrow> rclip list \<Rightarrow> rclip list" where
  "relay cursor [] = []"
| "relay cursor (c # cs) =
     (let duration = i64 (TimelineEndFrame c - TimelineStartFrame c) in
      c\<lparr>TimelineStartFrame := cursor, TimelineEndFrame := i64 (cursor + duration)\<rparr>
      # relay (i64 (cursor + duration)) cs)"

definition syncLinkedTiming :: "rclip \<Rightarrow> rdoc \<Rightarrow> rdoc" where
  "syncLinkedTiming p d =
     (if \<not> Linked p \<or> ParentBlockID p = [] then d
      else map_tracks (\<lambda>t. if TrackID t = ''visual_base'' then t
        else t\<lparr>Clips := map (\<lambda>c. if Linked c \<and> ParentBlockID c = ParentBlockID p
               then c\<lparr>TimelineStartFrame := TimelineStartFrame p, TimelineEndFrame := TimelineEndFrame p\<rparr>
               else c) (Clips t)\<rparr>) d)"

definition reorderClip :: "rdoc \<Rightarrow> gmap \<Rightarrow> tl_error + edit" where
  "reorderClip d op =
     (let cid = stringValue (gget op ''timeline_clip_id'') in
      if cid = [] then Inl (ErrPlain ''reorder_clip: timeline_clip_id missing'')
      else bind_sum (frameValue op ''target_frame'') (\<lambda>target.
      if target < 0 \<or> target > DurationFrames d
      then Inl (FrameRange cid target 0 (DurationFrames d) 0 0)
      else (case trackByID d ''visual_base'' of
        None \<Rightarrow> Inl (ErrPlain ''reorder_clip: primary track missing'')
      | Some i \<Rightarrow>
          let track = Tracks d ! i;
              groups = map ParentBlockID (filter (\<lambda>c. Linked c \<and> ParentBlockID c \<noteq> []) (Clips track));
              members = concat (map (linkedGroup d) groups)
          in if Locked track then Inl (trackLockedError (TrackID track))
          else (case find (\<lambda>m. TrackID (track_at d m) \<noteq> ''visual_base'' \<and> Locked (track_at d m)) members of
            Some m \<Rightarrow> Inl (trackLockedError (TrackID (track_at d m)))
          | None \<Rightarrow>
              let clips = sort_key TimelineStartFrame (Clips track) in
              (case index_of (\<lambda>c. TimelineClipID c = cid) clips of
                None \<Rightarrow> Inl (ClipNotFound cid)
              | Some k \<Rightarrow>
                  let laid = relay 0 (moved_to target k clips);
                      d1 = update_track i (\<lambda>t. t\<lparr>Clips := laid\<rparr>) d;
                      d2 = fold syncLinkedTiming laid d1;
                      d3 = map_tracks (\<lambda>t. if TrackID t \<noteq> ''visual_base'' then sortTrack t else t) d2
                  in Inr (d3, []))))))"

section \<open>Moving\<close>

definition insertIntoPrimary :: "rdoc \<Rightarrow> rclip \<Rightarrow> goint \<Rightarrow> tl_error + edit" where
  "insertIntoPrimary d moving target =
     (case trackByID d ''visual_base'' of
        None \<Rightarrow> Inl (ErrPlain ''primary track missing'')
      | Some i \<Rightarrow>
          if Locked (Tracks d ! i) then Inl (trackLockedError (TrackID (Tracks d ! i)))
          else
            let frame = clampInt target 0 (DurationFrames d);
                duration = i64 (TimelineEndFrame moving - TimelineStartFrame moving)
            in bind_sum (ensureRippleUnlocked d frame ''visual_base'') (\<lambda>_.
               bind_sum (splitDocumentPrimaryAt d frame) (\<lambda>(d1, w1).
               let d2 = (map_tracks (step_track (shift_from frame duration)) d1)
                          \<lparr>DurationFrames := i64 (DurationFrames d1 + duration)\<rparr>;
                   w2 = step_writes (shift_from frame duration) (doc_clips d1);
                   placed = moving\<lparr>TimelineStartFrame := frame, TimelineEndFrame := i64 (frame + duration)\<rparr>
               in (case trackByID d2 ''visual_base'' of
                     None \<Rightarrow> Inl (ErrPlain ''primary track missing'')
                   | Some j \<Rightarrow> Inr (update_track j (\<lambda>t. sortTrack (t\<lparr>Clips := Clips t @ [placed]\<rparr>)) d2,
                                   w1 @ w2)))))"

definition overwritePrimary :: "rdoc \<Rightarrow> rclip \<Rightarrow> goint \<Rightarrow> tl_error + edit" where
  "overwritePrimary d moving target =
     (case trackByID d ''visual_base'' of
        None \<Rightarrow> Inl (ErrPlain ''primary track missing'')
      | Some i \<Rightarrow>
          if Locked (Tracks d ! i) then Inl (trackLockedError (TrackID (Tracks d ! i)))
          else
            let duration = i64 (TimelineEndFrame moving - TimelineStartFrame moving) in
            if duration > DurationFrames d then Inl (ErrPlain ''overwrite longer than the timeline'')
            else let frame = clampInt target 0 (i64 (DurationFrames d - duration));
                     placed = moving\<lparr>TimelineStartFrame := frame, TimelineEndFrame := i64 (frame + duration)\<rparr>
                 in (case eraseTrackRange i frame (i64 (frame + duration)) d of
                   (d1, w1) \<Rightarrow> Inr (update_track i (\<lambda>t. sortTrack (t\<lparr>Clips := Clips t @ [placed]\<rparr>)) d1, w1)))"

text \<open>The last part of \<open>moveClip\<close>: placing the clip on a track other than the primary one.\<close>

definition place_on_track ::
  "rdoc \<Rightarrow> rclip \<Rightarrow> string \<Rightarrow> string \<Rightarrow> string \<Rightarrow> goint \<Rightarrow> tl_error + edit" where
  "place_on_track d moving sourceTrackID targetTrackID mode target =
     (let duration = i64 (TimelineEndFrame moving - TimelineStartFrame moving) in
      case trackByID d targetTrackID of
        None \<Rightarrow> Inl (ErrPlain ''target track missing'')
      | Some k \<Rightarrow>
          if duration > DurationFrames d then Inl (ErrPlain ''clip longer than the timeline'')
          else let
            frame = clampInt target 0 (max 0 (i64 (DurationFrames d - duration)));
            moveDelta = i64 (frame - TimelineStartFrame moving);
            placed = moving\<lparr>ClipTrackID := targetTrackID, TimelineStartFrame := frame,
              TimelineEndFrame := i64 (frame + duration),
              Linked := (if sourceTrackID \<noteq> targetTrackID then False else Linked moving),
              ParentBlockID := (if sourceTrackID \<noteq> targetTrackID then [] else ParentBlockID moving)\<rparr>
          in (case (if mode = ''insert''
                    then shiftTrackForInsert k frame duration (DurationFrames d) d
                    else eraseTrackRange k frame (i64 (frame + duration)) d) of
               (d1, w1) \<Rightarrow>
                 Inr (update_track k (\<lambda>t. sortTrack (t\<lparr>Clips := Clips t @ [placed]\<rparr>)) d1,
                      w1 @ shiftClipTimelineMetadata placed moveDelta @ syncClipPlacementMetadata placed)))"

text \<open>Taking the clip off its track; off the primary track the gap is closed and the target adjusted.\<close>

definition detach :: "rdoc \<Rightarrow> loc \<Rightarrow> goint \<Rightarrow> tl_error + rdoc \<times> meta_write list \<times> goint" where
  "detach d l target =
     (let moving = clip_at d l; sourceTrackID = TrackID (track_at d l);
          duration = i64 (TimelineEndFrame moving - TimelineStartFrame moving);
          sourceStart = TimelineStartFrame moving; sourceEnd = TimelineEndFrame moving;
          d1 = update_track (fst l)
                 (\<lambda>t. t\<lparr>Clips := take (snd l) (Clips t) @ drop (Suc (snd l)) (Clips t)\<rparr>) d
      in if sourceTrackID = ''visual_base'' then
           (if Clips (Tracks d1 ! fst l) = [] then Inl (ErrPlain ''primary track keeps one clip'')
            else bind_sum (ensureRippleUnlocked d1 sourceStart sourceTrackID) (\<lambda>_.
                 bind_sum (deleteRange d1 (range_op sourceStart sourceEnd)) (\<lambda>(d2, w2).
                 Inr (d2, w2, if target > sourceEnd then i64 (target - duration) else target))))
         else Inr (d1, [], target))"

definition place_clip ::
  "rdoc \<Rightarrow> rclip \<Rightarrow> string \<Rightarrow> string \<Rightarrow> string \<Rightarrow> goint \<Rightarrow> tl_error + edit" where
  "place_clip d moving sourceTrackID targetTrackID mode target =
     (if targetTrackID = ''visual_base'' then
        let moving' = moving\<lparr>ClipTrackID := targetTrackID, Linked := False, ParentBlockID := []\<rparr>
        in if mode = ''insert'' then insertIntoPrimary d moving' target
           else overwritePrimary d moving' target
      else place_on_track d moving sourceTrackID targetTrackID mode target)"

text \<open>What \<open>moveClip\<close> does once the clip may leave its place by itself.\<close>

definition detach_and_place ::
  "rdoc \<Rightarrow> loc \<Rightarrow> string \<Rightarrow> string \<Rightarrow> goint \<Rightarrow> tl_error + edit" where
  "detach_and_place d l mode targetTrackID target =
     (let moving = clip_at d l in
      if i64 (TimelineEndFrame moving - TimelineStartFrame moving) \<le> 0
      then Inl (ErrPlain ''moving clip has no duration'')
      else bind_sum (detach d l target) (\<lambda>(d2, w2, target').
           bind_sum (place_clip d2 moving (TrackID (track_at d l)) targetTrackID mode target')
             (\<lambda>(d3, w3). Inr (d3, w2 @ w3))))"

definition moveClip :: "rdoc \<Rightarrow> gmap \<Rightarrow> tl_error + edit" where
  "moveClip d op =
     bind_sum (editableLocation d op) (\<lambda>l.
     bind_sum (frameValue op ''target_frame'') (\<lambda>target.
     let mode = valueOr (stringValue (gget op ''mode'')) ''insert'';
         sourceTrack = track_at d l; moving = clip_at d l;
         targetTrackID = valueOr (stringValue (gget op ''target_track_id'')) (TrackID sourceTrack)
     in if mode \<noteq> ''insert'' \<and> mode \<noteq> ''overwrite'' then Inl (ErrPlain ''move_clip: bad mode'')
     else (case trackByID d targetTrackID of
        None \<Rightarrow> Inl (ErrPlain ''target track missing'')
      | Some k \<Rightarrow>
          if Locked (Tracks d ! k) then Inl (trackLockedError targetTrackID)
          else if \<not> tracksCompatible sourceTrack (Tracks d ! k) moving
          then Inl (ErrPlain ''tracks not compatible'')
          else
            let members = (if Linked moving \<and> ParentBlockID moving \<noteq> []
                           then linkedGroup d (ParentBlockID moving) else []) in
            (case find (\<lambda>m. TrackID (track_at d m) = ''visual_base'') members of
               Some m \<Rightarrow>
                 if targetTrackID \<noteq> TrackID sourceTrack then Inl (ErrPlain ''unlink before moving across tracks'')
                 else reorderClip d [(''timeline_clip_id'', GStr (TimelineClipID (clip_at d m))),
                                     (''target_frame'', GInt target)]
             | None \<Rightarrow>
                 if Linked moving \<and> ParentBlockID moving \<noteq> [] \<and> targetTrackID \<noteq> TrackID sourceTrack
                 then Inl (ErrPlain ''unlink before moving across tracks'')
                 else if TrackID sourceTrack = ''visual_base'' \<and> targetTrackID = ''visual_base''
                 then reorderClip d op
                 else detach_and_place d l mode targetTrackID target))))"

section \<open>Trimming an edge\<close>

definition trim_edge_clip :: "string \<Rightarrow> goint \<Rightarrow> rclip \<Rightarrow> rclip" where
  "trim_edge_clip edge frame c =
     (if frame \<le> TimelineStartFrame c \<or> frame \<ge> TimelineEndFrame c then c
      else if edge = ''start'' then
        c\<lparr>TimelineStartFrame := frame,
          SourceStartFrame := (if AssetID c \<noteq> []
            then i64 (SourceStartFrame c
                   + scale_frames (i64 (frame - TimelineStartFrame c)) (effectiveRate c))
            else SourceStartFrame c)\<rparr>
      else
        c\<lparr>TimelineEndFrame := frame,
          SourceEndFrame := (if AssetID c \<noteq> []
            then i64 (SourceEndFrame c
                   - scale_frames (i64 (TimelineEndFrame c - frame)) (effectiveRate c))
            else SourceEndFrame c)\<rparr>)"

definition trimClipEdge :: "rdoc \<Rightarrow> gmap \<Rightarrow> tl_error + edit" where
  "trimClipEdge d op =
     bind_sum (editableLocation d op) (\<lambda>l.
     bind_sum (frameValue op ''timeline_frame'') (\<lambda>frame.
     let edge = stringValue (gget op ''edge''); selected = clip_at d l; members = edit_members d l
     in if edge \<noteq> ''start'' \<and> edge \<noteq> ''end'' then Inl (ErrPlain ''trim_clip_edge: bad edge'')
     else if frame \<le> TimelineStartFrame selected \<or> frame \<ge> TimelineEndFrame selected
     then Inl (clipFrameRangeError selected frame)
     else bind_sum (members_unlocked d members) (\<lambda>_.
       if has_primary d members then
         let s = (if edge = ''end'' then frame else TimelineStartFrame selected);
             e = (if edge = ''end'' then TimelineEndFrame selected else frame)
         in bind_sum (ensureRippleUnlocked d s []) (\<lambda>_. deleteRange d (range_op s e))
       else Inr (update_members members (trim_edge_clip edge frame) d, []))))"

section \<open>Deleting a clip\<close>

text \<open>The member loop of \<open>deleteClip\<close>: a locked track or the last primary clip is an error.\<close>

definition deletable_members :: "rdoc \<Rightarrow> loc list \<Rightarrow> tl_error + unit" where
  "deletable_members d ms =
     (case find (\<lambda>m. Locked (track_at d m) \<or>
                  (TrackID (track_at d m) = ''visual_base'' \<and> length (Clips (track_at d m)) \<le> 1)) ms of
        Some m \<Rightarrow> Inl (if Locked (track_at d m) then trackLockedError (TrackID (track_at d m))
                       else ErrPlain ''primary track keeps one clip'')
      | None \<Rightarrow> Inr ())"

definition remove_clip :: "rclip \<Rightarrow> rclip \<Rightarrow> bool" where
  "remove_clip selected c \<longleftrightarrow> TimelineClipID c = TimelineClipID selected \<or>
     (ParentBlockID selected \<noteq> [] \<and> Linked selected \<and> Linked c \<and> ParentBlockID c = ParentBlockID selected)"

definition deleteClip :: "rdoc \<Rightarrow> gmap \<Rightarrow> tl_error + edit" where
  "deleteClip d op =
     bind_sum (editableLocation d op) (\<lambda>l.
     let selected = clip_at d l; members = edit_members d l in
     bind_sum (deletable_members d members) (\<lambda>_.
     if has_primary d members then
       bind_sum (ensureRippleUnlocked d (TimelineStartFrame selected) []) (\<lambda>_.
         deleteRange d (range_op (TimelineStartFrame selected) (TimelineEndFrame selected)))
     else Inr (map_tracks (\<lambda>t. t\<lparr>Clips := filter (\<lambda>c. \<not> remove_clip selected c) (Clips t)\<rparr>) d, [])))"

section \<open>Track state\<close>

definition set_flag :: "string \<Rightarrow> bool \<Rightarrow> rtrack \<Rightarrow> rtrack" where
  "set_flag k b t = (if k = ''muted'' then t\<lparr>Muted := b\<rparr>
     else if k = ''solo'' then t\<lparr>Solo := b\<rparr> else t\<lparr>Locked := b\<rparr>)"

text \<open>
  The loop over the map \<open>{muted, solo, locked}\<close>, whose order Go leaves open: \<open>ks\<close> is the order in
  which the keys come.
\<close>

fun set_flags :: "string \<Rightarrow> gmap \<Rightarrow> string list \<Rightarrow> rtrack \<times> bool \<Rightarrow> tl_error + rtrack \<times> bool" where
  "set_flags trackID op [] tc = Inr tc"
| "set_flags trackID op (k # ks) tc =
     (case map_of op k of
        None \<Rightarrow> set_flags trackID op ks tc
      | Some v \<Rightarrow> (case boolValue v of
          None \<Rightarrow> Inl (ErrPlain (k @ '' must be a boolean''))
        | Some b \<Rightarrow>
            if k = ''muted'' \<and> trackID = ''visual_base'' \<and> b then Inl (ErrPlain ''primary track cannot be muted'')
            else set_flags trackID op ks (set_flag k b (fst tc), True)))"

definition set_track_gain :: "gmap \<Rightarrow> rtrack \<times> bool \<Rightarrow> tl_error + rtrack \<times> bool" where
  "set_track_gain op tc =
     (case map_of op ''gain_db'' of
        None \<Rightarrow> Inr tc
      | Some v \<Rightarrow> (case numericValue v of
          None \<Rightarrow> Inl (ErrPlain ''gain_db out of range'')
        | Some g \<Rightarrow>
            if flt g (Fin (- 60)) \<or> flt (Fin 12) g then Inl (ErrPlain ''gain_db out of range'')
            else if trackFamily (fst tc) \<noteq> ''audio'' then Inl (ErrPlain ''gain only on audio tracks'')
            else Inr ((fst tc)\<lparr>GainDB := g\<rparr>, True)))"

definition setTrackState_order :: "string list \<Rightarrow> rdoc \<Rightarrow> gmap \<Rightarrow> tl_error + edit" where
  "setTrackState_order ks d op =
     (let trackID = stringValue (gget op ''track_id'') in
      case trackByID d trackID of
        None \<Rightarrow> Inl (ErrPlain ''track missing'')
      | Some i \<Rightarrow>
          bind_sum (set_flags trackID op ks (Tracks d ! i, False)) (\<lambda>tc.
          bind_sum (set_track_gain op tc) (\<lambda>tc'.
          if \<not> snd tc' then Inl (ErrPlain ''set_track_state: nothing to update'')
          else Inr (update_track i (\<lambda>_. fst tc') d, []))))"

definition setTrackState :: "rdoc \<Rightarrow> gmap \<Rightarrow> tl_error + edit" where
  "setTrackState = setTrackState_order [''muted'', ''solo'', ''locked'']"

fun trigger_values :: "gval \<Rightarrow> string list option" where
  "trigger_values (GStrs ss) = Some ss"
| "trigger_values (GArr vs) = Some (map stringValue vs)"
| "trigger_values _ = None"

fun dedup_triggers :: "string list \<Rightarrow> string list \<Rightarrow> tl_error + string list" where
  "dedup_triggers seen [] = Inr []"
| "dedup_triggers seen (x # xs) =
     (if x \<noteq> ''voiceover'' \<and> x \<noteq> ''original_audio'' then Inl (ErrPlain ''bad trigger track'')
      else if x \<in> set seen then dedup_triggers seen xs
      else bind_sum (dedup_triggers (x # seen) xs) (\<lambda>ys. Inr (x # ys)))"

text \<open>The arguments of \<open>set_track_ducking\<close>, checked in the order of the code.\<close>

definition ducking_args :: "gmap \<Rightarrow> tl_error + TrackDucking" where
  "ducking_args op =
     (case boolValue (gget op ''enabled'') of
        None \<Rightarrow> Inl (ErrPlain ''enabled missing'')
      | Some enabled \<Rightarrow> (case numericValue (gget op ''duck_db'') of
          None \<Rightarrow> Inl (ErrPlain ''duck_db out of range'')
        | Some db \<Rightarrow>
            if flt db (Fin (- 18)) \<or> flt (Fin (- 3)) db then Inl (ErrPlain ''duck_db out of range'')
            else (case trigger_values (gget op ''trigger_tracks'') of
              None \<Rightarrow> Inl (ErrPlain ''trigger_tracks must be strings'')
            | Some vs \<Rightarrow> bind_sum (dedup_triggers [] vs) (\<lambda>triggers.
                if triggers = [] then Inl (ErrPlain ''trigger_tracks empty'')
                else Inr \<lparr>Enabled = enabled, DuckDB = db, TriggerTracks = triggers\<rparr>))))"

definition setTrackDucking :: "rdoc \<Rightarrow> gmap \<Rightarrow> tl_error + edit" where
  "setTrackDucking d op =
     (if stringValue (gget op ''track_id'') \<noteq> ''bgm'' then Inl (ErrPlain ''ducking only on bgm'')
      else (case trackByID d ''bgm'' of
        None \<Rightarrow> Inl (ErrPlain ''bgm track missing'')
      | Some i \<Rightarrow>
          if Locked (Tracks d ! i) then Inl (trackLockedError (TrackID (Tracks d ! i)))
          else bind_sum (ducking_args op) (\<lambda>k.
            Inr (update_track i (\<lambda>t. t\<lparr>Ducking := Some k\<rparr>) d, []))))"

section \<open>Linking\<close>

definition same_media :: "rclip \<Rightarrow> rclip \<Rightarrow> bool" where
  "same_media a b \<longleftrightarrow> AssetID a = AssetID b
     \<and> TimelineStartFrame a = TimelineStartFrame b \<and> TimelineEndFrame a = TimelineEndFrame b
     \<and> SourceStartFrame a = SourceStartFrame b \<and> SourceEndFrame a = SourceEndFrame b"

definition linkCandidate :: "rdoc \<Rightarrow> loc \<Rightarrow> loc option" where
  "linkCandidate d l =
     (let tid = TrackID (track_at d l);
          locs = concat (map (\<lambda>i. map (Pair i) [0 ..< length (Clips (Tracks d ! i))]) [0 ..< length (Tracks d)]);
          wanted = (if tid = ''visual_base'' then ''original_audio'' else ''visual_base'')
      in if tid \<noteq> ''visual_base'' \<and> tid \<noteq> ''original_audio'' then None
         else find (\<lambda>m. TrackID (track_at d m) = wanted \<and> same_media (clip_at d m) (clip_at d l)) locs)"

definition unlink :: "rclip \<Rightarrow> rclip" where
  "unlink c = c\<lparr>Linked := False, ParentBlockID := []\<rparr>"

definition link_to :: "string \<Rightarrow> rclip \<Rightarrow> rclip" where
  "link_to gid c = c\<lparr>Linked := True, ParentBlockID := gid\<rparr>"

text \<open>Leaving a group; a group of one that is left behind is dissolved as well.\<close>

definition unlink_clip :: "rdoc \<Rightarrow> loc \<Rightarrow> tl_error + edit" where
  "unlink_clip d l =
     (let selected = clip_at d l; gid = ParentBlockID selected in
      if \<not> Linked selected then Inr (update_clip l (\<lambda>c. c\<lparr>ParentBlockID := []\<rparr>) d, [])
      else
        let members = linkedGroup d gid in
        (case (if gid \<noteq> [] \<and> length members = 2
               then find (\<lambda>m. m \<noteq> l \<and> Locked (track_at d m)) members else None) of
           Some m \<Rightarrow> Inl (trackLockedError (TrackID (track_at d m)))
         | None \<Rightarrow>
             let d1 = update_clip l unlink d; rest = linkedGroup d1 gid in
             Inr (if gid \<noteq> [] \<and> length rest = 1 then update_clip (hd rest) unlink d1 else d1, [])))"

text \<open>Joining the clip on the other track that shows the same source frames at the same time.\<close>

definition link_clip :: "rdoc \<Rightarrow> loc \<Rightarrow> tl_error + edit" where
  "link_clip d l =
     (let selected = clip_at d l; gid = ParentBlockID selected in
      if Linked selected \<and> gid \<noteq> [] \<and> length (linkedGroup d gid) > 1 then Inr (d, [])
      else (case linkCandidate d l of
          None \<Rightarrow> Inl (ErrPlain ''no clip to link with'')
        | Some m \<Rightarrow>
            if Locked (track_at d m) then Inl (trackLockedError (TrackID (track_at d m)))
            else
              let g1 = (if gid = [] then ParentBlockID (clip_at d m) else gid);
                  g2 = (if g1 = [] then ''link_'' @ TimelineClipID selected else g1)
              in Inr (update_clip m (link_to g2) (update_clip l (link_to g2) d), [])))"

definition setClipLinked :: "rdoc \<Rightarrow> gmap \<Rightarrow> tl_error + edit" where
  "setClipLinked d op =
     bind_sum (editableLocation d op) (\<lambda>l.
     case boolValue (gget op ''linked'') of
       None \<Rightarrow> Inl (ErrPlain ''linked missing'')
     | Some linked \<Rightarrow> if \<not> linked then unlink_clip d l else link_clip d l)"

section \<open>Subtitles\<close>

definition subtitleStyle :: "gmap \<Rightarrow> string" where
  "subtitleStyle op =
     (let style = TrimSpace (stringValue (gget op ''style'')) in
      if style = [] then ''default'' else if \<not> isSubtitleStyle style then [] else style)"

definition insertSubtitle :: "rdoc \<Rightarrow> gmap \<Rightarrow> tl_error + edit" where
  "insertSubtitle d op =
     (case trackByID d ''subtitles'' of
        None \<Rightarrow> Inl (ErrPlain ''subtitle track missing'')
      | Some i \<Rightarrow>
          let track = Tracks d ! i in
          if Locked track then Inl (trackLockedError (TrackID track))
          else bind_sum (join2 (frameValue op ''start_frame'') (frameValue op ''end_frame'')) (\<lambda>(s, e).
            let text = TrimSpace (stringValue (gget op ''text''));
                style = subtitleStyle op;
                cid = valueOr (stringValue (gget op ''timeline_clip_id''))
                  (''subtitle_v'' @ show_int (i64 (Version d + 1)) @ ''_''
                   @ show_int03 (int (length (Clips track)) + 1))
            in if s < 0 \<or> e \<le> s \<or> e > DurationFrames d \<or> text = []
            then Inl (ErrPlain ''insert_subtitle: bad range or text'')
            else if ghas op ''style'' \<and> style = [] then Inl (ErrPlain ''bad subtitle style'')
            else (case locateClip d cid of
                Inr _ \<Rightarrow> Inl (ErrPlain ''timeline_clip_id exists'')
              | Inl _ \<Rightarrow> Inr (update_track i (\<lambda>t. sortTrack (t\<lparr>Clips := Clips t @
                  [zero_clip\<lparr>TimelineClipID := cid, ClipTrackID := ''subtitles'', ClipText := text,
                     TimelineStartFrame := s, TimelineEndFrame := e, SubtitleStyle := style\<rparr>]\<rparr>)) d, []))))"

section \<open>Inserting a clip\<close>

text \<open>The optional fields of \<open>insert_clip\<close>: the start frame on a free track, flags and metadata.\<close>

definition insert_start :: "rdoc \<Rightarrow> gmap \<Rightarrow> rtrack \<Rightarrow> goint \<Rightarrow> tl_error + goint" where
  "insert_start d op track duration =
     (if TrackID track = ''visual_base'' then Inr (DurationFrames d)
      else bind_sum (if ghas op ''timeline_start_frame'' then frameValue op ''timeline_start_frame'' else Inr 0)
        (\<lambda>s. if s < 0 \<or> i64 (s + duration) > DurationFrames d
              then Inl (ErrPlain ''clip outside the timeline'') else Inr s))"

definition insert_flag :: "gmap \<Rightarrow> tl_error + bool" where
  "insert_flag op = (case map_of op ''include_original_audio'' of
       None \<Rightarrow> Inr False
     | Some v \<Rightarrow> (case boolValue v of
         None \<Rightarrow> Inl (ErrPlain ''include_original_audio must be a boolean'') | Some b \<Rightarrow> Inr b))"

definition insert_metadata :: "gmap \<Rightarrow> tl_error + gmap option" where
  "insert_metadata op = (case map_of op ''metadata'' of
       None \<Rightarrow> Inr None
     | Some v \<Rightarrow> (case objectValue v of
         None \<Rightarrow> Inl (ErrPlain ''insert_clip: metadata must be an object'')
       | Some m \<Rightarrow> if ghas m preservedAudioLineageMetadataKey
                   then Inl (ErrPlain ''insert_clip: reserved metadata key'') else Inr (Some m)))"

text \<open>The new clip, its linked sound, and where both go.\<close>

definition inserted_clip :: "rdoc \<Rightarrow> gmap \<Rightarrow> rtrack \<Rightarrow> goint \<Rightarrow> goint \<Rightarrow> goint \<Rightarrow> goint \<Rightarrow> gmap option \<Rightarrow> rclip" where
  "inserted_clip d op track s duration start end' meta = zero_clip\<lparr>
     TimelineClipID := valueOr (stringValue (gget op ''timeline_clip_id''))
       (''clip_v'' @ show_int (i64 (Version d + 1)) @ ''_'' @ show_int03 (int (length (Clips track)) + 1)),
     ClipTrackID := TrackID track, AssetID := stringValue (gget op ''asset_id''),
     AssetKind := stringValue (gget op ''asset_kind''),
     Role := valueOr (stringValue (gget op ''role'')) (defaultClipRole (TrackID track)),
     TimelineStartFrame := s, TimelineEndFrame := i64 (s + duration),
     SourceStartFrame := start, SourceEndFrame := end', PlaybackRate := Fin 1,
     Metadata := map_option (\<lambda>_. fresh_ref d) meta\<rparr>"

definition audio_twin :: "string \<Rightarrow> rclip \<Rightarrow> rclip" where
  "audio_twin gid clip = zero_clip\<lparr>TimelineClipID := TimelineClipID clip @ ''_audio'',
     ClipTrackID := ''original_audio'', AssetID := AssetID clip, AssetKind := AssetKind clip,
     Role := ''original_audio'', TimelineStartFrame := TimelineStartFrame clip,
     TimelineEndFrame := TimelineEndFrame clip, SourceStartFrame := SourceStartFrame clip,
     SourceEndFrame := SourceEndFrame clip, PlaybackRate := PlaybackRate clip,
     ParentBlockID := gid, Linked := True\<rparr>"

definition attach_inserted :: "rdoc \<Rightarrow> nat \<Rightarrow> gmap \<Rightarrow> bool \<Rightarrow> rclip \<Rightarrow> goint \<Rightarrow> tl_error + rdoc" where
  "attach_inserted d i op audio clip duration =
     (let grown = (if TrackID (Tracks d ! i) = ''visual_base''
            then d\<lparr>DurationFrames := i64 (DurationFrames d + duration)\<rparr> else d)
      in if \<not> audio then Inr (update_track i (\<lambda>t. t\<lparr>Clips := Clips t @ [clip]\<rparr>) grown)
      else (case trackByID d ''original_audio'' of
          None \<Rightarrow> Inl (ErrPlain ''original audio track missing'')
        | Some a \<Rightarrow>
            if Locked (Tracks d ! a) then Inl (trackLockedError (TrackID (Tracks d ! a)))
            else let
              gid = valueOr (stringValue (gget op ''parent_block_id'')) (''link_'' @ TimelineClipID clip);
              d1 = update_track a (\<lambda>t. sortTrack (t\<lparr>Clips := Clips t @ [audio_twin gid clip]\<rparr>)) grown
            in Inr (update_track i (\<lambda>t. t\<lparr>Clips := Clips t @ [link_to gid clip]\<rparr>) d1)))"

definition insertClip :: "rdoc \<Rightarrow> gmap \<Rightarrow> tl_error + edit" where
  "insertClip d op =
     bind_sum (join2 (frameValue op ''source_start_frame'') (frameValue op ''source_end_frame''))
       (\<lambda>(start, end').
     if stringValue (gget op ''asset_id'') = [] \<or> start < 0 \<or> end' \<le> start
     then Inl (ErrPlain ''insert_clip: bad arguments'')
     else (case trackByID d (valueOr (stringValue (gget op ''track_id'')) ''visual_base'') of
        None \<Rightarrow> Inl (ErrPlain ''insert_clip: track missing'')
      | Some i \<Rightarrow>
          if Locked (Tracks d ! i) then Inl (trackLockedError (TrackID (Tracks d ! i)))
          else bind_sum (insert_start d op (Tracks d ! i) (i64 (end' - start))) (\<lambda>s.
          bind_sum (insert_flag op) (\<lambda>audio.
          if audio \<and> TrackID (Tracks d ! i) \<noteq> ''visual_base''
          then Inl (ErrPlain ''original audio only with primary video'')
          else bind_sum (insert_metadata op) (\<lambda>meta.
          bind_sum (attach_inserted d i op audio
              (inserted_clip d op (Tracks d ! i) s (i64 (end' - start)) start end' meta) (i64 (end' - start)))
            (\<lambda>d'. Inr (d', case meta of None \<Rightarrow> [] | Some m \<Rightarrow> [MSet (fresh_ref d) m])))))))"

section \<open>Small edits of one clip\<close>

definition updateEditableClip ::
  "(rtrack \<Rightarrow> rclip \<Rightarrow> tl_error + rclip \<times> meta_write list) \<Rightarrow> rdoc \<Rightarrow> gmap \<Rightarrow> tl_error + edit" where
  "updateEditableClip update d op =
     bind_sum (editableLocation d op) (\<lambda>l.
     bind_sum (update (track_at d l) (clip_at d l)) (\<lambda>(c, ws). Inr (update_clip l (\<lambda>_. c) d, ws)))"

definition replaceClip :: "rdoc \<Rightarrow> gmap \<Rightarrow> tl_error + edit" where
  "replaceClip d op = updateEditableClip (\<lambda>_ c.
     let assetID = stringValue (gget op ''asset_id'');
         kind = stringValue (gget op ''asset_kind'');
         role = stringValue (gget op ''role'');
         meta = objectValue (gget op ''metadata'')
     in if assetID = [] then Inl (ErrPlain ''replace_clip: asset_id missing'')
        else Inr (c\<lparr>AssetID := assetID,
             AssetKind := (if kind \<noteq> [] then kind else AssetKind c),
             Role := (if role \<noteq> [] then role else Role c),
             Metadata := (case meta of None \<Rightarrow> Metadata c | Some _ \<Rightarrow> Some (fresh_ref d))\<rparr>,
           case meta of None \<Rightarrow> [] | Some m \<Rightarrow> [MSet (fresh_ref d) m])) d op"

definition adjustGain :: "rdoc \<Rightarrow> gmap \<Rightarrow> tl_error + edit" where
  "adjustGain d op = updateEditableClip (\<lambda>_ c.
     let gain = numberValue (gget op ''gain_db'') in
     if flt gain (Fin (- 60)) \<or> flt (Fin 12) gain then Inl (ErrPlain ''gain_db out of range'')
     else Inr (c\<lparr>ClipGainDB := gain\<rparr>, [])) d op"

definition editSubtitleText :: "rdoc \<Rightarrow> gmap \<Rightarrow> tl_error + edit" where
  "editSubtitleText d op = updateEditableClip (\<lambda>t c.
     if TrackID t \<noteq> ''subtitles'' then Inl (ErrPlain ''only subtitles have text'')
     else bind_sum (case map_of op ''text'' of
         None \<Rightarrow> Inr c
       | Some raw \<Rightarrow> (let text = TrimSpace (stringValue raw) in
           if text = [] then Inl (ErrPlain ''subtitle text empty'') else Inr (c\<lparr>ClipText := text\<rparr>))) (\<lambda>c1.
       bind_sum (case map_of op ''style'' of
         None \<Rightarrow> Inr c1
       | Some raw \<Rightarrow> (let style = TrimSpace (stringValue raw) in
           if \<not> isSubtitleStyle style then Inl (ErrPlain ''bad subtitle style'')
           else Inr (c1\<lparr>SubtitleStyle := style\<rparr>))) (\<lambda>c2. Inr (c2, [])))) d op"

text \<open>The clip, and the linked sound of a video clip.\<close>

definition fade_members :: "rdoc \<Rightarrow> loc \<Rightarrow> loc list" where
  "fade_members d l =
     l # (if trackFamily (track_at d l) = ''visual'' \<and> AssetKind (clip_at d l) = ''video''
            \<and> Linked (clip_at d l) \<and> ParentBlockID (clip_at d l) \<noteq> []
          then filter (\<lambda>m. TrackID (track_at d m) = ''original_audio'')
                 (linkedGroup d (ParentBlockID (clip_at d l))) else [])"

definition setClipFades :: "rdoc \<Rightarrow> gmap \<Rightarrow> tl_error + edit" where
  "setClipFades d op =
     bind_sum (editableLocation d op) (\<lambda>l.
     let track = track_at d l; selected = clip_at d l in
     if trackFamily track \<noteq> ''audio'' \<and> AssetKind selected \<noteq> ''video'' then Inl (ErrPlain ''clip has no fades'')
     else bind_sum (join2 (frameValue op ''fade_in_frames'') (frameValue op ''fade_out_frames''))
       (\<lambda>(fadeIn, fadeOut).
       let members = fade_members d l;
           bad = (\<lambda>m. Locked (track_at d m) \<or> fadeIn < 0 \<or> fadeOut < 0 \<or> i64 (fadeIn + fadeOut)
                   > i64 (TimelineEndFrame (clip_at d m) - TimelineStartFrame (clip_at d m)))
       in case find bad members of
            Some m \<Rightarrow> Inl (if Locked (track_at d m) then trackLockedError (TrackID (track_at d m))
                           else ErrPlain ''fades longer than the clip'')
          | None \<Rightarrow> Inr (update_members members
              (\<lambda>c. c\<lparr>FadeInFrames := fadeIn, FadeOutFrames := fadeOut\<rparr>) d, [])))"

definition removeTrackClips :: "rdoc \<Rightarrow> string \<Rightarrow> tl_error + edit" where
  "removeTrackClips d trackID =
     (case trackByID d trackID of
        None \<Rightarrow> Inl (ErrPlain ''track cannot be cleared'')
      | Some i \<Rightarrow>
          if trackID = ''visual_base'' then Inl (ErrPlain ''track cannot be cleared'')
          else if Locked (Tracks d ! i) then Inl (trackLockedError (TrackID (Tracks d ! i)))
          else Inr (update_track i (\<lambda>t. t\<lparr>Clips := []\<rparr>) d, []))"

end
