(* ===== verification/Timeline_Geometry.thy ===== *)
theory Timeline_Geometry
  imports Timeline_Wf Timeline_Edit
begin

text \<open>
  What the building blocks of the handlers do to the intervals of a track, as long as no frame
  number overflows: each clip step is the interval function of the same name in
  \<open>Timeline_Frames\<close>, and an update of group members changes the members and nothing else.
\<close>

section \<open>Bounds\<close>

definition small :: "goint \<Rightarrow> bool" where
  "small x \<longleftrightarrow> - 4503599627370496 \<le> x \<and> x \<le> 4503599627370496"

definition rate_ok :: "f64 \<Rightarrow> bool" where
  "rate_ok x \<longleftrightarrow> (case x of Fin r \<Rightarrow> 1 / 64 \<le> r | _ \<Rightarrow> False)"

text \<open>
  Fewer than \<open>2\<^sup>52\<close> frames (centuries of video) and no clip slower than 1/64: inside these bounds no
  sum of the editor leaves the 64-bit range and every frame number is an exact \<open>float64\<close>.
\<close>

definition clip_bounded :: "'m Clip \<Rightarrow> bool" where
  "clip_bounded c \<longleftrightarrow> small (SourceStartFrame c) \<and> small (SourceEndFrame c) \<and> rate_ok (effectiveRate c)"

definition in_bounds :: "'m Document \<Rightarrow> bool" where
  "in_bounds d \<longleftrightarrow> small (DurationFrames d) \<and> list_all clip_bounded (doc_clips d)"

fun value_small :: "gval \<Rightarrow> bool" where
  "value_small (GInt n) \<longleftrightarrow> small n"
| "value_small (GInt64 n) \<longleftrightarrow> small n"
| "value_small (GFloat (Fin x)) \<longleftrightarrow> \<bar>x\<bar> \<le> 4503599627370496"
| "value_small _ \<longleftrightarrow> True"

definition op_bounded :: "gmap \<Rightarrow> bool" where
  "op_bounded op \<longleftrightarrow> list_all (\<lambda>(k, v). value_small v
     \<and> (k = ''playback_rate'' \<longrightarrow> rate_ok (numberValue v))) op"

lemma in_bounds_core: "core d = core d' \<Longrightarrow> in_bounds d \<longleftrightarrow> in_bounds d'"
proof -
  have "in_bounds d \<longleftrightarrow> small (DurationFrames (core d)) \<and> list_all clip_bounded (doc_clips (core d))"
    for d :: "'x Document"
    by (simp add: in_bounds_def list_all_iff clip_bounded_def)
  moreover have "in_bounds d' \<longleftrightarrow> small (DurationFrames (core d')) \<and> list_all clip_bounded (doc_clips (core d'))"
    for d' :: "'y Document"
    by (simp add: in_bounds_def list_all_iff clip_bounded_def)
  ultimately show "core d = core d' \<Longrightarrow> in_bounds d \<longleftrightarrow> in_bounds d'" by metis
qed

lemma trunc_rat_bound: "\<bar>x\<bar> \<le> of_int n \<Longrightarrow> \<bar>trunc_rat x\<bar> \<le> n"
  unfolding trunc_rat_def by (auto simp: abs_if split: if_splits; linarith)

lemma int_of_f_small: "\<bar>x\<bar> \<le> 4503599627370496 \<Longrightarrow> small (int_of_f (Fin x))"
  using trunc_rat_bound [of x 4503599627370496] by (auto simp: small_def)

lemma frameValue_small:
  assumes "op_bounded op" and "frameValue op k = Inr n"
  shows "small n"
proof -
  obtain v where v: "map_of op k = Some v" using assms(2) by (auto simp: frameValue_def split: option.splits)
  then have "(k, v) \<in> set op" by (rule map_of_SomeD)
  with assms(1) have vs: "value_small v" by (auto simp: op_bounded_def list_all_iff)
  show ?thesis
  proof (cases v)
    case (GFloat x)
    with v vs assms(2) show ?thesis
      by (cases x) (auto simp: frameValue_def IsNaN_def IsInf_def split: if_splits
          simp del: int_of_f.simps intro: int_of_f_small)
  next
    case (GInt64 m)
    then have "i64 m = m" using v assms(2) by (simp add: frameValue_def split: if_splits)
    with GInt64 v vs assms(2) show ?thesis by (simp add: frameValue_def)
  qed (use v vs assms(2) in \<open>auto simp: frameValue_def\<close>)
qed

lemma frameValue_range_op [simp]:
  "frameValue (range_op s e) ''start_frame'' = Inr s"
  "frameValue (range_op s e) ''end_frame'' = Inr e"
  "frameValue ((''kind'', k) # range_op s e) ''start_frame'' = Inr s"
  "frameValue ((''kind'', k) # range_op s e) ''end_frame'' = Inr e"
  by (simp_all add: range_op_def frameValue_def)

text \<open>The new length of a retimed clip.\<close>

lemma unscale_bound:
  assumes "\<bar>n\<bar> \<le> 9007199254740992" and "rate_ok rate"
  shows "1 \<le> max 1 (unscale_frames n rate)" and "max 1 (unscale_frames n rate) \<le> 2305843009213693952"
proof -
  show "1 \<le> max 1 (unscale_frames n rate)" by simp
  obtain r where r: "rate = Fin r" "1 / 64 \<le> r" using assms(2) by (auto simp: rate_ok_def split: f64.splits)
  have "\<bar>of_int n / r\<bar> \<le> 576460752303423488"
  proof -
    have "\<bar>of_int n / r\<bar> = of_int \<bar>n\<bar> / r" using r by (simp add: abs_divide)
    also have "\<dots> \<le> of_int \<bar>n\<bar> / (1 / 64)" using r by (intro divide_left_mono) auto
    also have "\<dots> \<le> 576460752303423488" using assms(1) by simp
    finally show ?thesis .
  qed
  then have q: "\<bar>q\<bar> \<le> 1152921504606846976" if "rnd64 (of_int n / r) = Fin q" for q
    using rnd64_bound [OF that] by linarith
  have "unscale_frames n rate \<le> 2305843009213693952"
  proof (cases "rnd64 (of_int n / r)")
    case (Fin q)
    have "of_int \<bar>round_away q\<bar> \<le> (2305843009213693952 :: rat)"
      using round_away_abs [of q] q [OF Fin] by linarith
    then have "\<bar>round_away q\<bar> \<le> 2305843009213693952"
      by (simp only: of_int_le_numeral_iff)
    then have "round_away q \<le> 2305843009213693952" by linarith
    with Fin r assms(1) show ?thesis by (simp add: unscale_frames_def)
  qed (use r assms(1) in \<open>simp_all add: unscale_frames_def\<close>)
  then show "max 1 (unscale_frames n rate) \<le> 2305843009213693952" by simp
qed

section \<open>Clip steps as interval functions\<close>

lemma track_spans_step:
  assumes "\<And>c. c \<in> set (Clips t) \<Longrightarrow> image_mset span (mset (fst (f c))) = F (span c)"
  shows "track_spans (step_track f t) = (\<Sum>ab \<in># track_spans t. F ab)"
proof -
  have "image_mset span (mset (concat (map (fst \<circ> f) cs))) = (\<Sum>ab \<in># image_mset span (mset cs). F ab)"
    if "\<And>c. c \<in> set cs \<Longrightarrow> image_mset span (mset (fst (f c))) = F (span c)" for cs
    using that by (induction cs) auto
  with assms show ?thesis by (simp add: step_track_def track_spans_def)
qed

lemma step_track_fields [simp]:
  "TrackID (step_track f t) = TrackID t" "Locked (step_track f t) = Locked t"
  by (simp_all add: step_track_def)

lemma track_spans_step_single:
  assumes "\<And>c. c \<in> set (Clips t) \<Longrightarrow> image_mset span (mset (fst (f c))) = {#g (span c)#}"
  shows "track_spans (step_track f t) = image_mset g (track_spans t)"
  using track_spans_step [of t f "\<lambda>ab. {#g ab#}"] assms by simp

lemma sortTrack_spans [simp]: "track_spans (sortTrack t) = track_spans t"
  by (simp add: track_spans_def sortTrack_def)

lemma sortTrack_fields [simp]:
  "TrackID (sortTrack t) = TrackID t" "Locked (sortTrack t) = Locked t"
  "mset (Clips (sortTrack t)) = mset (Clips t)" "set (Clips (sortTrack t)) = set (Clips t)"
  by (simp_all add: sortTrack_def)

lemma delete_range_step_span:
  assumes "clip_in D c" and "small D" and "0 \<le> s" "s < e" "e \<le> D"
  shows "image_mset span (mset (fst (delete_range_step s e c))) = delete_span s e (span c)"
  using assms
  by (auto simp: delete_range_step_def splitClipAroundDeletedRange_def Let_def delete_span_def span_def
      clip_in_def small_def)

lemma shift_from_span:
  assumes "clip_in D c" and "small D" and "\<bar>delta\<bar> \<le> 4611686018427387904"
  shows "image_mset span (mset (fst (shift_from b delta c))) = {#shift_span b delta (span c)#}"
  using assms by (auto simp: shift_from_def shift_clip_def shift_span_def span_def clip_in_def small_def)

lemma erase_step_span:
  "image_mset span (mset (fst (erase_step s e c))) = erase_span s e (span c)"
  by (auto simp: erase_step_def Let_def erase_span_def span_def)

section \<open>Updates of single clips\<close>

lemma locate_in_Some:
  assumes "locate_in cid i ts = Some l"
  shows "i \<le> fst l \<and> fst l - i < length ts \<and> snd l < length (Clips (ts ! (fst l - i)))
     \<and> TimelineClipID (Clips (ts ! (fst l - i)) ! snd l) = cid"
  using assms
proof (induction ts arbitrary: i)
  case (Cons t ts)
  show ?case
  proof (cases "index_of (\<lambda>c. TimelineClipID c = cid) (Clips t)")
    case None
    with Cons.prems have "locate_in cid (Suc i) ts = Some l" by simp
    from Cons.IH [OF this] show ?thesis by (auto simp: nth_Cons' Suc_diff_le diff_Suc split: nat.splits)
  next
    case (Some j)
    with Cons.prems show ?thesis by (auto simp: index_of_Some)
  qed
qed simp

lemma locateClip_Inr:
  "locateClip d cid = Inr l \<Longrightarrow> valid_loc d l \<and> TimelineClipID (clip_at d l) = cid"
  by (auto simp: locateClip_def valid_loc_def clip_at_def track_at_def split: option.splits dest: locate_in_Some)

lemma editableLocation_Inr:
  "editableLocation d op = Inr l \<Longrightarrow> valid_loc d l \<and> \<not> Locked (track_at d l)
     \<and> TimelineClipID (clip_at d l) = stringValue (gget op ''timeline_clip_id'')"
  by (auto simp: editableLocation_def Let_def dest: locateClip_Inr split: if_splits)

lemma clip_at_doc: "valid_loc d l \<Longrightarrow> clip_at d l \<in> set (doc_clips d)"
  unfolding valid_loc_def clip_at_def track_at_def doc_clips_def
  by (auto intro!: bexI [of _ "Tracks d ! fst l"])

lemma clip_of_track: "i < length (Tracks d) \<Longrightarrow> c \<in> set (Clips (Tracks d ! i)) \<Longrightarrow> c \<in> set (doc_clips d)"
  by (force simp: doc_clips_def)

lemma in_linkedGroup:
  "m \<in> set (linkedGroup d gid) \<longleftrightarrow> gid \<noteq> [] \<and> valid_loc d m \<and> Linked (clip_at d m) \<and> ParentBlockID (clip_at d m) = gid"
  by (cases m) (auto simp: linkedGroup_def valid_loc_def clip_at_def track_at_def)

lemma distinct_pairs:
  "distinct xs \<Longrightarrow> distinct (concat (map (\<lambda>i. map (Pair i) (filter (P i) [0 ..< n i])) xs))"
  by (induction xs) (auto simp: distinct_map inj_on_def)

lemma distinct_linkedGroup: "distinct (linkedGroup d gid)"
  by (simp add: linkedGroup_def distinct_pairs)

end
