(* ===== verification/Timeline_Catalog.thy ===== *)
theory Timeline_Catalog
  imports Timeline_Model
begin

text \<open>
  The catalog of patch operations (\<open>op_catalog.go\<close>): the fields every kind of operation takes,
  and \<open>ValidateOpFields\<close>, the check that runs before any handler.  Go visits the keys of the operation in an arbitrary order
  when it looks for an unsupported field; here it is the order of the list.  Descriptions meant for the
  model's prompt are left out; the examples are kept.
\<close>

section \<open>The catalog\<close>

datatype OpFieldType =
    OpFieldString | OpFieldInteger | OpFieldNumber | OpFieldBoolean | OpFieldObject | OpFieldStringArray

record OpField =
  FieldName :: string
  FieldType :: OpFieldType
  Required :: bool
  Injected :: bool
  Generated :: bool
  FieldExample :: gval

record OpSpec =
  Kind :: string
  SpecFields :: "OpField list"
  RequireAny :: "string list"

definition field :: "string \<Rightarrow> OpFieldType \<Rightarrow> bool \<Rightarrow> gval \<Rightarrow> OpField" where
  "field name ty req ex = \<lparr>FieldName = name, FieldType = ty, Required = req, Injected = False,
     Generated = False, FieldExample = ex\<rparr>"

definition injectedField :: "string \<Rightarrow> OpFieldType \<Rightarrow> gval \<Rightarrow> OpField" where
  "injectedField name ty ex = \<lparr>FieldName = name, FieldType = ty, Required = False, Injected = True,
     Generated = False, FieldExample = ex\<rparr>"

definition generatedField :: "string \<Rightarrow> OpFieldType \<Rightarrow> gval \<Rightarrow> OpField" where
  "generatedField name ty ex = \<lparr>FieldName = name, FieldType = ty, Required = False, Injected = False,
     Generated = True, FieldExample = ex\<rparr>"

definition clipIDField :: OpField where
  "clipIDField = \<lparr>FieldName = ''timeline_clip_id'', FieldType = OpFieldString, Required = True,
     Injected = False, Generated = False, FieldExample = GStr ''clip_v1_001''\<rparr>"

definition Catalog :: "OpSpec list" where
  "Catalog = [
    \<lparr>Kind = ''trim_clip'',
     SpecFields = [clipIDField,
       field ''source_start_frame'' OpFieldInteger True (GInt 0),
       field ''source_end_frame'' OpFieldInteger True (GInt 150)],
     RequireAny = []\<rparr>,
    \<lparr>Kind = ''split_clip'',
     SpecFields = [clipIDField,
       field ''split_frame'' OpFieldInteger True (GInt 75),
       generatedField ''new_timeline_clip_id'' OpFieldString (GStr ''clip_v2_002'')],
     RequireAny = []\<rparr>,
    \<lparr>Kind = ''reorder_clip'',
     SpecFields = [clipIDField,
       field ''target_frame'' OpFieldInteger True (GInt 150)],
     RequireAny = []\<rparr>,
    \<lparr>Kind = ''move_clip'',
     SpecFields = [clipIDField,
       field ''target_frame'' OpFieldInteger True (GInt 150),
       field ''mode'' OpFieldString False (GStr ''insert''),
       field ''target_track_id'' OpFieldString False (GStr ''visual_overlay'')],
     RequireAny = []\<rparr>,
    \<lparr>Kind = ''trim_clip_edge'',
     SpecFields = [clipIDField,
       field ''timeline_frame'' OpFieldInteger True (GInt 75),
       field ''edge'' OpFieldString True (GStr ''end'')],
     RequireAny = []\<rparr>,
    \<lparr>Kind = ''delete_clip'',
     SpecFields = [clipIDField],
     RequireAny = []\<rparr>,
    \<lparr>Kind = ''set_track_state'',
     SpecFields = [field ''track_id'' OpFieldString True (GStr ''bgm''),
       field ''muted'' OpFieldBoolean False (GBool False),
       field ''solo'' OpFieldBoolean False (GBool False),
       field ''locked'' OpFieldBoolean False (GBool False),
       field ''gain_db'' OpFieldNumber False (GFloat (Fin 0))],
     RequireAny = [''muted'', ''solo'', ''locked'', ''gain_db'']\<rparr>,
    \<lparr>Kind = ''set_track_ducking'',
     SpecFields = [field ''track_id'' OpFieldString True (GStr ''bgm''),
       field ''enabled'' OpFieldBoolean True (GBool True),
       field ''duck_db'' OpFieldNumber True (GFloat (Fin (- 9))),
       field ''trigger_tracks'' OpFieldStringArray True (GStrs [''voiceover'', ''original_audio''])],
     RequireAny = []\<rparr>,
    \<lparr>Kind = ''set_clip_linked'',
     SpecFields = [clipIDField,
       field ''linked'' OpFieldBoolean True (GBool True)],
     RequireAny = []\<rparr>,
    \<lparr>Kind = ''insert_subtitle'',
     SpecFields = [field ''start_frame'' OpFieldInteger True (GInt 0),
       field ''end_frame'' OpFieldInteger True (GInt 90),
       field ''text'' OpFieldString True (GStr (bytes [231, 164, 186, 228, 190, 139, 229, 173, 151, 229, 185, 149])),
       field ''style'' OpFieldString False (GStr ''default''),
       generatedField ''timeline_clip_id'' OpFieldString (GStr ''subtitle_v2_001'')],
     RequireAny = []\<rparr>,
    \<lparr>Kind = ''delete_range'',
     SpecFields = [field ''start_frame'' OpFieldInteger True (GInt 30),
       field ''end_frame'' OpFieldInteger True (GInt 60)],
     RequireAny = []\<rparr>,
    \<lparr>Kind = ''delete_source_range'',
     SpecFields = [field ''asset_id'' OpFieldString True (GStr ''asset_001''),
       field ''source_start_frame'' OpFieldInteger True (GInt 30),
       field ''source_end_frame'' OpFieldInteger True (GInt 60)],
     RequireAny = []\<rparr>,
    \<lparr>Kind = ''insert_clip'',
     SpecFields = [field ''asset_id'' OpFieldString True (GStr ''asset_001''),
       field ''source_start_frame'' OpFieldInteger True (GInt 0),
       field ''source_end_frame'' OpFieldInteger True (GInt 150),
       field ''track_id'' OpFieldString False (GStr ''visual_base''),
       field ''timeline_start_frame'' OpFieldInteger False (GInt 0),
       field ''role'' OpFieldString False (GStr ''b_roll''),
       generatedField ''timeline_clip_id'' OpFieldString (GStr ''clip_v2_001''),
       generatedField ''parent_block_id'' OpFieldString (GStr ''link_clip_v2_001''),
       field ''metadata'' OpFieldObject False (GObj [(''source'', GStr ''catalog_example'')]),
       injectedField ''asset_kind'' OpFieldString (GStr ''video''),
       injectedField ''include_original_audio'' OpFieldBoolean (GBool True)],
     RequireAny = []\<rparr>,
    \<lparr>Kind = ''replace_clip'',
     SpecFields = [clipIDField,
       field ''asset_id'' OpFieldString True (GStr ''asset_002''),
       field ''role'' OpFieldString False (GStr ''b_roll''),
       injectedField ''asset_kind'' OpFieldString (GStr ''video''),
       injectedField ''metadata'' OpFieldObject (GObj [])],
     RequireAny = []\<rparr>,
    \<lparr>Kind = ''set_playback_rate'',
     SpecFields = [clipIDField,
       field ''playback_rate'' OpFieldNumber True (GFloat (Fin (5 / 4)))],
     RequireAny = []\<rparr>,
    \<lparr>Kind = ''adjust_gain'',
     SpecFields = [clipIDField,
       field ''gain_db'' OpFieldNumber True (GFloat (Fin (- 3)))],
     RequireAny = []\<rparr>,
    \<lparr>Kind = ''set_clip_fades'',
     SpecFields = [clipIDField,
       field ''fade_in_frames'' OpFieldInteger True (GInt 15),
       field ''fade_out_frames'' OpFieldInteger True (GInt 15)],
     RequireAny = []\<rparr>,
    \<lparr>Kind = ''edit_subtitle_text'',
     SpecFields = [clipIDField,
       field ''text'' OpFieldString False (GStr (bytes [228, 191, 174, 230, 148, 185, 229, 144, 142, 231, 154, 132, 229, 173, 151, 229, 185, 149])),
       field ''style'' OpFieldString False (GStr ''large_center'')],
     RequireAny = [''text'', ''style'']\<rparr>,
    \<lparr>Kind = ''remove_track_clips'',
     SpecFields = [field ''track_id'' OpFieldString True (GStr ''sfx'')],
     RequireAny = []\<rparr>]"

definition LookupOpSpec :: "string \<Rightarrow> OpSpec option" where
  "LookupOpSpec kind = find (\<lambda>s. Kind s = kind) Catalog"

section \<open>Field validation\<close>

fun validIntegerValue :: "gval \<Rightarrow> bool" where
  "validIntegerValue (GInt n) \<longleftrightarrow> True"
| "validIntegerValue (GInt64 n) \<longleftrightarrow> i64 n = n"
| "validIntegerValue (GFloat x) \<longleftrightarrow>
     \<not> (IsNaN x \<or> IsInf x \<or> \<not> feq (Trunc x) x) \<and> feq (f_of_int (int_of_f x)) x"
| "validIntegerValue _ \<longleftrightarrow> False"

fun validNumberValue :: "gval \<Rightarrow> bool" where
  "validNumberValue (GInt n) \<longleftrightarrow> True"
| "validNumberValue (GInt64 n) \<longleftrightarrow> True"
| "validNumberValue (GFloat x) \<longleftrightarrow> \<not> IsNaN x \<and> \<not> IsInf x"
| "validNumberValue _ \<longleftrightarrow> False"

fun is_string :: "gval \<Rightarrow> bool" where
  "is_string (GStr s) \<longleftrightarrow> True"
| "is_string _ \<longleftrightarrow> False"

fun valid_string_array :: "gval \<Rightarrow> bool" where
  "valid_string_array (GStrs ss) \<longleftrightarrow> True"
| "valid_string_array (GArr vs) \<longleftrightarrow> list_all is_string vs"
| "valid_string_array _ \<longleftrightarrow> False"

definition validOpFieldValue :: "OpFieldType \<Rightarrow> gval \<Rightarrow> bool" where
  "validOpFieldValue ty v = (case ty of
       OpFieldString \<Rightarrow> is_string v
     | OpFieldInteger \<Rightarrow> validIntegerValue v
     | OpFieldNumber \<Rightarrow> validNumberValue v
     | OpFieldBoolean \<Rightarrow> boolValue v \<noteq> None
     | OpFieldObject \<Rightarrow> objectValue v \<noteq> None
     | OpFieldStringArray \<Rightarrow> valid_string_array v)"

text \<open>The loop over the fields of the spec: the first field with a problem is the error.\<close>

fun check_fields :: "string \<Rightarrow> gmap \<Rightarrow> OpField list \<Rightarrow> tl_error + unit" where
  "check_fields kind op [] = Inr ()"
| "check_fields kind op (f # fs) =
     (case map_of op (FieldName f) of
        Some v \<Rightarrow>
          if \<not> validOpFieldValue (FieldType f) v
          then Inl (OpFieldError kind (FieldName f) ''wrong type'')
          else check_fields kind op fs
      | None \<Rightarrow>
          if Required f \<and> \<not> Injected f
          then Inl (OpFieldError kind (FieldName f) ''required field missing'')
          else check_fields kind op fs)"

definition ValidateOpFields :: "gmap \<Rightarrow> tl_error + unit" where
  "ValidateOpFields op =
     (case map_of op ''kind'' of
        None \<Rightarrow> Inl (OpFieldError [] ''kind'' ''required field missing'')
      | Some raw \<Rightarrow>
          if \<not> is_string raw \<or> stringValue raw = []
          then Inl (OpFieldError [] ''kind'' ''must be a non-empty string'')
          else (case LookupOpSpec (stringValue raw) of
            None \<Rightarrow> Inl (OpFieldError (stringValue raw) ''kind'' ''unsupported kind'')
          | Some spec \<Rightarrow> bind_sum (check_fields (Kind spec) op (SpecFields spec)) (\<lambda>_.
              case find (\<lambda>k. k \<noteq> ''kind'' \<and> k \<notin> set (map FieldName (SpecFields spec))) (map fst op) of
                Some k \<Rightarrow> Inl (OpFieldError (Kind spec) k ''field not supported'')
              | None \<Rightarrow>
                  if RequireAny spec \<noteq> [] \<and> (\<forall>k \<in> set (RequireAny spec). \<not> ghas op k)
                  then Inl (OpFieldError (Kind spec) (hd (RequireAny spec)) ''one of the fields required'')
                  else Inr ())))"

section \<open>Examples\<close>

fun cloneOpExampleValue :: "gval \<Rightarrow> gval" where
  "cloneOpExampleValue (GObj m) = GObj (map (\<lambda>(k, v). (k, cloneOpExampleValue v)) m)"
| "cloneOpExampleValue GNilMap = GObj []"
| "cloneOpExampleValue (GArr vs) = GArr (map cloneOpExampleValue vs)"
| "cloneOpExampleValue v = v"

definition CorrectOpExample :: "OpSpec \<Rightarrow> gmap" where
  "CorrectOpExample spec = fold (\<lambda>f ex.
       if Injected f \<or> Generated f \<or> FieldExample f = GNil then ex
       else gput (FieldName f) (cloneOpExampleValue (FieldExample f)) ex)
     (SpecFields spec) [(''kind'', GStr (Kind spec))]"

section \<open>Facts about the catalog\<close>

lemma LookupOpSpec_Kind: "LookupOpSpec k = Some spec \<Longrightarrow> Kind spec = k \<and> spec \<in> set Catalog"
  by (auto simp: LookupOpSpec_def find_Some_iff)

lemma catalog_kinds:
  "map Kind Catalog =
    [''trim_clip'', ''split_clip'', ''reorder_clip'', ''move_clip'', ''trim_clip_edge'', ''delete_clip'',
     ''set_track_state'', ''set_track_ducking'', ''set_clip_linked'', ''insert_subtitle'',
     ''delete_range'', ''delete_source_range'', ''insert_clip'', ''replace_clip'',
     ''set_playback_rate'', ''adjust_gain'', ''set_clip_fades'', ''edit_subtitle_text'',
     ''remove_track_clips'']"
  by (simp add: Catalog_def)

lemma check_fields_Inr:
  "check_fields kind op fs = Inr () \<longleftrightarrow>
     (\<forall>f \<in> set fs. (\<forall>v. map_of op (FieldName f) = Some v \<longrightarrow> validOpFieldValue (FieldType f) v)
        \<and> (Required f \<and> \<not> Injected f \<longrightarrow> ghas op (FieldName f)))"
  by (induction fs) (auto simp: ghas_def split: option.splits)

text \<open>What a valid operation is, without the order of the checks.\<close>

definition valid_op :: "gmap \<Rightarrow> OpSpec \<Rightarrow> bool" where
  "valid_op op spec \<longleftrightarrow>
     map_of op ''kind'' = Some (GStr (Kind spec)) \<and> Kind spec \<noteq> []
     \<and> (\<forall>f \<in> set (SpecFields spec).
          (\<forall>v. map_of op (FieldName f) = Some v \<longrightarrow> validOpFieldValue (FieldType f) v)
          \<and> (Required f \<and> \<not> Injected f \<longrightarrow> ghas op (FieldName f)))
     \<and> (\<forall>k \<in> fst ` set op. k = ''kind'' \<or> k \<in> FieldName ` set (SpecFields spec))
     \<and> (RequireAny spec = [] \<or> (\<exists>k \<in> set (RequireAny spec). ghas op k))"

lemma is_string_stringValue: "is_string v \<Longrightarrow> v = GStr (stringValue v)"
  by (cases v) auto

lemma ValidateOpFields_Inr:
  "ValidateOpFields op = Inr () \<longleftrightarrow>
     (\<exists>spec. LookupOpSpec (Kind spec) = Some spec \<and> valid_op op spec)"
proof
  assume ok: "ValidateOpFields op = Inr ()"
  then obtain raw spec where raw: "map_of op ''kind'' = Some raw" "is_string raw" "stringValue raw \<noteq> []"
    and spec: "LookupOpSpec (stringValue raw) = Some spec"
    by (auto simp: ValidateOpFields_def split: option.splits if_splits)
  note kind = LookupOpSpec_Kind [OF spec]
  with raw have "map_of op ''kind'' = Some (GStr (Kind spec))" and "Kind spec \<noteq> []"
    using is_string_stringValue [of raw] by auto
  moreover have "check_fields (Kind spec) op (SpecFields spec) = Inr ()"
    and "find (\<lambda>k. k \<noteq> ''kind'' \<and> k \<notin> set (map FieldName (SpecFields spec))) (map fst op) = None"
    and "\<not> (RequireAny spec \<noteq> [] \<and> (\<forall>k \<in> set (RequireAny spec). \<not> ghas op k))"
    using ok raw spec
    by (auto simp: ValidateOpFields_def split: option.splits if_splits sum.splits)
  ultimately have "valid_op op spec"
    by (auto simp: valid_op_def check_fields_Inr find_None_iff)
  then show "\<exists>spec. LookupOpSpec (Kind spec) = Some spec \<and> valid_op op spec"
    using kind spec by metis
next
  assume "\<exists>spec. LookupOpSpec (Kind spec) = Some spec \<and> valid_op op spec"
  then obtain spec where spec: "LookupOpSpec (Kind spec) = Some spec" and v: "valid_op op spec"
    by blast
  have "check_fields (Kind spec) op (SpecFields spec) = Inr ()"
    using v by (auto simp: valid_op_def check_fields_Inr)
  moreover have "find (\<lambda>k. k \<noteq> ''kind'' \<and> k \<notin> set (map FieldName (SpecFields spec))) (map fst op) = None"
    using v by (auto simp: valid_op_def find_None_iff)
  moreover have "\<not> (RequireAny spec \<noteq> [] \<and> (\<forall>k \<in> set (RequireAny spec). \<not> ghas op k))"
    using v by (auto simp: valid_op_def)
  ultimately show "ValidateOpFields op = Inr ()"
    using v spec by (auto simp: ValidateOpFields_def valid_op_def)
qed

lemma required_field:
  assumes "ValidateOpFields op = Inr ()" and "LookupOpSpec (stringValue (gget op ''kind'')) = Some spec"
    and "f \<in> set (SpecFields spec)" "Required f" "\<not> Injected f"
  shows "ghas op (FieldName f)"
proof -
  obtain spec' where s: "LookupOpSpec (Kind spec') = Some spec'" "valid_op op spec'"
    using assms(1) by (auto simp: ValidateOpFields_Inr)
  then have "stringValue (gget op ''kind'') = Kind spec'" by (simp add: valid_op_def gget_def)
  with s assms(2) have "spec' = spec" by simp
  with s(2) assms(3-5) show ?thesis by (auto simp: valid_op_def)
qed

end
