(* ===== verification/Timeline_Patch.thy ===== *)
theory Timeline_Patch
  imports Timeline_Edit Timeline_Catalog
begin

text \<open>
  \<open>ApplyPatch\<close>: validate the operation's fields, clone the document, run the handler of the kind,
  clamp the fades, and stamp the next version.  Also \<open>DeriveOriginalAudio\<close>, which rebuilds the
  original-audio track from the primary track.
\<close>

section \<open>Dispatch\<close>

definition run_handler :: "string \<Rightarrow> rdoc \<Rightarrow> gmap \<Rightarrow> tl_error + edit" where
  "run_handler kind d op =
     (if kind = ''trim_clip'' then trimClip d op
      else if kind = ''split_clip'' then splitClip d op
      else if kind = ''reorder_clip'' then reorderClip d op
      else if kind = ''move_clip'' then moveClip d op
      else if kind = ''trim_clip_edge'' then trimClipEdge d op
      else if kind = ''delete_clip'' then deleteClip d op
      else if kind = ''set_track_state'' then setTrackState d op
      else if kind = ''set_track_ducking'' then setTrackDucking d op
      else if kind = ''set_clip_linked'' then setClipLinked d op
      else if kind = ''insert_subtitle'' then insertSubtitle d op
      else if kind = ''delete_range'' then deleteRange d op
      else if kind = ''delete_source_range'' then deleteSourceRange d op
      else if kind = ''insert_clip'' then insertClip d op
      else if kind = ''replace_clip'' then replaceClip d op
      else if kind = ''set_playback_rate'' then setPlaybackRate d op
      else if kind = ''adjust_gain'' then adjustGain d op
      else if kind = ''set_clip_fades'' then setClipFades d op
      else if kind = ''edit_subtitle_text'' then editSubtitleText d op
      else if kind = ''remove_track_clips'' then removeTrackClips d (stringValue (gget op ''track_id''))
      else Inl (ErrPlain ''unsupported patch op''))"

definition clamp_fades :: "'m Clip \<Rightarrow> 'm Clip" where
  "clamp_fades c =
     (let duration = max 0 (i64 (TimelineEndFrame c - TimelineStartFrame c));
          fadeIn = clampInt (FadeInFrames c) 0 duration
      in c\<lparr>FadeInFrames := fadeIn,
            FadeOutFrames := clampInt (FadeOutFrames c) 0 (i64 (duration - fadeIn))\<rparr>)"

definition clampClipFades :: "'m Document \<Rightarrow> 'm Document" where
  "clampClipFades d = map_tracks (\<lambda>t. t\<lparr>Clips := map clamp_fades (Clips t)\<rparr>) d"

text \<open>\<open>copy.Version++\<close> and the new id.\<close>

definition next_version :: "'m Document \<Rightarrow> 'm Document" where
  "next_version d = d\<lparr>Version := i64 (Version d + 1),
     TimelineID := timeline_id (DraftID d) (i64 (Version d + 1))\<rparr>"

definition dispatch :: "rdoc \<Rightarrow> gmap \<Rightarrow> tl_error + edit" where
  "dispatch d op = run_handler (stringValue (gget op ''kind'')) d op"

text \<open>Clone, edit, clamp, stamp; the writes through metadata maps take effect in the result.\<close>

definition apply_handler :: "(rdoc \<Rightarrow> gmap \<Rightarrow> tl_error + edit) \<Rightarrow> vdoc \<Rightarrow> gmap \<Rightarrow> tl_error + vdoc" where
  "apply_handler h d op =
     bind_sum (clone d) (\<lambda>(copy, st).
     bind_sum (h copy op) (\<lambda>(d1, ws).
     Inr (resolve (store_writes ws st) (next_version (clampClipFades d1)))))"

definition ApplyPatch :: "vdoc \<Rightarrow> gmap \<Rightarrow> tl_error + vdoc" where
  "ApplyPatch d op = bind_sum (ValidateOpFields op) (\<lambda>_. apply_handler dispatch d op)"

section \<open>Deriving the original audio\<close>

definition has_audio :: "string list \<Rightarrow> rclip \<Rightarrow> bool" where
  "has_audio audioAssets v \<longleftrightarrow> AssetID v \<in> set audioAssets"

definition sync_parent :: "rclip \<Rightarrow> string" where
  "sync_parent v = (if ParentBlockID v = [] then ''sync_'' @ TimelineClipID v else ParentBlockID v)"

definition relink_visual :: "string list \<Rightarrow> rclip \<Rightarrow> rclip" where
  "relink_visual audioAssets v =
     (if \<not> has_audio audioAssets v then (if Linked v then unlink v else v)
      else link_to (sync_parent v) v)"

text \<open>The last clip with a key wins, as when a Go map is filled in a loop.\<close>

definition existing_audio :: "rclip list \<Rightarrow> rclip \<Rightarrow> rclip" where
  "existing_audio cs v =
     (case map_of (rev (map (\<lambda>c. (ParentBlockID c, c)) (filter (\<lambda>c. ParentBlockID c \<noteq> []) cs))) (sync_parent v) of
        Some c \<Rightarrow> c
      | None \<Rightarrow> (case map_of (rev (map (\<lambda>c. (TimelineClipID c, c)) cs)) (TimelineClipID v @ ''_audio'') of
          Some c \<Rightarrow> c
        | None \<Rightarrow> zero_clip))"

definition derived_audio :: "rclip list \<Rightarrow> rclip \<Rightarrow> rclip" where
  "derived_audio cs v = (existing_audio cs v)\<lparr>TimelineClipID := TimelineClipID v @ ''_audio'',
     ClipTrackID := ''original_audio'', AssetID := AssetID v, AssetKind := AssetKind v,
     Role := ''original_audio'', TimelineStartFrame := TimelineStartFrame v,
     TimelineEndFrame := TimelineEndFrame v, SourceStartFrame := SourceStartFrame v,
     SourceEndFrame := SourceEndFrame v, PlaybackRate := effectiveRate v,
     ParentBlockID := sync_parent v, Linked := True\<rparr>"

definition rebuildOriginalAudio :: "string list \<Rightarrow> rdoc \<Rightarrow> tl_error + rdoc" where
  "rebuildOriginalAudio audioAssets d =
     (case (trackByID d ''visual_base'', trackByID d ''original_audio'') of
        (Some p, Some a) \<Rightarrow>
          if Locked (Tracks d ! p) then Inl (trackLockedError (TrackID (Tracks d ! p)))
          else if Locked (Tracks d ! a) then Inl (trackLockedError (TrackID (Tracks d ! a)))
          else let visuals = Clips (Tracks d ! p); old = Clips (Tracks d ! a);
                   rebuilt = map (derived_audio old) (filter (has_audio audioAssets) visuals);
                   d1 = update_track p (\<lambda>t. t\<lparr>Clips := map (relink_visual audioAssets) (Clips t)\<rparr>) d
               in Inr (update_track a (\<lambda>t. sortTrack (t\<lparr>Clips := rebuilt\<rparr>)) d1)
      | _ \<Rightarrow> Inl (ErrPlain ''primary or original audio track missing''))"

definition DeriveOriginalAudio :: "vdoc \<Rightarrow> string list \<Rightarrow> tl_error + vdoc" where
  "DeriveOriginalAudio d audioAssetIDs =
     bind_sum (clone d) (\<lambda>(copy, st).
     bind_sum (rebuildOriginalAudio (filter (\<lambda>a. a \<noteq> []) audioAssetIDs) copy) (\<lambda>d1.
     Inr (resolve st d1)))"

end
