(* ===== verification/Timeline_Tiling.thy ===== *)
theory Timeline_Tiling
  imports Timeline_Geometry Timeline_Patch
begin

text \<open>
  Every handler keeps the primary track a tiling of the timeline.  \<open>kept\<close> is for the handlers that
  do not touch the picture; the others are shown to grow, shrink, cut or permute it.
\<close>

section \<open>Edits that leave the picture alone\<close>

definition kept :: "'m Document \<Rightarrow> 'm Document \<Rightarrow> bool" where
  "kept d d' \<longleftrightarrow> map TrackID (Tracks d') = map TrackID (Tracks d) \<and> DurationFrames d' = DurationFrames d
     \<and> (\<forall>p < length (Tracks d). TrackID (Tracks d ! p) = ''visual_base'' \<longrightarrow>
          track_spans (Tracks d' ! p) = track_spans (Tracks d ! p))"

lemma kept_refl [simp, intro]: "kept d d"
  by (simp add: kept_def)

lemma kept_trans: "kept d d' \<Longrightarrow> kept d' d'' \<Longrightarrow> kept d d''"
  unfolding kept_def by (metis length_map nth_map)

lemma kept_ids: "kept d d' \<Longrightarrow> map TrackID (Tracks d') = map TrackID (Tracks d)"
  by (simp add: kept_def)

lemma kept_tiled:
  assumes "kept d d'" and "picture_tiled d"
  shows "picture_tiled d'"
proof -
  have "trackByID d' = trackByID d" using assms(1) by (intro trackByID_ids) (simp add: kept_def)
  moreover from this have "primary_spans d' = primary_spans d"
    using assms(1) by (auto simp: primary_spans_def kept_def dest: trackByID_Some split: option.split)
  ultimately show ?thesis using assms by (simp add: picture_tiled_def kept_def)
qed

lemma kept_update_track:
  assumes "TrackID (f (Tracks d ! i)) = TrackID (Tracks d ! i)"
    and "TrackID (Tracks d ! i) = ''visual_base'' \<Longrightarrow> track_spans (f (Tracks d ! i)) = track_spans (Tracks d ! i)"
  shows "kept d (update_track i f d)"
proof (cases "i < length (Tracks d)")
  case True
  have "map TrackID ((Tracks d)[i := f (Tracks d ! i)]) = map TrackID (Tracks d)"
    using True assms(1) by (simp add: map_update list_update_same_conv)
  with assms(2) True show ?thesis
    by (auto simp: kept_def update_track_def nth_list_update)
qed (simp add: kept_def update_track_def list_update_beyond)

lemma kept_map_tracks:
  assumes "\<And>t. TrackID (f t) = TrackID t"
    and "\<And>t. TrackID t = ''visual_base'' \<Longrightarrow> track_spans (f t) = track_spans t"
  shows "kept d (map_tracks f d)"
  using assms by (auto simp: kept_def map_tracks_def)

lemma span_list_update:
  assumes "j < length cs \<Longrightarrow> span (f (cs ! j)) = span (cs ! j)"
  shows "image_mset span (mset (cs[j := f (cs ! j)])) = image_mset span (mset cs)"
proof (cases "j < length cs")
  case True
  have "map span (cs[j := f (cs ! j)]) = map span cs"
    using assms [OF True] True by (simp add: map_update list_update_same_conv)
  then show ?thesis by (metis mset_map)
qed (simp add: list_update_beyond)

lemma kept_update_clip:
  assumes "valid_loc d l \<Longrightarrow> span (f (clip_at d l)) = span (clip_at d l)"
  shows "kept d (update_clip l f d)"
proof (cases "fst l < length (Tracks d)")
  case True
  then show ?thesis
    unfolding update_clip_def
    by (intro kept_update_track)
      (use assms in \<open>auto simp: track_spans_def valid_loc_def track_at_def clip_at_def intro!: span_list_update\<close>)
qed (simp add: kept_def update_clip_def update_track_def list_update_beyond)

lemma kept_update_clip_free:
  "TrackID (track_at d l) \<noteq> ''visual_base'' \<Longrightarrow> kept d (update_clip l f d)"
  unfolding update_clip_def by (intro kept_update_track) (auto simp: track_at_def)

lemma kept_update_members:
  assumes "\<And>c. span (f c) = span c"
  shows "kept d (update_members ms f d)"
  unfolding update_members_def
proof (induction ms arbitrary: d)
  case (Cons m ms)
  show ?case using kept_trans [OF kept_update_clip Cons.IH] assms by simp
qed simp

lemma track_at_kept: "kept d d' \<Longrightarrow> fst l < length (Tracks d) \<Longrightarrow> TrackID (track_at d' l) = TrackID (track_at d l)"
  unfolding kept_def track_at_def by (metis length_map nth_map)

lemma update_clip_length [simp]: "length (Tracks (update_clip l f d)) = length (Tracks d)"
  by (simp add: update_clip_def update_track_def)

lemma update_clip_track_id [simp]: "TrackID (Tracks (update_clip l f d) ! i) = TrackID (Tracks d ! i)"
  by (cases "i = fst l"; cases "i < length (Tracks d)")
    (auto simp: update_clip_def update_track_def list_update_beyond nth_list_update)

lemma kept_update_members_free:
  assumes "\<And>m. m \<in> set ms \<Longrightarrow> TrackID (track_at d m) \<noteq> ''visual_base''"
  shows "kept d (update_members ms f d)"
  using assms unfolding update_members_def
proof (induction ms arbitrary: d)
  case (Cons m ms)
  have "kept (update_clip m f d) (fold (\<lambda>l. update_clip l f) ms (update_clip m f d))"
    using Cons.prems by (intro Cons.IH) (auto simp: track_at_def)
  moreover have "kept d (update_clip m f d)" using Cons.prems by (intro kept_update_clip_free) simp
  ultimately show ?case using kept_trans by auto
qed simp

section \<open>Handlers that leave the picture alone\<close>

lemma set_flags_fields:
  "set_flags tid op ks tc = Inr tc' \<Longrightarrow> TrackID (fst tc') = TrackID (fst tc) \<and> Clips (fst tc') = Clips (fst tc)"
proof (induction ks arbitrary: tc)
  case (Cons k ks)
  then show ?case
    by (auto simp: set_flag_def split: option.splits if_splits dest!: Cons.IH)
qed simp

lemma set_track_gain_fields:
  "set_track_gain op tc = Inr tc' \<Longrightarrow> TrackID (fst tc') = TrackID (fst tc) \<and> Clips (fst tc') = Clips (fst tc)"
  by (auto simp: set_track_gain_def split: option.splits if_splits)

lemma setTrackState_kept: "setTrackState_order ks d op = Inr (d', ws) \<Longrightarrow> kept d d'"
  unfolding setTrackState_order_def Let_def
  by (auto split: option.splits if_splits dest!: set_flags_fields set_track_gain_fields
      simp: track_spans_def intro!: kept_update_track)

lemma setTrackDucking_kept: "setTrackDucking d op = Inr (d', ws) \<Longrightarrow> kept d d'"
  by (auto simp: setTrackDucking_def track_spans_def intro!: kept_update_track)

lemma span_unlink [simp]: "span (unlink c) = span c" and span_link_to [simp]: "span (link_to g c) = span c"
  by (simp_all add: span_def unlink_def link_to_def)

lemma unlink_clip_kept: "unlink_clip d l = Inr (d', ws) \<Longrightarrow> kept d d'"
proof (cases "Linked (clip_at d l)")
  case True
  moreover assume "unlink_clip d l = Inr (d', ws)"
  ultimately show ?thesis
    by (auto simp: unlink_clip_def Let_def intro!: kept_trans [OF kept_update_clip kept_update_clip] kept_update_clip)
next
  case False
  moreover assume "unlink_clip d l = Inr (d', ws)"
  ultimately show ?thesis
    by (auto simp: unlink_clip_def Let_def span_def intro!: kept_update_clip)
qed

lemma link_clip_kept: "link_clip d l = Inr (d', ws) \<Longrightarrow> kept d d'"
  by (auto simp: link_clip_def Let_def intro!: kept_trans [OF kept_update_clip kept_update_clip] split: if_splits)

lemma setClipLinked_kept: "setClipLinked d op = Inr (d', ws) \<Longrightarrow> kept d d'"
  by (auto simp: setClipLinked_def dest: unlink_clip_kept link_clip_kept split: if_splits)

lemma insertSubtitle_kept: "insertSubtitle d op = Inr (d', ws) \<Longrightarrow> kept d d'"
  by (auto simp: insertSubtitle_def Let_def intro!: kept_update_track dest: trackByID_Some)

lemma updateEditableClip_kept:
  assumes "updateEditableClip u d op = Inr (d', ws)" and "\<And>t c c' ws. u t c = Inr (c', ws) \<Longrightarrow> span c' = span c"
  shows "kept d d'"
  using assms by (auto simp: updateEditableClip_def intro!: kept_update_clip)

lemma replaceClip_kept: "replaceClip d op = Inr (d', ws) \<Longrightarrow> kept d d'"
  unfolding replaceClip_def
  by (erule updateEditableClip_kept) (auto simp: Let_def span_def)

lemma adjustGain_kept: "adjustGain d op = Inr (d', ws) \<Longrightarrow> kept d d'"
  unfolding adjustGain_def
  by (erule updateEditableClip_kept) (auto simp: Let_def span_def)

lemma editSubtitleText_kept: "editSubtitleText d op = Inr (d', ws) \<Longrightarrow> kept d d'"
  unfolding editSubtitleText_def
  by (erule updateEditableClip_kept) (auto simp: Let_def span_def split: option.splits)

lemma setClipFades_kept: "setClipFades d op = Inr (d', ws) \<Longrightarrow> kept d d'"
  by (auto simp: setClipFades_def Let_def span_def intro!: kept_update_members)

lemma removeTrackClips_kept: "removeTrackClips d tid = Inr (d', ws) \<Longrightarrow> kept d d'"
  by (auto simp: removeTrackClips_def intro!: kept_update_track dest: trackByID_Some)

end
