(* ===== verification/Timeline_Picture.thy ===== *)
theory Timeline_Picture
  imports Timeline_Tiling
begin

text \<open>
  The handlers that change the picture: ripple deletion, retiming, splitting, reordering, moving
  and inserting.  Each is traced to one interval lemma of \<open>Timeline_Frames\<close>.
\<close>

section \<open>Preparations\<close>

text \<open>
  \<open>Validate\<close> lets a clip of a free track join the group of a linked picture.  The picture is only
  safe from retiming such a clip when no group is mixed in this way.
\<close>

definition groups_unmixed :: "'m Document \<Rightarrow> bool" where
  "groups_unmixed d \<longleftrightarrow> list_all (\<lambda>t. TrackID t = ''visual_base'' \<or> TrackID t = ''original_audio'' \<or>
     list_all (\<lambda>c. Linked c \<and> ParentBlockID c \<noteq> [] \<longrightarrow> group_clips d ''visual_base'' (ParentBlockID c) = [])
       (Clips t)) (Tracks d)"

lemma groups_unmixed_core: "core d = core d' \<Longrightarrow> groups_unmixed d \<longleftrightarrow> groups_unmixed d'"
proof -
  have *: "groups_unmixed e \<longleftrightarrow> list_all (\<lambda>t. TrackID t = ''visual_base'' \<or> TrackID t = ''original_audio'' \<or>
     list_all (\<lambda>c. Linked c \<and> ParentBlockID c \<noteq> [] \<longrightarrow> group_clips (core e) ''visual_base'' (ParentBlockID c) = [])
       (Clips t)) (Tracks (core e))" for e :: "'x Document"
    by (simp add: groups_unmixed_def list.pred_map comp_def)
  have **: "groups_unmixed e \<longleftrightarrow> list_all (\<lambda>t. TrackID t = ''visual_base'' \<or> TrackID t = ''original_audio'' \<or>
     list_all (\<lambda>c. Linked c \<and> ParentBlockID c \<noteq> [] \<longrightarrow> group_clips (core e) ''visual_base'' (ParentBlockID c) = [])
       (Clips t)) (Tracks (core e))" for e :: "'y Document"
    by (simp add: groups_unmixed_def list.pred_map comp_def)
  show "core d = core d' \<Longrightarrow> groups_unmixed d \<longleftrightarrow> groups_unmixed d'"
    unfolding * [of d] ** [of d'] by simp
qed

text \<open>A document an edit may start from.\<close>

definition editable :: "'m Document \<Rightarrow> bool" where
  "editable d \<longleftrightarrow> wf d \<and> in_bounds d \<and> groups_unmixed d"

lemma editable_clip:
  assumes "editable d" and "c \<in> set (doc_clips d)"
  shows "clip_in (DurationFrames d) c" and "clip_bounded c"
  using assms by (auto simp: editable_def wf_def in_bounds_def list_all_iff)

lemma editable_small: "editable d \<Longrightarrow> small (DurationFrames d)"
  by (simp add: editable_def in_bounds_def)

lemma tiledI:
  assumes "trackByID d ''visual_base'' = Some p" and "map TrackID (Tracks d') = map TrackID (Tracks d)"
    and "tiles (track_spans (Tracks d' ! p)) (DurationFrames d')"
  shows "picture_tiled d'"
proof -
  have "trackByID d' ''visual_base'' = Some p"
    using assms(1) trackByID_ids [OF assms(2)] by simp
  with assms(3) show ?thesis by (simp add: picture_tiled_def primary_spans_def)
qed

lemma tiles_cut_at:
  assumes "tiles M D" and "s \<in># M" and "fst s = q \<or> snd s = q" and "t \<in># M"
  shows "snd t \<le> q \<or> q \<le> fst t"
proof -
  obtain N where N: "M = add_mset s N" using assms(2) by (metis insert_DiffM)
  show ?thesis
  proof (cases "t = s")
    case True
    with assms(3) tilesD [OF assms(1,2)] show ?thesis by auto
  next
    case False
    with assms(4) N have "t \<in># N" by simp
    from tiles_disjoint [OF assms(1) [unfolded N] this] assms(3) tilesD [OF assms(1,2)]
      tilesD [OF assms(1,4)] show ?thesis by auto
  qed
qed

lemma map_tracks_nth [simp]: "i < length (Tracks d) \<Longrightarrow> Tracks (map_tracks f d) ! i = f (Tracks d ! i)"
  by (simp add: map_tracks_def)

lemma map_tracks_fields [simp]:
  "length (Tracks (map_tracks f d)) = length (Tracks d)" "DurationFrames (map_tracks f d) = DurationFrames d"
  "Tracks (map_tracks f d) = map f (Tracks d)"
  by (simp_all add: map_tracks_def)

lemma update_track_fields [simp]:
  "length (Tracks (update_track i f d)) = length (Tracks d)"
  "DurationFrames (update_track i f d) = DurationFrames d"
  "Tracks (update_track i f d) = (Tracks d)[i := f (Tracks d ! i)]"
  by (simp_all add: update_track_def)

section \<open>Ripple deletion\<close>

lemma deleteRange_spans:
  assumes ok: "deleteRange d op = Inr (d', ws)"
    and p: "p < length (Tracks d)" "\<forall>c \<in> set (Clips (Tracks d ! p)). clip_in (DurationFrames d) c"
    and D: "small (DurationFrames d)"
    and args: "frameValue op ''start_frame'' = Inr s" "frameValue op ''end_frame'' = Inr e"
  shows "0 \<le> s" "s < e" "e \<le> DurationFrames d" "DurationFrames d' = DurationFrames d - (e - s)"
    "map TrackID (Tracks d') = map TrackID (Tracks d)"
    "track_spans (Tracks d' ! p) = (\<Sum>ab \<in># track_spans (Tracks d ! p). delete_span s e ab)"
proof -
  show r: "0 \<le> s" "s < e" "e \<le> DurationFrames d"
    using ok args by (auto simp: deleteRange_def)
  have d': "d' = map_tracks sortTrack ((map_tracks (step_track (delete_range_step s e)) d)
      \<lparr>DurationFrames := i64 (DurationFrames d - i64 (e - s))\<rparr>)"
    using ok args by (auto simp: deleteRange_def Let_def)
  show "DurationFrames d' = DurationFrames d - (e - s)"
    using r D by (simp add: d' small_def)
  show "map TrackID (Tracks d') = map TrackID (Tracks d)"
    by (simp add: d' comp_def)
  show "track_spans (Tracks d' ! p) = (\<Sum>ab \<in># track_spans (Tracks d ! p). delete_span s e ab)"
    using p(1) by (simp add: d') (rule track_spans_step, rule delete_range_step_span [OF bspec [OF p(2)] D r])
qed

text \<open>A tiled primary track, and the clips on it lie inside the timeline.\<close>

lemma picture_primary:
  assumes "picture_tiled d"
  obtains p where "trackByID d ''visual_base'' = Some p" and "p < length (Tracks d)"
    and "TrackID (Tracks d ! p) = ''visual_base''" and "tiles (track_spans (Tracks d ! p)) (DurationFrames d)"
    and "\<forall>c \<in> set (Clips (Tracks d ! p)). clip_in (DurationFrames d) c"
proof -
  from assms obtain p where p: "trackByID d ''visual_base'' = Some p"
    by (auto simp: picture_tiled_def)
  with assms have t: "tiles (track_spans (Tracks d ! p)) (DurationFrames d)"
    by (simp add: picture_tiled_def primary_spans_def)
  have "\<forall>c \<in> set (Clips (Tracks d ! p)). clip_in (DurationFrames d) c"
  proof
    fix c assume "c \<in> set (Clips (Tracks d ! p))"
    then have "span c \<in># track_spans (Tracks d ! p)" by (simp add: track_spans_def)
    from tilesD [OF t this] show "clip_in (DurationFrames d) c" by (simp add: clip_in_def)
  qed
  with p t trackByID_Some [OF p] that show ?thesis by blast
qed

lemma editable_tiled: "editable d \<Longrightarrow> picture_tiled d"
  by (simp add: editable_def wf_def)

lemma deleteRange_tiled:
  assumes e: "picture_tiled d" "small (DurationFrames d)" and ok: "deleteRange d op = Inr (d', ws)"
  shows "picture_tiled d'"
proof -
  obtain p where p: "trackByID d ''visual_base'' = Some p" "p < length (Tracks d)"
    and t: "tiles (track_spans (Tracks d ! p)) (DurationFrames d)"
    and cin: "\<forall>c \<in> set (Clips (Tracks d ! p)). clip_in (DurationFrames d) c"
    using picture_primary [OF e(1)] by blast
  obtain s f where args: "frameValue op ''start_frame'' = Inr s" "frameValue op ''end_frame'' = Inr f"
    using ok by (auto simp: deleteRange_def)
  note dr = deleteRange_spans [OF ok p(2) cin e(2) args]
  show ?thesis
    using tiles_delete [OF t dr(1-3)] by (intro tiledI [OF p(1) dr(5)]) (simp add: dr)
qed

lemma deleteSourceRange_tiled:
  assumes "picture_tiled d" "small (DurationFrames d)" and "deleteSourceRange d op = Inr (d', ws)"
  shows "picture_tiled d'"
  using assms by (auto simp: deleteSourceRange_def Let_def split: prod.splits dest: deleteRange_tiled)

section \<open>Retiming\<close>

lemma update_clip_other: "fst l \<noteq> p \<Longrightarrow> Tracks (update_clip l f d) ! p = Tracks d ! p"
  by (simp add: update_clip_def)

lemma update_members_other:
  "\<forall>m \<in> set ms. fst m \<noteq> p \<Longrightarrow> Tracks (update_members ms f d) ! p = Tracks d ! p"
  unfolding update_members_def
  by (induction ms arbitrary: d) (simp_all add: update_clip_other)

lemma update_members_frame [simp]:
  "length (Tracks (update_members ms f d)) = length (Tracks d)"
  "map TrackID (Tracks (update_members ms f d)) = map TrackID (Tracks d)"
  "DurationFrames (update_members ms f d) = DurationFrames d"
proof -
  have one: "length (Tracks (update_clip l f d)) = length (Tracks d)
      \<and> map TrackID (Tracks (update_clip l f d)) = map TrackID (Tracks d)
      \<and> DurationFrames (update_clip l f d) = DurationFrames d" for l d
    by (auto intro: nth_equalityI simp: nth_map) (simp add: update_clip_def)
  have "length (Tracks (update_members ms f d)) = length (Tracks d)
      \<and> map TrackID (Tracks (update_members ms f d)) = map TrackID (Tracks d)
      \<and> DurationFrames (update_members ms f d) = DurationFrames d"
    unfolding update_members_def using one by (induction ms arbitrary: d) simp_all
  then show "length (Tracks (update_members ms f d)) = length (Tracks d)"
    "map TrackID (Tracks (update_members ms f d)) = map TrackID (Tracks d)"
    "DurationFrames (update_members ms f d) = DurationFrames d" by auto
qed

text \<open>With one member on track \<open>p\<close>, the update changes that clip there and nothing else.\<close>

lemma update_members_single:
  assumes m0: "(p, j) \<in> set ms" "distinct ms" and only: "\<And>m. m \<in> set ms \<Longrightarrow> fst m = p \<Longrightarrow> m = (p, j)"
    and p: "p < length (Tracks d)"
  shows "Clips (Tracks (update_members ms f d) ! p) = (Clips (Tracks d ! p))[j := f (Clips (Tracks d ! p) ! j)]"
proof -
  obtain as bs where ms: "ms = as @ (p, j) # bs" "(p, j) \<notin> set as" "(p, j) \<notin> set bs"
    using m0 by (metis distinct.simps(2) distinct_append not_distinct_conv_prefix split_list_first)
  have as: "\<forall>m \<in> set as. fst m \<noteq> p"
    using only ms by (metis in_set_conv_decomp append_Cons append_assoc)
  have bs: "\<forall>m \<in> set bs. fst m \<noteq> p"
    using only ms by (metis Un_iff list.set_intros(2) set_append)
  let ?d1 = "update_members as f d"
  have "update_members ms f d = update_members bs f (update_clip (p, j) f ?d1)"
    by (simp add: ms update_members_def)
  then have "Tracks (update_members ms f d) ! p = Tracks (update_clip (p, j) f ?d1) ! p"
    by (simp add: update_members_other [OF bs])
  with p show ?thesis by (simp add: update_clip_def update_members_other [OF as])
qed

lemma group_clips_track:
  assumes "distinct (map TrackID (Tracks d))" and "trackByID d tid = Some p"
  shows "group_clips d tid gid = filter (\<lambda>c. Linked c \<and> ParentBlockID c = gid) (Clips (Tracks d ! p))"
proof -
  have p: "p < length (Tracks d)" "TrackID (Tracks d ! p) = tid" using trackByID_Some [OF assms(2)] by auto
  let ?P = "\<lambda>c. Linked c \<and> ParentBlockID c = gid"
  have one: "concat (map (\<lambda>t. if TrackID t = tid then filter ?P (Clips t) else []) ts)
      = filter ?P (Clips (ts ! p))"
    if "distinct (map TrackID ts)" "p < length ts" "TrackID (ts ! p) = tid" for ts :: "'a Track list" and p
    using that
  proof (induction ts arbitrary: p)
    case (Cons t ts)
    show ?case
    proof (cases p)
      case 0
      with Cons.prems have "tid \<notin> TrackID ` set ts" and t: "TrackID t = tid" by auto
      then have "concat (map (\<lambda>t. if TrackID t = tid then filter ?P (Clips t) else []) ts) = []"
        using t by (auto simp: image_iff)
      with t 0 show ?thesis by simp
    next
      case (Suc q)
      with Cons.prems have "TrackID t \<noteq> tid" by (auto simp: image_iff)
      with Suc Cons show ?thesis by simp
    qed
  qed simp
  show ?thesis using one [OF assms(1) p] by (simp add: group_clips_def)
qed

lemma filter_single:
  assumes "filter P xs = [v]" and "i < length xs" "P (xs ! i)" and "j < length xs" "P (xs ! j)"
  shows "i = j" and "xs ! i = v"
proof -
  have "xs ! i \<in> set (filter P xs)" using assms(2,3) by auto
  with assms(1) show "xs ! i = v" by simp
  have "length (filter P xs) = card {k. k < length xs \<and> P (xs ! k)}" by (rule length_filter_conv_card)
  with assms(1) have "card {k. k < length xs \<and> P (xs ! k)} = 1" by simp
  then obtain k where "{k. k < length xs \<and> P (xs ! k)} = {k}" by (auto simp: card_1_singleton_iff)
  with assms show "i = j" by (metis (mono_tags, lifting) mem_Collect_eq singletonD)
qed

text \<open>Where a group has the picture, one member is on the primary track, on the selected frames.\<close>

lemma primary_member:
  assumes e: "editable d" and p: "trackByID d ''visual_base'' = Some p" and l: "valid_loc d l"
    and hp: "has_primary d (edit_members d l)"
  obtains j where "(p, j) \<in> set (edit_members d l)" and "j < length (Clips (Tracks d ! p))"
    and "\<And>m. m \<in> set (edit_members d l) \<Longrightarrow> fst m = p \<Longrightarrow> m = (p, j)"
    and "span (Clips (Tracks d ! p) ! j) = span (clip_at d l)"
proof -
  have ids: "distinct (map TrackID (Tracks d))" and pair: "groups_paired d" and um: "groups_unmixed d"
    using e by (auto simp: editable_def wf_def)
  have vb: "fst m = p" if "valid_loc d m" "TrackID (track_at d m) = ''visual_base''" for m
    using that p trackByID_distinct [OF ids] by (metis option.inject track_at_def valid_loc_def)
  show ?thesis
  proof (cases "Linked (clip_at d l) \<and> ParentBlockID (clip_at d l) \<noteq> []")
    case False
    then have m: "edit_members d l = [l]" by (auto simp: edit_members_def)
    then have "fst l = p" using hp vb l by (auto simp: has_primary_def)
    with m l that [of "snd l"] show ?thesis
      by (cases l) (auto simp: valid_loc_def clip_at_def track_at_def)
  next
    case True
    define gid where "gid = ParentBlockID (clip_at d l)"
    define P where "P = (\<lambda>c :: 'a Clip. Linked c \<and> ParentBlockID c = gid)"
    have m: "edit_members d l = linkedGroup d gid" and gid: "gid \<noteq> []" using True by (auto simp: edit_members_def gid_def)
    from hp obtain m0 where m0: "m0 \<in> set (linkedGroup d gid)" "TrackID (track_at d m0) = ''visual_base''"
      by (auto simp: has_primary_def m)
    then have v0: "valid_loc d m0" "P (clip_at d m0)" by (auto simp: in_linkedGroup P_def)
    then have f0: "fst m0 = p" using m0 vb by blast
    have gc: "group_clips d ''visual_base'' gid = filter P (Clips (Tracks d ! p))"
      unfolding P_def by (rule group_clips_track [OF ids p])
    have in0: "snd m0 < length (Clips (Tracks d ! p))" "P (Clips (Tracks d ! p) ! snd m0)"
      using v0 f0 by (auto simp: valid_loc_def clip_at_def track_at_def)
    then have "group_clips d ''visual_base'' gid \<noteq> []" using gc by (auto simp: filter_empty_conv)
    with pair gid obtain v a where va: "group_clips d ''visual_base'' gid = [v]"
      "group_clips d ''original_audio'' gid = [a]" "span v = span a"
      unfolding groups_paired_def by blast
    note fs = filter_single [OF va(1) [unfolded gc]]
    have lP: "P (clip_at d l)" using True by (simp add: P_def gid_def)
    have lt: "fst l < length (Tracks d)" "snd l < length (Clips (track_at d l))" using l by (auto simp: valid_loc_def)
    have spl: "span (clip_at d l) = span v"
    proof (cases "TrackID (track_at d l) = ''visual_base''")
      case True
      with vb l have "fst l = p" by blast
      with lt lP fs(2) [of "snd l"] in0 show ?thesis by (simp add: clip_at_def track_at_def)
    next
      case False
      have "TrackID (track_at d l) = ''original_audio''"
      proof (rule ccontr)
        assume "TrackID (track_at d l) \<noteq> ''original_audio''"
        with um False lt lP gid have "group_clips d ''visual_base'' gid = []"
          unfolding groups_unmixed_def list_all_iff P_def clip_at_def track_at_def
          by (metis nth_mem)
        with va show False by simp
      qed
      with lt ids have "trackByID d ''original_audio'' = Some (fst l)"
        by (simp add: trackByID_distinct track_at_def)
      from group_clips_track [OF ids this] have "filter P (Clips (track_at d l)) = [a]"
        using va(2) by (simp add: P_def track_at_def)
      from filter_single(2) [OF this lt(2) _ lt(2)] lP have "clip_at d l = a" by (simp add: clip_at_def)
      with va(3) show ?thesis by simp
    qed
    have spv: "Clips (Tracks d ! p) ! snd m0 = v" by (rule fs(2) [OF in0 in0])
    have uni: "m' = (p, snd m0)" if "m' \<in> set (edit_members d l)" "fst m' = p" for m'
    proof -
      from that have "snd m' < length (Clips (Tracks d ! p))" "P (Clips (Tracks d ! p) ! snd m')"
        by (auto simp: m in_linkedGroup valid_loc_def clip_at_def track_at_def P_def)
      with fs(1) in0 that(2) show ?thesis by (metis prod.collapse)
    qed
    have mem: "(p, snd m0) \<in> set (edit_members d l)" using m0(1) unfolding m f0 [symmetric] by simp
    show ?thesis by (rule that [OF mem in0(1) uni]) (simp_all add: spl spv)
  qed
qed

lemma distinct_edit_members: "distinct (edit_members d l)"
  by (simp add: edit_members_def distinct_linkedGroup)

lemma track_spans_update:
  assumes "j < length (Clips t)" and "Clips t' = (Clips t)[j := c]"
  obtains M where "track_spans t = add_mset (span (Clips t ! j)) M" and "track_spans t' = add_mset (span c) M"
proof -
  let ?M = "image_mset span (mset (Clips t) - {#Clips t ! j#})"
  have "mset (Clips t) = add_mset (Clips t ! j) (mset (Clips t) - {#Clips t ! j#})"
    using assms(1) by simp
  then have "track_spans t = add_mset (span (Clips t ! j)) ?M"
    unfolding track_spans_def by (metis image_mset_add_mset)
  moreover have "track_spans t' = add_mset (span c) ?M"
    using assms by (simp add: track_spans_def mset_update)
  ultimately show ?thesis using that by blast
qed

text \<open>Rippling a track in which the clips before the boundary may have any length.\<close>

lemma shift_from_track:
  assumes "\<forall>c \<in> set (Clips t). TimelineStartFrame c < b \<or> clip_in D c" and "small D"
    and "\<bar>delta\<bar> \<le> 4611686018427387904"
  shows "track_spans (step_track (shift_from b delta) t) = image_mset (shift_span b delta) (track_spans t)"
proof (rule track_spans_step_single)
  fix c assume "c \<in> set (Clips t)"
  with assms(1) consider "TimelineStartFrame c < b" | "clip_in D c" by blast
  then show "image_mset span (mset (fst (shift_from b delta c))) = {#shift_span b delta (span c)#}"
  proof cases
    case 1
    then show ?thesis by (simp add: shift_from_def shift_span_def)
  next
    case 2
    then show ?thesis by (rule shift_from_span [OF _ assms(2,3)])
  qed
qed

lemma retime_members_tiled:
  assumes e: "editable d" and l: "valid_loc d l" and f: "\<And>c. span (f c) = span c"
    and n: "1 \<le> n" "n \<le> 2305843009213693952" and ok: "retime_members d l n f = Inr (d', ws)"
  shows "picture_tiled d'"
proof -
  let ?ms = "edit_members d l" and ?s = "clip_at d l"
  let ?g = "\<lambda>c. (f c)\<lparr>TimelineEndFrame := i64 (TimelineStartFrame c + n)\<rparr>"
  obtain p where p: "trackByID d ''visual_base'' = Some p" "p < length (Tracks d)"
    and t: "tiles (track_spans (Tracks d ! p)) (DurationFrames d)"
    using picture_primary [OF editable_tiled [OF e]] by blast
  have s: "clip_in (DurationFrames d) ?s" using editable_clip(1) [OF e clip_at_doc [OF l]] .
  have D: "small (DurationFrames d)" using editable_small [OF e] .
  have arith: "i64 (TimelineEndFrame ?s - TimelineStartFrame ?s) = TimelineEndFrame ?s - TimelineStartFrame ?s"
    using s D by (simp add: clip_in_def small_def)
  show ?thesis
  proof (cases "has_primary d ?ms")
    case False
    with ok have "d' = update_members ?ms ?g d" by (auto simp: retime_members_def Let_def)
    moreover have "kept d (update_members ?ms ?g d)"
      by (rule kept_update_members_free) (use False in \<open>auto simp: has_primary_def\<close>)
    ultimately show ?thesis using kept_tiled e by (auto simp: editable_def wf_def)
  next
    case True
    obtain j where j: "(p, j) \<in> set ?ms" "j < length (Clips (Tracks d ! p))"
      and only: "\<And>m. m \<in> set ?ms \<Longrightarrow> fst m = p \<Longrightarrow> m = (p, j)"
      and sp: "span (Clips (Tracks d ! p) ! j) = span ?s"
      using primary_member [OF e p(1) l True] by blast
    let ?c = "Clips (Tracks d ! p) ! j"
    define a where "a = TimelineStartFrame ?s"
    define b where "b = TimelineEndFrame ?s"
    have ab: "0 \<le> a" "a < b" "b \<le> DurationFrames d" "TimelineStartFrame ?c = a" "TimelineEndFrame ?c = b"
      using s sp by (auto simp: a_def b_def clip_in_def span_def)
    define d1 where "d1 = update_members ?ms ?g d"
    have c1: "Clips (Tracks d1 ! p) = (Clips (Tracks d ! p))[j := ?g ?c]"
      unfolding d1_def by (rule update_members_single [OF j(1) distinct_edit_members only p(2)])
    have gs: "span (?g ?c) = (a, a + n)"
      using f [of ?c] ab n D by (simp add: span_def small_def)
    obtain M where M: "track_spans (Tracks d ! p) = add_mset (a, b) M" "track_spans (Tracks d1 ! p) = add_mset (a, a + n) M"
      using track_spans_update [OF j(2) c1] gs ab by (metis span_def)
    show ?thesis
    proof (cases "n = b - a")
      case True
      then have "d' = d1" using ok ab arith by (auto simp: retime_members_def Let_def d1_def a_def b_def)
      with True M t show ?thesis
        by (intro tiledI [OF p(1)]) (simp_all add: d1_def)
    next
      case False
      have "d' = fst (shiftAfter d1 b (n - (b - a)))"
        using ok ab arith False \<open>has_primary d ?ms\<close> n D
        by (auto simp: retime_members_def Let_def d1_def a_def b_def small_def split: prod.splits)
      then have d': "d' = (map_tracks (step_track (shift_from b (n - (b - a)))) d1)
          \<lparr>DurationFrames := i64 (DurationFrames d1 + (n - (b - a)))\<rparr>"
        using False by (simp add: shiftAfter_def)
      have len: "DurationFrames d' = DurationFrames d + (n - (b - a))"
        using n ab D by (simp add: d' d1_def small_def)
      have early: "\<forall>c \<in> set (Clips (Tracks d1 ! p)). TimelineStartFrame c < b \<or> clip_in (DurationFrames d) c"
      proof
        fix c assume "c \<in> set (Clips (Tracks d1 ! p))"
        then consider "c = ?g ?c" | "c \<in> set (Clips (Tracks d ! p))"
          using set_update_subset_insert [of "Clips (Tracks d ! p)" j "?g ?c"] by (auto simp: c1)
        then show "TimelineStartFrame c < b \<or> clip_in (DurationFrames d) c"
        proof cases
          case 1
          with gs ab show ?thesis by (simp add: span_def)
        qed (use editable_clip(1) [OF e clip_of_track [OF p(2)]] in blast)
      qed
      have "track_spans (Tracks d' ! p) = image_mset (shift_span b (n - (b - a))) (add_mset (a, a + n) M)"
        using p(2) early D n ab M by (simp add: d' d1_def shift_from_track small_def)
      also have "\<dots> = add_mset (a, a + n) (image_mset (shift_span b (n - (b - a))) M)"
        using ab by (simp add: shift_span_def)
      finally show ?thesis
        using tiles_retime [OF t [unfolded M(1)], of n] n len
        by (intro tiledI [OF p(1)]) (simp_all add: d' d1_def comp_def)
    qed
  qed
qed

lemma trimClip_tiled:
  assumes e: "editable d" and op: "op_bounded op" and ok: "trimClip d op = Inr (d', ws)"
  shows "picture_tiled d'"
proof -
  obtain l s f where l: "editableLocation d op = Inr l" and s: "frameValue op ''source_start_frame'' = Inr s"
    "frameValue op ''source_end_frame'' = Inr f"
    and r: "retime_members d l (max 1 (unscale_frames (i64 (f - s)) (effectiveRate (clip_at d l))))
         (\<lambda>c. c\<lparr>SourceStartFrame := s, SourceEndFrame := f\<rparr>) = Inr (d', ws)"
    using ok by (auto simp: trimClip_def)
  have v: "valid_loc d l" using editableLocation_Inr [OF l] by blast
  have sm: "small s" "small f" using frameValue_small [OF op] s by blast+
  have "clip_bounded (clip_at d l)" using editable_clip(2) [OF e clip_at_doc [OF v]] .
  then have "max 1 (unscale_frames (i64 (f - s)) (effectiveRate (clip_at d l))) \<le> 2305843009213693952"
    using sm by (intro unscale_bound) (auto simp: small_def clip_bounded_def)
  then show ?thesis using retime_members_tiled [OF e v _ _ _ r] by (simp add: span_def)
qed

lemma numberValue_rate:
  "op_bounded op \<Longrightarrow> map_of op ''playback_rate'' = Some v \<Longrightarrow> rate_ok (numberValue v)"
  by (auto simp: op_bounded_def list_all_iff dest!: map_of_SomeD)

lemma setPlaybackRate_tiled:
  assumes e: "editable d" and op: "op_bounded op" "map_of op ''playback_rate'' \<noteq> None"
    and ok: "setPlaybackRate d op = Inr (d', ws)"
  shows "picture_tiled d'"
proof -
  let ?r = "numberValue (gget op ''playback_rate'')"
  obtain l where l: "editableLocation d op = Inr l"
    and r: "retime_members d l (max 1 (unscale_frames (i64 (SourceEndFrame (clip_at d l) - SourceStartFrame (clip_at d l))) ?r))
         (\<lambda>c. c\<lparr>PlaybackRate := ?r\<rparr>) = Inr (d', ws)"
    using ok by (auto simp: setPlaybackRate_def Let_def)
  have v: "valid_loc d l" using editableLocation_Inr [OF l] by blast
  have "clip_bounded (clip_at d l)" using editable_clip(2) [OF e clip_at_doc [OF v]] .
  moreover have "rate_ok ?r" using numberValue_rate [OF op(1)] op(2) by (auto simp: gget_def)
  ultimately have "max 1 (unscale_frames (i64 (SourceEndFrame (clip_at d l) - SourceStartFrame (clip_at d l))) ?r)
      \<le> 2305843009213693952"
    by (intro unscale_bound) (auto simp: small_def clip_bounded_def)
  then show ?thesis using retime_members_tiled [OF e v _ _ _ r] by (simp add: span_def)
qed

end
