(* ===== verification/Timeline_Moves.thy ===== *)
theory Timeline_Moves
  imports Timeline_Picture
begin

text \<open>
  Splitting, reordering, moving, inserting and deleting clips keep the picture tiled.
\<close>

section \<open>Splitting\<close>

text \<open>One clip becomes clips that show the same frames.\<close>

definition same_frames :: "'m Clip \<Rightarrow> 'm Clip list \<Rightarrow> bool" where
  "same_frames c cs \<longleftrightarrow> (\<forall>g. cover (image_mset span (mset cs)) g = (if shows_frame (span c) g then 1 else 0))
     \<and> (TimelineStartFrame c < TimelineEndFrame c \<longrightarrow> (\<forall>c' \<in> set cs. TimelineStartFrame c' < TimelineEndFrame c'))"

lemma same_frames_refl [simp]: "same_frames c [c]"
  by (simp add: same_frames_def)

lemma splitClipValue_span:
  assumes "splitClipValue c frame g1 g2 = Inr (left, right, ws)"
  shows "span left = (TimelineStartFrame c, frame)" "span right = (frame, TimelineEndFrame c)"
    "TimelineStartFrame c < frame" "frame < TimelineEndFrame c"
  using assms by (auto simp: splitClipValue_def Let_def span_def)

lemma split_step_same:
  assumes "split_step sel g1 g2 new frame c = Inr (cs, ws)"
  shows "same_frames c cs" and "should_split sel g1 c \<Longrightarrow> \<exists>c' \<in> set cs. TimelineEndFrame c' = frame"
proof -
  have "same_frames c cs \<and> (should_split sel g1 c \<longrightarrow> (\<exists>c' \<in> set cs. TimelineEndFrame c' = frame))"
  proof (cases "should_split sel g1 c")
    case False
    with assms have "cs = [c]" by (auto simp: split_step_def)
    with False show ?thesis by simp
  next
    case True
    with assms obtain left right w right' where v: "splitClipValue c frame g1 g2 = Inr (left, right, w)"
      and cs: "cs = [left, right']" "span right' = span right"
      by (auto simp: split_step_def Let_def span_def)
    note sp = splitClipValue_span [OF v]
    from sp have "TimelineEndFrame left = frame" "TimelineStartFrame left = TimelineStartFrame c" by (auto simp: span_def)
    moreover from sp cs have "TimelineStartFrame right' = frame" "TimelineEndFrame right' = TimelineEndFrame c" by (auto simp: span_def)
    ultimately show ?thesis using sp(3,4) by (auto simp: same_frames_def cs(1) shows_frame_def)
  qed
  then show "same_frames c cs" "should_split sel g1 c \<Longrightarrow> \<exists>c' \<in> set cs. TimelineEndFrame c' = frame" by blast+
qed

lemma same_frames_cover:
  "list_all2 same_frames cs css \<Longrightarrow> cover (image_mset span (mset (concat css))) g = cover (image_mset span (mset cs)) g"
  by (induction rule: list_all2_induct) (simp_all add: same_frames_def)

lemma same_frames_pos:
  "list_all2 same_frames cs css \<Longrightarrow> \<forall>c \<in> set cs. TimelineStartFrame c < TimelineEndFrame c \<Longrightarrow>
     \<forall>cs' \<in> set css. \<forall>c \<in> set cs'. TimelineStartFrame c < TimelineEndFrame c"
  by (induction rule: list_all2_induct) (simp_all add: same_frames_def)

lemma split_track_same:
  assumes ok: "split_track (split_step sel g1 g2 new frame) t = Inr (t', ws)"
  shows "TrackID t' = TrackID t"
    and "tiles (track_spans t) D \<Longrightarrow> tiles (track_spans t') D"
    and "c \<in> set (Clips t) \<Longrightarrow> TimelineClipID c = sel \<Longrightarrow> \<exists>c' \<in> set (Clips t'). TimelineEndFrame c' = frame"
proof -
  obtain rs where rs: "list_all2 (\<lambda>c r. split_step sel g1 g2 new frame c = Inr r) (Clips t) rs"
    and t': "t' = t\<lparr>Clips := concat (map fst rs)\<rparr>"
    using ok by (auto simp: split_track_def map_bind_Inr)
  have sf: "list_all2 same_frames (Clips t) (map fst rs)"
    using rs unfolding list_all2_map2
    by (rule list_all2_mono) (metis prod.collapse split_step_same(1))
  show "TrackID t' = TrackID t" by (simp add: t')
  show "tiles (track_spans t') D" if t: "tiles (track_spans t) D"
  proof -
    have "\<forall>c \<in> set (Clips t). TimelineStartFrame c < TimelineEndFrame c"
      using t by (simp add: tiles_def track_spans_def)
    from same_frames_pos [OF sf this] have "\<forall>s \<in># track_spans t'. fst s < snd s"
      by (simp add: track_spans_def t')
    moreover have "cover (track_spans t') g = cover (track_spans t) g" for g
      using same_frames_cover [OF sf] by (simp add: track_spans_def t')
    ultimately show ?thesis using t by (simp add: tiles_def)
  qed
  show "\<exists>c' \<in> set (Clips t'). TimelineEndFrame c' = frame" if "c \<in> set (Clips t)" "TimelineClipID c = sel"
  proof -
    from that(1) obtain i where "i < length (Clips t)" "c = Clips t ! i" by (auto simp: in_set_conv_nth)
    with rs have "rs ! i \<in> set rs" "split_step sel g1 g2 new frame c = Inr (rs ! i)"
      by (auto simp: list_all2_conv_all_nth)
    then obtain r where r: "r \<in> set rs" "split_step sel g1 g2 new frame c = Inr r" by blast
    then have "\<exists>c' \<in> set (fst r). TimelineEndFrame c' = frame"
      using that(2) split_step_same(2) [of sel g1 g2 new frame c "fst r" "snd r"] by (simp add: should_split_def)
    with r(1) show ?thesis by (force simp: t')
  qed
qed

lemma splitClip_same:
  assumes ok: "splitClip d op = Inr (d', ws)" and frame: "frameValue op ''split_frame'' = Inr frame"
  shows "map TrackID (Tracks d') = map TrackID (Tracks d)" and "DurationFrames d' = DurationFrames d"
    and "p < length (Tracks d) \<Longrightarrow> tiles (track_spans (Tracks d ! p)) D \<Longrightarrow> tiles (track_spans (Tracks d' ! p)) D"
    and "p < length (Tracks d) \<Longrightarrow> c \<in> set (Clips (Tracks d ! p)) \<Longrightarrow>
      TimelineClipID c = stringValue (gget op ''timeline_clip_id'') \<Longrightarrow> \<exists>c' \<in> set (Clips (Tracks d' ! p)). TimelineEndFrame c' = frame"
proof -
  obtain l where l: "editableLocation d op = Inr l"
    using ok by (auto simp: splitClip_def)
  obtain g1 g2 new rs where rs: "list_all2 (\<lambda>t r. split_track (split_step (TimelineClipID (clip_at d l)) g1 g2 new frame) t = Inr r) (Tracks d) rs"
    and d': "d' = d\<lparr>Tracks := map fst rs\<rparr>"
    using ok l frame by (auto simp: splitClip_def Let_def map_bind_Inr)
  have sel: "TimelineClipID (clip_at d l) = stringValue (gget op ''timeline_clip_id'')"
    using editableLocation_Inr [OF l] by blast
  have len: "length rs = length (Tracks d)" using rs by (simp add: list_all2_lengthD)
  have at: "split_track (split_step (TimelineClipID (clip_at d l)) g1 g2 new frame) (Tracks d ! i) = Inr (Tracks d' ! i, snd (rs ! i))"
    if "i < length (Tracks d)" for i
    using that rs len by (simp add: list_all2_conv_all_nth d')
  show "map TrackID (Tracks d') = map TrackID (Tracks d)"
    using len split_track_same(1) [OF at] by (intro nth_equalityI) (auto simp: d')
  show "DurationFrames d' = DurationFrames d" by (simp add: d')
  show "tiles (track_spans (Tracks d' ! p)) D" if "p < length (Tracks d)" "tiles (track_spans (Tracks d ! p)) D"
    using that split_track_same(2) [OF at] by blast
  show "\<exists>c' \<in> set (Clips (Tracks d' ! p)). TimelineEndFrame c' = frame"
    if "p < length (Tracks d)" "c \<in> set (Clips (Tracks d ! p))" "TimelineClipID c = stringValue (gget op ''timeline_clip_id'')"
    using split_track_same(3) [OF at [OF that(1)] that(2)] that(3) sel by simp
qed

lemma splitClip_tiled:
  assumes e: "picture_tiled d" and ok: "splitClip d op = Inr (d', ws)"
  shows "picture_tiled d'"
proof -
  obtain p where p: "trackByID d ''visual_base'' = Some p" "p < length (Tracks d)"
    and t: "tiles (track_spans (Tracks d ! p)) (DurationFrames d)"
    using picture_primary [OF e] by blast
  obtain frame where "frameValue op ''split_frame'' = Inr frame" using ok by (auto simp: splitClip_def)
  from splitClip_same [OF ok this] t p show ?thesis by (intro tiledI [OF p(1)]) simp_all
qed

lemma clip_to_split_None:
  assumes "clip_to_split frame cs = None"
  shows "(\<exists>c \<in> set cs. frame = TimelineStartFrame c \<or> frame = TimelineEndFrame c)
    \<or> (\<forall>c \<in> set cs. frame < TimelineStartFrame c \<or> frame > TimelineEndFrame c)"
  using assms by (induction cs) (auto split: if_splits)

lemma clip_to_split_Some: "clip_to_split frame cs = Some c \<Longrightarrow> c \<in> set cs"
  by (induction cs) (auto split: if_splits)

text \<open>After \<open>splitDocumentPrimaryAt\<close> no clip of the picture straddles the frame.\<close>

lemma splitDocumentPrimaryAt_cut:
  assumes e: "picture_tiled d" and ok: "splitDocumentPrimaryAt d frame = Inr (d', ws)"
    and p: "trackByID d ''visual_base'' = Some p"
  shows "trackByID d' ''visual_base'' = Some p" and "DurationFrames d' = DurationFrames d"
    and "map TrackID (Tracks d') = map TrackID (Tracks d)"
    and "tiles (track_spans (Tracks d' ! p)) (DurationFrames d)"
    and "\<And>s. s \<in># track_spans (Tracks d' ! p) \<Longrightarrow> snd s \<le> frame \<or> frame \<le> fst s"
proof -
  have t: "tiles (track_spans (Tracks d ! p)) (DurationFrames d)" and len: "p < length (Tracks d)"
    using picture_primary [OF e] p by auto
  have "map TrackID (Tracks d') = map TrackID (Tracks d) \<and> DurationFrames d' = DurationFrames d
    \<and> tiles (track_spans (Tracks d' ! p)) (DurationFrames d)
    \<and> (\<forall>s \<in># track_spans (Tracks d' ! p). snd s \<le> frame \<or> frame \<le> fst s)"
  proof (cases "frame \<le> 0")
    case True
    with ok have "d' = d" by (simp add: splitDocumentPrimaryAt_def)
    with t True show ?thesis using tilesD [OF t] by fastforce
  next
    case False
    show ?thesis
    proof (cases "clip_to_split frame (Clips (Tracks d ! p))")
      case None
      with ok p False have d': "d' = d" by (simp add: splitDocumentPrimaryAt_def)
      have "\<forall>s \<in># track_spans (Tracks d ! p). snd s \<le> frame \<or> frame \<le> fst s"
        using clip_to_split_None [OF None]
      proof
        assume "\<exists>c \<in> set (Clips (Tracks d ! p)). frame = TimelineStartFrame c \<or> frame = TimelineEndFrame c"
        then obtain c where c: "c \<in> set (Clips (Tracks d ! p))" "frame = TimelineStartFrame c \<or> frame = TimelineEndFrame c"
          by blast
        then have "span c \<in># track_spans (Tracks d ! p)" by (simp add: track_spans_def)
        with tiles_cut_at [OF t this] c show ?thesis by auto
      qed (auto simp: track_spans_def)
      with t d' show ?thesis by simp
    next
      case (Some c)
      with ok p False have s: "splitClip d [(''timeline_clip_id'', GStr (TimelineClipID c)), (''split_frame'', GInt frame)] = Inr (d', ws)"
        by (simp add: splitDocumentPrimaryAt_def)
      have f: "frameValue [(''timeline_clip_id'', GStr (TimelineClipID c)), (''split_frame'', GInt frame)] ''split_frame'' = Inr frame"
        by (simp add: frameValue_def)
      note sc = splitClip_same [OF s f]
      have ids: "map TrackID (Tracks d') = map TrackID (Tracks d)" "DurationFrames d' = DurationFrames d"
        by (rule sc(1), rule sc(2))
      have ti: "tiles (track_spans (Tracks d' ! p)) (DurationFrames d)" by (rule sc(3) [OF len t])
      obtain c' where c': "c' \<in> set (Clips (Tracks d' ! p))" "TimelineEndFrame c' = frame"
        using sc(4) [OF len clip_to_split_Some [OF Some]] by auto
      then have "span c' \<in># track_spans (Tracks d' ! p)" by (simp add: track_spans_def)
      with tiles_cut_at [OF ti this] c' ids ti show ?thesis by auto
    qed
  qed
  then show "DurationFrames d' = DurationFrames d" "map TrackID (Tracks d') = map TrackID (Tracks d)"
    "tiles (track_spans (Tracks d' ! p)) (DurationFrames d)"
    "\<And>s. s \<in># track_spans (Tracks d' ! p) \<Longrightarrow> snd s \<le> frame \<or> frame \<le> fst s"
    and "trackByID d' ''visual_base'' = Some p"
    using p trackByID_ids [of d' d] by auto
qed

section \<open>Placing a clip on the primary track\<close>

lemma placed_spans:
  "track_spans (sortTrack (t\<lparr>Clips := Clips t @ [c]\<rparr>)) = add_mset (span c) (track_spans t)"
  "track_spans (t\<lparr>Clips := Clips t @ [c]\<rparr>) = add_mset (span c) (track_spans t)"
  by (simp_all add: track_spans_def sortTrack_def)

lemma tiled_update_track:
  assumes "trackByID d ''visual_base'' = Some p" and "TrackID (f (Tracks d ! p)) = TrackID (Tracks d ! p)"
    and "tiles (track_spans (f (Tracks d ! p))) (DurationFrames d)"
  shows "picture_tiled (update_track p f d)"
proof -
  have p: "p < length (Tracks d)" using trackByID_Some [OF assms(1)] by simp
  have "map TrackID (Tracks (update_track p f d)) = map TrackID (Tracks d)"
    using assms(2) p by (simp add: map_update list_update_same_conv)
  then show ?thesis using assms(1,3) p by (intro tiledI [OF assms(1)]) simp_all
qed

lemma insertIntoPrimary_tiled:
  assumes e: "picture_tiled d" "small (DurationFrames d)" and m: "TimelineStartFrame m < TimelineEndFrame m"
    "0 \<le> TimelineStartFrame m" "small (TimelineEndFrame m)"
    and ok: "insertIntoPrimary d m target = Inr (d', ws)"
  shows "picture_tiled d'"
proof -
  obtain p where p: "trackByID d ''visual_base'' = Some p" using e(1) by (auto simp: picture_tiled_def)
  define frame where "frame = clampInt target 0 (DurationFrames d)"
  define n where "n = TimelineEndFrame m - TimelineStartFrame m"
  have n: "0 < n" "n \<le> 4503599627370496" "i64 (TimelineEndFrame m - TimelineStartFrame m) = n"
    using m by (auto simp: n_def small_def)
  obtain d1 w1 where d1: "splitDocumentPrimaryAt d frame = Inr (d1, w1)"
    using ok p by (auto simp: insertIntoPrimary_def Let_def frame_def)
  note cut = splitDocumentPrimaryAt_cut [OF e(1) d1 p]
  note D = e(2) [unfolded small_def]
  have D0: "0 \<le> DurationFrames d" using cut(4) by (simp add: tiles_def)
  then have fr: "0 \<le> frame" "frame \<le> DurationFrames d"
    using clampInt_bounds [OF D0, of target] by (simp_all add: frame_def)
  define d2 where "d2 = (map_tracks (step_track (shift_from frame n)) d1)\<lparr>DurationFrames := i64 (DurationFrames d1 + n)\<rparr>"
  have p1: "p < length (Tracks d1)" using trackByID_Some [OF cut(1)] by simp
  have ids: "map TrackID (Tracks d2) = map TrackID (Tracks d1)" by (simp add: d2_def comp_def)
  have p2: "trackByID d2 ''visual_base'' = Some p" using trackByID_ids [OF ids] cut(1) by simp
  have d': "d' = update_track p (\<lambda>t. sortTrack (t\<lparr>Clips := Clips t @
      [m\<lparr>TimelineStartFrame := frame, TimelineEndFrame := i64 (frame + n)\<rparr>]\<rparr>)) d2"
    using ok p d1 p2 n(3) by (auto simp: insertIntoPrimary_def Let_def frame_def d2_def)
  have cin: "clip_in (DurationFrames d) c" if "c \<in> set (Clips (Tracks d1 ! p))" for c
    using tilesD [OF cut(4), of "span c"] that by (simp add: clip_in_def track_spans_def)
  have sp: "track_spans (Tracks d2 ! p) = image_mset (shift_span frame n) (track_spans (Tracks d1 ! p))"
    using p1 n cin by (simp add: d2_def) (rule shift_from_track [OF _ e(2)], auto)
  have "tiles (add_mset (frame, frame + n) (track_spans (Tracks d2 ! p))) (DurationFrames d + n)"
    unfolding sp by (rule tiles_insert [OF cut(4) fr n(1) cut(5)])
  moreover have "DurationFrames d2 = DurationFrames d + n" using n D D0 cut(2) by (simp add: d2_def)
  ultimately show ?thesis unfolding d'
    using n fr D by (intro tiled_update_track [OF p2]) (simp_all add: placed_spans, simp add: span_def)
qed

lemma overwritePrimary_tiled:
  assumes e: "picture_tiled d" "small (DurationFrames d)" and m: "TimelineStartFrame m < TimelineEndFrame m"
    "0 \<le> TimelineStartFrame m" "small (TimelineEndFrame m)"
    and ok: "overwritePrimary d m target = Inr (d', ws)"
  shows "picture_tiled d'"
proof -
  obtain p where p: "trackByID d ''visual_base'' = Some p" "p < length (Tracks d)"
    and t: "tiles (track_spans (Tracks d ! p)) (DurationFrames d)"
    using picture_primary [OF e(1)] by blast
  define n where "n = TimelineEndFrame m - TimelineStartFrame m"
  have n: "0 < n" "i64 (TimelineEndFrame m - TimelineStartFrame m) = n"
    using m by (auto simp: n_def small_def)
  have le: "n \<le> DurationFrames d" using ok p n by (auto simp: overwritePrimary_def Let_def)
  define frame where "frame = clampInt target 0 (DurationFrames d - n)"
  have fr: "0 \<le> frame" "frame + n \<le> DurationFrames d"
    using clampInt_bounds [of 0 "DurationFrames d - n" target] le by (simp_all add: frame_def)
  note D = e(2) [unfolded small_def]
  have i: "i64 (DurationFrames d - n) = DurationFrames d - n" "i64 (frame + n) = frame + n"
    using n(1) le fr D by simp_all
  define d1 where "d1 = update_track p (step_track (erase_step frame (frame + n))) d"
  have d': "d' = update_track p (\<lambda>t. sortTrack (t\<lparr>Clips := Clips t @
      [m\<lparr>TimelineStartFrame := frame, TimelineEndFrame := frame + n\<rparr>]\<rparr>)) d1"
    using ok p n le i by (auto simp: overwritePrimary_def Let_def frame_def [symmetric] d1_def eraseTrackRange_def)
  have "map TrackID (Tracks d1) = map TrackID (Tracks d)"
    using p by (simp add: d1_def map_update list_update_same_conv)
  then have p1: "trackByID d1 ''visual_base'' = Some p" using trackByID_ids p(1) by metis
  have "track_spans (Tracks d1 ! p) = (\<Sum>ab \<in># track_spans (Tracks d ! p). erase_span frame (frame + n) ab)"
    using p(2) by (simp add: d1_def) (rule track_spans_step, rule erase_step_span)
  with tiles_overwrite [OF t fr(1) _ fr(2)] n(1)
  have "tiles (add_mset (frame, frame + n) (track_spans (Tracks d1 ! p))) (DurationFrames d1)"
    by (simp add: d1_def)
  then show ?thesis unfolding d'
    by (intro tiled_update_track [OF p1]) (simp_all add: placed_spans, simp add: span_def)
qed

section \<open>Reordering\<close>

lemma relay_chain:
  assumes "\<forall>c \<in> set cs. clip_in D c" and "small D" and "0 \<le> k"
    and "k + sum_list (map (\<lambda>c. TimelineEndFrame c - TimelineStartFrame c) cs) \<le> D"
  shows "chain k (map span (relay k cs)) (k + sum_list (map (\<lambda>c. TimelineEndFrame c - TimelineStartFrame c) cs))"
  using assms
proof (induction cs arbitrary: k)
  case (Cons c cs)
  define n where "n = TimelineEndFrame c - TimelineStartFrame c"
  have n: "0 < n" "n \<le> D" using Cons.prems(1) by (auto simp: clip_in_def n_def)
  have "0 \<le> sum_list (map (\<lambda>c. TimelineEndFrame c - TimelineStartFrame c) cs)"
    using Cons.prems(1) by (intro sum_list_nonneg) (auto simp: clip_in_def)
  with Cons.prems n have i: "i64 n = n" "i64 (k + n) = k + n" by (simp_all add: small_def n_def)
  have "chain (k + n) (map span (relay (k + n) cs))
      (k + n + sum_list (map (\<lambda>c. TimelineEndFrame c - TimelineStartFrame c) cs))"
    using Cons.prems n by (intro Cons.IH) (auto simp: n_def)
  moreover have "relay k (c # cs) = c\<lparr>TimelineStartFrame := k, TimelineEndFrame := k + n\<rparr> # relay (k + n) cs"
    using i by (simp add: n_def [symmetric])
  ultimately show ?case using n by (simp add: n_def [symmetric] add.assoc)
qed simp

lemma syncLinkedTiming_kept: "kept d (syncLinkedTiming c d)"
  unfolding syncLinkedTiming_def by (auto intro!: kept_map_tracks)

lemma syncLinkedTiming_fold_kept: "kept d (fold syncLinkedTiming cs d)"
proof (induction cs arbitrary: d)
  case (Cons c cs)
  show ?case using kept_trans [OF syncLinkedTiming_kept Cons.IH] by simp
qed simp

lemma mset_moved_to: "k < length clips \<Longrightarrow> mset (moved_to target k clips) = mset clips"
proof -
  assume k: "k < length clips"
  let ?rest = "take k clips @ drop (Suc k) clips"
  have "mset (take pos ?rest @ [clips ! k] @ drop pos ?rest) = add_mset (clips ! k) (mset ?rest)" for pos
  proof -
    have "mset ?rest = mset (take pos ?rest) + mset (drop pos ?rest)"
      by (metis append_take_drop_id mset_append)
    then show ?thesis by simp
  qed
  moreover have "mset clips = mset (take k clips @ clips ! k # drop (Suc k) clips)"
    using k by (simp add: id_take_nth_drop [symmetric])
  ultimately show ?thesis by (simp add: moved_to_def Let_def)
qed

lemma reorderClip_Inr:
  assumes "reorderClip d op = Inr (d', ws)"
  obtains i cs where "trackByID d ''visual_base'' = Some i" and "\<not> Locked (Tracks d ! i)"
    and "\<forall>g \<in> set (map ParentBlockID (filter (\<lambda>c. Linked c \<and> ParentBlockID c \<noteq> []) (Clips (Tracks d ! i)))).
      \<forall>m \<in> set (linkedGroup d g). TrackID (track_at d m) = ''visual_base'' \<or> \<not> Locked (track_at d m)"
    and "mset cs = mset (Clips (Tracks d ! i))"
    and "d' = map_tracks (\<lambda>t. if TrackID t \<noteq> ''visual_base'' then sortTrack t else t)
      (fold syncLinkedTiming (relay 0 cs) (update_track i (\<lambda>t. t\<lparr>Clips := relay 0 cs\<rparr>) d))"
proof -
  obtain i where i: "trackByID d ''visual_base'' = Some i" using assms by (auto simp: reorderClip_def Let_def)
  define clips where "clips = sort_key TimelineStartFrame (Clips (Tracks d ! i))"
  define groups where "groups = map ParentBlockID (filter (\<lambda>c. Linked c \<and> ParentBlockID c \<noteq> []) (Clips (Tracks d ! i)))"
  obtain target k where un: "\<not> Locked (Tracks d ! i)"
    "find (\<lambda>m. TrackID (track_at d m) \<noteq> ''visual_base'' \<and> Locked (track_at d m)) (concat (map (linkedGroup d) groups)) = None"
    and k: "index_of (\<lambda>c. TimelineClipID c = stringValue (gget op ''timeline_clip_id'')) clips = Some k"
    and d': "d' = map_tracks (\<lambda>t. if TrackID t \<noteq> ''visual_base'' then sortTrack t else t)
      (fold syncLinkedTiming (relay 0 (moved_to target k clips)) (update_track i (\<lambda>t. t\<lparr>Clips := relay 0 (moved_to target k clips)\<rparr>) d))"
    using assms i unfolding reorderClip_def Let_def clips_def groups_def by auto
  have perm: "mset (moved_to target k clips) = mset (Clips (Tracks d ! i))"
    using k mset_moved_to by (simp add: index_of_Some clips_def)
  have "\<forall>g \<in> set groups. \<forall>m \<in> set (linkedGroup d g). TrackID (track_at d m) = ''visual_base'' \<or> \<not> Locked (track_at d m)"
    using un(2) unfolding find_None_iff by auto
  then show ?thesis unfolding groups_def by (rule that [OF i un(1) _ perm d'])
qed

lemma reorderClip_tiled:
  assumes e: "picture_tiled d" "small (DurationFrames d)" and ok: "reorderClip d op = Inr (d', ws)"
  shows "picture_tiled d'"
proof -
  obtain i cs where i: "trackByID d ''visual_base'' = Some i" and "\<not> Locked (Tracks d ! i)"
    and "\<forall>g \<in> set (map ParentBlockID (filter (\<lambda>c. Linked c \<and> ParentBlockID c \<noteq> []) (Clips (Tracks d ! i)))).
      \<forall>m \<in> set (linkedGroup d g). TrackID (track_at d m) = ''visual_base'' \<or> \<not> Locked (track_at d m)"
    and perm: "mset cs = mset (Clips (Tracks d ! i))"
    and d': "d' = map_tracks (\<lambda>t. if TrackID t \<noteq> ''visual_base'' then sortTrack t else t)
      (fold syncLinkedTiming (relay 0 cs) (update_track i (\<lambda>t. t\<lparr>Clips := relay 0 cs\<rparr>) d))"
    by (rule reorderClip_Inr [OF ok])
  obtain p where p: "trackByID d ''visual_base'' = Some p" "p < length (Tracks d)"
    and t: "tiles (track_spans (Tracks d ! p)) (DurationFrames d)"
    and cin: "\<forall>c \<in> set (Clips (Tracks d ! p)). clip_in (DurationFrames d) c"
    using picture_primary [OF e(1)] by blast
  have ip: "i = p" using i p(1) by simp
  define clips where "clips = sort_key TimelineStartFrame (Clips (Tracks d ! p))"
  let ?dur = "\<lambda>c. TimelineEndFrame c - TimelineStartFrame c"
  have "tiles (mset (map span clips)) (DurationFrames d)" using t by (simp add: clips_def track_spans_def)
  moreover have "sorted (map fst (map span clips))" by (simp add: clips_def comp_def)
  ultimately have "chain 0 (map span clips) (DurationFrames d)" using tiles_iff_chain by blast
  from chain_length [OF this] have "DurationFrames d = sum_list (map ?dur clips)" by (simp add: comp_def)
  also have "\<dots> = sum_mset (image_mset ?dur (mset clips))"
    by (simp only: mset_map [symmetric] sum_mset_sum_list)
  also have "\<dots> = sum_mset (image_mset ?dur (mset cs))"
    by (simp only: perm ip) (simp add: clips_def)
  also have "\<dots> = sum_list (map ?dur cs)"
    by (simp only: mset_map [symmetric] sum_mset_sum_list)
  finally have total: "sum_list (map ?dur cs) = DurationFrames d" by simp
  have "set cs = set (Clips (Tracks d ! p))" using perm unfolding ip by (rule mset_eq_setD)
  with cin have "\<forall>c \<in> set cs. clip_in (DurationFrames d) c" by simp
  from relay_chain [OF this e(2), of 0] have "chain 0 (map span (relay 0 cs)) (DurationFrames d)"
    unfolding total by simp
  then have "tiles (mset (map span (relay 0 cs))) (DurationFrames d)" by (rule chain_tiles)
  then have "picture_tiled (update_track i (\<lambda>t. t\<lparr>Clips := relay 0 cs\<rparr>) d)"
    by (intro tiled_update_track [OF i]) (simp_all add: track_spans_def)
  moreover have "kept x (map_tracks (\<lambda>t. if TrackID t \<noteq> ''visual_base'' then sortTrack t else t) x)" for x :: rdoc
    by (rule kept_map_tracks) auto
  ultimately show ?thesis unfolding d'
    using kept_tiled syncLinkedTiming_fold_kept by blast
qed

section \<open>Moving\<close>

text \<open>What a placing step needs of its document, and what every step of a move keeps.\<close>

definition placeable :: "'m Document \<Rightarrow> bool" where
  "placeable d \<longleftrightarrow> picture_tiled d \<and> small (DurationFrames d)"

lemma placeable_editable: "editable d \<Longrightarrow> placeable d"
  by (simp add: placeable_def editable_tiled editable_small)

lemma placeable_kept: "kept d d' \<Longrightarrow> placeable d \<Longrightarrow> placeable d'"
  by (auto simp: placeable_def kept_tiled) (simp add: kept_def)

lemma kept_add_clip:
  "TrackID (Tracks d ! k) \<noteq> ''visual_base'' \<Longrightarrow> kept d (update_track k (\<lambda>t. sortTrack (t\<lparr>Clips := Clips t @ [c]\<rparr>)) d)"
  by (rule kept_update_track) auto

lemma kept_step_track: "TrackID (Tracks d ! k) \<noteq> ''visual_base'' \<Longrightarrow> kept d (update_track k (step_track f) d)"
  by (rule kept_update_track) auto

lemma place_on_track_kept:
  assumes ok: "place_on_track d m st tt mode target = Inr (d', ws)" and tt: "tt \<noteq> ''visual_base''"
  shows "kept d d'"
proof -
  obtain k f c where k: "trackByID d tt = Some k"
    and d': "d' = update_track k (\<lambda>t. sortTrack (t\<lparr>Clips := Clips t @ [c]\<rparr>)) (update_track k (step_track f) d)"
    using ok by (auto simp: place_on_track_def Let_def shiftTrackForInsert_def eraseTrackRange_def split: if_splits)
  have id: "TrackID (Tracks d ! k) \<noteq> ''visual_base''" "k < length (Tracks d)" using trackByID_Some [OF k] tt by auto
  then have "kept (update_track k (step_track f) d) d'" unfolding d' by (intro kept_add_clip) simp
  with kept_step_track [OF id(1)] show ?thesis by (rule kept_trans)
qed

text \<open>Taking a clip off its track; off the primary track, the gap is closed.\<close>

lemma track_spans_remove:
  assumes "j < length (Clips t)"
  shows "track_spans t = add_mset (span (Clips t ! j)) (track_spans (t\<lparr>Clips := take j (Clips t) @ drop (Suc j) (Clips t)\<rparr>))"
proof -
  have "mset (Clips t) = mset (take j (Clips t) @ Clips t ! j # drop (Suc j) (Clips t))"
    using assms by (simp add: id_take_nth_drop [symmetric])
  then show ?thesis unfolding track_spans_def by simp
qed

lemma removed_tiled:
  assumes e: "editable d" and l: "valid_loc d l" and vb: "TrackID (track_at d l) = ''visual_base''"
    and d1: "d1 = update_track (fst l) (\<lambda>t. t\<lparr>Clips := take (snd l) (Clips t) @ drop (Suc (snd l)) (Clips t)\<rparr>) d"
    and ok: "deleteRange d1 (range_op (TimelineStartFrame (clip_at d l)) (TimelineEndFrame (clip_at d l))) = Inr (d', ws)"
  shows "placeable d'"
proof -
  obtain p where p: "trackByID d ''visual_base'' = Some p" "p < length (Tracks d)"
    and t: "tiles (track_spans (Tracks d ! p)) (DurationFrames d)"
    and cin: "\<forall>c \<in> set (Clips (Tracks d ! p)). clip_in (DurationFrames d) c"
    using picture_primary [OF editable_tiled [OF e]] by blast
  have ids: "distinct (map TrackID (Tracks d))" using e by (simp add: editable_def wf_def)
  have "trackByID d ''visual_base'' = Some (fst l)"
    using l vb unfolding trackByID_distinct [OF ids] by (simp add: valid_loc_def track_at_def)
  with p(1) have fl: "fst l = p" by simp
  let ?a = "TimelineStartFrame (clip_at d l)" and ?b = "TimelineEndFrame (clip_at d l)"
  let ?t = "(Tracks d ! p)\<lparr>Clips := take (snd l) (Clips (Tracks d ! p)) @ drop (Suc (snd l)) (Clips (Tracks d ! p))\<rparr>"
  have at: "Tracks d1 ! p = ?t" "length (Tracks d1) = length (Tracks d)" "DurationFrames d1 = DurationFrames d"
    using p(2) fl by (simp_all add: d1)
  have M: "track_spans (Tracks d ! p) = add_mset (?a, ?b) (track_spans ?t)"
    using track_spans_remove [of "snd l" "Tracks d ! p"] l fl p(2)
    by (simp add: valid_loc_def track_at_def clip_at_def span_def)
  have "set (Clips ?t) \<subseteq> set (Clips (Tracks d ! p))"
    by (auto dest: in_set_takeD in_set_dropD)
  then have cin1: "\<forall>c \<in> set (Clips (Tracks d1 ! p)). clip_in (DurationFrames d1) c"
    using cin unfolding at by blast
  have sm: "small (DurationFrames d1)" using editable_small [OF e] by (simp only: at)
  have p1: "p < length (Tracks d1)" using p(2) by (simp only: at)
  note dr = deleteRange_spans [OF ok p1 cin1 sm frameValue_range_op(1,2), unfolded at]
  have id1: "map TrackID (Tracks d1) = map TrackID (Tracks d)"
    using p(2) fl by (simp add: d1 map_update list_update_same_conv)
  have "picture_tiled d'"
  proof (rule tiledI [OF p(1)])
    show "map TrackID (Tracks d') = map TrackID (Tracks d)" by (simp only: dr(5) id1)
    show "tiles (track_spans (Tracks d' ! p)) (DurationFrames d')"
      unfolding dr(4,6) by (rule tiles_remove [OF t [unfolded M]])
  qed
  moreover have "small (DurationFrames d')"
    using dr(1-4) editable_small [OF e] by (simp add: small_def)
  ultimately show ?thesis by (simp add: placeable_def)
qed

lemma detach_placeable:
  assumes e: "editable d" and l: "valid_loc d l" and ok: "detach d l target = Inr (d', ws, target')"
  shows "placeable d'"
proof (cases "TrackID (track_at d l) = ''visual_base''")
  case True
  with ok have "deleteRange (update_track (fst l) (\<lambda>t. t\<lparr>Clips := take (snd l) (Clips t) @ drop (Suc (snd l)) (Clips t)\<rparr>) d)
     (range_op (TimelineStartFrame (clip_at d l)) (TimelineEndFrame (clip_at d l))) = Inr (d', ws)"
    by (auto simp: detach_def Let_def)
  from removed_tiled [OF e l True refl this] show ?thesis .
next
  case False
  with ok have "d' = update_track (fst l) (\<lambda>t. t\<lparr>Clips := take (snd l) (Clips t) @ drop (Suc (snd l)) (Clips t)\<rparr>) d"
    by (auto simp: detach_def Let_def)
  moreover have "kept d (update_track (fst l) (\<lambda>t. t\<lparr>Clips := take (snd l) (Clips t) @ drop (Suc (snd l)) (Clips t)\<rparr>) d)"
    using False by (intro kept_update_track) (auto simp: track_at_def)
  ultimately show ?thesis using placeable_kept placeable_editable [OF e] by blast
qed

lemma place_clip_tiled:
  assumes d: "placeable d" and m: "clip_in D m" "small D" and ok: "place_clip d m st tt mode target = Inr (d', ws)"
  shows "picture_tiled d'"
proof (cases "tt = ''visual_base''")
  case True
  let ?m = "m\<lparr>ClipTrackID := ''visual_base'', Linked := False, ParentBlockID := []\<rparr>"
  have "TimelineStartFrame ?m < TimelineEndFrame ?m" "0 \<le> TimelineStartFrame ?m" "small (TimelineEndFrame ?m)"
    using m by (auto simp: clip_in_def small_def)
  note ins = insertIntoPrimary_tiled [OF _ _ this] and ovr = overwritePrimary_tiled [OF _ _ this]
  show ?thesis
  proof (cases "mode = ''insert''")
    case True
    with ok \<open>tt = _\<close> have "insertIntoPrimary d ?m target = Inr (d', ws)" by (simp add: place_clip_def)
    with ins d show ?thesis by (auto simp: placeable_def)
  next
    case False
    with ok \<open>tt = _\<close> have "overwritePrimary d ?m target = Inr (d', ws)" by (simp add: place_clip_def)
    with ovr d show ?thesis by (auto simp: placeable_def)
  qed
next
  case False
  with ok have "place_on_track d m st tt mode target = Inr (d', ws)" by (simp add: place_clip_def)
  from placeable_kept [OF place_on_track_kept [OF this False] d] show ?thesis by (simp add: placeable_def)
qed

lemma detach_and_place_tiled:
  assumes e: "editable d" and l: "valid_loc d l" and ok: "detach_and_place d l mode tt target = Inr (d', ws)"
  shows "picture_tiled d'"
proof -
  obtain d2 w2 target' w3 where d2: "detach d l target = Inr (d2, w2, target')"
    and pl: "place_clip d2 (clip_at d l) (TrackID (track_at d l)) tt mode target' = Inr (d', w3)"
    using ok by (auto simp: detach_and_place_def Let_def)
  show ?thesis
    by (rule place_clip_tiled [OF detach_placeable [OF e l d2] editable_clip(1) [OF e clip_at_doc [OF l]]
          editable_small [OF e] pl])
qed

lemma moveClip_tiled:
  assumes e: "editable d" and ok: "moveClip d op = Inr (d', ws)"
  shows "picture_tiled d'"
proof -
  have r: "reorderClip d op' = Inr (d', ws) \<Longrightarrow> ?thesis" for op'
    using reorderClip_tiled [OF editable_tiled [OF e] editable_small [OF e]] .
  obtain l where l: "editableLocation d op = Inr l" using ok by (auto simp: moveClip_def)
  have "(\<exists>op'. reorderClip d op' = Inr (d', ws)) \<or> (\<exists>mode tt target. detach_and_place d l mode tt target = Inr (d', ws))"
    using ok l by (auto simp: moveClip_def Let_def split: option.splits if_splits)
  with r detach_and_place_tiled [OF e editableLocation_Inr [OF l, THEN conjunct1]] show ?thesis by blast
qed

section \<open>Trimming an edge, deleting and inserting\<close>

lemma trimClipEdge_Inr:
  assumes "trimClipEdge d op = Inr (d', ws)"
  obtains l where "editableLocation d op = Inr l" and "members_unlocked d (edit_members d l) = Inr ()"
    and "has_primary d (edit_members d l) \<Longrightarrow> \<exists>s e. deleteRange d (range_op s e) = Inr (d', ws)"
    and "\<not> has_primary d (edit_members d l) \<Longrightarrow> \<exists>f. d' = update_members (edit_members d l) f d \<and> ws = []"
proof -
  obtain l where l: "editableLocation d op = Inr l" using assms by (auto simp: trimClipEdge_def)
  show ?thesis
    by (rule that [OF l]; use assms l in \<open>fastforce simp: trimClipEdge_def Let_def\<close>)
qed

lemma trimClipEdge_tiled:
  assumes e: "editable d" and ok: "trimClipEdge d op = Inr (d', ws)"
  shows "picture_tiled d'"
proof (rule trimClipEdge_Inr [OF ok])
  fix l assume p: "has_primary d (edit_members d l) \<Longrightarrow> \<exists>s e. deleteRange d (range_op s e) = Inr (d', ws)"
    and n: "\<not> has_primary d (edit_members d l) \<Longrightarrow> \<exists>f. d' = update_members (edit_members d l) f d \<and> ws = []"
  show ?thesis
  proof (cases "has_primary d (edit_members d l)")
    case True
    with p deleteRange_tiled [OF editable_tiled [OF e] editable_small [OF e]] show ?thesis by blast
  next
    case False
    then have "kept d (update_members (edit_members d l) f d)" for f
      by (intro kept_update_members_free) (auto simp: has_primary_def)
    with n False kept_tiled editable_tiled [OF e] show ?thesis by blast
  qed
qed

lemma nth_concat_unique:
  assumes "distinct (concat xss)" and "i < length xss" "a < length (xss ! i)" and "j < length xss" "b < length (xss ! j)"
    and "xss ! i ! a = xss ! j ! b"
  shows "i = j \<and> a = b"
  using assms
proof (induction xss arbitrary: i j)
  case (Cons xs xss)
  have dis: "set xs \<inter> set (concat xss) = {}" and d: "distinct xs" "distinct (concat xss)"
    using Cons.prems(1) by auto
  have tail: "xss ! k ! c \<notin> set xs" if "k < length xss" "c < length (xss ! k)" for k c
  proof -
    have "xss ! k \<in> set xss" "xss ! k ! c \<in> set (xss ! k)" using that by simp_all
    then have "xss ! k ! c \<in> set (concat xss)" by auto
    with dis show ?thesis by blast
  qed
  show ?case
  proof (cases i; cases j)
    fix i' j' assume "i = Suc i'" "j = Suc j'"
    with Cons.IH [of i' j'] Cons.prems d show ?thesis by simp
  next
    fix j' assume ij: "i = 0" "j = Suc j'"
    with Cons.prems tail [of j' b] nth_mem [of a xs] show ?thesis by simp
  next
    fix i' assume ij: "i = Suc i'" "j = 0"
    with Cons.prems tail [of i' a] nth_mem [of b xs] show ?thesis by simp
  qed (use Cons.prems d in \<open>simp add: nth_eq_iff_index_eq\<close>)
qed simp

lemma unique_loc:
  assumes d: "distinct (map TimelineClipID (doc_clips d))" and "valid_loc d l" "valid_loc d m"
    and "TimelineClipID (clip_at d l) = TimelineClipID (clip_at d m)"
  shows "l = m"
proof -
  have "distinct (concat (map (map TimelineClipID \<circ> Clips) (Tracks d)))"
    using d by (simp add: doc_clips_def map_concat comp_def)
  from nth_concat_unique [OF this, of "fst l" "snd l" "fst m" "snd m"] assms(2-4)
  show ?thesis by (auto simp: valid_loc_def clip_at_def track_at_def prod_eq_iff)
qed

text \<open>\<open>deleteClip\<close> removes the members of the edit and nothing else.\<close>

lemma remove_clip_member:
  assumes "distinct (map TimelineClipID (doc_clips d))" and "valid_loc d l" "valid_loc d m"
    and "remove_clip (clip_at d l) (clip_at d m)"
  shows "m \<in> set (edit_members d l)"
proof (cases "TimelineClipID (clip_at d m) = TimelineClipID (clip_at d l)")
  case True
  then have "m = l" using unique_loc [OF assms(1,3,2)] by simp
  with assms(2) show ?thesis by (auto simp: edit_members_def in_linkedGroup)
next
  case False
  with assms(3,4) show ?thesis by (auto simp: remove_clip_def edit_members_def in_linkedGroup)
qed

lemma filter_removed:
  assumes "distinct (map TimelineClipID (doc_clips d))" and "valid_loc d l" and "i < length (Tracks d)"
    and "\<forall>m \<in> set (edit_members d l). fst m \<noteq> i"
  shows "filter (\<lambda>c. \<not> remove_clip (clip_at d l) c) (Clips (Tracks d ! i)) = Clips (Tracks d ! i)"
proof (rule filter_True, rule ballI)
  fix c assume "c \<in> set (Clips (Tracks d ! i))"
  then obtain j where j: "j < length (Clips (Tracks d ! i))" "c = Clips (Tracks d ! i) ! j"
    by (auto simp: in_set_conv_nth)
  then have "valid_loc d (i, j)" "clip_at d (i, j) = c" using assms(3) by (simp_all add: valid_loc_def clip_at_def track_at_def)
  with remove_clip_member [OF assms(1,2)] assms(4) show "\<not> remove_clip (clip_at d l) c" by fastforce
qed

lemma deleteClip_Inr:
  assumes "deleteClip d op = Inr (d', ws)"
  obtains l where "editableLocation d op = Inr l" and "deletable_members d (edit_members d l) = Inr ()"
    and "has_primary d (edit_members d l) \<Longrightarrow> \<exists>s e. deleteRange d (range_op s e) = Inr (d', ws)"
    and "\<not> has_primary d (edit_members d l) \<Longrightarrow>
      d' = map_tracks (\<lambda>t. t\<lparr>Clips := filter (\<lambda>c. \<not> remove_clip (clip_at d l) c) (Clips t)\<rparr>) d \<and> ws = []"
proof -
  obtain l where l: "editableLocation d op = Inr l" using assms by (auto simp: deleteClip_def)
  show ?thesis
    by (rule that [OF l]; use assms l in \<open>fastforce simp: deleteClip_def Let_def\<close>)
qed

lemma deleteClip_tiled:
  assumes e: "editable d" and ok: "deleteClip d op = Inr (d', ws)"
  shows "picture_tiled d'"
proof (rule deleteClip_Inr [OF ok])
  fix l assume l: "editableLocation d op = Inr l"
    and p: "has_primary d (edit_members d l) \<Longrightarrow> \<exists>s e. deleteRange d (range_op s e) = Inr (d', ws)"
    and n: "\<not> has_primary d (edit_members d l) \<Longrightarrow>
      d' = map_tracks (\<lambda>t. t\<lparr>Clips := filter (\<lambda>c. \<not> remove_clip (clip_at d l) c) (Clips t)\<rparr>) d \<and> ws = []"
  have v: "valid_loc d l" using editableLocation_Inr [OF l] by blast
  have dis: "distinct (map TimelineClipID (doc_clips d))" using e by (simp add: editable_def wf_def)
  show ?thesis
  proof (cases "has_primary d (edit_members d l)")
    case True
    with p deleteRange_tiled [OF editable_tiled [OF e] editable_small [OF e]] show ?thesis by blast
  next
    case False
    then have free: "TrackID (Tracks d ! p) = ''visual_base'' \<Longrightarrow> \<forall>m \<in> set (edit_members d l). fst m \<noteq> p" for p
      by (auto simp: has_primary_def track_at_def)
    have "kept d (map_tracks (\<lambda>t. t\<lparr>Clips := filter (\<lambda>c. \<not> remove_clip (clip_at d l) c) (Clips t)\<rparr>) d)"
      by (simp add: kept_def comp_def track_spans_def filter_removed [OF dis v _ free])
    with n False kept_tiled editable_tiled [OF e] show ?thesis by auto
  qed
qed

lemma insert_start_primary:
  "insert_start d op t n = Inr s \<Longrightarrow> TrackID t = ''visual_base'' \<Longrightarrow> s = DurationFrames d"
  by (simp add: insert_start_def)

text \<open>Appending to the primary track of a document that has grown by the clip's length.\<close>

lemma append_primary_tiled:
  assumes e: "picture_tiled d" "small (DurationFrames d)" and n: "0 < n" "n \<le> 4611686018427387904"
    and i: "trackByID d ''visual_base'' = Some i"
    and k: "kept (d\<lparr>DurationFrames := i64 (DurationFrames d + n)\<rparr>) d1"
    and c: "span c = (DurationFrames d, i64 (DurationFrames d + n))"
  shows "picture_tiled (update_track i (\<lambda>t. t\<lparr>Clips := Clips t @ [c]\<rparr>) d1)"
proof -
  let ?d = "d\<lparr>DurationFrames := i64 (DurationFrames d + n)\<rparr>"
  have t: "tiles (track_spans (Tracks d ! i)) (DurationFrames d)"
    using picture_primary [OF e(1)] i by auto
  have I: "i64 (DurationFrames d + n) = DurationFrames d + n" using e(2) n by (simp add: small_def)
  have id: "TrackID (Tracks d ! i) = ''visual_base''" "i < length (Tracks d)" using trackByID_Some [OF i] by auto
  have "trackByID ?d = trackByID d" by (rule trackByID_ids) simp
  moreover have "trackByID d1 = trackByID ?d" using trackByID_ids [OF kept_ids [OF k]] .
  ultimately have i1: "trackByID d1 ''visual_base'' = Some i" using i by simp
  have sp: "track_spans (Tracks d1 ! i) = track_spans (Tracks d ! i)" and D1: "DurationFrames d1 = DurationFrames d + n"
    using k id I by (auto simp: kept_def)
  have "tiles (add_mset (DurationFrames d, DurationFrames d + n) (track_spans (Tracks d ! i))) (DurationFrames d + n)"
    by (rule tiles_append [OF t n(1)])
  then show ?thesis
    by (intro tiled_update_track [OF i1]) (simp_all add: placed_spans sp D1 c I)
qed

lemma attach_inserted_Inr:
  assumes "attach_inserted d i op audio clip n = Inr d'"
    and g: "grown = (if TrackID (Tracks d ! i) = ''visual_base'' then d\<lparr>DurationFrames := i64 (DurationFrames d + n)\<rparr> else d)"
  obtains c d1 where "span c = span clip" and "d' = update_track i (\<lambda>t. t\<lparr>Clips := Clips t @ [c]\<rparr>) d1" and "kept grown d1"
proof (cases audio)
  case False
  with assms that [of clip grown] show ?thesis by (simp add: attach_inserted_def Let_def)
next
  case True
  with assms obtain a gid where a: "trackByID d ''original_audio'' = Some a"
    and d': "d' = update_track i (\<lambda>t. t\<lparr>Clips := Clips t @ [link_to gid clip]\<rparr>)
      (update_track a (\<lambda>t. sortTrack (t\<lparr>Clips := Clips t @ [audio_twin gid clip]\<rparr>)) grown)"
    by (auto simp: attach_inserted_def Let_def)
  have "TrackID (Tracks grown ! a) \<noteq> ''visual_base''" using trackByID_Some [OF a] by (simp add: g)
  from that [OF _ d' kept_add_clip [OF this]] show ?thesis by simp
qed

lemma insertClip_tiled:
  assumes e: "picture_tiled d" "small (DurationFrames d)" and op: "op_bounded op" and ok: "insertClip d op = Inr (d', ws)"
  shows "picture_tiled d'"
proof -
  obtain f t i s audio meta where f: "frameValue op ''source_start_frame'' = Inr f" and t: "frameValue op ''source_end_frame'' = Inr t"
    and r: "0 \<le> f" "f < t" and i: "trackByID d (valueOr (stringValue (gget op ''track_id'')) ''visual_base'') = Some i"
    and s: "insert_start d op (Tracks d ! i) (i64 (t - f)) = Inr s"
    and at: "attach_inserted d i op audio (inserted_clip d op (Tracks d ! i) s (i64 (t - f)) f t meta) (i64 (t - f)) = Inr d'"
    using ok by (auto simp: insertClip_def)
  define n where "n = i64 (t - f)"
  have n: "0 < n" "n \<le> 4611686018427387904"
    using frameValue_small [OF op f] frameValue_small [OF op t] r by (auto simp: n_def small_def)
  obtain c d1 where c: "span c = (s, i64 (s + n))" and d': "d' = update_track i (\<lambda>t. t\<lparr>Clips := Clips t @ [c]\<rparr>) d1"
    and k: "kept (if TrackID (Tracks d ! i) = ''visual_base'' then d\<lparr>DurationFrames := i64 (DurationFrames d + n)\<rparr> else d) d1"
  proof (rule attach_inserted_Inr [OF at [folded n_def] refl])
    fix c d1 assume "span c = span (inserted_clip d op (Tracks d ! i) s n f t meta)"
      "d' = update_track i (\<lambda>t. t\<lparr>Clips := Clips t @ [c]\<rparr>) d1"
      "kept (if TrackID (Tracks d ! i) = ''visual_base'' then d\<lparr>DurationFrames := i64 (DurationFrames d + n)\<rparr> else d) d1"
    then show thesis by (intro that) (simp_all add: inserted_clip_def span_def)
  qed
  have il: "i < length (Tracks d)" using trackByID_Some [OF i] by simp
  show ?thesis
  proof (cases "TrackID (Tracks d ! i) = ''visual_base''")
    case True
    then have "trackByID d ''visual_base'' = Some i" using i trackByID_Some [OF i] by simp
    moreover have "s = DurationFrames d" using insert_start_primary [OF s True] .
    ultimately show ?thesis using append_primary_tiled [OF e n] k True c d' by simp
  next
    case False
    with k have k: "kept d d1" by simp
    then have "TrackID (Tracks d1 ! i) \<noteq> ''visual_base''"
      using False track_at_kept [OF k, of "(i, 0)"] il by (simp add: track_at_def)
    then have "kept d1 d'" unfolding d' by (intro kept_update_track) auto
    with k show ?thesis using kept_trans kept_tiled e(1) by blast
  qed
qed

end
