(* ===== verification/Timeline_Contract.thy ===== *)
theory Timeline_Contract
  imports Timeline_Moves
begin

text \<open>
  The contract between \<open>ApplyPatch\<close> and the handlers it dispatches to: what every handler keeps of
  the working copy, the patched document has.  The first instance is the picture.
\<close>

section \<open>From handlers to patches\<close>

lemma core_clamp [simp]: "core_clip (clamp_fades c) = clamp_fades (core_clip c)"
  by (simp add: core_clip_def with_meta_def clamp_fades_def Let_def)

lemma core_core [simp]: "core (core d) = core d"
proof -
  have c: "core_clip (core_clip c) = core_clip c" for c :: "'a Clip" by (simp add: core_clip_def with_meta_def)
  then show ?thesis by (simp add: core_def with_tracks_def core_track_def with_clips_def comp_def)
qed

lemma core_stamp [simp]: "core (next_version (clampClipFades d)) = next_version (clampClipFades (core d))"
  by (simp add: core_def with_tracks_def next_version_def clampClipFades_def map_tracks_def core_track_def
      with_clips_def comp_def)

locale patch_contract =
  fixes h :: "rdoc \<Rightarrow> gmap \<Rightarrow> tl_error + edit"
    and ready :: "unit Document \<Rightarrow> gmap \<Rightarrow> bool"
    and promise :: "unit Document \<Rightarrow> unit Document \<Rightarrow> bool"
  assumes keeps: "ready (core d) op \<Longrightarrow> h d op = Inr (d', ws) \<Longrightarrow> promise (core d) (core d')"
    and stamped: "ready c op \<Longrightarrow> promise c c' \<Longrightarrow> promise c (next_version (clampClipFades c'))"
begin

lemma applied:
  assumes "ready (core d) op" and "apply_handler h d op = Inr d'"
  shows "promise (core d) (core d')"
proof -
  obtain copy st d1 ws where c: "clone d = Inr (copy, st)" and h: "h copy op = Inr (d1, ws)"
    and d': "d' = resolve (store_writes ws st) (next_version (clampClipFades d1))"
    using assms(2) by (auto simp: apply_handler_def)
  have "promise (core d) (core d1)" using keeps [OF _ h] assms(1) by (simp add: core_clone [OF c])
  from stamped [OF assms(1) this] show ?thesis by (simp add: d')
qed

end

lemma ApplyPatch_Inr:
  "ApplyPatch d op = Inr d' \<longleftrightarrow> ValidateOpFields op = Inr () \<and> apply_handler dispatch d op = Inr d'"
  by (simp add: ApplyPatch_def)

section \<open>The picture\<close>

lemma kept_clamp: "kept d (clampClipFades d)"
  unfolding clampClipFades_def
  by (rule kept_map_tracks) (simp_all add: track_spans_def image_mset.compositionality comp_def span_def [abs_def] clamp_fades_def Let_def)

lemma kept_next_version: "kept d (next_version d)"
  by (simp add: kept_def next_version_def)

lemma validated_rate:
  "ValidateOpFields op = Inr () \<Longrightarrow> stringValue (gget op ''kind'') = ''set_playback_rate'' \<Longrightarrow>
    map_of op ''playback_rate'' \<noteq> None"
proof -
  assume ok: "ValidateOpFields op = Inr ()" and kind: "stringValue (gget op ''kind'') = ''set_playback_rate''"
  have "\<exists>spec. LookupOpSpec ''set_playback_rate'' = Some spec
      \<and> (\<exists>f \<in> set (SpecFields spec). FieldName f = ''playback_rate'' \<and> Required f \<and> \<not> Injected f)"
    by (simp add: LookupOpSpec_def Catalog_def field_def clipIDField_def)
  with required_field [OF ok] kind have "ghas op ''playback_rate''" by fastforce
  then show ?thesis by (simp add: ghas_def)
qed

lemma if_eq_cases: "(if b then x else y) = z \<longleftrightarrow> b \<and> x = z \<or> \<not> b \<and> y = z"
  by simp

lemma dispatch_Inr:
  assumes "dispatch d op = Inr r"
  shows "trimClip d op = Inr r \<or> splitClip d op = Inr r \<or> reorderClip d op = Inr r \<or> moveClip d op = Inr r
    \<or> trimClipEdge d op = Inr r \<or> deleteClip d op = Inr r \<or> setTrackState d op = Inr r
    \<or> setTrackDucking d op = Inr r \<or> setClipLinked d op = Inr r \<or> insertSubtitle d op = Inr r
    \<or> deleteRange d op = Inr r \<or> deleteSourceRange d op = Inr r \<or> insertClip d op = Inr r
    \<or> replaceClip d op = Inr r
    \<or> stringValue (gget op ''kind'') = ''set_playback_rate'' \<and> setPlaybackRate d op = Inr r
    \<or> adjustGain d op = Inr r \<or> setClipFades d op = Inr r \<or> editSubtitleText d op = Inr r
    \<or> removeTrackClips d (stringValue (gget op ''track_id'')) = Inr r"
  using assms unfolding dispatch_def run_handler_def if_eq_cases by (elim disjE conjE) (blast | simp only: sum.distinct)+

lemma dispatch_tiled:
  assumes e: "editable d" and op: "op_bounded op" "ValidateOpFields op = Inr ()" and ok: "dispatch d op = Inr (d', ws)"
  shows "picture_tiled d'"
proof -
  have k: "picture_tiled d'" if "kept d d'" using kept_tiled [OF that editable_tiled [OF e]] .
  note base = editable_tiled [OF e] editable_small [OF e]
  note moved = trimClip_tiled [OF e op(1)] splitClip_tiled [OF base(1)] reorderClip_tiled [OF base]
    moveClip_tiled [OF e] trimClipEdge_tiled [OF e] deleteClip_tiled [OF e] deleteRange_tiled [OF base]
    deleteSourceRange_tiled [OF base] insertClip_tiled [OF base op(1)]
    setPlaybackRate_tiled [OF e op(1) validated_rate [OF op(2)]]
  note same = setTrackState_kept [of "[''muted'', ''solo'', ''locked'']", folded setTrackState_def, THEN k] setTrackDucking_kept [THEN k]
    setClipLinked_kept [THEN k] insertSubtitle_kept [THEN k] replaceClip_kept [THEN k] adjustGain_kept [THEN k]
    setClipFades_kept [THEN k] editSubtitleText_kept [THEN k] removeTrackClips_kept [THEN k]
  from dispatch_Inr [OF ok] show ?thesis
    by (elim disjE conjE) (erule moved same | assumption)+
qed

definition picture_ready :: "'m Document \<Rightarrow> gmap \<Rightarrow> bool" where
  "picture_ready d op \<longleftrightarrow> editable d \<and> op_bounded op \<and> ValidateOpFields op = Inr ()"

lemma ex_map_single: "(\<exists>v. map core_clip cs = [v] \<and> P v) \<longleftrightarrow> (\<exists>v. cs = [v] \<and> P (core_clip v))"
  by (auto simp: map_eq_Cons_conv)

lemma wf_core [simp]: "wf (core d) \<longleftrightarrow> wf d"
  unfolding wf_def picture_tiled_core [OF core_core]
  by (simp add: groups_paired_def comp_def image_iff clip_in_def ex_map_single)

lemma editable_core [simp]: "editable (core d) \<longleftrightarrow> editable d"
  unfolding editable_def by (simp only: in_bounds_core [OF core_core] groups_unmixed_core [OF core_core] wf_core)

interpretation picture: patch_contract dispatch picture_ready "\<lambda>_ d'. picture_tiled d'"
proof
  fix d d' op ws assume "picture_ready (core d) op" "dispatch d op = Inr (d', ws)"
  then have "picture_tiled d'" by (intro dispatch_tiled) (auto simp: picture_ready_def)
  then show "picture_tiled (core d')" by (simp only: picture_tiled_core [OF core_core])
next
  fix c c' :: "unit Document" assume "picture_tiled c'"
  then show "picture_tiled (next_version (clampClipFades c'))"
    by (rule kept_tiled [OF kept_trans [OF kept_clamp kept_next_version]])
qed

text \<open>
  C1. Patching keeps the picture whole.  If a document passes \<open>Validate\<close>, its frame numbers are
  below \<open>2\<^sup>52\<close>, no clip is slower than 1/64 and no linked picture group has members on free tracks,
  then after every successful patch the primary track again shows every frame of the timeline
  exactly once.
\<close>

theorem patch_keeps_picture:
  assumes "valid_document d" and "in_bounds d" and "groups_unmixed d" and "op_bounded op"
    and "ApplyPatch d op = Inr d'"
  shows "picture_tiled d'"
proof -
  have "picture_ready (core d) op"
    using assms valid_wf [OF assms(1)] by (simp add: picture_ready_def ApplyPatch_Inr) (simp add: editable_def)
  with picture.applied [of d op d'] assms(5) have "picture_tiled (core d')" by (simp add: ApplyPatch_Inr)
  then show ?thesis by (simp only: picture_tiled_core [OF core_core])
qed

end
