(* ===== verification/Timeline_Locks.thy ===== *)
theory Timeline_Locks
  imports Timeline_Contract
begin

text \<open>
  No operation moves, changes, adds or removes a clip of a locked track.  \<open>guarded d d'\<close> says it of
  one edit; the handlers reach it through their lock checks and the lock checks of the ripple
  operations they call.
\<close>

section \<open>Guarded edits\<close>

definition guarded :: "'m Document \<Rightarrow> 'm Document \<Rightarrow> bool" where
  "guarded d d' \<longleftrightarrow> length (Tracks d') = length (Tracks d)
     \<and> (\<forall>i < length (Tracks d). Locked (Tracks d ! i) \<longrightarrow> mset (Clips (Tracks d' ! i)) = mset (Clips (Tracks d ! i)))"

definition same_locks :: "'m Document \<Rightarrow> 'm Document \<Rightarrow> bool" where
  "same_locks d d' \<longleftrightarrow> map TrackID (Tracks d') = map TrackID (Tracks d) \<and> map Locked (Tracks d') = map Locked (Tracks d)"

text \<open>Edits that also leave every lock and every track id as it was can be chained.\<close>

definition safe :: "'m Document \<Rightarrow> 'm Document \<Rightarrow> bool" where
  "safe d d' \<longleftrightarrow> same_locks d d' \<and> guarded d d'"

lemma safe_refl [simp, intro]: "safe d d"
  by (simp add: safe_def same_locks_def guarded_def)

lemma safe_trans: "safe d d' \<Longrightarrow> safe d' d'' \<Longrightarrow> safe d d''"
  unfolding safe_def same_locks_def guarded_def by (metis length_map nth_map)

lemma safe_guarded: "safe d d' \<Longrightarrow> guarded d d'"
  by (simp add: safe_def)

lemma safe_update_track:
  assumes "Locked (f (Tracks d ! i)) = Locked (Tracks d ! i)" and "TrackID (f (Tracks d ! i)) = TrackID (Tracks d ! i)"
    and "Locked (Tracks d ! i) \<Longrightarrow> mset (Clips (f (Tracks d ! i))) = mset (Clips (Tracks d ! i))"
  shows "safe d (update_track i f d)"
proof (cases "i < length (Tracks d)")
  case True
  then have "map Locked ((Tracks d)[i := f (Tracks d ! i)]) = map Locked (Tracks d)"
    and "map TrackID ((Tracks d)[i := f (Tracks d ! i)]) = map TrackID (Tracks d)"
    using assms(1,2) by (simp_all add: map_update list_update_same_conv)
  with assms(3) True show ?thesis
    by (auto simp: safe_def same_locks_def guarded_def nth_list_update)
qed (simp add: safe_def same_locks_def guarded_def update_track_def list_update_beyond)

lemma safe_map_tracks:
  assumes "\<And>t. t \<in> set (Tracks d) \<Longrightarrow> Locked (f t) = Locked t" and "\<And>t. t \<in> set (Tracks d) \<Longrightarrow> TrackID (f t) = TrackID t"
    and "\<And>t. t \<in> set (Tracks d) \<Longrightarrow> Locked t \<Longrightarrow> mset (Clips (f t)) = mset (Clips t)"
  shows "safe d (map_tracks f d)"
  using assms by (auto simp: safe_def same_locks_def guarded_def)

lemma safe_duration [simp]: "safe d (d\<lparr>DurationFrames := n\<rparr>)"
  by (simp add: safe_def same_locks_def guarded_def)

lemma safe_update_clip: "\<not> Locked (track_at d l) \<Longrightarrow> safe d (update_clip l f d)"
  unfolding update_clip_def by (rule safe_update_track) (auto simp: track_at_def)

lemma update_clip_locked [simp]: "Locked (Tracks (update_clip l f d) ! i) = Locked (Tracks d ! i)"
  by (cases "i = fst l"; cases "i < length (Tracks d)")
    (auto simp: update_clip_def update_track_def list_update_beyond nth_list_update)

lemma safe_update_members:
  assumes "\<And>m. m \<in> set ms \<Longrightarrow> \<not> Locked (track_at d m)"
  shows "safe d (update_members ms f d)"
  using assms unfolding update_members_def
proof (induction ms arbitrary: d)
  case (Cons m ms)
  have "safe (update_clip m f d) (fold (\<lambda>l. update_clip l f) ms (update_clip m f d))"
    using Cons.prems by (intro Cons.IH) (auto simp: track_at_def)
  moreover have "safe d (update_clip m f d)" using Cons.prems by (intro safe_update_clip) simp
  ultimately show ?case using safe_trans by auto
qed simp

lemma members_unlocked_Inr: "members_unlocked d ms = Inr () \<longleftrightarrow> (\<forall>m \<in> set ms. \<not> Locked (track_at d m))"
  by (auto simp: members_unlocked_def find_None_iff split: option.split)

section \<open>Ripples\<close>

lemma step_track_same:
  "(\<And>c. c \<in> set (Clips t) \<Longrightarrow> fst (f c) = [c]) \<Longrightarrow> step_track f t = t"
proof -
  assume "\<And>c. c \<in> set (Clips t) \<Longrightarrow> fst (f c) = [c]"
  then have "concat (map (fst \<circ> f) (Clips t)) = concat (map (\<lambda>c. [c]) (Clips t))"
    by (intro arg_cong [where f = concat] map_cong) auto
  then show ?thesis by (simp add: step_track_def)
qed

lemma ensureRippleUnlocked_Inr:
  "ensureRippleUnlocked d b except = Inr () \<longleftrightarrow>
    (\<forall>t \<in> set (Tracks d). Locked t \<longrightarrow> TrackID t \<noteq> except \<longrightarrow> (\<forall>c \<in> set (Clips t). TimelineEndFrame c \<le> b))"
  by (auto simp: ensureRippleUnlocked_def find_None_iff not_less split: option.split)

lemma ensureShiftAfterUnlocked_Inr:
  "ensureShiftAfterUnlocked d b = Inr () \<longleftrightarrow>
    (\<forall>t \<in> set (Tracks d). Locked t \<longrightarrow> (\<forall>c \<in> set (Clips t). TimelineStartFrame c < b))"
  by (auto simp: ensureShiftAfterUnlocked_def find_None_iff not_le split: option.split)

lemma deleteRange_safe:
  assumes ids: "\<forall>t \<in> set (Tracks d). TrackID t \<noteq> []" and ok: "deleteRange d op = Inr (d', ws)"
  shows "safe d d'"
proof -
  obtain s e where e: "ensureRippleUnlocked d s [] = Inr ()"
    and d': "d' = map_tracks sortTrack ((map_tracks (step_track (delete_range_step s e)) d)\<lparr>DurationFrames := i64 (DurationFrames d - i64 (e - s))\<rparr>)"
    using ok by (auto simp: deleteRange_def Let_def)
  have "safe d (map_tracks (step_track (delete_range_step s e)) d)"
  proof (rule safe_map_tracks)
    fix t assume t: "t \<in> set (Tracks d)" "Locked t"
    have "step_track (delete_range_step s e) t = t"
      by (rule step_track_same) (use e t ids in \<open>auto simp: ensureRippleUnlocked_Inr delete_range_step_def\<close>)
    then show "mset (Clips (step_track (delete_range_step s e) t)) = mset (Clips t)" by simp
  qed simp_all
  from safe_trans [OF safe_trans [OF this safe_duration] safe_map_tracks] show ?thesis unfolding d' by auto
qed

lemma deleteSourceRange_safe:
  "\<forall>t \<in> set (Tracks d). TrackID t \<noteq> [] \<Longrightarrow> deleteSourceRange d op = Inr (d', ws) \<Longrightarrow> safe d d'"
  by (auto simp: deleteSourceRange_def Let_def split: prod.splits dest: deleteRange_safe)

lemma shift_tracks_safe:
  assumes "\<forall>t \<in> set (Tracks d). Locked t \<longrightarrow> (\<forall>c \<in> set (Clips t). TimelineStartFrame c < b)"
  shows "safe d (map_tracks (step_track (shift_from b delta)) d)"
proof (rule safe_map_tracks)
  fix t assume t: "t \<in> set (Tracks d)" "Locked t"
  have "step_track (shift_from b delta) t = t"
    by (rule step_track_same) (use assms t in \<open>fastforce simp: shift_from_def\<close>)
  then show "mset (Clips (step_track (shift_from b delta) t)) = mset (Clips t)" by simp
qed simp_all

lemma safe_locked_clips:
  assumes "safe d d'" and "t' \<in> set (Tracks d')" "Locked t'"
  obtains t where "t \<in> set (Tracks d)" "Locked t" "TrackID t' = TrackID t" "set (Clips t') = set (Clips t)"
proof -
  obtain i where i: "i < length (Tracks d')" "t' = Tracks d' ! i" using assms(2) by (auto simp: in_set_conv_nth)
  have len: "length (Tracks d') = length (Tracks d)" and ids: "map TrackID (Tracks d') = map TrackID (Tracks d)"
    and lk: "map Locked (Tracks d') = map Locked (Tracks d)"
    using assms(1) by (simp_all add: safe_def same_locks_def guarded_def)
  have at: "Locked (Tracks d ! i)" "TrackID t' = TrackID (Tracks d ! i)"
    using assms(3) i len arg_cong [OF lk, of "\<lambda>xs. xs ! i"] arg_cong [OF ids, of "\<lambda>xs. xs ! i"] by simp_all
  then have "mset (Clips t') = mset (Clips (Tracks d ! i))"
    using assms(1) i len by (simp add: safe_def guarded_def)
  then have "set (Clips t') = set (Clips (Tracks d ! i))" by (rule mset_eq_setD)
  with at i len show ?thesis by (intro that [of "Tracks d ! i"]) simp_all
qed

lemma retime_members_safe:
  assumes ok: "retime_members d l n f = Inr (d', ws)"
  shows "safe d d'"
proof -
  let ?g = "\<lambda>c. (f c)\<lparr>TimelineEndFrame := i64 (TimelineStartFrame c + n)\<rparr>"
  define b where "b = i64 (TimelineStartFrame (clip_at d l) + i64 (TimelineEndFrame (clip_at d l) - TimelineStartFrame (clip_at d l)))"
  define d1 where "d1 = update_members (edit_members d l) ?g d"
  have "members_unlocked d (edit_members d l) = Inr ()"
    and r: "d' = d1 \<or> ensureShiftAfterUnlocked d b = Inr () \<and> (\<exists>delta w. shiftAfter d1 b delta = (d', w))"
    using ok by (auto simp: retime_members_def Let_def d1_def b_def split: if_splits prod.splits)
  then have s1: "safe d d1" unfolding d1_def by (intro safe_update_members) (simp add: members_unlocked_Inr)
  from r show ?thesis
  proof
    assume "ensureShiftAfterUnlocked d b = Inr () \<and> (\<exists>delta w. shiftAfter d1 b delta = (d', w))"
    then obtain delta where e: "ensureShiftAfterUnlocked d b = Inr ()" and d': "d' = fst (shiftAfter d1 b delta)"
      by (metis fst_conv)
    have "\<forall>t \<in> set (Tracks d1). Locked t \<longrightarrow> (\<forall>c \<in> set (Clips t). TimelineStartFrame c < b)"
      using e safe_locked_clips [OF s1] unfolding ensureShiftAfterUnlocked_Inr by metis
    then have "safe d1 d'" unfolding d' shiftAfter_def
      using safe_trans [OF shift_tracks_safe safe_duration] by simp
    with s1 show ?thesis by (rule safe_trans)
  qed (use s1 in simp)
qed

lemma trimClip_safe: "trimClip d op = Inr (d', ws) \<Longrightarrow> safe d d'"
  by (auto simp: trimClip_def dest: retime_members_safe)

lemma setPlaybackRate_safe: "setPlaybackRate d op = Inr (d', ws) \<Longrightarrow> safe d d'"
  by (auto simp: setPlaybackRate_def Let_def dest: retime_members_safe)

lemma trimClipEdge_safe:
  assumes ids: "\<forall>t \<in> set (Tracks d). TrackID t \<noteq> []" and ok: "trimClipEdge d op = Inr (d', ws)"
  shows "safe d d'"
proof (rule trimClipEdge_Inr [OF ok])
  fix l assume u: "members_unlocked d (edit_members d l) = Inr ()"
    and p: "has_primary d (edit_members d l) \<Longrightarrow> \<exists>s e. deleteRange d (range_op s e) = Inr (d', ws)"
    and n: "\<not> has_primary d (edit_members d l) \<Longrightarrow> \<exists>f. d' = update_members (edit_members d l) f d \<and> ws = []"
  show ?thesis
  proof (cases "has_primary d (edit_members d l)")
    case True
    with p deleteRange_safe [OF ids] show ?thesis by blast
  next
    case False
    with n obtain f where "d' = update_members (edit_members d l) f d" by blast
    with u show ?thesis by (simp add: members_unlocked_Inr safe_update_members)
  qed
qed

lemma deleteClip_safe:
  assumes ids: "\<forall>t \<in> set (Tracks d). TrackID t \<noteq> []" and dis: "distinct (map TimelineClipID (doc_clips d))"
    and ok: "deleteClip d op = Inr (d', ws)"
  shows "safe d d'"
proof (rule deleteClip_Inr [OF ok])
  fix l assume l: "editableLocation d op = Inr l" and u: "deletable_members d (edit_members d l) = Inr ()"
    and p: "has_primary d (edit_members d l) \<Longrightarrow> \<exists>s e. deleteRange d (range_op s e) = Inr (d', ws)"
    and n: "\<not> has_primary d (edit_members d l) \<Longrightarrow>
      d' = map_tracks (\<lambda>t. t\<lparr>Clips := filter (\<lambda>c. \<not> remove_clip (clip_at d l) c) (Clips t)\<rparr>) d \<and> ws = []"
  have v: "valid_loc d l" using editableLocation_Inr [OF l] by blast
  have un: "\<forall>m \<in> set (edit_members d l). \<not> Locked (track_at d m)"
    using u by (auto simp: deletable_members_def find_None_iff split: option.splits)
  show ?thesis
  proof (cases "has_primary d (edit_members d l)")
    case True
    with p deleteRange_safe [OF ids] show ?thesis by blast
  next
    case False
    have "safe d (map_tracks (\<lambda>t. t\<lparr>Clips := filter (\<lambda>c. \<not> remove_clip (clip_at d l) c) (Clips t)\<rparr>) d)"
    proof (rule safe_map_tracks)
      fix t assume t: "t \<in> set (Tracks d)" "Locked t"
      then obtain i where i: "i < length (Tracks d)" "t = Tracks d ! i" by (auto simp: in_set_conv_nth)
      with un t have "\<forall>m \<in> set (edit_members d l). fst m \<noteq> i" by (auto simp: track_at_def)
      from filter_removed [OF dis v i(1) this]
      show "mset (Clips (t\<lparr>Clips := filter (\<lambda>c. \<not> remove_clip (clip_at d l) c) (Clips t)\<rparr>)) = mset (Clips t)"
        by (simp add: i)
    qed simp_all
    with n False show ?thesis by blast
  qed
qed

section \<open>Splitting and placing\<close>

lemma split_track_locked:
  assumes "split_track (split_step sel g1 g2 new frame) t = Inr (t', ws)"
  shows "TrackID t' = TrackID t" "Locked t' = Locked t"
    and "\<forall>c \<in> set (Clips t). \<not> should_split sel g1 c \<or> TimelineEndFrame c \<le> frame \<Longrightarrow> Clips t' = Clips t"
proof -
  obtain rs where rs: "list_all2 (\<lambda>c r. split_step sel g1 g2 new frame c = Inr r) (Clips t) rs"
    and t': "t' = t\<lparr>Clips := concat (map fst rs)\<rparr>"
    using assms by (auto simp: split_track_def map_bind_Inr)
  show "TrackID t' = TrackID t" "Locked t' = Locked t" by (simp_all add: t')
  assume un: "\<forall>c \<in> set (Clips t). \<not> should_split sel g1 c \<or> TimelineEndFrame c \<le> frame"
  have one: "fst r = [c]" if "c \<in> set (Clips t)" "split_step sel g1 g2 new frame c = Inr r" for c r
  proof (cases "should_split sel g1 c")
    case True
    with that un have "TimelineEndFrame c \<le> frame" by blast
    with that(2) True show ?thesis by (auto simp: split_step_def splitClipValue_def)
  next
    case False
    with that(2) show ?thesis by (auto simp: split_step_def)
  qed
  have "list_all2 (\<lambda>c r. fst r = [c]) (Clips t) rs"
    using rs one by (auto simp: list_all2_conv_all_nth)
  then have "concat (map fst rs) = Clips t"
    by (induction rule: list_all2_induct) simp_all
  then show "Clips t' = Clips t" by (simp add: t')
qed

lemma splitClip_guard:
  assumes ok: "splitClip d op = Inr (d', ws)" and l: "editableLocation d op = Inr l"
    and frame: "frameValue op ''split_frame'' = Inr frame"
    and un: "\<And>t c. t \<in> set (Tracks d) \<Longrightarrow> Locked t \<Longrightarrow> c \<in> set (Clips t) \<Longrightarrow>
      \<not> should_split (TimelineClipID (clip_at d l)) (if Linked (clip_at d l) then ParentBlockID (clip_at d l) else []) c
      \<or> TimelineEndFrame c \<le> frame"
  shows "safe d d'"
proof -
  let ?sel = "TimelineClipID (clip_at d l)" and ?g = "if Linked (clip_at d l) then ParentBlockID (clip_at d l) else []"
  obtain g2 new rs where rs: "list_all2 (\<lambda>t r. split_track (split_step ?sel ?g g2 new frame) t = Inr r) (Tracks d) rs"
    and d': "d' = d\<lparr>Tracks := map fst rs\<rparr>"
    using ok l frame by (auto simp: splitClip_def Let_def map_bind_Inr)
  have len: "length rs = length (Tracks d)" using rs by (simp add: list_all2_lengthD)
  have at: "split_track (split_step ?sel ?g g2 new frame) (Tracks d ! i) = Inr (Tracks d' ! i, snd (rs ! i))"
    if "i < length (Tracks d)" for i
    using that rs len by (simp add: list_all2_conv_all_nth d')
  have "map TrackID (Tracks d') = map TrackID (Tracks d)" "map Locked (Tracks d') = map Locked (Tracks d)"
    using len split_track_locked(1,2) [OF at] by (auto intro!: nth_equalityI simp: d')
  moreover have "Clips (Tracks d' ! i) = Clips (Tracks d ! i)" if "i < length (Tracks d)" "Locked (Tracks d ! i)" for i
    using split_track_locked(3) [OF at [OF that(1)]] un [OF nth_mem [OF that(1)] that(2)] by blast
  ultimately show ?thesis using len by (simp add: safe_def same_locks_def guarded_def d')
qed

lemma splitClip_safe:
  assumes dis: "distinct (map TimelineClipID (doc_clips d))" and ok: "splitClip d op = Inr (d', ws)"
  shows "safe d d'"
proof -
  obtain l frame where l: "editableLocation d op = Inr l" and frame: "frameValue op ''split_frame'' = Inr frame"
    using ok by (auto simp: splitClip_def)
  let ?g = "if Linked (clip_at d l) then ParentBlockID (clip_at d l) else []"
  have v: "valid_loc d l" "\<not> Locked (track_at d l)" using editableLocation_Inr [OF l] by auto
  have un: "\<forall>m \<in> set (linkedGroup d ?g). \<not> Locked (track_at d m)"
    using ok l frame by (auto simp: splitClip_def Let_def find_None_iff)
  show ?thesis
  proof (rule splitClip_guard [OF ok l frame])
    fix t c assume t: "t \<in> set (Tracks d)" "Locked t" "c \<in> set (Clips t)"
    then obtain i j where i: "i < length (Tracks d)" "t = Tracks d ! i" "j < length (Clips t)" "c = Clips t ! j"
      by (auto simp: in_set_conv_nth)
    then have c: "valid_loc d (i, j)" "clip_at d (i, j) = c" "track_at d (i, j) = t"
      by (simp_all add: valid_loc_def clip_at_def track_at_def)
    have "\<not> should_split (TimelineClipID (clip_at d l)) ?g c"
    proof
      assume "should_split (TimelineClipID (clip_at d l)) ?g c"
      then consider "TimelineClipID c = TimelineClipID (clip_at d l)" | "(i, j) \<in> set (linkedGroup d ?g)"
        using c by (auto simp: should_split_def in_linkedGroup)
      then show False
      proof cases
        case 1
        then have "(i, j) = l" using unique_loc [OF dis c(1) v(1)] c(2) by simp
        with v(2) c(3) t(2) show ?thesis by simp
      next
        case 2
        with un c(3) t(2) show ?thesis by auto
      qed
    qed
    then show "\<not> should_split (TimelineClipID (clip_at d l)) ?g c \<or> TimelineEndFrame c \<le> frame" ..
  qed
qed

lemma splitDocumentPrimaryAt_safe:
  assumes un: "\<And>t c. t \<in> set (Tracks d) \<Longrightarrow> Locked t \<Longrightarrow> c \<in> set (Clips t) \<Longrightarrow> TimelineEndFrame c \<le> frame"
    and ok: "splitDocumentPrimaryAt d frame = Inr (d', ws)"
  shows "safe d d'"
proof -
  have "d' = d \<or> (\<exists>cid. splitClip d [(''timeline_clip_id'', GStr cid), (''split_frame'', GInt frame)] = Inr (d', ws))"
    using ok by (auto simp: splitDocumentPrimaryAt_def split: option.splits if_splits)
  then show ?thesis
  proof
    assume "\<exists>cid. splitClip d [(''timeline_clip_id'', GStr cid), (''split_frame'', GInt frame)] = Inr (d', ws)"
    then obtain cid where 2: "splitClip d [(''timeline_clip_id'', GStr cid), (''split_frame'', GInt frame)] = Inr (d', ws)" ..
    let ?op = "[(''timeline_clip_id'', GStr cid), (''split_frame'', GInt frame)]"
    obtain l where l: "editableLocation d ?op = Inr l" using 2 by (auto simp: splitClip_def)
    have "frameValue ?op ''split_frame'' = Inr frame" by (simp add: frameValue_def)
    from splitClip_guard [OF 2 l this] un show ?thesis by blast
  qed simp
qed

lemma safe_add_clip:
  "\<not> Locked (Tracks d ! k) \<Longrightarrow> safe d (update_track k (\<lambda>t. sortTrack (t\<lparr>Clips := Clips t @ [c]\<rparr>)) d)"
  by (rule safe_update_track) auto

lemma safe_step_track: "\<not> Locked (Tracks d ! k) \<Longrightarrow> safe d (update_track k (step_track f) d)"
  by (rule safe_update_track) auto

lemma safe_unlocked:
  "safe d d' \<Longrightarrow> k < length (Tracks d) \<Longrightarrow> Locked (Tracks d' ! k) = Locked (Tracks d ! k)"
  unfolding safe_def same_locks_def by (metis length_map nth_map)

lemma safe_trackByID: "safe d d' \<Longrightarrow> trackByID d' = trackByID d"
  by (rule trackByID_ids) (simp add: safe_def same_locks_def)

text \<open>The clips of locked tracks have a positive length.\<close>

definition locked_ranges :: "'m Document \<Rightarrow> bool" where
  "locked_ranges d \<longleftrightarrow> (\<forall>t \<in> set (Tracks d). TrackID t \<noteq> [] \<and> (Locked t \<longrightarrow>
     (\<forall>c \<in> set (Clips t). TimelineStartFrame c < TimelineEndFrame c)))"

lemma locked_ranges_safe: "safe d d' \<Longrightarrow> locked_ranges d \<Longrightarrow> locked_ranges d'"
  unfolding locked_ranges_def
proof (intro ballI conjI impI)
  fix t' assume s: "safe d d'" and r: "\<forall>t \<in> set (Tracks d). TrackID t \<noteq> [] \<and> (Locked t \<longrightarrow>
     (\<forall>c \<in> set (Clips t). TimelineStartFrame c < TimelineEndFrame c))" and t': "t' \<in> set (Tracks d')"
  then have "TrackID t' \<in> TrackID ` set (Tracks d)"
    unfolding safe_def same_locks_def by (metis image_eqI list.set_map)
  with r show "TrackID t' \<noteq> []" by auto
  fix c assume "Locked t'" "c \<in> set (Clips t')"
  with safe_locked_clips [OF s t'] r show "TimelineStartFrame c < TimelineEndFrame c" by metis
qed

lemma insertIntoPrimary_safe:
  assumes r: "locked_ranges d" and ids: "distinct (map TrackID (Tracks d))"
    and ok: "insertIntoPrimary d m target = Inr (d', ws)"
  shows "safe d d'"
proof -
  define frame where "frame = clampInt target 0 (DurationFrames d)"
  define n where "n = i64 (TimelineEndFrame m - TimelineStartFrame m)"
  define placed where "placed = m\<lparr>TimelineStartFrame := frame, TimelineEndFrame := i64 (frame + n)\<rparr>"
  obtain p d1 w1 where p: "trackByID d ''visual_base'' = Some p" "\<not> Locked (Tracks d ! p)"
    and e: "ensureRippleUnlocked d frame ''visual_base'' = Inr ()" and d1: "splitDocumentPrimaryAt d frame = Inr (d1, w1)"
    and d': "\<exists>j. trackByID ((map_tracks (step_track (shift_from frame n)) d1)\<lparr>DurationFrames := i64 (DurationFrames d1 + n)\<rparr>) ''visual_base'' = Some j
      \<and> d' = update_track j (\<lambda>t. sortTrack (t\<lparr>Clips := Clips t @ [placed]\<rparr>))
        ((map_tracks (step_track (shift_from frame n)) d1)\<lparr>DurationFrames := i64 (DurationFrames d1 + n)\<rparr>)"
    using ok by (auto simp: insertIntoPrimary_def Let_def frame_def n_def placed_def)
  let ?d2 = "(map_tracks (step_track (shift_from frame n)) d1)\<lparr>DurationFrames := i64 (DurationFrames d1 + n)\<rparr>"
  have pl: "p < length (Tracks d)" using trackByID_Some [OF p(1)] by simp
  have lim: "TimelineEndFrame c \<le> frame" if t: "t \<in> set (Tracks d)" "Locked t" and c: "c \<in> set (Clips t)" for t c
  proof -
    have "TrackID t \<noteq> ''visual_base''"
    proof
      assume vb: "TrackID t = ''visual_base''"
      obtain i where i: "i < length (Tracks d)" "t = Tracks d ! i" using t(1) by (auto simp: in_set_conv_nth)
      with vb have "trackByID d ''visual_base'' = Some i" by (simp add: trackByID_distinct [OF ids])
      with p i t(2) show False by simp
    qed
    with e t c show ?thesis by (auto simp: ensureRippleUnlocked_Inr)
  qed
  have s1: "safe d d1" by (rule splitDocumentPrimaryAt_safe [OF lim d1])
  have "\<forall>t \<in> set (Tracks d1). Locked t \<longrightarrow> (\<forall>c \<in> set (Clips t). TimelineStartFrame c < frame)"
  proof (intro ballI impI)
    fix t c assume t: "t \<in> set (Tracks d1)" "Locked t" "c \<in> set (Clips t)"
    with safe_locked_clips [OF s1] obtain t0 where "t0 \<in> set (Tracks d)" "Locked t0" "c \<in> set (Clips t0)" by metis
    with lim [of t0 c] r show "TimelineStartFrame c < frame" by (force simp: locked_ranges_def)
  qed
  then have s2: "safe d ?d2" using safe_trans [OF s1 safe_trans [OF shift_tracks_safe safe_duration]] by blast
  from d' obtain j where j: "trackByID ?d2 ''visual_base'' = Some j"
    and d': "d' = update_track j (\<lambda>t. sortTrack (t\<lparr>Clips := Clips t @ [placed]\<rparr>)) ?d2" by blast
  then have "j = p" using p(1) safe_trackByID [OF s2] by simp
  with safe_unlocked [OF s2 pl] p(2) have "\<not> Locked (Tracks ?d2 ! j)" by simp
  from safe_trans [OF s2 safe_add_clip [OF this]] show ?thesis by (simp only: d')
qed

lemma overwritePrimary_safe:
  assumes ok: "overwritePrimary d m target = Inr (d', ws)"
  shows "safe d d'"
proof -
  obtain p f c where p: "trackByID d ''visual_base'' = Some p" "\<not> Locked (Tracks d ! p)"
    and d': "d' = update_track p (\<lambda>t. sortTrack (t\<lparr>Clips := Clips t @ [c]\<rparr>)) (update_track p (step_track f) d)"
    using ok by (auto simp: overwritePrimary_def Let_def eraseTrackRange_def)
  have "\<not> Locked (Tracks (update_track p (step_track f) d) ! p)"
    using p trackByID_Some [OF p(1)] by simp
  from safe_trans [OF safe_step_track [OF p(2)] safe_add_clip [OF this]] show ?thesis by (simp only: d')
qed

lemma place_on_track_safe:
  assumes k: "trackByID d tt = Some k" "\<not> Locked (Tracks d ! k)"
    and ok: "place_on_track d m st tt mode target = Inr (d', ws)"
  shows "safe d d'"
proof -
  obtain f c where d': "d' = update_track k (\<lambda>t. sortTrack (t\<lparr>Clips := Clips t @ [c]\<rparr>)) (update_track k (step_track f) d)"
    using ok k by (auto simp: place_on_track_def Let_def shiftTrackForInsert_def eraseTrackRange_def split: if_splits)
  have "\<not> Locked (Tracks (update_track k (step_track f) d) ! k)"
    using k trackByID_Some [OF k(1)] by simp
  from safe_trans [OF safe_step_track [OF k(2)] safe_add_clip [OF this]] show ?thesis by (simp only: d')
qed

lemma detach_safe:
  assumes r: "locked_ranges d" and l: "\<not> Locked (track_at d l)" and ok: "detach d l target = Inr (d', ws, target')"
  shows "safe d d'"
proof -
  let ?d1 = "update_track (fst l) (\<lambda>t. t\<lparr>Clips := take (snd l) (Clips t) @ drop (Suc (snd l)) (Clips t)\<rparr>) d"
  have s1: "safe d ?d1" by (rule safe_update_track) (use l in \<open>auto simp: track_at_def\<close>)
  from ok have "d' = ?d1 \<or> (\<exists>op. deleteRange ?d1 op = Inr (d', ws))"
    by (auto simp: detach_def Let_def split: if_splits)
  then show ?thesis
  proof
    assume "\<exists>op. deleteRange ?d1 op = Inr (d', ws)"
    moreover have "\<forall>t \<in> set (Tracks ?d1). TrackID t \<noteq> []"
      using locked_ranges_safe [OF s1 r] by (simp add: locked_ranges_def)
    ultimately show ?thesis using safe_trans [OF s1 deleteRange_safe] by blast
  qed (use s1 in simp)
qed

text \<open>Moving the partners of a clip touches no locked track that holds none.\<close>

definition no_locked_partner :: "rclip \<Rightarrow> rdoc \<Rightarrow> bool" where
  "no_locked_partner p d \<longleftrightarrow> (Linked p \<and> ParentBlockID p \<noteq> [] \<longrightarrow>
     (\<forall>t \<in> set (Tracks d). Locked t \<and> TrackID t \<noteq> ''visual_base'' \<longrightarrow>
        (\<forall>c \<in> set (Clips t). \<not> (Linked c \<and> ParentBlockID c = ParentBlockID p))))"

lemma no_locked_partner_safe: "safe d d' \<Longrightarrow> no_locked_partner p d \<Longrightarrow> no_locked_partner p d'"
  unfolding no_locked_partner_def by (metis safe_locked_clips)

lemma syncLinkedTiming_safe:
  assumes "no_locked_partner p d"
  shows "safe d (syncLinkedTiming p d)"
proof (cases "\<not> Linked p \<or> ParentBlockID p = []")
  case False
  let ?f = "\<lambda>c. if Linked c \<and> ParentBlockID c = ParentBlockID p
    then c\<lparr>TimelineStartFrame := TimelineStartFrame p, TimelineEndFrame := TimelineEndFrame p\<rparr> else c"
  have "map ?f (Clips t) = Clips t" if "t \<in> set (Tracks d)" "Locked t" "TrackID t \<noteq> ''visual_base''" for t
    using that assms False by (intro map_idI) (auto simp: no_locked_partner_def)
  with False show ?thesis unfolding syncLinkedTiming_def
    by (simp del: map_map) (rule safe_map_tracks; simp split: if_splits)
qed (simp add: syncLinkedTiming_def)

lemma syncLinkedTiming_fold_safe:
  "\<forall>p \<in> set ps. no_locked_partner p d \<Longrightarrow> safe d (fold syncLinkedTiming ps d)"
proof (induction ps arbitrary: d)
  case (Cons p ps)
  have s: "safe d (syncLinkedTiming p d)" using Cons.prems by (intro syncLinkedTiming_safe) simp
  have "safe (syncLinkedTiming p d) (fold syncLinkedTiming ps (syncLinkedTiming p d))"
    using Cons.prems no_locked_partner_safe [OF s] by (intro Cons.IH) simp
  with s show ?case using safe_trans by simp
qed simp

lemma relay_links: "c \<in> set (relay k cs) \<Longrightarrow> \<exists>c' \<in> set cs. Linked c = Linked c' \<and> ParentBlockID c = ParentBlockID c'"
  by (induction cs arbitrary: k) (auto simp: Let_def)

lemma reorderClip_safe:
  assumes ok: "reorderClip d op = Inr (d', ws)"
  shows "safe d d'"
proof -
  obtain i cs where i: "trackByID d ''visual_base'' = Some i" "\<not> Locked (Tracks d ! i)"
    and un: "\<forall>g \<in> set (map ParentBlockID (filter (\<lambda>c. Linked c \<and> ParentBlockID c \<noteq> []) (Clips (Tracks d ! i)))).
      \<forall>m \<in> set (linkedGroup d g). TrackID (track_at d m) = ''visual_base'' \<or> \<not> Locked (track_at d m)"
    and perm: "mset cs = mset (Clips (Tracks d ! i))"
    and d': "d' = map_tracks (\<lambda>t. if TrackID t \<noteq> ''visual_base'' then sortTrack t else t)
      (fold syncLinkedTiming (relay 0 cs) (update_track i (\<lambda>t. t\<lparr>Clips := relay 0 cs\<rparr>) d))"
    by (rule reorderClip_Inr [OF ok])
  have cs: "set cs = set (Clips (Tracks d ! i))" using perm by (rule mset_eq_setD)
  let ?d1 = "update_track i (\<lambda>t. t\<lparr>Clips := relay 0 cs\<rparr>) d"
  have s1: "safe d ?d1" using i by (intro safe_update_track) auto
  have free: "no_locked_partner p d" if p: "p \<in> set (relay 0 cs)" for p
    unfolding no_locked_partner_def
  proof (intro impI ballI notI)
    fix t c assume lp: "Linked p \<and> ParentBlockID p \<noteq> []" and t: "t \<in> set (Tracks d)" "Locked t \<and> TrackID t \<noteq> ''visual_base''"
      and c: "c \<in> set (Clips t)" "Linked c \<and> ParentBlockID c = ParentBlockID p"
    from relay_links [OF p] cs lp
    have g: "ParentBlockID p \<in> set (map ParentBlockID (filter (\<lambda>c. Linked c \<and> ParentBlockID c \<noteq> []) (Clips (Tracks d ! i))))"
      by auto
    obtain a b where ab: "a < length (Tracks d)" "t = Tracks d ! a" "b < length (Clips t)" "c = Clips t ! b"
      using t c by (auto simp: in_set_conv_nth)
    then have "(a, b) \<in> set (linkedGroup d (ParentBlockID p))" "track_at d (a, b) = t"
      using lp c by (auto simp: in_linkedGroup valid_loc_def clip_at_def track_at_def)
    with bspec [OF un g] t show False by blast
  qed
  have s2: "safe ?d1 (fold syncLinkedTiming (relay 0 cs) ?d1)"
    by (rule syncLinkedTiming_fold_safe) (use no_locked_partner_safe [OF s1 free] in blast)
  have s3: "safe x (map_tracks (\<lambda>t. if TrackID t \<noteq> ''visual_base'' then sortTrack t else t) x)" for x :: rdoc
    by (rule safe_map_tracks) auto
  show ?thesis unfolding d' by (rule safe_trans [OF safe_trans [OF s1 s2] s3])
qed

lemma detach_and_place_safe:
  assumes r: "locked_ranges d" and ids: "distinct (map TrackID (Tracks d))" and l: "\<not> Locked (track_at d l)"
    and k: "trackByID d tt = Some k" "\<not> Locked (Tracks d ! k)"
    and ok: "detach_and_place d l mode tt target = Inr (d', ws)"
  shows "safe d d'"
proof -
  obtain d2 w2 target' w3 where d2: "detach d l target = Inr (d2, w2, target')"
    and pl: "place_clip d2 (clip_at d l) (TrackID (track_at d l)) tt mode target' = Inr (d', w3)"
    using ok by (auto simp: detach_and_place_def Let_def)
  have s: "safe d d2" by (rule detach_safe [OF r l d2])
  have k2: "trackByID d2 tt = Some k" "\<not> Locked (Tracks d2 ! k)"
    using k safe_trackByID [OF s] safe_unlocked [OF s] trackByID_Some [OF k(1)] by auto
  have ids2: "distinct (map TrackID (Tracks d2))" using ids s by (simp add: safe_def same_locks_def)
  have "safe d2 d'"
    using pl place_on_track_safe [OF k2] insertIntoPrimary_safe [OF locked_ranges_safe [OF s r] ids2] overwritePrimary_safe
    by (auto simp: place_clip_def Let_def split: if_splits)
  with s show ?thesis by (rule safe_trans)
qed

lemma moveClip_safe:
  assumes r: "locked_ranges d" and ids: "distinct (map TrackID (Tracks d))" and ok: "moveClip d op = Inr (d', ws)"
  shows "safe d d'"
proof -
  obtain l where l: "editableLocation d op = Inr l" using ok by (auto simp: moveClip_def)
  have "(\<exists>op'. reorderClip d op' = Inr (d', ws)) \<or> (\<exists>mode tt target k. trackByID d tt = Some k \<and> \<not> Locked (Tracks d ! k)
      \<and> detach_and_place d l mode tt target = Inr (d', ws))"
    using ok l by (auto simp: moveClip_def Let_def split: option.splits if_splits) blast+
  with reorderClip_safe detach_and_place_safe [OF r ids] editableLocation_Inr [OF l] show ?thesis by blast
qed

section \<open>The remaining handlers\<close>

lemma insertClip_safe:
  assumes ok: "insertClip d op = Inr (d', ws)"
  shows "safe d d'"
proof -
  obtain i audio clip n where i: "trackByID d (valueOr (stringValue (gget op ''track_id'')) ''visual_base'') = Some i"
    "\<not> Locked (Tracks d ! i)" and at: "attach_inserted d i op audio clip n = Inr d'"
    using ok by (auto simp: insertClip_def)
  define grown where "grown = (if TrackID (Tracks d ! i) = ''visual_base'' then d\<lparr>DurationFrames := i64 (DurationFrames d + n)\<rparr> else d)"
  have g: "safe d grown" "Tracks grown = Tracks d" by (auto simp: grown_def)
  have one: "safe d' (update_track i (\<lambda>t. t\<lparr>Clips := Clips t @ [c]\<rparr>) d')" if "\<not> Locked (Tracks d' ! i)" for c and d' :: rdoc
    using that by (intro safe_update_track) auto
  show ?thesis
  proof (cases audio)
    case False
    with at have "d' = update_track i (\<lambda>t. t\<lparr>Clips := Clips t @ [clip]\<rparr>) grown"
      by (simp add: attach_inserted_def Let_def grown_def)
    with safe_trans [OF g(1) one] i g show ?thesis by simp
  next
    case True
    with at obtain a gid where a: "trackByID d ''original_audio'' = Some a" "\<not> Locked (Tracks d ! a)"
      and d': "d' = update_track i (\<lambda>t. t\<lparr>Clips := Clips t @ [link_to gid clip]\<rparr>)
        (update_track a (\<lambda>t. sortTrack (t\<lparr>Clips := Clips t @ [audio_twin gid clip]\<rparr>)) grown)"
      by (auto simp: attach_inserted_def Let_def grown_def)
    let ?d1 = "update_track a (\<lambda>t. sortTrack (t\<lparr>Clips := Clips t @ [audio_twin gid clip]\<rparr>)) grown"
    have s1: "safe grown ?d1" using a g by (intro safe_add_clip) simp
    then have "\<not> Locked (Tracks ?d1 ! i)" using safe_unlocked [OF s1] i trackByID_Some [OF i(1)] g by simp
    from safe_trans [OF safe_trans [OF g(1) s1] one [OF this]] show ?thesis by (simp only: d')
  qed
qed

lemma updateEditableClip_safe:
  "updateEditableClip u d op = Inr (d', ws) \<Longrightarrow> safe d d'"
  by (auto simp: updateEditableClip_def dest!: editableLocation_Inr intro!: safe_update_clip)

lemma setClipFades_safe:
  "setClipFades d op = Inr (d', ws) \<Longrightarrow> safe d d'"
  by (auto simp: setClipFades_def Let_def find_None_iff intro!: safe_update_members)

lemma setTrackDucking_safe: "setTrackDucking d op = Inr (d', ws) \<Longrightarrow> safe d d'"
  by (auto simp: setTrackDucking_def intro!: safe_update_track)

lemma insertSubtitle_safe: "insertSubtitle d op = Inr (d', ws) \<Longrightarrow> safe d d'"
  by (auto simp: insertSubtitle_def Let_def intro!: safe_update_track)

lemma removeTrackClips_safe: "removeTrackClips d tid = Inr (d', ws) \<Longrightarrow> safe d d'"
  by (auto simp: removeTrackClips_def intro!: safe_update_track)

lemma setTrackState_guarded: "setTrackState_order ks d op = Inr (d', ws) \<Longrightarrow> guarded d d'"
  unfolding setTrackState_order_def Let_def
  by (auto dest!: set_flags_fields set_track_gain_fields trackByID_Some simp: guarded_def nth_list_update)

lemma link_clip_safe:
  assumes "\<not> Locked (track_at d l)" and "link_clip d l = Inr (d', ws)"
  shows "safe d d'"
  using assms
  by (auto simp: link_clip_def Let_def track_at_def split: if_splits intro!: safe_trans [OF safe_update_clip safe_update_clip])

lemma clip_at_update_other: "m \<noteq> l \<Longrightarrow> clip_at (update_clip l f d) m = clip_at d m"
  by (cases l; cases m; cases "fst l < length (Tracks d)"; cases "snd l < length (Clips (Tracks d ! fst l))")
    (auto simp: clip_at_def track_at_def update_clip_def update_track_def nth_list_update list_update_beyond)

lemma valid_loc_update [simp]: "valid_loc (update_clip l f d) m = valid_loc d m"
  by (cases "fst l = fst m"; cases "fst l < length (Tracks d)")
    (auto simp: valid_loc_def track_at_def update_clip_def update_track_def nth_list_update list_update_beyond)

lemma unlink_clip_safe:
  assumes l: "valid_loc d l" "\<not> Locked (track_at d l)" and ok: "unlink_clip d l = Inr (d', ws)"
  shows "safe d d'"
proof (cases "Linked (clip_at d l)")
  case False
  with ok l show ?thesis by (auto simp: unlink_clip_def Let_def intro: safe_update_clip)
next
  case True
  define gid where "gid = ParentBlockID (clip_at d l)"
  define d1 where "d1 = update_clip l unlink d"
  have un: "gid \<noteq> [] \<and> length (linkedGroup d gid) = 2 \<longrightarrow> (\<forall>m \<in> set (linkedGroup d gid). m \<noteq> l \<longrightarrow> \<not> Locked (track_at d m))"
    and d': "d' = (if gid \<noteq> [] \<and> length (linkedGroup d1 gid) = 1 then update_clip (hd (linkedGroup d1 gid)) unlink d1 else d1)"
    using ok True by (auto simp: unlink_clip_def Let_def gid_def d1_def find_None_iff split: if_splits)
  have s1: "safe d d1" unfolding d1_def by (rule safe_update_clip [OF l(2)])
  show ?thesis
  proof (cases "gid \<noteq> [] \<and> length (linkedGroup d1 gid) = 1")
    case False
    then have "d' = d1" using d' by (simp only: if_False)
    with s1 show ?thesis by simp
  next
    case one: True
    have "clip_at d1 l = unlink (clip_at d l)" using l(1)
      by (simp add: d1_def clip_at_def track_at_def update_clip_def update_track_def valid_loc_def)
    then have rest: "set (linkedGroup d1 gid) = set (linkedGroup d gid) - {l}"
    proof (intro set_eqI)
      fix m
      show "m \<in> set (linkedGroup d1 gid) \<longleftrightarrow> m \<in> set (linkedGroup d gid) - {l}"
      proof (cases "m = l")
        case True
        with \<open>clip_at d1 l = _\<close> show ?thesis by (simp add: in_linkedGroup unlink_def)
      next
        case False
        then have "clip_at d1 m = clip_at d m" by (simp add: d1_def clip_at_update_other)
        with False show ?thesis by (simp add: in_linkedGroup d1_def)
      qed
    qed
    have "l \<in> set (linkedGroup d gid)" using True one l(1) by (simp add: in_linkedGroup gid_def)
    then have "card (set (linkedGroup d gid)) = Suc (card (set (linkedGroup d1 gid)))"
      unfolding rest by (rule card_Suc_Diff1 [OF List.finite_set, symmetric])
    then have two: "length (linkedGroup d gid) = 2"
      using one by (simp add: distinct_card [OF distinct_linkedGroup])
    have "hd (linkedGroup d1 gid) \<in> set (linkedGroup d1 gid)" using one by (intro hd_in_set) auto
    with rest un one two have "\<not> Locked (track_at d (hd (linkedGroup d1 gid)))" by auto
    then have "\<not> Locked (track_at d1 (hd (linkedGroup d1 gid)))" by (simp add: d1_def track_at_def)
    with safe_trans [OF s1 safe_update_clip] d' one show ?thesis by simp
  qed
qed

lemma setClipLinked_safe: "setClipLinked d op = Inr (d', ws) \<Longrightarrow> safe d d'"
  by (auto simp: setClipLinked_def split: if_splits dest!: editableLocation_Inr dest: unlink_clip_safe link_clip_safe)

section \<open>Every operation\<close>

lemma dispatch_guarded:
  assumes r: "locked_ranges d" and ids: "distinct (map TrackID (Tracks d))"
    and dis: "distinct (map TimelineClipID (doc_clips d))" and ok: "dispatch d op = Inr (d', ws)"
  shows "guarded d d'"
proof -
  have ne: "\<forall>t \<in> set (Tracks d). TrackID t \<noteq> []" using r by (simp add: locked_ranges_def)
  note safes = trimClip_safe splitClip_safe [OF dis] reorderClip_safe moveClip_safe [OF r ids] trimClipEdge_safe [OF ne]
    deleteClip_safe [OF ne dis] setTrackDucking_safe setClipLinked_safe insertSubtitle_safe deleteRange_safe [OF ne]
    deleteSourceRange_safe [OF ne] insertClip_safe updateEditableClip_safe [of _ d op d' ws, folded replaceClip_def]
    setPlaybackRate_safe setClipFades_safe removeTrackClips_safe
  from dispatch_Inr [OF ok] show ?thesis
    by (elim disjE conjE)
      (erule safes [THEN safe_guarded] setTrackState_guarded [of "[''muted'', ''solo'', ''locked'']", folded setTrackState_def]
      | (unfold replaceClip_def adjustGain_def editSubtitleText_def, erule updateEditableClip_safe [THEN safe_guarded]))+
qed

text \<open>No clip needs its fades clamped.\<close>

definition fades_fit :: "'m Document \<Rightarrow> bool" where
  "fades_fit d \<longleftrightarrow> list_all (\<lambda>c. 0 \<le> FadeInFrames c \<and> 0 \<le> FadeOutFrames c
     \<and> FadeInFrames c + FadeOutFrames c \<le> TimelineEndFrame c - TimelineStartFrame c
     \<and> TimelineEndFrame c - TimelineStartFrame c < 9223372036854775808) (doc_clips d)"

definition lock_ready :: "'m Document \<Rightarrow> gmap \<Rightarrow> bool" where
  "lock_ready d op \<longleftrightarrow> wf d \<and> list_all (\<lambda>t. TrackID t \<noteq> []) (Tracks d) \<and> fades_fit d"

lemma clamp_fades_id:
  "0 \<le> FadeInFrames c \<Longrightarrow> 0 \<le> FadeOutFrames c \<Longrightarrow> FadeInFrames c + FadeOutFrames c \<le> TimelineEndFrame c - TimelineStartFrame c
    \<Longrightarrow> TimelineEndFrame c - TimelineStartFrame c < 9223372036854775808 \<Longrightarrow> clamp_fades c = c"
  by (simp add: clamp_fades_def Let_def clampInt_def)

lemma guarded_core: "guarded d d' \<Longrightarrow> guarded (core d) (core d')"
  by (auto simp: guarded_def)

lemma lock_ready_core [simp]: "lock_ready (core d) op \<longleftrightarrow> lock_ready d op"
  by (simp add: lock_ready_def fades_fit_def list_all_iff)

lemma lock_ready_facts:
  assumes "lock_ready d op"
  shows "locked_ranges d" "distinct (map TrackID (Tracks d))" "distinct (map TimelineClipID (doc_clips d))"
    and "c \<in> set (doc_clips d) \<Longrightarrow> clamp_fades c = c"
proof -
  have "t \<in> set (Tracks d) \<Longrightarrow> c \<in> set (Clips t) \<Longrightarrow> c \<in> set (doc_clips d)" for t c by (auto simp: doc_clips_def)
  then show "locked_ranges d"
    using assms by (auto simp: lock_ready_def wf_def locked_ranges_def list_all_iff clip_in_def)
qed (use assms in \<open>auto simp: lock_ready_def wf_def list_all_iff fades_fit_def intro: clamp_fades_id\<close>)

interpretation locks: patch_contract dispatch lock_ready guarded
proof
  fix d d' op ws assume "lock_ready (core d) op" "dispatch d op = Inr (d', ws)"
  then have "guarded d d'" using lock_ready_facts [of d op] by (intro dispatch_guarded) auto
  then show "guarded (core d) (core d')" by (rule guarded_core)
next
  fix c c' :: "unit Document" and op assume r: "lock_ready c op" and g: "guarded c c'"
  show "guarded c (next_version (clampClipFades c'))"
    unfolding guarded_def
  proof (intro conjI allI impI)
    show "length (Tracks (next_version (clampClipFades c'))) = length (Tracks c)"
      using g by (simp add: guarded_def next_version_def clampClipFades_def)
    fix i assume i: "i < length (Tracks c)" "Locked (Tracks c ! i)"
    then have m: "mset (Clips (Tracks c' ! i)) = mset (Clips (Tracks c ! i))" "i < length (Tracks c')"
      using g by (auto simp: guarded_def)
    have "map clamp_fades (Clips (Tracks c ! i)) = Clips (Tracks c ! i)"
      by (rule map_idI) (use lock_ready_facts(4) [OF r] clip_of_track [OF i(1)] in blast)
    then have "image_mset clamp_fades (mset (Clips (Tracks c ! i))) = mset (Clips (Tracks c ! i))"
      by (metis mset_map)
    with m show "mset (Clips (Tracks (next_version (clampClipFades c')) ! i)) = mset (Clips (Tracks c ! i))"
      by (simp add: next_version_def clampClipFades_def)
  qed
qed

text \<open>
  C2. Locks hold.  If a document passes \<open>Validate\<close>, every track has an id and every clip's fades
  fit, then a successful patch, whatever its kind, leaves on each locked track exactly the clips
  that were there: the same placement, source range, rate, gain, text, links and fades.
\<close>

theorem patch_respects_locks:
  assumes "valid_document d" and "list_all (\<lambda>t. TrackID t \<noteq> []) (Tracks d)" and "fades_fit d"
    and "ApplyPatch d op = Inr d'" and "i < length (Tracks d)" and "Locked (Tracks d ! i)"
  shows "mset (map core_clip (Clips (Tracks d' ! i))) = mset (map core_clip (Clips (Tracks d ! i)))"
proof -
  have "lock_ready (core d) op" using assms(1-3) valid_wf by (simp add: lock_ready_def fades_fit_def list_all_iff)
  with locks.applied [of d op d'] assms(4) have "guarded (core d) (core d')" by (simp add: ApplyPatch_Inr)
  with assms(5,6) show ?thesis by (auto simp: guarded_def)
qed

end
