(* ===== verification/Timeline_Demo.thy ===== *)
theory Timeline_Demo
  imports Timeline_Locks
begin

text \<open>
  A small project on which the properties are run: two linked shots of three and two seconds, a
  third still picture, and a subtitle.
\<close>

definition shot :: "string \<Rightarrow> string \<Rightarrow> string \<Rightarrow> string \<Rightarrow> goint \<Rightarrow> goint \<Rightarrow> goint \<Rightarrow> vclip" where
  "shot cid track asset gid s e src = zero_clip\<lparr>TimelineClipID := cid, ClipTrackID := track,
     AssetID := asset, AssetKind := ''video'', Role := ''a_roll'', TimelineStartFrame := s,
     TimelineEndFrame := e, SourceStartFrame := src, SourceEndFrame := src + (e - s),
     PlaybackRate := Fin 1, ParentBlockID := gid, Linked := (gid \<noteq> [])\<rparr>"

definition caption :: "string \<Rightarrow> goint \<Rightarrow> goint \<Rightarrow> string \<Rightarrow> vclip" where
  "caption cid s e txt = zero_clip\<lparr>TimelineClipID := cid, ClipTrackID := ''subtitles'',
     ClipText := txt, TimelineStartFrame := s, TimelineEndFrame := e, SubtitleStyle := ''default''\<rparr>"

definition demo_track :: "string \<times> string \<Rightarrow> vclip list \<Rightarrow> vtrack" where
  "demo_track it cs = (empty_track it)\<lparr>Clips := cs\<rparr>"

definition demo :: vdoc where
  "demo = \<lparr>TimelineID = ''d:v1'', DraftID = ''d'', Version = 1, FPS = 30, DurationFrames = 180, Tracks =
     [demo_track (''visual_base'', ''primary_visual'')
        [shot ''a'' ''visual_base'' ''A'' ''g1'' 0 90 30, shot ''b'' ''visual_base'' ''B'' ''g2'' 90 150 0,
         shot ''c'' ''visual_base'' ''C'' [] 150 180 0],
      demo_track (''visual_overlay'', ''visual_overlay'') [],
      demo_track (''original_audio'', ''audio'')
        [shot ''a_audio'' ''original_audio'' ''A'' ''g1'' 0 90 30,
         shot ''b_audio'' ''original_audio'' ''B'' ''g2'' 90 150 0],
      demo_track (''voiceover'', ''audio'') [],
      demo_track (''bgm'', ''audio'') [shot ''m'' ''bgm'' ''M'' [] 0 180 0],
      demo_track (''subtitles'', ''text'') [caption ''s1'' 10 60 ''hi'', caption ''s2'' 100 140 ''bye''],
      demo_track (''sfx'', ''audio'') []]\<rparr>"

section \<open>Evaluation\<close>

lemmas demo_defs = demo_def demo_track_def empty_track_def shot_def caption_def zero_clip_def

lemmas validate_ops = ValidateOpFields_def LookupOpSpec_def Catalog_def field_def clipIDField_def
  injectedField_def generatedField_def validOpFieldValue_def ghas_def

lemmas clone_ops = clone_def track_json_ok_def clip_json_ok_def with_tracks_def track_clone_def clip_clone_def
  with_clips_def with_meta_def norm_effects_def

lemma rate_close [simp]: "flt (rnd64 (1 / 1000000)) (fabs (fsub (Fin 1) (Fin 1))) = False"
  by code_simp

lemma demo_valid: "valid_document demo"
  by (simp add: valid_document_def Validate_def demo_defs clip_issues_def Let_def ducking_issues_def issue_if_def
      see_id_def requiredTracks_def primary_issues_def last_track_def group_issues_def group_ids_def doc_clips_def
      group_clips_def pair_issues_def effectiveRate_def isSubtitleStyle_def SubtitleStyleNames_def)

lemma demo_bounds: "in_bounds demo"
  by (simp add: in_bounds_def demo_defs doc_clips_def clip_bounded_def small_def rate_ok_def effectiveRate_def)

lemma demo_unmixed: "groups_unmixed demo"
  by (simp add: groups_unmixed_def demo_defs group_clips_def)

lemma ApplyPatch_ex:
  assumes "ValidateOpFields op = Inr ()" and "clone d = Inr (copy, st)" and "dispatch copy op = Inr (d1, ws)"
  shows "\<exists>d'. ApplyPatch d op = Inr d'"
  using assms by (simp add: ApplyPatch_def apply_handler_def)

definition cut_op :: gmap where
  "cut_op = [(''kind'', GStr ''delete_range''), (''start_frame'', GInt 40), (''end_frame'', GInt 110)]"

lemma cut_op_ok: "ValidateOpFields cut_op = Inr ()" "op_bounded cut_op"
  by (simp_all add: cut_op_def validate_ops op_bounded_def small_def)

lemma demo_cut: "\<exists>d'. ApplyPatch demo cut_op = Inr d'"
proof -
  have "\<exists>copy. clone demo = Inr copy \<and> (\<exists>r. dispatch (fst copy) cut_op = Inr r)"
    by (simp add: clone_ops demo_defs dispatch_def run_handler_def cut_op_def deleteRange_def frameValue_def
        ensureRippleUnlocked_def join2_def)
  then show ?thesis using ApplyPatch_ex [OF cut_op_ok(1)] by (metis prod.collapse)
qed

lemma patch_keeps_picture_witness: "\<exists>d'. ApplyPatch demo cut_op = Inr d' \<and> picture_tiled d'"
  using demo_cut patch_keeps_picture [OF demo_valid demo_bounds demo_unmixed cut_op_ok(2)] by blast

section \<open>A locked track\<close>

definition locked_demo :: vdoc where
  "locked_demo = update_track 3 (\<lambda>t. t\<lparr>Locked := True\<rparr>) (update_track 5 (\<lambda>t. t\<lparr>Locked := True\<rparr>) demo)"

definition link_op :: gmap where
  "link_op = [(''kind'', GStr ''reorder_clip''), (''timeline_clip_id'', GStr ''b''), (''target_frame'', GInt 0)]"

lemma locked_demo_valid: "valid_document locked_demo" "fades_fit locked_demo" "list_all (\<lambda>t. TrackID t \<noteq> []) (Tracks locked_demo)"
  by (simp_all add: locked_demo_def update_track_def valid_document_def Validate_def demo_defs clip_issues_def Let_def ducking_issues_def
      issue_if_def see_id_def requiredTracks_def primary_issues_def last_track_def group_issues_def group_ids_def
      doc_clips_def group_clips_def pair_issues_def effectiveRate_def isSubtitleStyle_def SubtitleStyleNames_def fades_fit_def)

lemma locked_demo_reorder: "\<exists>d'. ApplyPatch locked_demo link_op = Inr d'"
proof -
  have "ValidateOpFields link_op = Inr ()" by (simp add: link_op_def validate_ops)
  moreover have "\<exists>copy. clone locked_demo = Inr copy \<and> (\<exists>r. dispatch (fst copy) link_op = Inr r)"
    by (simp add: locked_demo_def update_track_def clone_ops demo_defs dispatch_def run_handler_def link_op_def reorderClip_def
        frameValue_def trackByID_def linkedGroup_def track_at_def upt_Suc Let_def)
  ultimately show ?thesis using ApplyPatch_ex by (metis prod.collapse)
qed

lemma patch_respects_locks_witness:
  "\<exists>d'. ApplyPatch locked_demo link_op = Inr d' \<and> Locked (Tracks locked_demo ! 5) \<and>
     mset (map core_clip (Clips (Tracks d' ! 5))) = mset (map core_clip (Clips (Tracks locked_demo ! 5)))"
proof -
  obtain d' where d': "ApplyPatch locked_demo link_op = Inr d'" using locked_demo_reorder by blast
  have at: "5 < length (Tracks locked_demo)" "Locked (Tracks locked_demo ! 5)"
    by (simp_all add: locked_demo_def update_track_def demo_defs)
  from patch_respects_locks [OF locked_demo_valid(1,3,2) d' at] d' at(2) show ?thesis by blast
qed

end
