(* ===== verification/Timeline_Coalesce.thy ===== *)
theory Timeline_Coalesce
  imports Timeline_Model
begin

text \<open>
  \<open>coalesce.go\<close>: merging adjacent primary clips.  Every clip of the cloned document owns its
  metadata map, so these passes work on documents with the maps in place.
\<close>

section \<open>Records\<close>

record AdjacentClipMerge =
  merge_TrackID :: string
  KeptTimelineClipID :: string
  RemovedTimelineClipID :: string
  BoundaryFrame :: goint
  merge_AssetID :: string
  Mode :: string
  ShotID :: string
  SourceOverlapFrames :: goint
  PreviousSourceEndFrame :: goint
  NormalizedSourceEndFrame :: goint

record AdjacentClipOverlapRepair =
  repair_TrackID :: string
  repair_Kept :: string
  repair_Removed :: string
  repair_SourceEnd :: goint
  repair_ShotID :: string

text \<open>\<open>clone\<close> seen with the maps in place.\<close>

definition clone_values :: "vdoc \<Rightarrow> tl_error + vdoc" where
  "clone_values d = bind_sum (clone d) (\<lambda>(copy, st). Inr (resolve st copy))"

definition sync_placement :: "vclip \<Rightarrow> vclip" where
  "sync_placement c = c\<lparr>Metadata :=
     map_option (place_meta (TimelineStartFrame c) (TimelineEndFrame c)) (Metadata c)\<rparr>"

section \<open>When two clips may be merged\<close>

definition cloneMetadataWithoutPlacement :: "gmap \<Rightarrow> gmap" where
  "cloneMetadataWithoutPlacement m = filter (\<lambda>(k, v).
     k \<noteq> ''placement_timeline_start_frame'' \<and> k \<noteq> ''placement_timeline_end_frame'') m"

definition deep_eq_metadata :: "gmap option \<Rightarrow> gmap option \<Rightarrow> bool" where
  "deep_eq_metadata a b = (case (a, b) of
       (None, None) \<Rightarrow> True | (Some m, Some n) \<Rightarrow> deep_eq_map m n | _ \<Rightarrow> False)"

definition deep_eq_effects :: "gmap list option \<Rightarrow> gmap list option \<Rightarrow> bool" where
  "deep_eq_effects a b = (case (a, b) of
       (None, None) \<Rightarrow> True
     | (Some es, Some fs) \<Rightarrow> deep_eq (GArr (map GObj es)) (GArr (map GObj fs))
     | _ \<Rightarrow> False)"

definition the_map :: "gmap option \<Rightarrow> gmap" where
  "the_map m = (case m of None \<Rightarrow> [] | Some m \<Rightarrow> m)"

definition equivalentMergeMetadata :: "gmap option \<Rightarrow> gmap option \<Rightarrow> bool" where
  "equivalentMergeMetadata left right =
     (if deep_eq_metadata left right then True
      else if \<not> semantic_anchor (the_map left) \<or> \<not> semantic_anchor (the_map right) then False
      else deep_eq_map (cloneMetadataWithoutPlacement (the_map left))
                       (cloneMetadataWithoutPlacement (the_map right)))"

definition near :: "f64 \<Rightarrow> f64 \<Rightarrow> bool" where
  "near x y \<longleftrightarrow> \<not> flt (rnd64 (1 / 1000000)) (fabs (fsub x y))"

definition mergeCompatibleAdjacentVisualClips :: "vclip \<Rightarrow> vclip \<Rightarrow> bool" where
  "mergeCompatibleAdjacentVisualClips left right \<longleftrightarrow>
     \<not> (AssetID left = [] \<or> AssetID left \<noteq> AssetID right
       \<or> (AssetKind left \<noteq> [] \<and> AssetKind left \<noteq> ''video'')
       \<or> (AssetKind right \<noteq> [] \<and> AssetKind right \<noteq> ''video'')
       \<or> AssetKind left \<noteq> AssetKind right \<or> Role left \<noteq> Role right
       \<or> ClipText left \<noteq> ClipText right \<or> SubtitleStyle left \<noteq> SubtitleStyle right
       \<or> ClipTrackID left \<noteq> ClipTrackID right \<or> ClipTrackID left \<noteq> ''visual_base''
       \<or> Linked left \<or> Linked right \<or> ParentBlockID left \<noteq> [] \<or> ParentBlockID right \<noteq> []
       \<or> TimelineEndFrame left \<noteq> TimelineStartFrame right
       \<or> FadeOutFrames left \<noteq> 0 \<or> FadeInFrames right \<noteq> 0
       \<or> \<not> near (ClipGainDB left) (ClipGainDB right)
       \<or> \<not> near (effectiveRate left) (effectiveRate right)
       \<or> \<not> deep_eq_effects (Effects left) (Effects right)
       \<or> \<not> equivalentMergeMetadata (Metadata left) (Metadata right))"

definition renderEquivalentAdjacentVisualClips :: "vclip \<Rightarrow> vclip \<Rightarrow> bool" where
  "renderEquivalentAdjacentVisualClips left right =
     (if \<not> mergeCompatibleAdjacentVisualClips left right
         \<or> SourceEndFrame left \<noteq> SourceStartFrame right then False
      else let
        rate = effectiveRate left;
        leftTimelineDuration = i64 (TimelineEndFrame left - TimelineStartFrame left);
        rightTimelineDuration = i64 (TimelineEndFrame right - TimelineStartFrame right);
        leftSourceDuration = i64 (SourceEndFrame left - SourceStartFrame left);
        rightSourceDuration = i64 (SourceEndFrame right - SourceStartFrame right);
        mergedSourceDuration = i64 (SourceEndFrame right - SourceStartFrame left)
      in leftTimelineDuration > 0 \<and> rightTimelineDuration > 0
         \<and> leftSourceDuration = scale_frames leftTimelineDuration rate
         \<and> rightSourceDuration = scale_frames rightTimelineDuration rate
         \<and> mergedSourceDuration = scale_frames (i64 (leftTimelineDuration + rightTimelineDuration)) rate)"

definition CanCoalesceOverlappingAdjacentClips :: "vclip \<Rightarrow> vclip \<Rightarrow> bool" where
  "CanCoalesceOverlappingAdjacentClips left right \<longleftrightarrow>
     mergeCompatibleAdjacentVisualClips left right
     \<and> SourceStartFrame right < SourceEndFrame left
     \<and> SourceEndFrame right > SourceEndFrame left"

section \<open>Merging redundant cuts\<close>

definition merge_clips :: "vclip \<Rightarrow> vclip \<Rightarrow> goint \<Rightarrow> vclip" where
  "merge_clips left right sourceEnd = sync_placement (left\<lparr>TimelineEndFrame := TimelineEndFrame right,
     SourceEndFrame := sourceEnd, FadeOutFrames := FadeOutFrames right\<rparr>)"

text \<open>The loop with \<open>left\<close> the last clip kept so far.\<close>

fun coalesce_from :: "string \<Rightarrow> vclip \<Rightarrow> vclip list \<Rightarrow> vclip list \<times> AdjacentClipMerge list" where
  "coalesce_from tid left [] = ([left], [])"
| "coalesce_from tid left (c # cs) =
     (if \<not> renderEquivalentAdjacentVisualClips left c then
        (case coalesce_from tid c cs of (out, ms) \<Rightarrow> (left # out, ms))
      else
        (case coalesce_from tid (merge_clips left c (SourceEndFrame c)) cs of (out, ms) \<Rightarrow>
          (out, \<lparr>merge_TrackID = tid, KeptTimelineClipID = TimelineClipID left,
                 RemovedTimelineClipID = TimelineClipID c, BoundaryFrame = TimelineEndFrame left,
                 merge_AssetID = AssetID left, Mode = ''render_equivalent'', ShotID = [],
                 SourceOverlapFrames = 0, PreviousSourceEndFrame = 0,
                 NormalizedSourceEndFrame = 0\<rparr> # ms)))"

definition skips_track :: "'m Track \<Rightarrow> bool" where
  "skips_track t \<longleftrightarrow> TrackID t \<noteq> ''visual_base'' \<or> Locked t \<or> length (Clips t) < 2"

definition coalesce_track :: "vtrack \<Rightarrow> vtrack \<times> AdjacentClipMerge list" where
  "coalesce_track t =
     (if skips_track t then (t, [])
      else (case Clips t of
          [] \<Rightarrow> (t, [])
        | c # cs \<Rightarrow> (case coalesce_from (TrackID t) c cs of (out, ms) \<Rightarrow> (t\<lparr>Clips := out\<rparr>, ms))))"

definition CoalesceRedundantAdjacentClips :: "vdoc \<Rightarrow> tl_error + vdoc \<times> AdjacentClipMerge list" where
  "CoalesceRedundantAdjacentClips d =
     bind_sum (clone_values d) (\<lambda>copy.
       let rs = map coalesce_track (Tracks copy)
       in Inr (copy\<lparr>Tracks := map fst rs\<rparr>, concat (map snd rs)))"

section \<open>Repairing approved overlaps\<close>

type_synonym repair_key = "string \<times> string"

definition key_of :: "AdjacentClipOverlapRepair \<Rightarrow> repair_key" where
  "key_of r = (repair_Kept r, repair_Removed r)"

fun collect_repairs :: "repair_key list \<Rightarrow> AdjacentClipOverlapRepair list \<Rightarrow> tl_error + unit" where
  "collect_repairs seen [] = Inr ()"
| "collect_repairs seen (r # rs) =
     (if repair_Kept r = [] \<or> repair_Removed r = [] \<or> repair_Kept r = repair_Removed r
      then Inl (ErrPlain ''overlap repair: bad clip id'')
      else if key_of r \<in> set seen then Inl (ErrPlain ''overlap repair: duplicate'')
      else collect_repairs (key_of r # seen) rs)"

fun repair_from :: "AdjacentClipOverlapRepair list \<Rightarrow> string \<Rightarrow> vclip \<Rightarrow> vclip list
    \<Rightarrow> tl_error + vclip list \<times> AdjacentClipMerge list \<times> repair_key list" where
  "repair_from reqs tid left [] = Inr ([left], [], [])"
| "repair_from reqs tid left (c # cs) =
     (case find (\<lambda>r. key_of r = (TimelineClipID left, TimelineClipID c)) reqs of
        None \<Rightarrow> bind_sum (repair_from reqs tid c cs) (\<lambda>(out, ms, ks). Inr (left # out, ms, ks))
      | Some r \<Rightarrow>
          if repair_TrackID r \<noteq> tid \<or> \<not> CanCoalesceOverlappingAdjacentClips left c
          then Inl (ErrPlain ''overlap repair: clips not continuous'')
          else let
            timelineDuration = i64 (TimelineEndFrame c - TimelineStartFrame left);
            expectedSourceEnd = i64 (SourceStartFrame left + scale_frames timelineDuration (effectiveRate left))
          in if repair_SourceEnd r \<noteq> expectedSourceEnd \<or> repair_SourceEnd r \<le> SourceEndFrame c
          then Inl (ErrPlain ''overlap repair: bad source end'')
          else bind_sum (repair_from reqs tid (merge_clips left c (repair_SourceEnd r)) cs) (\<lambda>(out, ms, ks).
            Inr (out,
              \<lparr>merge_TrackID = tid, KeptTimelineClipID = TimelineClipID left,
               RemovedTimelineClipID = TimelineClipID c, BoundaryFrame = TimelineEndFrame left,
               merge_AssetID = AssetID left, Mode = ''same_shot_overlap_repair'', ShotID = repair_ShotID r,
               SourceOverlapFrames = i64 (SourceEndFrame left - SourceStartFrame c),
               PreviousSourceEndFrame = SourceEndFrame c,
               NormalizedSourceEndFrame = repair_SourceEnd r\<rparr> # ms,
              key_of r # ks)))"

definition repair_track :: "AdjacentClipOverlapRepair list \<Rightarrow> vtrack
    \<Rightarrow> tl_error + vtrack \<times> AdjacentClipMerge list \<times> repair_key list" where
  "repair_track reqs t =
     (if skips_track t then Inr (t, [], [])
      else (case Clips t of
          [] \<Rightarrow> Inr (t, [], [])
        | c # cs \<Rightarrow> bind_sum (repair_from reqs (TrackID t) c cs) (\<lambda>(out, ms, ks).
            Inr (t\<lparr>Clips := out\<rparr>, ms, ks))))"

fun repair_tracks :: "AdjacentClipOverlapRepair list \<Rightarrow> vtrack list
    \<Rightarrow> tl_error + vtrack list \<times> AdjacentClipMerge list \<times> repair_key list" where
  "repair_tracks reqs [] = Inr ([], [], [])"
| "repair_tracks reqs (t # ts) =
     bind_sum (repair_track reqs t) (\<lambda>(t', ms, ks).
     bind_sum (repair_tracks reqs ts) (\<lambda>(ts', ms', ks'). Inr (t' # ts', ms @ ms', ks @ ks')))"

definition CoalesceApprovedOverlappingAdjacentClips ::
  "vdoc \<Rightarrow> AdjacentClipOverlapRepair list \<Rightarrow> tl_error + vdoc \<times> AdjacentClipMerge list" where
  "CoalesceApprovedOverlappingAdjacentClips d repairs =
     bind_sum (clone_values d) (\<lambda>copy.
       if repairs = [] then Inr (copy, [])
       else bind_sum (collect_repairs [] repairs) (\<lambda>_.
         bind_sum (repair_tracks repairs (Tracks copy)) (\<lambda>(ts, ms, ks).
           if length (remdups ks) \<noteq> length repairs
           then Inl (ErrPlain ''overlap repair: not fully applied'')
           else Inr (copy\<lparr>Tracks := ts\<rparr>, ms))))"

end
