(* ===== verification/GoFormat.thy ===== *)
theory GoFormat
  imports GoFloat
begin

text \<open>
  Formatting and parsing of numbers by Go's standard library, as far as the code uses it:
  \<open>strconv.Atoi\<close>, and \<open>fmt.Sprintf("%g", x)\<close> with the shortest decimal that reads back as the
  same \<open>float64\<close>.  The round trips of the two integer functions are proved here.
\<close>

section \<open>\<open>strconv.Atoi\<close>\<close>

definition digit_value :: "char \<Rightarrow> nat option" where
  "digit_value c = (let n = of_char c in if 48 \<le> n \<and> n \<le> 57 then Some (n - 48) else None)"

fun parse_digits :: "nat \<Rightarrow> string \<Rightarrow> nat option" where
  "parse_digits acc [] = Some acc"
| "parse_digits acc (c # cs) =
     (case digit_value c of None \<Rightarrow> None | Some d \<Rightarrow> parse_digits (10 * acc + d) cs)"

text \<open>An empty text, a character that is no digit and a value outside \<open>int\<close> are errors.\<close>

definition Atoi :: "string \<Rightarrow> goint option" where
  "Atoi s = (let (neg, ds) = (case s of [] \<Rightarrow> (False, [])
                                | c # cs \<Rightarrow> if c = CHR ''-'' then (True, cs)
                                            else if c = CHR ''+'' then (False, cs) else (False, s))
     in if ds = [] then None else
        case parse_digits 0 ds of
          None \<Rightarrow> None
        | Some n \<Rightarrow> if neg then (if n \<le> 9223372036854775808 then Some (- int n) else None)
                    else (if n < 9223372036854775808 then Some (int n) else None))"

lemma digit_value_digit_char [simp]: "d < 10 \<Longrightarrow> digit_value (digit_char d) = Some d"
  by (simp add: digit_value_def digit_char_def Let_def)

lemma parse_digits_append:
  "parse_digits acc (xs @ ys) = Option.bind (parse_digits acc xs) (\<lambda>acc'. parse_digits acc' ys)"
  by (induction acc xs rule: parse_digits.induct) (auto split: option.split)

lemma parse_digits_show_nat: "parse_digits 0 (show_nat n) = Some n"
proof (induction n rule: show_nat.induct)
  case (1 n)
  then show ?case
    by (cases "n < 10") (simp_all add: show_nat.simps [of n] parse_digits_append)
qed

lemma show_nat_hd: "\<exists>d cs. d < 10 \<and> show_nat n = digit_char d # cs"
  using set_show_nat [of "hd (show_nat n)" n] list.set_sel(1) [OF show_nat_nonempty [of n]]
  by (metis list.collapse show_nat_nonempty)

lemma digit_char_not_plus: "d < 10 \<Longrightarrow> digit_char d \<noteq> CHR ''+''"
proof
  assume "d < 10" and "digit_char d = CHR ''+''"
  then have "of_char (digit_char d) = (of_char (CHR ''+'') :: nat)" by simp
  with \<open>d < 10\<close> show False by (simp add: digit_char_def)
qed

lemma Atoi_show_int:
  assumes "- 9223372036854775808 \<le> n" and "n < 9223372036854775808"
  shows "Atoi (show_int n) = Some n"
proof (cases "n < 0")
  case True
  then show ?thesis using assms by (simp add: Atoi_def show_int_def parse_digits_show_nat)
next
  case False
  obtain d cs where d: "d < 10" "show_nat (nat n) = digit_char d # cs" using show_nat_hd by blast
  from False assms show ?thesis
    using d digit_char_not_minus [OF d(1)] digit_char_not_plus [OF d(1)]
      parse_digits_show_nat [of "nat n"]
    by (simp add: Atoi_def show_int_def)
qed

section \<open>\<open>%g\<close>\<close>

definition pow10 :: "int \<Rightarrow> rat" where
  "pow10 e = (if 0 \<le> e then 10 ^ nat e else 1 / 10 ^ nat (- e))"

text \<open>The decimal exponent of a positive rational: the largest \<open>k\<close> with \<open>10\<^sup>k \<le> x\<close>.\<close>

definition ilog10 :: "rat \<Rightarrow> int" where
  "ilog10 x = (if x \<ge> 1 then int (length (show_nat (nat \<lfloor>x\<rfloor>))) - 1
               else - int (length (show_nat (nat (\<lceil>1 / x\<rceil> - 1)))))"

text \<open>
  The candidates with \<open>n\<close> digits are the two neighbours of \<open>x\<close>; the closer one that reads back
  as \<open>x\<close> is taken, with the least \<open>n\<close> for which there is one (17 digits always suffice).
\<close>

definition digits_at :: "rat \<Rightarrow> nat \<Rightarrow> (nat \<times> int) option" where
  "digits_at x n = (let e = ilog10 x - int n + 1; m = x / pow10 e; lo = \<lfloor>m\<rfloor>;
       back = (\<lambda>c. rnd64 (of_int c * pow10 e) = Fin x);
       near = (if m - of_int lo \<le> 1 / 2 then lo else lo + 1);
       far = (if m - of_int lo \<le> 1 / 2 then lo + 1 else lo)
     in if back near then Some (nat near, e) else if back far then Some (nat far, e) else None)"

definition shortest_digits :: "rat \<Rightarrow> nat \<times> int" where
  "shortest_digits x = (case List.map_filter (digits_at x) [1 ..< 18] of
       [] \<Rightarrow> (0, 0) | r # _ \<Rightarrow> r)"

definition strip_zeros :: "string \<Rightarrow> string" where
  "strip_zeros s = rev (dropWhile (\<lambda>c. c = digit_char 0) (rev s))"

text \<open>
  With the shortest digits \<open>%g\<close> uses the form of \<open>%e\<close> for a decimal exponent below -4 or from 6
  on, and the form of \<open>%f\<close> otherwise.
\<close>

definition format_e :: "string \<Rightarrow> int \<Rightarrow> string" where
  "format_e ds k = take 1 ds @ (if length ds > 1 then ''.'' @ drop 1 ds else [])
     @ ''e'' @ (if k < 0 then ''-'' else ''+'')
     @ (let s = show_nat (nat \<bar>k\<bar>) in if length s < 2 then digit_char 0 # s else s)"

definition format_f :: "string \<Rightarrow> int \<Rightarrow> string" where
  "format_f ds k = (let n = nat (k + 1) in
     if k < 0 then digit_char 0 # ''.'' @ replicate (nat (- k - 1)) (digit_char 0) @ ds
     else if length ds \<le> n then ds @ replicate (n - length ds) (digit_char 0)
     else take n ds @ ''.'' @ drop n ds)"

definition format_g_pos :: "rat \<Rightarrow> string" where
  "format_g_pos x = (let (c, e) = shortest_digits x; s = show_nat c; ds = strip_zeros s;
       k = e + int (length s) - 1
     in if k < - 4 \<or> k \<ge> 6 then format_e ds k else format_f ds k)"

fun format_g :: "f64 \<Rightarrow> string" where
  "format_g FNaN = ''NaN''"
| "format_g FPosInf = ''+Inf''"
| "format_g FNegInf = ''-Inf''"
| "format_g (Fin x) = (if x = 0 then [digit_char 0]
     else if x < 0 then ''-'' @ format_g_pos (- x) else format_g_pos x)"

end
