(* ===== verification/Contracts_Events.thy ===== *)
theory Contracts_Events
  imports GoValue GoFormat "HOL-Library.Word"
begin

unbundle bit_operations_syntax

text \<open>
  The event contract every component shares (\<open>contracts/events.go\<close>, \<open>contracts/jobs.go\<close>): the
  registry of domain events with their concurrency mode, merge keys and routes, the validation of
  an event, the key that makes a merge event idempotent, the note a cancelled turn leaves in the
  conversation, and the registry of job kinds.  Event payloads are \<open>map[string]any\<close> values
  (\<open>gmap\<close>); \<open>json.Number\<close> and \<open>float32\<close> do not occur in them, since payloads are built by the code
  or decoded by \<open>encoding/json\<close> without \<open>UseNumber\<close>.
\<close>

section \<open>The note of a cancelled turn\<close>

definition turn_cancelled_prefix :: string where
  "turn_cancelled_prefix = bytes
     [231, 148, 168, 230, 136, 183, 229, 183, 178, 229, 129, 156, 230, 173, 162, 229, 189, 147,
      229, 137, 141, 228, 187, 187, 229, 138, 161, 239, 188, 136, 229, 183, 178, 229, 143, 150,
      230, 182, 136, 32]"

definition turn_cancelled_suffix :: string where
  "turn_cancelled_suffix = bytes
     [32, 228, 184, 170, 229, 155, 158, 229, 144, 136, 239, 188, 137, 227, 128, 130]"

definition TrimPrefix :: "string \<Rightarrow> string \<Rightarrow> string" where
  "TrimPrefix s p = (if prefix p s then drop (length p) s else s)"

definition TrimSuffix :: "string \<Rightarrow> string \<Rightarrow> string" where
  "TrimSuffix s p = (if suffix p s then take (length s - length p) s else s)"

definition TurnCancelledObservationContent :: "goint \<Rightarrow> string" where
  "TurnCancelledObservationContent n =
     turn_cancelled_prefix @ show_int (if n < 1 then 1 else n) @ turn_cancelled_suffix"

definition ParseTurnCancelledObservation :: "string \<Rightarrow> goint \<times> bool" where
  "ParseTurnCancelledObservation content =
     (if \<not> prefix turn_cancelled_prefix content \<or> \<not> suffix turn_cancelled_suffix content
      then (1, False)
      else case Atoi (TrimSuffix (TrimPrefix content turn_cancelled_prefix) turn_cancelled_suffix) of
             None \<Rightarrow> (1, False)
           | Some n \<Rightarrow> if n < 1 then (1, False) else (n, True))"

section \<open>Events\<close>

datatype version_mode = VersionNone | VersionStrict | VersionMerge

type_synonym actor = string

definition ActorUser :: actor where "ActorUser = ''user''"
definition ActorAgent :: actor where "ActorAgent = ''agent''"
definition ActorJob :: actor where "ActorJob = ''job''"

definition actor_valid :: "actor \<Rightarrow> bool" where
  "actor_valid a \<longleftrightarrow> a = ActorUser \<or> a = ActorAgent \<or> a = ActorJob"

type_synonym event_routes = "8 word"

definition RouteWorkspace :: event_routes where "RouteWorkspace = 1"
definition RouteDraft :: event_routes where "RouteDraft = 2"

definition route_includes :: "event_routes \<Rightarrow> event_routes \<Rightarrow> bool" where
  "route_includes routes route \<longleftrightarrow> routes AND route \<noteq> 0"

record event_spec =
  Mode :: version_mode
  WorkspaceScopeMode :: version_mode
  MergeKeys :: "string list"
  OptionalMergeKeys :: "string list"
  DraftScope :: bool
  Routes :: event_routes

abbreviation event_spec :: "version_mode \<Rightarrow> version_mode \<Rightarrow> string list \<Rightarrow> string list \<Rightarrow> bool
  \<Rightarrow> event_routes \<Rightarrow> event_spec" where
  "event_spec m w ks os d r \<equiv> \<lparr>Mode = m, WorkspaceScopeMode = w, MergeKeys = ks,
     OptionalMergeKeys = os, DraftScope = d, Routes = r\<rparr>"

definition EventRegistry :: "(string \<times> event_spec) list" where
  "EventRegistry =
    [(''DraftCreated'', event_spec VersionMerge VersionNone [''draft_id''] [] True (RouteWorkspace OR RouteDraft)),
     (''DraftRenamed'', event_spec VersionMerge VersionNone [''draft_id'', ''name''] [] True (RouteWorkspace OR RouteDraft)),
     (''DraftCopied'', event_spec VersionMerge VersionNone [''draft_id''] [] True (RouteWorkspace OR RouteDraft)),
     (''DraftTrashed'', event_spec VersionMerge VersionNone [''draft_id''] [] True (RouteWorkspace OR RouteDraft)),
     (''AssetImported'', event_spec VersionMerge VersionNone [''asset_id'', ''job_id''] [] False (RouteWorkspace OR RouteDraft)),
     (''AssetProbed'', event_spec VersionMerge VersionNone [''asset_id''] [] False (RouteWorkspace OR RouteDraft)),
     (''AssetLinked'', event_spec VersionMerge VersionNone [''draft_id'', ''asset_id''] [] True (RouteWorkspace OR RouteDraft)),
     (''AssetUnlinked'', event_spec VersionMerge VersionNone [''draft_id'', ''asset_id''] [] True (RouteWorkspace OR RouteDraft)),
     (''MaterialUnderstandingStarted'', event_spec VersionMerge VersionNone [''asset_id''] [''job_id'', ''attempt''] False (RouteWorkspace OR RouteDraft)),
     (''MaterialUnderstandingCompleted'', event_spec VersionMerge VersionNone [''asset_id''] [''job_id'', ''attempt''] False (RouteWorkspace OR RouteDraft)),
     (''MaterialUnderstandingFailed'', event_spec VersionMerge VersionNone [''asset_id''] [''job_id'', ''attempt''] False (RouteWorkspace OR RouteDraft)),
     (''DecisionCreated'', event_spec VersionStrict VersionMerge [''decision_id''] [] True RouteDraft),
     (''DecisionAnswered'', event_spec VersionStrict VersionMerge [''decision_id''] [] True RouteDraft),
     (''ConversationContextCleared'', event_spec VersionStrict VersionNone [] [] True RouteDraft),
     (''TimelineVersionCreated'', event_spec VersionStrict VersionNone [] [] True RouteDraft),
     (''TimelineVersionRestored'', event_spec VersionStrict VersionNone [] [] True RouteDraft),
     (''TimelineValidated'', event_spec VersionStrict VersionNone [] [] True RouteDraft),
     (''TimelineValidationFailed'', event_spec VersionStrict VersionNone [] [] True RouteDraft),
     (''PreviewRendered'', event_spec VersionMerge VersionNone [''timeline_version'', ''artifact_id''] [] True RouteDraft),
     (''ExportCompleted'', event_spec VersionMerge VersionNone [''timeline_version'', ''artifact_id''] [] True RouteDraft),
     (''JobEnqueued'', event_spec VersionMerge VersionNone [''job_id''] [] False (RouteWorkspace OR RouteDraft)),
     (''JobSucceeded'', event_spec VersionMerge VersionNone [''job_id''] [] False (RouteWorkspace OR RouteDraft)),
     (''JobFailed'', event_spec VersionMerge VersionNone [''job_id''] [] False (RouteWorkspace OR RouteDraft)),
     (''JobCancelled'', event_spec VersionMerge VersionNone [''job_id''] [] False (RouteWorkspace OR RouteDraft)),
     (''ProxyGenerated'', event_spec VersionMerge VersionNone [''asset_id'', ''proxy_object_hash''] [] False (RouteWorkspace OR RouteDraft)),
     (''PeaksGenerated'', event_spec VersionMerge VersionNone [''asset_id'', ''peaks_object_hash''] [] False (RouteWorkspace OR RouteDraft)),
     (''JobProgress'', event_spec VersionMerge VersionNone [''job_id'', ''progress''] [''update_id''] False (RouteWorkspace OR RouteDraft)),
     (''PreviewViewed'', event_spec VersionMerge VersionNone [''preview_id''] [] True RouteDraft)]"

record event =
  ev_Type :: string
  ev_Actor :: actor
  ev_DraftID :: string
  ev_BaseVersion :: "goint option"
  ev_Payload :: "gmap option"
  ev_CreatedAt :: string

definition event_Spec :: "event \<Rightarrow> event_spec option" where
  "event_Spec ev = map_of EventRegistry (ev_Type ev)"

text \<open>Reading a key of a \<open>nil\<close> payload yields \<open>nil\<close>.\<close>

definition payload :: "event \<Rightarrow> string \<Rightarrow> gval" where
  "payload ev k = (case ev_Payload ev of None \<Rightarrow> GNil | Some m \<Rightarrow> gget m k)"

fun stringValue_key :: "gval \<Rightarrow> string" where
  "stringValue_key (GStr s) = s"
| "stringValue_key (GFloat x) = format_g x"
| "stringValue_key (GInt n) = show_int n"
| "stringValue_key (GInt64 n) = show_int n"
| "stringValue_key _ = []"

definition VersionMode :: "event \<Rightarrow> version_mode option" where
  "VersionMode ev = (case event_Spec ev of
     None \<Rightarrow> None
   | Some spec \<Rightarrow>
       if stringValue_key (payload ev ''scope_type'') = ''workspace''
          \<and> WorkspaceScopeMode spec \<noteq> VersionNone
       then Some (WorkspaceScopeMode spec) else Some (Mode spec))"

definition valueForKey :: "event \<Rightarrow> string \<Rightarrow> string" where
  "valueForKey ev key = (if key = ''draft_id'' then ev_DraftID ev else stringValue_key (payload ev key))"

section \<open>Validation\<close>

datatype event_error =
    UnknownEvent string
  | InvalidActor string
  | MissingPayload string
  | MissingDraftID string
  | MissingMergeKey string string
  | MissingCheckpoint
  | InvalidRestoreMode
  | MissingRestoredVersion

definition validate_restored :: "event \<Rightarrow> event_error option" where
  "validate_restored ev = (let mode = stringValue_key (payload ev ''mode'') in
     if stringValue_key (payload ev ''checkpoint_id'') = []
        \<or> stringValue_key (payload ev ''restore_checkpoint_id'') = [] then Some MissingCheckpoint
     else if mode \<noteq> ''timeline'' \<and> mode \<noteq> ''conversation'' \<and> mode \<noteq> ''both'' then Some InvalidRestoreMode
     else if mode \<noteq> ''conversation'' \<and> stringValue_key (payload ev ''timeline_version'') = []
       then Some MissingRestoredVersion
     else None)"

definition event_Validate :: "event \<Rightarrow> event_error option" where
  "event_Validate ev = (case event_Spec ev of
     None \<Rightarrow> Some (UnknownEvent (ev_Type ev))
   | Some spec \<Rightarrow>
       if \<not> actor_valid (ev_Actor ev) then Some (InvalidActor (ev_Type ev))
       else if ev_Payload ev = None then Some (MissingPayload (ev_Type ev))
       else if DraftScope spec \<and> ev_DraftID ev = []
            \<and> stringValue_key (payload ev ''scope_type'') \<noteq> ''workspace'' then Some (MissingDraftID (ev_Type ev))
       else case find (\<lambda>key. valueForKey ev key = []) (MergeKeys spec) of
              Some key \<Rightarrow> Some (MissingMergeKey (ev_Type ev) key)
            | None \<Rightarrow> if ev_Type ev = ''TimelineVersionRestored'' then validate_restored ev else None)"

section \<open>Merge keys\<close>

text \<open>\<open>strings.Join\<close> with the unit separator.\<close>

fun join_parts :: "char \<Rightarrow> string list \<Rightarrow> string" where
  "join_parts c [] = []"
| "join_parts c [p] = p"
| "join_parts c (p # q # ps) = p @ c # join_parts c (q # ps)"

definition unit_sep :: char where "unit_sep = CHR 0x1F"

definition key_part :: "event \<Rightarrow> string \<Rightarrow> string" where
  "key_part ev key = key @ ''='' @ valueForKey ev key"

definition merge_parts :: "event_spec \<Rightarrow> event \<Rightarrow> string list" where
  "merge_parts spec ev = map (key_part ev) (MergeKeys spec)
     @ map (key_part ev) (filter (\<lambda>key. valueForKey ev key \<noteq> []) (OptionalMergeKeys spec))"

definition MergeKey :: "event \<Rightarrow> event_error + string" where
  "MergeKey ev = (case event_Spec ev of
     None \<Rightarrow> Inl (UnknownEvent (ev_Type ev))
   | Some spec \<Rightarrow> if VersionMode ev \<noteq> Some VersionMerge \<or> MergeKeys spec = [] then Inr []
                 else Inr (join_parts unit_sep (merge_parts spec ev)))"

section \<open>Routes\<close>

definition RoutesToWorkspace :: "event \<Rightarrow> bool" where
  "RoutesToWorkspace ev \<longleftrightarrow>
     (case event_Spec ev of None \<Rightarrow> False | Some spec \<Rightarrow> route_includes (Routes spec) RouteWorkspace)"

definition RoutesToDraft :: "event \<Rightarrow> string \<Rightarrow> bool" where
  "RoutesToDraft ev draftID \<longleftrightarrow>
     (case event_Spec ev of None \<Rightarrow> False | Some spec \<Rightarrow>
        if \<not> route_includes (Routes spec) RouteDraft then False
        else if ev_DraftID ev = draftID then True
        else stringValue_key (payload ev ''requested_by_draft_id'') = draftID)"

section \<open>Job kinds\<close>

datatype execution_class = JobExecutionGeneral | JobExecutionRender

record job_kind_spec =
  Kind :: string
  AgentWaited :: bool
  ProgressLabel :: string
  ExecutionClass :: execution_class

definition jobKindRegistry :: "(string \<times> job_kind_spec) list" where
  "jobKindRegistry =
    [(''ingest'', \<lparr>Kind = ''ingest'', AgentWaited = False, ProgressLabel = [],
        ExecutionClass = JobExecutionGeneral\<rparr>),
     (''understand'', \<lparr>Kind = ''understand'', AgentWaited = False,
        ProgressLabel = bytes [231, 144, 134, 232, 167, 163, 231, 180, 160, 230, 157, 144],
        ExecutionClass = JobExecutionGeneral\<rparr>),
     (''render_preview'', \<lparr>Kind = ''render_preview'', AgentWaited = False,
        ProgressLabel = bytes [230, 184, 178, 230, 159, 147, 233, 162, 132, 232, 167, 136],
        ExecutionClass = JobExecutionRender\<rparr>),
     (''render_final'', \<lparr>Kind = ''render_final'', AgentWaited = False,
        ProgressLabel = bytes [230, 184, 178, 230, 159, 147, 230, 136, 144, 231, 137, 135],
        ExecutionClass = JobExecutionRender\<rparr>)]"

definition LookupJobKind :: "string \<Rightarrow> job_kind_spec option" where
  "LookupJobKind kind = map_of jobKindRegistry kind"

text \<open>The registry is a Go map: its values come in any order, and are sorted by kind.\<close>

definition AllJobKindSpecs :: "job_kind_spec list" where
  "AllJobKindSpecs = sort_key Kind (map snd jobKindRegistry)"

definition JobKindsByExecutionClass :: "execution_class \<Rightarrow> string list" where
  "JobKindsByExecutionClass cls = map Kind (filter (\<lambda>spec. ExecutionClass spec = cls) AllJobKindSpecs)"

section \<open>The note reads back\<close>

lemma turn_cancelled_trim:
  "TrimSuffix (TrimPrefix (turn_cancelled_prefix @ v @ turn_cancelled_suffix) turn_cancelled_prefix)
     turn_cancelled_suffix = v"
  by (simp add: TrimPrefix_def TrimSuffix_def suffixI)

text \<open>
  C13. Whatever number of turns a cancellation reports, the note it leaves in the conversation
  parses back to that number (at least one) and is recognised as exact.
\<close>

theorem turn_cancelled_roundtrip:
  "ParseTurnCancelledObservation (TurnCancelledObservationContent (i64 n)) = (max 1 (i64 n), True)"
proof -
  define m where "m = (if i64 n < 1 then 1 else i64 n)"
  have m: "1 \<le> m" "m < 9223372036854775808" "m = max 1 (i64 n)"
    using i64_range [of n] by (auto simp: m_def)
  have "Atoi (show_int m) = Some m" using m by (intro Atoi_show_int) auto
  moreover have "suffix turn_cancelled_suffix (turn_cancelled_prefix @ show_int m @ turn_cancelled_suffix)"
    by (metis append.assoc suffixI)
  ultimately show ?thesis
    using m unfolding ParseTurnCancelledObservation_def TurnCancelledObservationContent_def m_def [symmetric]
    by (simp add: turn_cancelled_trim)
qed

section \<open>Merge keys identify an event\<close>

lemma join_parts_Cons: "ps \<noteq> [] \<Longrightarrow> join_parts c (p # ps) = p @ c # join_parts c ps"
  by (cases ps) auto

lemma separated_inj:
  "c \<notin> set p \<Longrightarrow> c \<notin> set q \<Longrightarrow> p @ c # xs = q @ c # ys \<longleftrightarrow> p = q \<and> xs = ys"
  by (induction p arbitrary: q) (case_tac q; auto)+

lemma join_parts_inj:
  assumes "join_parts c ps = join_parts c qs" and "ps \<noteq> []" and "qs \<noteq> []"
    and "\<forall>p \<in> set ps. c \<notin> set p" and "\<forall>q \<in> set qs. c \<notin> set q"
  shows "ps = qs"
  using assms
proof (induction c ps arbitrary: qs rule: join_parts.induct)
  case (1 c)
  then show ?case by simp
next
  case (2 c p)
  show ?case
  proof (cases "tl qs = []")
    case True
    with "2.prems" show ?thesis by (cases qs) auto
  next
    case False
    then have "qs = hd qs # tl qs" by (cases qs) auto
    with False have "c \<in> set (join_parts c qs)" by (metis join_parts_Cons in_set_conv_decomp)
    with "2.prems" show ?thesis by auto
  qed
next
  case (3 c p q ps)
  obtain r rs where qs: "qs = r # rs" using "3.prems" by (cases qs) auto
  have "rs \<noteq> []"
  proof
    assume "rs = []"
    with "3.prems" qs have "p @ c # join_parts c (q # ps) = r" by simp
    then have "c \<in> set r" by auto
    with "3.prems" qs show False by auto
  qed
  then have "p @ c # join_parts c (q # ps) = r @ c # join_parts c rs"
    using "3.prems" qs by (simp add: join_parts_Cons)
  then have "p = r" and "join_parts c (q # ps) = join_parts c rs"
    using "3.prems" qs separated_inj [of c p r] by auto
  moreover have "q # ps = rs"
    using "3.IH" [of rs] \<open>rs \<noteq> []\<close> "3.prems" qs calculation by auto
  ultimately show ?case using qs by simp
qed

definition plain_key :: "string \<Rightarrow> bool" where
  "plain_key k \<longleftrightarrow> CHR ''='' \<notin> set k \<and> unit_sep \<notin> set k"

lemma unit_sep_neq: "unit_sep \<noteq> CHR ''=''"
  by (simp add: unit_sep_def)

lemma EventRegistry_plain:
  "\<forall>(n, spec) \<in> set EventRegistry. list_all plain_key (MergeKeys spec @ OptionalMergeKeys spec)"
  by (simp add: EventRegistry_def plain_key_def unit_sep_def)

lemma event_Spec_plain:
  assumes "event_Spec ev = Some spec" and "k \<in> set (MergeKeys spec @ OptionalMergeKeys spec)"
  shows "plain_key k"
proof -
  from assms(1) have "(ev_Type ev, spec) \<in> set EventRegistry"
    unfolding event_Spec_def by (rule map_of_SomeD)
  with EventRegistry_plain have "list_all plain_key (MergeKeys spec @ OptionalMergeKeys spec)" by blast
  with assms(2) show ?thesis by (simp only: list_all_iff)
qed

lemma key_part_inj:
  assumes "plain_key k" and "plain_key k'"
  shows "key_part e k = key_part e' k' \<longleftrightarrow> k = k' \<and> valueForKey e k = valueForKey e' k'"
  using assms separated_inj [of "CHR ''=''" k k'] by (auto simp: key_part_def plain_key_def)

lemma key_part_clean:
  "plain_key k \<Longrightarrow> unit_sep \<notin> set (valueForKey e k) \<Longrightarrow> unit_sep \<notin> set (key_part e k)"
  using unit_sep_neq by (auto simp: key_part_def plain_key_def)

lemma key_parts_agree:
  assumes eq: "map (key_part e) (filter P ks) = map (key_part e') (filter Q ks)"
    and plain: "\<forall>k \<in> set ks. plain_key k" and k: "k \<in> set ks" "P k"
  shows "Q k \<and> valueForKey e k = valueForKey e' k"
proof -
  from k have "key_part e k \<in> set (map (key_part e) (filter P ks))" by auto
  then have "key_part e k \<in> key_part e' ` set (filter Q ks)" unfolding eq by auto
  then obtain k' where "k' \<in> set ks" "Q k'" "key_part e k = key_part e' k'" by auto
  with plain k show ?thesis by (auto simp: key_part_inj)
qed

text \<open>
  C12. Two merge events of one type with the same merge key agree on every key the registry
  declares for the type, the optional ones included, provided no value contains the separator:
  the log's uniqueness on (type, merge key) identifies events exactly by their declared keys.
\<close>

theorem merge_key_identifies:
  assumes type: "ev_Type e = ev_Type e'" and spec: "event_Spec e = Some spec"
    and merge: "VersionMode e = Some VersionMerge" "VersionMode e' = Some VersionMerge"
    and keys: "MergeKeys spec \<noteq> []" and same: "MergeKey e = MergeKey e'"
    and clean: "\<forall>k \<in> set (MergeKeys spec @ OptionalMergeKeys spec).
      unit_sep \<notin> set (valueForKey e k) \<and> unit_sep \<notin> set (valueForKey e' k)"
  shows "\<forall>k \<in> set (MergeKeys spec @ OptionalMergeKeys spec). valueForKey e k = valueForKey e' k"
proof -
  have spec': "event_Spec e' = Some spec" using type spec by (simp add: event_Spec_def)
  note plain = event_Spec_plain [OF spec]
  have nonempty: "merge_parts spec e'' \<noteq> []" for e'' using keys by (simp add: merge_parts_def)
  have parts: "merge_parts spec e = merge_parts spec e'"
  proof (rule join_parts_inj)
    show "join_parts unit_sep (merge_parts spec e) = join_parts unit_sep (merge_parts spec e')"
      using same spec spec' merge keys by (simp add: MergeKey_def)
    show "\<forall>p \<in> set (merge_parts spec e). unit_sep \<notin> set p"
      and "\<forall>p \<in> set (merge_parts spec e'). unit_sep \<notin> set p"
      using clean plain by (auto simp: merge_parts_def key_part_clean)
  qed (rule nonempty)+
  then have required: "map (key_part e) (MergeKeys spec) = map (key_part e') (MergeKeys spec)"
    and optional: "map (key_part e) (filter (\<lambda>k. valueForKey e k \<noteq> []) (OptionalMergeKeys spec))
      = map (key_part e') (filter (\<lambda>k. valueForKey e' k \<noteq> []) (OptionalMergeKeys spec))"
    by (auto simp: merge_parts_def)
  show ?thesis
  proof
    fix k assume "k \<in> set (MergeKeys spec @ OptionalMergeKeys spec)"
    then consider "k \<in> set (MergeKeys spec)" | "k \<in> set (OptionalMergeKeys spec)" by auto
    then show "valueForKey e k = valueForKey e' k"
    proof cases
      case 1
      with required have "key_part e k = key_part e' k" by (simp only: map_eq_conv)
      with plain [of k] 1 show ?thesis by (simp add: key_part_inj)
    next
      case 2
      have "\<forall>k \<in> set (OptionalMergeKeys spec). plain_key k" using plain by simp
      from key_parts_agree [OF optional this 2] key_parts_agree [OF optional [symmetric] this 2]
      show ?thesis by metis
    qed
  qed
qed

end
