(* ===== verification/GoTime.thy ===== *)
theory GoTime
  imports Rushes_Prelude
begin

text \<open>
  Go's \<open>time.Time\<close> and the two layouts the code stores in the database: \<open>time.RFC3339Nano\<close>, which
  drops trailing zeros of the fraction, and the fixed-width layout of leases and memories.  A time
  is its instant in nanoseconds since 1970 with the zone offset in seconds it is shown in;
  durations are nanoseconds.  The database compares times as texts, so the section on order shows
  when the texts compare like the instants: always for the fixed-width layout in the years 0 to
  9999, and not for \<open>RFC3339Nano\<close>.
\<close>

section \<open>The civil calendar\<close>

record gotime =
  unix_ns :: int
  zone_s :: int

type_synonym duration = int

abbreviation time_Second :: duration where "time_Second \<equiv> 1000000000"

text \<open>The zero \<open>time.Time\<close> is midnight of 1 January of the year 1, in UTC.\<close>

definition zero_time :: gotime where
  "zero_time = \<lparr>unix_ns = - 62135596800 * time_Second, zone_s = 0\<rparr>"

definition time_IsZero :: "gotime \<Rightarrow> bool" where
  "time_IsZero t \<longleftrightarrow> unix_ns t = unix_ns zero_time"

definition time_UTC :: "gotime \<Rightarrow> gotime" where
  "time_UTC t = t\<lparr>zone_s := 0\<rparr>"

definition time_Add :: "gotime \<Rightarrow> duration \<Rightarrow> gotime" where
  "time_Add t d = t\<lparr>unix_ns := unix_ns t + d\<rparr>"

text \<open>
  Days are split into years that begin in March, so that the leap day is the last of its year:
  \<open>year_start\<close> is the first day of a year within its 400-year era.
\<close>

definition year_start :: "int \<Rightarrow> int" where
  "year_start y = 365 * y + y div 4 - y div 100 + y div 400"

definition year_of_era :: "int \<Rightarrow> int" where
  "year_of_era doe = (let y = doe div 365 in if year_start y \<le> doe then y else y - 1)"

text \<open>Year, month (March is 0) and day of the month (from 1), from the days since 1970.\<close>

definition march_date :: "int \<Rightarrow> int \<times> int \<times> int" where
  "march_date days = (let z = days + 719468; era = z div 146097; doe = z mod 146097;
       yoe = year_of_era doe; doy = doe - year_start yoe; mp = (5 * doy + 2) div 153
     in (era * 400 + yoe, mp, doy - (153 * mp + 2) div 5 + 1))"

definition civil_date :: "int \<Rightarrow> int \<times> int \<times> int" where
  "civil_date days = (let (y, mp, d) = march_date days
     in if mp < 10 then (y, mp + 3, d) else (y + 1, mp - 9, d))"

section \<open>Layouts\<close>

fun pad :: "nat \<Rightarrow> nat \<Rightarrow> string" where
  "pad 0 n = []"
| "pad (Suc w) n = pad w (n div 10) @ [digit_char (n mod 10)]"

definition show_year :: "int \<Rightarrow> string" where
  "show_year y = (if y < 0 then ''-'' @ pad 4 (nat (- y))
     else if y < 10000 then pad 4 (nat y) else show_nat (nat y))"

definition local_s :: "gotime \<Rightarrow> int" where
  "local_s t = unix_ns t div time_Second + zone_s t"

definition nanos :: "gotime \<Rightarrow> nat" where
  "nanos t = nat (unix_ns t mod time_Second)"

definition show_seconds :: "int \<Rightarrow> string" where
  "show_seconds s = (let (y, m, d) = civil_date (s div 86400); r = s mod 86400
     in show_year y @ ''-'' @ pad 2 (nat m) @ ''-'' @ pad 2 (nat d) @ ''T''
        @ pad 2 (nat (r div 3600)) @ '':'' @ pad 2 (nat (r div 60 mod 60)) @ '':'' @ pad 2 (nat (r mod 60)))"

definition show_zone :: "int \<Rightarrow> string" where
  "show_zone z = (if z = 0 then ''Z'' else
     let a = \<bar>z\<bar> div 60 in (if z < 0 then ''-'' else ''+'') @ pad 2 (nat (a div 60)) @ '':'' @ pad 2 (nat (a mod 60)))"

definition trim_fraction :: "string \<Rightarrow> string" where
  "trim_fraction s = rev (dropWhile (\<lambda>c. c = digit_char 0) (rev s))"

definition RFC3339Nano :: "gotime \<Rightarrow> string" where
  "RFC3339Nano t = show_seconds (local_s t)
     @ (if nanos t = 0 then [] else ''.'' @ trim_fraction (pad 9 (nanos t))) @ show_zone (zone_s t)"

text \<open>\<open>2006-01-02T15:04:05.000000000Z\<close>: the final letter is literal.\<close>

definition FixedNano :: "gotime \<Rightarrow> string" where
  "FixedNano t = show_seconds (local_s t) @ ''.'' @ pad 9 (nanos t) @ ''Z''"

section \<open>Order of the dates\<close>

lemma div_Suc_int:
  fixes y :: int
  assumes "0 < k"
  shows "y div k \<le> (y + 1) div k" "(y + 1) div k \<le> y div k + 1"
proof -
  show "y div k \<le> (y + 1) div k" using assms by (intro zdiv_mono1) auto
  have "(y + 1) div k \<le> (y + k) div k" using assms by (intro zdiv_mono1) auto
  with assms show "(y + 1) div k \<le> y div k + 1" by simp
qed

lemma year_start_Suc:
  "year_start y < year_start (y + 1)" "year_start (y + 1) \<le> year_start y + 366"
proof -
  define p p' where "p = y div 100" and "p' = (y + 1) div 100"
  have p: "y div 400 = p div 4" "(y + 1) div 400 = p' div 4"
    using zdiv_zmult2_eq [of 4 y 100] zdiv_zmult2_eq [of 4 "y + 1" 100] by (auto simp: p_def p'_def)
  have "p' = p \<or> p' = p + 1" using div_Suc_int [of 100 y] by (auto simp: p_def p'_def)
  then have "p' div 4 - p' \<le> p div 4 - p" "p div 4 - p \<le> p' div 4 - p' + 1"
    using div_Suc_int [of 4 p] by auto
  then show "year_start y < year_start (y + 1)" "year_start (y + 1) \<le> year_start y + 366"
    using div_Suc_int [of 4 y] unfolding year_start_def p p_def [symmetric] p'_def [symmetric]
    by simp_all
qed

lemma year_start_mono: "y \<le> y' \<Longrightarrow> year_start y \<le> year_start y'"
proof (induction y' rule: int_ge_induct)
  case (step z)
  then show ?case using year_start_Suc(1) [of z] by simp
qed simp

lemma year_of_era:
  assumes "0 \<le> doe" and "doe < 146097"
  shows "0 \<le> year_of_era doe" "year_of_era doe < 400"
    "year_start (year_of_era doe) \<le> doe" "doe < year_start (year_of_era doe + 1)"
proof -
  define y where "y = doe div 365"
  have y: "365 * y \<le> doe" "doe < 365 * y + 365" "0 \<le> y" "y \<le> 400"
    using assms by (auto simp: y_def)
  have below: "year_start y \<le> 365 * y + 101" if "0 \<le> y" "y \<le> 400" for y
  proof -
    have "y div 4 \<le> 400 div 4" using that by (intro zdiv_mono1) auto
    moreover have "0 \<le> y div 100" "y div 400 \<le> 400 div 400"
      using that by (simp_all add: pos_imp_zdiv_nonneg_iff zdiv_mono1 del: div_self)
    ultimately show ?thesis by (simp add: year_start_def)
  qed
  have above: "365 * y \<le> year_start y" if "0 \<le> y" for y
  proof -
    have "y div 100 \<le> y div 4" using that by (intro zdiv_mono2) auto
    moreover have "0 \<le> y div 400" using that by (simp add: pos_imp_zdiv_nonneg_iff)
    ultimately show ?thesis by (simp add: year_start_def)
  qed
  have at_400: "\<not> year_start 400 \<le> doe" using assms by (simp add: year_start_def)
  have "0 \<le> year_of_era doe \<and> year_of_era doe < 400 \<and> year_start (year_of_era doe) \<le> doe
    \<and> doe < year_start (year_of_era doe + 1)"
  proof (cases "year_start y \<le> doe")
    case True
    then have "y \<noteq> 400" using at_400 by auto
    with True y above [of "y + 1"] show ?thesis
      by (simp add: year_of_era_def Let_def y_def [symmetric])
  next
    case False
    moreover have "y \<noteq> 0" using False assms by (auto simp: year_start_def)
    ultimately show ?thesis
      using y below [of "y - 1"] by (simp add: year_of_era_def Let_def y_def [symmetric])
  qed
  then show "0 \<le> year_of_era doe" "year_of_era doe < 400"
    "year_start (year_of_era doe) \<le> doe" "doe < year_start (year_of_era doe + 1)" by auto
qed

lemma month_of_year:
  fixes doy :: int
  assumes "0 \<le> doy" and "doy \<le> 365"
  shows "0 \<le> (5 * doy + 2) div 153" "(5 * doy + 2) div 153 \<le> 11"
    "0 \<le> doy - (153 * ((5 * doy + 2) div 153) + 2) div 5"
    "doy - (153 * ((5 * doy + 2) div 153) + 2) div 5 \<le> 30"
proof -
  define q where "q = (5 * doy + 2) div 153"
  define r where "r = (153 * q + 2) div 5"
  have q: "153 * q \<le> 5 * doy + 2" "5 * doy + 2 < 153 * q + 153" by (simp_all add: q_def)
  have r: "5 * r \<le> 153 * q + 2" "153 * q + 2 < 5 * r + 5" by (simp_all add: r_def)
  have "0 \<le> q" "q \<le> 11" "0 \<le> doy - r" "doy - r \<le> 30" using q r assms by linarith+
  then show "0 \<le> (5 * doy + 2) div 153" "(5 * doy + 2) div 153 \<le> 11"
    "0 \<le> doy - (153 * ((5 * doy + 2) div 153) + 2) div 5"
    "doy - (153 * ((5 * doy + 2) div 153) + 2) div 5 \<le> 30"
    by (simp_all add: q_def r_def)
qed

lemma march_date_bounds:
  assumes "march_date days = (y, mp, d)"
  shows "0 \<le> mp" "mp \<le> 11" "1 \<le> d" "d \<le> 31"
proof -
  define doe where "doe = (days + 719468) mod 146097"
  have doe: "0 \<le> doe" "doe < 146097" by (simp_all add: doe_def)
  define doy where "doy = doe - year_start (year_of_era doe)"
  have "0 \<le> doy" "doy \<le> 365"
    using year_of_era(3,4) [OF doe] year_start_Suc(2) [of "year_of_era doe"] by (simp_all add: doy_def)
  from month_of_year [OF this] assms show "0 \<le> mp" "mp \<le> 11" "1 \<le> d" "d \<le> 31"
    unfolding march_date_def Let_def doe_def [symmetric] doy_def [symmetric] by auto
qed

lemma march_date_mono:
  assumes "march_date a = (y, mp, d)" and "march_date b = (y', mp', d')" and "a < b"
  shows "y < y' \<or> y = y' \<and> (mp < mp' \<or> mp = mp' \<and> d < d')"
proof -
  define za zb where "za = a + 719468" and "zb = b + 719468"
  define ya yb where "ya = year_of_era (za mod 146097)" and "yb = year_of_era (zb mod 146097)"
  have "za < zb" using assms(3) by (simp add: za_def zb_def)
  have A: "0 \<le> ya" "ya < 400" "year_start ya \<le> za mod 146097" "za mod 146097 < year_start (ya + 1)"
    and B: "0 \<le> yb" "yb < 400" "year_start yb \<le> zb mod 146097" "zb mod 146097 < year_start (yb + 1)"
    using year_of_era [of "za mod 146097"] year_of_era [of "zb mod 146097"] by (auto simp: ya_def yb_def)
  have y: "y = za div 146097 * 400 + ya" "y' = zb div 146097 * 400 + yb"
    using assms(1,2) unfolding march_date_def Let_def za_def [symmetric] zb_def [symmetric]
      ya_def [symmetric] yb_def [symmetric] by simp_all
  have "za div 146097 \<le> zb div 146097" using \<open>za < zb\<close> by (intro zdiv_mono1) auto
  moreover have "za = 146097 * (za div 146097) + za mod 146097" "zb = 146097 * (zb div 146097) + zb mod 146097"
    by simp_all
  ultimately have eras: "za div 146097 < zb div 146097
    \<or> za div 146097 = zb div 146097 \<and> za mod 146097 < zb mod 146097"
    using \<open>za < zb\<close> by linarith
  show ?thesis
  proof (cases "za div 146097 < zb div 146097")
    case True
    with y A B show ?thesis by auto
  next
    case False
    with eras have same: "za div 146097 = zb div 146097" "za mod 146097 < zb mod 146097" by auto
    have "ya \<le> yb"
    proof (rule ccontr)
      assume "\<not> ya \<le> yb"
      then have "year_start (yb + 1) \<le> year_start ya" by (intro year_start_mono) simp
      with A B same show False by simp
    qed
    show ?thesis
    proof (cases "ya < yb")
      case True
      with y same show ?thesis by simp
    next
      case False
      define u v where "u = za mod 146097 - year_start ya" and "v = zb mod 146097 - year_start ya"
      have eq: "ya = yb" using False \<open>ya \<le> yb\<close> by simp
      with same have "u < v" by (simp add: u_def v_def)
      have "mp = (5 * u + 2) div 153" "d = u - (153 * mp + 2) div 5 + 1"
        and "mp' = (5 * v + 2) div 153" "d' = v - (153 * mp' + 2) div 5 + 1"
        using assms(1,2) eq
        unfolding march_date_def Let_def za_def [symmetric] zb_def [symmetric] ya_def [symmetric]
          yb_def [symmetric] by (auto simp: u_def v_def)
      moreover have "(5 * u + 2) div 153 \<le> (5 * v + 2) div 153"
        using \<open>u < v\<close> by (intro zdiv_mono1) auto
      ultimately have "mp < mp' \<or> mp = mp' \<and> d < d'" using \<open>u < v\<close> by fastforce
      moreover have "y = y'" using y same(1) eq by simp
      ultimately show ?thesis by simp
    qed
  qed
qed

lemma civil_date_bounds:
  assumes "civil_date days = (y, m, d)"
  shows "1 \<le> m" "m \<le> 12" "1 \<le> d" "d \<le> 31"
proof -
  obtain y' mp d' where m: "march_date days = (y', mp, d')" by (cases "march_date days") auto
  from march_date_bounds [OF m] assms m
  show "1 \<le> m" "m \<le> 12" "1 \<le> d" "d \<le> 31" by (auto simp: civil_date_def split: if_splits)
qed

lemma civil_date_mono:
  assumes "civil_date a = (y, m, d)" and "civil_date b = (y', m', d')" and "a < b"
  shows "y < y' \<or> y = y' \<and> (m < m' \<or> m = m' \<and> d < d')"
proof -
  obtain ya ma da where A: "march_date a = (ya, ma, da)" by (cases "march_date a") auto
  obtain yb mb db where B: "march_date b = (yb, mb, db)" by (cases "march_date b") auto
  from march_date_mono [OF A B \<open>a < b\<close>] march_date_bounds [OF A] march_date_bounds [OF B] assms(1,2) A B
  show ?thesis by (auto simp: civil_date_def split: if_splits)
qed

section \<open>Order of the texts\<close>

lemma append_less:
  fixes xs ys :: "'a::order list"
  assumes "length xs = length ys"
  shows "xs @ as < ys @ bs \<longleftrightarrow> xs < ys \<or> xs = ys \<and> as < bs"
  using assms by (induction xs ys rule: list_induct2) auto

lemma digit_char_less: "d < e \<Longrightarrow> e < 10 \<Longrightarrow> digit_char d < digit_char e"
  by (simp add: digit_char_def less_char_def)

lemma length_pad [simp]: "length (pad w n) = w"
  by (induction w n rule: pad.induct) auto

lemma div_mod_less_nat:
  fixes a b :: nat
  assumes "a < b" and "0 < k"
  shows "a div k < b div k \<or> a div k = b div k \<and> a mod k < b mod k"
proof (cases "a div k = b div k")
  case True
  with assms(1) have "a mod k < b mod k"
    by (metis div_mult_mod_eq add_less_cancel_left)
  with True show ?thesis by simp
next
  case False
  moreover have "a div k \<le> b div k" using assms by (intro div_le_mono) auto
  ultimately show ?thesis by simp
qed

lemma div_mod_less_int:
  fixes a b :: int
  assumes "a < b" and "0 < k"
  shows "a div k < b div k \<or> a div k = b div k \<and> a mod k < b mod k"
proof (cases "a div k = b div k")
  case True
  with assms(1) have "a mod k < b mod k"
    by (metis div_mult_mod_eq add_less_cancel_left)
  with True show ?thesis by simp
next
  case False
  moreover have "a div k \<le> b div k" using assms by (intro zdiv_mono1) auto
  ultimately show ?thesis by simp
qed

lemma pad_less: "m < n \<Longrightarrow> n < 10 ^ w \<Longrightarrow> pad w m < pad w n"
proof (induction w arbitrary: m n)
  case (Suc w)
  have "n div 10 < 10 ^ w" using Suc.prems by (simp add: less_mult_imp_div_less mult.commute)
  moreover have "m div 10 < n div 10 \<or> m div 10 = n div 10 \<and> m mod 10 < n mod 10"
    using Suc.prems(1) by (intro div_mod_less_nat) auto
  ultimately show ?case using Suc.IH [of "m div 10" "n div 10"] by (auto simp: append_less digit_char_less)
qed simp

lemma pad_cong_less:
  assumes "m < n \<or> m = n \<and> as < bs" and "n < 10 ^ w"
  shows "pad w m @ as < pad w n @ bs"
  using assms pad_less [of m n w] by (auto simp: append_less)

lemma pad_int_less:
  fixes m n :: int
  assumes "m < n \<or> m = n \<and> as < bs" and "0 \<le> m" and "n < 10 ^ w"
  shows "pad w (nat m) @ as < pad w (nat n) @ bs"
  using assms by (intro pad_cong_less) (auto simp: nat_less_iff nat_less_eq_zless)

lemma clock_mono:
  fixes r r' :: int
  assumes "0 \<le> r" and "r < r'" and "r' < 86400"
  shows "r div 3600 < r' div 3600 \<or> r div 3600 = r' div 3600 \<and>
    (r div 60 mod 60 < r' div 60 mod 60 \<or> r div 60 mod 60 = r' div 60 mod 60 \<and> r mod 60 < r' mod 60)"
proof -
  have hour: "r div 3600 = r div 60 div 60" "r' div 3600 = r' div 60 div 60"
    using zdiv_zmult2_eq [of 60 r 60] zdiv_zmult2_eq [of 60 r' 60] by auto
  have step: "a div 60 < b div 60 \<or> a div 60 = b div 60 \<and> a mod 60 < b mod 60" if "a < b" for a b :: int
    using that by (intro div_mod_less_int) auto
  show ?thesis
    using step [OF \<open>r < r'\<close>] step [of "r div 60" "r' div 60"] unfolding hour by auto
qed

lemma clock_bounds:
  fixes r :: int
  assumes "0 \<le> r" and "r < 86400"
  shows "0 \<le> r div 3600" "r div 3600 < 100" "0 \<le> r div 60 mod 60" "r div 60 mod 60 < 100"
    "0 \<le> r mod 60" "r mod 60 < 100"
proof -
  have "r div 3600 \<le> 86400 div 3600" using assms by (intro zdiv_mono1) auto
  then show "r div 3600 < 100" by simp
  show "0 \<le> r div 3600" using assms(1) by (simp add: pos_imp_zdiv_nonneg_iff)
  show "0 \<le> r div 60 mod 60" "0 \<le> r mod 60" by (rule pos_mod_sign, simp)+
  show "r div 60 mod 60 < 100" "r mod 60 < 100" by (rule less_trans [OF pos_mod_bound], simp_all)+
qed

definition clock_text :: "int \<Rightarrow> string" where
  "clock_text r = pad 2 (nat (r div 3600)) @ '':'' @ pad 2 (nat (r div 60 mod 60)) @ '':'' @ pad 2 (nat (r mod 60))"

lemma clock_less:
  assumes "0 \<le> r" and "r < r'" and "r' < 86400"
  shows "clock_text r @ as < clock_text r' @ bs"
proof -
  define h m s h' m' s' where "h = r div 3600" and "m = r div 60 mod 60" and "s = r mod 60"
    and "h' = r' div 3600" and "m' = r' div 60 mod 60" and "s' = r' mod 60"
  note vars = h_def [symmetric] m_def [symmetric] s_def [symmetric]
    h'_def [symmetric] m'_def [symmetric] s'_def [symmetric]
  have order: "h < h' \<or> h = h' \<and> (m < m' \<or> m = m' \<and> s < s')"
    using clock_mono [OF assms] unfolding vars .
  have b: "0 \<le> h" "0 \<le> m" "0 \<le> s" "h' < 100" "m' < 100" "s' < 100"
    using clock_bounds [of r] clock_bounds [of r'] assms unfolding vars by auto
  from order show ?thesis unfolding clock_text_def vars append_assoc
    by (intro pad_int_less) (use b in \<open>auto intro!: pad_int_less\<close>)
qed

definition four_digit_year :: "gotime \<Rightarrow> bool" where
  "four_digit_year t \<longleftrightarrow> (let (y, m, d) = civil_date (local_s t div 86400) in 0 \<le> y \<and> y \<le> 9999)"

lemma show_seconds_less:
  assumes "s < s'" and "case civil_date (s div 86400) of (y, m, d) \<Rightarrow> 0 \<le> y \<and> y \<le> 9999"
    and "case civil_date (s' div 86400) of (y, m, d) \<Rightarrow> 0 \<le> y \<and> y \<le> 9999"
  shows "show_seconds s @ as < show_seconds s' @ bs"
proof -
  obtain y m d where D: "civil_date (s div 86400) = (y, m, d)" by (cases "civil_date (s div 86400)") auto
  obtain y' m' d' where D': "civil_date (s' div 86400) = (y', m', d')" by (cases "civil_date (s' div 86400)") auto
  have years: "0 \<le> y" "y \<le> 9999" "0 \<le> y'" "y' \<le> 9999" using assms D D' by auto
  note b = civil_date_bounds [OF D] civil_date_bounds [OF D'] years
  have r: "0 \<le> s mod 86400" "s' mod 86400 < 86400" by simp_all
  have shown: "show_seconds s @ as = pad 4 (nat y) @ ''-'' @ pad 2 (nat m) @ ''-'' @ pad 2 (nat d) @ ''T'' @ clock_text (s mod 86400) @ as"
    "show_seconds s' @ bs = pad 4 (nat y') @ ''-'' @ pad 2 (nat m') @ ''-'' @ pad 2 (nat d') @ ''T'' @ clock_text (s' mod 86400) @ bs"
    using D D' years by (simp_all add: show_seconds_def show_year_def clock_text_def Let_def)
  consider "s div 86400 < s' div 86400" | "s div 86400 = s' div 86400" "s mod 86400 < s' mod 86400"
    using div_mod_less_int [OF \<open>s < s'\<close>, of 86400] by auto
  then show ?thesis
  proof cases
    case 1
    have "y < y' \<or> y = y' \<and> (m < m' \<or> m = m' \<and> d < d')" by (rule civil_date_mono [OF D D' 1])
    then show ?thesis unfolding shown
      by (intro pad_int_less) (use b in \<open>auto intro!: pad_int_less\<close>)
  next
    case 2
    then have "y = y'" "m = m'" "d = d'" using D D' by auto
    then show ?thesis unfolding shown using clock_less [OF r(1) 2(2) r(2), of as bs]
      by (simp add: append_less)
  qed
qed

lemma FixedNano_less:
  assumes "unix_ns t < unix_ns t'" and "zone_s t = 0" and "zone_s t' = 0"
    and "four_digit_year t" and "four_digit_year t'"
  shows "FixedNano t < FixedNano t'"
proof -
  have s: "local_s t < local_s t' \<or> local_s t = local_s t' \<and> nanos t < nanos t'"
    using div_mod_less_int [OF assms(1), of time_Second] assms(2,3)
    by (auto simp: local_s_def nanos_def nat_less_eq_zless)
  have n: "nanos t' < 10 ^ 9" by (simp add: nanos_def nat_less_iff)
  show ?thesis
  proof (cases "local_s t < local_s t'")
    case True
    with assms(4,5) show ?thesis
      unfolding FixedNano_def four_digit_year_def Let_def by (intro show_seconds_less) auto
  next
    case False
    with s have "local_s t = local_s t'" "nanos t < nanos t'" by auto
    then show ?thesis unfolding FixedNano_def using n by (simp add: append_less pad_less)
  qed
qed

lemma FixedNano_eq:
  assumes "unix_ns t = unix_ns t'" and "zone_s t = 0" and "zone_s t' = 0"
  shows "FixedNano t = FixedNano t'"
  using assms by (simp add: FixedNano_def local_s_def nanos_def)

lemma FixedNano_order:
  assumes "zone_s t = 0" and "zone_s t' = 0" and "four_digit_year t" and "four_digit_year t'"
  shows "FixedNano t \<le> FixedNano t' \<longleftrightarrow> unix_ns t \<le> unix_ns t'"
  using assms FixedNano_less [of t t'] FixedNano_less [of t' t] FixedNano_eq [of t t']
  by (cases "unix_ns t" "unix_ns t'" rule: linorder_cases) (auto simp: less_le_not_le)

lemma year_of_era_1969: "year_of_era 135080 = 369"
  by (simp add: year_of_era_def year_start_def)

lemma civil_date_epoch: "civil_date 0 = (1970, 1, 1)"
  by (simp add: civil_date_def march_date_def year_of_era_1969 year_start_def)

lemma local_s_epoch:
  "local_s \<lparr>unix_ns = 1000000000, zone_s = 0\<rparr> = 1"
  "local_s \<lparr>unix_ns = 1500000000, zone_s = 0\<rparr> = 1"
  "local_s \<lparr>unix_ns = 2000000000, zone_s = 0\<rparr> = 2"
  by (simp_all add: local_s_def)

lemma four_digit_year_epoch:
  "four_digit_year \<lparr>unix_ns = 1500000000, zone_s = 0\<rparr>"
  "four_digit_year \<lparr>unix_ns = 2000000000, zone_s = 0\<rparr>"
  by (simp_all add: four_digit_year_def local_s_epoch civil_date_epoch)

text \<open>
  Texts of the layout \<open>RFC3339Nano\<close> do not compare like the instants: half a second after a whole
  second compares below it, because the fraction is dropped and the letter \<open>Z\<close> is above the point.
\<close>

lemma RFC3339Nano_order_fails:
  "RFC3339Nano \<lparr>unix_ns = 1500000000, zone_s = 0\<rparr> < RFC3339Nano \<lparr>unix_ns = 1000000000, zone_s = 0\<rparr>"
proof -
  have "nanos \<lparr>unix_ns = 1000000000, zone_s = 0\<rparr> = 0" "nanos \<lparr>unix_ns = 1500000000, zone_s = 0\<rparr> = 500000000"
    by (simp_all add: nanos_def)
  then show ?thesis
    by (simp add: RFC3339Nano_def local_s_epoch append_less show_zone_def less_char_def)
qed

end
