(* ===== verification/Store_Tables.thy ===== *)
theory Store_Tables
  imports Contracts_Events GoTime
begin

text \<open>
  The tables of the workspace database (\<open>storage/schema.go\<close>) that the reducer and the job queue
  read and write.  A table is the list of its rows in rowid order, a nullable column an option, and
  a JSON column holds the value its text decodes to.  A statement that violates a key, a unique
  index or a foreign key fails and changes nothing; the connection enables foreign keys.  I/O
  errors and a cancelled context abort a transaction like any other error and are left out.
\<close>

section \<open>Rows\<close>

record draft_row =
  dr_draft_id :: string
  dr_name :: string
  dr_state_version :: goint
  dr_status :: string
  dr_defaults :: gval
  dr_pending_decision_id :: "string option"
  dr_running_jobs :: "gmap list"
  dr_last_error :: "gval option"
  dr_brief :: gval
  dr_content_plan :: "gval option"
  dr_timeline_current_version :: "goint option"
  dr_timeline_validated :: bool
  dr_preview_current_id :: "string option"
  dr_last_viewed_preview_id :: "string option"
  dr_export_current_id :: "string option"
  dr_messages_tail_ref :: "string option"
  dr_created_at :: string
  dr_updated_at :: string

record object_row =
  ob_hash :: string
  ob_rel_path :: string
  ob_size :: goint
  ob_created_at :: string

record asset_row =
  as_asset_id :: string
  as_storage_mode :: string
  as_object_hash :: "string option"
  as_reference_path :: "string option"
  as_kind :: string
  as_source :: string
  as_filename :: string
  as_hash :: string
  as_mtime :: "goint option"
  as_size :: goint
  as_probe :: "gval option"
  as_proxy_object_hash :: "string option"
  as_thumbnail_object_hash :: "string option"
  as_peaks_object_hash :: "string option"
  as_ingest_status :: string
  as_understanding_status :: string
  as_usable :: bool
  as_failure :: "gval option"

record link_row =
  li_draft_id :: string
  li_asset_id :: string
  li_linked_at :: string
  li_note :: string
  li_rel_dir :: "string option"

record summary_row =
  su_summary_id :: string
  su_asset_id :: string
  su_version :: goint
  su_focus :: "string option"
  su_status :: string
  su_summary :: gval
  su_model :: "string option"
  su_fingerprint :: "string option"
  su_prompt_version :: "string option"
  su_created_at :: string

record decision_row =
  de_decision_id :: string
  de_rowid :: goint
  de_scope_type :: string
  de_draft_id :: "string option"
  de_type :: string
  de_question :: string
  de_options :: gval
  de_allow_free_text :: bool
  de_status :: string
  de_answer :: "gval option"
  de_pending_tool_call :: "gval option"
  de_pending_tool_call_status :: "string option"
  de_consumed_at :: "string option"
  de_replayed_tool_call_id :: "string option"
  de_blocking :: bool
  de_created_by_tool_call_id :: "string option"

record timeline_row =
  tl_timeline_id :: string
  tl_draft_id :: string
  tl_version :: goint
  tl_parent_version :: "goint option"
  tl_created_by_patch_id :: "string option"
  tl_document :: gval
  tl_validation_report :: "gval option"
  tl_created_at :: string

record edit_batch_row =
  eb_edit_batch_id :: string
  eb_draft_id :: string
  eb_actor :: actor
  eb_origin :: string
  eb_operations :: gval
  eb_before_version :: goint
  eb_after_version :: goint
  eb_affected_refs :: "string list"
  eb_created_at :: string

record preview_row =
  pv_preview_id :: string
  pv_draft_id :: string
  pv_timeline_version :: goint
  pv_object_hash :: string
  pv_quality :: gval
  pv_render_width :: "goint option"
  pv_render_height :: "goint option"
  pv_render_fps :: "f64 option"
  pv_expected_duration_sec :: "f64 option"
  pv_created_at :: string

record export_row =
  ex_export_id :: string
  ex_draft_id :: string
  ex_timeline_version :: goint
  ex_object_hash :: string
  ex_quality :: gval
  ex_created_at :: string

record message_row =
  ms_message_id :: string
  ms_draft_id :: string
  ms_role :: string
  ms_kind :: string
  ms_content :: string
  ms_context_refs :: gval
  ms_created_at :: string
  ms_rewound_at :: "string option"
  ms_rewind_checkpoint_id :: "string option"

record job_row =
  jb_job_id :: string
  jb_kind :: string
  jb_status :: string
  jb_draft_id :: "string option"
  jb_requested_by_draft_id :: "string option"
  jb_asset_id :: "string option"
  jb_idempotency_key :: string
  jb_payload :: gval
  jb_result :: "gval option"
  jb_error :: "gval option"
  jb_attempts :: goint
  jb_max_retries :: goint
  jb_next_run_at :: string
  jb_priority :: goint
  jb_progress :: "f64 option"
  jb_worker_id :: "string option"
  jb_heartbeat_at :: "string option"
  jb_created_at :: string
  jb_started_at :: "string option"
  jb_finished_at :: "string option"

record event_row =
  el_event_id :: goint
  el_event_type :: string
  el_actor :: actor
  el_draft_id :: "string option"
  el_payload :: event
  el_merge_key :: "string option"
  el_state_version :: "goint option"
  el_created_at :: string

record lease_row =
  le_draft_id :: string
  le_turn_id :: string
  le_lease_token :: string
  le_acquired_at :: string
  le_heartbeat_at :: string
  le_expires_at :: string

record context_row =
  cx_draft_id :: string
  cx_window_id :: string
  cx_window_number :: goint
  cx_history_version :: goint
  cx_base_snapshot :: gval
  cx_base_snapshot_hash :: string
  cx_summary :: string
  cx_compacted_through :: "string option"
  cx_created_at :: string
  cx_updated_at :: string

record checkpoint_row =
  ck_checkpoint_id :: string
  ck_draft_id :: string
  ck_trigger_kind :: string
  ck_anchor_message_id :: "string option"
  ck_anchor_turn_id :: "string option"
  ck_anchor_event_id :: goint
  ck_timeline_version :: "goint option"
  ck_patch_id :: "string option"
  ck_decision_boundary :: goint
  ck_job_boundary :: goint
  ck_summary :: string
  ck_clip_count :: goint
  ck_duration_frames :: goint
  ck_track_count :: goint
  ck_created_at :: string

record restore_row =
  rr_draft_id :: string
  rr_idempotency_key :: string
  rr_checkpoint_id :: string
  rr_mode :: string
  rr_new_message_id :: "string option"
  rr_timeline_version :: "goint option"
  rr_rewound_message_count :: goint
  rr_cancelled_jobs :: goint
  rr_cancelled_decisions :: goint
  rr_event_ids :: "goint list"
  rr_affected_memories :: "(string \<times> string) list"
  rr_created_at :: string

record turn_run_row =
  tr_turn_id :: string
  tr_draft_id :: string
  tr_source_item_id :: string
  tr_kind :: string
  tr_status :: string
  tr_started_at :: string
  tr_finished_at :: "string option"

record receipt_row =
  rc_invocation_key :: string
  rc_draft_id :: string
  rc_source_message_id :: string
  rc_turn_id :: string
  rc_tool_call_id :: string
  rc_tool_name :: string
  rc_argument_fingerprint :: string
  rc_before_timeline_id :: "string option"
  rc_before_version :: goint
  rc_after_timeline_id :: string
  rc_after_version :: goint
  rc_terminal_status :: string
  rc_result :: string
  rc_created_at :: string

record transcript_row =
  tn_transcript_id :: string
  tn_asset_id :: string
  tn_provider_id :: string
  tn_raw_preserved :: bool
  tn_utterances :: gval
  tn_vad_segments :: gval

record analysis_row =
  an_analysis_id :: string
  an_asset_content_hash :: string
  an_analysis_type :: string
  an_analyzer_version :: string
  an_normalized_options :: string
  an_output_schema_version :: goint
  an_result :: gval
  an_created_at :: string

record snapshot_row =
  sn_index_snapshot_id :: string
  sn_asset_content_hash :: string
  sn_generation :: goint
  sn_analyzer_version :: string
  sn_output_schema_version :: goint
  sn_source_asset_id :: "string option"
  sn_status :: string
  sn_summary :: gval
  sn_created_at :: string
  sn_published_at :: string

text \<open>
  A shot as it is handed in, and its row.  The representative frames and the quality are objects;
  a \<open>nil\<close> list of texts, stored as \<open>null\<close>, reads back like an empty one.
\<close>

record shot_input =
  sh_ID :: string
  sh_AssetContentHash :: string
  sh_SourceStartFrame :: goint
  sh_SourceEndFrame :: goint
  sh_BoundaryVersion :: goint
  sh_BoundaryKind :: string
  sh_BoundaryConfidence :: "f64 option"
  sh_LineageParentShotID :: "string option"
  sh_RepresentativeFrames :: "gmap list"
  sh_SemanticName :: string
  sh_Description :: string
  sh_Tags :: "string list"
  sh_Subjects :: "string list"
  sh_Actions :: "string list"
  sh_Setting :: "string list"
  sh_ShotScale :: string
  sh_Composition :: string
  sh_Lighting :: "string list"
  sh_Mood :: "string list"
  sh_EditHints :: "string list"
  sh_Quality :: "gmap option"
  sh_SearchText :: string
  sh_SearchTokens :: "string list"
  sh_DeepCoverage :: "string list"

record shot_row = shot_input +
  sh_index_snapshot_id :: string
  sh_created_at :: string

record memory_row =
  me_memory_key :: string
  me_kind :: string
  me_statement :: string
  me_evidence_kind :: string
  me_evidence_id :: string
  me_source_draft_id :: string
  me_created_at :: string
  me_last_confirmed_at :: string
  me_last_used_at :: "string option"
  me_manually_revised_at :: "string option"

section \<open>The database\<close>

record db =
  db_drafts :: "draft_row list"
  db_objects :: "object_row list"
  db_assets :: "asset_row list"
  db_links :: "link_row list"
  db_summaries :: "summary_row list"
  db_decisions :: "decision_row list"
  db_timelines :: "timeline_row list"
  db_edit_batches :: "edit_batch_row list"
  db_previews :: "preview_row list"
  db_exports :: "export_row list"
  db_messages :: "message_row list"
  db_jobs :: "job_row list"
  db_event_log :: "event_row list"
  db_event_seq :: goint
  db_leases :: "lease_row list"
  db_contexts :: "context_row list"
  db_checkpoints :: "checkpoint_row list"
  db_checkpoint_messages :: "(string \<times> string) list"
  db_restores :: "restore_row list"
  db_turn_runs :: "turn_run_row list"
  db_receipts :: "receipt_row list"
  db_transcripts :: "transcript_row list"
  db_analyses :: "analysis_row list"
  db_snapshots :: "snapshot_row list"
  db_shots :: "shot_row list"
  db_suppressions :: "(string \<times> string) list"
  db_memories :: "memory_row list"

section \<open>Statements\<close>

datatype apply_error =
    ErrJobCancelled
  | ErrJobNotCancellable
  | ErrJobClaimLost
  | ErrRewindRestoreDuplicate
  | ErrTimelineLockedByAgent
  | ErrAgentEditLeaseLost
  | ErrActor
  | ErrEvent event_error
  | ErrMissing string
  | ErrUnknownDraft string
  | ErrNoRows
  | ErrConstraint string
  | ErrInput string
  | ErrEncode
  | ErrPanic
  | ErrUserMemoryInput
  | ErrUserMemoryEvidence
  | ErrUserMemoryEvidenceQuoteMismatch
  | ErrDraftPlanConflict

text \<open>\<open>UPDATE ... WHERE\<close> and the number of rows it affects.\<close>

definition update_where :: "('r \<Rightarrow> bool) \<Rightarrow> ('r \<Rightarrow> 'r) \<Rightarrow> 'r list \<Rightarrow> 'r list" where
  "update_where P f rows = map (\<lambda>r. if P r then f r else r) rows"

definition rows_affected :: "('r \<Rightarrow> bool) \<Rightarrow> 'r list \<Rightarrow> nat" where
  "rows_affected P rows = length (filter P rows)"

definition insert_unique :: "('r \<Rightarrow> 'k) \<Rightarrow> string \<Rightarrow> 'r \<Rightarrow> 'r list \<Rightarrow> apply_error + 'r list" where
  "insert_unique key what row rows =
     (if key row \<in> key ` set rows then Inl (ErrConstraint what) else Inr (rows @ [row]))"

definition require :: "bool \<Rightarrow> apply_error \<Rightarrow> apply_error + unit" where
  "require b e = (if b then Inr () else Inl e)"

lemma require_Inr [simp]: "require b e = Inr u \<longleftrightarrow> b"
  by (simp add: require_def)

lemma insert_unique_Inr [simp]:
  "insert_unique key what row rows = Inr rows' \<longleftrightarrow> key row \<notin> key ` set rows \<and> rows' = rows @ [row]"
  by (auto simp: insert_unique_def)

text \<open>A foreign key: \<open>NULL\<close> refers to nothing.\<close>

definition refers :: "('r \<Rightarrow> string) \<Rightarrow> 'r list \<Rightarrow> string option \<Rightarrow> bool" where
  "refers key rows v = (case v of None \<Rightarrow> True | Some k \<Rightarrow> k \<in> key ` set rows)"

definition find_draft :: "string \<Rightarrow> db \<Rightarrow> draft_row option" where
  "find_draft d db = find (\<lambda>r. dr_draft_id r = d) (db_drafts db)"

definition find_job :: "string \<Rightarrow> db \<Rightarrow> job_row option" where
  "find_job j db = find (\<lambda>r. jb_job_id r = j) (db_jobs db)"

definition update_draft :: "string \<Rightarrow> (draft_row \<Rightarrow> draft_row) \<Rightarrow> db \<Rightarrow> db" where
  "update_draft d f db = db\<lparr>db_drafts := update_where (\<lambda>r. dr_draft_id r = d) f (db_drafts db)\<rparr>"

definition max_rowid :: "('r \<Rightarrow> goint) \<Rightarrow> 'r list \<Rightarrow> goint" where
  "max_rowid key rows = foldl (\<lambda>m r. max m (key r)) 0 rows"

end
