(* ===== verification/Reducer_State.thy ===== *)
theory Reducer_State
  imports Store_Tables
begin

text \<open>
  What every event handler of the reducer shares (\<open>reducer.go\<close>): the readers of dynamically typed
  payload values, the state threaded through a transaction, and the version bookkeeping \<open>version\<close>
  and \<open>touch\<close>.  A handler is a function from the state and the event to an error or the next
  state; an error aborts the transaction, so the state it leaves does not matter.
\<close>

section \<open>Payload readers\<close>

fun mapValue :: "gval \<Rightarrow> gmap" where
  "mapValue (GObj m) = m"
| "mapValue _ = []"

fun sliceValue :: "gval \<Rightarrow> gval list" where
  "sliceValue (GArr vs) = vs"
| "sliceValue _ = []"

fun stringFrom :: "gval \<Rightarrow> string \<Rightarrow> string" where
  "stringFrom (GStr s) fallback = (if s \<noteq> [] then s else fallback)"
| "stringFrom _ fallback = fallback"

fun intFrom :: "gval \<Rightarrow> goint \<Rightarrow> goint" where
  "intFrom (GInt n) fallback = n"
| "intFrom (GInt64 n) fallback = n"
| "intFrom (GFloat x) fallback = int_of_f x"
| "intFrom _ fallback = fallback"

text \<open>\<open>int\<close> and \<open>int64\<close> have the same width on the platforms the project builds for.\<close>

definition int64From :: "gval \<Rightarrow> goint \<Rightarrow> goint" where
  "int64From v fallback = intFrom v fallback"

fun boolFrom :: "gval \<Rightarrow> bool \<Rightarrow> bool" where
  "boolFrom (GBool b) fallback = b"
| "boolFrom _ fallback = fallback"

definition nullableText :: "string \<Rightarrow> string option" where
  "nullableText s = (if s = [] then None else Some s)"

fun nullableString :: "gval \<Rightarrow> string option" where
  "nullableString (GStr s) = nullableText s"
| "nullableString _ = None"

text \<open>Pointers to integers do not occur in the payloads the model builds.\<close>

fun nullableInt64 :: "gval \<Rightarrow> goint option" where
  "nullableInt64 (GInt n) = Some n"
| "nullableInt64 (GInt64 n) = Some n"
| "nullableInt64 (GFloat x) = Some (int_of_f x)"
| "nullableInt64 _ = None"

fun nullableFloat :: "gval \<Rightarrow> f64 option" where
  "nullableFloat (GFloat x) = Some x"
| "nullableFloat (GInt n) = Some (f_of_int n)"
| "nullableFloat _ = None"

text \<open>\<open>mustJSON\<close> panics on a value \<open>encoding/json\<close> refuses; the column holds the decoded text.\<close>

definition mustJSON :: "gval \<Rightarrow> apply_error + gval" where
  "mustJSON v = (if json_ok v then Inr (json_norm v) else Inl ErrPanic)"

definition nullableJSON :: "gval \<Rightarrow> apply_error + gval option" where
  "nullableJSON v = (if v = GNil then Inr None else bind_sum (mustJSON v) (\<lambda>j. Inr (Some j)))"

text \<open>SQL \<open>COALESCE\<close> of a parameter and a column.\<close>

definition coalesce_opt :: "'a option \<Rightarrow> 'a option \<Rightarrow> 'a option" where
  "coalesce_opt a b = (case a of None \<Rightarrow> b | Some v \<Rightarrow> Some v)"

lemma coalesce_opt_simps [simp]: "coalesce_opt None b = b" "coalesce_opt (Some v) b = Some v"
  by (simp_all add: coalesce_opt_def)

section \<open>The state of a transaction\<close>

record apply_state =
  st_db :: db
  st_createdAt :: string
  st_original :: "string \<rightharpoonup> goint"
  st_touched :: "string list"
  st_eventsToLog :: "event list"
  st_skipped :: nat
  st_affected :: "(string \<times> string) list option"

type_synonym handler = "apply_state \<Rightarrow> event \<Rightarrow> apply_error + apply_state"

definition lookupDraftVersion :: "db \<Rightarrow> string \<Rightarrow> apply_error + goint" where
  "lookupDraftVersion db d = (case find_draft d db of
     None \<Rightarrow> Inl (ErrUnknownDraft d) | Some r \<Rightarrow> Inr (dr_state_version r))"

text \<open>The version a draft had when the transaction first met it, remembered in the state.\<close>

definition st_version :: "apply_state \<Rightarrow> string \<Rightarrow> apply_error + (goint \<times> apply_state)" where
  "st_version st d = (case st_original st d of
     Some v \<Rightarrow> Inr (v, st)
   | None \<Rightarrow> bind_sum (lookupDraftVersion (st_db st) d)
       (\<lambda>v. Inr (v, st\<lparr>st_original := (st_original st)(d \<mapsto> v)\<rparr>)))"

definition touch :: "apply_state \<Rightarrow> string \<Rightarrow> apply_error + apply_state" where
  "touch st d = bind_sum (st_version st d)
     (\<lambda>(v, st). Inr (st\<lparr>st_touched := List.insert d (st_touched st)\<rparr>))"

definition with_db :: "(db \<Rightarrow> db) \<Rightarrow> apply_state \<Rightarrow> apply_state" where
  "with_db f st = st\<lparr>st_db := f (st_db st)\<rparr>"

lemma with_db_simps [simp]:
  "st_db (with_db f st) = f (st_db st)"
  "st_createdAt (with_db f st) = st_createdAt st"
  "st_original (with_db f st) = st_original st"
  "st_touched (with_db f st) = st_touched st"
  "st_eventsToLog (with_db f st) = st_eventsToLog st"
  "st_skipped (with_db f st) = st_skipped st"
  "st_affected (with_db f st) = st_affected st"
  by (simp_all add: with_db_def)

definition ensureObject :: "string \<Rightarrow> string \<Rightarrow> goint \<Rightarrow> db \<Rightarrow> db" where
  "ensureObject createdAt h sz db =
     (if h \<in> ob_hash ` set (db_objects db) then db
      else let relPath = (if length h = 64 then take 2 h @ ''/'' @ take 2 (drop 2 h) @ ''/'' @ h
                          else ''objects/'' @ h)
           in db\<lparr>db_objects := db_objects db @
                [\<lparr>ob_hash = h, ob_rel_path = relPath, ob_size = sz, ob_created_at = createdAt\<rparr>]\<rparr>)"

definition sortedKeys :: "string list \<Rightarrow> string list" where
  "sortedKeys ks = sort (remdups ks)"

end
