(* ===== verification/Reducer_Lease.thy ===== *)
theory Reducer_Lease
  imports Reducer_State
begin

text \<open>
  The lease that gives one agent turn exclusive ownership of a draft's timeline: the four mutations
  of the lease table (\<open>agent_edit_lease_rows.go\<close>, \<open>storage/agent_edit_leases.go\<close>) and the admission
  check of every write to a timeline pointer (\<open>timeline_write_admission.go\<close>).  The value of
  \<open>time.Now()\<close> is a parameter.
\<close>

section \<open>Mutations\<close>

datatype lease_operation =
    AgentEditLeaseAcquire | AgentEditLeaseRenew | AgentEditLeaseRelease | AgentEditLeaseExpireStale
  | OtherLeaseOperation

record lease_mutation =
  lm_Operation :: lease_operation
  lm_DraftID :: string
  lm_TurnID :: string
  lm_LeaseToken :: string
  lm_Now :: gotime
  lm_TTL :: duration

record lease_outcome =
  lo_Lease :: "lease_row option"
  lo_Released :: bool
  lo_ExpiredCount :: nat

definition editLeaseTimestamp :: "gotime \<Rightarrow> string" where
  "editLeaseTimestamp t = FixedNano (time_UTC t)"

definition mutation_now :: "gotime \<Rightarrow> lease_mutation \<Rightarrow> gotime" where
  "mutation_now clock m = (if time_IsZero (lm_Now m) then time_UTC clock else time_UTC (lm_Now m))"

definition identified :: "lease_mutation \<Rightarrow> bool" where
  "identified m \<longleftrightarrow> TrimSpace (lm_DraftID m) \<noteq> [] \<and> TrimSpace (lm_TurnID m) \<noteq> []
     \<and> TrimSpace (lm_LeaseToken m) \<noteq> []"

definition holds_lease :: "lease_mutation \<Rightarrow> lease_row \<Rightarrow> bool" where
  "holds_lease m l \<longleftrightarrow> le_draft_id l = lm_DraftID m \<and> le_turn_id l = lm_TurnID m
     \<and> le_lease_token l = lm_LeaseToken m"

definition acquire_lease :: "gotime \<Rightarrow> lease_mutation \<Rightarrow> db \<Rightarrow> apply_error + (lease_outcome \<times> db)" where
  "acquire_lease now m db = (
     let new = \<lparr>le_draft_id = lm_DraftID m, le_turn_id = lm_TurnID m, le_lease_token = lm_LeaseToken m,
           le_acquired_at = editLeaseTimestamp now, le_heartbeat_at = editLeaseTimestamp now,
           le_expires_at = editLeaseTimestamp (time_Add now (lm_TTL m))\<rparr>;
         outcome = \<lparr>lo_Lease = Some new, lo_Released = False, lo_ExpiredCount = 0\<rparr>
     in if list_ex (\<lambda>l. le_draft_id l \<noteq> lm_DraftID m \<and> le_lease_token l = lm_LeaseToken m) (db_leases db)
          then Inl (ErrConstraint ''lease_token'')
        else case find (\<lambda>l. le_draft_id l = lm_DraftID m) (db_leases db) of
          None \<Rightarrow> bind_sum (require (refers dr_draft_id (db_drafts db) (Some (lm_DraftID m)))
              (ErrConstraint ''drafts'')) (\<lambda>_. Inr (outcome, db\<lparr>db_leases := db_leases db @ [new]\<rparr>))
        | Some old \<Rightarrow> if le_expires_at old \<le> le_acquired_at new
            then Inr (outcome, db\<lparr>db_leases :=
              update_where (\<lambda>l. le_draft_id l = lm_DraftID m) (\<lambda>_. new) (db_leases db)\<rparr>)
            else Inl ErrTimelineLockedByAgent)"

definition renew_lease :: "gotime \<Rightarrow> lease_mutation \<Rightarrow> db \<Rightarrow> apply_error + (lease_outcome \<times> db)" where
  "renew_lease now m db = (
     let this = (\<lambda>l. holds_lease m l \<and> le_expires_at l > editLeaseTimestamp now);
         leases = update_where this (\<lambda>l. l\<lparr>le_heartbeat_at := editLeaseTimestamp now,
           le_expires_at := editLeaseTimestamp (time_Add now (lm_TTL m))\<rparr>) (db_leases db)
     in if rows_affected this (db_leases db) \<noteq> 1 then Inl ErrAgentEditLeaseLost
        else case find (\<lambda>l. le_draft_id l = lm_DraftID m) leases of
          None \<Rightarrow> Inl ErrNoRows
        | Some l \<Rightarrow> if le_turn_id l \<noteq> lm_TurnID m \<or> le_lease_token l \<noteq> lm_LeaseToken m
            then Inl ErrAgentEditLeaseLost
            else Inr (\<lparr>lo_Lease = Some l, lo_Released = False, lo_ExpiredCount = 0\<rparr>, db\<lparr>db_leases := leases\<rparr>))"

definition persistAgentEditLeaseMutation :: "gotime \<Rightarrow> lease_mutation \<Rightarrow> db \<Rightarrow> apply_error + (lease_outcome \<times> db)" where
  "persistAgentEditLeaseMutation clock m db = (let now = mutation_now clock m in
     case lm_Operation m of
       AgentEditLeaseAcquire \<Rightarrow>
         if \<not> identified m \<or> lm_TTL m \<le> 0 then Inl (ErrMissing ''acquire'') else acquire_lease now m db
     | AgentEditLeaseRenew \<Rightarrow>
         if \<not> identified m \<or> lm_TTL m \<le> 0 then Inl (ErrMissing ''renew'') else renew_lease now m db
     | AgentEditLeaseRelease \<Rightarrow>
         if \<not> identified m then Inl (ErrMissing ''release'')
         else Inr (\<lparr>lo_Lease = None, lo_Released = rows_affected (holds_lease m) (db_leases db) = 1,
             lo_ExpiredCount = 0\<rparr>, db\<lparr>db_leases := filter (\<lambda>l. \<not> holds_lease m l) (db_leases db)\<rparr>)
     | AgentEditLeaseExpireStale \<Rightarrow>
         (let stale = (\<lambda>l. le_expires_at l \<le> editLeaseTimestamp now) in
          Inr (\<lparr>lo_Lease = None, lo_Released = False, lo_ExpiredCount = rows_affected stale (db_leases db)\<rparr>,
            db\<lparr>db_leases := filter (\<lambda>l. \<not> stale l) (db_leases db)\<rparr>))
     | OtherLeaseOperation \<Rightarrow> Inl (ErrInput ''operation''))"

definition GetLiveAgentEditLease :: "db \<Rightarrow> string \<Rightarrow> gotime \<Rightarrow> lease_row option" where
  "GetLiveAgentEditLease db d now =
     find (\<lambda>l. le_draft_id l = d \<and> le_expires_at l > editLeaseTimestamp now) (db_leases db)"

section \<open>Admission of timeline writes\<close>

record write_admission =
  wa_Origin :: string
  wa_TurnID :: string
  wa_LeaseToken :: string
  wa_Now :: gotime

definition writes_pointer :: "event \<Rightarrow> bool" where
  "writes_pointer ev \<longleftrightarrow> ev_DraftID ev \<noteq> [] \<and>
     (ev_Type ev = ''TimelineVersionCreated'' \<or>
      ev_Type ev = ''TimelineVersionRestored'' \<and>
        (payload ev ''mode'' = GStr ''timeline'' \<or> payload ev ''mode'' = GStr ''both''))"

definition timelinePointerWriteDrafts :: "event list \<Rightarrow> string list" where
  "timelinePointerWriteDrafts evs = remdups (map ev_DraftID (filter writes_pointer evs))"

definition write_origin :: "actor \<Rightarrow> write_admission option \<Rightarrow> string" where
  "write_origin actor admission = (
     let origin = (case admission of None \<Rightarrow> [] | Some a \<Rightarrow> TrimSpace (wa_Origin a))
     in if origin \<noteq> [] then origin else if actor = ActorUser then ''manual'' else ''legacy'')"

definition admission_now :: "gotime \<Rightarrow> write_admission option \<Rightarrow> gotime" where
  "admission_now clock admission = (case admission of None \<Rightarrow> time_UTC clock
     | Some a \<Rightarrow> if time_IsZero (wa_Now a) then time_UTC clock else time_UTC (wa_Now a))"

definition admits_draft :: "db \<Rightarrow> gotime \<Rightarrow> string \<Rightarrow> write_admission option \<Rightarrow> string \<Rightarrow> apply_error option" where
  "admits_draft db now origin admission d = (case GetLiveAgentEditLease db d now of
       None \<Rightarrow> if origin = ''agent'' then Some ErrAgentEditLeaseLost else None
     | Some l \<Rightarrow> if origin \<noteq> ''agent'' then Some ErrTimelineLockedByAgent
         else case admission of None \<Rightarrow> Some ErrAgentEditLeaseLost
           | Some a \<Rightarrow> if le_turn_id l \<noteq> wa_TurnID a \<or> le_lease_token l \<noteq> wa_LeaseToken a
               then Some ErrAgentEditLeaseLost else None)"

text \<open>
  Go visits the drafts in the order of its map, which is not fixed; when several drafts are refused
  the error is one of theirs.  The model takes the first in the order of the events.
\<close>

definition validateTimelineWriteAdmission :: "gotime \<Rightarrow> db \<Rightarrow> event list \<Rightarrow> actor \<Rightarrow> write_admission option
  \<Rightarrow> apply_error option" where
  "validateTimelineWriteAdmission clock db evs actor admission = (
     let drafts = timelinePointerWriteDrafts evs;
         given = (case admission of None \<Rightarrow> [] | Some a \<Rightarrow> TrimSpace (wa_Origin a));
         claimed = (case admission of None \<Rightarrow> False | Some a \<Rightarrow> given = ''agent''
           \<and> TrimSpace (wa_TurnID a) \<noteq> [] \<and> TrimSpace (wa_LeaseToken a) \<noteq> []);
         origin = write_origin actor admission; now = admission_now clock admission
     in if drafts = [] then None
        else if actor = ActorAgent \<and> \<not> claimed then Some ErrAgentEditLeaseLost
        else if given = ''agent'' \<and> actor \<noteq> ActorAgent then Some ErrAgentEditLeaseLost
        else case List.map_filter (admits_draft db now origin admission) drafts of
               [] \<Rightarrow> None | e # _ \<Rightarrow> Some e)"

end
