(* ===== verification/Reducer_Drafts.thy ===== *)
theory Reducer_Drafts
  imports Reducer_State
begin

text \<open>
  The draft events of the reducer: creation, renaming, trashing, and copying a draft with its
  links, its current timeline, its previews and its exports.
\<close>

section \<open>Creation\<close>

definition new_draft :: "string \<Rightarrow> string \<Rightarrow> string \<Rightarrow> draft_row" where
  "new_draft d name createdAt =
     \<lparr>dr_draft_id = d, dr_name = name, dr_state_version = 0, dr_status = ''active'',
      dr_defaults = GObj [], dr_pending_decision_id = None, dr_running_jobs = [],
      dr_last_error = None, dr_brief = GObj [(''goal'', GStr [])], dr_content_plan = None,
      dr_timeline_current_version = None, dr_timeline_validated = False,
      dr_preview_current_id = None, dr_last_viewed_preview_id = None, dr_export_current_id = None,
      dr_messages_tail_ref = None, dr_created_at = createdAt, dr_updated_at = createdAt\<rparr>"

definition untitled :: string where
  "untitled = bytes [230, 156, 170, 229, 145, 189, 229, 144, 141, 232, 141, 137, 231, 168, 191]"

definition insert_draft :: "draft_row \<Rightarrow> db \<Rightarrow> apply_error + db" where
  "insert_draft r db = bind_sum (insert_unique dr_draft_id ''drafts'' r (db_drafts db))
     (\<lambda>rows. Inr (db\<lparr>db_drafts := rows\<rparr>))"

definition applyDraftCreated :: handler where
  "applyDraftCreated st ev = (
     let defaults = mapValue (payload ev ''defaults'');
         brief0 = mapValue (payload ev ''brief'');
         brief = (if brief0 = [] then [(''goal'', GStr (stringFrom (payload ev ''goal'') []))] else brief0);
         v = intFrom (payload ev ''state_version'') 0
     in bind_sum (mustJSON (GObj defaults)) (\<lambda>dj.
        bind_sum (mustJSON (GObj brief)) (\<lambda>bj.
        bind_sum (insert_draft
            ((new_draft (ev_DraftID ev) (stringFrom (payload ev ''name'') untitled) (st_createdAt st))
              \<lparr>dr_state_version := v, dr_status := stringFrom (payload ev ''status'') ''active'',
               dr_defaults := dj, dr_brief := bj\<rparr>) (st_db st)) (\<lambda>db.
        Inr (st\<lparr>st_db := db, st_original := (st_original st)(ev_DraftID ev \<mapsto> v)\<rparr>)))))"

section \<open>Copying\<close>

text \<open>
  The current timeline of the source, at most one row by the unique (draft, version), is copied
  under the new draft's identifiers.
\<close>

definition copied_document :: "string \<Rightarrow> string \<Rightarrow> gval \<Rightarrow> apply_error + gval" where
  "copied_document d timelineID v = (case v of
       GObj m \<Rightarrow> mustJSON (GObj (gput ''timeline_id'' (GStr timelineID) (gput ''draft_id'' (GStr d) m)))
     | GNil \<Rightarrow> mustJSON (GObj (gput ''timeline_id'' (GStr timelineID) (gput ''draft_id'' (GStr d) [])))
     | _ \<Rightarrow> Inl (ErrInput ''document_json''))"

definition timeline_name :: "string \<Rightarrow> goint \<Rightarrow> string" where
  "timeline_name d version = d @ '':v'' @ show_int version"

definition insert_timeline :: "timeline_row \<Rightarrow> db \<Rightarrow> apply_error + db" where
  "insert_timeline r db =
     bind_sum (insert_unique (\<lambda>t. (tl_draft_id t, tl_version t)) ''timeline_versions'' r (db_timelines db)) (\<lambda>rows.
     bind_sum (insert_unique tl_timeline_id ''timeline_versions'' r (db_timelines db)) (\<lambda>_.
     bind_sum (require (refers dr_draft_id (db_drafts db) (Some (tl_draft_id r))) (ErrConstraint ''drafts'')) (\<lambda>_.
     Inr (db\<lparr>db_timelines := rows\<rparr>))))"

definition current_timelines :: "db \<Rightarrow> string \<Rightarrow> timeline_row list" where
  "current_timelines db d = filter (\<lambda>t. tl_draft_id t = d \<and>
     (case find_draft d db of None \<Rightarrow> False | Some r \<Rightarrow> dr_timeline_current_version r = Some (tl_version t)))
     (db_timelines db)"

fun copy_timeline_rows :: "string \<Rightarrow> string \<Rightarrow> timeline_row list \<Rightarrow> db \<Rightarrow> apply_error + db" where
  "copy_timeline_rows createdAt d [] db = Inr db"
| "copy_timeline_rows createdAt d (t # ts) db =
     bind_sum (copied_document d (timeline_name d (tl_version t)) (tl_document t)) (\<lambda>doc.
     bind_sum (insert_timeline \<lparr>tl_timeline_id = timeline_name d (tl_version t), tl_draft_id = d,
        tl_version = tl_version t, tl_parent_version = None,
        tl_created_by_patch_id = tl_created_by_patch_id t, tl_document = doc,
        tl_validation_report = tl_validation_report t, tl_created_at = createdAt\<rparr> db) (\<lambda>db.
     copy_timeline_rows createdAt d ts db))"

definition copyDraftTimelines :: "apply_state \<Rightarrow> string \<Rightarrow> string \<Rightarrow> apply_error + apply_state" where
  "copyDraftTimelines st source target =
     bind_sum (copy_timeline_rows (st_createdAt st) target (current_timelines (st_db st) source) (st_db st))
       (\<lambda>db. Inr (st\<lparr>st_db := db\<rparr>))"

definition insert_preview :: "preview_row \<Rightarrow> db \<Rightarrow> apply_error + db" where
  "insert_preview r db =
     bind_sum (insert_unique pv_preview_id ''previews'' r (db_previews db)) (\<lambda>rows.
     bind_sum (require (refers dr_draft_id (db_drafts db) (Some (pv_draft_id r))
        \<and> refers ob_hash (db_objects db) (Some (pv_object_hash r))) (ErrConstraint ''previews'')) (\<lambda>_.
     Inr (db\<lparr>db_previews := rows\<rparr>)))"

definition insert_export :: "export_row \<Rightarrow> db \<Rightarrow> apply_error + db" where
  "insert_export r db =
     bind_sum (insert_unique ex_export_id ''exports'' r (db_exports db)) (\<lambda>rows.
     bind_sum (require (refers dr_draft_id (db_drafts db) (Some (ex_draft_id r))
        \<and> refers ob_hash (db_objects db) (Some (ex_object_hash r))) (ErrConstraint ''exports'')) (\<lambda>_.
     Inr (db\<lparr>db_exports := rows\<rparr>)))"

definition copied_id :: "string \<Rightarrow> string \<Rightarrow> string" where
  "copied_id target ident = target @ '':'' @ ident"

fun copy_preview_rows :: "string \<Rightarrow> string \<Rightarrow> preview_row list \<Rightarrow> db \<Rightarrow> apply_error + db" where
  "copy_preview_rows createdAt d [] db = Inr db"
| "copy_preview_rows createdAt d (p # ps) db =
     bind_sum (insert_preview (p\<lparr>pv_preview_id := copied_id d (pv_preview_id p), pv_draft_id := d,
       pv_created_at := createdAt\<rparr>) db) (\<lambda>db. copy_preview_rows createdAt d ps db)"

text \<open>The identifiers that were copied, as the Go map from the source's to the target's.\<close>

definition copyDraftPreviews :: "apply_state \<Rightarrow> string \<Rightarrow> string \<Rightarrow> apply_error + ((string \<times> string) list \<times> apply_state)" where
  "copyDraftPreviews st source target =
     (let ps = filter (\<lambda>p. pv_draft_id p = source) (db_previews (st_db st))
      in bind_sum (copy_preview_rows (st_createdAt st) target ps (st_db st))
        (\<lambda>db. Inr (map (\<lambda>p. (pv_preview_id p, copied_id target (pv_preview_id p))) ps, st\<lparr>st_db := db\<rparr>)))"

fun copy_export_rows :: "string \<Rightarrow> string \<Rightarrow> export_row list \<Rightarrow> db \<Rightarrow> apply_error + db" where
  "copy_export_rows createdAt d [] db = Inr db"
| "copy_export_rows createdAt d (x # xs) db =
     bind_sum (insert_export (x\<lparr>ex_export_id := copied_id d (ex_export_id x), ex_draft_id := d,
       ex_created_at := createdAt\<rparr>) db) (\<lambda>db. copy_export_rows createdAt d xs db)"

definition copyDraftExports :: "apply_state \<Rightarrow> string \<Rightarrow> string \<Rightarrow> apply_error + ((string \<times> string) list \<times> apply_state)" where
  "copyDraftExports st source target =
     (let xs = filter (\<lambda>x. ex_draft_id x = source) (db_exports (st_db st))
      in bind_sum (copy_export_rows (st_createdAt st) target xs (st_db st))
        (\<lambda>db. Inr (map (\<lambda>x. (ex_export_id x, copied_id target (ex_export_id x))) xs, st\<lparr>st_db := db\<rparr>)))"

definition copiedReference :: "string option \<Rightarrow> (string \<times> string) list \<Rightarrow> string option" where
  "copiedReference source identifiers = (case source of None \<Rightarrow> None
     | Some ident \<Rightarrow> (case map_of identifiers ident of None \<Rightarrow> None | Some t \<Rightarrow> nullableText t))"

definition copy_links :: "string \<Rightarrow> string \<Rightarrow> string \<Rightarrow> db \<Rightarrow> apply_error + db" where
  "copy_links createdAt source target db = (
     let links = filter (\<lambda>l. li_draft_id l = source) (db_links db);
         taken = map li_asset_id (filter (\<lambda>l. li_draft_id l = target) (db_links db))
     in if list_ex (\<lambda>l. li_asset_id l \<in> set taken) links then Inl (ErrConstraint ''draft_asset_links'')
        else Inr (db\<lparr>db_links := db_links db @
          map (\<lambda>l. l\<lparr>li_draft_id := target, li_linked_at := createdAt\<rparr>) links\<rparr>))"

definition applyDraftCopied :: handler where
  "applyDraftCopied st ev = (
     let source = stringFrom (payload ev ''source_draft_id'') []; d = ev_DraftID ev
     in if source = [] then Inl (ErrMissing ''source_draft_id'')
        else case find_draft source (st_db st) of None \<Rightarrow> Inl (ErrUnknownDraft source) | Some src \<Rightarrow>
          bind_sum (insert_draft
            ((new_draft d (stringFrom (payload ev ''name'') (dr_name src @ '' Copy'')) (st_createdAt st))
              \<lparr>dr_defaults := dr_defaults src, dr_brief := dr_brief src, dr_content_plan := dr_content_plan src,
               dr_timeline_current_version := dr_timeline_current_version src,
               dr_timeline_validated := dr_timeline_validated src\<rparr>) (st_db st)) (\<lambda>db.
          bind_sum (copy_links (st_createdAt st) source d db) (\<lambda>db.
          bind_sum (copyDraftTimelines
            (st\<lparr>st_db := db, st_original := (st_original st)(d \<mapsto> 0)\<rparr>) source d) (\<lambda>st.
          bind_sum (copyDraftPreviews st source d) (\<lambda>(previews, st).
          bind_sum (copyDraftExports st source d) (\<lambda>(exports, st).
          Inr (with_db (update_draft d (\<lambda>r. r
            \<lparr>dr_preview_current_id := copiedReference (dr_preview_current_id src) previews,
             dr_last_viewed_preview_id := copiedReference (dr_last_viewed_preview_id src) previews,
             dr_export_current_id := copiedReference (dr_export_current_id src) exports\<rparr>)) st)))))))"

section \<open>Lifecycle\<close>

definition applyDraftLifecycle :: handler where
  "applyDraftLifecycle st ev =
     (if ev_Type ev = ''DraftCopied'' then applyDraftCopied st ev
      else bind_sum (touch st (ev_DraftID ev)) (\<lambda>st.
        if ev_Type ev = ''DraftRenamed'' then
          Inr (with_db (update_draft (ev_DraftID ev)
            (\<lambda>r. r\<lparr>dr_name := stringFrom (payload ev ''name'') untitled\<rparr>)) st)
        else if ev_Type ev = ''DraftTrashed'' then
          Inr (with_db (update_draft (ev_DraftID ev) (\<lambda>r. r\<lparr>dr_status := ''trashed''\<rparr>)) st)
        else Inl (ErrInput (ev_Type ev))))"

end
