(* ===== verification/Reducer_Timeline.thy ===== *)
theory Reducer_Timeline
  imports Reducer_Drafts
begin

text \<open>
  The decision, conversation and timeline events of the reducer: asking and answering decisions,
  clearing the conversation context, storing a new timeline version with its edit batch, recording
  validation results, and attaching rendered previews and exports.
\<close>

section \<open>Decisions\<close>

definition insert_decision :: "decision_row \<Rightarrow> db \<Rightarrow> apply_error + db" where
  "insert_decision r db =
     bind_sum (insert_unique de_decision_id ''decisions''
       (r\<lparr>de_rowid := max_rowid de_rowid (db_decisions db) + 1\<rparr>) (db_decisions db)) (\<lambda>rows.
     bind_sum (require (refers dr_draft_id (db_drafts db) (de_draft_id r)) (ErrConstraint ''decisions'')) (\<lambda>_.
     Inr (db\<lparr>db_decisions := rows\<rparr>)))"

definition applyDecisionCreated :: handler where
  "applyDecisionCreated st ev = (
     let ident = stringFrom (payload ev ''decision_id'') [];
         scope = stringFrom (payload ev ''scope_type'') ''draft'';
         blocking = boolFrom (payload ev ''blocking'') (scope = ''draft'')
     in if ident = [] then Inl (ErrMissing ''decision_id'') else
        bind_sum (mustJSON (GArr (sliceValue (payload ev ''options'')))) (\<lambda>options.
        bind_sum (nullableJSON (payload ev ''pending_tool_call'')) (\<lambda>pending.
        bind_sum (insert_decision \<lparr>de_decision_id = ident, de_rowid = 0, de_scope_type = scope,
            de_draft_id = nullableText (ev_DraftID ev),
            de_type = stringFrom (payload ev ''type'') ''generic'',
            de_question = stringFrom (payload ev ''question'') [],
            de_options = options,
            de_allow_free_text = boolFrom (payload ev ''allow_free_text'') True,
            de_status = stringFrom (payload ev ''status'') ''pending'',
            de_answer = None, de_pending_tool_call = pending,
            de_pending_tool_call_status = nullableString (payload ev ''pending_tool_call_status''),
            de_consumed_at = None, de_replayed_tool_call_id = None, de_blocking = blocking,
            de_created_by_tool_call_id = nullableString (payload ev ''created_by_tool_call_id'')\<rparr>
            (st_db st)) (\<lambda>db.
        if scope \<noteq> ''draft'' \<or> \<not> blocking then Inr (st\<lparr>st_db := db\<rparr>)
        else bind_sum (touch (st\<lparr>st_db := db\<rparr>) (ev_DraftID ev)) (\<lambda>st.
          Inr (with_db (update_draft (ev_DraftID ev) (\<lambda>r. r\<lparr>dr_pending_decision_id := Some ident\<rparr>)) st))))))"

definition answers :: "string \<Rightarrow> string \<Rightarrow> decision_row \<Rightarrow> bool" where
  "answers ident draftID r \<longleftrightarrow> de_decision_id r = ident \<and> de_status r = ''pending'' \<and>
     (draftID = [] \<or> de_scope_type r = ''draft'' \<and> de_draft_id r = nullableText draftID)"

definition applyDecisionAnswered :: handler where
  "applyDecisionAnswered st ev = (
     let ident = stringFrom (payload ev ''decision_id'') [];
         answer = (if payload ev ''answer'' = GNil
           then GObj [(''option_id'', payload ev ''option_id''), (''free_text'', payload ev ''free_text''),
             (''answered_via'', GStr (stringFrom (payload ev ''answered_via'') ''button''))]
           else payload ev ''answer'');
         this = answers ident (ev_DraftID ev); db = st_db st
     in bind_sum (mustJSON answer) (\<lambda>json.
        if rows_affected this (db_decisions db) \<noteq> 1 then Inl (ErrInput ''decision_id'') else
        let st = st\<lparr>st_db := db\<lparr>db_decisions := update_where this (\<lambda>r. r\<lparr>de_status := ''answered'',
              de_answer := Some json,
              de_pending_tool_call_status := (if de_pending_tool_call r = None
                then de_pending_tool_call_status r else Some ''replayed''),
              de_consumed_at := coalesce_opt (nullableString (payload ev ''consumed_at'')) (de_consumed_at r),
              de_replayed_tool_call_id := coalesce_opt (nullableString (payload ev ''replayed_tool_call_id''))
                (de_replayed_tool_call_id r)\<rparr>) (db_decisions db)\<rparr>\<rparr>
        in if ev_DraftID ev = [] then Inr st
           else bind_sum (touch st (ev_DraftID ev)) (\<lambda>st.
             Inr (with_db (update_draft (ev_DraftID ev) (\<lambda>r. if dr_pending_decision_id r = Some ident
               then r\<lparr>dr_pending_decision_id := None\<rparr> else r)) st))))"

definition cancel_decision :: "decision_row \<Rightarrow> decision_row" where
  "cancel_decision r = r\<lparr>de_status := ''cancelled'',
     de_pending_tool_call_status :=
       (if de_pending_tool_call r = None \<or> de_pending_tool_call r = Some GNil
        then de_pending_tool_call_status r else Some ''discarded'')\<rparr>"

definition applyConversationContextCleared :: handler where
  "applyConversationContextCleared st ev = (
     let m = stringFrom (payload ev ''message_id'') []; d = ev_DraftID ev
     in if m = [] then Inl (ErrMissing ''message_id'') else
        bind_sum (touch st d) (\<lambda>st. Inr (with_db (\<lambda>db.
          update_draft d (\<lambda>r. r\<lparr>dr_messages_tail_ref := Some m, dr_pending_decision_id := None\<rparr>)
            (db\<lparr>db_decisions := update_where (\<lambda>r. de_draft_id r = Some d \<and> de_status r = ''pending'')
                  cancel_decision (db_decisions db),
                db_contexts := filter (\<lambda>c. cx_draft_id c \<noteq> d) (db_contexts db)\<rparr>)) st)))"

section \<open>Timeline versions\<close>

definition empty_track_value :: "string \<Rightarrow> string \<Rightarrow> gval" where
  "empty_track_value ident kind =
     GObj [(''track_id'', GStr ident), (''track_type'', GStr kind), (''clips'', GArr [])]"

definition emptyTimeline :: "string \<Rightarrow> goint \<Rightarrow> gmap" where
  "emptyTimeline d version =
     [(''timeline_id'', GStr (timeline_name d version)), (''draft_id'', GStr d),
      (''version'', GInt version), (''fps'', GInt 30), (''duration_frames'', GInt 1),
      (''tracks'', GArr [empty_track_value ''visual_base'' ''primary_visual'',
        empty_track_value ''visual_overlay'' ''visual_overlay'', empty_track_value ''original_audio'' ''audio'',
        empty_track_value ''voiceover'' ''audio'', empty_track_value ''bgm'' ''audio'',
        empty_track_value ''subtitles'' ''text''])]"

text \<open>The references an edit touches, wherever they occur in the operations.\<close>

definition ref_name :: "string \<Rightarrow> string option" where
  "ref_name key =
     (if key \<in> {''timeline_clip_id'', ''track_id'', ''asset_id'', ''parent_block_id''} then Some key
      else if key \<in> {''kept_timeline_clip_id'', ''removed_timeline_clip_id''} then Some ''timeline_clip_id''
      else None)"

fun collect_refs :: "gval \<Rightarrow> string list" where
  "collect_refs (GObj m) = concat (map (\<lambda>(key, item). case ref_name key of
       Some name \<Rightarrow> (case item of GStr ref \<Rightarrow>
           if TrimSpace ref \<noteq> [] then [name @ '':'' @ ref] else [] | _ \<Rightarrow> [])
     | None \<Rightarrow> collect_refs item) m)"
| "collect_refs (GArr vs) = concat (map collect_refs vs)"
| "collect_refs _ = []"

definition timelineEditAffectedRefs :: "gval list \<Rightarrow> string list" where
  "timelineEditAffectedRefs operations = sortedKeys (collect_refs (GArr operations))"

definition edit_batch_limit :: nat where
  "edit_batch_limit = 20"

text \<open>The last rows of a list that satisfy a predicate, and all that do not.\<close>

fun keep_last :: "('r \<Rightarrow> bool) \<Rightarrow> nat \<Rightarrow> 'r list \<Rightarrow> 'r list" where
  "keep_last P n [] = []"
| "keep_last P n (r # rs) =
     (if P r \<and> n \<le> rows_affected P rs then keep_last P n rs else r # keep_last P n rs)"

definition insert_edit_batch :: "edit_batch_row \<Rightarrow> db \<Rightarrow> apply_error + db" where
  "insert_edit_batch r db =
     bind_sum (insert_unique eb_edit_batch_id ''timeline_edit_batches'' r (db_edit_batches db)) (\<lambda>rows.
     bind_sum (require (refers dr_draft_id (db_drafts db) (Some (eb_draft_id r))) (ErrConstraint ''drafts'')) (\<lambda>_.
     Inr (db\<lparr>db_edit_batches := keep_last (\<lambda>b. eb_draft_id b = eb_draft_id r) edit_batch_limit rows\<rparr>)))"

definition record_edit_batch :: "apply_state \<Rightarrow> event \<Rightarrow> goint \<Rightarrow> goint option \<Rightarrow> db \<Rightarrow> apply_error + db" where
  "record_edit_batch st ev version currentVersion db = (
     let operations = sliceValue (payload ev ''edit_operations'');
         batchID = stringFrom (payload ev ''patch_id'') []
     in if operations = [] then Inr db
        else if batchID = [] then Inl (ErrMissing ''patch_id'')
        else bind_sum (mustJSON (GArr operations)) (\<lambda>ops.
          insert_edit_batch \<lparr>eb_edit_batch_id = batchID, eb_draft_id = ev_DraftID ev,
            eb_actor = ev_Actor ev, eb_origin = stringFrom (payload ev ''edit_origin'') ''agent'',
            eb_operations = ops,
            eb_before_version = (case currentVersion of None \<Rightarrow> 0 | Some v \<Rightarrow> v),
            eb_after_version = version,
            eb_affected_refs = timelineEditAffectedRefs operations,
            eb_created_at = st_createdAt st\<rparr> db))"

definition applyTimelineCreated :: handler where
  "applyTimelineCreated st ev = (
     let d = ev_DraftID ev; version = intFrom (payload ev ''timeline_version'') 0;
         doc0 = mapValue (payload ev ''document_json'');
         doc1 = (if doc0 = [] then mapValue (payload ev ''timeline'') else doc0);
         document = (if doc1 = [] then emptyTimeline d version else doc1)
     in if version < 1 then Inl (ErrMissing ''timeline_version'')
        else case find_draft d (st_db st) of None \<Rightarrow> Inl ErrNoRows | Some draft \<Rightarrow>
          let current = dr_timeline_current_version draft;
              parent = coalesce_opt (nullableInt64 (payload ev ''parent_version'')) current
          in bind_sum (mustJSON (GObj document)) (\<lambda>doc.
             bind_sum (nullableJSON (payload ev ''validation_report'')) (\<lambda>report.
             bind_sum (insert_timeline \<lparr>
                tl_timeline_id = stringFrom (payload ev ''timeline_id'') (timeline_name d version),
                tl_draft_id = d, tl_version = version, tl_parent_version = parent,
                tl_created_by_patch_id = nullableString (payload ev ''patch_id''),
                tl_document = doc, tl_validation_report = report,
                tl_created_at = st_createdAt st\<rparr> (st_db st)) (\<lambda>db.
             bind_sum (record_edit_batch st ev version current db) (\<lambda>db.
             bind_sum (touch (st\<lparr>st_db := db\<rparr>) d) (\<lambda>st.
             Inr (with_db (update_draft d (\<lambda>r. r\<lparr>dr_timeline_current_version := Some version,
                dr_timeline_validated := False\<rparr>)) st)))))))"

definition applyTimelineValidation :: handler where
  "applyTimelineValidation st ev = (
     let d = ev_DraftID ev; version = intFrom (payload ev ''timeline_version'') 0;
         valid = (ev_Type ev = ''TimelineValidated'');
         report = (if payload ev ''validation_report'' = GNil
           then GObj [(''valid'', GBool valid), (''checks'', GArr [])] else payload ev ''validation_report'')
     in bind_sum (mustJSON report) (\<lambda>json.
        bind_sum (touch (with_db (\<lambda>db. db\<lparr>db_timelines := update_where
            (\<lambda>t. tl_draft_id t = d \<and> tl_version t = version)
            (\<lambda>t. t\<lparr>tl_validation_report := Some json\<rparr>) (db_timelines db)\<rparr>) st) d) (\<lambda>st.
        Inr (with_db (update_draft d (\<lambda>r. if dr_timeline_current_version r = Some version
          then r\<lparr>dr_timeline_validated := valid\<rparr> else r)) st))))"

section \<open>Previews and exports\<close>

definition applyPreviewRendered :: handler where
  "applyPreviewRendered st ev = (
     let d = ev_DraftID ev; ident = stringFrom (payload ev ''artifact_id'') [];
         h = stringFrom (payload ev ''object_hash'') [];
         version = intFrom (payload ev ''timeline_version'') 0
     in if ident = [] \<or> h = [] \<or> version < 1 then Inl (ErrMissing ''artifact_id'') else
        bind_sum (mustJSON (GObj (mapValue (payload ev ''quality'')))) (\<lambda>quality.
        bind_sum (insert_preview \<lparr>pv_preview_id = ident, pv_draft_id = d, pv_timeline_version = version,
            pv_object_hash = h, pv_quality = quality,
            pv_render_width = nullableInt64 (payload ev ''render_width''),
            pv_render_height = nullableInt64 (payload ev ''render_height''),
            pv_render_fps = nullableFloat (payload ev ''render_fps''),
            pv_expected_duration_sec = nullableFloat (payload ev ''expected_duration_sec''),
            pv_created_at = st_createdAt st\<rparr>
            (ensureObject (st_createdAt st) h (int64From (payload ev ''object_size'') 0) (st_db st))) (\<lambda>db.
        bind_sum (touch (st\<lparr>st_db := db\<rparr>) d) (\<lambda>st.
        Inr (with_db (update_draft d (\<lambda>r. if dr_timeline_current_version r = Some version
          then r\<lparr>dr_preview_current_id := Some ident\<rparr> else r)) st)))))"

definition applyPreviewViewed :: handler where
  "applyPreviewViewed st ev = (
     let d = ev_DraftID ev; ident = stringFrom (payload ev ''preview_id'') []
     in if \<not> list_ex (\<lambda>p. pv_preview_id p = ident \<and> pv_draft_id p = d) (db_previews (st_db st))
        then Inl ErrNoRows
        else bind_sum (touch st d) (\<lambda>st.
          Inr (with_db (update_draft d (\<lambda>r. r\<lparr>dr_last_viewed_preview_id := Some ident\<rparr>)) st)))"

definition applyExportCompleted :: handler where
  "applyExportCompleted st ev = (
     let d = ev_DraftID ev; ident = stringFrom (payload ev ''artifact_id'') [];
         h = stringFrom (payload ev ''object_hash'') [];
         version = intFrom (payload ev ''timeline_version'') 0
     in if ident = [] \<or> h = [] \<or> version < 1 then Inl (ErrMissing ''artifact_id'') else
        bind_sum (mustJSON (GObj (mapValue (payload ev ''quality'')))) (\<lambda>quality.
        bind_sum (insert_export \<lparr>ex_export_id = ident, ex_draft_id = d, ex_timeline_version = version,
            ex_object_hash = h, ex_quality = quality, ex_created_at = st_createdAt st\<rparr>
            (ensureObject (st_createdAt st) h (int64From (payload ev ''object_size'') 0) (st_db st))) (\<lambda>db.
        bind_sum (touch (st\<lparr>st_db := db\<rparr>) d) (\<lambda>st.
        Inr (with_db (update_draft d (\<lambda>r. if dr_timeline_current_version r = Some version
          then r\<lparr>dr_export_current_id := Some ident\<rparr> else r)) st)))))"

end
