(* ===== verification/GoUtf8.thy ===== *)
theory GoUtf8
  imports Rushes_Prelude
begin

text \<open>
  Go strings as sequences of runes: \<open>utf8.RuneCountInString\<close> and the conversion to \<open>[]rune\<close> and
  back.  A byte that begins no valid encoding is one rune, the replacement character.
\<close>

definition byte :: "char \<Rightarrow> nat" where
  "byte c = of_char c"

definition continuation :: "char \<Rightarrow> bool" where
  "continuation c \<longleftrightarrow> 128 \<le> byte c \<and> byte c \<le> 191"

text \<open>The width of the rune a string begins with, or 0 when its first byte begins none.\<close>

definition rune_width :: "string \<Rightarrow> nat" where
  "rune_width s = (case s of [] \<Rightarrow> 0 | c # cs \<Rightarrow>
     let b = byte c; c1 = (case cs of [] \<Rightarrow> 0 | x # _ \<Rightarrow> byte x);
         tail = (\<lambda>n. length (takeWhile continuation (take n cs)) = n)
     in if b < 128 then 1
        else if 194 \<le> b \<and> b \<le> 223 \<and> tail 1 then 2
        else if 224 \<le> b \<and> b \<le> 239 \<and> tail 2 \<and> (b = 224 \<longrightarrow> 160 \<le> c1) \<and> (b = 237 \<longrightarrow> c1 \<le> 159) then 3
        else if 240 \<le> b \<and> b \<le> 244 \<and> tail 3 \<and> (b = 240 \<longrightarrow> 144 \<le> c1) \<and> (b = 244 \<longrightarrow> c1 \<le> 143) then 4
        else 0)"

definition rune_error :: string where
  "rune_error = bytes [239, 191, 189]"

function runes :: "string \<Rightarrow> string list" where
  "runes s = (if s = [] then [] else let w = rune_width s in
     if w = 0 then rune_error # runes (drop 1 s) else take w s # runes (drop w s))"
  by pat_completeness auto
termination by (relation "measure length") auto

declare runes.simps [simp del]

definition RuneCount :: "string \<Rightarrow> nat" where
  "RuneCount s = length (runes s)"

lemma runes_Nil [simp]: "runes [] = []"
  by (simp add: runes.simps)

end
