(* ===== verification/GoTimeParse.thy ===== *)
theory GoTimeParse
  imports GoTime GoFormat
begin

text \<open>
  \<open>time.Parse(time.RFC3339Nano, s)\<close>.  The parser is more liberal than the printer: the hour may have
  one digit, the fraction any number of digits after a point or a comma, and an offset may reach 24
  hours and 60 minutes.  What the printer writes reads back as the same instant.
\<close>

section \<open>Dates\<close>

definition leap_year :: "int \<Rightarrow> bool" where
  "leap_year y \<longleftrightarrow> y mod 4 = 0 \<and> (y mod 100 \<noteq> 0 \<or> y mod 400 = 0)"

definition daysIn :: "int \<Rightarrow> int \<Rightarrow> int" where
  "daysIn m y = (if m = 2 then (if leap_year y then 29 else 28)
     else if m \<in> {4, 6, 9, 11} then 30 else 31)"

text \<open>Days since 1970, from year, month (January is 1) and day.\<close>

definition days_of_date :: "int \<Rightarrow> int \<Rightarrow> int \<Rightarrow> int" where
  "days_of_date y m d = (let y' = (if m > 2 then y else y - 1); mp = (if m > 2 then m - 3 else m + 9)
     in year_start y' + (153 * mp + 2) div 5 + d - 1 - 719468)"

section \<open>Parsing\<close>

definition literal :: "string \<Rightarrow> string \<Rightarrow> string option" where
  "literal p s = (if prefix p s then Some (drop (length p) s) else None)"

text \<open>A number of exactly \<open>n\<close> digits; the hour may be a single digit.\<close>

definition fixed_digits :: "nat \<Rightarrow> string \<Rightarrow> (nat \<times> string) option" where
  "fixed_digits n s = (if length s < n then None
     else map_option (\<lambda>v. (v, drop n s)) (parse_digits 0 (take n s)))"

definition hour_digits :: "string \<Rightarrow> (nat \<times> string) option" where
  "hour_digits s = (case fixed_digits 2 s of Some r \<Rightarrow> Some r | None \<Rightarrow> fixed_digits 1 s)"

definition is_digit :: "char \<Rightarrow> bool" where
  "is_digit c \<longleftrightarrow> digit_value c \<noteq> None"

text \<open>The nanoseconds of an optional fraction: digits after the ninth are dropped.\<close>

definition parse_fraction :: "string \<Rightarrow> (nat \<times> string) option" where
  "parse_fraction s = (case s of
     c # d # cs \<Rightarrow>
       if (c = CHR ''.'' \<or> c = CHR '','') \<and> is_digit d then
         (let ds = takeWhile is_digit (d # cs); kept = take 9 ds
          in map_option (\<lambda>v. (v * 10 ^ (9 - length kept), drop (length ds) (d # cs))) (parse_digits 0 kept))
       else Some (0, s)
   | _ \<Rightarrow> Some (0, s))"

definition parse_zone :: "string \<Rightarrow> (int \<times> string) option" where
  "parse_zone s = (case s of
     [] \<Rightarrow> None
   | c # cs \<Rightarrow>
       if c = CHR ''Z'' then Some (0, cs)
       else if c \<noteq> CHR ''+'' \<and> c \<noteq> CHR ''-'' then None
       else Option.bind (fixed_digits 2 cs) (\<lambda>(h, cs).
            Option.bind (literal '':'' cs) (\<lambda>cs.
            Option.bind (fixed_digits 2 cs) (\<lambda>(m, cs).
            if 24 < h \<or> 60 < m then None
            else Some ((if c = CHR ''-'' then - 1 else 1) * (int h * 60 + int m) * 60, cs)))))"

definition parse_date :: "string \<Rightarrow> ((nat \<times> nat \<times> nat) \<times> string) option" where
  "parse_date s = Option.bind (fixed_digits 4 s) (\<lambda>(y, s).
     Option.bind (literal ''-'' s) (\<lambda>s. Option.bind (fixed_digits 2 s) (\<lambda>(m, s).
     if m < 1 \<or> 12 < m then None else
     Option.bind (literal ''-'' s) (\<lambda>s. Option.bind (fixed_digits 2 s) (\<lambda>(d, s).
     Some ((y, m, d), s))))))"

definition parse_clock :: "string \<Rightarrow> (nat \<times> string) option" where
  "parse_clock s = Option.bind (hour_digits s) (\<lambda>(h, s). if 24 \<le> h then None else
     Option.bind (literal '':'' s) (\<lambda>s. Option.bind (fixed_digits 2 s) (\<lambda>(mi, s). if 60 \<le> mi then None else
     Option.bind (literal '':'' s) (\<lambda>s. Option.bind (fixed_digits 2 s) (\<lambda>(sec, s). if 60 \<le> sec then None else
     Some (h * 3600 + mi * 60 + sec, s))))))"

definition ParseRFC3339Nano :: "string \<Rightarrow> gotime option" where
  "ParseRFC3339Nano s = Option.bind (parse_date s) (\<lambda>((y, m, d), s).
     Option.bind (literal ''T'' s) (\<lambda>s. Option.bind (parse_clock s) (\<lambda>(c, s).
     Option.bind (parse_fraction s) (\<lambda>(ns, s). Option.bind (parse_zone s) (\<lambda>(z, s).
     if s \<noteq> [] \<or> d < 1 \<or> daysIn (int m) (int y) < int d then None
     else Some \<lparr>unix_ns = (days_of_date (int y) (int m) (int d) * 86400 + int c - z) * time_Second + int ns,
       zone_s = z\<rparr>)))))"

section \<open>Reading back a number\<close>

lemma is_digit_char [simp]: "d < 10 \<Longrightarrow> is_digit (digit_char d)"
  by (simp add: is_digit_def)

lemma parse_digits_acc: "parse_digits acc s = map_option (\<lambda>v. acc * 10 ^ length s + v) (parse_digits 0 s)"
proof (induction s arbitrary: acc)
  case (Cons c s)
  show ?case
  proof (cases "digit_value c")
    case (Some d)
    then show ?thesis
      using Cons.IH [of "10 * acc + d"] Cons.IH [of d] by (cases "parse_digits 0 s") (auto simp: algebra_simps)
  qed simp
qed simp

lemma parse_digits_pad: "parse_digits 0 (pad w n) = Some (n mod 10 ^ w)"
proof (induction w arbitrary: n)
  case (Suc w)
  have "10 * (n div 10 mod 10 ^ w) + n mod 10 = n mod (10 * 10 ^ w)" by (simp add: mod_mult2_eq)
  with Suc show ?case by (simp add: parse_digits_append)
qed simp

lemma fixed_digits_pad [simp]: "n < 10 ^ w \<Longrightarrow> fixed_digits w (pad w n @ s) = Some (n, s)"
  by (simp add: fixed_digits_def parse_digits_pad)

lemma literal_append [simp]: "literal p (p @ s) = Some s"
  by (simp add: literal_def)

lemma literal_char [simp]: "literal [c] (c # s) = Some s"
  by (simp add: literal_def)

section \<open>Dates read back\<close>

lemma div_Suc_mod:
  fixes y k :: int
  assumes "0 < k"
  shows "(y + 1) div k = y div k + (if (y + 1) mod k = 0 then 1 else 0)"
proof -
  define q r where "q = y div k" and "r = y mod k"
  have y: "y = k * q + r" "0 \<le> r" "r < k" using assms by (simp_all add: q_def r_def)
  show ?thesis
  proof (cases "r + 1 = k")
    case True
    then have "y + 1 = k * (q + 1)" using y(1) by (simp add: algebra_simps)
    then show ?thesis using assms by (simp add: q_def [symmetric])
  next
    case False
    then have "(y + 1) div k = q" "(y + 1) mod k = r + 1"
      using y by (auto intro: int_div_pos_eq [of _ _ _ "r + 1"] int_mod_pos_eq [of _ _ q])
    then show ?thesis using y(2) by (simp add: q_def [symmetric])
  qed
qed

lemma year_start_leap: "year_start (y + 1) = year_start y + (if leap_year (y + 1) then 366 else 365)"
proof -
  have "(y + 1) mod 400 = 0 \<Longrightarrow> (y + 1) mod 100 = 0" "(y + 1) mod 100 = 0 \<Longrightarrow> (y + 1) mod 4 = 0"
    by (auto simp: mod_eq_0_iff_dvd intro: dvd_trans [of 100 400] dvd_trans [of 4 100])
  moreover define p4 p100 p400 where "p4 \<longleftrightarrow> (y + 1) mod 4 = 0" and "p100 \<longleftrightarrow> (y + 1) mod 100 = 0"
    and "p400 \<longleftrightarrow> (y + 1) mod 400 = 0"
  ultimately have p: "p400 \<Longrightarrow> p100" "p100 \<Longrightarrow> p4" by simp_all
  have steps: "(y + 1) div 4 = y div 4 + (if p4 then 1 else 0)" "(y + 1) div 100 = y div 100 + (if p100 then 1 else 0)"
    "(y + 1) div 400 = y div 400 + (if p400 then 1 else 0)"
    unfolding p4_def p100_def p400_def by (rule div_Suc_mod, simp)+
  show ?thesis
    unfolding year_start_def leap_year_def steps p4_def [symmetric] p100_def [symmetric] p400_def [symmetric]
    using p by (cases p4; cases p100; cases p400) simp_all
qed

lemma era_split: "400 * e + y = y + 4 * (100 * e)" "400 * e + y = y + 100 * (4 * e)" "400 * e + y = y + 400 * e"
  for e y :: int by simp_all

lemma leap_year_era: "leap_year (400 * e + y) = leap_year y"
proof -
  have "(400 * e + y) mod 4 = y mod 4" unfolding era_split(1) by (rule mod_mult_self2)
  moreover have "(400 * e + y) mod 100 = y mod 100" unfolding era_split(2) by (rule mod_mult_self2)
  moreover have "(400 * e + y) mod 400 = y mod 400" unfolding era_split(3) by (rule mod_mult_self2)
  ultimately show ?thesis by (simp add: leap_year_def)
qed

lemma year_start_era:
  assumes "0 \<le> y" and "y < 400"
  shows "year_start (400 * e + y) = 146097 * e + year_start y"
proof -
  have "(400 * e + y) div 4 = 100 * e + y div 4" "(400 * e + y) div 100 = 4 * e + y div 100"
    "(400 * e + y) div 400 = e + y div 400"
    using div_mult_self2 [of 4 y "100 * e"] div_mult_self2 [of 100 y "4 * e"] div_mult_self2 [of 400 y e]
    by (simp_all add: add.commute mult.commute)
  then show ?thesis by (simp add: year_start_def)
qed

text \<open>The month and day of the day \<open>doy\<close> of a year that begins in March.\<close>

lemma march_month:
  fixes doy mp :: int
  assumes "0 \<le> doy" and "mp = (5 * doy + 2) div 153" and "mp \<le> 10"
  shows "doy - (153 * mp + 2) div 5 + 1 \<le> (if mp \<in> {1, 3, 6, 8} then 30 else 31)"
proof -
  have q: "153 * mp \<le> 5 * doy + 2" "5 * doy + 2 < 153 * mp + 153" using assms(2) by simp_all
  have "0 \<le> mp" using assms(1,2) by (simp add: pos_imp_zdiv_nonneg_iff)
  with assms(3) have "mp \<in> {0 .. 10}" by simp
  also have "{0 .. 10 :: int} = {0, 1, 2, 3, 4, 5, 6, 7, 8, 9, 10}" unfolding set_upto [symmetric] by (simp add: upto.simps)
  finally have "mp \<in> {0, 1, 2, 3, 4, 5, 6, 7, 8, 9, 10}" .
  then consider "mp = 0" | "mp = 1" | "mp = 2" | "mp = 3" | "mp = 4" | "mp = 5" | "mp = 6" | "mp = 7"
    | "mp = 8" | "mp = 9" | "mp = 10" by blast
  then show ?thesis using q by cases auto
qed

lemma civil_date_back:
  assumes "civil_date days = (y, m, d)"
  shows "days_of_date y m d = days" "d \<le> daysIn m y"
proof -
  define doe e where "doe = (days + 719468) mod 146097" and "e = (days + 719468) div 146097"
  define yoe where "yoe = year_of_era doe"
  define doy mp where "doy = doe - year_start yoe" and "mp = (5 * doy + 2) div 153"
  have days: "days + 719468 = 146097 * e + doe" by (simp add: doe_def e_def)
  have doe: "0 \<le> doe" "doe < 146097" by (simp_all add: doe_def)
  note yoe = year_of_era [OF doe, folded yoe_def]
  have doy: "0 \<le> doy" "doy < (if leap_year (yoe + 1) then 366 else 365)"
    using yoe year_start_leap [of yoe] by (auto simp: doy_def)
  then have mp: "0 \<le> mp" "mp \<le> 11" using month_of_year [of doy] by (auto simp: mp_def split: if_splits)
  have march: "march_date days = (400 * e + yoe, mp, doy - (153 * mp + 2) div 5 + 1)"
    unfolding march_date_def Let_def doe_def [symmetric] e_def [symmetric] yoe_def [symmetric]
      doy_def [symmetric] mp_def [symmetric] by (simp add: mult.commute)
  have "year_start (400 * e + yoe) + doy = days + 719468"
    using year_start_era [of yoe e] yoe days by (simp add: doy_def)
  then show "days_of_date y m d = days"
    using assms mp by (auto simp: civil_date_def march days_of_date_def Let_def split: if_splits)
  show "d \<le> daysIn m y"
  proof (cases "mp = 11")
    case True
    then have "y = 400 * e + (yoe + 1)" "m = 2" "d = doy - 336"
      using assms by (simp_all add: civil_date_def march)
    then show ?thesis using doy(2) leap_year_era [of e "yoe + 1"] by (auto simp: daysIn_def split: if_splits)
  next
    case False
    with mp have "mp \<le> 10" by simp
    from march_month [OF doy(1) mp_def this] mp False assms show ?thesis
      by (auto simp: civil_date_def march daysIn_def split: if_splits)
  qed
qed

section \<open>The round trip\<close>

lemma trim_fraction_split: "\<exists>n. s = trim_fraction s @ replicate n (digit_char 0)"
proof -
  have "rev s = takeWhile (\<lambda>c. c = digit_char 0) (rev s) @ dropWhile (\<lambda>c. c = digit_char 0) (rev s)" by simp
  moreover have "takeWhile (\<lambda>c. c = digit_char 0) (rev s)
      = replicate (length (takeWhile (\<lambda>c. c = digit_char 0) (rev s))) (digit_char 0)"
    by (intro replicate_eqI [symmetric, THEN sym]) (auto dest: set_takeWhileD)
  ultimately have "s = rev (dropWhile (\<lambda>c. c = digit_char 0) (rev s))
      @ rev (replicate (length (takeWhile (\<lambda>c. c = digit_char 0) (rev s))) (digit_char 0))"
    by (metis rev_append rev_rev_ident)
  then show ?thesis unfolding trim_fraction_def by (metis rev_replicate)
qed

lemma set_pad: "c \<in> set (pad w n) \<Longrightarrow> is_digit c"
  by (induction w arbitrary: n) auto

lemma parse_digits_zeros: "parse_digits acc (replicate n (digit_char 0)) = Some (acc * 10 ^ n)"
  by (induction n arbitrary: acc) (auto simp: mult.assoc)

text \<open>The digits the printer keeps of a fraction stand for it.\<close>

lemma parse_trimmed:
  assumes "n < 10 ^ 9" and "0 < n"
  shows "parse_fraction (CHR ''.'' # trim_fraction (pad 9 n) @ CHR ''Z'' # s) = Some (n, CHR ''Z'' # s)" (is ?Z)
    and "c = CHR ''+'' \<or> c = CHR ''-'' \<Longrightarrow>
      parse_fraction (CHR ''.'' # trim_fraction (pad 9 n) @ c # s) = Some (n, c # s)"
proof -
  obtain k where k: "pad 9 n = trim_fraction (pad 9 n) @ replicate k (digit_char 0)"
    using trim_fraction_split by blast
  define ds where "ds = trim_fraction (pad 9 n)"
  have len: "length ds + k = 9" using arg_cong [OF k, of length] by (simp add: ds_def)
  have digits: "\<forall>d \<in> set ds. is_digit d" using k set_pad unfolding ds_def by (metis Un_iff set_append)
  have "parse_digits 0 (ds @ replicate k (digit_char 0)) = Some n"
    using parse_digits_pad [of 9 n] assms(1) unfolding ds_def k [symmetric] by simp
  then obtain v where v: "parse_digits 0 ds = Some v" "v * 10 ^ k = n"
    by (auto simp: parse_digits_append parse_digits_zeros bind_eq_Some_conv)
  have "ds \<noteq> []" using v assms(2) by auto
  then obtain x xs where ds: "ds = x # xs" by (cases ds) auto
  have "parse_fraction (CHR ''.'' # ds @ c # s) = Some (n, c # s)" if "\<not> is_digit c" for c s
  proof -
    have "takeWhile is_digit (ds @ c # s) = ds" using digits that by (simp add: takeWhile_append2)
    then have tw: "takeWhile is_digit (x # xs @ c # s) = ds" by (simp only: ds append_Cons)
    have "drop (length ds) (x # xs @ c # s) = c # s" "take 9 ds = ds" "9 - length ds = k" "is_digit x"
      using len digits by (auto simp: ds)
    with tw v show ?thesis by (simp add: parse_fraction_def Let_def ds del: takeWhile.simps)
  qed
  moreover have "\<not> is_digit (CHR ''Z'')" "\<not> is_digit (CHR ''+'')" "\<not> is_digit (CHR ''-'')"
    by (simp_all add: is_digit_def digit_value_def)
  ultimately show ?Z
    and "c = CHR ''+'' \<or> c = CHR ''-'' \<Longrightarrow>
      parse_fraction (CHR ''.'' # trim_fraction (pad 9 n) @ c # s) = Some (n, c # s)"
    unfolding ds_def by auto
qed

lemma hour_digits_pad [simp]: "n < 100 \<Longrightarrow> hour_digits (pad 2 n @ s) = Some (n, s)"
  by (simp add: hour_digits_def)

lemma parse_date_shown:
  assumes "y < 10000" and "1 \<le> m" and "m \<le> 12" and "d < 100"
  shows "parse_date (pad 4 y @ ''-'' @ pad 2 m @ ''-'' @ pad 2 d @ s) = Some ((y, m, d), s)"
  unfolding parse_date_def using assms
  by (simp del: pad.simps append.simps(2) append_Cons)

lemma parse_clock_shown:
  assumes "0 \<le> r" and "r < 86400"
  shows "parse_clock (clock_text r @ s) = Some (nat r, s)"
proof -
  have h: "nat (r div 3600) < 24" and m: "nat (r div 60 mod 60) < 60" and x: "nat (r mod 60) < 60"
    using assms by (auto simp: nat_less_iff pos_imp_zdiv_nonneg_iff)
  have "r div 60 = 60 * (r div 3600) + r div 60 mod 60"
    using div_mult_mod_eq [of "r div 60" 60] zdiv_zmult2_eq [of 60 r 60] by simp
  moreover have "r = r div 60 * 60 + r mod 60" by simp
  ultimately have "r = r div 3600 * 3600 + r div 60 mod 60 * 60 + r mod 60" by linarith
  then have "nat r = nat (r div 3600 * 3600 + r div 60 mod 60 * 60 + r mod 60)" by simp
  also have "\<dots> = nat (r div 3600) * 3600 + nat (r div 60 mod 60) * 60 + nat (r mod 60)"
    using assms by (simp add: nat_add_distrib nat_mult_distrib pos_imp_zdiv_nonneg_iff)
  finally have "nat r = nat (r div 3600) * 3600 + nat (r div 60 mod 60) * 60 + nat (r mod 60)" .
  then show ?thesis
    unfolding parse_clock_def clock_text_def using h m x
    by (simp del: pad.simps append.simps(2) append_Cons)
qed

lemma show_zone_signed: "z \<noteq> 0 \<Longrightarrow> show_zone z = (if z < 0 then CHR ''-'' else CHR ''+'') #
    pad 2 (nat (\<bar>z\<bar> div 60 div 60)) @ CHR '':'' # pad 2 (nat (\<bar>z\<bar> div 60 mod 60)) @ []"
  by (simp add: show_zone_def Let_def del: pad.simps)

lemma parse_zone_shown:
  assumes "z mod 60 = 0" and "\<bar>z\<bar> < 86400"
  shows "parse_zone (show_zone z) = Some (z, [])"
proof (cases "z = 0")
  case False
  define a where "a = \<bar>z\<bar> div 60"
  have a: "0 \<le> a" "a < 1440" using assms(2) by (auto simp: a_def)
  have z: "\<bar>z\<bar> = a * 60" using assms(1) unfolding a_def
    by (metis abs_minus_cancel abs_of_nonneg abs_of_neg div_mult_mod_eq add.right_neutral linorder_not_le
        mod_minus_eq zmod_zminus1_not_zero)
  have h: "nat (a div 60) < 24" and m: "nat (a mod 60) < 60" using a by (auto simp: nat_less_iff)
  have "int (nat (a div 60)) * 60 + int (nat (a mod 60)) = a" using a by (simp add: pos_imp_zdiv_nonneg_iff)
  then show ?thesis
    using False h m z a unfolding show_zone_signed [OF False] parse_zone_def a_def [symmetric]
    by (cases "z < 0") (simp_all del: pad.simps append_Nil2)
qed (simp add: show_zone_def parse_zone_def)

lemma parse_RFC3339Nano:
  assumes "four_digit_year t" and "zone_s t mod 60 = 0" and "\<bar>zone_s t\<bar> < 86400"
  shows "ParseRFC3339Nano (RFC3339Nano t) = Some t"
proof -
  define s z n where "s = local_s t" and "z = zone_s t" and "n = nanos t"
  obtain y m d where D: "civil_date (s div 86400) = (y, m, d)" by (cases "civil_date (s div 86400)") auto
  note date = civil_date_bounds [OF D] civil_date_back [OF D]
  have y: "0 \<le> y" "y \<le> 9999" using assms(1) D by (auto simp: four_digit_year_def s_def)
  have n: "n < 10 ^ 9" by (simp add: n_def nanos_def nat_less_iff)
  have clock: "0 \<le> s mod 86400" "s mod 86400 < 86400" by simp_all
  have shown: "RFC3339Nano t = pad 4 (nat y) @ ''-'' @ pad 2 (nat m) @ ''-'' @ pad 2 (nat d) @ ''T''
      @ clock_text (s mod 86400) @ (if n = 0 then [] else ''.'' @ trim_fraction (pad 9 n)) @ show_zone z"
    using D y by (simp add: RFC3339Nano_def show_seconds_def show_year_def clock_text_def Let_def s_def z_def n_def)
  have zone: "parse_zone (show_zone z) = Some (z, [])" using parse_zone_shown [of z] assms by (simp add: z_def)
  have fraction: "parse_fraction ((if n = 0 then [] else ''.'' @ trim_fraction (pad 9 n)) @ show_zone z)
      = Some (n, show_zone z)"
  proof -
    have "\<exists>c cs. show_zone z = c # cs \<and> c \<in> {CHR ''Z'', CHR ''+'', CHR ''-''}"
      by (cases "z = 0") (simp_all add: show_zone_def Let_def)
    then obtain c cs where c: "show_zone z = c # cs" "c \<in> {CHR ''Z'', CHR ''+'', CHR ''-''}" by blast
    show ?thesis
    proof (cases "n = 0")
      case True
      then show ?thesis using c by (auto simp: parse_fraction_def split: list.splits)
    next
      case False
      then show ?thesis using c parse_trimmed(1) [OF n, of cs] parse_trimmed(2) [OF n, of c cs] by auto
    qed
  qed
  have "unix_ns t div time_Second = s - z" by (simp add: s_def z_def local_s_def)
  moreover have "int n = unix_ns t mod time_Second" by (simp add: n_def nanos_def)
  ultimately have instant: "(s - z) * time_Second + int n = unix_ns t" by (metis div_mult_mod_eq)
  have "s = s div 86400 * 86400 + s mod 86400" by simp
  then have seconds: "days_of_date y m d * 86400 + s mod 86400 - z = s - z" using date(5) by simp
  show ?thesis
    unfolding shown ParseRFC3339Nano_def
    using parse_date_shown [of "nat y" "nat m" "nat d"] parse_clock_shown [OF clock] fraction zone date y instant seconds
    by (simp add: z_def [symmetric] nat_less_iff nat_le_iff del: pad.simps append.simps(2) append_Cons)
qed

end
