(* ===== verification/Reducer_Memories.thy ===== *)
theory Reducer_Memories
  imports Reducer_State GoUtf8 GoTimeParse
begin

text \<open>
  The long-term memories of the user (\<open>storage/user_memories.go\<close> and the memory part of
  \<open>reducer.go\<close>): what a valid memory is, the evidence it must quote, writing, removing, editing and
  touching memories, and the eviction that keeps at most fifty of them.
\<close>

section \<open>Validity\<close>

definition UserMemoryLimit :: nat where "UserMemoryLimit = 50"

definition key_char :: "char \<Rightarrow> bool" where
  "key_char c \<longleftrightarrow> (let n = byte c in 97 \<le> n \<and> n \<le> 122 \<or> 48 \<le> n \<and> n \<le> 57 \<or> c = CHR ''_'')"

definition ValidUserMemoryKey :: "string \<Rightarrow> bool" where
  "ValidUserMemoryKey k \<longleftrightarrow> 2 \<le> length k \<and> length k \<le> 40 \<and> list_all key_char k"

definition ValidUserMemoryKind :: "string \<Rightarrow> bool" where
  "ValidUserMemoryKind k \<longleftrightarrow> k = ''preference'' \<or> k = ''correction'' \<or> k = ''habit''"

definition ValidUserMemoryStatement :: "string \<Rightarrow> bool" where
  "ValidUserMemoryStatement s \<longleftrightarrow> TrimSpace s \<noteq> [] \<and> RuneCount s \<le> 200"

definition ValidUserMemoryEvidenceQuote :: "string \<Rightarrow> bool" where
  "ValidUserMemoryEvidenceQuote q \<longleftrightarrow> 2 \<le> RuneCount (TrimSpace q)"

definition UserMemoryEvidenceMessage :: string where "UserMemoryEvidenceMessage = ''user_message''"
definition UserMemoryEvidenceDecision :: string where "UserMemoryEvidenceDecision = ''decision_answer''"

definition ValidUserMemoryEvidenceKind :: "string \<Rightarrow> bool" where
  "ValidUserMemoryEvidenceKind k \<longleftrightarrow> k = UserMemoryEvidenceMessage \<or> k = UserMemoryEvidenceDecision"

definition normalizeUserMemoryTimestamp :: "string \<Rightarrow> string option" where
  "normalizeUserMemoryTimestamp v = map_option (\<lambda>t. FixedNano (time_UTC t)) (ParseRFC3339Nano v)"

section \<open>Inputs\<close>

record memory_input =
  mm_Key :: string
  mm_Kind :: string
  mm_Statement :: string
  mm_EvidenceKind :: string
  mm_EvidenceID :: string
  mm_SourceDraftID :: string
  mm_EvidenceQuote :: string
  mm_CreatedAt :: string
  mm_LastConfirmedAt :: string

record memory_evidence =
  mv_Kind :: string
  mv_ID :: string
  mv_SourceDraftID :: string

record memory_edit =
  mt_Key :: string
  mt_Statement :: string

record memory_removal =
  mr_Key :: string
  mr_Kind :: string
  mr_Statement :: string
  mr_SourceDraftID :: string
  mr_CreatedAt :: string
  mr_LastConfirmedAt :: string
  mr_ManuallyRevisedAt :: string

record memory_outcome =
  mo_WrittenKeys :: "string list"
  mo_RemovedKeys :: "string list"
  mo_EvictedKeys :: "string list"
  mo_EditedKeys :: "string list"
  mo_Total :: nat

definition no_outcome :: memory_outcome where
  "no_outcome = \<lparr>mo_WrittenKeys = [], mo_RemovedKeys = [], mo_EvictedKeys = [], mo_EditedKeys = [], mo_Total = 0\<rparr>"

section \<open>Evidence\<close>

definition answered_decision :: "memory_evidence \<Rightarrow> decision_row \<Rightarrow> bool" where
  "answered_decision e r \<longleftrightarrow> de_decision_id r = mv_ID e \<and> de_draft_id r = Some (mv_SourceDraftID e)
     \<and> de_status r = ''answered'' \<and> de_answer r \<noteq> None \<and> de_answer r \<noteq> Some GNil"

definition user_message :: "memory_evidence \<Rightarrow> message_row \<Rightarrow> bool" where
  "user_message e r \<longleftrightarrow> ms_message_id r = mv_ID e \<and> ms_draft_id r = mv_SourceDraftID e \<and> ms_role r = ''user''"

definition validateUserMemoryEvidence :: "db \<Rightarrow> memory_evidence \<Rightarrow> apply_error option" where
  "validateUserMemoryEvidence db e =
     (if \<not> ValidUserMemoryEvidenceKind (mv_Kind e) \<or> mv_ID e = [] \<or> mv_SourceDraftID e = [] then Some ErrUserMemoryEvidence
      else if (if mv_Kind e = UserMemoryEvidenceMessage then list_ex (user_message e) (db_messages db)
               else list_ex (answered_decision e) (db_decisions db)) then None
      else Some ErrUserMemoryEvidence)"

text \<open>
  What the user said in answering a decision: the free text and the label of the option.  A field
  of another type, or an answer that is no object, leaves the Go field empty.
\<close>

definition decisionAnswerEvidenceText :: "gval \<Rightarrow> gval \<Rightarrow> string" where
  "decisionAnswerEvidenceText answer options = (
     let optionID = stringValue (gget (mapValue answer) ''option_id'');
         text = TrimSpace (stringValue (gget (mapValue answer) ''free_text''));
         chosen = find (\<lambda>v. stringValue (gget (mapValue v) ''option_id'') = optionID
           \<and> TrimSpace (stringValue (gget (mapValue v) ''label'')) \<noteq> []) (sliceValue options);
         parts = (if text \<noteq> [] then [text] else []) @
           (if optionID = [] then [] else case chosen of None \<Rightarrow> []
            | Some v \<Rightarrow> [stringValue (gget (mapValue v) ''label'')])
     in join_parts (CHR 0x0A) parts)"

definition userMemoryEvidenceText :: "db \<Rightarrow> memory_evidence \<Rightarrow> apply_error + string" where
  "userMemoryEvidenceText db e =
     (if mv_Kind e = UserMemoryEvidenceMessage then
        (case find (user_message e) (db_messages db) of None \<Rightarrow> Inl ErrUserMemoryEvidence | Some r \<Rightarrow> Inr (ms_content r))
      else if mv_Kind e = UserMemoryEvidenceDecision then
        (case find (answered_decision e) (db_decisions db) of None \<Rightarrow> Inl ErrUserMemoryEvidence
         | Some r \<Rightarrow> Inr (decisionAnswerEvidenceText (case de_answer r of None \<Rightarrow> GNil | Some v \<Rightarrow> v) (de_options r)))
      else Inl ErrUserMemoryEvidence)"

definition strings_Contains :: "string \<Rightarrow> string \<Rightarrow> bool" where
  "strings_Contains s p \<longleftrightarrow> sublist p s"

definition validateUserMemoryEvidenceQuote :: "db \<Rightarrow> memory_evidence \<Rightarrow> string \<Rightarrow> apply_error option" where
  "validateUserMemoryEvidenceQuote db e quote = (let trimmed = TrimSpace quote in
     if \<not> ValidUserMemoryEvidenceQuote trimmed then Some ErrUserMemoryEvidenceQuoteMismatch
     else case userMemoryEvidenceText db e of Inl x \<Rightarrow> Some x | Inr text \<Rightarrow>
       if \<not> strings_Contains text trimmed then Some ErrUserMemoryEvidenceQuoteMismatch else None)"

section \<open>Writing and removing\<close>

definition evidence_of :: "memory_input \<Rightarrow> memory_evidence" where
  "evidence_of m = \<lparr>mv_Kind = mm_EvidenceKind m, mv_ID = mm_EvidenceID m, mv_SourceDraftID = mm_SourceDraftID m\<rparr>"

fun check_upserts :: "memory_evidence option \<Rightarrow> string list \<Rightarrow> memory_input list \<Rightarrow> apply_error option" where
  "check_upserts evidence seen [] = None"
| "check_upserts evidence seen (m # ms) =
     (if \<not> ValidUserMemoryKey (mm_Key m) \<or> \<not> ValidUserMemoryKind (mm_Kind m)
         \<or> \<not> ValidUserMemoryStatement (mm_Statement m) \<or> \<not> ValidUserMemoryEvidenceKind (mm_EvidenceKind m)
         \<or> mm_EvidenceID m = [] \<or> mm_SourceDraftID m = [] then Some ErrUserMemoryInput
      else if mm_Key m \<in> set seen then Some ErrUserMemoryInput
      else if evidence \<noteq> None \<and> evidence \<noteq> Some (evidence_of m) then Some ErrUserMemoryEvidence
      else check_upserts evidence (mm_Key m # seen) ms)"

fun check_removals :: "string list \<Rightarrow> string list \<Rightarrow> string list \<Rightarrow> apply_error option" where
  "check_removals upserts seen [] = None"
| "check_removals upserts seen (k # ks) =
     (if \<not> ValidUserMemoryKey k \<or> k \<in> set seen \<or> k \<in> set upserts then Some ErrUserMemoryInput
      else check_removals upserts (k # seen) ks)"

definition delete_memory :: "string \<Rightarrow> memory_row list \<Rightarrow> memory_row list" where
  "delete_memory k rows = filter (\<lambda>r. me_memory_key r \<noteq> k) rows"

text \<open>\<open>INSERT ... ON CONFLICT(memory_key) DO UPDATE\<close> keeps the creation time and the marks of use and revision.\<close>

definition upsert_row :: "memory_row \<Rightarrow> memory_row list \<Rightarrow> memory_row list" where
  "upsert_row r rows =
     (if me_memory_key r \<in> me_memory_key ` set rows
      then update_where (\<lambda>x. me_memory_key x = me_memory_key r) (\<lambda>x. x\<lparr>me_kind := me_kind r,
        me_statement := me_statement r, me_evidence_kind := me_evidence_kind r, me_evidence_id := me_evidence_id r,
        me_source_draft_id := me_source_draft_id r, me_last_confirmed_at := me_last_confirmed_at r\<rparr>) rows
      else rows @ [r])"

definition upsert_memory :: "string \<Rightarrow> memory_input \<Rightarrow> db \<Rightarrow> apply_error + db" where
  "upsert_memory defaultCreatedAt m db = (case validateUserMemoryEvidence db (evidence_of m) of Some e \<Rightarrow> Inl e | None \<Rightarrow>
     let given = (\<lambda>t. if t = [] then defaultCreatedAt else t)
     in case normalizeUserMemoryTimestamp (given (mm_CreatedAt m)) of None \<Rightarrow> Inl ErrUserMemoryInput | Some createdAt \<Rightarrow>
        case normalizeUserMemoryTimestamp (given (mm_LastConfirmedAt m)) of None \<Rightarrow> Inl ErrUserMemoryInput
        | Some confirmed \<Rightarrow>
          case validateUserMemoryEvidenceQuote db (evidence_of m) (mm_EvidenceQuote m) of Some e \<Rightarrow> Inl e | None \<Rightarrow>
            Inr (db\<lparr>db_memories := upsert_row \<lparr>me_memory_key = mm_Key m, me_kind = mm_Kind m,
              me_statement = mm_Statement m, me_evidence_kind = mm_EvidenceKind m, me_evidence_id = mm_EvidenceID m,
              me_source_draft_id = mm_SourceDraftID m, me_created_at = createdAt, me_last_confirmed_at = confirmed,
              me_last_used_at = None, me_manually_revised_at = None\<rparr> (db_memories db)\<rparr>))"

fun upsert_memories :: "string \<Rightarrow> memory_input list \<Rightarrow> db \<Rightarrow> apply_error + db" where
  "upsert_memories stamp [] db = Inr db"
| "upsert_memories stamp (m # ms) db = bind_sum (upsert_memory stamp m db) (upsert_memories stamp ms)"

text \<open>
  Corrections go last; among the others the one confirmed or used longest ago goes first.  \<open>False\<close>
  sorts before \<open>True\<close>, like 0 before 1.
\<close>

definition eviction_order :: "memory_row \<Rightarrow> bool \<times> string \<times> string" where
  "eviction_order r = (me_kind r = ''correction'',
     max (me_last_confirmed_at r) (case me_last_used_at r of None \<Rightarrow> me_last_confirmed_at r | Some u \<Rightarrow> u),
     me_memory_key r)"

definition evicted_keys :: "memory_row list \<Rightarrow> string list" where
  "evicted_keys rows = map me_memory_key (take (length rows - UserMemoryLimit) (sort_key eviction_order rows))"

definition persistUserMemories :: "string \<Rightarrow> memory_input list \<Rightarrow> string list \<Rightarrow> bool \<Rightarrow> memory_evidence option \<Rightarrow> db
    \<Rightarrow> apply_error + (memory_outcome \<times> db)" where
  "persistUserMemories defaultCreatedAt upserts removeKeys clearAll evidence db =
     (if upserts = [] \<and> removeKeys = [] \<and> \<not> clearAll then Inr (no_outcome, db)
      else if clearAll \<and> (upserts \<noteq> [] \<or> removeKeys \<noteq> []) then Inl ErrUserMemoryInput
      else case (case evidence of None \<Rightarrow> None | Some e \<Rightarrow> validateUserMemoryEvidence db e) of Some e \<Rightarrow> Inl e | None \<Rightarrow>
        if clearAll then Inr (no_outcome\<lparr>mo_RemovedKeys := sort (map me_memory_key (db_memories db))\<rparr>, db\<lparr>db_memories := []\<rparr>)
        else case check_upserts evidence [] upserts of Some e \<Rightarrow> Inl e | None \<Rightarrow>
          case check_removals (map mm_Key upserts) [] removeKeys of Some e \<Rightarrow> Inl e | None \<Rightarrow>
            let removed = filter (\<lambda>k. k \<in> me_memory_key ` set (db_memories db)) removeKeys
            in bind_sum (upsert_memories defaultCreatedAt upserts
                 (db\<lparr>db_memories := fold delete_memory removeKeys (db_memories db)\<rparr>)) (\<lambda>db.
               let evicted = evicted_keys (db_memories db)
               in Inr (\<lparr>mo_WrittenKeys = sort (map mm_Key upserts), mo_RemovedKeys = sort removed,
                    mo_EvictedKeys = evicted, mo_EditedKeys = [],
                    mo_Total = length (db_memories db) - length evicted\<rparr>,
                  db\<lparr>db_memories := fold delete_memory evicted (db_memories db)\<rparr>)))"

section \<open>Governance by the user\<close>

definition editUserMemoryStatement :: "string \<Rightarrow> memory_edit \<Rightarrow> db \<Rightarrow> apply_error + (bool \<times> db)" where
  "editUserMemoryStatement stamp edit db = (let statement = TrimSpace (mt_Statement edit) in
     if \<not> ValidUserMemoryKey (mt_Key edit) \<or> \<not> ValidUserMemoryStatement statement then Inl ErrUserMemoryInput
     else case normalizeUserMemoryTimestamp stamp of None \<Rightarrow> Inl ErrUserMemoryInput | Some revisedAt \<Rightarrow>
       let this = (\<lambda>r. me_memory_key r = mt_Key edit)
       in Inr (rows_affected this (db_memories db) = 1, db\<lparr>db_memories := update_where this
         (\<lambda>r. r\<lparr>me_statement := statement, me_last_confirmed_at := revisedAt, me_manually_revised_at := Some revisedAt\<rparr>)
         (db_memories db)\<rparr>))"

definition matches_removal :: "memory_removal \<Rightarrow> memory_row \<Rightarrow> bool" where
  "matches_removal x r \<longleftrightarrow> me_memory_key r = mr_Key x \<and> me_kind r = mr_Kind x \<and> me_statement r = mr_Statement x
     \<and> me_source_draft_id r = mr_SourceDraftID x \<and> me_created_at r = mr_CreatedAt x
     \<and> me_last_confirmed_at r = mr_LastConfirmedAt x
     \<and> (case me_manually_revised_at r of None \<Rightarrow> [] | Some t \<Rightarrow> t) = mr_ManuallyRevisedAt x"

definition conditionallyRemoveUserMemory :: "memory_removal \<Rightarrow> db \<Rightarrow> apply_error + (bool \<times> db)" where
  "conditionallyRemoveUserMemory x db =
     (if \<not> ValidUserMemoryKey (mr_Key x) \<or> \<not> ValidUserMemoryKind (mr_Kind x)
         \<or> \<not> ValidUserMemoryStatement (mr_Statement x) \<or> mr_SourceDraftID x = [] then Inl ErrUserMemoryInput
      else if ParseRFC3339Nano (mr_CreatedAt x) = None \<or> ParseRFC3339Nano (mr_LastConfirmedAt x) = None
         \<or> mr_ManuallyRevisedAt x \<noteq> [] \<and> ParseRFC3339Nano (mr_ManuallyRevisedAt x) = None then Inl ErrUserMemoryInput
      else Inr (rows_affected (matches_removal x) (db_memories db) = 1,
        db\<lparr>db_memories := filter (\<lambda>r. \<not> matches_removal x r) (db_memories db)\<rparr>))"

fun touch_keys :: "string \<Rightarrow> string list \<Rightarrow> string list \<Rightarrow> db \<Rightarrow> apply_error + db" where
  "touch_keys usedAt seen [] db = Inr db"
| "touch_keys usedAt seen (k # ks) db =
     (if k \<in> set seen then touch_keys usedAt seen ks db
      else if \<not> ValidUserMemoryKey k then Inl ErrUserMemoryInput
      else touch_keys usedAt (k # seen) ks (db\<lparr>db_memories := update_where (\<lambda>r. me_memory_key r = k)
        (\<lambda>r. r\<lparr>me_last_used_at := Some usedAt\<rparr>) (db_memories db)\<rparr>))"

definition touchUserMemories :: "string \<Rightarrow> string list \<Rightarrow> db \<Rightarrow> apply_error + db" where
  "touchUserMemories stamp keys db = (if keys = [] then Inr db
     else case normalizeUserMemoryTimestamp stamp of None \<Rightarrow> Inl ErrUserMemoryInput
       | Some usedAt \<Rightarrow> touch_keys usedAt [] keys db)"

text \<open>\<open>ListUserMemories\<close>: most recently confirmed or used first, then by key.\<close>

definition ListUserMemories :: "db \<Rightarrow> memory_row list" where
  "ListUserMemories db = rev (sort_key (\<lambda>r. fst (snd (eviction_order r))) (rev (sort_key me_memory_key (db_memories db))))"

definition GetUserMemory :: "db \<Rightarrow> string \<Rightarrow> memory_row option" where
  "GetUserMemory db k = find (\<lambda>r. me_memory_key r = k) (db_memories db)"

section \<open>Memories a rewind concerns\<close>

definition affected_memory :: "db \<Rightarrow> string \<Rightarrow> string \<Rightarrow> goint \<Rightarrow> memory_row \<Rightarrow> bool" where
  "affected_memory db d boundary decisionBoundary r \<longleftrightarrow> me_source_draft_id r = d \<and> boundary \<le> me_created_at r \<and>
     (me_evidence_kind r = ''user_message'' \<and> list_ex (\<lambda>m. ms_message_id m = me_evidence_id r
        \<and> ms_draft_id m = d \<and> ms_rewound_at m \<noteq> None) (db_messages db)
      \<or> me_evidence_kind r = ''decision_answer'' \<and> list_ex (\<lambda>x. de_decision_id x = me_evidence_id r
        \<and> de_draft_id x = Some d \<and> decisionBoundary < de_rowid x) (db_decisions db))"

definition collectRewindAffectedMemories :: "db \<Rightarrow> string \<Rightarrow> string option \<Rightarrow> goint \<Rightarrow> apply_error + (string \<times> string) list" where
  "collectRewindAffectedMemories db d anchor decisionBoundary = (case anchor of None \<Rightarrow> Inr [] | Some a \<Rightarrow>
     case find (\<lambda>m. ms_message_id m = a \<and> ms_draft_id m = d) (db_messages db) of None \<Rightarrow> Inr [] | Some m \<Rightarrow>
       case normalizeUserMemoryTimestamp (ms_created_at m) of None \<Rightarrow> Inl (ErrInput ''created_at'') | Some boundary \<Rightarrow>
         Inr (map (\<lambda>r. (me_memory_key r, me_statement r)) (sort_key me_memory_key
           (filter (affected_memory db d boundary decisionBoundary) (db_memories db)))))"

section \<open>Stored times\<close>

text \<open>
  SQLite compares the times of memories as texts when it lists and evicts them, so the code stores every
  time in UTC with nine digits of a second.
\<close>

lemma normalized_time:
  assumes "four_digit_year t" and "zone_s t mod 60 = 0" and "\<bar>zone_s t\<bar> < 86400"
  shows "normalizeUserMemoryTimestamp (RFC3339Nano t) = Some (FixedNano (time_UTC t))"
  by (simp add: normalizeUserMemoryTimestamp_def parse_RFC3339Nano [OF assms])

text \<open>
  C24. Two times the code has printed, in whatever zones, are both accepted as times of a memory, and
  their stored texts compare like the instants: for zones of whole minutes and years of four digits, there and
  in UTC.
\<close>

theorem memory_times_ordered:
  assumes "four_digit_year t" and "four_digit_year (time_UTC t)" and "zone_s t mod 60 = 0" and "\<bar>zone_s t\<bar> < 86400"
    and "four_digit_year u" and "four_digit_year (time_UTC u)" and "zone_s u mod 60 = 0" and "\<bar>zone_s u\<bar> < 86400"
  shows "\<exists>a b. normalizeUserMemoryTimestamp (RFC3339Nano t) = Some a \<and> normalizeUserMemoryTimestamp (RFC3339Nano u) = Some b
    \<and> (a < b \<longleftrightarrow> unix_ns t < unix_ns u) \<and> (a = b \<longleftrightarrow> unix_ns t = unix_ns u)"
proof -
  have le: "FixedNano (time_UTC x) \<le> FixedNano (time_UTC y) \<longleftrightarrow> unix_ns x \<le> unix_ns y"
    if "four_digit_year (time_UTC x)" "four_digit_year (time_UTC y)" for x y
    using that FixedNano_order [of "time_UTC x" "time_UTC y"] by (simp add: time_UTC_def)
  have "FixedNano (time_UTC t) < FixedNano (time_UTC u) \<longleftrightarrow> unix_ns t < unix_ns u"
    "FixedNano (time_UTC t) = FixedNano (time_UTC u) \<longleftrightarrow> unix_ns t = unix_ns u"
    using le [OF assms(2,6)] le [OF assms(6,2)] by (auto simp: less_le_not_le)
  then show ?thesis using normalized_time [OF assms(1,3,4)] normalized_time [OF assms(5,7,8)] by simp
qed

text \<open>Half a second past a whole one, read in Shanghai: as printed the two texts compare the wrong way round.\<close>

definition whole_second :: gotime where "whole_second = \<lparr>unix_ns = 0, zone_s = 0\<rparr>"
definition half_second :: gotime where "half_second = \<lparr>unix_ns = 500000000, zone_s = 28800\<rparr>"

theorem memory_times_ordered_witness:
  "\<exists>a b. normalizeUserMemoryTimestamp (RFC3339Nano whole_second) = Some a
    \<and> normalizeUserMemoryTimestamp (RFC3339Nano half_second) = Some b \<and> a < b"
proof -
  have "four_digit_year whole_second" "four_digit_year (time_UTC whole_second)"
    "four_digit_year half_second" "four_digit_year (time_UTC half_second)"
    by (simp_all add: four_digit_year_def whole_second_def half_second_def time_UTC_def local_s_def civil_date_epoch)
  then show ?thesis using memory_times_ordered [of whole_second half_second]
    by (simp add: whole_second_def half_second_def) blast
qed

end
