(* ===== verification/Reducer_Rewind.thy ===== *)
theory Reducer_Rewind
  imports Reducer_Timeline Reducer_Memories
begin

text \<open>
  Rewinding a draft (\<open>rewind.go\<close>): recording a checkpoint of the conversation and the timeline, and
  restoring one, which appends a new timeline version with the old document, hides the messages
  outside the checkpoint, cancels later decisions, notes the memories the rewound part gave rise to
  and records a checkpoint of its own.
\<close>

section \<open>Recording a checkpoint\<close>

definition maxRewindCheckpoints :: nat where
  "maxRewindCheckpoints = 50"

definition timelineCheckpointStats :: "gmap option \<Rightarrow> goint \<times> goint \<times> goint" where
  "timelineCheckpointStats document = (case document of None \<Rightarrow> (0, 0, 0) | Some m \<Rightarrow>
     let tracks = sliceValue (gget m ''tracks'')
     in (int (sum_list (map (\<lambda>t. length (sliceValue (gget (mapValue t) ''clips''))) tracks)),
         intFrom (gget m ''duration_frames'') 0, int (length tracks)))"

definition truncateCheckpointSummary :: "string \<Rightarrow> string" where
  "truncateCheckpointSummary s = (let v = TrimSpace s in
     if RuneCount v \<le> 120 then v else concat (take 117 (runes v)) @ bytes [226, 128, 166])"

record checkpoint_input =
  ci_id :: string
  ci_draftID :: string
  ci_triggerKind :: string
  ci_anchorMessageID :: "string option"
  ci_anchorTurnID :: "string option"
  ci_timelineVersion :: "goint option"
  ci_patchID :: "string option"
  ci_summary :: string
  ci_document :: "gmap option"
  ci_createdAt :: string

text \<open>\<open>nullableString(x.String)\<close> of a nullable text.\<close>

definition renull :: "string option \<Rightarrow> string option" where
  "renull s = (case s of None \<Rightarrow> None | Some v \<Rightarrow> nullableText v)"

definition checkpoint_from :: "checkpoint_input \<Rightarrow> db \<Rightarrow> checkpoint_row" where
  "checkpoint_from i db = (let (clips, frames, tracks) = timelineCheckpointStats (ci_document i) in
     \<lparr>ck_checkpoint_id = ci_id i, ck_draft_id = ci_draftID i, ck_trigger_kind = ci_triggerKind i,
      ck_anchor_message_id = renull (ci_anchorMessageID i), ck_anchor_turn_id = renull (ci_anchorTurnID i),
      ck_anchor_event_id = max_rowid el_event_id (db_event_log db),
      ck_timeline_version = ci_timelineVersion i, ck_patch_id = renull (ci_patchID i),
      ck_decision_boundary = max_rowid de_rowid (db_decisions db),
      ck_job_boundary = int (length (db_jobs db)),
      ck_summary = ci_summary i, ck_clip_count = clips, ck_duration_frames = frames,
      ck_track_count = tracks, ck_created_at = ci_createdAt i\<rparr>)"

definition insert_checkpoint :: "checkpoint_input \<Rightarrow> db \<Rightarrow> apply_error + db" where
  "insert_checkpoint i db =
     (if ci_id i \<in> ck_checkpoint_id ` set (db_checkpoints db) then Inr db
      else bind_sum (require (refers dr_draft_id (db_drafts db) (Some (ci_draftID i))
          \<and> refers ms_message_id (db_messages db) (renull (ci_anchorMessageID i))
          \<and> ci_triggerKind i \<in> {''user_message'', ''timeline_write'', ''restore''})
          (ErrConstraint ''rewind_checkpoints'')) (\<lambda>_.
        let visible = filter (\<lambda>m. ms_draft_id m = ci_draftID i \<and> ms_rewound_at m = None
              \<and> Some (ms_message_id m) \<noteq> ci_anchorMessageID i) (db_messages db)
        in Inr (db\<lparr>db_checkpoints := db_checkpoints db @ [checkpoint_from i db],
             db_checkpoint_messages := db_checkpoint_messages db
               @ map (\<lambda>m. (ci_id i, ms_message_id m)) visible\<rparr>)))"

text \<open>Deleting a checkpoint deletes its visible set.\<close>

definition prune_checkpoints :: "string \<Rightarrow> db \<Rightarrow> db" where
  "prune_checkpoints d db = (
     let kept = keep_last (\<lambda>c. ck_draft_id c = d) maxRewindCheckpoints (db_checkpoints db)
     in db\<lparr>db_checkpoints := kept,
          db_checkpoint_messages := filter (\<lambda>(c, m). c \<in> ck_checkpoint_id ` set kept
            \<or> c \<notin> ck_checkpoint_id ` set (db_checkpoints db)) (db_checkpoint_messages db)\<rparr>)"

definition recordRewindCheckpoint :: "checkpoint_input \<Rightarrow> db \<Rightarrow> apply_error + db" where
  "recordRewindCheckpoint i db =
     (if ci_id i = [] \<or> ci_draftID i = [] \<or> ci_createdAt i = [] then Inl (ErrMissing ''checkpoint'')
      else bind_sum (insert_checkpoint i db) (\<lambda>db. Inr (prune_checkpoints (ci_draftID i) db)))"

definition find_timeline :: "string \<Rightarrow> goint \<Rightarrow> db \<Rightarrow> timeline_row option" where
  "find_timeline d v db = find (\<lambda>t. tl_draft_id t = d \<and> tl_version t = v) (db_timelines db)"

text \<open>Decoding a stored document into a map; the text \<open>null\<close> leaves the map \<open>nil\<close>.\<close>

definition decode_document :: "gval \<Rightarrow> apply_error + gmap option" where
  "decode_document v = (case v of GObj m \<Rightarrow> Inr (Some m) | GNil \<Rightarrow> Inr None | _ \<Rightarrow> Inl (ErrInput ''document_json''))"

definition stored_document :: "string \<Rightarrow> goint \<Rightarrow> db \<Rightarrow> apply_error + gmap option" where
  "stored_document d v db = (case find_timeline d v db of
     None \<Rightarrow> Inl ErrNoRows | Some t \<Rightarrow> decode_document (tl_document t))"

definition currentTimelineDocument :: "db \<Rightarrow> string \<Rightarrow> apply_error + (gmap option \<times> goint option)" where
  "currentTimelineDocument db d = (case find_draft d db of None \<Rightarrow> Inl ErrNoRows | Some r \<Rightarrow>
     (case dr_timeline_current_version r of None \<Rightarrow> Inr (None, None)
      | Some v \<Rightarrow> bind_sum (stored_document d v db) (\<lambda>doc. Inr (doc, Some v))))"

definition recordMessageRewindCheckpoint :: "string \<Rightarrow> string \<Rightarrow> string \<Rightarrow> string \<Rightarrow> db \<Rightarrow> apply_error + db" where
  "recordMessageRewindCheckpoint messageID d content createdAt db =
     bind_sum (currentTimelineDocument db d) (\<lambda>(doc, v).
     recordRewindCheckpoint \<lparr>ci_id = ''rewind:message:'' @ messageID, ci_draftID = d,
       ci_triggerKind = ''user_message'', ci_anchorMessageID = Some messageID,
       ci_anchorTurnID = Some messageID, ci_timelineVersion = v, ci_patchID = None,
       ci_summary = truncateCheckpointSummary content, ci_document = doc, ci_createdAt = createdAt\<rparr> db)"

section \<open>Restoring\<close>

definition visible_ids :: "string \<Rightarrow> db \<Rightarrow> string set" where
  "visible_ids c db = snd ` set (filter (\<lambda>(k, m). k = c) (db_checkpoint_messages db))"

definition applyConversationRewind :: "string \<Rightarrow> string \<Rightarrow> string \<Rightarrow> db \<Rightarrow> db" where
  "applyConversationRewind createdAt d c db = (let seen = visible_ids c db in
     update_draft d (\<lambda>r. r\<lparr>dr_messages_tail_ref := (case dr_messages_tail_ref r of
         None \<Rightarrow> None | Some m \<Rightarrow> if m \<in> seen then Some m else None)\<rparr>)
     (db\<lparr>db_messages := update_where (\<lambda>m. ms_draft_id m = d)
           (\<lambda>m. if ms_message_id m \<in> seen
              then m\<lparr>ms_rewound_at := None, ms_rewind_checkpoint_id := None\<rparr>
              else m\<lparr>ms_rewound_at := Some createdAt, ms_rewind_checkpoint_id := Some c\<rparr>) (db_messages db),
         db_contexts := filter (\<lambda>x. cx_draft_id x \<noteq> d) (db_contexts db)\<rparr>))"

definition invalidateDecisionsAfterCheckpoint :: "string \<Rightarrow> goint \<Rightarrow> db \<Rightarrow> db" where
  "invalidateDecisionsAfterCheckpoint d boundary db = (
     let ds = update_where (\<lambda>r. de_draft_id r = Some d \<and> de_status r = ''pending'' \<and> boundary < de_rowid r)
           cancel_decision (db_decisions db);
         gone = de_decision_id ` set (filter (\<lambda>r. de_draft_id r = Some d \<and> de_status r = ''cancelled''
           \<and> boundary < de_rowid r) ds)
     in update_draft d (\<lambda>r. case dr_pending_decision_id r of None \<Rightarrow> r | Some i \<Rightarrow>
          if i \<in> gone then r\<lparr>dr_pending_decision_id := None\<rparr> else r) (db\<lparr>db_decisions := ds\<rparr>))"

definition restore_timeline :: "apply_state \<Rightarrow> event \<Rightarrow> checkpoint_row \<Rightarrow> apply_error + (gmap option \<times> goint option \<times> db)" where
  "restore_timeline st ev c = (
     let d = ev_DraftID ev; new = intFrom (payload ev ''timeline_version'') 0; db = st_db st
     in case ck_timeline_version c of None \<Rightarrow> Inl (ErrInput ''checkpoint'') | Some old \<Rightarrow>
        if new < 1 then Inl (ErrMissing ''timeline_version'')
        else case find_timeline d old db of None \<Rightarrow> Inl ErrNoRows | Some t \<Rightarrow>
          bind_sum (decode_document (tl_document t)) (\<lambda>doc.
          case doc of None \<Rightarrow> Inl ErrPanic | Some m \<Rightarrow>
          let m = gput ''timeline_id'' (GStr (timeline_name d new)) (gput ''draft_id'' (GStr d)
                    (gput ''version'' (GInt new) m))
          in bind_sum (mustJSON (GObj m)) (\<lambda>json.
             bind_sum (insert_timeline \<lparr>tl_timeline_id = timeline_name d new, tl_draft_id = d,
               tl_version = new, tl_parent_version = Some old,
               tl_created_by_patch_id = Some (''rewind:'' @ ck_checkpoint_id c),
               tl_document = json, tl_validation_report = tl_validation_report t,
               tl_created_at = st_createdAt st\<rparr> db) (\<lambda>db.
             Inr (Some m, Some new, update_draft d (\<lambda>r. r\<lparr>dr_timeline_current_version := Some new,
               dr_timeline_validated := False, dr_preview_current_id := None,
               dr_export_current_id := None\<rparr>) db)))))"

definition restore_summary :: "string \<Rightarrow> string \<Rightarrow> string" where
  "restore_summary c mode = bytes [230, 129, 162, 229, 164, 141, 230, 163, 128, 230, 159, 165, 231, 130, 185, 239, 188, 154]
     @ c @ bytes [239, 188, 136] @ mode @ bytes [239, 188, 137]"

definition applyTimelineRestored :: handler where
  "applyTimelineRestored st ev = (
     let d = ev_DraftID ev; c = stringFrom (payload ev ''checkpoint_id'') [];
         mode = stringFrom (payload ev ''mode'') [];
         conversation = (mode = ''conversation'' \<or> mode = ''both'')
     in if c = [] \<or> mode \<notin> {''timeline'', ''conversation'', ''both''} then Inl (ErrInput ''mode'')
        else case find (\<lambda>r. ck_draft_id r = d \<and> ck_checkpoint_id r = c) (db_checkpoints (st_db st)) of
          None \<Rightarrow> Inl ErrNoRows
        | Some ck \<Rightarrow>
          bind_sum (if mode = ''timeline'' \<or> mode = ''both'' then restore_timeline st ev ck
            else Inr (None, ck_timeline_version ck, st_db st)) (\<lambda>(doc, version, db).
          let db = (if conversation then applyConversationRewind (st_createdAt st) d c db else db);
              db = invalidateDecisionsAfterCheckpoint d (ck_decision_boundary ck) db
          in bind_sum (if conversation
            then bind_sum (collectRewindAffectedMemories db d (ck_anchor_message_id ck) (ck_decision_boundary ck))
              (\<lambda>ms. Inr (Some ms))
            else Inr (st_affected st)) (\<lambda>affected.
          bind_sum (touch (st\<lparr>st_db := db, st_affected := affected\<rparr>) d) (\<lambda>st.
          let rid = stringFrom (payload ev ''restore_checkpoint_id'') []
          in if rid = [] then Inl (ErrMissing ''restore_checkpoint_id'') else
          bind_sum (case (doc, version) of
              (None, Some v) \<Rightarrow> stored_document d v (st_db st) | _ \<Rightarrow> Inr doc) (\<lambda>doc.
          bind_sum (recordRewindCheckpoint \<lparr>ci_id = rid, ci_draftID = d, ci_triggerKind = ''restore'',
              ci_anchorMessageID = ck_anchor_message_id ck, ci_anchorTurnID = ck_anchor_turn_id ck,
              ci_timelineVersion = version, ci_patchID = None, ci_summary = restore_summary c mode,
              ci_document = doc, ci_createdAt = st_createdAt st\<rparr> (st_db st)) (\<lambda>db.
          Inr (st\<lparr>st_db := db\<rparr>)))))))"

end
