(* ===== verification/Reducer_Analyses.thy ===== *)
theory Reducer_Analyses
  imports Reducer_State
begin

text \<open>
  The rows of analyses, indexes and bookkeeping that \<open>persistResultRows\<close> of \<open>reducer.go\<close> stores:
  material summaries, transcripts, asset analyses with their objects, shot index snapshots with
  their shots, the context window of the agent, the creative plan of a draft and the jobs whose
  outcome the agent has observed.
\<close>

definition default_text :: "string \<Rightarrow> string \<Rightarrow> string" where
  "default_text v fallback = (if v = [] then fallback else v)"

text \<open>A \<open>nil\<close> map or slice encodes as \<open>null\<close>.\<close>

definition go_map :: "gmap option \<Rightarrow> gval" where
  "go_map m = (case m of None \<Rightarrow> GNil | Some kvs \<Rightarrow> GObj kvs)"

definition go_maps :: "gmap list option \<Rightarrow> gval" where
  "go_maps ms = (case ms of None \<Rightarrow> GNil | Some kvss \<Rightarrow> GArr (map GObj kvss))"

text \<open>Storing rows one after the other.\<close>

fun store_each :: "('r \<Rightarrow> db \<Rightarrow> apply_error + db) \<Rightarrow> 'r list \<Rightarrow> db \<Rightarrow> apply_error + db" where
  "store_each store [] db = Inr db"
| "store_each store (r # rs) db = bind_sum (store r db) (store_each store rs)"

section \<open>Summaries and transcripts\<close>

record summary_input =
  sm_ID :: string
  sm_AssetID :: string
  sm_Version :: goint
  sm_Focus :: "string option"
  sm_Status :: string
  sm_Summary :: "gmap option"
  sm_Model :: "string option"
  sm_Fingerprint :: "string option"
  sm_PromptVersion :: "string option"
  sm_CreatedAt :: string

definition next_number :: "('r \<Rightarrow> bool) \<Rightarrow> ('r \<Rightarrow> goint) \<Rightarrow> 'r list \<Rightarrow> goint" where
  "next_number P key rows = (case filter P rows of [] \<Rightarrow> 0 | r # rs \<Rightarrow> foldl (\<lambda>m r. max m (key r)) (key r) rs) + 1"

definition store_summary :: "string \<Rightarrow> summary_input \<Rightarrow> db \<Rightarrow> apply_error + db" where
  "store_summary createdAt s db = (
     let version = (if sm_Version s < 1
           then next_number (\<lambda>r. su_asset_id r = sm_AssetID s) su_version (db_summaries db) else sm_Version s)
     in bind_sum (mustJSON (go_map (sm_Summary s))) (\<lambda>json.
        let row = \<lparr>su_summary_id = sm_ID s, su_asset_id = sm_AssetID s, su_version = version,
          su_focus = sm_Focus s, su_status = sm_Status s, su_summary = json, su_model = sm_Model s,
          su_fingerprint = sm_Fingerprint s, su_prompt_version = sm_PromptVersion s,
          su_created_at = default_text (sm_CreatedAt s) createdAt\<rparr>
        in bind_sum (insert_unique su_summary_id ''material_summaries'' row (db_summaries db)) (\<lambda>rows.
           bind_sum (insert_unique (\<lambda>r. (su_asset_id r, su_version r)) ''material_summaries'' row (db_summaries db)) (\<lambda>_.
           bind_sum (require (refers as_asset_id (db_assets db) (Some (sm_AssetID s))) (ErrConstraint ''assets'')) (\<lambda>_.
           Inr (db\<lparr>db_summaries := rows\<rparr>))))))"

record transcript_input =
  ti_ID :: string
  ti_AssetID :: string
  ti_ProviderID :: string
  ti_RawPreserved :: bool
  ti_Utterances :: "gmap list option"
  ti_VADSegments :: "gmap list option"

definition store_transcript :: "transcript_input \<Rightarrow> db \<Rightarrow> apply_error + db" where
  "store_transcript t db =
     bind_sum (mustJSON (go_maps (ti_Utterances t))) (\<lambda>utterances.
     bind_sum (mustJSON (go_maps (ti_VADSegments t))) (\<lambda>segments.
     bind_sum (insert_unique tn_transcript_id ''transcripts'' \<lparr>tn_transcript_id = ti_ID t, tn_asset_id = ti_AssetID t,
         tn_provider_id = ti_ProviderID t, tn_raw_preserved = ti_RawPreserved t, tn_utterances = utterances,
         tn_vad_segments = segments\<rparr> (db_transcripts db)) (\<lambda>rows.
     bind_sum (require (refers as_asset_id (db_assets db) (Some (ti_AssetID t))) (ErrConstraint ''assets'')) (\<lambda>_.
     Inr (db\<lparr>db_transcripts := rows\<rparr>)))))"

section \<open>Asset analyses\<close>

record analysis_input =
  ai_ID :: string
  ai_AssetContentHash :: string
  ai_AnalysisType :: string
  ai_AnalyzerVersion :: string
  ai_NormalizedOptionsJSON :: string
  ai_OutputSchemaVersion :: goint
  ai_Result :: "gmap option"
  ai_CreatedAt :: string
  ai_Objects :: "(string \<times> goint) list"

definition store_object :: "string \<Rightarrow> string \<times> goint \<Rightarrow> db \<Rightarrow> apply_error + db" where
  "store_object createdAt x db = (if fst x = [] \<or> snd x \<le> 0 then Inl (ErrInput ''asset_analysis_object'')
     else Inr (ensureObject createdAt (fst x) (snd x) db))"

definition analysis_identity :: "analysis_row \<Rightarrow> string \<times> string \<times> string \<times> string \<times> goint" where
  "analysis_identity r = (an_asset_content_hash r, an_analysis_type r, an_analyzer_version r,
     an_normalized_options r, an_output_schema_version r)"

definition analysis_from :: "string \<Rightarrow> analysis_input \<Rightarrow> gval \<Rightarrow> analysis_row" where
  "analysis_from createdAt a json = \<lparr>an_analysis_id = ai_ID a, an_asset_content_hash = ai_AssetContentHash a,
     an_analysis_type = ai_AnalysisType a, an_analyzer_version = ai_AnalyzerVersion a,
     an_normalized_options = ai_NormalizedOptionsJSON a, an_output_schema_version = ai_OutputSchemaVersion a,
     an_result = json, an_created_at = createdAt\<rparr>"

text \<open>
  \<open>ON CONFLICT(analysis_id) DO NOTHING\<close> keeps an analysis that is there; another one with the same
  content hash, type, analyzer, options and schema is a violation.
\<close>

definition insert_analysis :: "analysis_row \<Rightarrow> db \<Rightarrow> apply_error + db" where
  "insert_analysis row db =
     (if an_analysis_id row \<in> an_analysis_id ` set (db_analyses db) then Inr db
      else bind_sum (insert_unique analysis_identity ''asset_analyses'' row (db_analyses db)) (\<lambda>rows.
        Inr (db\<lparr>db_analyses := rows\<rparr>)))"

definition store_analysis :: "string \<Rightarrow> analysis_input \<Rightarrow> db \<Rightarrow> apply_error + db" where
  "store_analysis defaultCreatedAt a db = (let createdAt = default_text (ai_CreatedAt a) defaultCreatedAt in
     if ai_ID a = [] \<or> ai_AssetContentHash a = [] \<or> ai_AnalysisType a = [] \<or> ai_AnalyzerVersion a = []
        \<or> ai_NormalizedOptionsJSON a = [] \<or> ai_OutputSchemaVersion a < 1 \<or> ai_Result a = None
     then Inl (ErrInput ''asset_analysis'')
     else bind_sum (store_each (store_object createdAt) (ai_Objects a) db) (\<lambda>db.
       bind_sum (mustJSON (go_map (ai_Result a))) (\<lambda>json.
       insert_analysis (analysis_from createdAt a json) db)))"

section \<open>Shot indexes\<close>

record snapshot_input =
  si_ID :: string
  si_AssetContentHash :: string
  si_Generation :: goint
  si_AnalyzerVersion :: string
  si_OutputSchemaVersion :: goint
  si_SourceAssetID :: string
  si_Summary :: "gmap option"
  si_Shots :: "shot_input list"
  si_CreatedAt :: string

definition shot_incomplete :: "string \<Rightarrow> shot_input \<Rightarrow> bool" where
  "shot_incomplete contentHash s \<longleftrightarrow> sh_ID s = [] \<or> sh_AssetContentHash s \<noteq> contentHash
     \<or> sh_SourceStartFrame s < 0 \<or> sh_SourceEndFrame s \<le> sh_SourceStartFrame s
     \<or> sh_BoundaryVersion s < 1 \<or> sh_BoundaryKind s = [] \<or> sh_RepresentativeFrames s = []
     \<or> sh_SemanticName s = [] \<or> sh_Description s = [] \<or> sh_Quality s = None
     \<or> sh_SearchText s = [] \<or> sh_SearchTokens s = []"

definition store_frame :: "string \<Rightarrow> gmap \<Rightarrow> db \<Rightarrow> apply_error + db" where
  "store_frame createdAt frame db = (let h = stringFrom (gget frame ''object_hash'') [] in
     if h = [] then Inl (ErrInput ''object_hash'')
     else Inr (ensureObject createdAt h (int64From (gget frame ''object_size'') 0) db))"

definition store_shot :: "string \<Rightarrow> snapshot_input \<Rightarrow> shot_input \<Rightarrow> db \<Rightarrow> apply_error + db" where
  "store_shot createdAt n s db =
     (if shot_incomplete (si_AssetContentHash n) s then Inl (ErrInput ''shot'')
      else bind_sum (store_each (store_frame createdAt) (sh_RepresentativeFrames s) db) (\<lambda>db.
        bind_sum (mustJSON (GArr (map GObj (sh_RepresentativeFrames s)))) (\<lambda>_.
        bind_sum (mustJSON (go_map (sh_Quality s))) (\<lambda>_.
        bind_sum (insert_unique (\<lambda>r. (sh_index_snapshot_id r, sh_ID r)) ''shots''
          (shot_input.extend s \<lparr>sh_index_snapshot_id = si_ID n, sh_created_at = createdAt\<rparr>) (db_shots db)) (\<lambda>rows.
        Inr (db\<lparr>db_shots := rows\<rparr>))))))"

definition same_content :: "string \<Rightarrow> snapshot_row \<Rightarrow> bool" where
  "same_content h r \<longleftrightarrow> sn_asset_content_hash r = h"

definition supersede :: "string \<Rightarrow> snapshot_row list \<Rightarrow> snapshot_row list" where
  "supersede h rows = update_where (\<lambda>r. same_content h r \<and> sn_status r = ''ready'')
     (\<lambda>r. r\<lparr>sn_status := ''superseded''\<rparr>) rows"

definition insert_snapshot :: "snapshot_row \<Rightarrow> db \<Rightarrow> apply_error + db" where
  "insert_snapshot row db =
     bind_sum (insert_unique sn_index_snapshot_id ''shot_index_snapshots'' row (db_snapshots db)) (\<lambda>rows.
     bind_sum (insert_unique (\<lambda>r. (sn_asset_content_hash r, sn_generation r)) ''shot_index_snapshots'' row (db_snapshots db)) (\<lambda>_.
     bind_sum (require (refers as_asset_id (db_assets db) (sn_source_asset_id row)) (ErrConstraint ''assets'')) (\<lambda>_.
     Inr (db\<lparr>db_snapshots := rows\<rparr>))))"

definition snapshot_from :: "string \<Rightarrow> snapshot_input \<Rightarrow> goint \<Rightarrow> gval \<Rightarrow> snapshot_row" where
  "snapshot_from createdAt n generation summary = \<lparr>sn_index_snapshot_id = si_ID n,
     sn_asset_content_hash = si_AssetContentHash n, sn_generation = generation,
     sn_analyzer_version = si_AnalyzerVersion n, sn_output_schema_version = si_OutputSchemaVersion n,
     sn_source_asset_id = Some (si_SourceAssetID n), sn_status = ''ready'', sn_summary = summary,
     sn_created_at = createdAt, sn_published_at = createdAt\<rparr>"

definition store_snapshot :: "string \<Rightarrow> snapshot_input \<Rightarrow> db \<Rightarrow> apply_error + db" where
  "store_snapshot defaultCreatedAt n db = (
     let createdAt = default_text (si_CreatedAt n) defaultCreatedAt; h = si_AssetContentHash n
     in if si_ID n = [] \<or> h = [] \<or> si_AnalyzerVersion n = [] \<or> si_OutputSchemaVersion n < 1
           \<or> si_SourceAssetID n = [] \<or> si_Summary n = None \<or> si_Shots n = []
        then Inl (ErrInput ''shot_index_snapshot'')
        else let generation = (if si_Generation n < 1
               then next_number (same_content h) sn_generation (db_snapshots db) else si_Generation n)
          in bind_sum (mustJSON (go_map (si_Summary n))) (\<lambda>summary.
             bind_sum (insert_snapshot (snapshot_from createdAt n generation summary)
               (db\<lparr>db_snapshots := supersede h (db_snapshots db)\<rparr>)) (\<lambda>db.
             store_each (store_shot createdAt n) (si_Shots n) db)))"

lemma snapshot_from_simps [simp]:
  "sn_asset_content_hash (snapshot_from c n g v) = si_AssetContentHash n"
  "sn_status (snapshot_from c n g v) = ''ready''"
  by (simp_all add: snapshot_from_def)

section \<open>Context window, plan and observations\<close>

record context_input =
  xi_DraftID :: string
  xi_WindowID :: string
  xi_WindowNumber :: goint
  xi_HistoryVersion :: goint
  xi_BaseSnapshot :: "gmap option"
  xi_BaseSnapshotHash :: string
  xi_Summary :: string
  xi_CompactedThrough :: "string option"

definition put_context :: "context_row \<Rightarrow> context_row list \<Rightarrow> context_row list" where
  "put_context row rows = (if cx_draft_id row \<in> cx_draft_id ` set rows
     then update_where (\<lambda>r. cx_draft_id r = cx_draft_id row) (\<lambda>r. row\<lparr>cx_created_at := cx_created_at r\<rparr>) rows
     else rows @ [row])"

definition store_context :: "string \<Rightarrow> context_input \<Rightarrow> db \<Rightarrow> apply_error + db" where
  "store_context createdAt x db =
     (if xi_DraftID x = [] \<or> xi_WindowID x = [] \<or> xi_WindowNumber x < 1 \<or> xi_HistoryVersion x < 1
        \<or> xi_BaseSnapshotHash x = [] \<or> xi_BaseSnapshot x = None then Inl (ErrInput ''context_checkpoint'')
      else bind_sum (mustJSON (go_map (xi_BaseSnapshot x))) (\<lambda>json.
        bind_sum (require (refers dr_draft_id (db_drafts db) (Some (xi_DraftID x))
          \<and> refers ms_message_id (db_messages db) (xi_CompactedThrough x))
          (ErrConstraint ''agent_context_checkpoints'')) (\<lambda>_.
        Inr (db\<lparr>db_contexts := put_context \<lparr>cx_draft_id = xi_DraftID x, cx_window_id = xi_WindowID x,
          cx_window_number = xi_WindowNumber x, cx_history_version = xi_HistoryVersion x,
          cx_base_snapshot = json, cx_base_snapshot_hash = xi_BaseSnapshotHash x, cx_summary = xi_Summary x,
          cx_compacted_through = xi_CompactedThrough x, cx_created_at = createdAt,
          cx_updated_at = createdAt\<rparr> (db_contexts db)\<rparr>))))"

record plan_update =
  pu_DraftID :: string
  pu_ContentPlan :: "gmap option"
  pu_ExpectedPlanHash :: string

text \<open>The stored plan as a map: a missing or empty column and the text \<open>null\<close> leave no keys.\<close>

definition current_plan :: "draft_row \<Rightarrow> apply_error + gmap" where
  "current_plan r = (case dr_content_plan r of None \<Rightarrow> Inr [] | Some (GObj m) \<Rightarrow> Inr m
     | Some GNil \<Rightarrow> Inr [] | Some _ \<Rightarrow> Inl (ErrInput ''content_plan''))"

text \<open>\<open>sha\<close> is the SHA-256 of the JSON text of a plan, from the standard library.\<close>

definition ContentPlanHash :: "(gval \<Rightarrow> string) \<Rightarrow> gmap \<Rightarrow> apply_error + string" where
  "ContentPlanHash sha plan = (if json_ok (GObj plan) then Inr (sha (json_norm (GObj plan))) else Inl ErrEncode)"

definition store_plan :: "(gval \<Rightarrow> string) \<Rightarrow> plan_update \<Rightarrow> db \<Rightarrow> apply_error + db" where
  "store_plan sha p db =
     (if pu_DraftID p = [] \<or> pu_ContentPlan p = None \<or> pu_ExpectedPlanHash p = [] then Inl (ErrInput ''plan'')
      else if \<not> json_ok (go_map (pu_ContentPlan p)) then Inl ErrEncode
      else case find_draft (pu_DraftID p) db of None \<Rightarrow> Inl (ErrUnknownDraft (pu_DraftID p)) | Some r \<Rightarrow>
        bind_sum (current_plan r) (\<lambda>current.
        bind_sum (ContentPlanHash sha current) (\<lambda>h.
        if h \<noteq> pu_ExpectedPlanHash p then Inl ErrDraftPlanConflict
        else Inr (update_draft (pu_DraftID p)
          (\<lambda>r. r\<lparr>dr_content_plan := Some (json_norm (go_map (pu_ContentPlan p)))\<rparr>) db))))"

definition store_suppression :: "string \<Rightarrow> string \<Rightarrow> db \<Rightarrow> apply_error + db" where
  "store_suppression createdAt j db =
     (if j = [] then Inl (ErrMissing ''job_id'')
      else if j \<in> fst ` set (db_suppressions db) then Inr db
      else Inr (db\<lparr>db_suppressions := db_suppressions db @ [(j, createdAt)]\<rparr>))"

text \<open>A row that may be missing.\<close>

definition store_opt :: "('r \<Rightarrow> db \<Rightarrow> apply_error + db) \<Rightarrow> 'r option \<Rightarrow> db \<Rightarrow> apply_error + db" where
  "store_opt store r db = (case r of None \<Rightarrow> Inr db | Some x \<Rightarrow> store x db)"

end
