(* ===== verification/Reducer_Rows.thy ===== *)
theory Reducer_Rows
  imports Reducer_Lease Reducer_Rewind Reducer_Analyses
begin

text \<open>
  The rows a caller stores in the same transaction as its events (\<open>persistResultRows\<close>): the edit
  lease, the life of agent turns and their tool receipts (\<open>agent_execution_rows.go\<close>), a message with
  the checkpoint a user message opens, the memories of the user, and the rows of \<open>Reducer_Analyses\<close>.
\<close>

record turn_start =
  ts_TurnID :: string
  ts_DraftID :: string
  ts_SourceItemID :: string
  ts_Kind :: string

record turn_finish =
  tf_TurnID :: string
  tf_Status :: string

record message_input =
  mi_ID :: string
  mi_DraftID :: string
  mi_Role :: string
  mi_Kind :: string
  mi_Content :: string
  mi_ContextRefs :: "gval list option"
  mi_CreatedAt :: string

record result_rows =
  rs_Message :: "message_input option"
  rs_MaterialSummaries :: "summary_input list"
  rs_Transcripts :: "transcript_input list"
  rs_AssetAnalyses :: "analysis_input list"
  rs_ShotIndexSnapshots :: "snapshot_input list"
  rs_ContextCheckpoint :: "context_input option"
  rs_PlanUpdate :: "plan_update option"
  rs_Suppressions :: "string list"
  rs_MemoryUpserts :: "memory_input list"
  rs_MemoryRemoveKeys :: "string list"
  rs_MemoryConditionalRemove :: "memory_removal option"
  rs_MemoryClearAll :: bool
  rs_MemoryEvidence :: "memory_evidence option"
  rs_MemoryTouchKeys :: "string list"
  rs_MemoryEdit :: "memory_edit option"
  rs_Lease :: "lease_mutation option"
  rs_Receipt :: "receipt_row option"
  rs_TurnStart :: "turn_start option"
  rs_TurnFinish :: "turn_finish option"
  rs_Interrupt :: bool

definition no_rows :: result_rows where
  "no_rows = \<lparr>rs_Message = None, rs_MaterialSummaries = [], rs_Transcripts = [], rs_AssetAnalyses = [],
     rs_ShotIndexSnapshots = [], rs_ContextCheckpoint = None, rs_PlanUpdate = None, rs_Suppressions = [],
     rs_MemoryUpserts = [], rs_MemoryRemoveKeys = [], rs_MemoryConditionalRemove = None,
     rs_MemoryClearAll = False, rs_MemoryEvidence = None, rs_MemoryTouchKeys = [], rs_MemoryEdit = None,
     rs_Lease = None, rs_Receipt = None, rs_TurnStart = None, rs_TurnFinish = None, rs_Interrupt = False\<rparr>"

definition emptyResultRows :: "result_rows \<Rightarrow> bool" where
  "emptyResultRows r \<longleftrightarrow> rs_Message r = None \<and> rs_MaterialSummaries r = [] \<and> rs_Transcripts r = []
     \<and> rs_AssetAnalyses r = [] \<and> rs_ShotIndexSnapshots r = [] \<and> rs_ContextCheckpoint r = None
     \<and> rs_PlanUpdate r = None \<and> rs_Suppressions r = [] \<and> rs_MemoryUpserts r = []
     \<and> rs_MemoryRemoveKeys r = [] \<and> \<not> rs_MemoryClearAll r \<and> rs_MemoryTouchKeys r = []
     \<and> rs_MemoryEdit r = None \<and> rs_MemoryConditionalRemove r = None \<and> rs_Lease r = None
     \<and> rs_Receipt r = None \<and> rs_TurnStart r = None \<and> rs_TurnFinish r = None \<and> \<not> rs_Interrupt r"

section \<open>Agent turns\<close>

definition validAgentTurnTerminalStatus :: "string \<Rightarrow> bool" where
  "validAgentTurnTerminalStatus s \<longleftrightarrow>
     s \<in> {''finished'', ''waiting_user'', ''cancelled'', ''failed'', ''timeout'', ''lease_lost''}"

definition persistAgentTurnRunStart :: "string \<Rightarrow> turn_start option \<Rightarrow> db \<Rightarrow> apply_error + db" where
  "persistAgentTurnRunStart createdAt run db = (case run of None \<Rightarrow> Inr db | Some r \<Rightarrow>
     if ts_TurnID r = [] \<or> ts_DraftID r = [] \<or> ts_SourceItemID r = [] \<or> ts_Kind r = []
     then Inl (ErrMissing ''turn_run'')
     else let row = \<lparr>tr_turn_id = ts_TurnID r, tr_draft_id = ts_DraftID r,
           tr_source_item_id = ts_SourceItemID r, tr_kind = ts_Kind r, tr_status = ''running'',
           tr_started_at = createdAt, tr_finished_at = None\<rparr>
       in bind_sum (insert_unique tr_turn_id ''agent_turn_runs'' row (db_turn_runs db)) (\<lambda>rows.
          bind_sum (insert_unique (\<lambda>t. (tr_draft_id t, tr_source_item_id t, tr_kind t)) ''agent_turn_runs''
            row (db_turn_runs db)) (\<lambda>_.
          bind_sum (require (refers dr_draft_id (db_drafts db) (Some (ts_DraftID r))) (ErrConstraint ''drafts'')) (\<lambda>_.
          Inr (db\<lparr>db_turn_runs := rows\<rparr>)))))"

definition persistAgentTurnRunFinish :: "string \<Rightarrow> turn_finish option \<Rightarrow> db \<Rightarrow> apply_error + db" where
  "persistAgentTurnRunFinish createdAt run db = (case run of None \<Rightarrow> Inr db | Some r \<Rightarrow>
     if tf_TurnID r = [] \<or> \<not> validAgentTurnTerminalStatus (tf_Status r) then Inl (ErrInput ''turn_run'')
     else let this = (\<lambda>t. tr_turn_id t = tf_TurnID r \<and> tr_status t = ''running'')
       in if rows_affected this (db_turn_runs db) \<noteq> 1 then Inl (ErrInput ''turn_run'')
          else Inr (db\<lparr>db_turn_runs := update_where this
            (\<lambda>t. t\<lparr>tr_status := tf_Status r, tr_finished_at := Some createdAt\<rparr>) (db_turn_runs db)\<rparr>))"

definition persistAgentToolReceipt :: "string \<Rightarrow> receipt_row option \<Rightarrow> db \<Rightarrow> apply_error + db" where
  "persistAgentToolReceipt createdAt receipt db = (case receipt of None \<Rightarrow> Inr db | Some r \<Rightarrow>
     if rc_invocation_key r = [] \<or> rc_draft_id r = [] \<or> rc_source_message_id r = [] \<or> rc_turn_id r = []
        \<or> rc_tool_call_id r = [] \<or> rc_tool_name r = [] \<or> rc_argument_fingerprint r = []
        \<or> rc_after_timeline_id r = [] \<or> rc_after_version r < 1 \<or> rc_terminal_status r = []
        \<or> rc_result r = [] then Inl (ErrMissing ''receipt'')
     else let row = r\<lparr>rc_created_at := createdAt\<rparr> in
       bind_sum (insert_unique rc_invocation_key ''agent_tool_receipts'' row (db_receipts db)) (\<lambda>rows.
       bind_sum (insert_unique (\<lambda>x. (rc_turn_id x, rc_tool_call_id x)) ''agent_tool_receipts'' row (db_receipts db)) (\<lambda>_.
       bind_sum (require (refers dr_draft_id (db_drafts db) (Some (rc_draft_id r))
          \<and> refers tr_turn_id (db_turn_runs db) (Some (rc_turn_id r)) \<and> 0 \<le> rc_before_version r)
          (ErrConstraint ''agent_tool_receipts'')) (\<lambda>_.
       Inr (db\<lparr>db_receipts := rows\<rparr>)))))"

text \<open>
  The note of an interrupted turn, whose text is the object \<open>json_object\<close> builds from the turn;
  \<open>INSERT OR IGNORE\<close> keeps a note that is there.
\<close>

definition interruption_note :: "(string \<Rightarrow> string \<Rightarrow> string) \<Rightarrow> string \<Rightarrow> turn_run_row \<Rightarrow> message_row" where
  "interruption_note json_text createdAt t =
     \<lparr>ms_message_id = ''turn_interrupted:'' @ tr_turn_id t, ms_draft_id = tr_draft_id t, ms_role = ''system'',
      ms_kind = ''turn_interrupted'', ms_content = json_text (tr_turn_id t) (tr_source_item_id t),
      ms_context_refs = GArr [], ms_created_at = createdAt, ms_rewound_at = None,
      ms_rewind_checkpoint_id = None\<rparr>"

fun insert_or_ignore :: "('r \<Rightarrow> 'k) \<Rightarrow> 'r list \<Rightarrow> 'r list \<Rightarrow> 'r list" where
  "insert_or_ignore key [] rows = rows"
| "insert_or_ignore key (r # rs) rows =
     insert_or_ignore key rs (if key r \<in> key ` set rows then rows else rows @ [r])"

definition interruptRunningAgentTurns :: "(string \<Rightarrow> string \<Rightarrow> string) \<Rightarrow> string \<Rightarrow> db \<Rightarrow> db" where
  "interruptRunningAgentTurns json_text createdAt db = (
     let running = (\<lambda>t. tr_status t = ''running'')
     in db\<lparr>db_messages := insert_or_ignore ms_message_id
            (map (interruption_note json_text createdAt) (filter running (db_turn_runs db))) (db_messages db),
          db_turn_runs := update_where running (\<lambda>t. t\<lparr>tr_status := ''interrupted'',
            tr_finished_at := Some createdAt\<rparr>) (db_turn_runs db)\<rparr>)"

section \<open>Messages\<close>

definition persistMessage :: "string \<Rightarrow> message_input option \<Rightarrow> db \<Rightarrow> apply_error + db" where
  "persistMessage defaultCreatedAt message db = (case message of None \<Rightarrow> Inr db | Some m \<Rightarrow>
     let createdAt = (if mi_CreatedAt m = [] then defaultCreatedAt else mi_CreatedAt m)
     in bind_sum (mustJSON (case mi_ContextRefs m of None \<Rightarrow> GNil | Some vs \<Rightarrow> GArr vs)) (\<lambda>refs.
        bind_sum (insert_unique ms_message_id ''messages'' \<lparr>ms_message_id = mi_ID m,
           ms_draft_id = mi_DraftID m, ms_role = mi_Role m,
           ms_kind = (if mi_Kind m = [] then ''reply'' else mi_Kind m), ms_content = mi_Content m,
           ms_context_refs = refs, ms_created_at = createdAt, ms_rewound_at = None,
           ms_rewind_checkpoint_id = None\<rparr> (db_messages db)) (\<lambda>rows.
        bind_sum (require (refers dr_draft_id (db_drafts db) (Some (mi_DraftID m))) (ErrConstraint ''drafts'')) (\<lambda>_.
        let db = db\<lparr>db_messages := rows\<rparr>
        in if mi_Role m = ''user''
           then recordMessageRewindCheckpoint (mi_ID m) (mi_DraftID m) (mi_Content m) createdAt db
           else Inr db))))"

section \<open>Memories\<close>

text \<open>The memory rows of one transaction, with the keys each step wrote or removed.\<close>

definition persistMemoryRows :: "string \<Rightarrow> result_rows \<Rightarrow> db \<Rightarrow> apply_error + (memory_outcome \<times> db)" where
  "persistMemoryRows createdAt rows db =
     bind_sum (persistUserMemories createdAt (rs_MemoryUpserts rows) (rs_MemoryRemoveKeys rows)
        (rs_MemoryClearAll rows) (rs_MemoryEvidence rows) db) (\<lambda>(o', db).
     bind_sum (case rs_MemoryConditionalRemove rows of None \<Rightarrow> Inr (o', db)
       | Some x \<Rightarrow> bind_sum (conditionallyRemoveUserMemory x db) (\<lambda>(removed, db).
           Inr (if removed then o'\<lparr>mo_RemovedKeys := mo_RemovedKeys o' @ [mr_Key x]\<rparr> else o', db))) (\<lambda>(o', db).
     bind_sum (touchUserMemories createdAt (rs_MemoryTouchKeys rows) db) (\<lambda>db.
     case rs_MemoryEdit rows of None \<Rightarrow> Inr (o', db)
       | Some x \<Rightarrow> bind_sum (editUserMemoryStatement createdAt x db) (\<lambda>(edited, db).
           Inr (if edited then o'\<lparr>mo_EditedKeys := mo_EditedKeys o' @ [mt_Key x]\<rparr> else o', db)))))"

section \<open>All rows\<close>

definition persistTurnRows :: "gotime \<Rightarrow> (string \<Rightarrow> string \<Rightarrow> string) \<Rightarrow> string \<Rightarrow> result_rows \<Rightarrow> db
  \<Rightarrow> apply_error + (lease_outcome option \<times> db)" where
  "persistTurnRows clock json_text createdAt rows db =
     bind_sum (case rs_Lease rows of None \<Rightarrow> Inr (None, db)
       | Some m \<Rightarrow> bind_sum (persistAgentEditLeaseMutation clock m db) (\<lambda>(o', db). Inr (Some o', db))) (\<lambda>(outcome, db).
     let db = (if rs_Interrupt rows then interruptRunningAgentTurns json_text createdAt db else db)
     in bind_sum (persistAgentTurnRunStart createdAt (rs_TurnStart rows) db) (\<lambda>db.
        bind_sum (persistAgentTurnRunFinish createdAt (rs_TurnFinish rows) db) (\<lambda>db.
        bind_sum (persistAgentToolReceipt createdAt (rs_Receipt rows) db) (\<lambda>db.
        bind_sum (persistMessage createdAt (rs_Message rows) db) (\<lambda>db.
        Inr (outcome, db))))))"

definition persistAnalysisRows :: "(gval \<Rightarrow> string) \<Rightarrow> string \<Rightarrow> result_rows \<Rightarrow> db \<Rightarrow> apply_error + db" where
  "persistAnalysisRows sha createdAt rows db =
     bind_sum (store_each (store_summary createdAt) (rs_MaterialSummaries rows) db) (\<lambda>db.
     bind_sum (store_each store_transcript (rs_Transcripts rows) db) (\<lambda>db.
     bind_sum (store_each (store_analysis createdAt) (rs_AssetAnalyses rows) db) (\<lambda>db.
     bind_sum (store_each (store_snapshot createdAt) (rs_ShotIndexSnapshots rows) db) (\<lambda>db.
     bind_sum (store_opt (store_context createdAt) (rs_ContextCheckpoint rows) db) (\<lambda>db.
     bind_sum (store_opt (store_plan sha) (rs_PlanUpdate rows) db) (\<lambda>db.
     store_each (store_suppression createdAt) (rs_Suppressions rows) db))))))"

definition persistResultRows :: "gotime \<Rightarrow> (string \<Rightarrow> string \<Rightarrow> string) \<Rightarrow> (gval \<Rightarrow> string) \<Rightarrow> string \<Rightarrow> result_rows \<Rightarrow> db
  \<Rightarrow> apply_error + (lease_outcome option \<times> memory_outcome \<times> db)" where
  "persistResultRows clock json_text sha createdAt rows db =
     bind_sum (persistTurnRows clock json_text createdAt rows db) (\<lambda>(lease, db).
     bind_sum (persistMemoryRows createdAt rows db) (\<lambda>(memory, db).
     bind_sum (persistAnalysisRows sha createdAt rows db) (\<lambda>db.
     Inr (lease, memory, db))))"

lemma persist_no_rows: "persistResultRows clock json_text sha c no_rows db = Inr (None, no_outcome, db)"
  by (simp add: persistResultRows_def persistTurnRows_def persistMemoryRows_def persistAnalysisRows_def no_rows_def
      persistAgentTurnRunStart_def persistAgentTurnRunFinish_def persistAgentToolReceipt_def persistMessage_def
      persistUserMemories_def touchUserMemories_def store_opt_def)

end
