(* ===== verification/Reducer_Assets.thy ===== *)
theory Reducer_Assets
  imports Reducer_State
begin

text \<open>
  The asset events of the reducer: import, probing, proxies and waveform peaks, the understanding
  status of an asset, and the links between drafts and assets.
\<close>

section \<open>Understanding status\<close>

definition update_asset :: "string \<Rightarrow> (asset_row \<Rightarrow> asset_row) \<Rightarrow> db \<Rightarrow> db" where
  "update_asset a f db = db\<lparr>db_assets := update_where (\<lambda>r. as_asset_id r = a) f (db_assets db)\<rparr>"

definition hasReadyMaterialSummary :: "db \<Rightarrow> string \<Rightarrow> bool" where
  "hasReadyMaterialSummary db a \<longleftrightarrow>
     list_ex (\<lambda>s. su_asset_id s = a \<and> su_status s = ''ready'') (db_summaries db)"

text \<open>SQL \<open>TRIM\<close> removes spaces only.\<close>

definition sql_trim :: "string \<Rightarrow> string" where
  "sql_trim s = rev (dropWhile (\<lambda>c. c = CHR '' '') (rev (dropWhile (\<lambda>c. c = CHR '' '') s)))"

text \<open>
  An understand job concerns an asset by its column or, for jobs of an older release, by the list
  \<open>asset_ids\<close> of its payload, whose elements are texts.
\<close>

definition legacy_asset_ids :: "gval \<Rightarrow> string list" where
  "legacy_asset_ids p = [s. GStr s \<leftarrow> sliceValue (gget (mapValue p) ''asset_ids'')]"

definition job_concerns :: "string \<Rightarrow> job_row \<Rightarrow> bool" where
  "job_concerns a j \<longleftrightarrow> jb_kind j = ''understand'' \<and>
     (jb_asset_id j = Some a \<or> jb_asset_id j = None \<and> a \<in> sql_trim ` set (legacy_asset_ids (jb_payload j)))"

text \<open>\<open>ORDER BY finished_at DESC, created_at DESC, rowid DESC LIMIT 1\<close>: \<open>NULL\<close> is the least value.\<close>

definition job_later :: "job_row \<Rightarrow> job_row \<Rightarrow> bool" where
  "job_later j k \<longleftrightarrow> (case (jb_finished_at j, jb_finished_at k) of
       (None, None) \<Rightarrow> jb_created_at j \<le> jb_created_at k
     | (None, Some _) \<Rightarrow> True
     | (Some _, None) \<Rightarrow> False
     | (Some x, Some y) \<Rightarrow> x < y \<or> x = y \<and> jb_created_at j \<le> jb_created_at k)"

definition latest_job :: "job_row list \<Rightarrow> job_row option" where
  "latest_job js = foldl (\<lambda>best j. case best of None \<Rightarrow> Some j
     | Some b \<Rightarrow> if job_later b j then Some j else Some b) None js"

definition set_understanding :: "string \<Rightarrow> gval option \<Rightarrow> asset_row \<Rightarrow> asset_row" where
  "set_understanding status failure r = r\<lparr>as_understanding_status := status, as_failure := failure\<rparr>"

definition reconcileUnderstandingAsset :: "db \<Rightarrow> string \<Rightarrow> gval \<Rightarrow> bool \<Rightarrow> bool \<Rightarrow> apply_error + db" where
  "reconcileUnderstandingAsset db a eventFailure eventCancelled useEventFallback =
     (if hasReadyMaterialSummary db a then Inr (update_asset a (set_understanding ''ready'' None) db)
      else if list_ex (\<lambda>j. job_concerns a j \<and> (jb_status j = ''pending'' \<or> jb_status j = ''running'')) (db_jobs db)
      then Inr (update_asset a (set_understanding ''running'' None) db)
      else if useEventFallback \<and> \<not> eventCancelled then
        bind_sum (nullableJSON eventFailure) (\<lambda>f. Inr (update_asset a (set_understanding ''failed'' f) db))
      else case latest_job (filter (\<lambda>j. job_concerns a j \<and> jb_status j = ''failed'') (db_jobs db)) of
             Some j \<Rightarrow> Inr (update_asset a (set_understanding ''failed'' (jb_error j)) db)
           | None \<Rightarrow> Inr (update_asset a (set_understanding ''none'' None) db))"

section \<open>Asset events\<close>

definition asset_from :: "event \<Rightarrow> string \<Rightarrow> apply_error + asset_row" where
  "asset_from ev a =
     bind_sum (nullableJSON (payload ev ''probe'')) (\<lambda>probe.
     bind_sum (nullableJSON (payload ev ''failure'')) (\<lambda>failure.
     Inr \<lparr>as_asset_id = a,
       as_storage_mode = stringFrom (payload ev ''storage_mode'') ''reference'',
       as_object_hash = nullableString (payload ev ''object_hash''),
       as_reference_path = nullableString (payload ev ''reference_path''),
       as_kind = stringFrom (payload ev ''kind'') ''video'',
       as_source = stringFrom (payload ev ''source'') ''local'',
       as_filename = stringFrom (payload ev ''filename'') [],
       as_hash = stringFrom (payload ev ''hash'') a,
       as_mtime = nullableInt64 (payload ev ''mtime''),
       as_size = int64From (payload ev ''size'') 0,
       as_probe = probe,
       as_proxy_object_hash = nullableString (payload ev ''proxy_object_hash''),
       as_thumbnail_object_hash = nullableString (payload ev ''thumbnail_object_hash''),
       as_peaks_object_hash = None,
       as_ingest_status = stringFrom (payload ev ''ingest_status'') ''imported'',
       as_understanding_status = stringFrom (payload ev ''understanding_status'') ''none'',
       as_usable = boolFrom (payload ev ''usable'') True,
       as_failure = failure\<rparr>))"

definition insert_asset :: "asset_row \<Rightarrow> db \<Rightarrow> apply_error + db" where
  "insert_asset r db =
     bind_sum (insert_unique as_asset_id ''assets'' r (db_assets db)) (\<lambda>rows.
     bind_sum (require (refers ob_hash (db_objects db) (as_object_hash r)
        \<and> refers ob_hash (db_objects db) (as_proxy_object_hash r)
        \<and> refers ob_hash (db_objects db) (as_thumbnail_object_hash r)) (ErrConstraint ''assets'')) (\<lambda>_.
     Inr (db\<lparr>db_assets := rows\<rparr>)))"

definition applyAssetImported :: "apply_state \<Rightarrow> event \<Rightarrow> string \<Rightarrow> apply_error + apply_state" where
  "applyAssetImported st ev a = (
     let h = stringFrom (payload ev ''object_hash'') [];
         db = (if h = [] then st_db st else ensureObject (st_createdAt st) h
                 (int64From (payload ev ''object_size'') (int64From (payload ev ''size'') 0)) (st_db st))
     in bind_sum (asset_from ev a) (\<lambda>r. bind_sum (insert_asset r db) (\<lambda>db. Inr (st\<lparr>st_db := db\<rparr>))))"

definition applyAssetEvent :: handler where
  "applyAssetEvent st ev = (
     let a = stringFrom (payload ev ''asset_id'') []; t = ev_Type ev; created = st_createdAt st
     in if a = [] then Inl (ErrMissing ''asset_id'')
        else if t = ''AssetImported'' then applyAssetImported st ev a
        else if t = ''AssetProbed'' then
          (let h = stringFrom (payload ev ''thumbnail_object_hash'') [];
               db = (if h = [] then st_db st
                     else ensureObject created h (int64From (payload ev ''thumbnail_object_size'') 0) (st_db st))
           in bind_sum (mustJSON (GObj (mapValue (payload ev ''probe'')))) (\<lambda>probe.
              Inr (st\<lparr>st_db := update_asset a (\<lambda>r. r\<lparr>as_probe := Some probe,
                as_thumbnail_object_hash := coalesce_opt (nullableText h) (as_thumbnail_object_hash r),
                as_ingest_status := stringFrom (payload ev ''ingest_status'') ''probed'',
                as_usable := True, as_failure := None\<rparr>) db\<rparr>)))
        else if t = ''ProxyGenerated'' then
          (let h = stringFrom (payload ev ''proxy_object_hash'') []
           in if h = [] then Inl (ErrMissing ''proxy_object_hash'')
              else Inr (with_db (update_asset a (\<lambda>r. r\<lparr>as_proxy_object_hash := Some h,
                  as_ingest_status := stringFrom (payload ev ''ingest_status'') ''ready''\<rparr>)
                \<circ> ensureObject created h (int64From (payload ev ''proxy_object_size'') 0)) st))
        else if t = ''PeaksGenerated'' then
          (let h = stringFrom (payload ev ''peaks_object_hash'') []
           in if h = [] then Inl (ErrMissing ''peaks_object_hash'')
              else Inr (with_db (update_asset a (\<lambda>r. r\<lparr>as_peaks_object_hash := Some h\<rparr>)
                \<circ> ensureObject created h (int64From (payload ev ''peaks_object_size'') 0)) st))
        else if t = ''MaterialUnderstandingStarted'' then
          Inr (with_db (update_asset a (set_understanding
            (if hasReadyMaterialSummary (st_db st) a then ''ready'' else ''running'') None)) st)
        else if t = ''MaterialUnderstandingCompleted'' then
          Inr (with_db (update_asset a (set_understanding ''ready'' None)) st)
        else if t = ''MaterialUnderstandingFailed'' then
          bind_sum (reconcileUnderstandingAsset (st_db st) a (payload ev ''failure'')
            (boolFrom (payload ev ''cancelled'') False) True) (\<lambda>db. Inr (st\<lparr>st_db := db\<rparr>))
        else Inr st)"

section \<open>Links\<close>

definition applyAssetLinked :: handler where
  "applyAssetLinked st ev = (
     let d = ev_DraftID ev; a = stringFrom (payload ev ''asset_id'') [];
         note = stringFrom (payload ev ''note'') []; rel = nullableString (payload ev ''rel_dir'');
         this = (\<lambda>l. li_draft_id l = d \<and> li_asset_id l = a); db = st_db st
     in if list_ex this (db_links db) then
          Inr (st\<lparr>st_db := db\<lparr>db_links := update_where this
            (\<lambda>l. l\<lparr>li_note := note, li_rel_dir := rel\<rparr>) (db_links db)\<rparr>\<rparr>)
        else bind_sum (require (refers dr_draft_id (db_drafts db) (Some d)
            \<and> refers as_asset_id (db_assets db) (Some a)) (ErrConstraint ''draft_asset_links'')) (\<lambda>_.
          Inr (st\<lparr>st_db := db\<lparr>db_links := db_links db @ [\<lparr>li_draft_id = d, li_asset_id = a,
            li_linked_at = st_createdAt st, li_note = note, li_rel_dir = rel\<rparr>]\<rparr>\<rparr>)))"

definition applyAssetUnlinked :: handler where
  "applyAssetUnlinked st ev =
     bind_sum (touch st (ev_DraftID ev)) (\<lambda>st.
       let a = stringFrom (payload ev ''asset_id'') [];
           this = (\<lambda>l. li_draft_id l = ev_DraftID ev \<and> li_asset_id l = a); db = st_db st
       in if rows_affected this (db_links db) \<noteq> 1 then Inl (ErrInput ''asset_id'')
          else Inr (st\<lparr>st_db := db\<lparr>db_links := filter (\<lambda>l. \<not> this l) (db_links db)\<rparr>\<rparr>))"

end
