(* ===== verification/Reducer_Jobs.thy ===== *)
theory Reducer_Jobs
  imports Reducer_Assets
begin

text \<open>
  The job events of the reducer (\<open>applyJob\<close> and its helpers): enqueueing a job, its progress and
  its terminal events with the checks that fence a worker that lost its claim, the understanding
  status of the asset a job works on, and the list of running jobs a draft shows.
\<close>

section \<open>Fencing\<close>

definition job_event_status :: "string \<Rightarrow> string" where
  "job_event_status t = (if t = ''JobEnqueued'' then ''pending'' else if t = ''JobProgress'' then ''running''
     else if t = ''JobSucceeded'' then ''succeeded'' else if t = ''JobFailed'' then ''failed''
     else if t = ''JobCancelled'' then ''cancelled'' else [])"

text \<open>A key that is present in the payload, even with the value \<open>nil\<close>.\<close>

definition payload_has :: "event \<Rightarrow> string \<Rightarrow> bool" where
  "payload_has ev k \<longleftrightarrow> (case ev_Payload ev of None \<Rightarrow> False | Some m \<Rightarrow> ghas m k)"

definition claim_lost :: "event \<Rightarrow> job_row \<Rightarrow> bool" where
  "claim_lost ev j \<longleftrightarrow> (let w = stringFrom (payload ev ''worker_id'') [];
       s = stringFrom (payload ev ''started_at'') []
     in (w \<noteq> [] \<or> s \<noteq> []) \<and> (jb_worker_id j \<noteq> Some w \<or> jb_started_at j \<noteq> Some s))"

definition heartbeat_moved :: "event \<Rightarrow> job_row \<Rightarrow> bool" where
  "heartbeat_moved ev j \<longleftrightarrow> payload_has ev ''heartbeat_at'' \<and>
     (jb_status j \<noteq> ''running'' \<or>
      (let expected = stringFrom (payload ev ''heartbeat_at'') []
       in if expected = [] then jb_heartbeat_at j \<noteq> None else jb_heartbeat_at j \<noteq> Some expected))"

definition check_job :: "event \<Rightarrow> job_row \<Rightarrow> apply_error option" where
  "check_job ev j =
     (if jb_status j = ''cancelled'' \<and> ev_Type ev \<noteq> ''JobCancelled'' then Some ErrJobCancelled
      else if ev_Type ev = ''JobCancelled'' \<and> jb_status j \<notin> {''pending'', ''running'', ''cancelled''}
        then Some ErrJobNotCancellable
      else if claim_lost ev j then Some ErrJobClaimLost
      else if heartbeat_moved ev j then Some ErrJobClaimLost
      else None)"

section \<open>Enqueueing and updating\<close>

definition insert_job :: "job_row \<Rightarrow> db \<Rightarrow> apply_error + db" where
  "insert_job r db =
     bind_sum (insert_unique jb_job_id ''jobs'' r (db_jobs db)) (\<lambda>rows.
     bind_sum (insert_unique (\<lambda>j. (jb_kind j, jb_idempotency_key j)) ''jobs'' r (db_jobs db)) (\<lambda>_.
     bind_sum (require (refers dr_draft_id (db_drafts db) (jb_draft_id r)
        \<and> refers dr_draft_id (db_drafts db) (jb_requested_by_draft_id r)
        \<and> refers as_asset_id (db_assets db) (jb_asset_id r)) (ErrConstraint ''jobs'')) (\<lambda>_.
     Inr (db\<lparr>db_jobs := rows\<rparr>))))"

definition enqueue_job :: "apply_state \<Rightarrow> event \<Rightarrow> string \<Rightarrow> apply_error + db" where
  "enqueue_job st ev j =
     bind_sum (mustJSON (GObj (mapValue (payload ev ''job_payload'')))) (\<lambda>p.
     insert_job \<lparr>jb_job_id = j, jb_kind = stringFrom (payload ev ''kind'') ''unknown'',
       jb_status = job_event_status (ev_Type ev), jb_draft_id = nullableText (ev_DraftID ev),
       jb_requested_by_draft_id = nullableString (payload ev ''requested_by_draft_id''),
       jb_asset_id = nullableString (payload ev ''asset_id''),
       jb_idempotency_key = stringFrom (payload ev ''idempotency_key'') j,
       jb_payload = p, jb_result = None, jb_error = None,
       jb_attempts = intFrom (payload ev ''attempts'') 0,
       jb_max_retries = intFrom (payload ev ''max_retries'') 0,
       jb_next_run_at = stringFrom (payload ev ''next_run_at'') (st_createdAt st),
       jb_priority = intFrom (payload ev ''priority'') 100,
       jb_progress = nullableFloat (payload ev ''progress''),
       jb_worker_id = None, jb_heartbeat_at = None, jb_created_at = st_createdAt st,
       jb_started_at = None, jb_finished_at = None\<rparr> (st_db st))"

definition terminal_status :: "string \<Rightarrow> bool" where
  "terminal_status s \<longleftrightarrow> s = ''succeeded'' \<or> s = ''failed'' \<or> s = ''cancelled''"

definition update_job_row :: "string \<Rightarrow> event \<Rightarrow> gval option \<Rightarrow> gval option \<Rightarrow> job_row \<Rightarrow> job_row" where
  "update_job_row createdAt ev result err r = (let status = job_event_status (ev_Type ev) in
     r\<lparr>jb_status := status,
       jb_progress := coalesce_opt (nullableFloat (payload ev ''progress'')) (jb_progress r),
       jb_result := coalesce_opt result (jb_result r),
       jb_error := coalesce_opt err (jb_error r),
       jb_attempts := (case nullableInt64 (payload ev ''attempts'') of None \<Rightarrow> jb_attempts r | Some n \<Rightarrow> n),
       jb_finished_at := coalesce_opt (if terminal_status status then Some createdAt else None) (jb_finished_at r)\<rparr>)"

definition update_job :: "apply_state \<Rightarrow> event \<Rightarrow> job_row \<Rightarrow> apply_error + db" where
  "update_job st ev current =
     bind_sum (nullableJSON (payload ev ''result'')) (\<lambda>result.
     bind_sum (nullableJSON (payload ev ''error'')) (\<lambda>err.
     let db = st_db st; db = db\<lparr>db_jobs := update_where (\<lambda>r. jb_job_id r = jb_job_id current)
           (update_job_row (st_createdAt st) ev result err) (db_jobs db)\<rparr>
     in if ev_Type ev = ''JobFailed'' \<and> jb_kind current = ''ingest'' then
          (case jb_asset_id current of None \<Rightarrow> Inr db | Some a \<Rightarrow>
             if a = [] then Inr db
             else Inr (update_asset a (\<lambda>r. r\<lparr>as_ingest_status := ''failed'', as_usable := False,
               as_failure := err\<rparr>) db))
        else Inr db))"

section \<open>The asset of an understand job\<close>

text \<open>
  A job of an older release names several assets in its payload; a blank or repeated name is
  skipped.  A payload that is no object, or whose \<open>asset_ids\<close> is no list of texts, does not decode.
\<close>

definition decode_legacy_ids :: "gval \<Rightarrow> string list option" where
  "decode_legacy_ids p = (case p of
       GObj m \<Rightarrow> (case gget m ''asset_ids'' of
           GNil \<Rightarrow> Some []
         | GArr vs \<Rightarrow> if list_all (\<lambda>v. case v of GStr _ \<Rightarrow> True | GNil \<Rightarrow> True | _ \<Rightarrow> False) vs
             then Some (map (\<lambda>v. stringFrom v []) vs) else None
         | _ \<Rightarrow> None)
     | GNil \<Rightarrow> Some []
     | _ \<Rightarrow> None)"

fun unique_assets :: "string list \<Rightarrow> string list \<Rightarrow> string list" where
  "unique_assets seen [] = []"
| "unique_assets seen (raw # raws) = (let a = TrimSpace raw in
     if a = [] \<or> a \<in> set seen then unique_assets seen raws else a # unique_assets (a # seen) raws)"

fun reconcile_each :: "event \<Rightarrow> string list \<Rightarrow> db \<Rightarrow> apply_error + db" where
  "reconcile_each ev [] db = Inr db"
| "reconcile_each ev (a # as) db =
     bind_sum (reconcileUnderstandingAsset db a (payload ev ''error'') (ev_Type ev = ''JobCancelled'')
       (ev_Type ev = ''JobFailed'')) (\<lambda>db. reconcile_each ev as db)"

definition reconcileUnderstandJobAsset :: "db \<Rightarrow> string \<Rightarrow> event \<Rightarrow> apply_error + db" where
  "reconcileUnderstandJobAsset db j ev = (case find_job j db of
     None \<Rightarrow> Inl ErrNoRows
   | Some r \<Rightarrow>
       let a = (case jb_asset_id r of None \<Rightarrow> [] | Some a \<Rightarrow> TrimSpace a)
       in if jb_kind r \<noteq> ''understand'' then Inr db
          else if a \<noteq> [] then reconcileUnderstandingAsset db a GNil False False
          else if ev_Type ev = ''JobEnqueued'' then Inl (ErrMissing ''asset_id'')
          else case decode_legacy_ids (jb_payload r) of
                 None \<Rightarrow> Inl (ErrInput ''payload_json'')
               | Some raws \<Rightarrow> (let ids = unique_assets [] raws in
                   if ids = [] then Inl (ErrMissing ''asset_id'') else reconcile_each ev ids db))"

section \<open>Running jobs of a draft\<close>

definition running_entry :: "event \<Rightarrow> string \<Rightarrow> string \<Rightarrow> gmap" where
  "running_entry ev j status =
     [(''job_id'', GStr j), (''kind'', GStr (stringFrom (payload ev ''kind'') ''unknown'')),
      (''status'', GStr status), (''progress'', payload ev ''progress'')]"

definition updateRunningJobs :: "apply_state \<Rightarrow> string \<Rightarrow> string \<Rightarrow> string \<Rightarrow> event \<Rightarrow> apply_error + apply_state" where
  "updateRunningJobs st d j status ev = bind_sum (touch st d) (\<lambda>st.
     case find_draft d (st_db st) of None \<Rightarrow> Inl ErrNoRows | Some draft \<Rightarrow>
       let kept = filter (\<lambda>m. stringFrom (gget m ''job_id'') [] \<noteq> j) (dr_running_jobs draft);
           entries = kept @ (if status = ''pending'' \<or> status = ''running'' then [running_entry ev j status] else [])
       in bind_sum (mustJSON (GArr (map GObj entries))) (\<lambda>_.
          Inr (with_db (update_draft d (\<lambda>r. r\<lparr>dr_running_jobs := map json_norm_map entries\<rparr>)) st)))"

section \<open>The handler\<close>

definition applyJob :: handler where
  "applyJob st ev = (
     let j = stringFrom (payload ev ''job_id'') [];
         status = job_event_status (ev_Type ev)
     in if j = [] then Inl (ErrMissing ''job_id'') else
        bind_sum (if ev_Type ev = ''JobEnqueued'' then enqueue_job st ev j
          else case find_job j (st_db st) of None \<Rightarrow> Inl ErrNoRows | Some current \<Rightarrow>
            (case check_job ev current of Some e \<Rightarrow> Inl e | None \<Rightarrow> update_job st ev current)) (\<lambda>db.
        bind_sum (reconcileUnderstandJobAsset db j ev) (\<lambda>db.
        let d = stringFrom (payload ev ''requested_by_draft_id'') (ev_DraftID ev); st = st\<lparr>st_db := db\<rparr>
        in if d = [] then Inr st else updateRunningJobs st d j status ev)))"

end
