(* ===== verification/Reducer_Apply.thy ===== *)
theory Reducer_Apply
  imports Reducer_Rows Reducer_Jobs
begin

text \<open>
  \<open>reducer.Apply\<close>: one transaction that normalises and validates a batch of events, checks the lease
  and the job claim it runs under, refuses it when a strict event was written against another
  version of its draft, skips the merge events that are in the log already, applies the others,
  stores the rows that come with them, advances the version of every draft that changed and
  appends the events to the log.  The result is an error or the outcome with the database after
  the transaction; an outcome other than \<open>StatusApplied\<close> leaves the database as it was.
\<close>

section \<open>Options and results\<close>

datatype status = StatusApplied | StatusVersionConflict | StatusValidationFailed

record version_conflict =
  vc_DraftID :: string
  vc_ExpectedBaseVersion :: "goint option"
  vc_ActualStateVersion :: goint
  vc_EventType :: string

record applied_event =
  ae_ID :: goint
  ae_Type :: string
  ae_StateVersion :: "goint option"

record apply_result =
  ar_Status :: status
  ar_AppliedEvents :: "applied_event list"
  ar_DraftStateVersions :: "(string \<times> goint) list"
  ar_Conflict :: "version_conflict option"
  ar_SkippedEvents :: nat
  ar_Memory :: "memory_outcome option"
  ar_Lease :: "lease_outcome option"
  ar_Affected :: "(string \<times> string) list option"

record job_claim =
  jc_JobID :: string
  jc_WorkerID :: string
  jc_StartedAt :: string

record options =
  op_BaseVersion :: "goint option"
  op_Actor :: actor
  op_CreatedAt :: gotime
  op_ResultRows :: result_rows
  op_Validate :: "(db \<Rightarrow> string list \<Rightarrow> bool) option"
  op_JobClaim :: "job_claim option"
  op_RewindRestore :: "restore_row option"
  op_Admission :: "write_admission option"

text \<open>
  What the environment supplies: the time, SQLite's \<open>json_object\<close> for an interruption note, and the
  standard library's SHA-256 of the JSON text of a value.
\<close>

record env =
  en_now :: gotime
  en_json_text :: "string \<Rightarrow> string \<Rightarrow> string"
  en_sha :: "gval \<Rightarrow> string"

definition outcome :: "status \<Rightarrow> apply_result" where
  "outcome s = \<lparr>ar_Status = s, ar_AppliedEvents = [], ar_DraftStateVersions = [], ar_Conflict = None,
     ar_SkippedEvents = 0, ar_Memory = None, ar_Lease = None, ar_Affected = None\<rparr>"

section \<open>Normalising\<close>

definition normalize_event :: "options \<Rightarrow> string \<Rightarrow> event \<Rightarrow> apply_error + event" where
  "normalize_event op createdAt ev0 = (
     let ev = ev0\<lparr>ev_Actor := op_Actor op, ev_CreatedAt := createdAt\<rparr>
     in case event_Spec ev of None \<Rightarrow> Inl (ErrEvent (UnknownEvent (ev_Type ev)))
     | Some _ \<Rightarrow>
       let mode = VersionMode ev;
           ev = (if mode = Some VersionStrict \<and> ev_BaseVersion ev = None
                 then ev\<lparr>ev_BaseVersion := op_BaseVersion op\<rparr> else ev);
           ev = (if mode = Some VersionMerge then ev\<lparr>ev_BaseVersion := None\<rparr> else ev)
       in case event_Validate ev of Some e \<Rightarrow> Inl (ErrEvent e) | None \<Rightarrow> Inr ev)"

section \<open>Admission\<close>

definition validateJobClaim :: "db \<Rightarrow> job_claim \<Rightarrow> apply_error option" where
  "validateJobClaim db c =
     (if jc_JobID c = [] \<or> jc_WorkerID c = [] \<or> jc_StartedAt c = [] then Some (ErrMissing ''job_claim'')
      else case find_job (jc_JobID c) db of None \<Rightarrow> Some ErrNoRows | Some j \<Rightarrow>
        if jb_status j = ''cancelled'' then Some ErrJobCancelled
        else if jb_status j \<noteq> ''running'' \<or> jb_worker_id j \<noteq> Some (jc_WorkerID c)
          \<or> jb_started_at j \<noteq> Some (jc_StartedAt c) then Some ErrJobClaimLost
        else None)"

fun preflightStrict :: "apply_state \<Rightarrow> event list \<Rightarrow> apply_error + (version_conflict option \<times> apply_state)" where
  "preflightStrict st [] = Inr (None, st)"
| "preflightStrict st (ev # evs) =
     (if VersionMode ev \<noteq> Some VersionStrict then preflightStrict st evs
      else if ev_DraftID ev = [] then Inl (ErrMissing ''draft_id'')
      else bind_sum (st_version st (ev_DraftID ev)) (\<lambda>(actual, st).
        if ev_BaseVersion ev \<noteq> Some actual
        then Inr (Some \<lparr>vc_DraftID = ev_DraftID ev, vc_ExpectedBaseVersion = ev_BaseVersion ev,
          vc_ActualStateVersion = actual, vc_EventType = ev_Type ev\<rparr>, st)
        else preflightStrict st evs))"

definition logged :: "db \<Rightarrow> string \<Rightarrow> string \<Rightarrow> bool" where
  "logged db t key \<longleftrightarrow> list_ex (\<lambda>r. el_event_type r = t \<and> el_merge_key r = Some key) (db_event_log db)"

text \<open>The merge key, empty when the event has none, and whether the log holds it.\<close>

definition existingMergeEvent :: "db \<Rightarrow> event \<Rightarrow> apply_error + (string \<times> bool)" where
  "existingMergeEvent db ev = (case MergeKey ev of
       Inl e \<Rightarrow> Inl (ErrEvent e)
     | Inr key \<Rightarrow> if key = [] then Inr ([], False) else Inr (key, logged db (ev_Type ev) key))"

section \<open>Dispatch\<close>

definition eventApplyRegistry :: "(string \<times> handler) list" where
  "eventApplyRegistry =
    [(''DraftCreated'', applyDraftCreated),
     (''DraftRenamed'', applyDraftLifecycle),
     (''DraftCopied'', applyDraftLifecycle),
     (''DraftTrashed'', applyDraftLifecycle),
     (''AssetImported'', applyAssetEvent),
     (''AssetProbed'', applyAssetEvent),
     (''ProxyGenerated'', applyAssetEvent),
     (''PeaksGenerated'', applyAssetEvent),
     (''MaterialUnderstandingStarted'', applyAssetEvent),
     (''MaterialUnderstandingCompleted'', applyAssetEvent),
     (''MaterialUnderstandingFailed'', applyAssetEvent),
     (''AssetLinked'', applyAssetLinked),
     (''AssetUnlinked'', applyAssetUnlinked),
     (''DecisionCreated'', applyDecisionCreated),
     (''DecisionAnswered'', applyDecisionAnswered),
     (''ConversationContextCleared'', applyConversationContextCleared),
     (''TimelineVersionCreated'', applyTimelineCreated),
     (''TimelineVersionRestored'', applyTimelineRestored),
     (''TimelineValidated'', applyTimelineValidation),
     (''TimelineValidationFailed'', applyTimelineValidation),
     (''PreviewRendered'', applyPreviewRendered),
     (''PreviewViewed'', applyPreviewViewed),
     (''ExportCompleted'', applyExportCompleted),
     (''JobEnqueued'', applyJob),
     (''JobProgress'', applyJob),
     (''JobSucceeded'', applyJob),
     (''JobFailed'', applyJob),
     (''JobCancelled'', applyJob)]"

definition applyEvent :: handler where
  "applyEvent st ev = (case map_of eventApplyRegistry (ev_Type ev) of
     None \<Rightarrow> Inl (ErrInput (ev_Type ev)) | Some handle \<Rightarrow> handle st ev)"

text \<open>
  The loop over the batch.  \<open>seen\<close> are the merge keys of this batch by event type; Go joins the two
  with a NUL character, which no event type contains.
\<close>

fun apply_events :: "apply_state \<Rightarrow> (string \<times> string) list \<Rightarrow> event list \<Rightarrow> apply_error + apply_state" where
  "apply_events st seen [] = Inr st"
| "apply_events st seen (ev # evs) =
     bind_sum (existingMergeEvent (st_db st) ev) (\<lambda>(key, duplicate).
       if duplicate \<or> key \<noteq> [] \<and> (ev_Type ev, key) \<in> set seen
       then apply_events (st\<lparr>st_skipped := Suc (st_skipped st)\<rparr>) seen evs
       else bind_sum (applyEvent st ev) (\<lambda>st.
         apply_events (st\<lparr>st_eventsToLog := st_eventsToLog st @ [ev]\<rparr>)
           (if key = [] then seen else (ev_Type ev, key) # seen) evs))"

section \<open>Versions and the log\<close>

text \<open>\<open>UPDATE drafts ... WHERE state_version=?\<close> for every draft the events touched.\<close>

fun bump_versions :: "string \<Rightarrow> (string \<rightharpoonup> goint) \<Rightarrow> string list \<Rightarrow> db
  \<Rightarrow> apply_error + (version_conflict option \<times> (string \<times> goint) list \<times> db)" where
  "bump_versions createdAt original [] db = Inr (None, [], db)"
| "bump_versions createdAt original (d # ds) db = (
     let expected = (case original d of None \<Rightarrow> 0 | Some v \<Rightarrow> v);
         this = (\<lambda>r. dr_draft_id r = d \<and> dr_state_version r = expected)
     in if rows_affected this (db_drafts db) \<noteq> 1 then
          bind_sum (lookupDraftVersion db d) (\<lambda>actual. Inr (Some \<lparr>vc_DraftID = d,
            vc_ExpectedBaseVersion = Some expected, vc_ActualStateVersion = actual,
            vc_EventType = ''DraftStateUpdate''\<rparr>, [], db))
        else bind_sum (bump_versions createdAt original ds (db\<lparr>db_drafts := update_where this
            (\<lambda>r. r\<lparr>dr_state_version := expected + 1, dr_updated_at := createdAt\<rparr>) (db_drafts db)\<rparr>))
          (\<lambda>(conflict, versions, db). Inr (conflict, (d, expected + 1) # versions, db)))"

definition log_draft :: "event \<Rightarrow> string" where
  "log_draft ev = (if ev_DraftID ev = [] then stringFrom (payload ev ''requested_by_draft_id'') [] else ev_DraftID ev)"

definition log_version :: "(string \<times> goint) list \<Rightarrow> string \<Rightarrow> db \<Rightarrow> goint option" where
  "log_version versions d db = (case map_of versions d of
       Some v \<Rightarrow> Some v
     | None \<Rightarrow> if d = [] then None else (case find_draft d db of None \<Rightarrow> None | Some r \<Rightarrow> Some (dr_state_version r)))"

definition payload_encodes :: "event \<Rightarrow> bool" where
  "payload_encodes ev \<longleftrightarrow> (case ev_Payload ev of None \<Rightarrow> True | Some m \<Rightarrow> json_ok (GObj m))"

definition append_event :: "string \<Rightarrow> (string \<times> goint) list \<Rightarrow> event \<Rightarrow> db \<Rightarrow> apply_error + (applied_event \<times> db)" where
  "append_event createdAt versions ev db =
     (if \<not> payload_encodes ev then Inl ErrEncode
      else case MergeKey ev of Inl e \<Rightarrow> Inl (ErrEvent e) | Inr mergeKey \<Rightarrow>
        let key = nullableText mergeKey; d = log_draft ev; v = log_version versions d db;
            ident = db_event_seq db + 1;
            row = \<lparr>el_event_id = ident, el_event_type = ev_Type ev, el_actor = ev_Actor ev,
              el_draft_id = nullableText d, el_payload = ev, el_merge_key = key, el_state_version = v,
              el_created_at = createdAt\<rparr>
        in if key \<noteq> None \<and> logged db (ev_Type ev) mergeKey then Inl (ErrConstraint ''ux_event_log_merge'')
           else if \<not> refers dr_draft_id (db_drafts db) (nullableText d) then Inl (ErrConstraint ''event_log'')
           else Inr (\<lparr>ae_ID = ident, ae_Type = ev_Type ev, ae_StateVersion = v\<rparr>,
             db\<lparr>db_event_log := db_event_log db @ [row], db_event_seq := ident\<rparr>))"

fun appendEvents :: "string \<Rightarrow> (string \<times> goint) list \<Rightarrow> event list \<Rightarrow> db
  \<Rightarrow> apply_error + (applied_event list \<times> db)" where
  "appendEvents createdAt versions [] db = Inr ([], db)"
| "appendEvents createdAt versions (ev # evs) db =
     bind_sum (append_event createdAt versions ev db) (\<lambda>(a, db).
     bind_sum (appendEvents createdAt versions evs db) (\<lambda>(as, db). Inr (a # as, db)))"

section \<open>Rewind requests\<close>

definition begin_restore :: "string \<Rightarrow> restore_row option \<Rightarrow> db \<Rightarrow> apply_error + db" where
  "begin_restore createdAt restore db = (case restore of None \<Rightarrow> Inr db | Some r \<Rightarrow>
     if list_ex (\<lambda>x. rr_draft_id x = rr_draft_id r \<and> rr_idempotency_key x = rr_idempotency_key r) (db_restores db)
     then Inl ErrRewindRestoreDuplicate
     else bind_sum (require (refers dr_draft_id (db_drafts db) (Some (rr_draft_id r))
         \<and> rr_mode r \<in> {''timeline'', ''conversation'', ''both''}) (ErrConstraint ''rewind_restore_requests'')) (\<lambda>_.
       Inr (db\<lparr>db_restores := db_restores db @ [r\<lparr>rr_event_ids := [], rr_affected_memories := [],
         rr_created_at := createdAt\<rparr>]\<rparr>)))"

definition finish_restore :: "restore_row option \<Rightarrow> goint list \<Rightarrow> (string \<times> string) list \<Rightarrow> db \<Rightarrow> db" where
  "finish_restore restore ids affected db = (case restore of None \<Rightarrow> db | Some r \<Rightarrow>
     db\<lparr>db_restores := update_where (\<lambda>x. rr_draft_id x = rr_draft_id r
       \<and> rr_idempotency_key x = rr_idempotency_key r)
       (\<lambda>x. x\<lparr>rr_event_ids := ids, rr_affected_memories := affected\<rparr>) (db_restores db)\<rparr>)"

section \<open>Apply\<close>

definition initial_state :: "string \<Rightarrow> db \<Rightarrow> apply_state" where
  "initial_state createdAt db = \<lparr>st_db = db, st_createdAt = createdAt, st_original = Map.empty,
     st_touched = [], st_eventsToLog = [], st_skipped = 0, st_affected = None\<rparr>"

text \<open>Which rows an actor may store, and which do not go together.\<close>

definition check_rows :: "actor \<Rightarrow> result_rows \<Rightarrow> apply_error option" where
  "check_rows actor rows =
     (if (rs_MemoryEdit rows \<noteq> None \<or> rs_MemoryConditionalRemove rows \<noteq> None) \<and> actor \<noteq> ActorUser
      then Some ErrUserMemoryInput
      else if rs_Lease rows \<noteq> None \<and> actor \<noteq> ActorAgent then Some ErrActor
      else if rs_MemoryConditionalRemove rows \<noteq> None \<and> (rs_MemoryUpserts rows \<noteq> [] \<or> rs_MemoryRemoveKeys rows \<noteq> []
        \<or> rs_MemoryClearAll rows \<or> rs_MemoryEvidence rows \<noteq> None \<or> rs_MemoryEdit rows \<noteq> None)
      then Some ErrUserMemoryInput
      else None)"

definition writes_memory :: "result_rows \<Rightarrow> bool" where
  "writes_memory rows \<longleftrightarrow> rs_MemoryUpserts rows \<noteq> [] \<or> rs_MemoryRemoveKeys rows \<noteq> [] \<or> rs_MemoryClearAll rows
     \<or> rs_MemoryEdit rows \<noteq> None \<or> rs_MemoryConditionalRemove rows \<noteq> None"

lemma no_rows_checks [simp]: "check_rows a no_rows = None" "\<not> writes_memory no_rows" "emptyResultRows no_rows"
  by (simp_all add: check_rows_def writes_memory_def emptyResultRows_def no_rows_def)

text \<open>The versions and the log, once the rows are stored.\<close>

definition seal :: "options \<Rightarrow> string \<Rightarrow> apply_state \<Rightarrow> db \<Rightarrow> lease_outcome option \<Rightarrow> memory_outcome \<Rightarrow> db
  \<Rightarrow> apply_error + (apply_result \<times> db)" where
  "seal op createdAt st db0 lease memory db =
     bind_sum (bump_versions createdAt (st_original st) (sortedKeys (st_touched st)) db) (\<lambda>(conflict, versions, db).
     case conflict of Some c \<Rightarrow> Inr (outcome StatusVersionConflict\<lparr>ar_Conflict := Some c\<rparr>, db0)
     | None \<Rightarrow>
       bind_sum (appendEvents createdAt versions (st_eventsToLog st) db) (\<lambda>(applied, db).
       Inr (\<lparr>ar_Status = StatusApplied, ar_AppliedEvents = applied, ar_DraftStateVersions = versions,
         ar_Conflict = None, ar_SkippedEvents = st_skipped st,
         ar_Memory = (if writes_memory (op_ResultRows op) then Some memory else None), ar_Lease = lease,
         ar_Affected = st_affected st\<rparr>,
         finish_restore (op_RewindRestore op) (map ae_ID applied)
           (case st_affected st of None \<Rightarrow> [] | Some ms \<Rightarrow> ms) db)))"

text \<open>
  The end of the transaction, from the state after the events.  A plan that was changed since it
  was read is reported like a version conflict, without details.
\<close>

definition finish :: "env \<Rightarrow> options \<Rightarrow> string \<Rightarrow> apply_state \<Rightarrow> db \<Rightarrow> apply_error + (apply_result \<times> db)" where
  "finish en op createdAt st db0 = (let rows = op_ResultRows op in
     if (case op_Validate op of None \<Rightarrow> False | Some ok \<Rightarrow> \<not> ok (st_db st) (sortedKeys (st_touched st)))
     then Inr (outcome StatusValidationFailed, db0)
     else case check_rows (op_Actor op) rows of Some e \<Rightarrow> Inl e | None \<Rightarrow>
       case persistResultRows (en_now en) (en_json_text en) (en_sha en) createdAt rows (st_db st) of
         Inl e \<Rightarrow> if e = ErrDraftPlanConflict then Inr (outcome StatusVersionConflict, db0) else Inl e
       | Inr (lease, memory, db) \<Rightarrow> seal op createdAt st db0 lease memory db)"

text \<open>The checks before the events: the edit lease, the restore request and the job claim.\<close>

definition admit :: "env \<Rightarrow> options \<Rightarrow> string \<Rightarrow> event list \<Rightarrow> db \<Rightarrow> apply_error + db" where
  "admit en op createdAt evs db =
     (case validateTimelineWriteAdmission (en_now en) db evs (op_Actor op) (op_Admission op) of
        Some e \<Rightarrow> Inl e
      | None \<Rightarrow> bind_sum (begin_restore createdAt (op_RewindRestore op) db) (\<lambda>db1.
          case (case op_JobClaim op of None \<Rightarrow> None | Some c \<Rightarrow> validateJobClaim db1 c) of
            Some e \<Rightarrow> Inl e | None \<Rightarrow> Inr db1))"

definition run_events :: "env \<Rightarrow> options \<Rightarrow> string \<Rightarrow> event list \<Rightarrow> db \<Rightarrow> db \<Rightarrow> apply_error + (apply_result \<times> db)" where
  "run_events en op createdAt evs db db1 =
     bind_sum (preflightStrict (initial_state createdAt db1) evs) (\<lambda>(conflict, st).
       case conflict of
         Some c \<Rightarrow> Inr (outcome StatusVersionConflict\<lparr>ar_Conflict := Some c\<rparr>, db)
       | None \<Rightarrow> bind_sum (apply_events st [] evs) (\<lambda>st. finish en op createdAt st db))"

definition created_at :: "env \<Rightarrow> options \<Rightarrow> string" where
  "created_at en op = RFC3339Nano
     (if time_IsZero (op_CreatedAt op) then time_UTC (en_now en) else op_CreatedAt op)"

definition Apply :: "env \<Rightarrow> options \<Rightarrow> event list \<Rightarrow> db \<Rightarrow> apply_error + (apply_result \<times> db)" where
  "Apply en op evs db =
     (if \<not> actor_valid (op_Actor op) then Inl ErrActor
      else if evs = [] \<and> emptyResultRows (op_ResultRows op) then Inr (outcome StatusApplied, db)
      else bind_sum (map_bind (normalize_event op (created_at en op)) evs) (\<lambda>evs.
           bind_sum (admit en op (created_at en op) evs db) (\<lambda>db1.
           run_events en op (created_at en op) evs db db1)))"

end
