(* ===== verification/Worker_Jobs.thy ===== *)
theory Worker_Jobs
  imports Reducer_Apply
begin

text \<open>
  The job queue of the workers (\<open>worker/job.go\<close>): claiming the next job of a lane, heartbeats,
  giving a claim back, scheduling a retry, and recovering the jobs of workers that stopped
  answering.  A claim is the pair of worker and start time stored in the row of the running job;
  every later write of the worker names it, so that a worker that lost its claim writes nothing.
\<close>

section \<open>Jobs\<close>

record job =
  wj_ID :: string
  wj_Kind :: string
  wj_Status :: string
  wj_DraftID :: "string option"
  wj_RequestedByDraftID :: "string option"
  wj_AssetID :: "string option"
  wj_Payload :: gmap
  wj_Attempts :: goint
  wj_MaxRetries :: goint
  wj_Priority :: goint
  wj_WorkerID :: "string option"
  wj_StartedAt :: "string option"
  wj_HeartbeatAt :: "string option"

datatype worker_error =
    ErrClaimFilter
  | ErrNotFound
  | ErrJobPayload string
  | ErrReducer apply_error
  | ErrTerminalStatus status
  | ErrArtifact string

text \<open>\<open>value\<close>: a missing text reads as the empty one.\<close>

definition text_value :: "string option \<Rightarrow> string" where
  "text_value v = (case v of None \<Rightarrow> [] | Some s \<Rightarrow> s)"

lemma text_value_simps [simp]: "text_value None = []" "text_value (Some s) = s"
  by (simp_all add: text_value_def)

definition scanJob :: "job_row \<Rightarrow> worker_error + job" where
  "scanJob r = (
     let scanned = (\<lambda>p. \<lparr>wj_ID = jb_job_id r, wj_Kind = jb_kind r, wj_Status = jb_status r,
           wj_DraftID = jb_draft_id r, wj_RequestedByDraftID = jb_requested_by_draft_id r,
           wj_AssetID = jb_asset_id r, wj_Payload = p, wj_Attempts = jb_attempts r,
           wj_MaxRetries = jb_max_retries r, wj_Priority = jb_priority r, wj_WorkerID = jb_worker_id r,
           wj_StartedAt = jb_started_at r, wj_HeartbeatAt = jb_heartbeat_at r\<rparr>)
     in case jb_payload r of
          GObj m \<Rightarrow> Inr (scanned m)
        | GNil \<Rightarrow> Inr (scanned [])
        | _ \<Rightarrow> Inl (ErrJobPayload (jb_job_id r)))"

definition GetJob :: "db \<Rightarrow> string \<Rightarrow> worker_error + job" where
  "GetJob db j = (case find_job j db of None \<Rightarrow> Inl ErrNotFound | Some r \<Rightarrow> scanJob r)"

section \<open>Claiming\<close>

record claim_filter =
  IncludeKinds :: "string list"
  ExcludeKinds :: "string list"

definition no_filter :: claim_filter where
  "no_filter = \<lparr>IncludeKinds = [], ExcludeKinds = []\<rparr>"

definition claimKindPredicate :: "claim_filter \<Rightarrow> string \<Rightarrow> bool" where
  "claimKindPredicate f kind \<longleftrightarrow>
     (if IncludeKinds f \<noteq> [] then kind \<in> set (IncludeKinds f)
      else if ExcludeKinds f \<noteq> [] then kind \<notin> set (ExcludeKinds f) else True)"

definition claimable :: "claim_filter \<Rightarrow> string \<Rightarrow> job_row \<Rightarrow> bool" where
  "claimable f timestamp r \<longleftrightarrow> jb_status r = ''pending'' \<and> jb_next_run_at r \<le> timestamp
     \<and> claimKindPredicate f (jb_kind r)"

definition claim_order :: "job_row \<Rightarrow> goint \<times> string \<times> string" where
  "claim_order r = (jb_priority r, jb_created_at r, jb_job_id r)"

definition claim_row :: "string \<Rightarrow> string \<Rightarrow> job_row \<Rightarrow> job_row" where
  "claim_row workerID timestamp r = r\<lparr>jb_status := ''running'', jb_worker_id := Some workerID,
     jb_started_at := Some timestamp, jb_heartbeat_at := Some timestamp\<rparr>"

text \<open>
  One statement selects the first claimable row and updates it; a row that does not decode aborts
  the transaction.
\<close>

definition ClaimMatching :: "db \<Rightarrow> string \<Rightarrow> gotime \<Rightarrow> claim_filter \<Rightarrow> worker_error + (job option \<times> db)" where
  "ClaimMatching db workerID now f =
     (if IncludeKinds f \<noteq> [] \<and> ExcludeKinds f \<noteq> [] then Inl ErrClaimFilter
      else let timestamp = RFC3339Nano (time_UTC now)
        in case sort_key claim_order (filter (claimable f timestamp) (db_jobs db)) of
             [] \<Rightarrow> Inr (None, db)
           | r # _ \<Rightarrow> bind_sum (scanJob (claim_row workerID timestamp r)) (\<lambda>job.
               Inr (Some job, db\<lparr>db_jobs := update_where
                 (\<lambda>x. jb_job_id x = jb_job_id r \<and> jb_status x = ''pending'')
                 (claim_row workerID timestamp) (db_jobs db)\<rparr>)))"

definition Claim :: "db \<Rightarrow> string \<Rightarrow> gotime \<Rightarrow> worker_error + (job option \<times> db)" where
  "Claim db workerID now = ClaimMatching db workerID now no_filter"

section \<open>Writes under a claim\<close>

definition holds_claim :: "job \<Rightarrow> job_row \<Rightarrow> bool" where
  "holds_claim job r \<longleftrightarrow> jb_job_id r = wj_ID job \<and> jb_worker_id r = Some (text_value (wj_WorkerID job))
     \<and> jb_started_at r = Some (text_value (wj_StartedAt job)) \<and> jb_status r = ''running''"

text \<open>An update of the claimed row, and whether it changed exactly one.\<close>

definition claimed_update :: "job \<Rightarrow> (job_row \<Rightarrow> job_row) \<Rightarrow> db \<Rightarrow> bool \<times> db" where
  "claimed_update job f db = (rows_affected (holds_claim job) (db_jobs db) = 1,
     db\<lparr>db_jobs := update_where (holds_claim job) f (db_jobs db)\<rparr>)"

definition Heartbeat :: "db \<Rightarrow> job \<Rightarrow> gotime \<Rightarrow> bool \<times> db" where
  "Heartbeat db job now =
     claimed_update job (\<lambda>r. r\<lparr>jb_heartbeat_at := Some (RFC3339Nano (time_UTC now))\<rparr>) db"

definition unclaim_row :: "job_row \<Rightarrow> job_row" where
  "unclaim_row r = r\<lparr>jb_status := ''pending'', jb_worker_id := None, jb_heartbeat_at := None, jb_started_at := None\<rparr>"

definition ReleaseClaim :: "db \<Rightarrow> job \<Rightarrow> bool \<times> db" where
  "ReleaseClaim db job = claimed_update job unclaim_row db"

text \<open>\<open>1 << min(attempts-1, 6)\<close> seconds, at most a minute.\<close>

definition RetryDelay :: "goint \<Rightarrow> duration" where
  "RetryDelay attempts0 = (
     let attempts = (if attempts0 < 1 then 1 else attempts0);
         seconds = push_bit (nat (min (attempts - 1) 6)) (1 :: int)
     in (if seconds > 60 then 60 else seconds) * time_Second)"

definition ScheduleRetry :: "db \<Rightarrow> job \<Rightarrow> gotime \<Rightarrow> gmap \<Rightarrow> worker_error + (bool \<times> db)" where
  "ScheduleRetry db job now failure = (
     let attempts = i64 (wj_Attempts job + 1);
         next = RFC3339Nano (time_UTC (time_Add now (RetryDelay attempts)))
     in case mustJSON (GObj failure) of Inl e \<Rightarrow> Inl (ErrReducer e) | Inr err \<Rightarrow>
       Inr (claimed_update job (\<lambda>r. (unclaim_row r)\<lparr>jb_attempts := attempts, jb_next_run_at := next,
         jb_error := Some err\<rparr>) db))"

section \<open>Recovering stale jobs\<close>

definition stale :: "string \<Rightarrow> job_row \<Rightarrow> bool" where
  "stale cutoff r \<longleftrightarrow> jb_status r = ''running''
     \<and> (case jb_heartbeat_at r of None \<Rightarrow> True | Some h \<Rightarrow> h < cutoff)"

definition job_options :: "gotime \<Rightarrow> options" where
  "job_options createdAt = \<lparr>op_BaseVersion = None, op_Actor = ActorJob, op_CreatedAt = createdAt,
     op_ResultRows = no_rows, op_Validate = None, op_JobClaim = None, op_RewindRestore = None,
     op_Admission = None\<rparr>"

definition job_event_of :: "string \<Rightarrow> job \<Rightarrow> gmap \<Rightarrow> event" where
  "job_event_of t job m = \<lparr>ev_Type = t, ev_Actor = [], ev_DraftID = text_value (wj_DraftID job),
     ev_BaseVersion = None, ev_Payload = Some m, ev_CreatedAt = []\<rparr>"

definition exhausted_message :: string where
  "exhausted_message = ''job '' @ bytes [229, 191, 131, 232, 183, 179, 232, 191, 135, 230, 156, 159, 228, 184, 148,
     233, 135, 141, 232, 175, 149, 233, 162, 157, 229, 186, 166, 229, 183, 178, 232, 128, 151, 229, 176, 189]"

definition exhausted_event :: "job \<Rightarrow> goint \<Rightarrow> event" where
  "exhausted_event job attempts = job_event_of ''JobFailed'' job
     [(''job_id'', GStr (wj_ID job)), (''kind'', GStr (wj_Kind job)),
      (''asset_id'', GStr (text_value (wj_AssetID job))),
      (''requested_by_draft_id'', GStr (text_value (wj_RequestedByDraftID job))),
      (''worker_id'', GStr (text_value (wj_WorkerID job))),
      (''started_at'', GStr (text_value (wj_StartedAt job))),
      (''heartbeat_at'', GStr (text_value (wj_HeartbeatAt job))), (''attempts'', GInt attempts),
      (''progress'', GFloat (Fin 1)),
      (''error'', GObj [(''error_code'', GStr ''stale_recovery_exhausted''), (''message'', GStr exhausted_message),
        (''worker_id'', GStr (text_value (wj_WorkerID job))),
        (''heartbeat_at'', GStr (text_value (wj_HeartbeatAt job)))])]"

text \<open>The row is still the one that was found stale.\<close>

definition still_stale :: "string \<Rightarrow> job \<Rightarrow> job_row \<Rightarrow> bool" where
  "still_stale cutoff job r \<longleftrightarrow> jb_job_id r = wj_ID job \<and> stale cutoff r
     \<and> jb_worker_id r = wj_WorkerID job \<and> jb_started_at r = wj_StartedAt job
     \<and> jb_heartbeat_at r = wj_HeartbeatAt job"

text \<open>One stale job: the number recovered and the database, or the error that ends the pass.\<close>

definition recover_job :: "env \<Rightarrow> gotime \<Rightarrow> string \<Rightarrow> job \<Rightarrow> db \<Rightarrow> worker_error + (nat \<times> db)" where
  "recover_job en now cutoff job db = (
     let attempts = i64 (wj_Attempts job + 1); next = RFC3339Nano (time_UTC now)
     in if attempts > wj_MaxRetries job then
          (case Apply en (job_options now) [exhausted_event job attempts] db of
             Inl e \<Rightarrow> if e = ErrJobCancelled \<or> e = ErrJobClaimLost then Inr (0, db) else Inl (ErrReducer e)
           | Inr (res, db') \<Rightarrow>
               if ar_Status res \<noteq> StatusApplied then Inl (ErrTerminalStatus (ar_Status res))
               else Inr (if length (ar_AppliedEvents res) = 1 then 1 else 0, db'))
        else Inr (rows_affected (still_stale cutoff job) (db_jobs db),
          db\<lparr>db_jobs := update_where (still_stale cutoff job)
            (\<lambda>r. (unclaim_row r)\<lparr>jb_attempts := attempts, jb_next_run_at := next\<rparr>) (db_jobs db)\<rparr>))"

text \<open>What was recovered before an error stays recovered.\<close>

fun recover_jobs :: "env \<Rightarrow> gotime \<Rightarrow> string \<Rightarrow> job list \<Rightarrow> db \<Rightarrow> worker_error option \<times> nat \<times> db" where
  "recover_jobs en now cutoff [] db = (None, 0, db)"
| "recover_jobs en now cutoff (job # jobs) db = (case recover_job en now cutoff job db of
     Inl e \<Rightarrow> (Some e, 0, db)
   | Inr (n, db) \<Rightarrow> (case recover_jobs en now cutoff jobs db of (e, m, db) \<Rightarrow> (e, n + m, db)))"

definition RecoverStale :: "env \<Rightarrow> db \<Rightarrow> gotime \<Rightarrow> duration \<Rightarrow> worker_error option \<times> nat \<times> db" where
  "RecoverStale en db now timeout = (
     let cutoff = RFC3339Nano (time_UTC (time_Add now (- timeout)))
     in case map_bind scanJob (sort_key jb_job_id (filter (stale cutoff) (db_jobs db))) of
          Inl e \<Rightarrow> (Some e, 0, db)
        | Inr jobs \<Rightarrow> recover_jobs en now cutoff jobs db)"

end
