(* ===== verification/Worker_Runner.thy ===== *)
theory Worker_Runner
  imports Worker_Jobs
begin

text \<open>
  The runner of the workers (\<open>worker/runner.go\<close>, \<open>worker/registry.go\<close>): its configuration, the lanes
  that keep a slow render from blocking the other jobs, one round of claiming, handling and settling
  a job, the progress reporter, and the terminal event with the artifact of a render.  A handler is
  a parameter: what it returns, and the database after it, other writers included.  The goroutines
  that poll, send heartbeats and recover stale jobs call these functions at times of their own, so
  the model is the functions and any order of calls.
\<close>

section \<open>Configuration\<close>

record runner_config =
  rc_HasDatabase :: bool
  rc_HasRegistry :: bool
  rc_WorkerID :: string
  rc_Concurrency :: goint
  rc_PollInterval :: duration
  rc_HeartbeatInterval :: duration
  rc_HeartbeatTimeout :: duration

record runner =
  ru_workerID :: string
  ru_concurrency :: goint
  ru_pollInterval :: duration
  ru_heartbeatInterval :: duration
  ru_heartbeatTimeout :: duration

datatype runner_error = MissingDependency | HeartbeatTooSlow

text \<open>Go's \<open>/\<close> truncates; the timeout is positive where it is halved.\<close>

definition NewRunner :: "gotime \<Rightarrow> runner_config \<Rightarrow> runner_error + runner" where
  "NewRunner time_now c = (
     let workerID = (if rc_WorkerID c = [] then ''worker_'' @ show_int (unix_ns time_now) else rc_WorkerID c);
         concurrency = (if rc_Concurrency c \<le> 0 then 2 else rc_Concurrency c);
         poll = (if rc_PollInterval c \<le> 0 then 250000000 else rc_PollInterval c);
         interval = (if rc_HeartbeatInterval c \<le> 0 then 5 * time_Second else rc_HeartbeatInterval c);
         timeout = (if rc_HeartbeatTimeout c \<le> 0 then 60 * time_Second else rc_HeartbeatTimeout c)
     in if \<not> rc_HasDatabase c \<or> \<not> rc_HasRegistry c then Inl MissingDependency
        else if interval > timeout div 2 then Inl HeartbeatTooSlow
        else Inr \<lparr>ru_workerID = workerID, ru_concurrency = concurrency, ru_pollInterval = poll,
          ru_heartbeatInterval = interval, ru_heartbeatTimeout = timeout\<rparr>)"

section \<open>Lanes\<close>

record claim_lane =
  ln_filter :: claim_filter
  ln_workerID :: string

definition claimLanes :: "runner \<Rightarrow> claim_lane list" where
  "claimLanes r =
     (if ru_concurrency r = 1 then [\<lparr>ln_filter = no_filter, ln_workerID = ru_workerID r\<rparr>]
      else let renderKinds = JobKindsByExecutionClass JobExecutionRender
        in \<lparr>ln_filter = \<lparr>IncludeKinds = renderKinds, ExcludeKinds = []\<rparr>, ln_workerID = ru_workerID r @ '':render''\<rparr>
           # map (\<lambda>i. \<lparr>ln_filter = \<lparr>IncludeKinds = [], ExcludeKinds = renderKinds\<rparr>,
               ln_workerID = ru_workerID r @ '':general:'' @ show_int i\<rparr>) [1 .. ru_concurrency r - 1])"

section \<open>Handlers\<close>

text \<open>
  What a handler ends with: a result, perhaps the \<open>nil\<close> map; an error with its text and whether it
  wraps \<open>context.Canceled\<close>; or a panic with its text.
\<close>

datatype handler_end = HandlerOk "gmap option" | HandlerError string bool | HandlerPanic string

text \<open>\<open>recover\<close> turns a panic into an error.\<close>

definition invokeHandler :: "handler_end \<Rightarrow> (string \<times> bool) + gmap option" where
  "invokeHandler h = (case h of
     HandlerOk result \<Rightarrow> Inr result
   | HandlerError m canceled \<Rightarrow> Inl (m, canceled)
   | HandlerPanic m \<Rightarrow> Inl (''job handler panic: '' @ m, False))"

definition no_handler_message :: string where
  "no_handler_message = ''job handler '' @ bytes [230, 156, 170, 230, 179, 168, 229, 134, 140, 58, 32]"

definition registry_Require :: "(string \<times> 'h) list \<Rightarrow> string \<Rightarrow> string + 'h" where
  "registry_Require handlers kind = (case map_of handlers kind of
     None \<Rightarrow> Inl (no_handler_message @ kind) | Some h \<Rightarrow> Inr h)"

definition registry_Register :: "(string \<times> 'h) list \<Rightarrow> string \<Rightarrow> 'h option \<Rightarrow> string + (string \<times> 'h) list" where
  "registry_Register handlers kind h = (case h of None \<Rightarrow> Inl ''invalid'' | Some f \<Rightarrow>
     if kind = [] then Inl ''invalid''
     else if kind \<in> fst ` set handlers then Inl ''duplicate'' else Inr (handlers @ [(kind, f)]))"

definition registry_Kinds :: "(string \<times> 'h) list \<Rightarrow> string list" where
  "registry_Kinds handlers = sort (map fst handlers)"

definition registry_ValidateCatalog :: "(string \<times> 'h) list \<Rightarrow> bool" where
  "registry_ValidateCatalog handlers \<longleftrightarrow> registry_Kinds handlers = map Kind AllJobKindSpecs"

section \<open>Terminal events\<close>

definition claimedJobOptions :: "job \<Rightarrow> options \<Rightarrow> options" where
  "claimedJobOptions job op = (
     let op = op\<lparr>op_Actor := ActorJob\<rparr>
     in case (wj_WorkerID job, wj_StartedAt job) of
          (Some w, Some s) \<Rightarrow> op\<lparr>op_JobClaim := Some \<lparr>jc_JobID = wj_ID job, jc_WorkerID = w, jc_StartedAt = s\<rparr>\<rparr>
        | _ \<Rightarrow> op)"

definition renderArtifactID :: "job \<Rightarrow> string" where
  "renderArtifactID job = (if wj_Kind job = ''render_final'' then ''export'' else ''preview'') @ ''_'' @ wj_ID job"

definition renderArtifactTerminalEvent :: "job \<Rightarrow> gmap option \<Rightarrow> worker_error + event option" where
  "renderArtifactTerminalEvent job result =
     (if wj_Kind job \<noteq> ''render_preview'' \<and> wj_Kind job \<noteq> ''render_final'' then Inr None
      else let t = (if wj_Kind job = ''render_preview'' then ''PreviewRendered'' else ''ExportCompleted'')
        in case result of None \<Rightarrow> Inl (ErrArtifact ''nil'') | Some m \<Rightarrow>
          if stringFrom (gget m ''artifact_id'') [] \<noteq> renderArtifactID job then Inl (ErrArtifact ''artifact_id'')
          else Inr (Some (job_event_of t job m)))"

text \<open>A \<open>nil\<close> map in the payload is not the \<open>nil\<close> interface: it is stored as \<open>null\<close>.\<close>

definition map_any :: "gmap option \<Rightarrow> gval" where
  "map_any m = (case m of None \<Rightarrow> GNilMap | Some m \<Rightarrow> GObj m)"

definition terminal_event :: "job \<Rightarrow> string \<Rightarrow> gmap option \<Rightarrow> gmap option \<Rightarrow> event" where
  "terminal_event job t result failure = job_event_of t job
     [(''job_id'', GStr (wj_ID job)), (''kind'', GStr (wj_Kind job)),
      (''asset_id'', GStr (text_value (wj_AssetID job))),
      (''requested_by_draft_id'', GStr (text_value (wj_RequestedByDraftID job))),
      (''worker_id'', GStr (text_value (wj_WorkerID job))),
      (''started_at'', GStr (text_value (wj_StartedAt job))), (''progress'', GFloat (Fin 1)),
      (''result'', map_any result), (''error'', map_any failure)]"

definition emitTerminal :: "env \<Rightarrow> job \<Rightarrow> string \<Rightarrow> gmap option \<Rightarrow> gmap option \<Rightarrow> db \<Rightarrow> worker_error + db" where
  "emitTerminal en job t result failure db =
     bind_sum (if t = ''JobSucceeded'' then renderArtifactTerminalEvent job result else Inr None) (\<lambda>artifact.
     case Apply en (claimedJobOptions job (job_options zero_time))
         ((case artifact of None \<Rightarrow> [] | Some e \<Rightarrow> [e]) @ [terminal_event job t result failure]) db of
       Inl e \<Rightarrow> Inl (ErrReducer e)
     | Inr (res, db') \<Rightarrow> if ar_Status res \<noteq> StatusApplied then Inl (ErrTerminalStatus (ar_Status res)) else Inr db')"

definition failureJSON :: "string \<Rightarrow> bool \<Rightarrow> gmap" where
  "failureJSON message canceled = [(''error_code'', GStr ''job_handler_failed''), (''message'', GStr message),
     (''retryable'', GBool (\<not> canceled))]"

section \<open>Settling a job\<close>

definition sameClaim :: "job \<Rightarrow> job \<Rightarrow> bool" where
  "sameClaim left right \<longleftrightarrow> (case (wj_WorkerID left, wj_WorkerID right, wj_StartedAt left, wj_StartedAt right) of
     (Some w, Some w', Some s, Some s') \<Rightarrow> w = w' \<and> s = s' | _ \<Rightarrow> False)"

text \<open>A job that was cancelled or claimed again meanwhile is no error of this worker.\<close>

definition settled_elsewhere :: "worker_error + db \<Rightarrow> db \<Rightarrow> worker_error option \<times> db" where
  "settled_elsewhere r db = (case r of
     Inr db' \<Rightarrow> (None, db')
   | Inl e \<Rightarrow> (if e = ErrReducer ErrJobCancelled \<or> e = ErrReducer ErrJobClaimLost then None else Some e, db))"

text \<open>
  The rest of the round once the handler has ended: \<open>stopping\<close> when the runner's own context is
  done, \<open>now\<close> the time a retry is counted from.
\<close>

definition settle :: "env \<Rightarrow> gotime \<Rightarrow> bool \<Rightarrow> job \<Rightarrow> (string \<times> bool) + gmap option \<Rightarrow> db \<Rightarrow> worker_error option \<times> db" where
  "settle en now stopping job h db = (case GetJob db (wj_ID job) of
     Inl e \<Rightarrow> (Some e, db)
   | Inr stored \<Rightarrow>
       if wj_Status stored \<noteq> ''running'' \<or> \<not> sameClaim stored job then (None, db)
       else if stopping then (None, snd (ReleaseClaim db job))
       else case h of
         Inr result \<Rightarrow> settled_elsewhere (emitTerminal en job ''JobSucceeded'' result None db) db
       | Inl (message, canceled) \<Rightarrow>
           (let failure = failureJSON message canceled;
                fail = (\<lambda>db. settled_elsewhere (emitTerminal en job ''JobFailed'' None (Some failure) db) db)
            in if \<not> canceled \<and> i64 (wj_Attempts job + 1) \<le> wj_MaxRetries job then
                 (case ScheduleRetry db job now failure of
                    Inl e \<Rightarrow> (Some e, db)
                  | Inr (scheduled, db') \<Rightarrow> if scheduled then (None, db') else fail db')
               else fail db))"

text \<open>
  One round: whether a job was claimed, the error and the database.  \<open>handlers\<close> maps a kind to what
  its handler does with the job, how it ends and the database after it; \<open>now\<close> is the time of the claim
  and \<open>later\<close> the time after the handler.
\<close>

definition runOnce :: "env \<Rightarrow> (string \<times> (job \<Rightarrow> db \<Rightarrow> handler_end \<times> db)) list \<Rightarrow> gotime \<Rightarrow> gotime \<Rightarrow> bool
    \<Rightarrow> claim_filter \<Rightarrow> string \<Rightarrow> db \<Rightarrow> bool \<times> worker_error option \<times> db" where
  "runOnce en handlers now later stopping f workerID db = (case ClaimMatching db workerID now f of
     Inl e \<Rightarrow> (False, Some e, db)
   | Inr (None, db) \<Rightarrow> (False, None, db)
   | Inr (Some job, db) \<Rightarrow>
       (case (case registry_Require handlers (wj_Kind job) of
                Inl m \<Rightarrow> (Inl (m, False), db)
              | Inr handle \<Rightarrow> (case handle job db of (h, db) \<Rightarrow> (invokeHandler h, db))) of
          (r, db) \<Rightarrow> (True, settle en later stopping job r db)))"

section \<open>Progress\<close>

record progress_update =
  pu_Progress :: f64
  pu_CurrentAssetID :: string
  pu_Done :: goint
  pu_Total :: goint
  pu_Stage :: string
  pu_Detail :: string

record reporter =
  rp_sent :: bool
  rp_sequence :: goint
  rp_lastAt :: gotime
  rp_lastProgress :: f64
  rp_lastMetadata :: progress_update

definition no_progress :: progress_update where
  "no_progress = \<lparr>pu_Progress = Fin 0, pu_CurrentAssetID = [], pu_Done = 0, pu_Total = 0, pu_Stage = [],
     pu_Detail = []\<rparr>"

definition newProgressReporter :: reporter where
  "newProgressReporter = \<lparr>rp_sent = False, rp_sequence = 0, rp_lastAt = zero_time, rp_lastProgress = Fin 0,
     rp_lastMetadata = no_progress\<rparr>"

definition progressHasMetadata :: "progress_update \<Rightarrow> bool" where
  "progressHasMetadata u \<longleftrightarrow> pu_CurrentAssetID u \<noteq> [] \<or> pu_Done u \<noteq> 0 \<or> pu_Total u \<noteq> 0
     \<or> pu_Stage u \<noteq> [] \<or> pu_Detail u \<noteq> []"

definition progressMetadataEqual :: "progress_update \<Rightarrow> progress_update \<Rightarrow> bool" where
  "progressMetadataEqual l r \<longleftrightarrow> pu_CurrentAssetID l = pu_CurrentAssetID r \<and> pu_Done l = pu_Done r
     \<and> pu_Total l = pu_Total r \<and> pu_Stage l = pu_Stage r \<and> pu_Detail l = pu_Detail r"

text \<open>The builtins \<open>min\<close> and \<open>max\<close> return NaN when an argument is NaN.\<close>

definition fmin2 :: "f64 \<Rightarrow> f64 \<Rightarrow> f64" where
  "fmin2 x y = (if x = FNaN \<or> y = FNaN then FNaN else if flt y x then y else x)"

definition fmax2 :: "f64 \<Rightarrow> f64 \<Rightarrow> f64" where
  "fmax2 x y = (if x = FNaN \<or> y = FNaN then FNaN else if flt x y then y else x)"

definition clamp_progress :: "f64 \<Rightarrow> f64" where
  "clamp_progress p = fmax2 (Fin 0) (fmin2 p (Fin 1))"

definition progress_payload :: "job \<Rightarrow> progress_update \<Rightarrow> goint \<Rightarrow> gmap" where
  "progress_payload job u n =
     [(''job_id'', GStr (wj_ID job)), (''kind'', GStr (wj_Kind job)),
      (''asset_id'', GStr (text_value (wj_AssetID job))),
      (''requested_by_draft_id'', GStr (text_value (wj_RequestedByDraftID job))),
      (''progress'', GFloat (pu_Progress u)), (''worker_id'', GStr (text_value (wj_WorkerID job))),
      (''started_at'', GStr (text_value (wj_StartedAt job))),
      (''update_id'', GStr (wj_ID job @ '':'' @ text_value (wj_StartedAt job) @ '':'' @ show_int n))]
     @ (if pu_CurrentAssetID u \<noteq> [] then [(''current_asset_id'', GStr (pu_CurrentAssetID u))] else [])
     @ (if pu_Total u > 0 then [(''done'', GInt (pu_Done u)), (''total'', GInt (pu_Total u))] else [])
     @ (if pu_Stage u \<noteq> [] then [(''stage'', GStr (pu_Stage u))] else [])
     @ (if pu_Detail u \<noteq> [] then [(''detail'', GStr (pu_Detail u))] else [])"

definition throttled :: "reporter \<Rightarrow> gotime \<Rightarrow> progress_update \<Rightarrow> bool" where
  "throttled rp now u \<longleftrightarrow> rp_sent rp \<and> \<not> feq (pu_Progress u) (Fin 1)
     \<and> unix_ns now - unix_ns (rp_lastAt rp) < time_Second
     \<and> flt (fabs (fsub (pu_Progress u) (rp_lastProgress rp))) (rnd64 (1 / 100))
     \<and> \<not> (progressHasMetadata u \<and> \<not> progressMetadataEqual u (rp_lastMetadata rp))"

definition report :: "env \<Rightarrow> gotime \<Rightarrow> job \<Rightarrow> progress_update \<Rightarrow> reporter \<Rightarrow> db
    \<Rightarrow> apply_error option \<times> reporter \<times> db" where
  "report en now job u0 rp db = (
     let u = u0\<lparr>pu_Progress := clamp_progress (pu_Progress u0)\<rparr>
     in if throttled rp now u then (None, rp, db)
        else case Apply en (job_options zero_time) [job_event_of ''JobProgress'' job
            (progress_payload job u (i64 (rp_sequence rp + 1)))] db of
          Inl e \<Rightarrow> (Some e, rp, db)
        | Inr (_, db') \<Rightarrow> (None, rp\<lparr>rp_sequence := i64 (rp_sequence rp + 1), rp_sent := True, rp_lastAt := now,
            rp_lastProgress := pu_Progress u,
            rp_lastMetadata := (if progressHasMetadata u then u else rp_lastMetadata rp)\<rparr>, db'))"

end
