(* ===== verification/Reducer_Steps.thy ===== *)
theory Reducer_Steps
  imports Reducer_Apply
begin

text \<open>
  Every event handler is a sequence of primitive steps: a change of one table under the conditions
  the handlers establish, a draft that is touched, or a draft that is created.  Properties of all
  handlers are then properties of the steps, proved once by cases on the step and carried over by
  induction on the sequence.
\<close>

section \<open>Primitive steps\<close>

definition same_draft_keys :: "(draft_row \<Rightarrow> draft_row) \<Rightarrow> bool" where
  "same_draft_keys f \<longleftrightarrow>
     (\<forall>r. dr_draft_id (f r) = dr_draft_id r \<and> dr_state_version (f r) = dr_state_version r)"

definition settles :: "(decision_row \<Rightarrow> decision_row) \<Rightarrow> bool" where
  "settles f \<longleftrightarrow> (\<forall>r. de_decision_id (f r) = de_decision_id r \<and> de_rowid (f r) = de_rowid r
     \<and> de_draft_id (f r) = de_draft_id r \<and> de_status (f r) \<noteq> ''pending'')"

definition job_event :: "event \<Rightarrow> bool" where
  "job_event ev \<longleftrightarrow> ev_Type ev \<in> {''JobProgress'', ''JobSucceeded'', ''JobFailed'', ''JobCancelled''}"

inductive db_step :: "db \<Rightarrow> db \<Rightarrow> bool" where
  Draft: "same_draft_keys f \<Longrightarrow> db_step db (update_draft d f db)"
| Object: "db_step db (ensureObject c h n db)"
| NewAsset: "insert_asset r db = Inr db' \<Longrightarrow> db_step db db'"
| Asset: "db_step db (update_asset a f db)"
| Links: "db_step db (db\<lparr>db_links := ls\<rparr>)"
| NewDecision: "insert_decision r db = Inr db' \<Longrightarrow> db_step db db'"
| Settle: "settles f \<Longrightarrow> (\<And>r. P r \<Longrightarrow> de_status r = ''pending'') \<Longrightarrow>
    db_step db (db\<lparr>db_decisions := update_where P f (db_decisions db)\<rparr>)"
| NewTimeline: "insert_timeline r db = Inr db' \<Longrightarrow> db_step db db'"
| Report: "db_step db (db\<lparr>db_timelines := update_where P (\<lambda>t. t\<lparr>tl_validation_report := v\<rparr>) (db_timelines db)\<rparr>)"
| EditBatch: "insert_edit_batch r db = Inr db' \<Longrightarrow> db_step db db'"
| NewPreview: "insert_preview r db = Inr db' \<Longrightarrow> db_step db db'"
| NewExport: "insert_export r db = Inr db' \<Longrightarrow> db_step db db'"
| NewJob: "insert_job r db = Inr db' \<Longrightarrow> jb_status r = ''pending'' \<Longrightarrow> db_step db db'"
| JobUpdate: "find_job j db = Some r \<Longrightarrow> check_job ev r = None \<Longrightarrow> job_event ev \<Longrightarrow>
    db_step db (db\<lparr>db_jobs := update_where (\<lambda>r. jb_job_id r = j) (update_job_row c ev res err) (db_jobs db)\<rparr>)"
| Contexts: "db_step db (db\<lparr>db_contexts := cs\<rparr>)"
| Messages: "db_step db (db\<lparr>db_messages := ms\<rparr>)"
| Checkpoint: "insert_checkpoint i db = Inr db' \<Longrightarrow> db_step db db'"
| Prune: "db_step db (prune_checkpoints d db)"

inductive st_step :: "apply_state \<Rightarrow> apply_state \<Rightarrow> bool" where
  Db: "db_step (st_db st) db' \<Longrightarrow> st_step st (st\<lparr>st_db := db'\<rparr>)"
| Touch: "touch st d = Inr st' \<Longrightarrow> st_step st st'"
| Affected: "st_step st (st\<lparr>st_affected := ms\<rparr>)"
| Create: "insert_draft r (st_db st) = Inr db' \<Longrightarrow>
    st_step st (st\<lparr>st_db := db', st_original := (st_original st)(dr_draft_id r \<mapsto> dr_state_version r)\<rparr>)"

abbreviation db_steps :: "db \<Rightarrow> db \<Rightarrow> bool" where "db_steps \<equiv> db_step\<^sup>*\<^sup>*"
abbreviation st_steps :: "apply_state \<Rightarrow> apply_state \<Rightarrow> bool" where "st_steps \<equiv> st_step\<^sup>*\<^sup>*"

section \<open>Sequences of steps\<close>

lemma st_db_same [simp]: "st\<lparr>st_db := st_db st\<rparr> = st"
  by simp

lemma db_steps_st: "db_steps db db' \<Longrightarrow> st_steps (st\<lparr>st_db := db\<rparr>) (st\<lparr>st_db := db'\<rparr>)"
proof (induction rule: rtranclp_induct)
  case (step db1 db2)
  have "st_step (st\<lparr>st_db := db1\<rparr>) (st\<lparr>st_db := db1\<rparr>\<lparr>st_db := db2\<rparr>)"
    by (rule st_step.Db) (simp add: step.hyps)
  with step.IH show ?case by simp
qed simp

lemma reach_db [reach]: "st_steps s t \<Longrightarrow> db_steps (st_db t) db' \<Longrightarrow> st_steps s (t\<lparr>st_db := db'\<rparr>)"
  using db_steps_st [of "st_db t" db' t] by simp

lemma reach_with_db [reach]: "st_steps s t \<Longrightarrow> db_steps (st_db t) (f (st_db t)) \<Longrightarrow> st_steps s (with_db f t)"
  unfolding with_db_def by (rule reach_db)

lemma reach_touch: "touch t d = Inr u \<Longrightarrow> st_steps s t \<Longrightarrow> st_steps s u"
  by (rule rtranclp.rtrancl_into_rtrancl) (auto intro: st_step.Touch)

lemma reach_affected: "st_steps s t \<Longrightarrow> st_steps s (t\<lparr>st_affected := ms\<rparr>)"
  by (erule rtranclp.rtrancl_into_rtrancl) (rule st_step.Affected)

lemma db_then: "db_step b c \<Longrightarrow> db_steps a b \<Longrightarrow> db_steps a c"
  by (rule rtranclp.rtrancl_into_rtrancl)

lemma after_object: "db_steps (ensureObject c h n db) db' \<Longrightarrow> db_steps db db'"
  by (rule converse_rtranclp_into_rtranclp) (rule db_step.Object)

lemmas then_draft [reach] = db_then [OF db_step.Draft]
lemmas then_object [reach] = db_then [OF db_step.Object]
lemmas then_new_asset = db_then [OF db_step.NewAsset]
lemmas then_asset [reach] = db_then [OF db_step.Asset]
lemmas then_new_timeline = db_then [OF db_step.NewTimeline]
lemmas then_edit_batch = db_then [OF db_step.EditBatch]
lemmas then_new_preview = db_then [OF db_step.NewPreview]
lemmas then_new_export = db_then [OF db_step.NewExport]
lemmas then_new_decision = db_then [OF db_step.NewDecision]
lemmas then_new_job = db_then [OF db_step.NewJob]

lemma same_draft_keysI [intro!]:
  "(\<And>r. dr_draft_id (f r) = dr_draft_id r \<and> dr_state_version (f r) = dr_state_version r) \<Longrightarrow> same_draft_keys f"
  by (simp add: same_draft_keys_def)

section \<open>The handlers are sequences of steps\<close>

lemma copy_timeline_rows_steps: "copy_timeline_rows c d ts db = Inr db' \<Longrightarrow> db_steps db db'"
proof (induction ts arbitrary: db)
  case (Cons t ts)
  then show ?case by (auto intro: db_step.NewTimeline converse_rtranclp_into_rtranclp)
qed simp

lemma copy_preview_rows_steps: "copy_preview_rows c d ps db = Inr db' \<Longrightarrow> db_steps db db'"
proof (induction ps arbitrary: db)
  case (Cons p ps)
  then show ?case by (auto intro: db_step.NewPreview converse_rtranclp_into_rtranclp)
qed simp

lemma copy_export_rows_steps: "copy_export_rows c d xs db = Inr db' \<Longrightarrow> db_steps db db'"
proof (induction xs arbitrary: db)
  case (Cons x xs)
  then show ?case by (auto intro: db_step.NewExport converse_rtranclp_into_rtranclp)
qed simp

lemma copyDraftTimelines_steps: "copyDraftTimelines st a b = Inr st' \<Longrightarrow> st_steps st st'"
  by (auto simp: copyDraftTimelines_def intro!: reach_db copy_timeline_rows_steps)

lemma copyDraftPreviews_steps: "copyDraftPreviews st a b = Inr (ids, st') \<Longrightarrow> st_steps st st'"
  by (auto simp: copyDraftPreviews_def Let_def intro!: reach_db copy_preview_rows_steps)

lemma copyDraftExports_steps: "copyDraftExports st a b = Inr (ids, st') \<Longrightarrow> st_steps st st'"
  by (auto simp: copyDraftExports_def Let_def intro!: reach_db copy_export_rows_steps)

lemma applyDraftCreated_steps:
  assumes "applyDraftCreated st ev = Inr st'"
  shows "st_steps st st'"
proof -
  from assms obtain r db where r: "insert_draft r (st_db st) = Inr db"
    and st': "st' = st\<lparr>st_db := db, st_original := (st_original st)(dr_draft_id r \<mapsto> dr_state_version r)\<rparr>"
    by (auto simp: applyDraftCreated_def Let_def new_draft_def)
  show ?thesis unfolding st' by (intro r_into_rtranclp st_step.Create r)
qed

lemma applyDraftCopied_steps:
  assumes "applyDraftCopied st ev = Inr st'"
  shows "st_steps st st'"
proof -
  from assms obtain r db db' st1 st2 st3 ps xs f where r: "insert_draft r (st_db st) = Inr db"
    and v: "dr_state_version r = 0" "dr_draft_id r = ev_DraftID ev"
    and links: "copy_links (st_createdAt st) (stringFrom (payload ev ''source_draft_id'') []) (ev_DraftID ev) db = Inr db'"
    and t: "copyDraftTimelines (st\<lparr>st_db := db', st_original := (st_original st)(ev_DraftID ev \<mapsto> 0)\<rparr>)
      (stringFrom (payload ev ''source_draft_id'') []) (ev_DraftID ev) = Inr st1"
    and p: "copyDraftPreviews st1 (stringFrom (payload ev ''source_draft_id'') []) (ev_DraftID ev) = Inr (ps, st2)"
    and x: "copyDraftExports st2 (stringFrom (payload ev ''source_draft_id'') []) (ev_DraftID ev) = Inr (xs, st3)"
    and st': "st' = with_db (update_draft (ev_DraftID ev) f) st3" and f: "same_draft_keys f"
    by (fastforce simp: applyDraftCopied_def Let_def new_draft_def split: if_splits)
  let ?s = "st\<lparr>st_db := db, st_original := (st_original st)(ev_DraftID ev \<mapsto> 0)\<rparr>"
  have "st_step st ?s" using st_step.Create [OF r] v by simp
  moreover have "st_step ?s (?s\<lparr>st_db := db'\<rparr>)"
    by (rule st_step.Db) (use links in \<open>auto simp: copy_links_def Let_def split: if_splits intro: db_step.Links\<close>)
  ultimately have "st_steps st (?s\<lparr>st_db := db'\<rparr>)" by auto
  moreover have "?s\<lparr>st_db := db'\<rparr> = st\<lparr>st_db := db', st_original := (st_original st)(ev_DraftID ev \<mapsto> 0)\<rparr>"
    by (cases st) simp
  then have "st_steps (?s\<lparr>st_db := db'\<rparr>) st1" using copyDraftTimelines_steps [OF t] by (simp only:)
  ultimately have "st_steps st st3"
    using copyDraftPreviews_steps [OF p] copyDraftExports_steps [OF x] by (meson rtranclp_trans)
  then show ?thesis unfolding st' by (intro reach f rtranclp.rtrancl_refl)
qed

lemma applyDraftLifecycle_steps: "applyDraftLifecycle st ev = Inr st' \<Longrightarrow> st_steps st st'"
  by (auto simp: applyDraftLifecycle_def split: if_splits intro: applyDraftCopied_steps
      intro!: reach elim: reach_touch)

lemma reconcile_steps: "reconcileUnderstandingAsset db a f c u = Inr db' \<Longrightarrow> db_steps db db'"
  by (auto simp: reconcileUnderstandingAsset_def split: if_splits option.splits intro!: reach)

lemma applyAssetEvent_steps: "applyAssetEvent st ev = Inr st' \<Longrightarrow> st_steps st st'"
  by (auto simp: applyAssetEvent_def applyAssetImported_def Let_def comp_def split: if_splits
      intro!: reach dest!: reconcile_steps then_new_asset [OF _ rtranclp.rtrancl_refl]
        after_object)

lemma applyAssetLinked_steps: "applyAssetLinked st ev = Inr st' \<Longrightarrow> st_steps st st'"
  by (auto simp: applyAssetLinked_def Let_def split: if_splits intro!: reach_db intro: db_step.Links)

lemma applyAssetUnlinked_steps: "applyAssetUnlinked st ev = Inr st' \<Longrightarrow> st_steps st st'"
  by (auto simp: applyAssetUnlinked_def Let_def split: if_splits intro!: reach_db intro: db_step.Links
      elim: reach_touch)

lemma applyDecisionCreated_steps: "applyDecisionCreated st ev = Inr st' \<Longrightarrow> st_steps st st'"
  by (auto simp: applyDecisionCreated_def Let_def split: if_splits intro!: reach
      dest!: then_new_decision [OF _ rtranclp.rtrancl_refl] elim: reach_touch reach_db)

lemma settle_answered:
  "db_step db (db\<lparr>db_decisions := update_where (answers i d) (\<lambda>r. r\<lparr>de_status := ''answered'', de_answer := a,
     de_pending_tool_call_status := p r, de_consumed_at := c r, de_replayed_tool_call_id := t r\<rparr>) (db_decisions db)\<rparr>)"
  by (rule db_step.Settle) (auto simp: settles_def answers_def)

lemma settle_cancelled:
  "(\<And>r. P r \<Longrightarrow> de_status r = ''pending'') \<Longrightarrow>
   db_step db (db\<lparr>db_decisions := update_where P cancel_decision (db_decisions db)\<rparr>)"
  by (rule db_step.Settle) (auto simp: settles_def cancel_decision_def)

lemma applyDecisionAnswered_steps: "applyDecisionAnswered st ev = Inr st' \<Longrightarrow> st_steps st st'"
  unfolding applyDecisionAnswered_def Let_def
  by (auto split: if_splits intro!: reach elim!: reach_touch intro: settle_answered)

lemma applyConversationContextCleared_steps:
  assumes "applyConversationContextCleared st ev = Inr st'"
  shows "st_steps st st'"
proof -
  let ?d = "ev_DraftID ev" and ?P = "\<lambda>r. de_draft_id r = Some (ev_DraftID ev) \<and> de_status r = ''pending''"
  from assms obtain st1 f where t: "touch st ?d = Inr st1"
    and st': "st' = with_db (\<lambda>db. update_draft ?d f (db\<lparr>db_decisions := update_where ?P cancel_decision
      (db_decisions db), db_contexts := filter (\<lambda>c. cx_draft_id c \<noteq> ?d) (db_contexts db)\<rparr>)) st1"
    and f: "same_draft_keys f"
    by (fastforce simp: applyConversationContextCleared_def Let_def split: if_splits)
  have "db_step db1 (db1\<lparr>db_decisions := update_where ?P cancel_decision (db_decisions db1)\<rparr>)" for db1
    by (rule settle_cancelled) simp
  then have "db_steps db1 (db1\<lparr>db_decisions := update_where ?P cancel_decision (db_decisions db1), db_contexts := cs\<rparr>)"
    for db1 cs
    using db_step.Contexts [of "db1\<lparr>db_decisions := update_where ?P cancel_decision (db_decisions db1)\<rparr>" cs]
    by (metis (no_types, lifting) r_into_rtranclp rtranclp.rtrancl_into_rtrancl)
  then show ?thesis unfolding st' by (intro reach_with_db then_draft f reach_touch [OF t] rtranclp.rtrancl_refl)
qed

lemma record_edit_batch_steps: "record_edit_batch st ev v cur db = Inr db' \<Longrightarrow> db_steps db db'"
  by (auto simp: record_edit_batch_def Let_def split: if_splits intro: db_step.EditBatch)

lemma applyTimelineCreated_steps:
  assumes "applyTimelineCreated st ev = Inr st'"
  shows "st_steps st st'"
proof -
  let ?d = "ev_DraftID ev"
  from assms obtain r v cur db db1 st1 f where r: "insert_timeline r (st_db st) = Inr db"
    and b: "record_edit_batch st ev v cur db = Inr db1" and t: "touch (st\<lparr>st_db := db1\<rparr>) ?d = Inr st1"
    and st': "st' = with_db (update_draft ?d f) st1" and f: "same_draft_keys f"
    by (fastforce simp: applyTimelineCreated_def Let_def split: if_splits)
  have "db_steps (st_db st) db1"
    using db_step.NewTimeline [OF r] record_edit_batch_steps [OF b] by (rule converse_rtranclp_into_rtranclp)
  then show ?thesis unfolding st'
    by (intro reach_with_db then_draft f reach_touch [OF t] reach_db rtranclp.rtrancl_refl)
qed

lemma applyTimelineValidation_steps:
  assumes "applyTimelineValidation st ev = Inr st'"
  shows "st_steps st st'"
proof -
  from assms obtain st1 f P v where t: "touch (with_db (\<lambda>db. db\<lparr>db_timelines := update_where P
      (\<lambda>t. t\<lparr>tl_validation_report := v\<rparr>) (db_timelines db)\<rparr>) st) (ev_DraftID ev) = Inr st1"
    and st': "st' = with_db (update_draft (ev_DraftID ev) f) st1" and f: "same_draft_keys f"
    unfolding applyTimelineValidation_def Let_def by fastforce
  show ?thesis unfolding st'
    by (intro reach_with_db then_draft f reach_touch [OF t] r_into_rtranclp db_step.Report rtranclp.rtrancl_refl)
qed

lemma applyPreviewRendered_steps:
  assumes "applyPreviewRendered st ev = Inr st'"
  shows "st_steps st st'"
proof -
  from assms obtain r db st1 f c h n where r: "insert_preview r (ensureObject c h n (st_db st)) = Inr db"
    and t: "touch (st\<lparr>st_db := db\<rparr>) (ev_DraftID ev) = Inr st1"
    and st': "st' = with_db (update_draft (ev_DraftID ev) f) st1" and f: "same_draft_keys f"
    by (fastforce simp: applyPreviewRendered_def Let_def split: if_splits)
  show ?thesis unfolding st'
    by (intro reach_with_db then_draft f reach_touch [OF t] reach_db then_new_preview [OF r] then_object
        rtranclp.rtrancl_refl)
qed

lemma applyPreviewViewed_steps: "applyPreviewViewed st ev = Inr st' \<Longrightarrow> st_steps st st'"
  by (auto simp: applyPreviewViewed_def Let_def split: if_splits intro!: reach elim: reach_touch)

lemma applyExportCompleted_steps:
  assumes "applyExportCompleted st ev = Inr st'"
  shows "st_steps st st'"
proof -
  from assms obtain r db st1 f c h n where r: "insert_export r (ensureObject c h n (st_db st)) = Inr db"
    and t: "touch (st\<lparr>st_db := db\<rparr>) (ev_DraftID ev) = Inr st1"
    and st': "st' = with_db (update_draft (ev_DraftID ev) f) st1" and f: "same_draft_keys f"
    by (fastforce simp: applyExportCompleted_def Let_def split: if_splits)
  show ?thesis unfolding st'
    by (intro reach_with_db then_draft f reach_touch [OF t] reach_db then_new_export [OF r] then_object
        rtranclp.rtrancl_refl)
qed

section \<open>Restoring a checkpoint\<close>

lemma restore_timeline_steps: "restore_timeline st ev c = Inr (doc, v, db') \<Longrightarrow> db_steps (st_db st) db'"
  by (auto simp: restore_timeline_def Let_def split: if_splits option.splits
      intro!: then_draft dest!: then_new_timeline [OF _ rtranclp.rtrancl_refl])

lemma applyConversationRewind_steps: "db_steps db (applyConversationRewind c d k db)"
proof -
  have "db_steps db (db\<lparr>db_messages := ms, db_contexts := cs\<rparr>)" for ms cs
    using db_step.Messages [of db ms] db_step.Contexts [of "db\<lparr>db_messages := ms\<rparr>" cs]
    by (meson r_into_rtranclp rtranclp.rtrancl_into_rtrancl)
  then show ?thesis unfolding applyConversationRewind_def Let_def by (intro then_draft) auto
qed

lemma invalidateDecisions_steps: "db_steps db (invalidateDecisionsAfterCheckpoint d b db)"
  unfolding invalidateDecisionsAfterCheckpoint_def Let_def
  by (intro then_draft r_into_rtranclp settle_cancelled) (auto split: option.splits)

lemma recordRewindCheckpoint_steps: "recordRewindCheckpoint i db = Inr db' \<Longrightarrow> db_steps db db'"
  by (auto simp: recordRewindCheckpoint_def split: if_splits intro: db_step.Checkpoint db_step.Prune
      rtranclp.rtrancl_into_rtrancl)

lemma applyTimelineRestored_steps:
  assumes "applyTimelineRestored st ev = Inr st'"
  shows "st_steps st st'"
proof -
  let ?d = "ev_DraftID ev"
  let ?mode = "stringFrom (payload ev ''mode'') []" and ?c = "stringFrom (payload ev ''checkpoint_id'') []"
  from assms obtain ck doc v db st1 i db' ms where
    a: "(if ?mode = ''timeline'' \<or> ?mode = ''both'' then restore_timeline st ev ck
         else Inr (None, ck_timeline_version ck, st_db st)) = Inr (doc, v, db)"
    and t: "touch (st\<lparr>st_db := invalidateDecisionsAfterCheckpoint ?d (ck_decision_boundary ck)
      (if ?mode = ''conversation'' \<or> ?mode = ''both'' then applyConversationRewind (st_createdAt st) ?d ?c db
       else db), st_affected := ms\<rparr>) ?d = Inr st1"
    and k: "recordRewindCheckpoint i (st_db st1) = Inr db'" and st': "st' = st1\<lparr>st_db := db'\<rparr>"
    unfolding applyTimelineRestored_def Let_def by (fastforce split: if_splits)
  have "db_steps (st_db st) db" using a by (auto split: if_splits dest: restore_timeline_steps)
  moreover have "db_steps db (invalidateDecisionsAfterCheckpoint ?d (ck_decision_boundary ck)
      (if ?mode = ''conversation'' \<or> ?mode = ''both'' then applyConversationRewind (st_createdAt st) ?d ?c db
       else db))"
    by (auto intro: rtranclp_trans [OF applyConversationRewind_steps invalidateDecisions_steps]
        invalidateDecisions_steps)
  ultimately have "st_steps st (st\<lparr>st_db := invalidateDecisionsAfterCheckpoint ?d (ck_decision_boundary ck)
      (if ?mode = ''conversation'' \<or> ?mode = ''both'' then applyConversationRewind (st_createdAt st) ?d ?c db
       else db)\<rparr>)" by (intro reach_db) auto
  then have "st_steps st st1"
    using reach_touch [OF t reach_affected] by simp
  then show ?thesis unfolding st' by (rule reach_db) (rule recordRewindCheckpoint_steps [OF k])
qed

section \<open>Jobs\<close>

lemma reconcile_each_steps: "reconcile_each ev ids db = Inr db' \<Longrightarrow> db_steps db db'"
proof (induction ids arbitrary: db)
  case (Cons a ids)
  then show ?case by simp (meson reconcile_steps rtranclp_trans)
qed simp

lemma reconcileUnderstandJobAsset_steps: "reconcileUnderstandJobAsset db j ev = Inr db' \<Longrightarrow> db_steps db db'"
  by (auto simp: reconcileUnderstandJobAsset_def Let_def split: if_splits option.splits
      intro: reconcile_steps reconcile_each_steps)

lemma updateRunningJobs_steps: "updateRunningJobs st d j s ev = Inr st' \<Longrightarrow> st_steps st st'"
  by (auto simp: updateRunningJobs_def Let_def split: option.splits intro!: reach elim: reach_touch)

lemma enqueue_job_steps:
  "enqueue_job st ev j = Inr db' \<Longrightarrow> ev_Type ev = ''JobEnqueued'' \<Longrightarrow> db_steps (st_db st) db'"
  by (auto simp: enqueue_job_def job_event_status_def intro!: r_into_rtranclp elim: db_step.NewJob)

lemma update_job_steps:
  assumes "update_job st ev r = Inr db'" and "find_job j (st_db st) = Some r"
    and "check_job ev r = None" and "job_event ev"
  shows "db_steps (st_db st) db'"
proof -
  have "jb_job_id r = j" using assms(2) by (auto simp: find_job_def find_Some_iff)
  then have "db_step (st_db st) ((st_db st)\<lparr>db_jobs := update_where (\<lambda>x. jb_job_id x = jb_job_id r)
      (update_job_row c ev res err) (db_jobs (st_db st))\<rparr>)" for c res err
    using db_step.JobUpdate [OF assms(2-4)] by simp
  with assms(1) show ?thesis
    by (auto simp: update_job_def Let_def split: if_splits option.splits intro!: then_asset)
qed

lemma applyJob_steps:
  assumes "applyJob st ev = Inr st'" and "ev_Type ev = ''JobEnqueued'' \<or> job_event ev"
  shows "st_steps st st'"
proof -
  let ?j = "stringFrom (payload ev ''job_id'') []"
  let ?d = "stringFrom (payload ev ''requested_by_draft_id'') (ev_DraftID ev)"
  from assms(1) obtain db db' where
    a: "(if ev_Type ev = ''JobEnqueued'' then enqueue_job st ev ?j
         else case find_job ?j (st_db st) of None \<Rightarrow> Inl ErrNoRows | Some current \<Rightarrow>
            (case check_job ev current of Some e \<Rightarrow> Inl e | None \<Rightarrow> update_job st ev current)) = Inr db"
    and b: "reconcileUnderstandJobAsset db ?j ev = Inr db'"
    and c: "(if ?d = [] then Inr (st\<lparr>st_db := db'\<rparr>)
      else updateRunningJobs (st\<lparr>st_db := db'\<rparr>) ?d ?j (job_event_status (ev_Type ev)) ev) = Inr st'"
    unfolding applyJob_def Let_def guard_simps(1) by (elim conjE bind_sum_InrE)
  have "db_steps (st_db st) db"
    using a assms(2) by (auto split: if_splits option.splits intro: enqueue_job_steps update_job_steps)
  then have "st_steps st (st\<lparr>st_db := db'\<rparr>)"
    using reconcileUnderstandJobAsset_steps [OF b] by (intro reach_db) (auto intro: rtranclp_trans)
  with c show ?thesis by (auto split: if_splits dest: updateRunningJobs_steps intro: rtranclp_trans)
qed

section \<open>Every event\<close>

theorem applyEvent_steps:
  assumes "applyEvent st ev = Inr st'"
  shows "st_steps st st'"
  using assms unfolding applyEvent_def eventApplyRegistry_def
  by (auto split: if_splits simp: job_event_def
      intro: applyDraftCreated_steps applyDraftLifecycle_steps applyAssetEvent_steps applyAssetLinked_steps
        applyAssetUnlinked_steps applyDecisionCreated_steps applyDecisionAnswered_steps
        applyConversationContextCleared_steps applyTimelineCreated_steps applyTimelineValidation_steps
        applyTimelineRestored_steps applyPreviewRendered_steps applyPreviewViewed_steps
        applyExportCompleted_steps applyJob_steps)

end
