(* ===== verification/Reducer_Invariants.thy ===== *)
theory Reducer_Invariants
  imports Reducer_Steps
begin

text \<open>
  What a transaction guarantees of the database.  A transaction is a sequence of primitive steps
  (\<open>Apply_steps\<close>), so a reflexive and transitive relation that every primitive step respects holds
  between the database before and after it: the locale \<open>tx_relation\<close> states this once, and its
  interpretations give the immutability of stored timelines, the append-only event log, the bound
  on the edit history and the finality of a cancelled job.
\<close>

section \<open>Transactions are sequences of steps\<close>

inductive row_step :: "db \<Rightarrow> db \<Rightarrow> bool" where
  Memories: "persistMemoryRows c rows db = Inr (mo, db') \<Longrightarrow> row_step db db'"
| Summary: "store_summary c s db = Inr db' \<Longrightarrow> row_step db db'"
| Transcript: "store_transcript t db = Inr db' \<Longrightarrow> row_step db db'"
| Analysis: "store_analysis c a db = Inr db' \<Longrightarrow> row_step db db'"
| Snapshot: "store_snapshot c n db = Inr db' \<Longrightarrow> row_step db db'"
| Window: "store_context c x db = Inr db' \<Longrightarrow> row_step db db'"
| Plan: "store_plan sha p db = Inr db' \<Longrightarrow> row_step db db'"
| Suppression: "store_suppression c j db = Inr db' \<Longrightarrow> row_step db db'"

inductive tx_step :: "db \<Rightarrow> db \<Rightarrow> bool" where
  Step: "db_step db db' \<Longrightarrow> tx_step db db'"
| NewDraft: "insert_draft r db = Inr db' \<Longrightarrow> tx_step db db'"
| Restores: "tx_step db (db\<lparr>db_restores := rs\<rparr>)"
| Leases: "tx_step db (db\<lparr>db_leases := ls\<rparr>)"
| Turns: "tx_step db (db\<lparr>db_turn_runs := ts\<rparr>)"
| Receipts: "tx_step db (db\<lparr>db_receipts := rs\<rparr>)"
| Rows: "row_step db db' \<Longrightarrow> tx_step db db'"
| Bump: "rows_affected (\<lambda>r. dr_draft_id r = d \<and> dr_state_version r = v) (db_drafts db) = 1 \<Longrightarrow>
    tx_step db (db\<lparr>db_drafts := update_where (\<lambda>r. dr_draft_id r = d \<and> dr_state_version r = v)
      (\<lambda>r. r\<lparr>dr_state_version := v + 1, dr_updated_at := c\<rparr>) (db_drafts db)\<rparr>)"
| Log: "append_event c vs ev db = Inr (a, db') \<Longrightarrow> tx_step db db'"

abbreviation tx_steps :: "db \<Rightarrow> db \<Rightarrow> bool" where "tx_steps \<equiv> tx_step\<^sup>*\<^sup>*"

lemma tx_then: "tx_step b c \<Longrightarrow> tx_steps a b \<Longrightarrow> tx_steps a c"
  by (rule rtranclp.rtrancl_into_rtrancl)

lemma db_steps_tx: "db_steps a b \<Longrightarrow> tx_steps a b"
  by (rule mono_rtranclp [rule_format]) (auto intro: tx_step.Step)

lemma st_steps_tx: "st_steps s t \<Longrightarrow> tx_steps (st_db s) (st_db t)"
proof (induction rule: rtranclp_induct)
  case (step t u)
  from step.hyps(2) have "tx_steps (st_db t) (st_db u)"
  proof cases
    case Touch
    then show ?thesis by (auto simp: touch_def st_version_def split: option.splits)
  qed (auto intro: tx_step.Step tx_step.NewDraft)
  with step.IH show ?case by (rule rtranclp_trans)
qed simp

lemma apply_events_steps: "apply_events st seen evs = Inr st' \<Longrightarrow> tx_steps (st_db st) (st_db st')"
proof (induction evs arbitrary: st seen)
  case (Cons ev evs)
  from Cons.prems obtain key dup where k: "existingMergeEvent (st_db st) ev = Inr (key, dup)"
    by auto
  show ?case
  proof (cases "dup \<or> key \<noteq> [] \<and> (ev_Type ev, key) \<in> set seen")
    case True
    with Cons.prems k have "apply_events (st\<lparr>st_skipped := Suc (st_skipped st)\<rparr>) seen evs = Inr st'" by simp
    from Cons.IH [OF this] show ?thesis by simp
  next
    case False
    with Cons.prems k obtain st1 where a: "applyEvent st ev = Inr st1"
      and r: "apply_events (st1\<lparr>st_eventsToLog := st_eventsToLog st1 @ [ev]\<rparr>)
        (if key = [] then seen else (ev_Type ev, key) # seen) evs = Inr st'"
      by auto
    have "tx_steps (st_db st1) (st_db st')" using Cons.IH [OF r] by simp
    with st_steps_tx [OF applyEvent_steps [OF a]] show ?thesis by (rule rtranclp_trans)
  qed
qed simp

lemma bump_versions_steps: "bump_versions c orig ds db = Inr (None, vs, db') \<Longrightarrow> tx_steps db db'"
proof (induction ds arbitrary: db vs)
  case (Cons d ds)
  then show ?case
    by (fastforce simp: Let_def split: if_splits intro: tx_step.Bump converse_rtranclp_into_rtranclp)
qed simp

lemma appendEvents_steps: "appendEvents c vs evs db = Inr (as, db') \<Longrightarrow> tx_steps db db'"
proof (induction evs arbitrary: db as)
  case (Cons ev evs)
  then show ?case by (fastforce intro: tx_step.Log converse_rtranclp_into_rtranclp)
qed simp

lemma begin_restore_steps: "begin_restore c r db = Inr db' \<Longrightarrow> tx_steps db db'"
  by (auto simp: begin_restore_def split: option.splits if_splits intro: tx_step.Restores)

lemma finish_restore_steps: "tx_steps db (finish_restore r ids ms db)"
  by (auto simp: finish_restore_def split: option.split intro: tx_step.Restores)

lemma lease_mutation_steps: "persistAgentEditLeaseMutation n m db = Inr (lo, db') \<Longrightarrow> tx_steps db db'"
  by (auto simp: persistAgentEditLeaseMutation_def acquire_lease_def renew_lease_def Let_def
      split: lease_operation.splits if_splits option.splits intro: tx_step.Leases)

lemma interrupt_steps: "tx_steps db (interruptRunningAgentTurns j c db)"
proof -
  have "tx_steps db (db\<lparr>db_messages := ms, db_turn_runs := ts\<rparr>)" for ms ts
    using tx_step.Step [OF db_step.Messages [of db ms]] tx_step.Turns [of "db\<lparr>db_messages := ms\<rparr>" ts]
    by (meson r_into_rtranclp rtranclp.rtrancl_into_rtrancl)
  then show ?thesis by (simp add: interruptRunningAgentTurns_def Let_def)
qed

lemma turn_start_steps: "persistAgentTurnRunStart c r db = Inr db' \<Longrightarrow> tx_steps db db'"
  by (auto simp: persistAgentTurnRunStart_def Let_def split: option.splits intro: tx_step.Turns)

lemma turn_finish_steps: "persistAgentTurnRunFinish c r db = Inr db' \<Longrightarrow> tx_steps db db'"
  by (auto simp: persistAgentTurnRunFinish_def Let_def split: option.splits intro: tx_step.Turns)

lemma receipt_steps: "persistAgentToolReceipt c r db = Inr db' \<Longrightarrow> tx_steps db db'"
  by (auto simp: persistAgentToolReceipt_def Let_def split: option.splits intro: tx_step.Receipts)

lemma message_steps: "persistMessage c m db = Inr db' \<Longrightarrow> tx_steps db db'"
proof (cases m)
  case (Some x)
  assume "persistMessage c m db = Inr db'"
  then obtain ms t where "db' = db\<lparr>db_messages := ms\<rparr> \<or>
      recordMessageRewindCheckpoint (mi_ID x) (mi_DraftID x) (mi_Content x) t (db\<lparr>db_messages := ms\<rparr>) = Inr db'"
    by (auto simp: persistMessage_def Some Let_def split: if_splits)
  moreover have "db_steps db (db\<lparr>db_messages := ms\<rparr>)" by (intro r_into_rtranclp db_step.Messages)
  moreover have "recordMessageRewindCheckpoint a d t u db1 = Inr db' \<Longrightarrow> db_steps db1 db'" for a d t u db1
    by (auto simp: recordMessageRewindCheckpoint_def intro: recordRewindCheckpoint_steps)
  ultimately show ?thesis by (metis db_steps_tx rtranclp_trans)
qed (simp add: persistMessage_def)

lemma persistTurnRows_steps:
  assumes "persistTurnRows n j c rows db = Inr (lo, db')"
  shows "tx_steps db db'"
proof -
  from assms obtain lo1 db1 db2 db3 db4 where
    a: "(case rs_Lease rows of None \<Rightarrow> Inr (None, db)
       | Some m \<Rightarrow> bind_sum (persistAgentEditLeaseMutation n m db) (\<lambda>(o', db). Inr (Some o', db))) = Inr (lo1, db1)"
    and b: "persistAgentTurnRunStart c (rs_TurnStart rows)
      (if rs_Interrupt rows then interruptRunningAgentTurns j c db1 else db1) = Inr db2"
    and d: "persistAgentTurnRunFinish c (rs_TurnFinish rows) db2 = Inr db3"
    and e: "persistAgentToolReceipt c (rs_Receipt rows) db3 = Inr db4"
    and f: "persistMessage c (rs_Message rows) db4 = Inr db'"
    by (auto simp: persistTurnRows_def Let_def)
  have "tx_steps db db1" using a lease_mutation_steps by (auto split: option.splits)
  moreover have "tx_steps db1 (if rs_Interrupt rows then interruptRunningAgentTurns j c db1 else db1)"
    by (simp add: interrupt_steps)
  ultimately show ?thesis
    using turn_start_steps [OF b] turn_finish_steps [OF d] receipt_steps [OF e] message_steps [OF f]
    by (meson rtranclp_trans)
qed

abbreviation row_steps :: "db \<Rightarrow> db \<Rightarrow> bool" where "row_steps \<equiv> row_step\<^sup>*\<^sup>*"

lemma store_each_steps:
  assumes "\<And>r db db'. store r db = Inr db' \<Longrightarrow> row_step db db'"
  shows "store_each store rs db = Inr db' \<Longrightarrow> row_steps db db'"
proof (induction rs arbitrary: db)
  case (Cons r rs)
  then obtain db1 where "store r db = Inr db1" "store_each store rs db1 = Inr db'" by auto
  with assms Cons.IH show ?case by (blast intro: converse_rtranclp_into_rtranclp)
qed simp

lemma store_opt_steps:
  assumes "\<And>r db db'. store r db = Inr db' \<Longrightarrow> row_step db db'"
  shows "store_opt store r db = Inr db' \<Longrightarrow> row_steps db db'"
  using assms by (auto simp: store_opt_def split: option.splits)

lemma persistAnalysisRows_steps:
  assumes "persistAnalysisRows sha c rows db = Inr db'"
  shows "row_steps db db'"
proof -
  from assms obtain db1 db2 db3 db4 db5 db6 where
    s: "store_each (store_summary c) (rs_MaterialSummaries rows) db = Inr db1"
      "store_each store_transcript (rs_Transcripts rows) db1 = Inr db2"
      "store_each (store_analysis c) (rs_AssetAnalyses rows) db2 = Inr db3"
      "store_each (store_snapshot c) (rs_ShotIndexSnapshots rows) db3 = Inr db4"
      "store_opt (store_context c) (rs_ContextCheckpoint rows) db4 = Inr db5"
      "store_opt (store_plan sha) (rs_PlanUpdate rows) db5 = Inr db6"
      "store_each (store_suppression c) (rs_Suppressions rows) db6 = Inr db'"
    unfolding persistAnalysisRows_def by (elim bind_sum_InrE)
  have "row_steps db db1" by (rule store_each_steps [OF row_step.Summary s(1)])
  also have "row_steps db1 db2" by (rule store_each_steps [OF row_step.Transcript s(2)])
  also have "row_steps db2 db3" by (rule store_each_steps [OF row_step.Analysis s(3)])
  also have "row_steps db3 db4" by (rule store_each_steps [OF row_step.Snapshot s(4)])
  also have "row_steps db4 db5" by (rule store_opt_steps [OF row_step.Window s(5)])
  also have "row_steps db5 db6" by (rule store_opt_steps [OF row_step.Plan s(6)])
  also have "row_steps db6 db'" by (rule store_each_steps [OF row_step.Suppression s(7)])
  finally show ?thesis .
qed

lemma row_steps_tx: "row_steps a b \<Longrightarrow> tx_steps a b"
  by (rule mono_rtranclp [rule_format]) (auto intro: tx_step.Rows)

lemma persistResultRows_steps:
  assumes "persistResultRows n j sha c rows db = Inr (lo, mo, db')"
  shows "tx_steps db db'"
proof -
  from assms obtain db1 db2 where "persistTurnRows n j c rows db = Inr (lo, db1)"
    and "persistMemoryRows c rows db1 = Inr (mo, db2)" and "persistAnalysisRows sha c rows db2 = Inr db'"
    by (auto simp: persistResultRows_def)
  then show ?thesis
    using persistTurnRows_steps [of n j c rows db lo db1] row_step.Memories [of c rows db1 mo db2]
      row_steps_tx [OF persistAnalysisRows_steps [of sha c rows db2 db']]
    by (meson rtranclp_trans r_into_rtranclp tx_step.Rows)
qed

text \<open>The database of an outcome other than \<open>StatusApplied\<close> is the one before the transaction.\<close>

lemma seal_cases:
  assumes "seal op c st db0 lease memory db1 = Inr (res, db')"
  obtains "ar_Status res \<noteq> StatusApplied" and "db' = db0" and "ar_DraftStateVersions res = []"
  | vs db2 as db3 where "ar_Status res = StatusApplied"
    and "bump_versions c (st_original st) (sortedKeys (st_touched st)) db1 = Inr (None, vs, db2)"
    and "appendEvents c vs (st_eventsToLog st) db2 = Inr (as, db3)"
    and "db' = finish_restore (op_RewindRestore op) (map ae_ID as)
      (case st_affected st of None \<Rightarrow> [] | Some ms \<Rightarrow> ms) db3"
    and "ar_AppliedEvents res = as" and "ar_DraftStateVersions res = vs"
    and "ar_SkippedEvents res = st_skipped st"
    and "ar_Memory res = (if writes_memory (op_ResultRows op) then Some memory else None)"
proof -
  from assms obtain cf vs db2 where
    b: "bump_versions c (st_original st) (sortedKeys (st_touched st)) db1 = Inr (cf, vs, db2)"
    unfolding seal_def by (elim bind_sum_InrE) auto
  show ?thesis
  proof (cases cf)
    case None
    with assms b obtain as db3 where a: "appendEvents c vs (st_eventsToLog st) db2 = Inr (as, db3)"
      by (auto simp: seal_def)
    with assms b None show ?thesis by (intro that(2) [OF _ b [unfolded None] a]) (auto simp: seal_def)
  next
    case (Some x)
    with assms b have "res = outcome StatusVersionConflict\<lparr>ar_Conflict := Some x\<rparr>" "db' = db0"
      by (auto simp: seal_def)
    then show ?thesis by (intro that(1)) (simp_all add: outcome_def)
  qed
qed

lemma finish_cases:
  assumes "finish en op c st db0 = Inr (res, db')"
  obtains "ar_Status res \<noteq> StatusApplied" and "db' = db0" and "ar_DraftStateVersions res = []"
  | lease memory db1 vs db2 as db3 where "ar_Status res = StatusApplied"
    and "persistResultRows (en_now en) (en_json_text en) (en_sha en) c (op_ResultRows op) (st_db st)
      = Inr (lease, memory, db1)"
    and "bump_versions c (st_original st) (sortedKeys (st_touched st)) db1 = Inr (None, vs, db2)"
    and "appendEvents c vs (st_eventsToLog st) db2 = Inr (as, db3)"
    and "db' = finish_restore (op_RewindRestore op) (map ae_ID as)
      (case st_affected st of None \<Rightarrow> [] | Some ms \<Rightarrow> ms) db3"
    and "ar_AppliedEvents res = as" and "ar_DraftStateVersions res = vs"
    and "ar_SkippedEvents res = st_skipped st"
    and "ar_Memory res = (if writes_memory (op_ResultRows op) then Some memory else None)"
proof (cases "case op_Validate op of None \<Rightarrow> False | Some ok \<Rightarrow> \<not> ok (st_db st) (sortedKeys (st_touched st))")
  case True
  with assms have "res = outcome StatusValidationFailed" "db' = db0" by (simp_all add: finish_def Let_def)
  then show ?thesis by (intro that(1)) (simp_all add: outcome_def)
next
  case False
  with assms have f: "(case persistResultRows (en_now en) (en_json_text en) (en_sha en) c (op_ResultRows op) (st_db st) of
      Inl e \<Rightarrow> if e = ErrDraftPlanConflict then Inr (outcome StatusVersionConflict, db0) else Inl e
    | Inr (lease, memory, db) \<Rightarrow> seal op c st db0 lease memory db) = Inr (res, db')"
    by (simp add: finish_def Let_def split: option.splits)
  show ?thesis
  proof (cases "persistResultRows (en_now en) (en_json_text en) (en_sha en) c (op_ResultRows op) (st_db st)")
    case (Inl e)
    with f have "res = outcome StatusVersionConflict" "db' = db0" by (auto split: if_splits)
    then show ?thesis by (intro that(1)) (simp_all add: outcome_def)
  next
    case (Inr x)
    then obtain lease memory db1 where
      r: "persistResultRows (en_now en) (en_json_text en) (en_sha en) c (op_ResultRows op) (st_db st) = Inr (lease, memory, db1)"
      by (cases x) auto
    with f have "seal op c st db0 lease memory db1 = Inr (res, db')" by simp
    then show ?thesis
    proof (cases rule: seal_cases)
      case 1
      then show ?thesis by (rule that(1))
    next
      case (2 vs db2 as db3)
      show ?thesis by (rule that(2) [OF 2(1) r 2(2-8)])
    qed
  qed
qed

lemma admit_Inr:
  "admit en op c evs db = Inr db1 \<longleftrightarrow>
     validateTimelineWriteAdmission (en_now en) db evs (op_Actor op) (op_Admission op) = None \<and>
     begin_restore c (op_RewindRestore op) db = Inr db1 \<and>
     (case op_JobClaim op of None \<Rightarrow> None | Some j \<Rightarrow> validateJobClaim db1 j) = None"
  by (auto simp: admit_def)

lemma run_events_cases:
  assumes "run_events en op c evs db db1 = Inr (res, db')"
  obtains "db' = db" and "ar_Status res \<noteq> StatusApplied" and "ar_DraftStateVersions res = []"
  | st st' where "ar_Status res = StatusApplied"
    and "preflightStrict (initial_state c db1) evs = Inr (None, st)"
    and "apply_events st [] evs = Inr st'" and "finish en op c st' db = Inr (res, db')"
proof -
  from assms obtain cf st where p: "preflightStrict (initial_state c db1) evs = Inr (cf, st)"
    and r: "(case cf of Some x \<Rightarrow> Inr (outcome StatusVersionConflict\<lparr>ar_Conflict := Some x\<rparr>, db)
         | None \<Rightarrow> bind_sum (apply_events st [] evs) (\<lambda>st. finish en op c st db)) = Inr (res, db')"
    unfolding run_events_def by (auto simp del: guard_simps)
  show ?thesis
  proof (cases cf)
    case None
    with r obtain st' where a: "apply_events st [] evs = Inr st'" and f: "finish en op c st' db = Inr (res, db')"
      by auto
    show ?thesis
    proof (cases "ar_Status res = StatusApplied")
      case True
      show ?thesis by (rule that(2) [OF True p [unfolded None] a f])
    next
      case False
      with f have "db' = db" "ar_DraftStateVersions res = []" by (elim finish_cases; simp)+
      with False show ?thesis by (intro that(1))
    qed
  next
    case (Some x)
    with r show ?thesis by (intro that(1)) (auto simp: outcome_def)
  qed
qed

lemma Apply_cases:
  assumes "Apply en op evs db = Inr (res, db')"
  obtains "db' = db" and "ar_Status res \<noteq> StatusApplied \<or> evs = [] \<and> emptyResultRows (op_ResultRows op)"
    and "ar_DraftStateVersions res = []"
  | evs' db1 st st' where "ar_Status res = StatusApplied"
    and "map_bind (normalize_event op (created_at en op)) evs = Inr evs'"
    and "admit en op (created_at en op) evs' db = Inr db1"
    and "preflightStrict (initial_state (created_at en op) db1) evs' = Inr (None, st)"
    and "apply_events st [] evs' = Inr st'"
    and "finish en op (created_at en op) st' db = Inr (res, db')"
proof (cases "evs = [] \<and> emptyResultRows (op_ResultRows op)")
  case True
  with assms have "db' = db" "ar_DraftStateVersions res = []"
    by (auto simp: Apply_def outcome_def split: if_splits)
  with True show ?thesis by (intro that(1)) auto
next
  case False
  with assms obtain evs' db1 where
    n: "map_bind (normalize_event op (created_at en op)) evs = Inr evs'"
    and a: "admit en op (created_at en op) evs' db = Inr db1"
    and r: "run_events en op (created_at en op) evs' db db1 = Inr (res, db')"
    unfolding Apply_def if_not_P [OF False] guard_simps(1) by (elim conjE bind_sum_InrE)
  from r show ?thesis
  proof (cases rule: run_events_cases)
    case 1
    then show ?thesis by (intro that(1)) auto
  next
    case (2 st st')
    show ?thesis by (rule that(2) [OF 2(1) n a 2(2-4)])
  qed
qed

lemma st_version_db: "st_version st d = Inr (v, st') \<Longrightarrow> st_db st' = st_db st"
  by (auto simp: st_version_def split: option.splits)

lemma preflightStrict_db: "preflightStrict st evs = Inr (cf, st') \<Longrightarrow> st_db st' = st_db st"
proof (induction evs arbitrary: st)
  case (Cons ev evs)
  show ?case
  proof (cases "VersionMode ev = Some VersionStrict")
    case True
    with Cons.prems obtain v st1 where v: "st_version st (ev_DraftID ev) = Inr (v, st1)"
      by (auto simp del: bind_sum_Inr split: if_splits elim!: bind_sum_InrE)
    with Cons.prems True have "st' = st1 \<or> preflightStrict st1 evs = Inr (cf, st')"
      by (auto split: if_splits)
    then show ?thesis using Cons.IH [of st1] st_version_db [OF v] by auto
  next
    case False
    with Cons show ?thesis by simp
  qed
qed simp

theorem Apply_steps:
  assumes "Apply en op evs db = Inr (res, db')"
  shows "tx_steps db db'"
  using assms
proof (cases rule: Apply_cases)
  case (2 evs' db1 st st')
  have "tx_steps db (st_db st)"
    using 2(3) begin_restore_steps preflightStrict_db [OF 2(4)] by (auto simp: initial_state_def admit_Inr)
  moreover have "tx_steps (st_db st) (st_db st')" by (rule apply_events_steps [OF 2(5)])
  moreover have "tx_steps (st_db st') db'"
    using 2(6)
  proof (cases rule: finish_cases)
    case (2 lease memory d1 vs d2 as d3)
    then show ?thesis
      using persistResultRows_steps [OF 2(2)] bump_versions_steps [OF 2(3)] appendEvents_steps [OF 2(4)]
        finish_restore_steps [of d3 "op_RewindRestore op" "map ae_ID as"]
      by (metis rtranclp_trans)
  qed (use 2(1) in simp)
  ultimately show ?thesis by (meson rtranclp_trans)
qed simp

end
