(* ===== verification/Reducer_Row_Facts.thy ===== *)
theory Reducer_Row_Facts
  imports Reducer_Invariants
begin

text \<open>
  What the rows of a transaction leave alone: the memories, analyses and bookkeeping rows never
  change a timeline, an edit batch, a job, an edit lease or the event log, and no version of a draft.
\<close>

definition event_tables :: "db \<Rightarrow> timeline_row list \<times> edit_batch_row list \<times> job_row list \<times> event_row list \<times> goint
  \<times> lease_row list" where
  "event_tables db = (db_timelines db, db_edit_batches db, db_jobs db, db_event_log db, db_event_seq db, db_leases db)"

lemma store_each_keeps:
  assumes "\<And>r db db'. store r db = Inr db' \<Longrightarrow> K db' = K db"
  shows "store_each store rs db = Inr db' \<Longrightarrow> K db' = K db"
  by (induction rs arbitrary: db) (auto dest: assms)

lemma ensureObject_tables [simp]: "event_tables (ensureObject c h n db) = event_tables db"
  by (simp add: ensureObject_def event_tables_def Let_def)

lemma persistUserMemories_only:
  "persistUserMemories c ups ks clear ev db = Inr (mo, db') \<Longrightarrow> \<exists>ms. db' = db\<lparr>db_memories := ms\<rparr>"
proof -
  have up: "upsert_memories c ups db1 = Inr db2 \<Longrightarrow> \<exists>ms. db2 = db1\<lparr>db_memories := ms\<rparr>" for ups db1 db2
  proof (induction ups arbitrary: db1)
    case Nil
    then show ?case by (auto intro: exI [of _ "db_memories db1"])
  next
    case (Cons m ups)
    then obtain db3 where u: "upsert_memory c m db1 = Inr db3" "upsert_memories c ups db3 = Inr db2" by auto
    then obtain ms where "db3 = db1\<lparr>db_memories := ms\<rparr>"
      by (auto simp: upsert_memory_def Let_def split: option.splits)
    with Cons.IH [OF u(2)] show ?case by auto
  qed
  assume "persistUserMemories c ups ks clear ev db = Inr (mo, db')"
  then have "db' = db \<or> (\<exists>ms. db' = db\<lparr>db_memories := ms\<rparr>)"
    unfolding persistUserMemories_def Let_def
    by (auto split: if_splits option.splits dest!: up)
  then show ?thesis by (auto intro: exI [of _ "db_memories db"])
qed

lemma touch_keys_only: "touch_keys u seen ks db = Inr db' \<Longrightarrow> \<exists>ms. db' = db\<lparr>db_memories := ms\<rparr>"
proof (induction ks arbitrary: seen db)
  case Nil
  then show ?case by (auto intro: exI [of _ "db_memories db"])
next
  case (Cons k ks)
  then show ?case by (fastforce split: if_splits)
qed

lemma persistMemoryRows_only:
  assumes "persistMemoryRows c rows db = Inr (mo, db')"
  shows "\<exists>ms. db' = db\<lparr>db_memories := ms\<rparr>"
proof -
  have same: "\<exists>ms. d = d\<lparr>db_memories := ms\<rparr>" for d :: db by (rule exI [of _ "db_memories d"]) simp
  from assms obtain o1 db1 o2 db2 db3 where
    a: "persistUserMemories c (rs_MemoryUpserts rows) (rs_MemoryRemoveKeys rows)
      (rs_MemoryClearAll rows) (rs_MemoryEvidence rows) db = Inr (o1, db1)"
    and b: "(case rs_MemoryConditionalRemove rows of None \<Rightarrow> Inr (o1, db1)
       | Some x \<Rightarrow> bind_sum (conditionallyRemoveUserMemory x db1) (\<lambda>(removed, db).
           Inr (if removed then o1\<lparr>mo_RemovedKeys := mo_RemovedKeys o1 @ [mr_Key x]\<rparr> else o1, db))) = Inr (o2, db2)"
    and d: "touchUserMemories c (rs_MemoryTouchKeys rows) db2 = Inr db3"
    and e: "(case rs_MemoryEdit rows of None \<Rightarrow> Inr (o2, db3)
       | Some x \<Rightarrow> bind_sum (editUserMemoryStatement c x db3) (\<lambda>(edited, db).
           Inr (if edited then o2\<lparr>mo_EditedKeys := mo_EditedKeys o2 @ [mt_Key x]\<rparr> else o2, db))) = Inr (mo, db')"
    unfolding persistMemoryRows_def by auto
  from a obtain m1 where "db1 = db\<lparr>db_memories := m1\<rparr>" by (auto dest: persistUserMemories_only)
  moreover from b obtain m2 where "db2 = db1\<lparr>db_memories := m2\<rparr>"
    using same [of db1] by (auto simp: conditionallyRemoveUserMemory_def split: option.splits if_splits)
  moreover from d obtain m3 where "db3 = db2\<lparr>db_memories := m3\<rparr>"
    using same [of db2] by (auto simp: touchUserMemories_def split: option.splits if_splits dest: touch_keys_only)
  moreover from e obtain m4 where "db' = db3\<lparr>db_memories := m4\<rparr>"
    using same [of db3] by (auto simp: editUserMemoryStatement_def Let_def split: option.splits if_splits)
  ultimately show ?thesis by auto
qed

lemma store_shot_keeps:
  assumes "store_shot c n s db = Inr db'"
  shows "event_tables db' = event_tables db \<and> db_drafts db' = db_drafts db \<and> db_memories db' = db_memories db
    \<and> db_snapshots db' = db_snapshots db"
proof -
  let ?K = "\<lambda>db. (event_tables db, db_drafts db, db_memories db, db_snapshots db)"
  from assms obtain db1 where o1: "store_each (store_frame c) (sh_RepresentativeFrames s) db = Inr db1"
    and "?K db' = ?K db1"
    by (auto simp: store_shot_def event_tables_def split: if_splits)
  moreover have "?K db1 = ?K db"
    by (rule store_each_keeps [OF _ o1]) (auto simp: store_frame_def ensureObject_def event_tables_def Let_def split: if_splits)
  ultimately show ?thesis by simp
qed

lemma event_tables_eqs:
  assumes "event_tables a = event_tables b"
  shows "db_timelines a = db_timelines b" "db_edit_batches a = db_edit_batches b" "db_jobs a = db_jobs b"
    "db_event_log a = db_event_log b" "db_event_seq a = db_event_seq b" "db_leases a = db_leases b"
  using assms by (simp_all add: event_tables_def)

lemma store_snapshot_keeps:
  assumes "store_snapshot c n db = Inr db'"
  shows "event_tables db' = event_tables db" "db_drafts db' = db_drafts db" "db_memories db' = db_memories db"
    "\<exists>row. sn_asset_content_hash row = si_AssetContentHash n \<and> sn_status row = ''ready''
      \<and> db_snapshots db' = supersede (si_AssetContentHash n) (db_snapshots db) @ [row]"
proof -
  let ?K = "\<lambda>db. (event_tables db, db_drafts db, db_memories db, db_snapshots db)"
  obtain g v db1 where
    i: "insert_snapshot (snapshot_from (default_text (si_CreatedAt n) c) n g v)
      (db\<lparr>db_snapshots := supersede (si_AssetContentHash n) (db_snapshots db)\<rparr>) = Inr db1"
    and s: "store_each (store_shot (default_text (si_CreatedAt n) c) n) (si_Shots n) db1 = Inr db'"
    using assms unfolding store_snapshot_def Let_def guard_simps(1) by (elim conjE bind_sum_InrE) blast
  have "?K db' = ?K db1"
    by (rule store_each_keeps [OF _ s]) (use store_shot_keeps in blast)
  with i show "event_tables db' = event_tables db" "db_drafts db' = db_drafts db" "db_memories db' = db_memories db"
    by (auto simp: insert_snapshot_def event_tables_def)
  from \<open>?K db' = ?K db1\<close> i have "db_snapshots db' = supersede (si_AssetContentHash n) (db_snapshots db)
      @ [snapshot_from (default_text (si_CreatedAt n) c) n g v]"
    by (auto simp: insert_snapshot_def)
  then show "\<exists>row. sn_asset_content_hash row = si_AssetContentHash n \<and> sn_status row = ''ready''
      \<and> db_snapshots db' = supersede (si_AssetContentHash n) (db_snapshots db) @ [row]"
    by (intro exI [of _ "snapshot_from (default_text (si_CreatedAt n) c) n g v"]) simp
qed

lemma store_analysis_keeps:
  assumes "store_analysis c a db = Inr db'"
  shows "event_tables db' = event_tables db \<and> db_drafts db' = db_drafts db \<and> db_memories db' = db_memories db
    \<and> db_snapshots db' = db_snapshots db"
proof -
  let ?K = "\<lambda>db. (event_tables db, db_drafts db, db_memories db, db_snapshots db)"
  from assms obtain db1 where
    o1: "store_each (store_object (default_text (ai_CreatedAt a) c)) (ai_Objects a) db = Inr db1"
    and "?K db' = ?K db1"
    unfolding store_analysis_def Let_def guard_simps(1)
    by (elim conjE bind_sum_InrE) (auto simp: insert_analysis_def event_tables_def split: if_splits)
  moreover have "?K db1 = ?K db"
    by (rule store_each_keeps [OF _ o1]) (auto simp: store_object_def ensureObject_def event_tables_def Let_def split: if_splits)
  ultimately show ?thesis by simp
qed

lemma row_step_tables: "row_step a b \<Longrightarrow> event_tables b = event_tables a"
proof (induction rule: row_step.induct)
  case (Memories c rows db mo db')
  then show ?case by (auto simp: event_tables_def dest: persistMemoryRows_only)
next
  case (Analysis c a db db')
  then show ?case using store_analysis_keeps by blast
next
  case (Snapshot c n db db')
  then show ?case using store_snapshot_keeps by blast
qed (auto simp: store_summary_def store_transcript_def store_context_def store_plan_def store_suppression_def
    Let_def event_tables_def update_draft_def split: if_splits option.splits)

text \<open>Only a plan update changes a draft, and it keeps the draft's id and version.\<close>

lemma row_step_drafts:
  "row_step a b \<Longrightarrow> db_drafts b = db_drafts a \<or> (\<exists>d f. same_draft_keys f \<and> b = update_draft d f a)"
proof (induction rule: row_step.induct)
  case (Memories c rows db mo db')
  then show ?case by (auto dest: persistMemoryRows_only)
next
  case (Analysis c a db db')
  then show ?case using store_analysis_keeps by blast
next
  case (Snapshot c n db db')
  then show ?case using store_snapshot_keeps by blast
next
  case (Plan sha p db db')
  then obtain d j where "db' = update_draft d (\<lambda>r. r\<lparr>dr_content_plan := j\<rparr>) db"
    by (auto simp: store_plan_def split: if_splits option.splits)
  moreover have "same_draft_keys (\<lambda>r. r\<lparr>dr_content_plan := j\<rparr>)" by auto
  ultimately show ?case by blast
qed (auto simp: store_summary_def store_transcript_def store_context_def store_suppression_def
    Let_def split: if_splits)

text \<open>Memories change in \<open>persistMemoryRows\<close> only, snapshots in \<open>store_snapshot\<close> only.\<close>

lemma row_step_memories:
  "row_step a b \<Longrightarrow> db_memories b = db_memories a \<or> (\<exists>c rows mo. persistMemoryRows c rows a = Inr (mo, b))"
proof (induction rule: row_step.induct)
  case (Analysis c a db db')
  then show ?case using store_analysis_keeps by blast
next
  case (Snapshot c n db db')
  then show ?case using store_snapshot_keeps by blast
qed (auto simp: store_summary_def store_transcript_def store_context_def store_plan_def store_suppression_def
    Let_def update_draft_def split: if_splits option.splits)

lemma row_step_snapshots:
  "row_step a b \<Longrightarrow> db_snapshots b = db_snapshots a \<or> (\<exists>c n. store_snapshot c n a = Inr b)"
proof (induction rule: row_step.induct)
  case (Memories c rows db mo db')
  then show ?case by (auto dest: persistMemoryRows_only)
next
  case (Analysis c a db db')
  then show ?case using store_analysis_keeps by blast
qed (auto simp: store_summary_def store_transcript_def store_context_def store_plan_def store_suppression_def
    Let_def update_draft_def split: if_splits option.splits)

end
