(* ===== verification/Reducer_Safety.thy ===== *)
theory Reducer_Safety
  imports Reducer_Row_Facts
begin

text \<open>
  Invariants of the reducer's transactions, from the interface \<open>tx_relation\<close>: stored timeline
  versions never change but for their validation report, the event log only grows and keeps its
  keys, a draft keeps at most twenty edit batches, and a cancelled job stays cancelled.
\<close>

section \<open>The interface\<close>

locale tx_relation =
  fixes R :: "db \<Rightarrow> db \<Rightarrow> bool"
  assumes refl: "R a a"
    and trans: "R a b \<Longrightarrow> R b c \<Longrightarrow> R a c"
    and step: "tx_step a b \<Longrightarrow> R a b"
begin

lemma steps: "tx_steps a b \<Longrightarrow> R a b"
  by (induction rule: rtranclp_induct) (auto intro: refl trans step)

lemma applied: "Apply en op evs db = Inr (res, db') \<Longrightarrow> R db db'"
  by (intro steps Apply_steps)

end

section \<open>Tables a step leaves alone\<close>

lemmas step_simps = update_draft_def ensureObject_def update_asset_def insert_asset_def insert_decision_def
  insert_timeline_def insert_edit_batch_def insert_preview_def insert_export_def insert_job_def
  insert_checkpoint_def prune_checkpoints_def insert_draft_def append_event_def Let_def

lemma db_step_log: "db_step a b \<Longrightarrow> db_event_log b = db_event_log a \<and> db_event_seq b = db_event_seq a"
  by (induction rule: db_step.induct) (auto simp: step_simps split: if_splits)

lemma same_report: "t \<in> set ts \<Longrightarrow> \<exists>v. t\<lparr>tl_validation_report := v\<rparr> \<in> set ts"
  by (rule exI [of _ "tl_validation_report t"]) simp

lemma db_step_timelines:
  assumes "db_step a b" and "t \<in> set (db_timelines a)"
  shows "\<exists>v. t\<lparr>tl_validation_report := v\<rparr> \<in> set (db_timelines b)"
proof -
  from assms show ?thesis
  proof (induction rule: db_step.induct)
    case (Report db P v)
    then show ?case
      by (cases "P t") (force simp: update_where_def intro: exI [of _ v] exI [of _ "tl_validation_report t"])+
  next
    case (NewTimeline r db db')
    then show ?case using same_report [of t "db_timelines db"] by (auto simp: insert_timeline_def)
  qed (auto simp: step_simps split: if_splits intro: same_report)
qed

section \<open>Timeline versions\<close>

definition keeps_timelines :: "db \<Rightarrow> db \<Rightarrow> bool" where
  "keeps_timelines a b \<longleftrightarrow>
     (\<forall>t \<in> set (db_timelines a). \<exists>v. t\<lparr>tl_validation_report := v\<rparr> \<in> set (db_timelines b))"

interpretation timelines: tx_relation keeps_timelines
proof
  fix a show "keeps_timelines a a"
    by (simp add: keeps_timelines_def same_report)
next
  fix a b c assume "keeps_timelines a b" "keeps_timelines b c"
  then show "keeps_timelines a c" unfolding keeps_timelines_def by fastforce
next
  fix a b assume "tx_step a b"
  then show "keeps_timelines a b"
  proof (induction rule: tx_step.induct)
    case (Step db db')
    then show ?case by (auto simp: keeps_timelines_def intro: db_step_timelines)
  next
    case (Rows db db')
    then show ?case by (auto simp: keeps_timelines_def event_tables_eqs [OF row_step_tables] intro: same_report)
  qed (auto simp: keeps_timelines_def step_simps split: if_splits sum.splits intro: same_report)
qed

text \<open>
  C8. A transaction never removes or changes a stored timeline version: for every version before
  it there is the same version after it, with at most another validation report.  The versions are
  the immutable snapshots that queued render jobs refer to.
\<close>

theorem timeline_versions_immutable:
  assumes "Apply en op evs db = Inr (res, db')" and "t \<in> set (db_timelines db)"
  shows "\<exists>v. t\<lparr>tl_validation_report := v\<rparr> \<in> set (db_timelines db')"
  using timelines.applied [OF assms(1)] assms(2) by (simp add: keeps_timelines_def)

section \<open>The event log\<close>

definition log_keys :: "event_row list \<Rightarrow> (string \<times> string) list" where
  "log_keys rows = map (\<lambda>r. (el_event_type r, the (el_merge_key r))) (filter (\<lambda>r. el_merge_key r \<noteq> None) rows)"

definition log_ok :: "db \<Rightarrow> bool" where
  "log_ok db \<longleftrightarrow> distinct (log_keys (db_event_log db)) \<and> sorted_wrt (<) (map el_event_id (db_event_log db))
     \<and> (\<forall>r \<in> set (db_event_log db). el_event_id r \<le> db_event_seq db)"

definition log_grows :: "db \<Rightarrow> db \<Rightarrow> bool" where
  "log_grows a b \<longleftrightarrow> prefix (db_event_log a) (db_event_log b) \<and> (log_ok a \<longrightarrow> log_ok b)"

lemma logged_keys: "logged db t k \<longleftrightarrow> (t, k) \<in> set (log_keys (db_event_log db))"
  by (force simp: logged_def log_keys_def list_ex_iff)

lemma append_event_log_ok:
  assumes "append_event c vs ev db = Inr (a, db')" and "log_ok db"
  shows "log_ok db'"
proof -
  from assms(1) obtain k r where k: "MergeKey ev = Inr k"
    and new: "\<not> (nullableText k \<noteq> None \<and> logged db (ev_Type ev) k)"
    and db': "db' = db\<lparr>db_event_log := db_event_log db @ [r], db_event_seq := db_event_seq db + 1\<rparr>"
    and r: "el_event_id r = db_event_seq db + 1" "el_event_type r = ev_Type ev" "el_merge_key r = nullableText k"
    by (auto simp: append_event_def Let_def split: sum.splits if_splits)
  have "log_keys [r] = (case nullableText k of None \<Rightarrow> [] | Some k \<Rightarrow> [(ev_Type ev, k)])"
    using r by (auto simp: log_keys_def split: option.splits)
  moreover have "log_keys (db_event_log db @ [r]) = log_keys (db_event_log db) @ log_keys [r]"
    by (simp add: log_keys_def)
  ultimately have "distinct (log_keys (db_event_log db @ [r]))"
    using assms(2) new by (auto simp: log_ok_def logged_keys nullableText_def split: if_splits)
  then show ?thesis using assms(2) r by (auto simp: log_ok_def db' sorted_wrt_append intro: le_less_trans)
qed

interpretation event_log: tx_relation log_grows
proof
  fix a b assume "tx_step a b"
  then show "log_grows a b"
  proof (induction rule: tx_step.induct)
    case (Step db db')
    then show ?case using db_step_log [of db db'] by (auto simp: log_grows_def log_ok_def)
  next
    case (Log c vs ev db a db')
    then show ?case using append_event_log_ok [of c vs ev db a db']
      by (auto simp: log_grows_def append_event_def Let_def split: sum.splits if_splits)
  next
    case (Rows db db')
    then show ?case by (auto simp: log_grows_def log_ok_def event_tables_eqs [OF row_step_tables])
  qed (auto simp: log_grows_def log_ok_def insert_draft_def)
qed (auto simp: log_grows_def intro: prefix_order.trans)

text \<open>
  C9. The event log is append-only, and a transaction keeps it well-formed: event numbers increase
  and no two entries share their type and merge key.
\<close>

theorem event_log_append_only:
  assumes "Apply en op evs db = Inr (res, db')" and "log_ok db"
  shows "prefix (db_event_log db) (db_event_log db') \<and> log_ok db'"
  using event_log.applied [OF assms(1)] assms(2) by (simp add: log_grows_def)

section \<open>The edit history\<close>

definition history_bounded :: "db \<Rightarrow> bool" where
  "history_bounded db \<longleftrightarrow> (\<forall>d. rows_affected (\<lambda>b. eb_draft_id b = d) (db_edit_batches db) \<le> edit_batch_limit)"

lemma keep_last_count: "rows_affected P (keep_last P n rows) = min n (rows_affected P rows)"
proof (induction rows)
  case (Cons r rs)
  then show ?case by (cases "P r") (auto simp: rows_affected_def min_def)
qed (simp add: rows_affected_def)

lemma keep_last_other:
  "(\<And>r. Q r \<Longrightarrow> \<not> P r) \<Longrightarrow> filter Q (keep_last P n rows) = filter Q rows"
  by (induction rows) auto

lemma insert_edit_batch_bounded:
  assumes "insert_edit_batch r db = Inr db'" and "history_bounded db"
  shows "history_bounded db'"
  unfolding history_bounded_def
proof
  fix d
  let ?P = "\<lambda>b. eb_draft_id b = eb_draft_id r"
  from assms(1) have db': "db_edit_batches db' = keep_last ?P edit_batch_limit (db_edit_batches db @ [r])"
    by (auto simp: insert_edit_batch_def)
  show "rows_affected (\<lambda>b. eb_draft_id b = d) (db_edit_batches db') \<le> edit_batch_limit"
  proof (cases "d = eb_draft_id r")
    case True
    then show ?thesis by (simp add: db' keep_last_count)
  next
    case False
    then have "rows_affected (\<lambda>b. eb_draft_id b = d) (db_edit_batches db')
        = rows_affected (\<lambda>b. eb_draft_id b = d) (db_edit_batches db)"
      unfolding rows_affected_def db' by (subst keep_last_other) auto
    then show ?thesis using assms(2) by (simp add: history_bounded_def)
  qed
qed

definition keeps_history_bounded :: "db \<Rightarrow> db \<Rightarrow> bool" where
  "keeps_history_bounded a b \<longleftrightarrow> (history_bounded a \<longrightarrow> history_bounded b)"

lemma db_step_batches:
  "db_step a b \<Longrightarrow> db_edit_batches b = db_edit_batches a \<or> (\<exists>r. insert_edit_batch r a = Inr b)"
proof (induction rule: db_step.induct)
  case (EditBatch r db db')
  then show ?case by blast
qed (auto simp: step_simps split: if_splits)

lemma db_step_history: "db_step a b \<Longrightarrow> history_bounded a \<Longrightarrow> history_bounded b"
  using db_step_batches [of a b] insert_edit_batch_bounded by (auto simp: history_bounded_def)

interpretation history: tx_relation keeps_history_bounded
proof
  fix a b assume "tx_step a b"
  then show "keeps_history_bounded a b"
    unfolding keeps_history_bounded_def
  proof (induction rule: tx_step.induct)
    case (Step db db')
    then show ?case using db_step_history by blast
  next
    case (Rows db db')
    then show ?case by (simp add: history_bounded_def event_tables_eqs [OF row_step_tables])
  qed (auto simp: history_bounded_def step_simps split: if_splits sum.splits)
qed (auto simp: keeps_history_bounded_def)

text \<open>
  C11. No transaction leaves a draft with more than twenty edit batches.
\<close>

theorem edit_history_bounded:
  assumes "Apply en op evs db = Inr (res, db')" and "history_bounded db"
  shows "rows_affected (\<lambda>b. eb_draft_id b = d) (db_edit_batches db') \<le> 20"
  using history.applied [OF assms(1)] assms(2)
  by (auto simp: keeps_history_bounded_def history_bounded_def edit_batch_limit_def)

section \<open>Cancelled jobs\<close>

definition jobs_unique :: "db \<Rightarrow> bool" where
  "jobs_unique db \<longleftrightarrow> distinct (map jb_job_id (db_jobs db))"

definition keeps_cancelled :: "db \<Rightarrow> db \<Rightarrow> bool" where
  "keeps_cancelled a b \<longleftrightarrow> (jobs_unique a \<longrightarrow> jobs_unique b \<and>
     (\<forall>j \<in> set (db_jobs a). \<exists>j' \<in> set (db_jobs b). jb_job_id j' = jb_job_id j \<and> jb_kind j' = jb_kind j
        \<and> (jb_status j = ''cancelled'' \<longrightarrow> jb_status j' = ''cancelled'')))"

lemma update_job_row_keys [simp]:
  "jb_job_id (update_job_row c ev res err r) = jb_job_id r"
  "jb_kind (update_job_row c ev res err r) = jb_kind r"
  "jb_status (update_job_row c ev res err r) = job_event_status (ev_Type ev)"
  by (simp_all add: update_job_row_def Let_def)

lemma find_job_unique:
  assumes "jobs_unique db" and "j \<in> set (db_jobs db)"
  shows "find_job (jb_job_id j) db = Some j"
proof -
  have "distinct (map jb_job_id js) \<Longrightarrow> j \<in> set js \<Longrightarrow> find (\<lambda>r. jb_job_id r = jb_job_id j) js = Some j" for js
    by (induction js) auto
  with assms show ?thesis by (simp add: jobs_unique_def find_job_def)
qed

lemma db_step_jobs:
  "db_step a b \<Longrightarrow> db_jobs b = db_jobs a \<or> (\<exists>r. jb_job_id r \<notin> jb_job_id ` set (db_jobs a) \<and> db_jobs b = db_jobs a @ [r])
    \<or> (\<exists>j r ev c res err. find_job j a = Some r \<and> check_job ev r = None \<and> job_event ev \<and>
        db_jobs b = update_where (\<lambda>r. jb_job_id r = j) (update_job_row c ev res err) (db_jobs a))"
proof (induction rule: db_step.induct)
  case (JobUpdate j db r ev c res err)
  then show ?case by (intro disjI2 exI conjI) (assumption | simp)+
qed (auto simp: step_simps split: if_splits)

lemma update_jobs_ids [simp]:
  "map jb_job_id (update_where P (update_job_row c ev res err) js) = map jb_job_id js"
  by (simp add: update_where_def comp_def if_distrib cong: if_cong)

lemma update_cancelled:
  assumes "find_job i a = Some r" and "check_job ev r = None" and "jobs_unique a"
    and "j \<in> set (db_jobs a)" and "js = update_where (\<lambda>r. jb_job_id r = i) (update_job_row c ev res err) (db_jobs a)"
  shows "\<exists>j' \<in> set js. jb_job_id j' = jb_job_id j \<and> jb_kind j' = jb_kind j
    \<and> (jb_status j = ''cancelled'' \<longrightarrow> jb_status j' = ''cancelled'')"
proof (cases "jb_job_id j = i")
  case True
  with find_job_unique [OF assms(3,4)] assms(1) have "r = j" by simp
  with assms(2) have "jb_status j = ''cancelled'' \<longrightarrow> ev_Type ev = ''JobCancelled''"
    by (auto simp: check_job_def split: if_splits)
  moreover have "update_job_row c ev res err j \<in> set js" using True assms(4,5) by (auto simp: update_where_def)
  ultimately show ?thesis by (intro bexI [of _ "update_job_row c ev res err j"]) (auto simp: job_event_status_def)
next
  case False
  then have "j \<in> set js" using assms(4,5) by (force simp: update_where_def)
  then show ?thesis by blast
qed

lemma db_step_cancelled:
  assumes "db_step a b"
  shows "keeps_cancelled a b"
  using db_step_jobs [OF assms]
proof (elim disjE exE conjE)
  assume "db_jobs b = db_jobs a"
  then show ?thesis by (auto simp: keeps_cancelled_def jobs_unique_def)
next
  fix r assume "jb_job_id r \<notin> jb_job_id ` set (db_jobs a)" "db_jobs b = db_jobs a @ [r]"
  then show ?thesis by (auto simp: keeps_cancelled_def jobs_unique_def)
next
  fix i r ev c res err
  assume "find_job i a = Some r" "check_job ev r = None" "job_event ev"
    and b: "db_jobs b = update_where (\<lambda>r. jb_job_id r = i) (update_job_row c ev res err) (db_jobs a)"
  then show ?thesis using update_cancelled [of i a r ev _ "db_jobs b"]
    by (simp add: keeps_cancelled_def) (simp add: jobs_unique_def b)
qed

interpretation jobs: tx_relation keeps_cancelled
proof
  fix a b c assume "keeps_cancelled a b" "keeps_cancelled b c"
  then show "keeps_cancelled a c" unfolding keeps_cancelled_def by metis
next
  fix a b assume "tx_step a b"
  then show "keeps_cancelled a b"
  proof (induction rule: tx_step.induct)
    case (Step db db')
    then show ?case by (rule db_step_cancelled)
  next
    case (Rows db db')
    then show ?case by (auto simp: keeps_cancelled_def jobs_unique_def event_tables_eqs [OF row_step_tables])
  qed (auto simp: keeps_cancelled_def jobs_unique_def insert_draft_def append_event_def Let_def
      split: if_splits sum.splits)
qed (auto simp: keeps_cancelled_def)

text \<open>
  C10. A cancelled job is final: whatever events a transaction applies, a job that was cancelled
  before it is cancelled after it, and no job disappears.
\<close>

theorem cancelled_jobs_final:
  assumes "Apply en op evs db = Inr (res, db')" and "jobs_unique db" and "j \<in> set (db_jobs db)"
  shows "\<exists>j' \<in> set (db_jobs db'). jb_job_id j' = jb_job_id j \<and>
    (jb_status j = ''cancelled'' \<longrightarrow> jb_status j' = ''cancelled'')"
  using jobs.applied [OF assms(1)] assms(2,3) by (fastforce simp: keeps_cancelled_def)

end
