(* ===== verification/Reducer_Versions.thy ===== *)
theory Reducer_Versions
  imports Reducer_Safety
begin

text \<open>
  Optimistic concurrency: how a transaction advances the versions of the drafts it touches, why a
  strict event written against an old version is refused, and why replaying merge events changes
  nothing.
\<close>

section \<open>Versions during the events\<close>

definition draft_version :: "db \<Rightarrow> string \<Rightarrow> goint option" where
  "draft_version db d = map_option dr_state_version (find_draft d db)"

lemma lookupDraftVersion_Inr: "lookupDraftVersion db d = Inr v \<longleftrightarrow> draft_version db d = Some v"
  by (simp add: lookupDraftVersion_def draft_version_def split: option.splits)

lemma find_append: "find P (xs @ ys) = (case find P xs of None \<Rightarrow> find P ys | Some x \<Rightarrow> Some x)"
  by (induction xs) auto

lemma find_SomeD: "find P xs = Some x \<Longrightarrow> x \<in> set xs \<and> P x"
  by (auto simp: find_Some_iff)

lemma find_update_where:
  "(\<And>r. P (f r) = P r) \<Longrightarrow> find P (update_where Q f rows) = map_option (\<lambda>r. if Q r then f r else r) (find P rows)"
  by (induction rows) (auto simp: update_where_def)

lemma update_draft_version:
  "same_draft_keys f \<Longrightarrow> draft_version (update_draft d' f db) d = draft_version db d"
  unfolding draft_version_def find_draft_def update_draft_def
  by (cases "find (\<lambda>r. dr_draft_id r = d) (db_drafts db)") (simp_all add: find_update_where same_draft_keys_def)

lemma draft_version_cong: "db_drafts a = db_drafts b \<Longrightarrow> draft_version a d = draft_version b d"
  by (simp add: draft_version_def find_draft_def)

lemma db_step_drafts:
  "db_step a b \<Longrightarrow> db_drafts b = db_drafts a \<or> (\<exists>d f. same_draft_keys f \<and> b = update_draft d f a)"
proof (induction rule: db_step.induct)
  case (Draft f d db)
  then show ?case by blast
qed (auto simp: step_simps split: if_splits)

lemma db_step_version: "db_step a b \<Longrightarrow> draft_version b d = draft_version a d"
  using db_step_drafts [of a b] by (auto simp: update_draft_version intro: draft_version_cong)

lemma insert_draft_version:
  assumes "insert_draft r db = Inr db'"
  shows "draft_version db' d = (if d = dr_draft_id r then Some (dr_state_version r) else draft_version db d)"
    and "draft_version db (dr_draft_id r) = None"
proof -
  have none: "find (\<lambda>x. dr_draft_id x = dr_draft_id r) (db_drafts db) = None"
    using assms by (auto simp: insert_draft_def find_None_iff image_iff)
  then show "draft_version db (dr_draft_id r) = None" by (simp add: draft_version_def find_draft_def)
  show "draft_version db' d = (if d = dr_draft_id r then Some (dr_state_version r) else draft_version db d)"
    using assms none
    by (cases "d = dr_draft_id r")
      (auto simp: insert_draft_def draft_version_def find_draft_def find_append split: option.split)
qed

text \<open>Every version the state remembers is the draft's, and every touched draft is remembered.\<close>

definition versions_known :: "apply_state \<Rightarrow> bool" where
  "versions_known st \<longleftrightarrow> (\<forall>d v. st_original st d = Some v \<longrightarrow> draft_version (st_db st) d = Some v)
     \<and> set (st_touched st) \<subseteq> dom (st_original st)"

definition versions_kept :: "apply_state \<Rightarrow> apply_state \<Rightarrow> bool" where
  "versions_kept s t \<longleftrightarrow> (versions_known s \<longrightarrow> versions_known t)
     \<and> (\<forall>d v. draft_version (st_db s) d = Some v \<longrightarrow> draft_version (st_db t) d = Some v)"

lemma st_version_Inr:
  assumes "st_version st d = Inr (v, st')" and "versions_known st"
  shows "draft_version (st_db st) d = Some v" "st' = st\<lparr>st_original := (st_original st)(d \<mapsto> v)\<rparr>"
  using assms by (auto simp: st_version_def versions_known_def lookupDraftVersion_Inr fun_upd_idem split: option.splits)

lemma versions_known_remember:
  assumes "versions_known st" and "draft_version (st_db st) d = Some v"
  shows "versions_known (st\<lparr>st_original := (st_original st)(d \<mapsto> v)\<rparr>)"
  using assms by (auto simp: versions_known_def)

lemma touch_known:
  assumes "touch st d = Inr st'" and "versions_known st"
  shows "versions_known st'"
proof -
  from assms(1) obtain v st1 where v: "st_version st d = Inr (v, st1)"
    and st': "st' = st1\<lparr>st_touched := List.insert d (st_touched st1)\<rparr>" by (auto simp: touch_def)
  note known = st_version_Inr [OF v assms(2)]
  have "versions_known st1" unfolding known(2) by (rule versions_known_remember [OF assms(2) known(1)])
  moreover have "st_original st1 d = Some v" by (simp add: known(2))
  ultimately show ?thesis by (auto simp: versions_known_def st')
qed

lemma touch_db: "touch st d = Inr st' \<Longrightarrow> st_db st' = st_db st"
  by (auto simp: touch_def dest: st_version_db)

lemma st_step_versions: "st_step s t \<Longrightarrow> versions_kept s t"
proof (induction rule: st_step.induct)
  case (Db st db')
  then show ?case by (simp add: versions_kept_def versions_known_def db_step_version [OF Db])
next
  case (Touch st d st')
  then show ?case using touch_known [OF Touch] touch_db [OF Touch] by (simp add: versions_kept_def)
next
  case (Affected st ms)
  then show ?case by (simp add: versions_kept_def versions_known_def)
next
  case (Create r st db')
  then show ?case using insert_draft_version [OF Create]
    by (auto simp: versions_kept_def versions_known_def)
qed

lemma st_steps_versions: "st_steps s t \<Longrightarrow> versions_kept s t"
  by (induction rule: rtranclp_induct) (auto simp: versions_kept_def dest: st_step_versions)

lemma apply_events_versions: "apply_events st seen evs = Inr st' \<Longrightarrow> versions_kept st st'"
proof (induction evs arbitrary: st seen)
  case (Cons ev evs)
  from Cons.prems obtain key dup where k: "existingMergeEvent (st_db st) ev = Inr (key, dup)" by auto
  show ?case
  proof (cases "dup \<or> key \<noteq> [] \<and> (ev_Type ev, key) \<in> set seen")
    case True
    with Cons.prems k have "apply_events (st\<lparr>st_skipped := Suc (st_skipped st)\<rparr>) seen evs = Inr st'" by simp
    from Cons.IH [OF this] show ?thesis by (simp add: versions_kept_def versions_known_def)
  next
    case False
    with Cons.prems k obtain st1 where a: "applyEvent st ev = Inr st1"
      and r: "apply_events (st1\<lparr>st_eventsToLog := st_eventsToLog st1 @ [ev]\<rparr>)
        (if key = [] then seen else (ev_Type ev, key) # seen) evs = Inr st'"
      by auto
    from st_steps_versions [OF applyEvent_steps [OF a]] Cons.IH [OF r]
    show ?thesis by (simp add: versions_kept_def versions_known_def)
  qed
qed (simp add: versions_kept_def)

lemma preflight_known: "preflightStrict st evs = Inr (cf, st') \<Longrightarrow> versions_known st \<Longrightarrow> versions_known st'"
proof (induction evs arbitrary: st)
  case (Cons ev evs)
  show ?case
  proof (cases "VersionMode ev = Some VersionStrict")
    case True
    with Cons.prems obtain v st1 where v: "st_version st (ev_DraftID ev) = Inr (v, st1)"
      by (auto simp del: bind_sum_Inr split: if_splits elim!: bind_sum_InrE)
    have "versions_known st1"
      using st_version_Inr [OF v Cons.prems(2)] versions_known_remember [OF Cons.prems(2)] by simp
    moreover from v Cons.prems True have "st' = st1 \<or> preflightStrict st1 evs = Inr (cf, st')"
      by (auto split: if_splits)
    ultimately show ?thesis using Cons.IH [of st1] by auto
  next
    case False
    with Cons show ?thesis by simp
  qed
qed simp

text \<open>What the check of a batch against the versions establishes for its strict events.\<close>

lemma preflight_strict:
  assumes "preflightStrict st evs = Inr (None, st')" and "versions_known st"
    and "ev \<in> set evs" and "VersionMode ev = Some VersionStrict"
  shows "ev_BaseVersion ev = draft_version (st_db st) (ev_DraftID ev)"
  using assms
proof (induction evs arbitrary: st)
  case (Cons e evs)
  show ?case
  proof (cases "VersionMode e = Some VersionStrict")
    case True
    with Cons.prems obtain v st1 where v: "st_version st (ev_DraftID e) = Inr (v, st1)"
      and b: "ev_BaseVersion e = Some v" and r: "preflightStrict st1 evs = Inr (None, st')"
      by (auto split: if_splits)
    have "versions_known st1" "st_db st1 = st_db st"
      using st_version_Inr [OF v Cons.prems(2)] versions_known_remember [OF Cons.prems(2)] by simp_all
    with Cons.IH [OF r] Cons.prems b st_version_Inr(1) [OF v Cons.prems(2)] show ?thesis by auto
  next
    case False
    with Cons show ?thesis by auto
  qed
qed simp

section \<open>Advancing the versions\<close>

lemma find_bumped:
  assumes "d \<noteq> d'"
  shows "find (\<lambda>r. dr_draft_id r = d) (update_where (\<lambda>r. dr_draft_id r = d' \<and> dr_state_version r = v)
    (\<lambda>r. r\<lparr>dr_state_version := w, dr_updated_at := c\<rparr>) rows) = find (\<lambda>r. dr_draft_id r = d) rows"
  using assms by (induction rows) (auto simp: update_where_def)

lemma bump_version:
  assumes "draft_version db d' = Some v"
  shows "draft_version (db\<lparr>db_drafts := update_where (\<lambda>r. dr_draft_id r = d' \<and> dr_state_version r = v)
      (\<lambda>r. r\<lparr>dr_state_version := v + 1, dr_updated_at := c\<rparr>) (db_drafts db)\<rparr>) d
    = (if d = d' then Some (v + 1) else draft_version db d)"
proof (cases "d = d'")
  case True
  from assms obtain z where z: "find (\<lambda>r. dr_draft_id r = d') (db_drafts db) = Some z" "dr_state_version z = v"
    by (auto simp: draft_version_def find_draft_def)
  with find_SomeD [OF z(1)] show ?thesis
    unfolding draft_version_def find_draft_def by (simp add: True find_update_where)
next
  case False
  then show ?thesis unfolding draft_version_def find_draft_def by (simp add: find_bumped)
qed

lemma bump_versions_result:
  assumes "bump_versions c orig ds db = Inr (None, vs, db')" and "distinct ds"
    and "\<forall>d \<in> set ds. orig d \<noteq> None \<and> draft_version db d = orig d"
  shows "vs = map (\<lambda>d. (d, the (orig d) + 1)) ds \<and>
    (\<forall>d. draft_version db' d = (if d \<in> set ds then Some (the (orig d) + 1) else draft_version db d))"
  using assms
proof (induction ds arbitrary: db vs)
  case (Cons d ds)
  then obtain v where v: "orig d = Some v" "draft_version db d = Some v" by auto
  let ?db = "db\<lparr>db_drafts := update_where (\<lambda>r. dr_draft_id r = d \<and> dr_state_version r = v)
      (\<lambda>r. r\<lparr>dr_state_version := v + 1, dr_updated_at := c\<rparr>) (db_drafts db)\<rparr>"
  from Cons.prems(1) v obtain vs' where r: "bump_versions c orig ds ?db = Inr (None, vs', db')"
    and vs: "vs = (d, v + 1) # vs'"
    by (auto simp: Let_def split: if_splits)
  have "\<forall>e \<in> set ds. orig e \<noteq> None \<and> draft_version ?db e = orig e"
    using Cons.prems(2,3) bump_version [OF v(2)] by auto
  from Cons.IH [OF r _ this] Cons.prems(2) bump_version [OF v(2)] v vs show ?case by auto
qed simp

lemma append_event_drafts: "append_event c vs ev db = Inr (a, db') \<Longrightarrow> db_drafts db' = db_drafts db"
  by (auto simp: append_event_def Let_def split: sum.splits if_splits)

lemma appendEvents_drafts: "appendEvents c vs evs db = Inr (as, db') \<Longrightarrow> db_drafts db' = db_drafts db"
  by (induction evs arbitrary: db as) (auto dest: append_event_drafts)

definition same_core_tables :: "db \<Rightarrow> db \<Rightarrow> bool" where
  "same_core_tables a b \<longleftrightarrow> (\<forall>d. draft_version b d = draft_version a d) \<and> db_event_log b = db_event_log a
     \<and> db_timelines b = db_timelines a \<and> db_jobs b = db_jobs a"

lemma same_core_tables_trans: "same_core_tables a b \<Longrightarrow> same_core_tables b c \<Longrightarrow> same_core_tables a c"
  by (simp add: same_core_tables_def)

lemma same_coreI:
  assumes "db_drafts b = db_drafts a" "db_event_log b = db_event_log a" "db_timelines b = db_timelines a"
    "db_jobs b = db_jobs a"
  shows "same_core_tables a b"
  using assms draft_version_cong [of b a] by (simp add: same_core_tables_def)

lemma lease_mutation_core: "persistAgentEditLeaseMutation n m db = Inr (lo', db') \<Longrightarrow> same_core_tables db db'"
  by (auto simp: persistAgentEditLeaseMutation_def acquire_lease_def renew_lease_def Let_def
      split: lease_operation.splits if_splits option.splits intro!: same_coreI)

lemma interrupt_core: "same_core_tables db (interruptRunningAgentTurns j c db)"
  by (intro same_coreI) (simp_all add: interruptRunningAgentTurns_def Let_def)

lemma turn_rows_core:
  "persistAgentTurnRunStart c r db = Inr db' \<Longrightarrow> same_core_tables db db'"
  "persistAgentTurnRunFinish c f db = Inr db' \<Longrightarrow> same_core_tables db db'"
  "persistAgentToolReceipt c x db = Inr db' \<Longrightarrow> same_core_tables db db'"
  by (auto simp: persistAgentTurnRunStart_def persistAgentTurnRunFinish_def persistAgentToolReceipt_def Let_def
      split: option.splits intro!: same_coreI)

lemma recordRewindCheckpoint_core:
  assumes "recordRewindCheckpoint i db = Inr db'"
  shows "same_core_tables db db'"
  using assms
  by (intro same_coreI) (auto simp: recordRewindCheckpoint_def insert_checkpoint_def prune_checkpoints_def Let_def
      split: if_splits)

lemma message_core:
  assumes "persistMessage c m db = Inr db'"
  shows "same_core_tables db db'"
proof (cases m)
  case None
  with assms show ?thesis by (simp add: persistMessage_def same_core_tables_def)
next
  case (Some x)
  with assms obtain ms t where "db' = db\<lparr>db_messages := ms\<rparr> \<or>
      recordMessageRewindCheckpoint (mi_ID x) (mi_DraftID x) (mi_Content x) t (db\<lparr>db_messages := ms\<rparr>) = Inr db'"
    by (auto simp: persistMessage_def Let_def split: if_splits)
  moreover have "same_core_tables db (db\<lparr>db_messages := ms\<rparr>)" by (rule same_coreI) simp_all
  ultimately show ?thesis
    by (auto simp: recordMessageRewindCheckpoint_def dest: recordRewindCheckpoint_core same_core_tables_trans)
qed

lemma persistTurnRows_core:
  assumes "persistTurnRows n j c rows db = Inr (lo', db')"
  shows "same_core_tables db db'"
proof -
  from assms obtain lo1 db1 db2 db3 db4 where
    a: "(case rs_Lease rows of None \<Rightarrow> Inr (None, db)
       | Some m \<Rightarrow> bind_sum (persistAgentEditLeaseMutation n m db) (\<lambda>(o', db). Inr (Some o', db))) = Inr (lo1, db1)"
    and b: "persistAgentTurnRunStart c (rs_TurnStart rows)
      (if rs_Interrupt rows then interruptRunningAgentTurns j c db1 else db1) = Inr db2"
    and d: "persistAgentTurnRunFinish c (rs_TurnFinish rows) db2 = Inr db3"
    and e: "persistAgentToolReceipt c (rs_Receipt rows) db3 = Inr db4"
    and f: "persistMessage c (rs_Message rows) db4 = Inr db'"
    by (auto simp: persistTurnRows_def Let_def)
  have "same_core_tables db db1" using a lease_mutation_core
    by (auto simp: same_core_tables_def split: option.splits)
  moreover have "same_core_tables db1 (if rs_Interrupt rows then interruptRunningAgentTurns j c db1 else db1)"
    using interrupt_core by (auto simp: same_core_tables_def)
  ultimately show ?thesis
    using turn_rows_core(1) [OF b] turn_rows_core(2) [OF d] turn_rows_core(3) [OF e] message_core [OF f]
    by (simp add: same_core_tables_def)
qed

lemma row_step_core: "row_step a b \<Longrightarrow> same_core_tables a b"
  using row_step_drafts [of a b] event_tables_eqs [OF row_step_tables [of a b]]
  by (auto simp: same_core_tables_def update_draft_version intro: draft_version_cong)

lemma row_steps_core: "row_steps a b \<Longrightarrow> same_core_tables a b"
  by (induction rule: rtranclp_induct) (auto simp: same_core_tables_def dest: row_step_core)

lemma persistResultRows_core:
  assumes "persistResultRows n j sha c rows db = Inr (lo', mo, db')"
  shows "same_core_tables db db'"
proof -
  from assms obtain db1 db2 where "persistTurnRows n j c rows db = Inr (lo', db1)"
    and "persistMemoryRows c rows db1 = Inr (mo, db2)" and "persistAnalysisRows sha c rows db2 = Inr db'"
    by (auto simp: persistResultRows_def)
  then show ?thesis
    using persistTurnRows_core [of n j c rows db lo' db1] row_step_core [OF row_step.Memories [of c rows db1 mo db2]]
      row_steps_core [OF persistAnalysisRows_steps [of sha c rows db2 db']]
    by (meson same_core_tables_trans)
qed

lemma initial_known: "versions_known (initial_state c db)"
  by (simp add: initial_state_def versions_known_def)

lemma begin_restore_core: "begin_restore c r db = Inr db' \<Longrightarrow> same_core_tables db db'"
  by (auto simp: begin_restore_def split: option.splits if_splits intro!: same_coreI)

lemma finish_restore_core: "same_core_tables db (finish_restore r ids ms db)"
  by (auto simp: finish_restore_def split: option.split intro!: same_coreI)

text \<open>The versions after the end of a transaction whose events left the versions known.\<close>

lemma finish_versions:
  assumes "finish en op c st db0 = Inr (res, db')" and "ar_Status res = StatusApplied" and "versions_known st"
  shows "ar_DraftStateVersions res = map (\<lambda>d. (d, the (st_original st d) + 1)) (sortedKeys (st_touched st))"
    and "draft_version db' d = (if d \<in> set (st_touched st) then Some (the (st_original st d) + 1)
      else draft_version (st_db st) d)"
proof -
  from assms(1,2) obtain lease memory db1 vs db2 as db3 where
    r: "persistResultRows (en_now en) (en_json_text en) (en_sha en) c (op_ResultRows op) (st_db st) = Inr (lease, memory, db1)"
    and b: "bump_versions c (st_original st) (sortedKeys (st_touched st)) db1 = Inr (None, vs, db2)"
    and l: "appendEvents c vs (st_eventsToLog st) db2 = Inr (as, db3)"
    and db': "db' = finish_restore (op_RewindRestore op) (map ae_ID as)
      (case st_affected st of None \<Rightarrow> [] | Some ms \<Rightarrow> ms) db3"
    and vs: "ar_DraftStateVersions res = vs"
    by (elim finish_cases) auto
  have keys: "set (sortedKeys (st_touched st)) = set (st_touched st)" "distinct (sortedKeys (st_touched st))"
    by (auto simp: sortedKeys_def)
  have same: "draft_version db1 e = draft_version (st_db st) e" for e
    using persistResultRows_core [OF r] by (simp add: same_core_tables_def)
  have "\<forall>e \<in> set (sortedKeys (st_touched st)). st_original st e \<noteq> None \<and> draft_version db1 e = st_original st e"
    using assms(3) keys same by (auto simp: versions_known_def)
  note bumped = bump_versions_result [OF b keys(2) this]
  show "ar_DraftStateVersions res = map (\<lambda>d. (d, the (st_original st d) + 1)) (sortedKeys (st_touched st))"
    using bumped vs by simp
  have "draft_version db' d = draft_version db2 d"
    using draft_version_cong [OF appendEvents_drafts [OF l]] finish_restore_core [of db3] db'
    by (simp add: same_core_tables_def)
  with bumped same keys show "draft_version db' d = (if d \<in> set (st_touched st)
      then Some (the (st_original st d) + 1) else draft_version (st_db st) d)"
    by simp
qed

section \<open>Transactions and versions\<close>

lemma Apply_versions:
  assumes "Apply en op evs db = Inr (res, db')" and "draft_version db d = Some v"
  shows "draft_version db' d = Some (v + (if d \<in> fst ` set (ar_DraftStateVersions res) then 1 else 0))"
    and "(d, w) \<in> set (ar_DraftStateVersions res) \<Longrightarrow> w = v + 1"
  using assms(1)
proof (atomize (full), cases rule: Apply_cases)
  case 1
  with assms(2) show "draft_version db' d = Some (v + (if d \<in> fst ` set (ar_DraftStateVersions res) then 1 else 0))
    \<and> ((d, w) \<in> set (ar_DraftStateVersions res) \<longrightarrow> w = v + 1)" by simp
next
  case (2 evs' db1 st st')
  have db1: "draft_version db1 e = draft_version db e" for e
    using 2(3) begin_restore_core [of _ _ db db1] by (auto simp: admit_Inr same_core_tables_def)
  have known: "versions_known st" by (rule preflight_known [OF 2(4) initial_known])
  have "st_db st = db1" using preflightStrict_db [OF 2(4)] by (simp add: initial_state_def)
  then have v: "draft_version (st_db st') d = Some v" and "versions_known st'"
    using apply_events_versions [OF 2(5)] known assms(2) db1 by (auto simp: versions_kept_def)
  note fin = finish_versions [OF 2(6,1) this(2)]
  have "d \<in> set (st_touched st') \<Longrightarrow> st_original st' d = Some v"
    using v \<open>versions_known st'\<close> by (auto simp: versions_known_def)
  then show "draft_version db' d = Some (v + (if d \<in> fst ` set (ar_DraftStateVersions res) then 1 else 0))
    \<and> ((d, w) \<in> set (ar_DraftStateVersions res) \<longrightarrow> w = v + 1)"
    using fin v by (auto simp: sortedKeys_def image_iff)
qed

text \<open>
  C4. A transaction advances the version of a draft by exactly one when it reports the draft in
  its result, and leaves it alone otherwise; a refused transaction advances none.
\<close>

theorem state_versions_advance:
  assumes "Apply en op evs db = Inr (res, db')" and "draft_version db d = Some v"
  shows "draft_version db' d = Some (v + (if d \<in> fst ` set (ar_DraftStateVersions res) then 1 else 0))"
  by (rule Apply_versions(1) [OF assms])

lemma event_keys_cong:
  assumes "ev_Type e' = ev_Type e" and "ev_DraftID e' = ev_DraftID e" and "ev_Payload e' = ev_Payload e"
  shows "VersionMode e' = VersionMode e" "MergeKey e' = MergeKey e"
proof -
  have p: "payload e' = payload e" using assms(3) by (simp add: payload_def fun_eq_iff)
  then have v: "valueForKey e' = valueForKey e" using assms(2) by (simp add: valueForKey_def fun_eq_iff)
  then have k: "key_part e' = key_part e" by (simp add: key_part_def fun_eq_iff)
  show m: "VersionMode e' = VersionMode e" unfolding VersionMode_def event_Spec_def assms(1) p ..
  show "MergeKey e' = MergeKey e" unfolding MergeKey_def event_Spec_def merge_parts_def assms(1) v k m ..
qed

lemma normalize_event_keys:
  assumes "normalize_event op c ev = Inr ev'"
  shows "ev_Type ev' = ev_Type ev" "ev_DraftID ev' = ev_DraftID ev" "ev_Payload ev' = ev_Payload ev"
    "VersionMode ev' = VersionMode ev" "MergeKey ev' = MergeKey ev"
    "VersionMode ev = Some VersionStrict \<Longrightarrow> ev_BaseVersion ev = Some b \<Longrightarrow> ev_BaseVersion ev' = Some b"
proof -
  have mode: "VersionMode (ev\<lparr>ev_Actor := a, ev_CreatedAt := c\<rparr>) = VersionMode ev" for a
    by (rule event_keys_cong) simp_all
  show fields: "ev_Type ev' = ev_Type ev" "ev_DraftID ev' = ev_DraftID ev" "ev_Payload ev' = ev_Payload ev"
    using assms by (auto simp: normalize_event_def Let_def split: if_splits option.splits)
  from event_keys_cong [OF this] show "VersionMode ev' = VersionMode ev" "MergeKey ev' = MergeKey ev" by simp_all
  assume "VersionMode ev = Some VersionStrict" "ev_BaseVersion ev = Some b"
  with assms show "ev_BaseVersion ev' = Some b"
    by (auto simp: normalize_event_def Let_def mode split: if_splits option.splits)
qed

text \<open>
  A batch is refused when one of its strict events was written against another version of its draft;
  a strict event without a version of its own takes the one of the options.
\<close>

definition based_on :: "options \<Rightarrow> event \<Rightarrow> goint \<Rightarrow> bool" where
  "based_on op ev b \<longleftrightarrow> (case ev_BaseVersion ev of None \<Rightarrow> op_BaseVersion op = Some b | Some v \<Rightarrow> v = b)"

lemma normalize_based:
  assumes "normalize_event op c ev = Inr ev'" and "VersionMode ev = Some VersionStrict" and "based_on op ev b"
  shows "ev_BaseVersion ev' = Some b"
proof -
  have "VersionMode (ev\<lparr>ev_Actor := a, ev_CreatedAt := c\<rparr>) = VersionMode ev" for a
    by (rule event_keys_cong) simp_all
  with assms show ?thesis
    by (auto simp: normalize_event_def Let_def based_on_def split: if_splits option.splits)
qed

lemma stale_batch_refused:
  assumes "Apply en op evs db = Inr (res, db')" and ev: "ev \<in> set evs" "VersionMode ev = Some VersionStrict" "based_on op ev b"
    and stale: "draft_version db (ev_DraftID ev) \<noteq> Some b"
  shows "ar_Status res \<noteq> StatusApplied \<and> db' = db"
  using assms(1)
proof (cases rule: Apply_cases)
  case (2 evs' db1 st st')
  obtain ev' where ev': "ev' \<in> set evs'" "normalize_event op (created_at en op) ev = Inr ev'"
    using map_bind_member [OF 2(2) ev(1)] by blast
  note keys = normalize_event_keys [OF ev'(2)]
  have "draft_version db1 d = draft_version db d" for d
    using 2(3) begin_restore_core [of _ _ db db1] by (auto simp: admit_Inr same_core_tables_def)
  moreover have "ev_BaseVersion ev' = draft_version db1 (ev_DraftID ev)"
    using preflight_strict [OF 2(4) initial_known ev'(1)] keys(1-4) ev(2) by (simp add: initial_state_def)
  ultimately show ?thesis using normalize_based [OF ev'(2) ev(2,3)] stale by simp
qed (use ev(1) in auto)

text \<open>
  C3. Two writers that start from the same version cannot both win: after a transaction that
  advanced a draft from a version, a batch with a strict event on the draft against that version is
  not applied and leaves the database as it is.
\<close>

theorem lost_update_refused:
  assumes first: "Apply en op evs db = Inr (res, db')" and v: "draft_version db d = Some v"
    and advanced: "d \<in> fst ` set (ar_DraftStateVersions res)"
    and ev: "ev \<in> set evs2" "VersionMode ev = Some VersionStrict" "ev_DraftID ev = d" "ev_BaseVersion ev = Some v"
    and second: "Apply en2 op2 evs2 db' = Inr (res2, db2)"
  shows "ar_Status res2 \<noteq> StatusApplied \<and> db2 = db'"
proof (rule stale_batch_refused [OF second ev(1,2)])
  show "based_on op2 ev v" by (simp add: based_on_def ev(4))
  show "draft_version db' (ev_DraftID ev) \<noteq> Some v" using Apply_versions(1) [OF first v] advanced by (simp add: ev(3))
qed

end
