(* ===== verification/Worker_Facts.thy ===== *)
theory Worker_Facts
  imports Worker_Runner Reducer_Versions
begin

text \<open>
  What the job queue promises: claims come out in the order of priority, age and name; a worker
  whose claim is gone writes nothing; retries are spaced and bounded; the lanes cover every kind of
  job and keep renders off the general workers.
\<close>

section \<open>Spacing of retries\<close>

text \<open>
  The wait before retry \<open>n\<close> doubles from one second and is capped at one minute.
\<close>

lemma retry_delay_doubles:
  "RetryDelay n = (if n \<le> 1 then 1 else if n \<ge> 7 then 60 else 2 ^ nat (n - 1)) * time_Second"
proof -
  consider "n \<le> 1" | "n = 2" | "n = 3" | "n = 4" | "n = 5" | "n = 6" | "7 \<le> n" by linarith
  then show ?thesis by cases (auto simp: RetryDelay_def Let_def push_bit_eq_mult)
qed

section \<open>Claims in order\<close>

text \<open>
  A work queue shows the waiting items in order; taking from it yields the first.  \<open>drain\<close> takes
  several times.
\<close>

fun drain :: "('s \<Rightarrow> ('a \<times> 's) option) \<Rightarrow> nat \<Rightarrow> 's \<Rightarrow> 'a list \<times> 's" where
  "drain take_next 0 s = ([], s)"
| "drain take_next (Suc n) s = (case take_next s of None \<Rightarrow> ([], s) | Some (x, s') \<Rightarrow>
     (case drain take_next n s' of (xs, s'') \<Rightarrow> (x # xs, s'')))"

locale work_queue =
  fixes waiting :: "'s \<Rightarrow> 'a list" and take_next :: "'s \<Rightarrow> ('a \<times> 's) option" and inv :: "'s \<Rightarrow> bool"
  assumes take_empty: "inv s \<Longrightarrow> waiting s = [] \<Longrightarrow> take_next s = None"
    and take_first: "inv s \<Longrightarrow> waiting s = x # xs \<Longrightarrow> \<exists>s'. take_next s = Some (x, s') \<and> waiting s' = xs \<and> inv s'"
begin

lemma drain_takes:
  "inv s \<Longrightarrow> fst (drain take_next n s) = take n (waiting s)
    \<and> waiting (snd (drain take_next n s)) = drop n (waiting s) \<and> inv (snd (drain take_next n s))"
proof (induction n arbitrary: s)
  case (Suc n)
  show ?case
  proof (cases "waiting s")
    case Nil
    with Suc.prems show ?thesis by (simp add: take_empty)
  next
    case (Cons x xs)
    from take_first [OF Suc.prems Cons] obtain s' where
      "take_next s = Some (x, s')" "waiting s' = xs" "inv s'" by blast
    with Suc.IH [of s'] Cons show ?thesis by (auto split: prod.split)
  qed
qed simp

end

definition decodes :: "job_row \<Rightarrow> bool" where
  "decodes r \<longleftrightarrow> (case jb_payload r of GObj m \<Rightarrow> True | GNil \<Rightarrow> True | _ \<Rightarrow> False)"

lemma decodes_scanJob: "decodes r \<Longrightarrow> \<exists>job. scanJob r = Inr job \<and> wj_ID job = jb_job_id r"
  by (auto simp: decodes_def scanJob_def Let_def split: gval.splits)

lemma decodes_claim_row [simp]: "decodes (claim_row w t r) = decodes r"
  by (simp add: decodes_def claim_row_def)

definition queue_ok :: "db \<Rightarrow> bool" where
  "queue_ok db \<longleftrightarrow> jobs_unique db \<and> (\<forall>r \<in> set (db_jobs db). decodes r)"

definition waiting_rows :: "claim_filter \<Rightarrow> string \<Rightarrow> db \<Rightarrow> job_row list" where
  "waiting_rows f t db = sort_key claim_order (filter (claimable f t) (db_jobs db))"

definition waiting_jobs :: "claim_filter \<Rightarrow> string \<Rightarrow> db \<Rightarrow> string list" where
  "waiting_jobs f t db = map jb_job_id (waiting_rows f t db)"

definition claim_next :: "string \<Rightarrow> gotime \<Rightarrow> claim_filter \<Rightarrow> db \<Rightarrow> (string \<times> db) option" where
  "claim_next w now f db = (case ClaimMatching db w now f of
     Inr (Some job, db') \<Rightarrow> Some (wj_ID job, db') | _ \<Rightarrow> None)"

lemma claim_row_simps [simp]:
  "jb_job_id (claim_row w t r) = jb_job_id r" "jb_status (claim_row w t r) = ''running''"
  "jb_worker_id (claim_row w t r) = Some w" "jb_started_at (claim_row w t r) = Some t"
  by (simp_all add: claim_row_def)

lemma map_ids_update_where:
  "(\<And>r. jb_job_id (f r) = jb_job_id r) \<Longrightarrow> map jb_job_id (update_where P f rows) = map jb_job_id rows"
  by (simp add: update_where_def)

lemma unique_rows: "distinct (map jb_job_id js) \<Longrightarrow> r \<in> set js \<Longrightarrow> x \<in> set js \<Longrightarrow> jb_job_id x = jb_job_id r \<Longrightarrow> x = r"
  by (metis distinct_map inj_onD)

text \<open>Claiming \<open>r\<close> takes it, and only it, from the claimable rows.\<close>

lemma claimable_after:
  assumes "distinct (map jb_job_id js)" and "r \<in> set js" and "claimable f t r"
  shows "filter (claimable f t) (update_where (\<lambda>x. jb_job_id x = jb_job_id r \<and> jb_status x = ''pending'')
      (claim_row w t) js) = filter (\<lambda>x. x \<noteq> r) (filter (claimable f t) js)"
  using assms(1,2)
proof (induction js)
  case (Cons x js)
  have taken: "\<not> claimable f t (claim_row w t y)" for y by (simp add: claimable_def)
  have other: "y \<in> set js \<Longrightarrow> jb_job_id y \<noteq> jb_job_id x" for y using Cons.prems(1) by (auto simp: image_iff)
  show ?case
  proof (cases "x = r")
    case True
    have "update_where (\<lambda>y. jb_job_id y = jb_job_id r \<and> jb_status y = ''pending'') (claim_row w t) js = js"
      using other True unfolding update_where_def by (intro map_idI) auto
    moreover have "filter (\<lambda>y. y \<noteq> r) (filter (claimable f t) js) = filter (claimable f t) js"
      using other True unfolding filter_filter by (intro filter_cong) auto
    moreover have "jb_status r = ''pending''" using assms(3) by (simp add: claimable_def)
    ultimately show ?thesis using True assms(3) taken by (simp add: update_where_def)
  next
    case False
    then have "r \<in> set js" "jb_job_id x \<noteq> jb_job_id r" using Cons.prems by auto
    with Cons.IH Cons.prems(1) False show ?thesis by (simp add: update_where_def)
  qed
qed simp

lemma sort_key_remove:
  assumes "sort_key k xs = r # rs" and "distinct xs" and "inj_on k (set xs)"
  shows "sort_key k (filter (\<lambda>x. x \<noteq> r) xs) = rs"
proof -
  have "distinct (r # rs)" using assms(1,2) by (metis distinct_sort)
  then have "filter (\<lambda>x. x \<noteq> r) (sort_key k xs) = rs" unfolding assms(1) by (auto simp: filter_id_conv)
  then show ?thesis by (simp add: filter_sort)
qed

lemma claim_order_inj: "distinct (map jb_job_id js) \<Longrightarrow> inj_on claim_order (set js)"
  by (auto simp: inj_on_def claim_order_def intro: unique_rows)

lemma ClaimMatching_takes:
  assumes "queue_ok db" and "\<not> (IncludeKinds f \<noteq> [] \<and> ExcludeKinds f \<noteq> [])"
    and "waiting_rows f (RFC3339Nano (time_UTC now)) db = r # rs"
  shows "\<exists>job db'. ClaimMatching db w now f = Inr (Some job, db') \<and> wj_ID job = jb_job_id r
    \<and> scanJob (claim_row w (RFC3339Nano (time_UTC now)) r) = Inr job
    \<and> db' = db\<lparr>db_jobs := update_where (\<lambda>x. jb_job_id x = jb_job_id r \<and> jb_status x = ''pending'')
        (claim_row w (RFC3339Nano (time_UTC now))) (db_jobs db)\<rparr>
    \<and> waiting_rows f (RFC3339Nano (time_UTC now)) db' = rs \<and> queue_ok db'"
proof -
  define t where "t = RFC3339Nano (time_UTC now)"
  let ?js = "update_where (\<lambda>x. jb_job_id x = jb_job_id r \<and> jb_status x = ''pending'') (claim_row w t) (db_jobs db)"
  have ids: "distinct (map jb_job_id (db_jobs db))" using assms(1) by (simp add: queue_ok_def jobs_unique_def)
  have rows: "sort_key claim_order (filter (claimable f t) (db_jobs db)) = r # rs"
    using assms(3) by (simp add: waiting_rows_def t_def)
  then have "r \<in> set (filter (claimable f t) (db_jobs db))" by (metis list.set_intros(1) set_sort)
  then have r: "r \<in> set (db_jobs db)" "claimable f t r" by auto
  from assms(1) r have "decodes r" by (simp add: queue_ok_def)
  then obtain job where job: "scanJob (claim_row w t r) = Inr job" "wj_ID job = jb_job_id r"
    using decodes_scanJob [of "claim_row w t r"] by auto
  have "distinct (db_jobs db)" using ids by (simp add: distinct_map)
  then have "sort_key claim_order (filter (claimable f t) ?js) = rs"
    unfolding claimable_after [OF ids r]
    by (intro sort_key_remove [OF rows]) (auto intro: inj_on_subset [OF claim_order_inj [OF ids]])
  moreover have "queue_ok (db\<lparr>db_jobs := ?js\<rparr>)"
    using assms(1) by (auto simp: queue_ok_def jobs_unique_def map_ids_update_where) (auto simp: update_where_def)
  ultimately show ?thesis
    using assms(2) rows job unfolding ClaimMatching_def Let_def t_def [symmetric]
    by (auto simp: waiting_rows_def)
qed

lemma ClaimMatching_empty:
  assumes "\<not> (IncludeKinds f \<noteq> [] \<and> ExcludeKinds f \<noteq> [])" and "waiting_rows f (RFC3339Nano (time_UTC now)) db = []"
  shows "ClaimMatching db w now f = Inr (None, db)"
  using assms unfolding ClaimMatching_def Let_def waiting_rows_def by auto

interpretation job_queue: work_queue "waiting_jobs f (RFC3339Nano (time_UTC now))" "claim_next w now f"
    "\<lambda>db. queue_ok db \<and> \<not> (IncludeKinds f \<noteq> [] \<and> ExcludeKinds f \<noteq> [])" for f now w
proof
  fix db :: db assume ok: "queue_ok db \<and> \<not> (IncludeKinds f \<noteq> [] \<and> ExcludeKinds f \<noteq> [])"
  show "claim_next w now f db = None" if "waiting_jobs f (RFC3339Nano (time_UTC now)) db = []"
    using that ok ClaimMatching_empty [of f now db w] by (simp add: claim_next_def waiting_jobs_def)
  fix x xs assume "waiting_jobs f (RFC3339Nano (time_UTC now)) db = x # xs"
  then obtain r rs where "waiting_rows f (RFC3339Nano (time_UTC now)) db = r # rs" "x = jb_job_id r" "xs = map jb_job_id rs"
    by (auto simp: waiting_jobs_def)
  with ClaimMatching_takes [of db f now r rs w] ok
  show "\<exists>s'. claim_next w now f db = Some (x, s') \<and> waiting_jobs f (RFC3339Nano (time_UTC now)) s' = xs
      \<and> (queue_ok s' \<and> \<not> (IncludeKinds f \<noteq> [] \<and> ExcludeKinds f \<noteq> []))"
    by (auto simp: claim_next_def waiting_jobs_def)
qed

text \<open>
  C16. Claiming is taking from a priority queue: as long as nothing else writes, \<open>n\<close> claims at a
  time hand out the first \<open>n\<close> claimable jobs in the order of priority, creation and name, each once.
\<close>

theorem claims_in_order:
  assumes "jobs_unique db" and "\<forall>r \<in> set (db_jobs db). decodes r"
    and "\<not> (IncludeKinds f \<noteq> [] \<and> ExcludeKinds f \<noteq> [])"
  shows "fst (drain (claim_next w now f) n db) = take n (waiting_jobs f (RFC3339Nano (time_UTC now)) db)"
  using job_queue.drain_takes [of db f w now n] assms by (simp add: queue_ok_def)

section \<open>Lanes\<close>

lemma render_kinds: "JobKindsByExecutionClass JobExecutionRender = [''render_final'', ''render_preview'']"
  by (simp add: JobKindsByExecutionClass_def AllJobKindSpecs_def jobKindRegistry_def sort_key_def
      less_eq_char_def less_char_def)

definition accepts :: "claim_lane \<Rightarrow> string \<Rightarrow> bool" where
  "accepts lane kind \<longleftrightarrow> claimKindPredicate (ln_filter lane) kind"

text \<open>
  Every lane of a single worker takes every kind of job; with several workers the first lane
  takes exactly the render kinds and every other lane exactly the other kinds, so that a render
  never occupies a general worker and no kind is left out.
\<close>

lemma lanes_partition_kinds:
  assumes "0 < ru_concurrency r"
  shows "length (claimLanes r) = nat (ru_concurrency r) \<and> (\<forall>i < length (claimLanes r).
    accepts (claimLanes r ! i) kind \<longleftrightarrow>
      ru_concurrency r = 1 \<or> (i = 0 \<longleftrightarrow> kind \<in> {''render_final'', ''render_preview''}))"
proof (cases "ru_concurrency r = 1")
  case True
  then show ?thesis by (simp add: claimLanes_def accepts_def claimKindPredicate_def no_filter_def)
next
  case False
  with assms have "1 < ru_concurrency r" by simp
  then show ?thesis
    by (auto simp: claimLanes_def render_kinds accepts_def claimKindPredicate_def nth_Cons' Let_def)
qed

section \<open>Fencing\<close>

lemma claimed_update_none:
  assumes "\<forall>r \<in> set (db_jobs db). \<not> holds_claim job r"
  shows "claimed_update job f db = (False, db)"
proof -
  have "filter (holds_claim job) (db_jobs db) = []" using assms by (simp add: filter_empty_conv)
  moreover have "update_where (holds_claim job) f (db_jobs db) = db_jobs db"
    using assms by (auto simp: update_where_def intro: map_idI)
  ultimately show ?thesis by (simp add: claimed_update_def rows_affected_def)
qed

lemma find_job_set: "find_job j db = Some r \<Longrightarrow> r \<in> set (db_jobs db) \<and> jb_job_id r = j"
  by (auto simp: find_job_def find_Some_iff)

lemma scanJob_fields:
  "scanJob r = Inr job \<Longrightarrow> wj_ID job = jb_job_id r \<and> wj_Status job = jb_status r \<and> wj_WorkerID job = jb_worker_id r
    \<and> wj_StartedAt job = jb_started_at r \<and> wj_Attempts job = jb_attempts r \<and> wj_MaxRetries job = jb_max_retries r"
  by (auto simp: scanJob_def Let_def split: gval.splits)

lemma GetJob_row:
  assumes "GetJob db j = Inr stored"
  shows "\<exists>r \<in> set (db_jobs db). jb_job_id r = j \<and> scanJob r = Inr stored"
proof (cases "find_job j db")
  case (Some r)
  with assms find_job_set [OF Some] show ?thesis by (auto simp: GetJob_def)
qed (use assms in \<open>simp add: GetJob_def\<close>)

lemma settle_lost:
  assumes "\<forall>r \<in> set (db_jobs db). \<not> holds_claim job r"
  shows "snd (settle en now stopping job h db) = db"
proof (cases "GetJob db (wj_ID job)")
  case (Inr stored)
  have "wj_Status stored \<noteq> ''running'' \<or> \<not> sameClaim stored job"
    using GetJob_row [OF Inr] assms scanJob_fields
    by (force simp: sameClaim_def holds_claim_def split: option.splits)
  with Inr show ?thesis by (auto simp: settle_def)
qed (simp add: settle_def)

text \<open>
  A progress report does not go through the claim of the job: the reducer compares the worker and the time of
  the claim with the row, and refuses a cancelled job, but does not look at the status otherwise.
\<close>

definition fenced_off :: "db \<Rightarrow> job \<Rightarrow> bool" where
  "fenced_off db job \<longleftrightarrow> text_value (wj_WorkerID job) \<noteq> [] \<and> (\<forall>r \<in> set (db_jobs db). jb_job_id r = wj_ID job \<longrightarrow>
     jb_status r = ''cancelled'' \<or> jb_worker_id r \<noteq> Some (text_value (wj_WorkerID job))
     \<or> jb_started_at r \<noteq> Some (text_value (wj_StartedAt job)))"

definition progress_event :: "job \<Rightarrow> progress_update \<Rightarrow> goint \<Rightarrow> event" where
  "progress_event job u n = job_event_of ''JobProgress'' job (progress_payload job u n)"

lemma progress_fields [simp]: "ev_Type (progress_event job u n) = ''JobProgress''"
  "ev_Payload (progress_event job u n) = Some (progress_payload job u n)"
  "ev_DraftID (progress_event job u n) = text_value (wj_DraftID job)"
  by (simp_all add: progress_event_def job_event_of_def)

lemma progress_values: "gget (progress_payload job u n) ''job_id'' = GStr (wj_ID job)"
  "gget (progress_payload job u n) ''worker_id'' = GStr (text_value (wj_WorkerID job))"
  "gget (progress_payload job u n) ''started_at'' = GStr (text_value (wj_StartedAt job))"
  "gget (progress_payload job u n) ''requested_by_draft_id'' = GStr (text_value (wj_RequestedByDraftID job))"
  "gget (progress_payload job u n) ''progress'' = GFloat (pu_Progress u)"
  "gget (progress_payload job u n) ''kind'' = GStr (wj_Kind job)"
  "gget (progress_payload job u n) ''result'' = GNil" "gget (progress_payload job u n) ''error'' = GNil"
  "gget (progress_payload job u n) ''attempts'' = GNil" "\<not> ghas (progress_payload job u n) ''heartbeat_at''"
  by (simp_all add: progress_payload_def)

lemma text_back [simp]: "stringFrom (GStr s) [] = s"
  by (cases "s = []") simp_all

lemma fenced_report:
  assumes "fenced_off db job" and "ev_Type e = ''JobProgress''" and "ev_Payload e = Some (progress_payload job u n)" and "st_db st = db"
  shows "applyEvent st e \<noteq> Inr st'"
proof -
  have p: "payload e k = gget (progress_payload job u n) k" for k using assms(3) by (simp add: payload_def)
  have "check_job e r \<noteq> None" if "find_job (wj_ID job) db = Some r" for r
    using find_job_set [OF that] assms(1,2)
    by (auto simp: fenced_off_def check_job_def claim_lost_def p progress_values Let_def)
  then have "\<exists>x. applyJob st e = Inl x"
    using assms(2,4) by (cases "find_job (wj_ID job) db") (auto simp: applyJob_def p progress_values Let_def)
  then show ?thesis using assms(2) by (auto simp: applyEvent_def eventApplyRegistry_def)
qed

lemma report_fenced:
  assumes "fenced_off db job"
  shows "snd (snd (report en now job u rp db)) = db"
proof -
  have "db' = db" if run: "Apply en (job_options zero_time) [progress_event job v n] db = Inr (res, db')" for v n res db'
    using run
  proof (cases rule: Apply_cases)
    case (2 evs' db1 st st')
    obtain e where evs': "evs' = [e]" and e: "normalize_event (job_options zero_time) (created_at en (job_options zero_time)) (progress_event job v n) = Inr e"
      using 2(2) by auto
    note keys = normalize_event_keys(1,3,4) [OF e]
    have "VersionMode (progress_event job v n) = Some VersionMerge"
      by (simp add: VersionMode_def event_Spec_def EventRegistry_def)
    then have "st = initial_state (created_at en (job_options zero_time)) db1" using 2(4) keys(3) by (simp add: evs')
    moreover have "db1 = db" using 2(3) by (simp add: admit_Inr begin_restore_def job_options_def)
    ultimately have st: "st = initial_state (created_at en (job_options zero_time)) db" by simp
    have "\<not> applyEvent st e = Inr x" for x
      by (rule fenced_report [OF assms, of e v n]) (use keys st in \<open>simp_all add: initial_state_def\<close>)
    then have "st' = st\<lparr>st_skipped := Suc (st_skipped st)\<rparr>"
      using 2(5) by (auto simp: evs' split: if_splits)
    then show ?thesis using 2(6)
      by (simp add: st initial_state_def finish_def seal_def persist_no_rows job_options_def sortedKeys_def finish_restore_def)
  qed simp
  then show ?thesis
    by (auto simp: report_def Let_def progress_event_def [symmetric] split: sum.splits)
qed

text \<open>
  C18. A worker whose claim is gone, because the job was cancelled, finished, given back or claimed
  again, writes nothing when it keeps the job alive or ends it: its heartbeat and its release report failure, a
  retry is not scheduled, and settling the job leaves the database as it is, whatever the handler returned.  Its
  progress reports write nothing either once the job was cancelled, given back or claimed again; after the job
  has finished they are still accepted (C23).
\<close>

theorem lost_claim_writes_nothing:
  assumes "\<forall>r \<in> set (db_jobs db). \<not> holds_claim job r"
  shows "Heartbeat db job now = (False, db) \<and> ReleaseClaim db job = (False, db)
    \<and> (\<forall>b db'. ScheduleRetry db job now failure = Inr (b, db') \<longrightarrow> \<not> b \<and> db' = db)
    \<and> snd (settle en now stopping job h db) = db
    \<and> (fenced_off db job \<longrightarrow> snd (snd (report en now job u rp db)) = db)"
  using claimed_update_none [OF assms] settle_lost [OF assms] report_fenced
  by (auto simp: Heartbeat_def ReleaseClaim_def ScheduleRetry_def Let_def split: sum.splits)

end
