(* ===== verification/Worker_Retries.thy ===== *)
theory Worker_Retries
  imports Worker_Facts Reducer_Versions
begin

text \<open>
  How often a job runs: every step of a worker keeps the number of attempts of a waiting or running
  job within its limit, a failing run uses up one attempt or ends the job, and what the events a
  worker writes do to the row of its job.
\<close>

section \<open>Job events and the job table\<close>

lemma reconcile_jobs: "reconcileUnderstandingAsset db a f c u = Inr db' \<Longrightarrow> db_jobs db' = db_jobs db"
  by (auto simp: reconcileUnderstandingAsset_def update_asset_def split: if_splits option.splits)

lemma reconcile_each_jobs: "reconcile_each ev ids db = Inr db' \<Longrightarrow> db_jobs db' = db_jobs db"
  by (induction ids arbitrary: db) (auto dest: reconcile_jobs)

lemma reconcile_job_asset_jobs: "reconcileUnderstandJobAsset db j ev = Inr db' \<Longrightarrow> db_jobs db' = db_jobs db"
  by (auto simp: reconcileUnderstandJobAsset_def Let_def split: if_splits option.splits
      dest: reconcile_jobs reconcile_each_jobs)

lemma running_jobs_jobs: "updateRunningJobs st d j s ev = Inr st' \<Longrightarrow> db_jobs (st_db st') = db_jobs (st_db st)"
  by (auto simp: updateRunningJobs_def Let_def update_draft_def touch_db split: option.splits)

definition updated_jobs :: "event \<Rightarrow> db \<Rightarrow> db \<Rightarrow> bool" where
  "updated_jobs ev a b \<longleftrightarrow> (\<exists>j r c res err. j = stringFrom (payload ev ''job_id'') [] \<and> find_job j a = Some r
     \<and> check_job ev r = None
     \<and> db_jobs b = update_where (\<lambda>r. jb_job_id r = j) (update_job_row c ev res err) (db_jobs a))"

lemma updated_jobs_cong: "db_jobs b = db_jobs b' \<Longrightarrow> updated_jobs ev a b = updated_jobs ev a b'"
  by (simp add: updated_jobs_def)

lemma update_job_jobs:
  assumes "update_job st ev r = Inr db'" and "find_job j (st_db st) = Some r" and "check_job ev r = None"
    and "j = stringFrom (payload ev ''job_id'') []"
  shows "updated_jobs ev (st_db st) db'"
proof -
  have "jb_job_id r = j" using find_job_set [OF assms(2)] by simp
  with assms show ?thesis
    by (auto simp: update_job_def updated_jobs_def update_asset_def Let_def split: if_splits option.splits) blast+
qed

lemma applyJob_jobs:
  assumes "applyJob st ev = Inr st'" and "ev_Type ev \<noteq> ''JobEnqueued''"
  shows "updated_jobs ev (st_db st) (st_db st')"
proof -
  let ?j = "stringFrom (payload ev ''job_id'') []"
  let ?d = "stringFrom (payload ev ''requested_by_draft_id'') (ev_DraftID ev)"
  from assms(1) obtain db db' where
    a: "(if ev_Type ev = ''JobEnqueued'' then enqueue_job st ev ?j
         else case find_job ?j (st_db st) of None \<Rightarrow> Inl ErrNoRows | Some current \<Rightarrow>
            (case check_job ev current of Some e \<Rightarrow> Inl e | None \<Rightarrow> update_job st ev current)) = Inr db"
    and b: "reconcileUnderstandJobAsset db ?j ev = Inr db'"
    and c: "(if ?d = [] then Inr (st\<lparr>st_db := db'\<rparr>)
      else updateRunningJobs (st\<lparr>st_db := db'\<rparr>) ?d ?j (job_event_status (ev_Type ev)) ev) = Inr st'"
    unfolding applyJob_def Let_def guard_simps(1) by (elim conjE bind_sum_InrE)
  from a assms(2) obtain r where "find_job ?j (st_db st) = Some r" "check_job ev r = None" "update_job st ev r = Inr db"
    by (auto split: option.splits)
  then have "updated_jobs ev (st_db st) db" by (intro update_job_jobs) auto
  moreover have "db_jobs (st_db st') = db_jobs db"
    using c reconcile_job_asset_jobs [OF b] running_jobs_jobs by (auto split: if_splits)
  ultimately show ?thesis by (simp add: updated_jobs_cong [of "st_db st'" db])
qed

lemma artifact_jobs:
  "applyPreviewRendered st ev = Inr st' \<Longrightarrow> db_jobs (st_db st') = db_jobs (st_db st)"
  "applyExportCompleted st ev = Inr st' \<Longrightarrow> db_jobs (st_db st') = db_jobs (st_db st)"
  by (auto simp: applyPreviewRendered_def applyExportCompleted_def Let_def insert_preview_def insert_export_def
      ensureObject_def update_draft_def split: if_splits dest!: touch_db)

definition worker_event :: "event \<Rightarrow> bool" where
  "worker_event ev \<longleftrightarrow> ev_Type ev \<in> {''JobProgress'', ''JobSucceeded'', ''JobFailed'', ''PreviewRendered'', ''ExportCompleted''}"

text \<open>An event of a worker leaves the job table alone or updates the row of the job it names.\<close>

lemma worker_event_jobs:
  assumes "applyEvent st ev = Inr st'" and "worker_event ev"
  shows "db_jobs (st_db st') = db_jobs (st_db st) \<or> job_event ev \<and> updated_jobs ev (st_db st) (st_db st')"
proof -
  consider "ev_Type ev = ''JobProgress''" | "ev_Type ev = ''JobSucceeded''" | "ev_Type ev = ''JobFailed''"
    | "ev_Type ev = ''PreviewRendered''" | "ev_Type ev = ''ExportCompleted''"
    using assms(2) by (auto simp: worker_event_def)
  then show ?thesis
    using assms(1)
    by cases (auto simp: applyEvent_def eventApplyRegistry_def job_event_def dest: applyJob_jobs artifact_jobs)
qed

section \<open>Transactions and the job table\<close>

lemma bump_versions_jobs: "bump_versions c orig ds db = Inr (cf, vs, db') \<Longrightarrow> db_jobs db' = db_jobs db"
  by (induction ds arbitrary: db vs) (auto simp: Let_def split: if_splits option.splits)

lemma appendEvents_jobs: "appendEvents c vs evs db = Inr (as, db') \<Longrightarrow> db_jobs db' = db_jobs db"
  by (induction evs arbitrary: db as) (auto simp: append_event_def Let_def split: sum.splits if_splits)

lemma finish_jobs:
  assumes "finish en op c st db0 = Inr (res, db')" and "ar_Status res = StatusApplied"
  shows "db_jobs db' = db_jobs (st_db st)"
  using assms(1)
proof (cases rule: finish_cases)
  case (2 lease memory db1 vs db2 as db3)
  then show ?thesis
    using persistResultRows_core [OF 2(2)] bump_versions_jobs [OF 2(3)] appendEvents_jobs [OF 2(4)]
      finish_restore_core [of db3 "op_RewindRestore op" "map ae_ID as"]
    by (simp add: same_core_tables_def)
qed (use assms(2) in simp)

lemma initial_state_simps [simp]: "st_db (initial_state c db) = db" "st_createdAt (initial_state c db) = c"
  by (simp_all add: initial_state_def)

lemma apply_events_related:
  assumes step: "\<And>st ev st'. ev \<in> set evs \<Longrightarrow> applyEvent st ev = Inr st' \<Longrightarrow> R (st_db st) (st_db st')"
    and R: "\<And>a. R a a" "\<And>a b c. R a b \<Longrightarrow> R b c \<Longrightarrow> R a c"
    and run: "apply_events st seen evs = Inr st'"
  shows "R (st_db st) (st_db st')"
  using step run
proof (induction evs arbitrary: st seen)
  case (Cons ev evs)
  from Cons.prems(2) obtain key dup where k: "existingMergeEvent (st_db st) ev = Inr (key, dup)" by auto
  show ?case
  proof (cases "dup \<or> key \<noteq> [] \<and> (ev_Type ev, key) \<in> set seen")
    case True
    with Cons.prems(2) k have "apply_events (st\<lparr>st_skipped := Suc (st_skipped st)\<rparr>) seen evs = Inr st'" by simp
    then have "R (st_db (st\<lparr>st_skipped := Suc (st_skipped st)\<rparr>)) (st_db st')"
      by (rule Cons.IH [rotated]) (rule Cons.prems(1), simp_all)
    then show ?thesis by simp
  next
    case False
    with Cons.prems(2) k obtain st1 where a: "applyEvent st ev = Inr st1"
      and r: "apply_events (st1\<lparr>st_eventsToLog := st_eventsToLog st1 @ [ev]\<rparr>)
        (if key = [] then seen else (ev_Type ev, key) # seen) evs = Inr st'"
      by auto
    have "R (st_db st) (st_db st1)" by (rule Cons.prems(1) [OF _ a]) simp
    moreover from r have "R (st_db (st1\<lparr>st_eventsToLog := st_eventsToLog st1 @ [ev]\<rparr>)) (st_db st')"
      by (rule Cons.IH [rotated]) (rule Cons.prems(1), simp_all)
    then have "R (st_db st1) (st_db st')" by simp
    ultimately show ?thesis by (rule R(2))
  qed
qed (simp add: R(1))

text \<open>
  What the events of a batch do to the job table, the transaction does: normalising an event keeps
  its type and payload, and the rest of a transaction writes no jobs.
\<close>

lemma Apply_jobs_related:
  assumes run: "Apply en op evs db = Inr (res, db')" and Q: "\<forall>ev \<in> set evs. Q (ev_Type ev) (ev_Payload ev)"
    and step: "\<And>st ev st'. Q (ev_Type ev) (ev_Payload ev) \<Longrightarrow> applyEvent st ev = Inr st' \<Longrightarrow> R (st_db st) (st_db st')"
    and R: "\<And>a b. db_jobs a = db_jobs b \<Longrightarrow> R a b" "\<And>a b c. R a b \<Longrightarrow> R b c \<Longrightarrow> R a c"
  shows "R db db'"
  using run
proof (cases rule: Apply_cases)
  case (2 evs' db1 st st')
  have types: "Q (ev_Type ev) (ev_Payload ev)" if "ev \<in> set evs'" for ev
    using map_bind_set [OF 2(2) that] normalize_event_keys(1,3) Q by metis
  have "db_jobs db1 = db_jobs db"
    using 2(3) begin_restore_core [of _ _ db db1] by (auto simp: admit_Inr same_core_tables_def)
  then have "R db (st_db st)" using preflightStrict_db [OF 2(4)] by (intro R(1)) simp
  moreover have "R (st_db st) (st_db st')"
    by (rule apply_events_related [OF _ _ _ 2(5)]) (use step types R in blast)+
  moreover have "R (st_db st') db'" using finish_jobs [OF 2(6,1)] by (intro R(1)) simp
  ultimately show ?thesis by (meson R(2))
qed (use R(1) in simp)

section \<open>The attempts of a job\<close>

text \<open>
  The number of attempts of a job that has not come to its end stays within its limit, and the limit never
  changes.  A job has come to an end when its row has a finishing time.
\<close>

definition attempts_ok :: "db \<Rightarrow> bool" where
  "attempts_ok db \<longleftrightarrow> (\<forall>r \<in> set (db_jobs db). jb_finished_at r = None \<longrightarrow> jb_attempts r \<le> jb_max_retries r)"

definition limits :: "db \<Rightarrow> (string \<times> goint) list" where
  "limits db = map (\<lambda>r. (jb_job_id r, jb_max_retries r)) (db_jobs db)"

definition keeps_attempts :: "db \<Rightarrow> db \<Rightarrow> bool" where
  "keeps_attempts a b \<longleftrightarrow> limits b = limits a \<and> (attempts_ok a \<longrightarrow> attempts_ok b)"

lemma keeps_attempts_same: "db_jobs a = db_jobs b \<Longrightarrow> keeps_attempts a b"
  by (simp add: keeps_attempts_def limits_def attempts_ok_def)

lemma keeps_attempts_trans: "keeps_attempts a b \<Longrightarrow> keeps_attempts b c \<Longrightarrow> keeps_attempts a c"
  by (simp add: keeps_attempts_def)

lemma keeps_attempts_update:
  assumes "db_jobs b = update_where P f (db_jobs a)"
    and "\<And>r. jb_job_id (f r) = jb_job_id r \<and> jb_max_retries (f r) = jb_max_retries r"
    and "\<And>r. r \<in> set (db_jobs a) \<Longrightarrow> P r \<Longrightarrow> jb_finished_at (f r) = None \<Longrightarrow>
      (jb_finished_at r = None \<longrightarrow> jb_attempts r \<le> jb_max_retries r) \<Longrightarrow>
      jb_attempts (f r) \<le> jb_max_retries r"
  shows "keeps_attempts a b"
  using assms by (auto simp: keeps_attempts_def limits_def attempts_ok_def update_where_def comp_def)

lemma update_job_row_limits [simp]:
  "jb_max_retries (update_job_row c ev res err r) = jb_max_retries r"
  by (simp add: update_job_row_def Let_def)

text \<open>A worker ends a job with one of these.\<close>

definition ending_type :: "string \<Rightarrow> bool" where
  "ending_type t \<longleftrightarrow> t \<in> {''JobSucceeded'', ''JobFailed'', ''PreviewRendered'', ''ExportCompleted''}"

lemma ending_event_attempts:
  assumes "ending_type (ev_Type ev)" and "applyEvent st ev = Inr st'"
  shows "keeps_attempts (st_db st) (st_db st')"
proof -
  have "worker_event ev" using assms(1) by (auto simp: worker_event_def ending_type_def)
  from worker_event_jobs [OF assms(2) this] show ?thesis
  proof
    assume "db_jobs (st_db st') = db_jobs (st_db st)"
    then show ?thesis by (intro keeps_attempts_same) simp
  next
    assume u: "job_event ev \<and> updated_jobs ev (st_db st) (st_db st')"
    then have "terminal_status (job_event_status (ev_Type ev))"
      using assms(1) by (auto simp: ending_type_def job_event_def job_event_status_def terminal_status_def)
    then have ended: "jb_finished_at (update_job_row c ev res err r) \<noteq> None" for c res err r
      by (simp add: update_job_row_def Let_def)
    from u obtain j c res err where "db_jobs (st_db st') = update_where (\<lambda>r. jb_job_id r = j) (update_job_row c ev res err) (db_jobs (st_db st))"
      by (auto simp: updated_jobs_def)
    then show ?thesis by (rule keeps_attempts_update) (use ended in \<open>simp, blast\<close>)
  qed
qed

lemma Apply_attempts:
  "Apply en op evs db = Inr (res, db') \<Longrightarrow> \<forall>ev \<in> set evs. ending_type (ev_Type ev) \<Longrightarrow> keeps_attempts db db'"
  by (rule Apply_jobs_related [where Q = "\<lambda>t _. ending_type t"])
    (assumption | rule ending_event_attempts keeps_attempts_same keeps_attempts_trans)+

lemma emitTerminal_attempts:
  assumes "emitTerminal en job t result failure db = Inr db'" and "t \<in> {''JobSucceeded'', ''JobFailed''}"
  shows "keeps_attempts db db'"
proof -
  from assms(1) obtain artifact res where
    a: "(if t = ''JobSucceeded'' then renderArtifactTerminalEvent job result else Inr None) = Inr artifact"
    and r: "Apply en (claimedJobOptions job (job_options zero_time))
         ((case artifact of None \<Rightarrow> [] | Some e \<Rightarrow> [e]) @ [terminal_event job t result failure]) db = Inr (res, db')"
    unfolding emitTerminal_def by (elim bind_sum_InrE) (auto split: sum.splits if_splits)
  have "ending_type (ev_Type (terminal_event job t result failure))"
    using assms(2) unfolding ending_type_def terminal_event_def job_event_of_def by auto
  moreover have "ending_type (ev_Type e)" if "artifact = Some e" for e
    using a that by (auto simp: renderArtifactTerminalEvent_def job_event_of_def ending_type_def Let_def
        split: if_splits option.splits)
  ultimately show ?thesis by (intro Apply_attempts [OF r]) (auto split: option.splits)
qed

text \<open>A progress report changes neither the attempts nor the finishing time.\<close>

definition progress_only :: "string \<Rightarrow> gmap option \<Rightarrow> bool" where
  "progress_only t p \<longleftrightarrow> t = ''JobProgress'' \<and> (case p of None \<Rightarrow> True | Some m \<Rightarrow> gget m ''attempts'' = GNil)"

lemma progress_event_attempts:
  assumes "progress_only (ev_Type ev) (ev_Payload ev)" and "applyEvent st ev = Inr st'"
  shows "keeps_attempts (st_db st) (st_db st')"
proof -
  have t: "ev_Type ev = ''JobProgress''" and a: "payload ev ''attempts'' = GNil"
    using assms(1) by (auto simp: progress_only_def payload_def split: option.splits)
  have row: "jb_attempts (update_job_row c ev res err r) = jb_attempts r"
    "jb_finished_at (update_job_row c ev res err r) = jb_finished_at r" for c res err r
    by (simp_all add: update_job_row_def t a job_event_status_def terminal_status_def Let_def)
  have "worker_event ev" by (simp add: worker_event_def t)
  from worker_event_jobs [OF assms(2) this] show ?thesis
  proof
    assume "job_event ev \<and> updated_jobs ev (st_db st) (st_db st')"
    then show ?thesis unfolding updated_jobs_def by (auto simp: row intro: keeps_attempts_update)
  qed (intro keeps_attempts_same, simp)
qed

lemma report_attempts: "report en now job u rp db = (e, rp', db') \<Longrightarrow> keeps_attempts db db'"
proof -
  have "keeps_attempts db db2" if "Apply en op [progress_event job v n] db = Inr (res, db2)" for op v n res db2
    by (rule Apply_jobs_related [OF that, where Q = progress_only])
      (use progress_event_attempts keeps_attempts_same keeps_attempts_trans in \<open>auto simp: progress_only_def progress_values\<close>)
  then show "report en now job u rp db = (e, rp', db') \<Longrightarrow> keeps_attempts db db'"
    by (auto simp: report_def Let_def progress_event_def [symmetric] keeps_attempts_same split: sum.splits if_splits)
qed

section \<open>Steps of the workers\<close>

text \<open>The job a worker holds was read from its row, whose limit never changes.\<close>

definition read_from :: "db \<Rightarrow> job \<Rightarrow> bool" where
  "read_from db job \<longleftrightarrow> (\<forall>(j, m) \<in> set (limits db). j = wj_ID job \<longrightarrow> m = wj_MaxRetries job)"

inductive worker_step :: "db \<Rightarrow> db \<Rightarrow> bool" where
  Claims: "ClaimMatching db w now f = Inr (got, db') \<Longrightarrow> worker_step db db'"
| Beats: "Heartbeat db job now = (b, db') \<Longrightarrow> worker_step db db'"
| Reports: "report en now job u rp db = (e, rp', db') \<Longrightarrow> worker_step db db'"
| Settles: "read_from db job \<Longrightarrow> settle en now stopping job h db = (e, db') \<Longrightarrow> worker_step db db'"
| Recovers: "jobs_unique db \<Longrightarrow> RecoverStale en db now timeout = (e, n, db') \<Longrightarrow> worker_step db db'"

lemma unclaim_simps [simp]:
  "jb_status (unclaim_row r) = ''pending''" "jb_attempts (unclaim_row r) = jb_attempts r"
  "jb_max_retries (unclaim_row r) = jb_max_retries r" "jb_job_id (unclaim_row r) = jb_job_id r"
  "jb_finished_at (unclaim_row r) = jb_finished_at r"
  by (simp_all add: unclaim_row_def)

lemma read_from_limit: "read_from db job \<Longrightarrow> r \<in> set (db_jobs db) \<Longrightarrow> jb_job_id r = wj_ID job \<Longrightarrow>
    jb_max_retries r = wj_MaxRetries job"
  by (auto simp: read_from_def limits_def)

lemma claim_attempts: "ClaimMatching db w now f = Inr (got, db') \<Longrightarrow> keeps_attempts db db'"
  by (auto simp: ClaimMatching_def Let_def keeps_attempts_same split: list.splits
      intro!: keeps_attempts_update simp: claim_row_def)

lemma claimed_update_attempts:
  assumes "\<And>r. jb_job_id (f r) = jb_job_id r \<and> jb_max_retries (f r) = jb_max_retries r \<and> jb_finished_at (f r) = jb_finished_at r"
    and "\<And>r. r \<in> set (db_jobs db) \<Longrightarrow> holds_claim job r \<Longrightarrow> jb_attempts (f r) \<le> jb_max_retries r \<or> jb_attempts (f r) = jb_attempts r"
  shows "keeps_attempts db (snd (claimed_update job f db))"
proof (rule keeps_attempts_update)
  fix r assume "r \<in> set (db_jobs db)" "holds_claim job r" "jb_finished_at (f r) = None"
    "jb_finished_at r = None \<longrightarrow> jb_attempts r \<le> jb_max_retries r"
  with assms(1,2) [of r] show "jb_attempts (f r) \<le> jb_max_retries r" by auto
qed (use assms(1) in \<open>auto simp: claimed_update_def\<close>)

lemma settle_attempts:
  assumes "read_from db job"
  shows "keeps_attempts db (snd (settle en now stopping job h db))"
proof -
  have release: "keeps_attempts db (snd (ReleaseClaim db job))"
    unfolding ReleaseClaim_def by (intro claimed_update_attempts) auto
  have same: "keeps_attempts db db" by (rule keeps_attempts_same) simp
  have ended: "keeps_attempts db (snd (settled_elsewhere (emitTerminal en job t result failure db1) db1))"
    if "t \<in> {''JobSucceeded'', ''JobFailed''}" "keeps_attempts db db1" for t result failure db1
    using that emitTerminal_attempts [of en job t result failure db1]
    by (auto simp: settled_elsewhere_def split: sum.split intro: keeps_attempts_trans)
  have retry: "keeps_attempts db db'" if "ScheduleRetry db job now failure = Inr (b, db')"
    "i64 (wj_Attempts job + 1) \<le> wj_MaxRetries job" for failure b db'
  proof -
    define f where "f = (\<lambda>next_run err r. (unclaim_row r)\<lparr>jb_attempts := i64 (wj_Attempts job + 1),
      jb_next_run_at := next_run, jb_error := Some err\<rparr>)"
    have "keeps_attempts db (snd (claimed_update job (f next_run err) db))" for next_run err
      using that(2) read_from_limit [OF assms]
      by (intro claimed_update_attempts) (auto simp: f_def holds_claim_def)
    then show ?thesis using that(1) unfolding ScheduleRetry_def Let_def f_def
      by (auto split: sum.splits) (metis snd_conv)
  qed
  show ?thesis
    by (auto simp: settle_def Let_def ended same release split: sum.splits prod.splits dest: retry intro!: ended)
qed

lemma recover_job_attempts:
  assumes "recover_job en now cutoff job db = Inr (n, db')" and "read_from db job"
  shows "keeps_attempts db db'"
proof (cases "i64 (wj_Attempts job + 1) > wj_MaxRetries job")
  case True
  have "keeps_attempts db db'" if "Apply en op [exhausted_event job k] db = Inr (res, db')" for op k res
    by (rule Apply_attempts [OF that]) (simp add: ending_type_def exhausted_event_def job_event_of_def)
  moreover have "keeps_attempts db db" by (rule keeps_attempts_same) simp
  ultimately show ?thesis
    using assms(1) True by (auto simp: recover_job_def Let_def split: sum.splits if_splits)
next
  case False
  define g where "g = (\<lambda>r. (unclaim_row r)\<lparr>jb_attempts := i64 (wj_Attempts job + 1),
    jb_next_run_at := RFC3339Nano (time_UTC now)\<rparr>)"
  have "db_jobs db' = update_where (still_stale cutoff job) g (db_jobs db)"
    using assms(1) False by (auto simp: recover_job_def Let_def g_def)
  then show ?thesis
    by (rule keeps_attempts_update) (use False read_from_limit [OF assms(2)] in \<open>auto simp: still_stale_def g_def\<close>)
qed

lemma recover_jobs_attempts:
  assumes "recover_jobs en now cutoff jobs db = (e, n, db')" and "\<forall>job \<in> set jobs. read_from db job"
  shows "keeps_attempts db db'"
  using assms
proof (induction jobs arbitrary: db n)
  case (Cons job jobs)
  show ?case
  proof (cases "recover_job en now cutoff job db")
    case (Inl x)
    with Cons.prems(1) show ?thesis by (simp add: keeps_attempts_same)
  next
    case (Inr p)
    obtain k db1 where p: "p = (k, db1)" by (cases p)
    have step: "keeps_attempts db db1" using Inr p Cons.prems(2) by (auto intro: recover_job_attempts)
    then have "\<forall>job \<in> set jobs. read_from db1 job" using Cons.prems(2)
      by (simp add: keeps_attempts_def read_from_def)
    moreover obtain m where "recover_jobs en now cutoff jobs db1 = (e, m, db')"
      using Cons.prems(1) Inr p by (auto split: prod.splits)
    ultimately have "keeps_attempts db1 db'" by (intro Cons.IH)
    with step show ?thesis by (rule keeps_attempts_trans)
  qed
qed (simp add: keeps_attempts_same)

lemma recover_attempts:
  assumes "RecoverStale en db now timeout = (e, n, db')" and "jobs_unique db"
  shows "keeps_attempts db db'"
proof -
  define cutoff where "cutoff = RFC3339Nano (time_UTC (time_Add now (- timeout)))"
  let ?rows = "sort_key jb_job_id (filter (stale cutoff) (db_jobs db))"
  show ?thesis
  proof (cases "map_bind scanJob ?rows")
    case (Inl x)
    with assms(1) show ?thesis
      by (auto simp: RecoverStale_def Let_def cutoff_def [symmetric] intro: keeps_attempts_same)
  next
    case (Inr jobs)
    have "read_from db job" if job: "job \<in> set jobs" for job
    proof -
      obtain r where r: "r \<in> set (db_jobs db)" "scanJob r = Inr job" using map_bind_set [OF Inr job] by auto
      have "x = r" if "x \<in> set (db_jobs db)" "jb_job_id x = wj_ID job" for x
        using unique_rows [OF _ r(1) that(1)] that(2) scanJob_fields [OF r(2)] assms(2) by (simp add: jobs_unique_def)
      then show ?thesis using scanJob_fields [OF r(2)] by (auto simp: read_from_def limits_def)
    qed
    then show ?thesis using assms(1) Inr
      by (intro recover_jobs_attempts [of en now cutoff jobs])
        (auto simp: RecoverStale_def Let_def cutoff_def [symmetric])
  qed
qed

lemma worker_step_attempts: "worker_step db db' \<Longrightarrow> keeps_attempts db db'"
proof (induction rule: worker_step.induct)
  case (Claims db w now f got db')
  then show ?case by (rule claim_attempts)
next
  case (Beats db job now b db')
  have "keeps_attempts db (snd (Heartbeat db job now))"
    unfolding Heartbeat_def by (intro claimed_update_attempts) auto
  with Beats show ?case by simp
next
  case (Reports en now job u rp db e rp' db')
  then show ?case by (rule report_attempts)
next
  case (Settles db job en now stopping h e db')
  then show ?case using settle_attempts by (metis snd_conv)
next
  case (Recovers db en now timeout e n db')
  then show ?case by (intro recover_attempts)
qed

text \<open>
  C15. However claims, heartbeats, progress reports, settled runs and recovery passes of any number of workers
  interleave, and whatever the handlers return: when no unfinished job has more attempts than its limit at the
  beginning, none ever has, and nobody changes the limit.  A job that a late report has reopened
  (C23) has been ended before and keeps its finishing time, so the bound does not speak of it.
\<close>

theorem attempts_within_limit:
  assumes "worker_step\<^sup>*\<^sup>* db db'" and "attempts_ok db"
  shows "(\<forall>r \<in> set (db_jobs db'). jb_finished_at r = None \<longrightarrow> jb_attempts r \<le> jb_max_retries r)
    \<and> map jb_max_retries (db_jobs db') = map jb_max_retries (db_jobs db)"
proof -
  from assms(1) have "keeps_attempts db db'"
    by (induction rule: rtranclp_induct)
      (auto simp: keeps_attempts_same intro: keeps_attempts_trans dest: worker_step_attempts)
  then have "attempts_ok db'" and "map snd (limits db') = map snd (limits db)"
    using assms(2) by (simp_all add: keeps_attempts_def)
  then show ?thesis by (simp add: attempts_ok_def limits_def comp_def)
qed

section \<open>One failing run\<close>

lemma retried_run:
  assumes "jobs_unique db" and "r \<in> set (db_jobs db)" and "scanJob r = Inr job"
    and "jb_status r = ''running''" and "jb_worker_id r = Some w" and "jb_started_at r = Some s"
    and "0 \<le> jb_attempts r" and "jb_attempts r < jb_max_retries r" and "jb_max_retries r < 2 ^ 63"
  shows "\<exists>db'. settle en now False job (Inl (message, False)) db = (None, db') \<and>
    find_job (jb_job_id r) db' = Some (r\<lparr>jb_status := ''pending'', jb_worker_id := None, jb_heartbeat_at := None,
      jb_started_at := None, jb_attempts := jb_attempts r + 1,
      jb_next_run_at := RFC3339Nano (time_UTC (time_Add now (RetryDelay (jb_attempts r + 1)))),
      jb_error := Some (json_norm (GObj (failureJSON message False)))\<rparr>)"
proof -
  note scanned = scanJob_fields [OF assms(3)]
  have n: "i64 (wj_Attempts job + 1) = jb_attempts r + 1" using assms(7-9) scanned by (intro trans [OF i64_id]) auto
  define g where "g = (\<lambda>x. (unclaim_row x)\<lparr>jb_attempts := jb_attempts r + 1,
    jb_next_run_at := RFC3339Nano (time_UTC (time_Add now (RetryDelay (jb_attempts r + 1)))),
    jb_error := Some (json_norm (GObj (failureJSON message False)))\<rparr>)"
  have found: "find_job (jb_job_id r) db = Some r" by (rule find_job_unique [OF assms(1,2)])
  then have stored: "GetJob db (wj_ID job) = Inr job" using scanned assms(3) by (simp add: GetJob_def)
  have held: "holds_claim job x \<longleftrightarrow> x = r" if "x \<in> set (db_jobs db)" for x
    using unique_rows [OF _ assms(2) that] assms(1,4-6) scanned by (auto simp: holds_claim_def jobs_unique_def)
  have "filter (holds_claim job) (db_jobs db) = filter (\<lambda>x. x = r) (db_jobs db)"
    using held by (intro filter_cong) auto
  moreover have "distinct (db_jobs db)" using assms(1) by (simp add: jobs_unique_def distinct_map)
  ultimately have one: "rows_affected (holds_claim job) (db_jobs db) = 1"
    using assms(2) by (simp add: rows_affected_def distinct_length_filter)
  have "mustJSON (GObj (failureJSON message False)) = Inr (json_norm (GObj (failureJSON message False)))"
    by (simp add: mustJSON_def failureJSON_def)
  then have retry: "ScheduleRetry db job now (failureJSON message False)
      = Inr (True, db\<lparr>db_jobs := update_where (holds_claim job) g (db_jobs db)\<rparr>)"
    using one by (simp add: ScheduleRetry_def n claimed_update_def g_def Let_def)
  have "settle en now False job (Inl (message, False)) db = (None, db\<lparr>db_jobs := update_where (holds_claim job) g (db_jobs db)\<rparr>)"
    using stored retry assms(4-6,8) scanned n by (simp add: settle_def sameClaim_def Let_def)
  moreover have "find_job (jb_job_id r) (db\<lparr>db_jobs := update_where (holds_claim job) g (db_jobs db)\<rparr>) = Some (g r)"
    using found held [OF assms(2)] by (simp add: find_job_def find_update_where g_def)
  ultimately show ?thesis by (simp add: g_def unclaim_row_def)
qed

text \<open>
  C17. A run that fails while retries are left puts the job back with one more attempt, an error
  note, no claim, and a next run that is the retry delay away.
\<close>

theorem failed_run_is_retried:
  assumes "jobs_unique db" and "r \<in> set (db_jobs db)" and "scanJob r = Inr job"
    and "jb_status r = ''running''" and "jb_worker_id r = Some w" and "jb_started_at r = Some s"
    and "0 \<le> jb_attempts r" and "jb_attempts r < jb_max_retries r" and "jb_max_retries r < 2 ^ 63"
  shows "\<exists>db'. settle en now False job (Inl (message, False)) db = (None, db') \<and>
    find_job (jb_job_id r) db' = Some (r\<lparr>jb_status := ''pending'', jb_worker_id := None, jb_heartbeat_at := None,
      jb_started_at := None, jb_attempts := jb_attempts r + 1,
      jb_next_run_at := RFC3339Nano (time_UTC (time_Add now (RetryDelay (jb_attempts r + 1)))),
      jb_error := Some (json_norm (GObj (failureJSON message False)))\<rparr>)"
  by (rule retried_run [OF assms])

section \<open>A late report\<close>

text \<open>The draft whose list of running jobs shows the job.\<close>

definition shown_draft :: "job \<Rightarrow> string" where
  "shown_draft job = (if text_value (wj_RequestedByDraftID job) \<noteq> [] then text_value (wj_RequestedByDraftID job)
     else text_value (wj_DraftID job))"

lemma shown_list_accepts:
  assumes "finite_f (pu_Progress u)" and "find_draft d (st_db st) = Some r"
    and "list_all (\<lambda>m. json_ok (GObj m)) (dr_running_jobs r)"
  shows "\<exists>st'. updateRunningJobs st d j status (progress_event job u n) = Inr st'"
proof -
  obtain st1 where st1: "touch st d = Inr st1"
    using assms(2) by (cases "touch st d") (auto simp: touch_def st_version_def lookupDraftVersion_def split: option.splits)
  then have "find_draft d (st_db st1) = Some r" using assms(2) by (simp add: touch_db [OF st1])
  moreover have "json_ok (GObj (running_entry (progress_event job u n) i x))" for i x
    using assms(1) by (simp add: running_entry_def payload_def progress_values)
  moreover have "list_all (\<lambda>m. json_ok (GObj m)) (filter P (dr_running_jobs r))" for P
    using assms(3) by (auto simp: list_all_iff)
  ultimately show ?thesis by (simp add: updateRunningJobs_def st1 mustJSON_def list.pred_map comp_def Let_def)
qed

text \<open>
  C23. The reducer refuses progress only of a cancelled job: the report of a worker that has ended its job, and
  still names its claim, is accepted and puts the job back to running, with its finishing time kept.  The job
  is not one of material understanding, and the draft it shows up in, if any, exists and has readable entries.
\<close>

theorem late_progress_reopens_job:
  assumes "find_job (wj_ID job) (st_db st) = Some r" and "wj_ID job \<noteq> []"
    and "jb_status r = ''succeeded'' \<or> jb_status r = ''failed''" and "jb_kind r \<noteq> ''understand''"
    and "jb_worker_id r = Some w" and "wj_WorkerID job = Some w" and "jb_started_at r = Some s" and "wj_StartedAt job = Some s"
    and "finite_f (pu_Progress u)"
    and "shown_draft job = [] \<or> (\<exists>d. find_draft (shown_draft job) (st_db st) = Some d \<and> list_all (\<lambda>m. json_ok (GObj m)) (dr_running_jobs d))"
  shows "\<exists>st' r'. applyJob st (progress_event job u n) = Inr st' \<and> find_job (wj_ID job) (st_db st') = Some r'
    \<and> jb_status r' = ''running'' \<and> jb_finished_at r' = jb_finished_at r"
proof -
  let ?ev = "progress_event job u n"
  have p: "payload ?ev k = gget (progress_payload job u n) k" for k by (simp add: payload_def)
  have id: "jb_job_id r = wj_ID job" using find_job_set [OF assms(1)] by simp
  have "check_job ?ev r = None"
    using assms(3,5-8) by (auto simp: check_job_def claim_lost_def heartbeat_moved_def payload_has_def p progress_values Let_def)
  moreover define db' where "db' = (st_db st)\<lparr>db_jobs := update_where (\<lambda>x. jb_job_id x = wj_ID job)
    (update_job_row (st_createdAt st) ?ev None None) (db_jobs (st_db st))\<rparr>"
  moreover have "update_job st ?ev r = Inr db'" by (simp add: update_job_def p progress_values nullableJSON_def id db'_def Let_def)
  moreover have found: "find_job (wj_ID job) db' = Some (update_job_row (st_createdAt st) ?ev None None r)"
    using assms(1) id by (simp add: db'_def find_job_def find_update_where)
  moreover have "jb_kind (update_job_row (st_createdAt st) ?ev None None r) = jb_kind r" by (simp add: update_job_row_def Let_def)
  ultimately have run: "applyJob st ?ev = (if shown_draft job = [] then Inr (st\<lparr>st_db := db'\<rparr>)
      else updateRunningJobs (st\<lparr>st_db := db'\<rparr>) (shown_draft job) (wj_ID job) ''running'' ?ev)"
    using assms(1,2,4)
    by (simp add: applyJob_def p progress_values reconcileUnderstandJobAsset_def shown_draft_def job_event_status_def Let_def)
  have "find_draft (shown_draft job) (st_db (st\<lparr>st_db := db'\<rparr>)) = find_draft (shown_draft job) (st_db st)"
    by (simp add: db'_def find_draft_def)
  then have "\<exists>st'. applyJob st ?ev = Inr st'"
    using assms(10) shown_list_accepts [OF assms(9)] unfolding run by (metis (full_types))
  then obtain st' where st': "applyJob st ?ev = Inr st'" ..
  then have "db_jobs (st_db st') = db_jobs db'"
    using run running_jobs_jobs by (auto split: if_splits)
  then have "find_job (wj_ID job) (st_db st') = Some (update_job_row (st_createdAt st) ?ev None None r)"
    using found by (simp add: find_job_def)
  moreover have "jb_finished_at (update_job_row (st_createdAt st) ?ev None None r) = jb_finished_at r"
    by (simp add: update_job_row_def job_event_status_def terminal_status_def Let_def)
  ultimately show ?thesis using st' by (auto simp: job_event_status_def)
qed

end
