(* ===== verification/Reducer_Demo.thy ===== *)
theory Reducer_Demo
  imports Reducer_Versions
begin

text \<open>
  A small workspace on which the properties of the reducer are run: one draft at version 3 with a
  stored timeline and a cancelled job.  The user renames the draft; a second writer still has the
  old version.
\<close>

definition demo_job :: job_row where
  "demo_job = \<lparr>jb_job_id = ''j'', jb_kind = ''ingest'', jb_status = ''cancelled'', jb_draft_id = Some ''d'',
     jb_requested_by_draft_id = Some ''d'', jb_asset_id = None, jb_idempotency_key = ''k'',
     jb_payload = GObj [], jb_result = None, jb_error = None, jb_attempts = 0, jb_max_retries = 3,
     jb_next_run_at = ''t0'', jb_priority = 0, jb_progress = None, jb_worker_id = None,
     jb_heartbeat_at = None, jb_created_at = ''t0'', jb_started_at = None, jb_finished_at = None\<rparr>"

definition demo_timeline :: timeline_row where
  "demo_timeline = \<lparr>tl_timeline_id = ''d:v1'', tl_draft_id = ''d'', tl_version = 1, tl_parent_version = None,
     tl_created_by_patch_id = None, tl_document = GObj [], tl_validation_report = None, tl_created_at = ''t0''\<rparr>"

definition empty_db :: db where
  "empty_db = \<lparr>db_drafts = [], db_objects = [], db_assets = [], db_links = [], db_summaries = [],
     db_decisions = [], db_timelines = [], db_edit_batches = [], db_previews = [], db_exports = [],
     db_messages = [], db_jobs = [], db_event_log = [], db_event_seq = 0, db_leases = [], db_contexts = [],
     db_checkpoints = [], db_checkpoint_messages = [], db_restores = [], db_turn_runs = [], db_receipts = [],
     db_transcripts = [], db_analyses = [], db_snapshots = [], db_shots = [], db_suppressions = [], db_memories = []\<rparr>"

definition demo_draft :: draft_row where
  "demo_draft = (new_draft ''d'' ''Cut'' ''t0'')\<lparr>dr_state_version := 3\<rparr>"

definition demo_db :: db where
  "demo_db = empty_db\<lparr>db_drafts := [demo_draft], db_timelines := [demo_timeline], db_jobs := [demo_job]\<rparr>"

definition demo_env :: env where
  "demo_env = \<lparr>en_now = \<lparr>unix_ns = 0, zone_s = 0\<rparr>, en_json_text = (\<lambda>a b. a @ b), en_sha = (\<lambda>v. ''sha'')\<rparr>"

definition demo_op :: options where
  "demo_op = \<lparr>op_BaseVersion = None, op_Actor = ActorUser, op_CreatedAt = \<lparr>unix_ns = 0, zone_s = 0\<rparr>,
     op_ResultRows = no_rows, op_Validate = None, op_JobClaim = None, op_RewindRestore = None,
     op_Admission = None\<rparr>"

definition rename_event :: event where
  "rename_event = \<lparr>ev_Type = ''DraftRenamed'', ev_Actor = [], ev_DraftID = ''d'', ev_BaseVersion = None,
     ev_Payload = Some [(''name'', GStr ''Final'')], ev_CreatedAt = []\<rparr>"

definition stale_event :: event where
  "stale_event = \<lparr>ev_Type = ''ConversationContextCleared'', ev_Actor = [], ev_DraftID = ''d'',
     ev_BaseVersion = Some 3, ev_Payload = Some [], ev_CreatedAt = []\<rparr>"

definition rename_key :: string where
  "rename_key = ''draft_id=d'' @ unit_sep # ''name=Final''"

text \<open>The outcome of the renaming, stamped with the time \<open>c\<close> of the transaction.\<close>

definition logged_rename :: "string \<Rightarrow> event" where
  "logged_rename c = \<lparr>ev_Type = ''DraftRenamed'', ev_Actor = ''user'', ev_DraftID = ''d'',
     ev_BaseVersion = None, ev_Payload = Some [(''name'', GStr ''Final'')], ev_CreatedAt = c\<rparr>"

definition renamed_draft :: "string \<Rightarrow> draft_row" where
  "renamed_draft c = demo_draft\<lparr>dr_name := ''Final'', dr_state_version := 4, dr_updated_at := c\<rparr>"

definition renamed_db :: "string \<Rightarrow> db" where
  "renamed_db c = demo_db\<lparr>db_drafts := [renamed_draft c],
     db_event_log := [\<lparr>el_event_id = 1, el_event_type = ''DraftRenamed'', el_actor = ''user'',
       el_draft_id = Some ''d'', el_payload = logged_rename c, el_merge_key = Some rename_key,
       el_state_version = Some 4, el_created_at = c\<rparr>],
     db_event_seq := 1\<rparr>"

definition renamed_result :: apply_result where
  "renamed_result = (outcome StatusApplied)\<lparr>ar_AppliedEvents := [\<lparr>ae_ID = 1, ae_Type = ''DraftRenamed'',
     ae_StateVersion = Some 4\<rparr>], ar_DraftStateVersions := [(''d'', 4)]\<rparr>"

abbreviation demo_time :: string where
  "demo_time \<equiv> created_at demo_env demo_op"

section \<open>Evaluation\<close>

lemmas demo_rows = demo_db_def demo_draft_def new_draft_def empty_db_def

lemma rename_spec: "event_Spec (logged_rename c) =
    Some (event_spec VersionMerge VersionNone [''draft_id'', ''name''] [] True (RouteWorkspace OR RouteDraft))"
  by (simp add: event_Spec_def EventRegistry_def logged_rename_def)

lemma rename_payload: "payload (logged_rename c) k = (if k = ''name'' then GStr ''Final'' else GNil)"
  by (simp add: payload_def logged_rename_def gget_def)

lemma rename_mode: "VersionMode (logged_rename c) = Some VersionMerge"
  by (simp add: VersionMode_def rename_spec rename_payload)

lemma rename_valid: "event_Validate (logged_rename c) = None"
  by (simp add: event_Validate_def rename_spec rename_payload valueForKey_def)
    (simp add: logged_rename_def actor_valid_def ActorUser_def)

lemma rename_merge_key: "MergeKey (logged_rename c) = Inr rename_key"
  by (simp add: MergeKey_def rename_spec rename_mode merge_parts_def key_part_def valueForKey_def
      rename_payload rename_key_def) (simp add: logged_rename_def)

lemma rename_normal: "normalize_event demo_op c rename_event = Inr (logged_rename c)"
proof -
  have "rename_event\<lparr>ev_Actor := op_Actor demo_op, ev_CreatedAt := c\<rparr> = logged_rename c"
    "logged_rename c\<lparr>ev_BaseVersion := None\<rparr> = logged_rename c"
    by (simp_all add: rename_event_def demo_op_def logged_rename_def ActorUser_def)
  then show ?thesis by (simp add: normalize_event_def Let_def rename_spec rename_mode rename_valid)
qed

lemma rename_fields [simp]: "ev_Type (logged_rename c) = ''DraftRenamed''" "ev_DraftID (logged_rename c) = ''d''"
  "ev_Actor (logged_rename c) = ''user''" "ev_Payload (logged_rename c) = Some [(''name'', GStr ''Final'')]"
  by (simp_all add: logged_rename_def)

lemma rename_admitted: "admit demo_env demo_op c [logged_rename c] demo_db = Inr demo_db"
  by (simp add: admit_def validateTimelineWriteAdmission_def timelinePointerWriteDrafts_def writes_pointer_def
      begin_restore_def demo_op_def)

definition renaming :: "string \<Rightarrow> apply_state" where
  "renaming c = \<lparr>st_db = demo_db\<lparr>db_drafts := [demo_draft\<lparr>dr_name := ''Final''\<rparr>]\<rparr>, st_createdAt = c,
     st_original = [''d'' \<mapsto> 3], st_touched = [''d''], st_eventsToLog = [logged_rename c], st_skipped = 0,
     st_affected = None\<rparr>"

lemma rename_handled: "apply_events (initial_state c demo_db) [] [logged_rename c] = Inr (renaming c)"
proof -
  have handler: "map_of eventApplyRegistry ''DraftRenamed'' = Some applyDraftLifecycle"
    by (simp add: eventApplyRegistry_def)
  have "applyEvent (initial_state c demo_db) (logged_rename c) = Inr (renaming c\<lparr>st_eventsToLog := []\<rparr>)"
    by (simp add: applyEvent_def handler applyDraftLifecycle_def touch_def st_version_def lookupDraftVersion_def
        find_draft_def initial_state_def renaming_def demo_rows with_db_def update_draft_def update_where_def
        rename_payload)
  moreover have "existingMergeEvent (st_db (initial_state c demo_db)) (logged_rename c) = Inr (rename_key, False)"
    by (simp add: existingMergeEvent_def rename_merge_key logged_def initial_state_def demo_rows rename_key_def)
  ultimately show ?thesis by (simp add: renaming_def)
qed

lemma rename_finished: "finish demo_env demo_op c (renaming c) demo_db = Inr (renamed_result, renamed_db c)"
  by (simp add: finish_def seal_def renaming_def demo_op_def persist_no_rows
      sortedKeys_def rows_affected_def update_where_def append_event_def payload_encodes_def rename_merge_key
      log_draft_def log_version_def logged_def nullableText_def refers_def finish_restore_def rename_key_def
      renamed_result_def renamed_db_def renamed_draft_def outcome_def demo_rows Let_def)

theorem rename_applied: "Apply demo_env demo_op [rename_event] demo_db = Inr (renamed_result, renamed_db demo_time)"
proof -
  have "preflightStrict (initial_state c demo_db) [logged_rename c] = Inr (None, initial_state c demo_db)" for c
    by (simp add: rename_mode)
  then have "run_events demo_env demo_op c [logged_rename c] demo_db demo_db = Inr (renamed_result, renamed_db c)" for c
    by (simp add: run_events_def rename_handled rename_finished del: apply_events.simps preflightStrict.simps)
  moreover have "actor_valid (op_Actor demo_op)" by (simp add: demo_op_def actor_valid_def)
  ultimately show ?thesis by (simp add: Apply_def rename_normal rename_admitted)
qed

section \<open>The properties at the example\<close>

theorem merge_key_identifies_witness:
  "valueForKey (logged_rename ''t1'') ''draft_id'' = valueForKey (logged_rename ''t2'') ''draft_id''
    \<and> valueForKey (logged_rename ''t1'') ''name'' = valueForKey (logged_rename ''t2'') ''name''"
proof -
  have "valueForKey (logged_rename c) ''draft_id'' = ''d''" "valueForKey (logged_rename c) ''name'' = ''Final''" for c
    by (simp_all add: valueForKey_def rename_payload)
  then show ?thesis
    using merge_key_identifies [of "logged_rename ''t1''" "logged_rename ''t2''",
        OF _ rename_spec rename_mode rename_mode _ trans [OF rename_merge_key rename_merge_key [symmetric]]]
    by (simp add: unit_sep_def)
qed

theorem timeline_versions_immutable_witness:
  "\<exists>v. demo_timeline\<lparr>tl_validation_report := v\<rparr> \<in> set (db_timelines (renamed_db demo_time))"
  by (rule timeline_versions_immutable [OF rename_applied]) (simp add: demo_db_def)

theorem event_log_append_only_witness:
  "prefix (db_event_log demo_db) (db_event_log (renamed_db demo_time)) \<and> log_ok (renamed_db demo_time)"
  by (rule event_log_append_only [OF rename_applied]) (simp add: log_ok_def log_keys_def demo_rows)

theorem edit_history_bounded_witness:
  "rows_affected (\<lambda>b. eb_draft_id b = ''d'') (db_edit_batches (renamed_db demo_time)) \<le> 20"
  by (rule edit_history_bounded [OF rename_applied]) (simp add: history_bounded_def rows_affected_def demo_rows)

theorem cancelled_jobs_final_witness:
  "\<exists>j \<in> set (db_jobs (renamed_db demo_time)). jb_job_id j = ''j'' \<and> jb_status j = ''cancelled''"
  using cancelled_jobs_final [OF rename_applied, of demo_job] by (simp add: jobs_unique_def demo_rows demo_job_def)

theorem state_versions_advance_witness:
  "draft_version (renamed_db demo_time) ''d'' = Some 4"
  using state_versions_advance [OF rename_applied, of "''d''" 3]
  by (simp add: draft_version_def find_draft_def demo_rows renamed_result_def)

text \<open>The second writer clears the conversation against version 3.\<close>

definition stale_normal :: "string \<Rightarrow> event" where
  "stale_normal c = \<lparr>ev_Type = ''ConversationContextCleared'', ev_Actor = ''user'', ev_DraftID = ''d'',
     ev_BaseVersion = Some 3, ev_Payload = Some [], ev_CreatedAt = c\<rparr>"

definition stale_conflict :: version_conflict where
  "stale_conflict = \<lparr>vc_DraftID = ''d'', vc_ExpectedBaseVersion = Some 3, vc_ActualStateVersion = 4,
     vc_EventType = ''ConversationContextCleared''\<rparr>"

lemma stale_modes:
  "event_Spec (stale_normal c) = Some (event_spec VersionStrict VersionNone [] [] True RouteDraft)"
  "VersionMode (stale_normal c) = Some VersionStrict" "VersionMode stale_event = Some VersionStrict"
  by (simp_all add: VersionMode_def event_Spec_def EventRegistry_def stale_normal_def stale_event_def
      payload_def gget_def)

lemma stale_normalised: "normalize_event demo_op c stale_event = Inr (stale_normal c)"
proof -
  have "stale_event\<lparr>ev_Actor := op_Actor demo_op, ev_CreatedAt := c\<rparr> = stale_normal c"
    by (simp add: stale_event_def demo_op_def stale_normal_def ActorUser_def)
  moreover have "event_Validate (stale_normal c) = None"
    by (simp add: event_Validate_def stale_modes) (simp add: stale_normal_def actor_valid_def ActorUser_def)
  moreover have "ev_BaseVersion (stale_normal c) = Some 3" by (simp add: stale_normal_def)
  ultimately show ?thesis by (simp add: normalize_event_def Let_def stale_modes)
qed

lemma stale_refused: "Apply demo_env demo_op [stale_event] (renamed_db t)
    = Inr (outcome StatusVersionConflict\<lparr>ar_Conflict := Some stale_conflict\<rparr>, renamed_db t)"
proof -
  have "admit demo_env demo_op c [stale_normal c] (renamed_db t) = Inr (renamed_db t)" for c
    by (simp add: admit_def validateTimelineWriteAdmission_def timelinePointerWriteDrafts_def writes_pointer_def
        begin_restore_def demo_op_def stale_normal_def)
  moreover have "run_events demo_env demo_op c [stale_normal c] (renamed_db t) (renamed_db t)
      = Inr (outcome StatusVersionConflict\<lparr>ar_Conflict := Some stale_conflict\<rparr>, renamed_db t)" for c
    by (simp add: run_events_def stale_modes st_version_def initial_state_def lookupDraftVersion_def find_draft_def
        renamed_db_def renamed_draft_def demo_rows stale_conflict_def) (simp add: stale_normal_def)
  moreover have "actor_valid (op_Actor demo_op)" by (simp add: demo_op_def actor_valid_def)
  ultimately show ?thesis by (simp add: Apply_def stale_normalised)
qed

theorem lost_update_refused_witness:
  "ar_Status (outcome StatusVersionConflict\<lparr>ar_Conflict := Some stale_conflict\<rparr>) \<noteq> StatusApplied
    \<and> renamed_db demo_time = renamed_db demo_time"
  by (rule lost_update_refused [OF rename_applied _ _ _ _ _ _ stale_refused, where v = 3 and ev = stale_event])
    (simp_all add: draft_version_def find_draft_def demo_rows renamed_result_def stale_modes,
      simp_all add: stale_event_def)

end
