(* ===== verification/Worker_Demo.thy ===== *)
theory Worker_Demo
  imports Worker_Retries Reducer_Demo
begin

text \<open>A queue of three jobs on which the properties of the workers are run.\<close>

definition queued :: "string \<Rightarrow> string \<Rightarrow> goint \<Rightarrow> job_row" where
  "queued j k p = demo_job\<lparr>jb_job_id := j, jb_kind := k, jb_status := ''pending'', jb_draft_id := None,
     jb_requested_by_draft_id := None, jb_idempotency_key := j, jb_next_run_at := [], jb_priority := p\<rparr>"

definition taken :: job_row where
  "taken = (queued ''a'' ''ingest'' 5)\<lparr>jb_status := ''running'', jb_worker_id := Some ''w'',
     jb_started_at := Some ''t1'', jb_heartbeat_at := Some ''t1'', jb_attempts := 1\<rparr>"

definition queue_db :: db where
  "queue_db = empty_db\<lparr>db_jobs := [taken, queued ''b'' ''ingest'' 9, queued ''c'' ''render_final'' 9, queued ''e'' ''ingest'' 2]\<rparr>"

definition held :: job where
  "held = \<lparr>wj_ID = ''a'', wj_Kind = ''ingest'', wj_Status = ''running'', wj_DraftID = None,
     wj_RequestedByDraftID = None, wj_AssetID = None, wj_Payload = [], wj_Attempts = 1, wj_MaxRetries = 3,
     wj_Priority = 5, wj_WorkerID = Some ''w'', wj_StartedAt = Some ''t1'', wj_HeartbeatAt = Some ''t1''\<rparr>"

lemmas queue_rows = queue_db_def taken_def queued_def demo_job_def empty_db_def

abbreviation demo_now :: gotime where "demo_now \<equiv> \<lparr>unix_ns = 0, zone_s = 0\<rparr>"

lemma queue_unique: "jobs_unique queue_db"
  by (simp add: jobs_unique_def queue_rows)

lemma queue_decodes: "\<forall>r \<in> set (db_jobs queue_db). decodes r"
  by (simp add: decodes_def queue_rows)

lemma held_scanned: "scanJob taken = Inr held"
  by (simp add: scanJob_def Let_def held_def taken_def queued_def demo_job_def)

lemma taken_in_queue: "taken \<in> set (db_jobs queue_db)"
  by (simp add: queue_db_def)

theorem claims_in_order_witness:
  "fst (drain (claim_next ''v'' demo_now no_filter) 2 queue_db) = [''e'', ''b'']"
proof -
  have "\<not> (IncludeKinds no_filter \<noteq> [] \<and> ExcludeKinds no_filter \<noteq> [])" by (simp add: no_filter_def)
  note claimed = claims_in_order [OF queue_unique queue_decodes this, of "''v''" demo_now 2]
  show ?thesis unfolding claimed
    by (simp add: waiting_jobs_def waiting_rows_def queue_rows claimable_def claimKindPredicate_def no_filter_def
        claim_order_def sort_key_def less_eq_prod_def less_eq_char_def less_char_def)
qed

theorem lost_claim_writes_nothing_witness:
  "snd (settle demo_env demo_now False (held\<lparr>wj_StartedAt := Some ''t0''\<rparr>) (Inr None) queue_db) = queue_db
   \<and> snd (snd (report demo_env demo_now (held\<lparr>wj_StartedAt := Some ''t0''\<rparr>) no_progress newProgressReporter queue_db)) = queue_db"
proof -
  have "fenced_off queue_db (held\<lparr>wj_StartedAt := Some ''t0''\<rparr>)"
    by (simp add: fenced_off_def queue_rows held_def)
  moreover have "\<forall>r \<in> set (db_jobs queue_db). \<not> holds_claim (held\<lparr>wj_StartedAt := Some ''t0''\<rparr>) r"
    by (simp add: holds_claim_def queue_rows held_def)
  ultimately show ?thesis using lost_claim_writes_nothing [of queue_db "held\<lparr>wj_StartedAt := Some ''t0''\<rparr>"] by blast
qed

text \<open>The first job fails once more: its second attempt waits, one below the limit.\<close>

theorem attempts_within_limit_witness:
  "\<exists>db' r. settle demo_env demo_now False held (Inl (''boom'', False)) queue_db = (None, db') \<and> find_job ''a'' db' = Some r
    \<and> jb_attempts r = 2 \<and> jb_max_retries r = 3
    \<and> filter (\<lambda>r. jb_finished_at r = None \<and> jb_max_retries r < jb_attempts r) (db_jobs db') = []"
proof -
  obtain db' r where s: "settle demo_env demo_now False held (Inl (''boom'', False)) queue_db = (None, db')"
    and r: "find_job ''a'' db' = Some r" "jb_attempts r = 2" "jb_max_retries r = 3"
    using retried_run [OF queue_unique taken_in_queue held_scanned, of "''w''" "''t1''" demo_env demo_now "''boom''"]
    by (auto simp: taken_def queued_def demo_job_def)
  have "read_from queue_db held" by (simp add: read_from_def limits_def queue_rows held_def)
  then have "worker_step\<^sup>*\<^sup>* queue_db db'" using s by (intro r_into_rtranclp worker_step.Settles)
  from attempts_within_limit [OF this] have "filter (\<lambda>r. jb_finished_at r = None \<and> jb_max_retries r < jb_attempts r) (db_jobs db') = []"
    by (auto simp: attempts_ok_def queue_rows filter_empty_conv)
  with s r show ?thesis by blast
qed

theorem failed_run_is_retried_witness:
  "\<exists>db'. settle demo_env demo_now False held (Inl (''boom'', False)) queue_db = (None, db')"
  using failed_run_is_retried [OF queue_unique taken_in_queue held_scanned, of "''w''" "''t1''" demo_env demo_now "''boom''"]
  by (auto simp: taken_def queued_def demo_job_def)

definition finished_db :: db where
  "finished_db = empty_db\<lparr>db_jobs := [taken\<lparr>jb_status := ''succeeded'', jb_finished_at := Some ''t2''\<rparr>]\<rparr>"

theorem late_progress_reopens_job_witness:
  "\<exists>st' r'. applyJob (initial_state ''t3'' finished_db) (progress_event held no_progress 7) = Inr st'
     \<and> find_job ''a'' (st_db st') = Some r' \<and> jb_status r' = ''running'' \<and> jb_finished_at r' = Some ''t2''"
proof -
  have "find_job (wj_ID held) (st_db (initial_state ''t3'' finished_db))
      = Some (taken\<lparr>jb_status := ''succeeded'', jb_finished_at := Some ''t2''\<rparr>)"
    by (simp add: find_job_def finished_db_def taken_def queued_def initial_state_def held_def)
  from late_progress_reopens_job [OF this, of "''w''" "''t1''" no_progress 7] show ?thesis
    by (simp add: held_def taken_def queued_def demo_job_def shown_draft_def no_progress_def)
qed

end
