(* ===== verification/Reducer_Row_Safety.thy ===== *)
theory Reducer_Row_Safety
  imports Reducer_Versions
begin

text \<open>
  What a transaction guarantees about the rows it stores: at most fifty memories, none without a
  quotation of the user, the least valuable ones evicted first; at most one current shot index per
  content; and a creative plan that is replaced only by a writer who has seen it.
\<close>

section \<open>The number of memories\<close>

lemma delete_memories: "fold delete_memory ks rows = filter (\<lambda>r. me_memory_key r \<notin> set ks) rows"
  by (induction ks arbitrary: rows) (auto simp: delete_memory_def intro: filter_cong)

lemma evict_bound: "length (fold delete_memory (evicted_keys rows) rows) \<le> UserMemoryLimit"
proof -
  let ?n = "length rows - UserMemoryLimit" and ?s = "sort_key eviction_order rows"
  let ?gone = "\<lambda>r. me_memory_key r \<in> set (evicted_keys rows)"
  have "length (filter ?gone rows) = length (filter ?gone ?s)"
    by (metis mset_filter mset_sort size_mset)
  also have "\<dots> \<ge> length (filter ?gone (take ?n ?s))"
    by (metis append_take_drop_id filter_append le_add1 length_append)
  moreover have "filter ?gone (take ?n ?s) = take ?n ?s"
    by (rule filter_True) (simp add: evicted_keys_def)
  ultimately have "?n \<le> length (filter ?gone rows)" by simp
  then show ?thesis
    using sum_length_filter_compl [of ?gone rows] by (simp add: delete_memories)
qed

definition memories_bounded :: "db \<Rightarrow> bool" where
  "memories_bounded db \<longleftrightarrow> length (db_memories db) \<le> UserMemoryLimit"

lemma persistUserMemories_bounded:
  assumes "persistUserMemories c ups ks clear ev db = Inr (mo, db')" and "memories_bounded db"
  shows "memories_bounded db'"
proof (cases "(ups = [] \<and> ks = [] \<and> \<not> clear) \<or> clear")
  case True
  with assms show ?thesis
    by (auto simp: persistUserMemories_def memories_bounded_def split: if_splits option.splits)
next
  case False
  with assms(1) obtain db1 where "db' = db1\<lparr>db_memories := fold delete_memory (evicted_keys (db_memories db1)) (db_memories db1)\<rparr>"
    by (auto simp: persistUserMemories_def Let_def split: if_splits option.splits)
  then show ?thesis by (simp add: memories_bounded_def evict_bound)
qed

lemma update_where_length [simp]: "length (update_where P f rows) = length rows"
  by (simp add: update_where_def)

lemma touch_keys_length: "touch_keys u seen ks db = Inr db' \<Longrightarrow> length (db_memories db') = length (db_memories db)"
  by (induction ks arbitrary: seen db) (fastforce split: if_splits)+

text \<open>The four writes of memories one after the other.\<close>

lemma persistMemoryRows_parts:
  assumes "persistMemoryRows c rows db = Inr (mo, db')"
  obtains o1 db1 db2 db3 where
    "persistUserMemories c (rs_MemoryUpserts rows) (rs_MemoryRemoveKeys rows)
      (rs_MemoryClearAll rows) (rs_MemoryEvidence rows) db = Inr (o1, db1)"
    and "db2 = db1 \<or> (\<exists>x. db2 = db1\<lparr>db_memories := filter (\<lambda>r. \<not> matches_removal x r) (db_memories db1)\<rparr>)"
    and "touchUserMemories c (rs_MemoryTouchKeys rows) db2 = Inr db3"
    and "db' = db3 \<or> (\<exists>x b. editUserMemoryStatement c x db3 = Inr (b, db'))"
    and "mo_WrittenKeys mo = mo_WrittenKeys o1" and "mo_EvictedKeys mo = mo_EvictedKeys o1"
proof -
  from assms obtain o1 db1 o2 db2 db3 where
    a: "persistUserMemories c (rs_MemoryUpserts rows) (rs_MemoryRemoveKeys rows)
      (rs_MemoryClearAll rows) (rs_MemoryEvidence rows) db = Inr (o1, db1)"
    and b: "(case rs_MemoryConditionalRemove rows of None \<Rightarrow> Inr (o1, db1)
       | Some x \<Rightarrow> bind_sum (conditionallyRemoveUserMemory x db1) (\<lambda>(removed, db).
           Inr (if removed then o1\<lparr>mo_RemovedKeys := mo_RemovedKeys o1 @ [mr_Key x]\<rparr> else o1, db))) = Inr (o2, db2)"
    and d: "touchUserMemories c (rs_MemoryTouchKeys rows) db2 = Inr db3"
    and e: "(case rs_MemoryEdit rows of None \<Rightarrow> Inr (o2, db3)
       | Some x \<Rightarrow> bind_sum (editUserMemoryStatement c x db3) (\<lambda>(edited, db).
           Inr (if edited then o2\<lparr>mo_EditedKeys := mo_EditedKeys o2 @ [mt_Key x]\<rparr> else o2, db))) = Inr (mo, db')"
    unfolding persistMemoryRows_def by auto
  show ?thesis
  proof (rule that [OF a _ d])
    show "db2 = db1 \<or> (\<exists>x. db2 = db1\<lparr>db_memories := filter (\<lambda>r. \<not> matches_removal x r) (db_memories db1)\<rparr>)"
      using b by (auto simp: conditionallyRemoveUserMemory_def split: option.splits if_splits)
    show "db' = db3 \<or> (\<exists>x b. editUserMemoryStatement c x db3 = Inr (b, db'))"
      using e by (auto split: option.splits)
    show "mo_WrittenKeys mo = mo_WrittenKeys o1" "mo_EvictedKeys mo = mo_EvictedKeys o1"
      using b e by (auto split: option.splits if_splits)
  qed
qed

lemma persistMemoryRows_bounded:
  assumes "persistMemoryRows c rows db = Inr (mo, db')" and "memories_bounded db"
  shows "memories_bounded db'"
  using assms(1)
proof (cases rule: persistMemoryRows_parts)
  case (1 o1 db1 db2 db3)
  have "memories_bounded db1" by (rule persistUserMemories_bounded [OF 1(1) assms(2)])
  with 1(2) have "memories_bounded db2"
    by (auto simp: memories_bounded_def intro: le_trans [OF length_filter_le])
  with 1(3) have "memories_bounded db3"
    by (auto simp: memories_bounded_def touchUserMemories_def touch_keys_length split: if_splits option.splits)
  with 1(4) show ?thesis
    by (auto simp: memories_bounded_def editUserMemoryStatement_def Let_def split: if_splits option.splits)
qed

lemma db_step_rows: "db_step a b \<Longrightarrow> db_memories b = db_memories a \<and> db_snapshots b = db_snapshots a"
  by (induction rule: db_step.induct) (auto simp: step_simps split: if_splits)

text \<open>Memories and snapshots change in the steps of their own rows only.\<close>

lemma tx_step_memories:
  "tx_step a b \<Longrightarrow> db_memories b = db_memories a \<or> (\<exists>c rows mo. persistMemoryRows c rows a = Inr (mo, b))"
proof (induction rule: tx_step.induct)
  case (Step db db')
  then show ?case using db_step_rows by blast
next
  case (Rows db db')
  then show ?case by (rule row_step_memories)
qed (auto simp: insert_draft_def append_event_def Let_def split: sum.splits if_splits)

lemma tx_step_snapshots:
  "tx_step a b \<Longrightarrow> db_snapshots b = db_snapshots a \<or> (\<exists>c n. store_snapshot c n a = Inr b)"
proof (induction rule: tx_step.induct)
  case (Step db db')
  then show ?case using db_step_rows by blast
next
  case (Rows db db')
  then show ?case by (rule row_step_snapshots)
qed (auto simp: insert_draft_def append_event_def Let_def split: sum.splits if_splits)

definition keeps_memories_bounded :: "db \<Rightarrow> db \<Rightarrow> bool" where
  "keeps_memories_bounded a b \<longleftrightarrow> (memories_bounded a \<longrightarrow> memories_bounded b)"

interpretation memories: tx_relation keeps_memories_bounded
proof
  fix a b assume "tx_step a b"
  then show "keeps_memories_bounded a b"
    using tx_step_memories [of a b] persistMemoryRows_bounded
    by (auto simp: keeps_memories_bounded_def memories_bounded_def)
qed (auto simp: keeps_memories_bounded_def)

text \<open>
  C19. No transaction leaves more than fifty memories.
\<close>

theorem memory_limit:
  assumes "Apply en op evs db = Inr (res, db')" and "length (db_memories db) \<le> 50"
  shows "length (db_memories db') \<le> 50"
  using memories.applied [OF assms(1)] assms(2)
  by (simp add: keeps_memories_bounded_def memories_bounded_def UserMemoryLimit_def)

section \<open>The current shot index\<close>

definition ready_unique :: "db \<Rightarrow> bool" where
  "ready_unique db \<longleftrightarrow> (\<forall>h. rows_affected (\<lambda>r. same_content h r \<and> sn_status r = ''ready'') (db_snapshots db) \<le> 1)"

lemma superseded_none: "rows_affected (\<lambda>r. same_content h r \<and> sn_status r = ''ready'') (supersede h rows) = 0"
  by (auto simp: supersede_def rows_affected_def update_where_def same_content_def filter_empty_conv)

lemma superseded_others:
  "h' \<noteq> h \<Longrightarrow> rows_affected (\<lambda>r. same_content h' r \<and> sn_status r = ''ready'') (supersede h rows)
     = rows_affected (\<lambda>r. same_content h' r \<and> sn_status r = ''ready'') rows"
  by (induction rows) (auto simp: supersede_def rows_affected_def update_where_def same_content_def)

definition keeps_ready_unique :: "db \<Rightarrow> db \<Rightarrow> bool" where
  "keeps_ready_unique a b \<longleftrightarrow> (ready_unique a \<longrightarrow> ready_unique b)"

lemma store_snapshot_ready:
  assumes "store_snapshot c n a = Inr b" and "ready_unique a"
  shows "ready_unique b"
  unfolding ready_unique_def
proof
  fix h
  let ?P = "\<lambda>h r. same_content h r \<and> sn_status r = ''ready''"
  obtain row where row: "sn_asset_content_hash row = si_AssetContentHash n" "sn_status row = ''ready''"
    and b: "db_snapshots b = supersede (si_AssetContentHash n) (db_snapshots a) @ [row]"
    using store_snapshot_keeps(4) [OF assms(1)] by blast
  have split: "rows_affected P (xs @ [row]) = rows_affected P xs + (if P row then 1 else 0)" for P xs
    by (simp add: rows_affected_def)
  show "rows_affected (?P h) (db_snapshots b) \<le> 1"
  proof (cases "h = si_AssetContentHash n")
    case True
    then show ?thesis using superseded_none [of h] by (simp add: b split)
  next
    case False
    then have "\<not> ?P h row" using row by (simp add: same_content_def)
    then show ?thesis using superseded_others [OF False] assms(2) unfolding b split ready_unique_def by auto
  qed
qed

interpretation snapshots: tx_relation keeps_ready_unique
proof
  fix a b assume "tx_step a b"
  then show "keeps_ready_unique a b"
    using tx_step_snapshots [of a b] store_snapshot_ready
    by (auto simp: keeps_ready_unique_def ready_unique_def)
qed (auto simp: keeps_ready_unique_def)

text \<open>
  C21. At most one shot index per content hash is current, whatever a transaction publishes.
\<close>

theorem one_ready_snapshot:
  assumes "Apply en op evs db = Inr (res, db')" and "ready_unique db"
  shows "rows_affected (\<lambda>r. sn_asset_content_hash r = h \<and> sn_status r = ''ready'') (db_snapshots db') \<le> 1"
  using snapshots.applied [OF assms(1)] assms(2)
  by (simp add: keeps_ready_unique_def ready_unique_def same_content_def)

section \<open>Evidence\<close>

lemma evidence_text_cong:
  assumes "db_messages a = db_messages b" and "db_decisions a = db_decisions b"
  shows "userMemoryEvidenceText a e = userMemoryEvidenceText b e"
  using assms by (simp add: userMemoryEvidenceText_def)

lemma evidence_quote_cong:
  assumes "db_messages a = db_messages b" and "db_decisions a = db_decisions b"
  shows "validateUserMemoryEvidenceQuote a e q = validateUserMemoryEvidenceQuote b e q"
  by (simp only: validateUserMemoryEvidenceQuote_def evidence_text_cong [OF assms])

lemma upserts_quoted:
  assumes "upsert_memories c ups db = Inr db'" and "m \<in> set ups"
  shows "validateUserMemoryEvidenceQuote db (evidence_of m) (mm_EvidenceQuote m) = None"
  using assms
proof (induction ups arbitrary: db)
  case (Cons x ups)
  then obtain db1 where u: "upsert_memory c x db = Inr db1" "upsert_memories c ups db1 = Inr db'" by auto
  then obtain ms where db1: "db1 = db\<lparr>db_memories := ms\<rparr>"
    and x: "validateUserMemoryEvidenceQuote db (evidence_of x) (mm_EvidenceQuote x) = None"
    by (auto simp: upsert_memory_def Let_def split: option.splits)
  show ?case
  proof (cases "m = x")
    case False
    with Cons.IH [OF u(2)] Cons.prems(2)
    have "validateUserMemoryEvidenceQuote db1 (evidence_of m) (mm_EvidenceQuote m) = None" by simp
    then show ?thesis using evidence_quote_cong [of db1 db "evidence_of m"] by (simp add: db1)
  qed (simp add: x)
qed simp

lemma persistUserMemories_quoted:
  assumes "persistUserMemories c ups ks clear ev db = Inr (mo, db')" and "m \<in> set ups"
  obtains said where "userMemoryEvidenceText db (evidence_of m) = Inr said"
    and "sublist (TrimSpace (mm_EvidenceQuote m)) said"
    and "ValidUserMemoryEvidenceQuote (TrimSpace (mm_EvidenceQuote m))"
proof -
  let ?db = "db\<lparr>db_memories := fold delete_memory ks (db_memories db)\<rparr>"
  have "ups \<noteq> []" using assms(2) by auto
  with assms(1) obtain db1 where "upsert_memories c ups ?db = Inr db1"
    unfolding persistUserMemories_def Let_def by (simp split: if_splits option.splits) auto
  from upserts_quoted [OF this assms(2)] obtain said where
    "userMemoryEvidenceText ?db (evidence_of m) = Inr said"
    "sublist (TrimSpace (mm_EvidenceQuote m)) said" "ValidUserMemoryEvidenceQuote (TrimSpace (mm_EvidenceQuote m))"
    by (auto simp: validateUserMemoryEvidenceQuote_def Let_def strings_Contains_def split: if_splits sum.splits)
  with evidence_text_cong [of ?db db "evidence_of m"] show ?thesis by (intro that) simp_all
qed

text \<open>The tables evidence is read from do not change once the memories are being stored.\<close>

definition evidence_tables :: "db \<Rightarrow> message_row list \<times> decision_row list" where
  "evidence_tables db = (db_messages db, db_decisions db)"

lemma store_shot_evidence: "store_shot c n s db = Inr db' \<Longrightarrow> evidence_tables db' = evidence_tables db"
proof -
  assume "store_shot c n s db = Inr db'"
  then obtain db1 where o1: "store_each (store_frame c) (sh_RepresentativeFrames s) db = Inr db1"
    and "evidence_tables db' = evidence_tables db1"
    by (auto simp: store_shot_def evidence_tables_def split: if_splits)
  moreover have "evidence_tables db1 = evidence_tables db"
    by (rule store_each_keeps [OF _ o1])
      (auto simp: store_frame_def ensureObject_def evidence_tables_def Let_def split: if_splits)
  ultimately show ?thesis by simp
qed

lemma store_snapshot_evidence:
  assumes "store_snapshot c n db = Inr db'"
  shows "evidence_tables db' = evidence_tables db"
proof -
  obtain g v db1 where
    i: "insert_snapshot (snapshot_from (default_text (si_CreatedAt n) c) n g v)
      (db\<lparr>db_snapshots := supersede (si_AssetContentHash n) (db_snapshots db)\<rparr>) = Inr db1"
    and s: "store_each (store_shot (default_text (si_CreatedAt n) c) n) (si_Shots n) db1 = Inr db'"
    using assms unfolding store_snapshot_def Let_def guard_simps(1) by (elim conjE bind_sum_InrE) blast
  have "evidence_tables db' = evidence_tables db1"
    by (rule store_each_keeps [OF _ s]) (rule store_shot_evidence)
  with i show ?thesis by (auto simp: insert_snapshot_def evidence_tables_def)
qed

lemma store_analysis_evidence:
  assumes "store_analysis c a db = Inr db'"
  shows "evidence_tables db' = evidence_tables db"
proof -
  from assms obtain db1 where
    o1: "store_each (store_object (default_text (ai_CreatedAt a) c)) (ai_Objects a) db = Inr db1"
    and "evidence_tables db' = evidence_tables db1"
    unfolding store_analysis_def Let_def guard_simps(1)
    by (elim conjE bind_sum_InrE) (auto simp: insert_analysis_def evidence_tables_def split: if_splits)
  moreover have "evidence_tables db1 = evidence_tables db"
    by (rule store_each_keeps [OF _ o1])
      (auto simp: store_object_def ensureObject_def evidence_tables_def Let_def split: if_splits)
  ultimately show ?thesis by simp
qed

lemma row_step_evidence: "row_step a b \<Longrightarrow> evidence_tables b = evidence_tables a"
proof (induction rule: row_step.induct)
  case (Memories c rows db mo db')
  then show ?case by (auto simp: evidence_tables_def dest: persistMemoryRows_only)
next
  case (Analysis c a db db')
  then show ?case by (rule store_analysis_evidence)
next
  case (Snapshot c n db db')
  then show ?case by (rule store_snapshot_evidence)
qed (auto simp: store_summary_def store_transcript_def store_context_def store_plan_def store_suppression_def
    Let_def evidence_tables_def update_draft_def split: if_splits option.splits)

lemma row_steps_evidence: "row_steps a b \<Longrightarrow> evidence_tables b = evidence_tables a"
  by (induction rule: rtranclp_induct) (auto dest: row_step_evidence)

lemma bump_versions_evidence: "bump_versions c orig ds db = Inr (None, vs, db') \<Longrightarrow> evidence_tables db' = evidence_tables db"
proof (induction ds arbitrary: db vs)
  case (Cons d ds)
  then show ?case by (fastforce simp: Let_def evidence_tables_def split: if_splits)
qed simp

lemma appendEvents_evidence: "appendEvents c vs evs db = Inr (as, db') \<Longrightarrow> evidence_tables db' = evidence_tables db"
  by (induction evs arbitrary: db as)
    (auto simp: append_event_def evidence_tables_def Let_def split: sum.splits if_splits)

lemma finish_restore_evidence: "evidence_tables (finish_restore r ids ms db) = evidence_tables db"
  by (simp add: finish_restore_def evidence_tables_def split: option.split)

text \<open>
  C14. No memory without the user's own words: for every memory a transaction writes, the quote it
  comes with is, once trimmed, at least two characters long and occurs literally in the message or
  the answer of the user that it names as its evidence.
\<close>

theorem memories_quote_the_user:
  assumes "Apply en op evs db = Inr (res, db')" and "ar_Status res = StatusApplied"
    and "m \<in> set (rs_MemoryUpserts (op_ResultRows op))"
  shows "\<exists>said. userMemoryEvidenceText db' (evidence_of m) = Inr said
    \<and> sublist (TrimSpace (mm_EvidenceQuote m)) said \<and> ValidUserMemoryEvidenceQuote (TrimSpace (mm_EvidenceQuote m))"
  using assms(1)
proof (cases rule: Apply_cases)
  case 1
  with assms(2,3) show ?thesis by (auto simp: emptyResultRows_def)
next
  case (2 evs' db1 st st')
  from 2(6) show ?thesis
  proof (cases rule: finish_cases)
    case 1
    with assms(2) show ?thesis by simp
  next
    case (2 lease memory d1 vs d2 as d3)
    from 2(2) obtain d4 d5 where p: "persistMemoryRows (created_at en op) (op_ResultRows op) d4 = Inr (memory, d5)"
      and a: "persistAnalysisRows (en_sha en) (created_at en op) (op_ResultRows op) d5 = Inr d1"
      by (auto simp: persistResultRows_def)
    from p obtain o1 d6 where "persistUserMemories (created_at en op) (rs_MemoryUpserts (op_ResultRows op))
        (rs_MemoryRemoveKeys (op_ResultRows op)) (rs_MemoryClearAll (op_ResultRows op))
        (rs_MemoryEvidence (op_ResultRows op)) d4 = Inr (o1, d6)"
      by (elim persistMemoryRows_parts)
    then obtain said where said: "userMemoryEvidenceText d4 (evidence_of m) = Inr said"
        "sublist (TrimSpace (mm_EvidenceQuote m)) said" "ValidUserMemoryEvidenceQuote (TrimSpace (mm_EvidenceQuote m))"
      using assms(3) by (rule persistUserMemories_quoted)
    have "evidence_tables db' = evidence_tables d4"
      using finish_restore_evidence appendEvents_evidence [OF 2(4)] bump_versions_evidence [OF 2(3)]
        row_steps_evidence [OF persistAnalysisRows_steps [OF a]] row_step_evidence [OF row_step.Memories [OF p]] 2(5)
      by simp
    then have "userMemoryEvidenceText db' (evidence_of m) = userMemoryEvidenceText d4 (evidence_of m)"
      by (intro evidence_text_cong) (simp_all add: evidence_tables_def)
    with said show ?thesis by auto
  qed
qed

section \<open>Eviction\<close>

lemma sorted_take_drop_le:
  "sorted (map f xs) \<Longrightarrow> x \<in> set (take n xs) \<Longrightarrow> y \<in> set (drop n xs) \<Longrightarrow> f x \<le> f y"
proof -
  assume "sorted (map f xs)" and x: "x \<in> set (take n xs)" and y: "y \<in> set (drop n xs)"
  then have "sorted (map f (take n xs) @ map f (drop n xs))" by (metis append_take_drop_id map_append)
  with x y show "f x \<le> f y" by (simp add: sorted_append)
qed

text \<open>
  C20. Eviction takes the least valuable memories: when the keys are distinct, a memory that is
  evicted comes before every memory that is kept in the order of value, where a correction the user
  made counts more than anything else, and then the time a memory was last confirmed or used.
\<close>

theorem evicted_are_least_valuable:
  assumes "distinct (map me_memory_key rows)" and "r \<in> set rows" and "s \<in> set rows"
    and "me_memory_key r \<in> set (evicted_keys rows)" and "me_memory_key s \<notin> set (evicted_keys rows)"
  shows "eviction_order r \<le> eviction_order s \<and> (me_kind r = ''correction'' \<longrightarrow> me_kind s = ''correction'')"
proof -
  let ?n = "length rows - UserMemoryLimit" and ?s = "sort_key eviction_order rows"
  have keys: "inj_on me_memory_key (set rows)" using assms(1) by (simp add: distinct_map)
  from assms(4) obtain x where "x \<in> set (take ?n ?s)" "me_memory_key x = me_memory_key r"
    by (auto simp: evicted_keys_def)
  moreover from this(1) have "x \<in> set rows" by (metis in_set_takeD set_sort)
  ultimately have r: "r \<in> set (take ?n ?s)" using inj_onD [OF keys, of x r] assms(2) by simp
  have "s \<notin> set (take ?n ?s)" using assms(5) by (auto simp: evicted_keys_def)
  moreover have "s \<in> set ?s" using assms(3) by simp
  then have "s \<in> set (take ?n ?s) \<union> set (drop ?n ?s)" by (metis append_take_drop_id set_append)
  ultimately have "s \<in> set (drop ?n ?s)" by simp
  with r have "eviction_order r \<le> eviction_order s" by (intro sorted_take_drop_le [of _ ?s]) simp_all
  then show ?thesis by (auto simp: eviction_order_def less_eq_prod_def)
qed

section \<open>The creative plan\<close>

lemma bind_sum_return [simp]: "bind_sum r Inr = r"
  by (cases r) simp_all

lemma plan_rows:
  "persistResultRows n j sha c (no_rows\<lparr>rs_PlanUpdate := Some p\<rparr>) db
    = bind_sum (store_plan sha p db) (\<lambda>db. Inr (None, no_outcome, db))"
  by (simp add: persistResultRows_def persistTurnRows_def persistMemoryRows_def persistAnalysisRows_def no_rows_def
      persistAgentTurnRunStart_def persistAgentTurnRunFinish_def persistAgentToolReceipt_def persistMessage_def
      persistUserMemories_def touchUserMemories_def store_opt_def)

lemma store_plan_cases:
  assumes "store_plan sha p db = x" and "x = Inr db' \<or> x = Inl ErrDraftPlanConflict"
  obtains r cur h where "find_draft (pu_DraftID p) db = Some r" and "current_plan r = Inr cur"
    and "ContentPlanHash sha cur = Inr h"
    and "h = pu_ExpectedPlanHash p \<and> x = Inr (update_draft (pu_DraftID p)
        (\<lambda>r. r\<lparr>dr_content_plan := Some (json_norm (go_map (pu_ContentPlan p)))\<rparr>) db)
      \<or> h \<noteq> pu_ExpectedPlanHash p \<and> x = Inl ErrDraftPlanConflict"
proof -
  from assms obtain r where r: "find_draft (pu_DraftID p) db = Some r"
    by (auto simp: store_plan_def split: if_splits option.splits)
  from assms r obtain cur where c: "current_plan r = Inr cur"
    by (cases "current_plan r") (auto simp: store_plan_def current_plan_def split: if_splits option.splits gval.splits)
  from assms r c obtain h where h: "ContentPlanHash sha cur = Inr h"
    by (auto simp: store_plan_def ContentPlanHash_def split: if_splits)
  show ?thesis
    by (rule that [OF r c h]) (use assms r c h in \<open>auto simp: store_plan_def split: if_splits\<close>)
qed

lemma begin_restore_drafts: "begin_restore c r db = Inr db1 \<Longrightarrow> db_drafts db1 = db_drafts db"
  by (auto simp: begin_restore_def split: option.splits if_splits)

lemma seal_untouched:
  "seal op c (initial_state c db1) db lease memory db2 = Inr (res, db')
     \<Longrightarrow> ar_Status res = StatusApplied \<and> db_drafts db' = db_drafts db2"
  by (auto simp: seal_def initial_state_def sortedKeys_def finish_restore_def split: option.splits)

text \<open>
  C22. The creative plan of a draft is compared and swapped: a plan update finds the draft and the
  hash of its stored plan; it replaces the plan when that hash is the one the writer expects, and
  otherwise is reported as a conflict that leaves the database as it was.
\<close>

theorem plan_compare_and_swap:
  assumes "Apply en op [] db = Inr (res, db')"
    and "op_ResultRows op = no_rows\<lparr>rs_PlanUpdate := Some p\<rparr>" and "op_Validate op = None"
  shows "\<exists>r cur h. find_draft (pu_DraftID p) db = Some r \<and> current_plan r = Inr cur
    \<and> ContentPlanHash (en_sha en) cur = Inr h
    \<and> (if h = pu_ExpectedPlanHash p
       then ar_Status res = StatusApplied \<and> db_drafts db' = update_where (\<lambda>r. dr_draft_id r = pu_DraftID p)
         (\<lambda>r. r\<lparr>dr_content_plan := Some (json_norm (go_map (pu_ContentPlan p)))\<rparr>) (db_drafts db)
       else ar_Status res = StatusVersionConflict \<and> db' = db)"
proof -
  let ?c = "created_at en op"
  have rows: "\<not> emptyResultRows (op_ResultRows op)" "check_rows (op_Actor op) (op_ResultRows op) = None"
    by (simp_all add: assms(2) emptyResultRows_def check_rows_def no_rows_def)
  from assms(1) rows(1) obtain db1 where a: "admit en op ?c [] db = Inr db1"
    and f: "finish en op ?c (initial_state ?c db1) db = Inr (res, db')"
    by (auto simp: Apply_def run_events_def split: if_splits)
  have d1: "db_drafts db1 = db_drafts db" using a begin_restore_drafts by (auto simp: admit_Inr)
  define x where "x = store_plan (en_sha en) p db1"
  from f have g: "(case bind_sum x (\<lambda>db. Inr (None, no_outcome, db)) of
      Inl e \<Rightarrow> if e = ErrDraftPlanConflict then Inr (outcome StatusVersionConflict, db) else Inl e
    | Inr (lease, memory, db2) \<Rightarrow> seal op ?c (initial_state ?c db1) db lease memory db2) = Inr (res, db')"
    unfolding finish_def Let_def by (simp add: assms(2,3) rows(2) [unfolded assms(2)] plan_rows initial_state_def x_def)
  then have "\<exists>db2. x = Inr db2 \<or> x = Inl ErrDraftPlanConflict" by (cases x) (auto split: if_splits)
  then obtain db2 where "x = Inr db2 \<or> x = Inl ErrDraftPlanConflict" ..
  with x_def [symmetric] show ?thesis
  proof (rule store_plan_cases)
    fix r cur h
    assume r: "find_draft (pu_DraftID p) db1 = Some r" and c: "current_plan r = Inr cur"
      and h: "ContentPlanHash (en_sha en) cur = Inr h"
      and x: "h = pu_ExpectedPlanHash p \<and> x = Inr (update_draft (pu_DraftID p)
          (\<lambda>r. r\<lparr>dr_content_plan := Some (json_norm (go_map (pu_ContentPlan p)))\<rparr>) db1)
        \<or> h \<noteq> pu_ExpectedPlanHash p \<and> x = Inl ErrDraftPlanConflict"
    from r have "find_draft (pu_DraftID p) db = Some r" using d1 by (simp add: find_draft_def)
    moreover have "if h = pu_ExpectedPlanHash p
       then ar_Status res = StatusApplied \<and> db_drafts db' = update_where (\<lambda>r. dr_draft_id r = pu_DraftID p)
         (\<lambda>r. r\<lparr>dr_content_plan := Some (json_norm (go_map (pu_ContentPlan p)))\<rparr>) (db_drafts db)
       else ar_Status res = StatusVersionConflict \<and> db' = db"
      using x g by (auto simp: update_draft_def d1 outcome_def dest!: seal_untouched)
    ultimately show ?thesis using c h by blast
  qed
qed

end
