(* ===== verification/Reducer_Row_Demo.thy ===== *)
theory Reducer_Row_Demo
  imports Reducer_Demo Reducer_Row_Safety
begin

text \<open>The properties of the stored rows at small examples.\<close>

section \<open>Limits\<close>

theorem memory_limit_witness: "length (db_memories (renamed_db demo_time)) \<le> 50"
  by (rule memory_limit [OF rename_applied]) (simp add: demo_rows)

theorem one_ready_snapshot_witness:
  "rows_affected (\<lambda>r. sn_asset_content_hash r = ''h'' \<and> sn_status r = ''ready'') (db_snapshots (renamed_db demo_time)) \<le> 1"
  by (rule one_ready_snapshot [OF rename_applied]) (simp add: ready_unique_def rows_affected_def demo_rows)

section \<open>A memory with its quotation\<close>

definition wish :: message_row where
  "wish = \<lparr>ms_message_id = ''m'', ms_draft_id = ''d'', ms_role = ''user'', ms_kind = ''reply'',
     ms_content = ''Please: no cuts.'', ms_context_refs = GArr [], ms_created_at = ''t0'',
     ms_rewound_at = None, ms_rewind_checkpoint_id = None\<rparr>"

definition wish_db :: db where
  "wish_db = empty_db\<lparr>db_messages := [wish]\<rparr>"

definition wish_time :: string where
  "wish_time = RFC3339Nano \<lparr>unix_ns = 1500000000, zone_s = 0\<rparr>"

definition wish_memory :: memory_input where
  "wish_memory = \<lparr>mm_Key = ''no_cuts'', mm_Kind = ''preference'', mm_Statement = ''No cuts'',
     mm_EvidenceKind = ''user_message'', mm_EvidenceID = ''m'', mm_SourceDraftID = ''d'',
     mm_EvidenceQuote = '' no cuts'', mm_CreatedAt = wish_time, mm_LastConfirmedAt = wish_time\<rparr>"

definition wish_op :: options where
  "wish_op = demo_op\<lparr>op_ResultRows := no_rows\<lparr>rs_MemoryUpserts := [wish_memory]\<rparr>\<rparr>"

lemma wish_stamp: "normalizeUserMemoryTimestamp wish_time = Some (FixedNano \<lparr>unix_ns = 1500000000, zone_s = 0\<rparr>)"
  by (simp add: normalizeUserMemoryTimestamp_def wish_time_def parse_RFC3339Nano four_digit_year_epoch time_UTC_def)

lemma wish_time_given: "wish_time \<noteq> []"
proof
  assume "wish_time = []"
  moreover have "ParseRFC3339Nano wish_time \<noteq> None"
    by (simp add: wish_time_def parse_RFC3339Nano four_digit_year_epoch)
  moreover have "ParseRFC3339Nano [] = None" by code_simp
  ultimately show False by simp
qed

lemma wish_trimmed: "TrimSpace ''No cuts'' = ''No cuts''"
  by code_simp

lemma wish_quote: "TrimSpace '' no cuts'' = ''no cuts''"
  by code_simp

lemma wish_quote_trimmed: "TrimSpace ''no cuts'' = ''no cuts''"
  by code_simp

lemma wish_count: "RuneCount ''no cuts'' = 7" "RuneCount ''No cuts'' = 7"
  by (simp_all add: RuneCount_def runes.simps rune_width_def byte_def)

lemma wish_texts:
  "ValidUserMemoryKey ''no_cuts''" "ValidUserMemoryStatement ''No cuts''"
  "ValidUserMemoryEvidenceQuote ''no cuts''" "strings_Contains ''Please: no cuts.'' ''no cuts''"
proof -
  show "ValidUserMemoryKey ''no_cuts''" by (simp add: ValidUserMemoryKey_def key_char_def byte_def)
  show "ValidUserMemoryStatement ''No cuts''" by (simp add: ValidUserMemoryStatement_def wish_trimmed wish_count)
  show "ValidUserMemoryEvidenceQuote ''no cuts''"
    by (simp add: ValidUserMemoryEvidenceQuote_def wish_quote_trimmed wish_count)
  show "strings_Contains ''Please: no cuts.'' ''no cuts''"
    by (auto simp: strings_Contains_def sublist_def intro: exI [of _ "''Please: ''"])
qed

lemma wish_valid:
  "validateUserMemoryEvidence wish_db' (evidence_of wish_memory) = None"
  "validateUserMemoryEvidenceQuote wish_db' (evidence_of wish_memory) (mm_EvidenceQuote wish_memory) = None"
  if "db_messages wish_db' = [wish]"
  using wish_texts wish_quote that
  by (simp_all add: validateUserMemoryEvidence_def validateUserMemoryEvidenceQuote_def userMemoryEvidenceText_def
      evidence_of_def wish_memory_def ValidUserMemoryEvidenceKind_def UserMemoryEvidenceMessage_def
      user_message_def wish_def)

lemma wish_stored:
  "\<exists>mo db. persistMemoryRows c (no_rows\<lparr>rs_MemoryUpserts := [wish_memory]\<rparr>) wish_db = Inr (mo, db)"
proof -
  have fields: "mm_Key wish_memory = ''no_cuts''" "mm_Kind wish_memory = ''preference''"
    "mm_Statement wish_memory = ''No cuts''" "mm_EvidenceKind wish_memory = ''user_message''"
    "mm_EvidenceID wish_memory = ''m''" "mm_SourceDraftID wish_memory = ''d''"
    "mm_CreatedAt wish_memory = wish_time" "mm_LastConfirmedAt wish_memory = wish_time"
    by (simp_all add: wish_memory_def)
  have check: "check_upserts None [] [wish_memory] = None"
    using wish_texts by (simp add: fields ValidUserMemoryKind_def ValidUserMemoryEvidenceKind_def UserMemoryEvidenceMessage_def)
  have "\<exists>db. upsert_memory c wish_memory (wish_db\<lparr>db_memories := ms\<rparr>) = Inr db" for ms
    using wish_valid [of "wish_db\<lparr>db_memories := ms\<rparr>"] wish_stamp wish_time_given
    by (simp add: upsert_memory_def Let_def fields wish_db_def)
  from this [of "db_memories wish_db"] check show ?thesis
    by (auto simp: persistMemoryRows_def persistUserMemories_def no_rows_def touchUserMemories_def Let_def)
qed

lemma wish_applied:
  "\<exists>res db. Apply demo_env wish_op [] wish_db = Inr (res, db) \<and> ar_Status res = StatusApplied"
proof -
  let ?rows = "no_rows\<lparr>rs_MemoryUpserts := [wish_memory]\<rparr>" and ?c = "created_at demo_env wish_op"
  from wish_stored obtain mo db1 where m: "persistMemoryRows ?c ?rows wish_db = Inr (mo, db1)" by blast
  have "persistResultRows n j sha ?c ?rows wish_db = Inr (None, mo, db1)" for n j sha
    using m by (simp add: persistResultRows_def persistTurnRows_def persistAnalysisRows_def no_rows_def
      persistAgentTurnRunStart_def persistAgentTurnRunFinish_def persistAgentToolReceipt_def persistMessage_def
      store_opt_def)
  moreover have "check_rows ActorUser ?rows = None" "\<not> emptyResultRows ?rows"
    by (simp_all add: check_rows_def emptyResultRows_def no_rows_def)
  moreover have "admit demo_env wish_op ?c [] wish_db = Inr wish_db"
    by (simp add: admit_def validateTimelineWriteAdmission_def timelinePointerWriteDrafts_def
        begin_restore_def demo_op_def wish_op_def)
  ultimately show ?thesis
    by (simp add: Apply_def run_events_def finish_def Let_def initial_state_def wish_op_def demo_op_def
        seal_def sortedKeys_def finish_restore_def actor_valid_def)
qed

theorem memories_quote_the_user_witness:
  "\<exists>res db said. Apply demo_env wish_op [] wish_db = Inr (res, db)
    \<and> userMemoryEvidenceText db (evidence_of wish_memory) = Inr said \<and> sublist ''no cuts'' said"
proof -
  from wish_applied obtain res db where a: "Apply demo_env wish_op [] wish_db = Inr (res, db)"
    and s: "ar_Status res = StatusApplied" by blast
  have "wish_memory \<in> set (rs_MemoryUpserts (op_ResultRows wish_op))" by (simp add: wish_op_def)
  from memories_quote_the_user [OF a s this] a wish_quote show ?thesis by (auto simp: wish_memory_def)
qed

section \<open>An eviction\<close>

text \<open>Fifty-one memories with keys of growing length; the last one is a correction.\<close>

definition filler :: "nat \<Rightarrow> memory_row" where
  "filler n = \<lparr>me_memory_key = replicate n CHR ''a'', me_kind = (if n = 50 then ''correction'' else ''habit''),
     me_statement = ''s'', me_evidence_kind = ''user_message'', me_evidence_id = ''m'', me_source_draft_id = ''d'',
     me_created_at = ''t'', me_last_confirmed_at = ''t'', me_last_used_at = None, me_manually_revised_at = None\<rparr>"

lemma replicate_less_eq: "m \<le> n \<Longrightarrow> replicate m (CHR ''a'') \<le> replicate n (CHR ''a'')"
proof (induction m arbitrary: n)
  case (Suc m)
  then show ?case by (cases n) auto
qed simp

lemma fillers_sorted: "sorted (map eviction_order (map filler [0..<51]))"
proof -
  have "eviction_order (filler m) \<le> eviction_order (filler n)" if "m \<le> n" "n \<le> 50" for m n
    using replicate_less_eq [OF that(1)] that by (auto simp: eviction_order_def filler_def)
  then show ?thesis unfolding sorted_map by (auto simp: sorted_wrt_iff_nth_less simp del: upt_Suc)
qed

theorem evicted_are_least_valuable_witness:
  "eviction_order (filler 0) \<le> eviction_order (filler 50)"
proof -
  let ?rows = "map filler [0..<51]"
  have "sort_key eviction_order ?rows = ?rows" by (rule sort_key_id_if_sorted) (rule fillers_sorted)
  then have "evicted_keys ?rows = map me_memory_key (take 1 ?rows)" by (simp add: evicted_keys_def UserMemoryLimit_def)
  also have "\<dots> = [[]]" by (simp add: upt_conv_Cons filler_def)
  finally have e: "evicted_keys ?rows = [[]]" .
  have d: "distinct (map me_memory_key ?rows)" by (simp add: distinct_map inj_on_def filler_def comp_def del: upt_Suc)
  have "filler 0 \<in> filler ` {0..<51}" "filler 50 \<in> filler ` {0..<51}" by (rule imageI, simp)+
  then have m: "filler 0 \<in> set ?rows" "filler 50 \<in> set ?rows" unfolding set_map set_upt .
  have "me_memory_key (filler 0) \<in> set [[]]" "me_memory_key (filler 50) \<notin> set [[]]" by (simp_all add: filler_def)
  from evicted_are_least_valuable [OF d m, unfolded e, OF this] show ?thesis by (rule conjunct1)
qed

section \<open>A plan written against another plan\<close>

definition plan_op :: options where
  "plan_op = demo_op\<lparr>op_ResultRows := no_rows\<lparr>rs_PlanUpdate := Some \<lparr>pu_DraftID = ''d'',
     pu_ContentPlan = Some [], pu_ExpectedPlanHash = ''old''\<rparr>\<rparr>\<rparr>"

theorem plan_compare_and_swap_witness:
  "\<exists>res. Apply demo_env plan_op [] demo_db = Inr (res, demo_db) \<and> ar_Status res = StatusVersionConflict"
proof -
  let ?p = "\<lparr>pu_DraftID = ''d'', pu_ContentPlan = Some [], pu_ExpectedPlanHash = ''old''\<rparr>"
  let ?c = "created_at demo_env plan_op"
  have "store_plan (\<lambda>v. ''sha'') ?p demo_db = Inl ErrDraftPlanConflict"
    by (simp add: store_plan_def find_draft_def demo_rows current_plan_def ContentPlanHash_def go_map_def)
  moreover have "check_rows ActorUser (no_rows\<lparr>rs_PlanUpdate := Some ?p\<rparr>) = None"
    "\<not> emptyResultRows (no_rows\<lparr>rs_PlanUpdate := Some ?p\<rparr>)"
    by (simp_all add: check_rows_def emptyResultRows_def no_rows_def)
  moreover have "admit demo_env plan_op ?c [] demo_db = Inr demo_db"
    by (simp add: admit_def validateTimelineWriteAdmission_def timelinePointerWriteDrafts_def
        begin_restore_def demo_op_def plan_op_def)
  ultimately have a: "Apply demo_env plan_op [] demo_db = Inr (outcome StatusVersionConflict, demo_db)"
    by (simp add: Apply_def run_events_def finish_def Let_def initial_state_def plan_op_def demo_op_def
        demo_env_def plan_rows actor_valid_def)
  then have "ar_Status (outcome StatusVersionConflict) = StatusVersionConflict \<or>
      db_drafts demo_db = db_drafts demo_db"
    using plan_compare_and_swap [OF a, of ?p] by (simp add: plan_op_def demo_op_def)
  with a show ?thesis by (auto simp: outcome_def)
qed

end
