(* ===== verification/Agent_Queue.thy ===== *)
theory Agent_Queue
  imports GoTime GoValue "HOL-Library.Multiset"
begin

text \<open>
  The queue of agent turns (\<open>agent/turn_queue.go\<close>): one worker per draft runs its turns one after the
  other, and a cancellation closes the draft for new turns, stops the current one and waits until
  every turn it covers has been reported.  Go runs this with goroutines, channels and two levels of
  locks.  The model has one function per critical section and per channel operation; the threads are
  the free interleaving of these steps (\<open>queue_step\<close>).  A pointer to a worker is an index into the
  list of all workers ever made, the callback \<open>onConsumed\<close> an entry in a log, and a ticket numbers
  the accepted turns; the ticket and the log are observations that no step reads.
\<close>

section \<open>State\<close>

datatype turn_error = TurnCancelledByUser | ContextCanceled | RunError string

record queue_item =
  qi_DraftID :: string
  qi_Kind :: string
  qi_ItemID :: string
  qi_Payload :: gmap
  qi_EnqueuedAt :: gotime
  qi_ticket :: nat

definition QueueUserMessage :: string where "QueueUserMessage = ''user_message''"
definition QueueUIObservation :: string where "QueueUIObservation = ''ui_observation''"

text \<open>
  A worker.  \<open>dw_sending\<close> are the producers between their reservation and the channel, \<open>dw_taken\<close> is
  the item received but not yet current, \<open>dw_current\<close> the item of \<open>currentStop\<close>; \<open>dw_reported\<close> says that
  its callback has run.  \<open>dw_dropping\<close> and \<open>dw_dropped\<close> are the items removed without being run,
  before and after their callback.  \<open>dw_generation\<close> counts the \<open>drained\<close> channels, and \<open>dw_owner\<close>
  notes the draft the worker was made for, a further observation.
\<close>

datatype loop_phase = Looping | Emptying | Exited

record draft_worker =
  dw_owner :: string
  dw_sending :: "queue_item list"
  dw_queue :: "queue_item list"
  dw_taken :: "queue_item option"
  dw_current :: "queue_item option"
  dw_cause :: "turn_error option"
  dw_skip :: bool
  dw_reported :: bool
  dw_currentDurableTerminal :: bool
  dw_dropping :: "(queue_item \<times> turn_error) list"
  dw_dropped :: "queue_item list"
  dw_canceling :: bool
  dw_retired :: bool
  dw_pendingCount :: int
  dw_generation :: nat
  dw_phase :: loop_phase

text \<open>
  A cancellation barrier and how far its release has come; between the two critical sections of a
  release it is known whether the barrier is abandoned and whether that retired the worker.
\<close>

datatype barrier_phase = Held | Draining bool bool | Released

record barrier =
  ba_draftID :: string
  ba_worker :: "nat option"
  ba_generation :: nat
  ba_covered :: int
  ba_phase :: barrier_phase

record turn_queue =
  tq_ctx_done :: bool
  tq_closed :: bool
  tq_pool :: "draft_worker list"
  tq_workers :: "string \<rightharpoonup> nat"
  tq_cancelLeases :: "string \<rightharpoonup> int"
  tq_barriers :: "barrier list"
  tq_consumed :: "(queue_item \<times> turn_error option) list"
  tq_tickets :: nat

definition NewTurnQueue :: turn_queue where
  "NewTurnQueue = \<lparr>tq_ctx_done = False, tq_closed = False, tq_pool = [], tq_workers = Map.empty,
     tq_cancelLeases = Map.empty, tq_barriers = [], tq_consumed = [], tq_tickets = 0\<rparr>"

definition newDraftWorker :: "string \<Rightarrow> draft_worker" where
  "newDraftWorker d = \<lparr>dw_owner = d, dw_sending = [], dw_queue = [], dw_taken = None, dw_current = None, dw_cause = None,
     dw_skip = False, dw_reported = False, dw_currentDurableTerminal = False, dw_dropping = [],
     dw_dropped = [], dw_canceling = False, dw_retired = False, dw_pendingCount = 0, dw_generation = 0,
     dw_phase = Looping\<rparr>"

definition queue_capacity :: nat where "queue_capacity = 256"

definition leases :: "turn_queue \<Rightarrow> string \<Rightarrow> int" where
  "leases q d = (case tq_cancelLeases q d of None \<Rightarrow> 0 | Some n \<Rightarrow> n)"

definition with_worker :: "nat \<Rightarrow> (draft_worker \<Rightarrow> draft_worker) \<Rightarrow> turn_queue \<Rightarrow> turn_queue" where
  "with_worker i f q = q\<lparr>tq_pool := (tq_pool q)[i := f (tq_pool q ! i)]\<rparr>"

text \<open>Cancelling a context keeps the first cause.\<close>

definition stop_with :: "turn_error \<Rightarrow> draft_worker \<Rightarrow> draft_worker" where
  "stop_with e w = (if dw_current w = None \<or> dw_cause w \<noteq> None then w else w\<lparr>dw_cause := Some e\<rparr>)"

section \<open>Enqueueing\<close>

definition CanEnqueue :: "turn_queue \<Rightarrow> string \<Rightarrow> bool" where
  "CanEnqueue q d \<longleftrightarrow> d \<noteq> [] \<and> \<not> (tq_closed q \<or> tq_ctx_done q \<or> leases q d > 0) \<and>
     (case tq_workers q d of None \<Rightarrow> True
      | Some i \<Rightarrow> \<not> dw_canceling (tq_pool q ! i) \<and> \<not> dw_retired (tq_pool q ! i))"

definition find_worker :: "string \<Rightarrow> turn_queue \<Rightarrow> nat \<times> turn_queue" where
  "find_worker d q = (case tq_workers q d of Some i \<Rightarrow> (i, q)
     | None \<Rightarrow> (length (tq_pool q), q\<lparr>tq_pool := tq_pool q @ [newDraftWorker d],
         tq_workers := (tq_workers q)(d \<mapsto> length (tq_pool q))\<rparr>))"

definition reserve_slot :: "queue_item \<Rightarrow> draft_worker \<Rightarrow> draft_worker" where
  "reserve_slot item w = w\<lparr>dw_sending := dw_sending w @ [item], dw_pendingCount := dw_pendingCount w + 1,
     dw_generation := (if dw_pendingCount w = 0 then Suc (dw_generation w) else dw_generation w)\<rparr>"

text \<open>The part of \<open>enqueue\<close> under the locks; the worker it chose, when it accepted.\<close>

definition enqueue :: "gotime \<Rightarrow> turn_queue \<Rightarrow> queue_item \<Rightarrow> bool \<Rightarrow> nat option \<times> turn_queue" where
  "enqueue now q item onlyIfIdle = (let d = qi_DraftID item in
     if d = [] then (None, q)
     else if tq_closed q \<or> tq_ctx_done q \<or> leases q d > 0 then (None, q)
     else let (i, q1) = find_worker d q; w = tq_pool q1 ! i
       in if dw_canceling w \<or> dw_retired w then (None, q1)
          else if onlyIfIdle \<and> dw_pendingCount w > 0 then (None, q1)
          else (Some i, with_worker i (reserve_slot (item\<lparr>qi_ticket := tq_tickets q,
              qi_EnqueuedAt := (if time_IsZero (qi_EnqueuedAt item) then time_UTC now else qi_EnqueuedAt item)\<rparr>)) q1
            \<lparr>tq_tickets := Suc (tq_tickets q)\<rparr>))"

definition userMessageItem :: "string \<Rightarrow> string \<Rightarrow> string \<Rightarrow> queue_item" where
  "userMessageItem d messageID content = \<lparr>qi_DraftID = d, qi_Kind = QueueUserMessage, qi_ItemID = messageID,
     qi_Payload = [(''message_id'', GStr messageID), (''content'', GStr content)], qi_EnqueuedAt = zero_time,
     qi_ticket = 0\<rparr>"

definition EnqueueUserMessage :: "gotime \<Rightarrow> turn_queue \<Rightarrow> string \<Rightarrow> string \<Rightarrow> string \<Rightarrow> nat option \<times> turn_queue" where
  "EnqueueUserMessage now q d messageID content = enqueue now q (userMessageItem d messageID content) False"

definition EnqueueUserMessageIfIdle :: "gotime \<Rightarrow> turn_queue \<Rightarrow> string \<Rightarrow> string \<Rightarrow> string \<Rightarrow> nat option \<times> turn_queue" where
  "EnqueueUserMessageIfIdle now q d messageID content = enqueue now q (userMessageItem d messageID content) True"

definition uiObservationItem :: "string \<Rightarrow> string \<Rightarrow> string \<Rightarrow> gmap \<Rightarrow> queue_item" where
  "uiObservationItem d itemID observationType m = \<lparr>qi_DraftID = d, qi_Kind = QueueUIObservation,
     qi_ItemID = itemID, qi_Payload = fold (\<lambda>(k, v). gput k v) m [(''observation_type'', GStr observationType)],
     qi_EnqueuedAt = zero_time, qi_ticket = 0\<rparr>"

definition enqueueUIObservation :: "gotime \<Rightarrow> turn_queue \<Rightarrow> string \<Rightarrow> string \<Rightarrow> string \<Rightarrow> gmap \<Rightarrow> bool
  \<Rightarrow> nat option \<times> turn_queue" where
  "enqueueUIObservation now q d itemID observationType m onlyIfIdle =
     enqueue now q (uiObservationItem d itemID observationType m) onlyIfIdle"

text \<open>The three cases of the \<open>select\<close> after the reservation, for the producer at position \<open>k\<close>.\<close>

definition remove_nth :: "nat \<Rightarrow> 'a list \<Rightarrow> 'a list" where
  "remove_nth k xs = take k xs @ drop (Suc k) xs"

definition send :: "nat \<Rightarrow> draft_worker \<Rightarrow> draft_worker" where
  "send k w = w\<lparr>dw_sending := remove_nth k (dw_sending w), dw_queue := dw_queue w @ [dw_sending w ! k]\<rparr>"

definition reject_send :: "nat \<Rightarrow> turn_error \<Rightarrow> draft_worker \<Rightarrow> draft_worker" where
  "reject_send k e w = w\<lparr>dw_sending := remove_nth k (dw_sending w), dw_dropping := dw_dropping w @ [(dw_sending w ! k, e)]\<rparr>"

section \<open>The worker loop\<close>

definition take_item :: "draft_worker \<Rightarrow> draft_worker" where
  "take_item w = w\<lparr>dw_taken := Some (hd (dw_queue w)), dw_queue := tl (dw_queue w)\<rparr>"

definition begin_turn :: "bool \<Rightarrow> draft_worker \<Rightarrow> draft_worker" where
  "begin_turn ctx_done w = (
     let w1 = w\<lparr>dw_taken := None, dw_current := dw_taken w, dw_skip := dw_retired w, dw_reported := False,
           dw_cause := (if ctx_done then Some ContextCanceled else None), dw_currentDurableTerminal := False\<rparr>
     in if dw_canceling w \<or> dw_retired w then stop_with TurnCancelledByUser w1 else w1)"

text \<open>What a turn reports: the runner's error unless the user cancelled it.\<close>

definition turn_outcome :: "turn_error option \<Rightarrow> draft_worker \<Rightarrow> turn_error option" where
  "turn_outcome runErr w = (if dw_cause w = Some TurnCancelledByUser then dw_cause w
     else if dw_skip w then None else runErr)"

definition report_turn :: "nat \<Rightarrow> turn_error option \<Rightarrow> turn_queue \<Rightarrow> turn_queue" where
  "report_turn i runErr q = (let w = tq_pool q ! i in
     with_worker i (\<lambda>w. w\<lparr>dw_reported := True\<rparr>) q
       \<lparr>tq_consumed := tq_consumed q @ [(the (dw_current w), turn_outcome runErr w)]\<rparr>)"

definition finish_turn :: "draft_worker \<Rightarrow> draft_worker" where
  "finish_turn w = w\<lparr>dw_current := None, dw_cause := None, dw_skip := False, dw_reported := False,
     dw_currentDurableTerminal := False, dw_pendingCount := dw_pendingCount w - 1\<rparr>"

text \<open>An item that is dropped: taken off the queue, its callback, and \<open>finishPending\<close>.\<close>

definition drop_item :: "turn_error \<Rightarrow> draft_worker \<Rightarrow> draft_worker" where
  "drop_item e w = w\<lparr>dw_queue := tl (dw_queue w), dw_dropping := dw_dropping w @ [(hd (dw_queue w), e)]\<rparr>"

definition report_drop :: "nat \<Rightarrow> nat \<Rightarrow> turn_queue \<Rightarrow> turn_queue" where
  "report_drop i k q = (let (item, e) = dw_dropping (tq_pool q ! i) ! k in
     with_worker i (\<lambda>w. w\<lparr>dw_dropping := remove_nth k (dw_dropping w), dw_dropped := dw_dropped w @ [item]\<rparr>) q
       \<lparr>tq_consumed := tq_consumed q @ [(item, Some e)]\<rparr>)"

definition finishPending :: "draft_worker \<Rightarrow> draft_worker" where
  "finishPending w = w\<lparr>dw_dropped := tl (dw_dropped w), dw_pendingCount := dw_pendingCount w - 1\<rparr>"

section \<open>Observing and stopping\<close>

definition PendingCount :: "turn_queue \<Rightarrow> string \<Rightarrow> int" where
  "PendingCount q d = (case tq_workers q d of None \<Rightarrow> 0 | Some i \<Rightarrow> dw_pendingCount (tq_pool q ! i))"

definition IsBusy :: "turn_queue \<Rightarrow> string \<Rightarrow> bool" where
  "IsBusy q d \<longleftrightarrow> (case tq_workers q d of None \<Rightarrow> False
     | Some i \<Rightarrow> dw_current (tq_pool q ! i) \<noteq> None \<or> dw_queue (tq_pool q ! i) \<noteq> [])"

definition RequestStop :: "turn_queue \<Rightarrow> string \<Rightarrow> bool \<times> turn_queue" where
  "RequestStop q d = (case tq_workers q d of None \<Rightarrow> (False, q)
     | Some i \<Rightarrow> if dw_current (tq_pool q ! i) = None then (False, q)
         else (True, with_worker i (stop_with TurnCancelledByUser) q))"

text \<open>\<open>applied\<close> is what the reducer commit of the caller returned.\<close>

definition CommitCurrentDurableTerminal :: "turn_queue \<Rightarrow> queue_item \<Rightarrow> bool \<Rightarrow> turn_queue" where
  "CommitCurrentDurableTerminal q item applied = (case tq_workers q (qi_DraftID item) of None \<Rightarrow> q
     | Some i \<Rightarrow> (case dw_current (tq_pool q ! i) of None \<Rightarrow> q
       | Some c \<Rightarrow> if qi_Kind c \<noteq> qi_Kind item \<or> qi_ItemID c \<noteq> qi_ItemID item \<or> \<not> applied then q
           else with_worker i (\<lambda>w. w\<lparr>dw_currentDurableTerminal := True\<rparr>) q))"

section \<open>Cancelling a draft\<close>

definition covered_turns :: "draft_worker \<Rightarrow> int" where
  "covered_turns w = (if dw_current w \<noteq> None \<and> dw_currentDurableTerminal w \<and> dw_pendingCount w > 0
     then dw_pendingCount w - 1 else dw_pendingCount w)"

definition cancel_worker :: "draft_worker \<Rightarrow> draft_worker" where
  "cancel_worker w = stop_with TurnCancelledByUser (w\<lparr>dw_canceling := True\<rparr>)"

definition barrier_for :: "turn_queue \<Rightarrow> string \<Rightarrow> barrier" where
  "barrier_for q d = (case tq_workers q d of
     None \<Rightarrow> \<lparr>ba_draftID = d, ba_worker = None, ba_generation = 0, ba_covered = 0, ba_phase = Held\<rparr>
   | Some i \<Rightarrow> \<lparr>ba_draftID = d, ba_worker = Some i, ba_generation = dw_generation (tq_pool q ! i),
       ba_covered = covered_turns (tq_pool q ! i), ba_phase = Held\<rparr>)"

text \<open>The barrier, unless the queue is closed, and whether it covers a turn.\<close>

definition BeginDraftCancellation :: "turn_queue \<Rightarrow> string \<Rightarrow> (barrier \<times> bool) option \<times> turn_queue" where
  "BeginDraftCancellation q d =
     (if d = [] \<or> tq_closed q \<or> tq_ctx_done q then (None, q)
      else let b = barrier_for q d; q1 = (case ba_worker b of None \<Rightarrow> q | Some i \<Rightarrow> with_worker i cancel_worker q)
        in (Some (b, ba_covered b > 0), q1\<lparr>tq_cancelLeases := (tq_cancelLeases q)(d \<mapsto> leases q d + 1),
             tq_barriers := tq_barriers q @ [b]\<rparr>))"

text \<open>Whether the channel a barrier waits for is closed.\<close>

definition barrier_done :: "turn_queue \<Rightarrow> barrier \<Rightarrow> bool" where
  "barrier_done q b \<longleftrightarrow> (case ba_worker b of None \<Rightarrow> True
     | Some i \<Rightarrow> ba_generation b < dw_generation (tq_pool q ! i) \<or> dw_pendingCount (tq_pool q ! i) = 0)"

definition sealWorker :: "draft_worker \<Rightarrow> draft_worker" where
  "sealWorker w = w\<lparr>dw_retired := True\<rparr>"

definition set_phase :: "nat \<Rightarrow> barrier_phase \<Rightarrow> turn_queue \<Rightarrow> turn_queue" where
  "set_phase k p q = q\<lparr>tq_barriers := (tq_barriers q)[k := (tq_barriers q ! k)\<lparr>ba_phase := p\<rparr>]\<rparr>"

text \<open>
  \<open>releaseDraftCancellation\<close>: the first critical section, which retires the worker of an abandoned
  barrier; between the two the worker is drained; then the second section.
\<close>

definition release_start :: "nat \<Rightarrow> bool \<Rightarrow> turn_queue \<Rightarrow> turn_queue" where
  "release_start k abandon q = (let b = tq_barriers q ! k in
     case ba_worker b of None \<Rightarrow> set_phase k (Draining abandon False) q | Some i \<Rightarrow>
       if abandon \<and> tq_workers q (ba_draftID b) = Some i
       then (with_worker i sealWorker (set_phase k (Draining abandon True) q))
         \<lparr>tq_workers := (tq_workers q)(ba_draftID b := None)\<rparr>
       else set_phase k (Draining abandon False) q)"

definition reopen_worker :: "barrier \<Rightarrow> bool \<Rightarrow> turn_queue \<Rightarrow> turn_queue" where
  "reopen_worker b abandon q = (case ba_worker b of None \<Rightarrow> q | Some i \<Rightarrow>
     if \<not> abandon \<and> tq_workers q (ba_draftID b) = Some i then with_worker i (\<lambda>w. w\<lparr>dw_canceling := False\<rparr>) q else q)"

definition release_finish :: "nat \<Rightarrow> bool \<Rightarrow> turn_queue \<Rightarrow> turn_queue" where
  "release_finish k abandon q = (let b = tq_barriers q ! k; d = ba_draftID b; n = leases q d - 1; q = set_phase k Released q in
     if n \<le> 0 then reopen_worker b abandon (q\<lparr>tq_cancelLeases := (tq_cancelLeases q)(d := None)\<rparr>)
     else q\<lparr>tq_cancelLeases := (tq_cancelLeases q)(d \<mapsto> n)\<rparr>)"

section \<open>Closing\<close>

text \<open>The context of the queue ends, by its parent or by \<open>Close\<close>; so do the contexts of all turns.\<close>

definition cancel_context :: "turn_queue \<Rightarrow> turn_queue" where
  "cancel_context q = q\<lparr>tq_ctx_done := True, tq_pool := map (stop_with ContextCanceled) (tq_pool q)\<rparr>"

definition Close :: "turn_queue \<Rightarrow> turn_queue" where
  "Close q = (if tq_closed q then q
     else (cancel_context q)\<lparr>tq_closed := True, tq_workers := Map.empty, tq_cancelLeases := Map.empty\<rparr>)"

section \<open>Interleaving\<close>

definition worker_at :: "turn_queue \<Rightarrow> nat \<Rightarrow> (draft_worker \<Rightarrow> bool) \<Rightarrow> bool" where
  "worker_at q i P \<longleftrightarrow> i < length (tq_pool q) \<and> P (tq_pool q ! i)"

definition barrier_at :: "turn_queue \<Rightarrow> nat \<Rightarrow> barrier_phase \<Rightarrow> bool" where
  "barrier_at q k p \<longleftrightarrow> k < length (tq_barriers q) \<and> ba_phase (tq_barriers q ! k) = p"

definition idle :: "draft_worker \<Rightarrow> bool" where
  "idle w \<longleftrightarrow> dw_taken w = None \<and> dw_current w = None"

definition drained_worker :: "turn_queue \<Rightarrow> nat \<Rightarrow> bool" where
  "drained_worker q k \<longleftrightarrow> (case ba_worker (tq_barriers q ! k) of None \<Rightarrow> True
     | Some i \<Rightarrow> dw_sending (tq_pool q ! i) = [] \<and> dw_queue (tq_pool q ! i) = [])"

text \<open>
  The steps of one worker: its producers, its loop, and the callbacks of the items it drops.  A
  \<open>select\<close> with several ready cases may take any of them.
\<close>

inductive turn_step :: "turn_queue \<Rightarrow> nat \<Rightarrow> turn_queue \<Rightarrow> bool" where
  Send: "worker_at q i (\<lambda>w. k < length (dw_sending w) \<and> length (dw_queue w) < queue_capacity)
    \<Longrightarrow> turn_step q i (with_worker i (send k) q)"
| RejectRetired: "worker_at q i (\<lambda>w. k < length (dw_sending w) \<and> dw_retired w)
    \<Longrightarrow> turn_step q i (with_worker i (reject_send k TurnCancelledByUser) q)"
| RejectClosed: "worker_at q i (\<lambda>w. k < length (dw_sending w)) \<Longrightarrow> tq_ctx_done q
    \<Longrightarrow> turn_step q i (with_worker i (reject_send k ContextCanceled) q)"
| Take: "worker_at q i (\<lambda>w. dw_phase w = Looping \<and> idle w \<and> dw_queue w \<noteq> [])
    \<Longrightarrow> turn_step q i (with_worker i take_item q)"
| Begin: "worker_at q i (\<lambda>w. dw_taken w \<noteq> None)
    \<Longrightarrow> turn_step q i (with_worker i (begin_turn (tq_ctx_done q)) q)"
| Report: "worker_at q i (\<lambda>w. dw_current w \<noteq> None \<and> \<not> dw_reported w)
    \<Longrightarrow> turn_step q i (report_turn i e q)"
| Finish: "worker_at q i (\<lambda>w. dw_current w \<noteq> None \<and> dw_reported w)
    \<Longrightarrow> turn_step q i (with_worker i finish_turn q)"
| Exit: "worker_at q i (\<lambda>w. dw_phase w = Looping \<and> idle w \<and> dw_retired w)
    \<Longrightarrow> turn_step q i (with_worker i (\<lambda>w. w\<lparr>dw_phase := Exited\<rparr>) q)"
| Empty: "worker_at q i (\<lambda>w. dw_phase w = Looping \<and> idle w) \<Longrightarrow> tq_ctx_done q
    \<Longrightarrow> turn_step q i (with_worker i (\<lambda>w. w\<lparr>dw_phase := Emptying\<rparr>) q)"
| EmptyDrop: "worker_at q i (\<lambda>w. dw_phase w = Emptying \<and> dw_queue w \<noteq> [])
    \<Longrightarrow> turn_step q i (with_worker i (drop_item ContextCanceled) q)"
| EmptyExit: "worker_at q i (\<lambda>w. dw_phase w = Emptying \<and> dw_queue w = [])
    \<Longrightarrow> turn_step q i (with_worker i (\<lambda>w. w\<lparr>dw_phase := Exited\<rparr>) q)"
| ReportDrop: "worker_at q i (\<lambda>w. k < length (dw_dropping w)) \<Longrightarrow> turn_step q i (report_drop i k q)"
| FinishDrop: "worker_at q i (\<lambda>w. dw_dropped w \<noteq> []) \<Longrightarrow> turn_step q i (with_worker i finishPending q)"

text \<open>
  All steps: those of the workers, the calls of the clients, and the release of barriers.  A stop
  request may lock its worker only after the registry has moved on (\<open>StopLate\<close>).
\<close>

inductive queue_step :: "turn_queue \<Rightarrow> turn_queue \<Rightarrow> bool" where
  Worker: "turn_step q i q' \<Longrightarrow> queue_step q q'"
| Enqueue: "queue_step q (snd (enqueue now q item onlyIfIdle))"
| Stop: "queue_step q (snd (RequestStop q d))"
| StopLate: "i < length (tq_pool q) \<Longrightarrow> queue_step q (with_worker i (stop_with TurnCancelledByUser) q)"
| Commit: "queue_step q (CommitCurrentDurableTerminal q item applied)"
| Cancel: "queue_step q (snd (BeginDraftCancellation q d))"
| ReleaseStart: "barrier_at q k Held \<Longrightarrow> queue_step q (release_start k abandon q)"
| ReleaseDrain: "barrier_at q k (Draining True True) \<Longrightarrow> ba_worker (tq_barriers q ! k) = Some i \<Longrightarrow>
    worker_at q i (\<lambda>w. dw_sending w = [] \<and> dw_queue w \<noteq> []) \<Longrightarrow>
    queue_step q (with_worker i (drop_item TurnCancelledByUser) q)"
| ReleaseFinish: "barrier_at q k (Draining abandon retired) \<Longrightarrow> (retired \<longrightarrow> drained_worker q k) \<Longrightarrow>
    queue_step q (release_finish k abandon q)"
| Cancelled: "queue_step q (cancel_context q)"
| Closing: "queue_step q (Close q)"
| Seal: "tq_closed q \<Longrightarrow> i < length (tq_pool q) \<Longrightarrow> queue_step q (with_worker i sealWorker q)"
| CloseDrain: "tq_closed q \<Longrightarrow> worker_at q i (\<lambda>w. dw_retired w \<and> dw_sending w = [] \<and> dw_queue w \<noteq> []) \<Longrightarrow>
    queue_step q (with_worker i (drop_item TurnCancelledByUser) q)"

abbreviation queue_steps :: "turn_queue \<Rightarrow> turn_queue \<Rightarrow> bool" where "queue_steps \<equiv> queue_step\<^sup>*\<^sup>*"

end
