(* ===== verification/Agent_Queue_Order.thy ===== *)
theory Agent_Queue_Order
  imports Agent_Queue_Facts
begin

text \<open>
  The turn queue as a whole: every step keeps the pool, the registry of workers, the leases of the
  cancellation barriers and the account of tickets.
\<close>

section \<open>Pool\<close>

lemma pool_ok_simple:
  "pool_ok q \<Longrightarrow> pool_ok (q\<lparr>tq_tickets := t\<rparr>)" "pool_ok q \<Longrightarrow> pool_ok (q\<lparr>tq_cancelLeases := m\<rparr>)"
  "pool_ok q \<Longrightarrow> pool_ok (q\<lparr>tq_closed := c\<rparr>)"
  by (simp_all add: pool_ok_def)

lemma pool_ok_workers:
  "pool_ok q \<Longrightarrow> \<forall>d i. m d = Some i \<longrightarrow> i < length (tq_pool q) \<Longrightarrow> pool_ok (q\<lparr>tq_workers := m\<rparr>)"
  by (simp add: pool_ok_def)

lemma pool_ok_pointer:
  "pool_ok q \<Longrightarrow> tq_workers q d = Some i \<Longrightarrow> i < length (tq_pool q)"
  "pool_ok q \<Longrightarrow> k < length (tq_barriers q) \<Longrightarrow> ba_worker (tq_barriers q ! k) = Some i \<Longrightarrow> i < length (tq_pool q)"
  by (auto simp: pool_ok_def dest: nth_mem)

lemma pool_ok_find:
  assumes "pool_ok q" and "find_worker d q = (i, q')"
  shows "pool_ok q'" "i < length (tq_pool q')" "tq_ctx_done q' = tq_ctx_done q"
  using assms by (auto simp: find_worker_def pool_ok_def less_Suc_eq split: option.splits if_splits)

lemma pool_ok_reserve: "pool_ok q \<Longrightarrow> i < length (tq_pool q) \<Longrightarrow> pool_ok (with_worker i (reserve_slot x) q\<lparr>tq_tickets := t\<rparr>)"
  by (rule pool_ok_simple) (simp add: pool_ok_with_worker pool_worker worker_ok_reserve)

lemma pool_ok_enqueue: "pool_ok q \<Longrightarrow> pool_ok (snd (enqueue now q item only))"
  using pool_ok_find [of q "qi_DraftID item" "fst (find_worker (qi_DraftID item) q)" "snd (find_worker (qi_DraftID item) q)"]
  by (simp add: enqueue_def Let_def split_beta pool_ok_reserve)

lemma pool_ok_phase: "pool_ok q \<Longrightarrow> pool_ok (set_phase k p q)"
  by (cases "k < length (tq_barriers q)")
    (auto simp: set_phase_def pool_ok_def list_update_beyond dest!: set_update_subset_insert [THEN subsetD] dest: nth_mem)

lemma pool_ok_context: "pool_ok q \<Longrightarrow> pool_ok (cancel_context q)"
  by (auto simp: pool_ok_def cancel_context_def intro: worker_ok_context)

lemma pool_ok_close: "pool_ok q \<Longrightarrow> pool_ok (Close q)"
  by (frule pool_ok_context) (simp add: Close_def pool_ok_def)

lemma pool_ok_cancel: "pool_ok q \<Longrightarrow> pool_ok (snd (BeginDraftCancellation q d))"
  by (auto simp: BeginDraftCancellation_def barrier_for_def pool_ok_def with_worker_def Let_def
      split: option.splits dest!: set_update_subset_insert [THEN subsetD] intro!: worker_oks)

lemma with_phase_simps [simp]:
  "tq_ctx_done (set_phase k p q) = tq_ctx_done q" "tq_closed (set_phase k p q) = tq_closed q"
  "tq_pool (set_phase k p q) = tq_pool q" "tq_workers (set_phase k p q) = tq_workers q"
  "tq_cancelLeases (set_phase k p q) = tq_cancelLeases q" "tq_consumed (set_phase k p q) = tq_consumed q"
  "tq_tickets (set_phase k p q) = tq_tickets q"
  "tq_barriers (set_phase k p q) = (tq_barriers q)[k := (tq_barriers q ! k)\<lparr>ba_phase := p\<rparr>]"
  by (simp_all add: set_phase_def)

lemma pool_ok_release_start:
  assumes "pool_ok q"
  shows "pool_ok (release_start k abandon q)"
proof (cases "ba_worker (tq_barriers q ! k)")
  case None
  then show ?thesis using assms by (simp add: release_start_def Let_def pool_ok_phase)
next
  case (Some i)
  let ?d = "ba_draftID (tq_barriers q ! k)"
  have "pool_ok ((with_worker i sealWorker (set_phase k p q))\<lparr>tq_workers := (tq_workers q)(?d := None)\<rparr>)"
    if "tq_workers q ?d = Some i" for p
    using assms that
    by (intro pool_ok_workers pool_ok_with_worker pool_ok_phase)
      (auto simp: pool_ok_pointer intro!: worker_ok_flags pool_worker)
  then show ?thesis using assms Some by (auto simp: release_start_def Let_def intro: pool_ok_phase)
qed

lemma pool_ok_reopen: "pool_ok q \<Longrightarrow> pool_ok (reopen_worker b abandon q)"
  by (auto simp: reopen_worker_def pool_ok_pointer split: option.splits intro!: pool_ok_with_worker worker_ok_flags pool_worker)

lemma pool_ok_release_finish: "pool_ok q \<Longrightarrow> pool_ok (release_finish k abandon q)"
  by (simp add: release_finish_def Let_def pool_ok_reopen pool_ok_simple pool_ok_phase)

lemma pool_ok_stop: "pool_ok q \<Longrightarrow> pool_ok (snd (RequestStop q d))"
  by (auto simp: RequestStop_def pool_ok_pointer split: option.splits intro!: pool_ok_with_worker worker_ok_stop pool_worker)

lemma pool_ok_commit: "pool_ok q \<Longrightarrow> pool_ok (CommitCurrentDurableTerminal q item applied)"
  by (auto simp: CommitCurrentDurableTerminal_def pool_ok_pointer split: option.splits intro!: pool_ok_with_worker worker_ok_flags pool_worker)

lemma queue_step_pool: "queue_step q q' \<Longrightarrow> pool_ok q \<Longrightarrow> pool_ok q'"
proof (induction rule: queue_step.induct)
  case (Worker q i q')
  then show ?case by (rule turn_step_pool)
qed (auto simp: worker_at_def pool_ok_enqueue pool_ok_stop pool_ok_commit pool_ok_cancel pool_ok_release_start
    pool_ok_release_finish pool_ok_context pool_ok_close
    intro!: pool_ok_with_worker worker_ok_flags worker_ok_drop worker_ok_stop pool_worker)

section \<open>Registry and leases\<close>

text \<open>What the registry and the barriers see of a worker; no step of the worker itself changes it.\<close>

definition shape :: "draft_worker \<Rightarrow> string \<times> bool \<times> bool \<times> nat" where
  "shape w = (dw_owner w, dw_canceling w, dw_retired w, dw_generation w)"

definition shapes :: "turn_queue \<Rightarrow> (string \<times> bool \<times> bool \<times> nat) list" where
  "shapes q = map shape (tq_pool q)"

definition held :: "string \<Rightarrow> barrier \<Rightarrow> bool" where
  "held d b \<longleftrightarrow> ba_draftID b = d \<and> ba_phase b \<noteq> Released"

definition registered :: "turn_queue \<Rightarrow> bool" where
  "registered q \<longleftrightarrow> (\<forall>d i. tq_workers q d = Some i \<longrightarrow> i < length (tq_pool q) \<and> dw_owner (tq_pool q ! i) = d
       \<and> \<not> dw_retired (tq_pool q ! i))
     \<and> (\<not> tq_closed q \<longrightarrow> (\<forall>i < length (tq_pool q). \<not> dw_retired (tq_pool q ! i) \<longrightarrow> tq_workers q (dw_owner (tq_pool q ! i)) = Some i))
     \<and> (tq_closed q \<longrightarrow> tq_workers q = Map.empty \<and> tq_ctx_done q)"

definition lease_counted :: "turn_queue \<Rightarrow> bool" where
  "lease_counted q \<longleftrightarrow> (\<forall>d. leases q d = (if tq_closed q then 0 else int (length (filter (held d) (tq_barriers q)))))"

definition fenced :: "turn_queue \<Rightarrow> barrier \<Rightarrow> bool" where
  "fenced q b \<longleftrightarrow> (case ba_worker b of None \<Rightarrow> tq_workers q (ba_draftID b) = None
     | Some i \<Rightarrow> i < length (tq_pool q) \<and> dw_owner (tq_pool q ! i) = ba_draftID b \<and> dw_canceling (tq_pool q ! i)
         \<and> dw_generation (tq_pool q ! i) = ba_generation b
         \<and> tq_workers q (ba_draftID b) \<in> {None, Some i})"

definition registry_ok :: "turn_queue \<Rightarrow> bool" where
  "registry_ok q \<longleftrightarrow> registered q \<and> lease_counted q
     \<and> (\<not> tq_closed q \<longrightarrow> (\<forall>b \<in> set (tq_barriers q). ba_phase b \<noteq> Released \<longrightarrow> fenced q b))"

lemma shapes_nth: "shapes q' = shapes q \<Longrightarrow> i < length (tq_pool q) \<Longrightarrow> shape (tq_pool q' ! i) = shape (tq_pool q ! i)"
  by (metis length_map nth_map shapes_def)

lemma shapes_length: "shapes q' = shapes q \<Longrightarrow> length (tq_pool q') = length (tq_pool q)"
  by (metis length_map shapes_def)

lemma registry_cong:
  assumes "shapes q' = shapes q" and "tq_workers q' = tq_workers q" and "tq_closed q' = tq_closed q"
    and "tq_ctx_done q \<longrightarrow> tq_ctx_done q'" and "tq_cancelLeases q' = tq_cancelLeases q" and "tq_barriers q' = tq_barriers q"
    and "registry_ok q"
  shows "registry_ok q'"
proof -
  have s: "length (tq_pool q') = length (tq_pool q)"
    "\<And>i. i < length (tq_pool q) \<Longrightarrow> dw_owner (tq_pool q' ! i) = dw_owner (tq_pool q ! i)
       \<and> dw_canceling (tq_pool q' ! i) = dw_canceling (tq_pool q ! i) \<and> dw_retired (tq_pool q' ! i) = dw_retired (tq_pool q ! i)
       \<and> dw_generation (tq_pool q' ! i) = dw_generation (tq_pool q ! i)"
    using shapes_nth [OF assms(1)] shapes_length [OF assms(1)] by (auto simp: shape_def)
  have "registered q'" using assms s by (auto simp: registry_ok_def registered_def)
  moreover have "lease_counted q'" using assms by (simp add: registry_ok_def lease_counted_def leases_def)
  moreover have "fenced q b \<Longrightarrow> fenced q' b" for b using assms s by (auto simp: fenced_def split: option.splits)
  ultimately show ?thesis using assms by (auto simp: registry_ok_def)
qed

lemma shapes_with_worker: "shape (f (tq_pool q ! i)) = shape (tq_pool q ! i) \<Longrightarrow> shapes (with_worker i f q) = shapes q"
  by (simp add: shapes_def map_update list_update_id map_nth flip: nth_map)
    (metis length_map list_update_beyond list_update_id not_less nth_map)

lemma shape_simps [simp]:
  "shape (send k w) = shape w" "shape (reject_send k e w) = shape w" "shape (take_item w) = shape w"
  "shape (begin_turn c w) = shape w" "shape (stop_with e w) = shape w" "shape (finish_turn w) = shape w"
  "shape (drop_item e w) = shape w" "shape (finishPending w) = shape w"
  by (simp_all add: shape_def send_def reject_send_def take_item_def begin_turn_def stop_with_def finish_turn_def
      drop_item_def finishPending_def Let_def)

lemma shape_updates [simp]:
  "shape (w\<lparr>dw_phase := p\<rparr>) = shape w" "shape (w\<lparr>dw_reported := b\<rparr>) = shape w"
  "shape (w\<lparr>dw_currentDurableTerminal := b\<rparr>) = shape w"
  "shape (w\<lparr>dw_dropping := xs, dw_dropped := ys\<rparr>) = shape w"
  by (simp_all add: shape_def)

lemma registry_with_worker:
  assumes "shape (f (tq_pool q ! i)) = shape (tq_pool q ! i)" and "registry_ok q"
  shows "registry_ok (with_worker i f q)"
proof (rule registry_cong [where q = q])
  show "shapes (with_worker i f q) = shapes q" by (rule shapes_with_worker) (rule assms(1))
qed (use assms(2) in simp_all)

lemma registry_consumed: "registry_ok (with_worker i f q) \<Longrightarrow> registry_ok (with_worker i f q\<lparr>tq_consumed := c\<rparr>)"
  by (rule registry_cong [where q = "with_worker i f q"]) (simp_all add: shapes_def)

lemma turn_step_registry: "turn_step q i q' \<Longrightarrow> registry_ok q \<Longrightarrow> registry_ok q'"
  by (induction rule: turn_step.induct)
    (auto simp: report_turn_def report_drop_def Let_def split_beta intro!: registry_with_worker registry_consumed)

lemma length_filter_update:
  "k < length xs \<Longrightarrow> length (filter P (xs[k := x])) + (if P (xs ! k) then 1 else 0)
     = length (filter P xs) + (if P x then 1 else 0)"
  by (subst (3) id_take_nth_drop [of k]) (simp_all add: upd_conv_take_nth_drop)

lemma nth_update: "j < length xs \<Longrightarrow> xs[i := x] ! j = (if i = j then x else xs ! j)"
  by simp

lemma held_lease: "registry_ok q \<Longrightarrow> \<not> tq_closed q \<Longrightarrow> b \<in> set (tq_barriers q) \<Longrightarrow> ba_phase b \<noteq> Released \<Longrightarrow>
    leases q (ba_draftID b) > 0"
  by (auto simp: registry_ok_def lease_counted_def held_def filter_empty_conv)

lemma registered_worker:
  assumes "registry_ok q" and "tq_workers q d = Some i"
  shows "i < length (tq_pool q)" "dw_owner (tq_pool q ! i) = d" "\<not> dw_retired (tq_pool q ! i)"
  using assms by (auto simp: registry_ok_def registered_def)

lemma registeredI:
  assumes "\<And>d i. tq_workers q d = Some i \<Longrightarrow> i < length (tq_pool q) \<and> dw_owner (tq_pool q ! i) = d \<and> \<not> dw_retired (tq_pool q ! i)"
    and "\<And>i. i < length (tq_pool q) \<Longrightarrow> \<not> dw_retired (tq_pool q ! i) \<Longrightarrow> \<not> tq_closed q \<Longrightarrow> tq_workers q (dw_owner (tq_pool q ! i)) = Some i"
    and "tq_closed q \<Longrightarrow> tq_workers q = Map.empty \<and> tq_ctx_done q"
  shows "registered q"
  using assms by (simp add: registered_def)

lemma fenced_with_worker:
  assumes "fenced q b" and "ba_worker b \<noteq> Some i"
  shows "fenced (with_worker i f q) b"
  using assms by (auto simp: fenced_def split: option.splits)

lemma registry_find:
  assumes "registry_ok q" and "leases q d = 0" and "\<not> tq_closed q"
  shows "registry_ok (snd (find_worker d q))"
proof (cases "tq_workers q d")
  case None
  let ?q = "snd (find_worker d q)"
  have r: "registered q" using assms(1) by (simp add: registry_ok_def)
  let ?n = "length (tq_pool q)"
  have q: "?q = q\<lparr>tq_pool := tq_pool q @ [newDraftWorker d], tq_workers := (tq_workers q)(d \<mapsto> ?n)\<rparr>"
    using None by (simp add: find_worker_def)
  have new: "dw_owner (newDraftWorker d) = d" "\<not> dw_retired (newDraftWorker d)" by (simp_all add: newDraftWorker_def)
  have "registered ?q"
  proof (rule registeredI)
    show "i < length (tq_pool ?q) \<and> dw_owner (tq_pool ?q ! i) = e \<and> \<not> dw_retired (tq_pool ?q ! i)"
      if "tq_workers ?q e = Some i" for e i
      using that r new by (cases "e = d") (simp_all add: q registered_def nth_append less_SucI)
    show "tq_workers ?q (dw_owner (tq_pool ?q ! i)) = Some i"
      if "i < length (tq_pool ?q)" and "\<not> dw_retired (tq_pool ?q ! i)" for i
    proof (cases "i = ?n")
      case False
      then have "i < ?n" and "\<not> dw_retired (tq_pool q ! i)" using that by (simp_all add: q nth_append)
      then have "tq_workers q (dw_owner (tq_pool q ! i)) = Some i" using r assms(3) by (simp add: registered_def)
      then show ?thesis using None \<open>i < ?n\<close> by (auto simp: q nth_append)
    qed (simp add: q new)
  qed (use assms(3) in \<open>simp add: q\<close>)
  moreover have "lease_counted ?q" using assms None by (simp add: registry_ok_def lease_counted_def find_worker_def leases_def)
  moreover have "fenced ?q b" if "b \<in> set (tq_barriers q)" and "ba_phase b \<noteq> Released" for b
  proof -
    have "ba_draftID b \<noteq> d" using held_lease [OF assms(1,3) that] assms(2) by auto
    moreover have "fenced q b" using assms that by (simp add: registry_ok_def)
    ultimately show ?thesis using None by (auto simp: fenced_def find_worker_def nth_append split: option.splits)
  qed
  ultimately show ?thesis using None by (simp add: registry_ok_def find_worker_def)
qed (use assms in \<open>simp add: find_worker_def\<close>)

lemma registry_reserve:
  assumes "registry_ok q" and "tq_workers q d = Some i" and "leases q d = 0" and "\<not> tq_closed q"
  shows "registry_ok (with_worker i (reserve_slot x) q\<lparr>tq_tickets := t\<rparr>)"
proof (rule registry_cong [where q = "with_worker i (reserve_slot x) q"])
  let ?q = "with_worker i (reserve_slot x) q"
  note w = registered_worker [OF assms(1,2)]
  have "registered ?q" using assms(1) w
    by (auto simp: registry_ok_def registered_def reserve_slot_def nth_list_update)
  moreover have "lease_counted ?q" using assms(1) by (simp add: registry_ok_def lease_counted_def leases_def)
  moreover have "fenced ?q b" if "b \<in> set (tq_barriers q)" and "ba_phase b \<noteq> Released" for b
  proof (rule fenced_with_worker)
    show "fenced q b" using assms that by (simp add: registry_ok_def)
    moreover have "ba_draftID b \<noteq> d" using held_lease [OF assms(1,4) that] assms(3) by auto
    ultimately show "ba_worker b \<noteq> Some i" using w(2) by (auto simp: fenced_def)
  qed
  ultimately show "registry_ok ?q" by (simp add: registry_ok_def)
qed (simp_all add: shapes_def)

lemma find_worker_registers: "tq_workers (snd (find_worker d q)) d = Some (fst (find_worker d q))"
  by (simp add: find_worker_def split: option.splits)

lemma find_worker_simps [simp]: "leases (snd (find_worker d q)) e = leases q e"
  "tq_closed (snd (find_worker d q)) = tq_closed q" "tq_ctx_done (snd (find_worker d q)) = tq_ctx_done q"
  "tq_barriers (snd (find_worker d q)) = tq_barriers q" "tq_consumed (snd (find_worker d q)) = tq_consumed q"
  "tq_tickets (snd (find_worker d q)) = tq_tickets q"
  by (simp_all add: find_worker_def leases_def split: option.splits)

lemma registry_enqueue:
  assumes "registry_ok q"
  shows "registry_ok (snd (enqueue now q item only))"
proof (cases "tq_closed q \<or> leases q (qi_DraftID item) > 0")
  case True
  then show ?thesis using assms by (auto simp: enqueue_def Let_def)
next
  case False
  then have n: "leases q (qi_DraftID item) = 0" "\<not> tq_closed q"
    using assms by (auto simp: registry_ok_def lease_counted_def dest: spec [of _ "qi_DraftID item"])
  show ?thesis using registry_find [OF assms n] assms n
    by (auto simp: enqueue_def Let_def split_beta intro!: registry_reserve find_worker_registers)
qed

lemma registry_barrier:
  assumes "registry_ok q" and "fenced q b" and "\<not> tq_closed q" and "ba_phase b = Held"
  shows "registry_ok (q\<lparr>tq_cancelLeases := (tq_cancelLeases q)(ba_draftID b \<mapsto> leases q (ba_draftID b) + 1),
           tq_barriers := tq_barriers q @ [b]\<rparr>)" (is "registry_ok ?q")
proof -
  have "registered ?q" using assms(1) by (simp add: registry_ok_def registered_def)
  moreover have "lease_counted ?q" using assms by (auto simp: registry_ok_def lease_counted_def leases_def held_def)
  moreover have "fenced ?q c" if "fenced q c" for c using that by (simp add: fenced_def cong: option.case_cong)
  ultimately show ?thesis using assms by (auto simp: registry_ok_def)
qed

lemma registry_cancel_worker:
  assumes "registry_ok q" and "i < length (tq_pool q)"
  shows "registry_ok (with_worker i cancel_worker q)"
proof -
  have s: "dw_owner (cancel_worker w) = dw_owner w" "dw_retired (cancel_worker w) = dw_retired w"
    "dw_generation (cancel_worker w) = dw_generation w" "dw_canceling (cancel_worker w)" for w
    by (simp_all add: cancel_worker_def stop_with_def)
  have "registered (with_worker i cancel_worker q)"
    using assms by (auto simp: registry_ok_def registered_def nth_list_update s)
  moreover have "fenced (with_worker i cancel_worker q) b" if "fenced q b" for b
    using that by (auto simp: fenced_def nth_update s split: option.splits)
  ultimately show ?thesis using assms by (simp add: registry_ok_def lease_counted_def leases_def)
qed

lemma registry_cancel:
  assumes "registry_ok q"
  shows "registry_ok (snd (BeginDraftCancellation q d))"
proof (cases "d = [] \<or> tq_closed q \<or> tq_ctx_done q")
  case False
  show ?thesis
  proof (cases "tq_workers q d")
    case None
    then have "fenced q (barrier_for q d)" by (simp add: fenced_def barrier_for_def)
    from registry_barrier [OF assms this] False None show ?thesis
      by (simp add: BeginDraftCancellation_def barrier_for_def Let_def)
  next
    case (Some i)
    let ?q = "with_worker i cancel_worker q"
    note w = registered_worker [OF assms Some]
    have "fenced ?q (barrier_for q d)" using w Some
      by (simp add: fenced_def barrier_for_def cancel_worker_def stop_with_def)
    from registry_barrier [OF registry_cancel_worker [OF assms w(1)] this] False Some show ?thesis
      by (simp add: BeginDraftCancellation_def barrier_for_def Let_def leases_def)
  qed
qed (use assms in \<open>auto simp: BeginDraftCancellation_def\<close>)

lemma fenced_phase [simp]: "fenced q (b\<lparr>ba_phase := p\<rparr>) = fenced q b"
  by (simp add: fenced_def split: option.split)

lemma lease_counted_phase:
  assumes "lease_counted q" and "k < length (tq_barriers q)" and "ba_phase (tq_barriers q ! k) \<noteq> Released" and "p \<noteq> Released"
  shows "lease_counted (set_phase k p q)"
proof -
  let ?b = "tq_barriers q ! k"
  have "length (filter (held d) ((tq_barriers q)[k := ?b\<lparr>ba_phase := p\<rparr>])) = length (filter (held d) (tq_barriers q))" for d
    using length_filter_update [OF assms(2), of "held d" "?b\<lparr>ba_phase := p\<rparr>"] assms(3,4) by (simp add: held_def)
  then show ?thesis using assms(1) by (simp add: lease_counted_def leases_def)
qed

lemma registry_phase:
  assumes "registry_ok q" and "k < length (tq_barriers q)" and "ba_phase (tq_barriers q ! k) \<noteq> Released" and "p \<noteq> Released"
  shows "registry_ok (set_phase k p q)"
proof -
  have "registered (set_phase k p q)" using assms(1) by (simp add: registry_ok_def registered_def)
  moreover have "fenced (set_phase k p q) b = fenced q b" for b by (simp add: fenced_def cong: option.case_cong)
  moreover have "fenced q b" if "b \<in> set ((tq_barriers q)[k := (tq_barriers q ! k)\<lparr>ba_phase := p\<rparr>])"
    and "ba_phase b \<noteq> Released" "\<not> tq_closed q" for b
    using set_update_subset_insert [THEN subsetD, OF that(1)] that assms
    by (auto simp: registry_ok_def)
  ultimately show ?thesis using assms lease_counted_phase by (simp add: registry_ok_def)
qed

lemma registry_forget:
  assumes "registry_ok q" and "tq_workers q d = Some i"
  shows "registry_ok ((with_worker i sealWorker q)\<lparr>tq_workers := (tq_workers q)(d := None)\<rparr>)" (is "registry_ok ?q")
proof -
  note w = registered_worker [OF assms]
  have r: "registered q" using assms(1) by (simp add: registry_ok_def)
  have other: "j \<noteq> i" if "tq_workers q e = Some j" and "e \<noteq> d" for e j
    using registered_worker(2) [OF assms(1) that(1)] w(2) that(2) by auto
  have "registered ?q"
  proof (rule registeredI)
    show "j < length (tq_pool ?q) \<and> dw_owner (tq_pool ?q ! j) = e \<and> \<not> dw_retired (tq_pool ?q ! j)"
      if "tq_workers ?q e = Some j" for e j
      using registered_worker [OF assms(1), of e j] other [of e j] that by (auto split: if_splits)
    show "tq_workers ?q (dw_owner (tq_pool ?q ! j)) = Some j"
      if "j < length (tq_pool ?q)" and "\<not> dw_retired (tq_pool ?q ! j)" and "\<not> tq_closed ?q" for j
    proof -
      have "j \<noteq> i" using that w(1) by (auto simp: sealWorker_def)
      then have "tq_workers q (dw_owner (tq_pool q ! j)) = Some j" using that r by (simp add: registered_def)
      moreover have "dw_owner (tq_pool q ! j) \<noteq> d" using calculation assms(2) \<open>j \<noteq> i\<close> by auto
      ultimately show ?thesis using \<open>j \<noteq> i\<close> by simp
    qed
  qed (use r assms(2) in \<open>auto simp: registered_def\<close>)
  moreover have "fenced ?q b" if "fenced q b" for b
    using that w by (auto simp: fenced_def nth_update sealWorker_def split: option.splits)
  ultimately show ?thesis using assms(1) by (simp add: registry_ok_def lease_counted_def leases_def)
qed

lemma registry_release_start:
  assumes "registry_ok q" and "barrier_at q k Held"
  shows "registry_ok (release_start k abandon q)"
proof -
  have p: "registry_ok (set_phase k (Draining a r) q)" for a r
    using assms by (intro registry_phase) (auto simp: barrier_at_def)
  show ?thesis
    using p registry_forget [OF p, where d = "ba_draftID (tq_barriers q ! k)"]
    by (auto simp: release_start_def Let_def split: option.splits)
qed

lemma lease_counted_release:
  assumes "lease_counted q" and "k < length (tq_barriers q)" and "ba_phase (tq_barriers q ! k) \<noteq> Released"
    and "\<not> tq_closed q"
  defines "b \<equiv> tq_barriers q ! k"
  shows "int (length (filter (held d) ((tq_barriers q)[k := b\<lparr>ba_phase := Released\<rparr>])))
     = leases q d - (if d = ba_draftID b then 1 else 0)"
proof -
  let ?b = "tq_barriers q ! k"
  have "length (filter (held d) ((tq_barriers q)[k := ?b\<lparr>ba_phase := Released\<rparr>])) + (if d = ba_draftID ?b then 1 else 0)
    = length (filter (held d) (tq_barriers q))"
    using length_filter_update [OF assms(2), of "held d" "?b\<lparr>ba_phase := Released\<rparr>"] assms(3)
    by (auto simp: held_def split: if_splits)
  moreover have "leases q d = int (length (filter (held d) (tq_barriers q)))"
    using assms(1,4) by (simp add: lease_counted_def)
  ultimately show ?thesis by (auto simp: b_def)
qed

definition released :: "nat \<Rightarrow> turn_queue \<Rightarrow> turn_queue" where
  "released k q = (let d = ba_draftID (tq_barriers q ! k); n = leases q d - 1 in
     (set_phase k Released q)\<lparr>tq_cancelLeases := (tq_cancelLeases q)(d := if n \<le> 0 then None else Some n)\<rparr>)"

lemma released_closed [simp]: "tq_closed (released k q) = tq_closed q"
  by (simp add: released_def Let_def)

lemma release_finish_released: "release_finish k abandon q =
    (let b = tq_barriers q ! k in if leases q (ba_draftID b) - 1 \<le> 0 then reopen_worker b abandon (released k q) else released k q)"
  by (simp add: release_finish_def released_def Let_def)

lemma released_leases:
  "leases (released k q) d = (if d = ba_draftID (tq_barriers q ! k) then max 0 (leases q d - 1) else leases q d)"
  by (auto simp: released_def leases_def Let_def)

lemma registry_released:
  assumes "registry_ok q" and "k < length (tq_barriers q)" and "ba_phase (tq_barriers q ! k) \<noteq> Released"
  shows "registry_ok (released k q)"
proof -
  let ?b = "tq_barriers q ! k" and ?q = "released k q"
  have "registered ?q" using assms(1) by (simp add: registry_ok_def registered_def released_def Let_def)
  moreover have "lease_counted ?q"
  proof (cases "tq_closed q")
    case True
    then show ?thesis using assms(1)
      by (auto simp: registry_ok_def lease_counted_def released_leases)
  next
    case False
    note c = lease_counted_release [OF _ assms(2,3) False]
    have "leases q (ba_draftID ?b) > 0" using assms False by (auto intro: held_lease)
    moreover have "tq_barriers ?q = (tq_barriers q)[k := ?b\<lparr>ba_phase := Released\<rparr>]" "\<not> tq_closed ?q"
      using False by (simp_all add: released_def Let_def)
    ultimately show ?thesis using c assms(1) by (simp add: registry_ok_def lease_counted_def released_leases)
  qed
  moreover have "fenced ?q c = fenced q c" for c by (simp add: fenced_def released_def Let_def split: option.split)
  moreover have "c \<in> set (tq_barriers q)" if "c \<in> set (tq_barriers ?q)" and "ba_phase c \<noteq> Released" for c
    using that set_update_subset_insert [THEN subsetD, of c "tq_barriers q" k "?b\<lparr>ba_phase := Released\<rparr>"]
    by (auto simp: released_def Let_def)
  ultimately show ?thesis using assms(1) by (auto simp: registry_ok_def)
qed

lemma registry_reopen:
  assumes "registry_ok q" and "leases q (ba_draftID b) = 0"
  shows "registry_ok (reopen_worker b abandon q)"
proof (cases "ba_worker b \<noteq> None \<and> \<not> abandon \<and> tq_workers q (ba_draftID b) = ba_worker b")
  case False
  then show ?thesis using assms(1) by (auto simp: reopen_worker_def split: option.splits)
next
  case True
  then obtain i where i: "ba_worker b = Some i" "tq_workers q (ba_draftID b) = Some i" by auto
  note w = registered_worker [OF assms(1) i(2)]
  let ?q = "with_worker i (\<lambda>w. w\<lparr>dw_canceling := False\<rparr>) q"
  have open_queue: "\<not> tq_closed q" using assms(1) i(2) by (auto simp: registry_ok_def registered_def)
  have "registered ?q" using assms(1) by (auto simp: registry_ok_def registered_def nth_update)
  moreover have "fenced ?q c" if "c \<in> set (tq_barriers q)" and "ba_phase c \<noteq> Released" for c
  proof (rule fenced_with_worker)
    show "fenced q c" using assms that open_queue by (simp add: registry_ok_def)
    moreover have "ba_draftID c \<noteq> ba_draftID b" using held_lease [OF assms(1) open_queue that] assms(2) by auto
    ultimately show "ba_worker c \<noteq> Some i" using w(2) by (auto simp: fenced_def)
  qed
  ultimately have "registry_ok ?q" using assms(1) by (simp add: registry_ok_def lease_counted_def leases_def)
  then show ?thesis using True i by (simp add: reopen_worker_def)
qed

lemma registry_release_finish:
  assumes "registry_ok q" and "k < length (tq_barriers q)" and "ba_phase (tq_barriers q ! k) \<noteq> Released"
  shows "registry_ok (release_finish k abandon q)"
  using registry_released [OF assms] registry_reopen [OF registry_released [OF assms], of "tq_barriers q ! k" abandon]
  by (simp add: release_finish_released Let_def released_leases)

lemma registry_context: "registry_ok q \<Longrightarrow> registry_ok (cancel_context q)"
  by (rule registry_cong [where q = q]) (simp_all add: cancel_context_def shapes_def)

lemma registry_close: "registry_ok q \<Longrightarrow> registry_ok (Close q)"
  by (auto simp: Close_def registry_ok_def registered_def lease_counted_def leases_def cancel_context_def)

lemma registry_seal: "registry_ok q \<Longrightarrow> tq_closed q \<Longrightarrow> registry_ok (with_worker i sealWorker q)"
  by (auto simp: registry_ok_def registered_def lease_counted_def leases_def)

lemma registry_stop: "registry_ok q \<Longrightarrow> registry_ok (snd (RequestStop q d))"
  by (auto simp: RequestStop_def split: option.splits intro: registry_with_worker)

lemma registry_commit: "registry_ok q \<Longrightarrow> registry_ok (CommitCurrentDurableTerminal q item applied)"
  by (auto simp: CommitCurrentDurableTerminal_def split: option.splits intro: registry_with_worker)

lemma queue_step_registry: "queue_step q q' \<Longrightarrow> registry_ok q \<Longrightarrow> registry_ok q'"
proof (induction rule: queue_step.induct)
  case (Worker q i q')
  then show ?case by (rule turn_step_registry)
next
  case (ReleaseFinish q k abandon retired)
  then show ?case by (intro registry_release_finish) (auto simp: barrier_at_def)
qed (simp_all add: registry_enqueue registry_stop registry_commit registry_cancel registry_release_start
    registry_context registry_close registry_seal registry_with_worker)

end
