(* ===== verification/Agent_Queue_Items.thy ===== *)
theory Agent_Queue_Items
  imports Agent_Queue_Order
begin

text \<open>
  The account of the accepted turns: a worker only holds turns of its own draft, and a ticket is
  either still to be reported by one worker or reported once.
\<close>

section \<open>Turns of a draft\<close>

definition owns_items :: "draft_worker \<Rightarrow> bool" where
  "owns_items w \<longleftrightarrow> (\<forall>x \<in> set (in_flight w). qi_DraftID x = dw_owner w)"

definition items_ok :: "turn_queue \<Rightarrow> bool" where
  "items_ok q \<longleftrightarrow> (\<forall>w \<in> set (tq_pool q). owns_items w)"

lemma set_remove_nth: "set (remove_nth k xs) \<subseteq> set xs"
  by (auto simp: remove_nth_def dest: in_set_takeD in_set_dropD)

lemma in_flight_flags [simp]:
  "in_flight (w\<lparr>dw_phase := p\<rparr>) = in_flight w" "in_flight (w\<lparr>dw_reported := b\<rparr>) = in_flight w"
  "in_flight (w\<lparr>dw_currentDurableTerminal := b\<rparr>) = in_flight w" "in_flight (w\<lparr>dw_canceling := b\<rparr>) = in_flight w"
  "in_flight (sealWorker w) = in_flight w" "in_flight (stop_with e w) = in_flight w" "in_flight (cancel_worker w) = in_flight w"
  by (simp_all add: in_flight_def sealWorker_def stop_with_def cancel_worker_def)

lemma in_flight_steps:
  "k < length (dw_sending w) \<Longrightarrow> set (in_flight (send k w)) \<subseteq> set (in_flight w)"
  "k < length (dw_sending w) \<Longrightarrow> set (in_flight (reject_send k e w)) \<subseteq> set (in_flight w)"
  "dw_queue w \<noteq> [] \<Longrightarrow> set (in_flight (take_item w)) \<subseteq> set (in_flight w)"
  "set (in_flight (begin_turn c w)) \<subseteq> set (in_flight w)"
  "set (in_flight (finish_turn w)) \<subseteq> set (in_flight w)"
  "dw_queue w \<noteq> [] \<Longrightarrow> set (in_flight (drop_item e w)) \<subseteq> set (in_flight w)"
  "dw_dropped w \<noteq> [] \<Longrightarrow> set (in_flight (finishPending w)) \<subseteq> set (in_flight w)"
  using set_remove_nth [of k "dw_sending w"]
  by (auto simp: in_flight_def send_def reject_send_def take_item_def begin_turn_def stop_with_def Let_def finish_turn_def
      drop_item_def finishPending_def neq_Nil_conv)

lemma owner_steps [simp]:
  "dw_owner (send k w) = dw_owner w" "dw_owner (reject_send k e w) = dw_owner w" "dw_owner (take_item w) = dw_owner w"
  "dw_owner (begin_turn c w) = dw_owner w" "dw_owner (stop_with e w) = dw_owner w" "dw_owner (finish_turn w) = dw_owner w"
  "dw_owner (drop_item e w) = dw_owner w" "dw_owner (finishPending w) = dw_owner w" "dw_owner (sealWorker w) = dw_owner w"
  "dw_owner (cancel_worker w) = dw_owner w" "dw_owner (reserve_slot x w) = dw_owner w"
  by (simp_all add: send_def reject_send_def take_item_def begin_turn_def stop_with_def finish_turn_def
      drop_item_def finishPending_def sealWorker_def cancel_worker_def reserve_slot_def Let_def)

lemma owns_mono: "owns_items w \<Longrightarrow> set (in_flight v) \<subseteq> set (in_flight w) \<Longrightarrow> dw_owner v = dw_owner w \<Longrightarrow> owns_items v"
  by (auto simp: owns_items_def)

lemma items_with_worker:
  assumes "items_ok q" and "i < length (tq_pool q) \<Longrightarrow> owns_items (f (tq_pool q ! i))"
  shows "items_ok (with_worker i f q)"
  using assms by (cases "i < length (tq_pool q)")
    (auto simp: items_ok_def list_update_beyond dest!: set_update_subset_insert [THEN subsetD])

lemma items_worker: "items_ok q \<Longrightarrow> i < length (tq_pool q) \<Longrightarrow> owns_items (tq_pool q ! i)"
  by (simp add: items_ok_def)

lemma items_subset:
  assumes "items_ok q" and "set (in_flight (f (tq_pool q ! i))) \<subseteq> set (in_flight (tq_pool q ! i))"
    and "dw_owner (f (tq_pool q ! i)) = dw_owner (tq_pool q ! i)"
  shows "items_ok (with_worker i f q)"
  by (rule items_with_worker [OF assms(1)]) (use assms in \<open>auto intro: owns_mono items_worker\<close>)

lemma items_cong: "items_ok q \<Longrightarrow> tq_pool q' = tq_pool q \<Longrightarrow> items_ok q'"
  by (simp add: items_ok_def)

lemma items_report_drop:
  assumes "items_ok q" and "k < length (dw_dropping (tq_pool q ! i))"
  shows "items_ok (report_drop i k q)"
proof -
  let ?w = "tq_pool q ! i"
  let ?f = "\<lambda>w. w\<lparr>dw_dropping := remove_nth k (dw_dropping w), dw_dropped := dw_dropped w @ [fst (dw_dropping ?w ! k)]\<rparr>"
  have "set (in_flight (?f ?w)) \<subseteq> set (in_flight ?w)"
    using set_remove_nth [of k "dw_dropping ?w"] assms(2) by (force simp: in_flight_def)
  with assms(1) have "items_ok (with_worker i ?f q)" by (rule items_subset) simp
  then show ?thesis by (rule items_cong) (simp add: report_drop_def split_beta)
qed

lemma turn_step_items: "turn_step q i q' \<Longrightarrow> items_ok q \<Longrightarrow> items_ok q'"
proof (induction rule: turn_step.induct)
  case (Report q i e)
  then have "items_ok (with_worker i (\<lambda>w. w\<lparr>dw_reported := True\<rparr>) q)" by (intro items_subset) simp_all
  then show ?case by (rule items_cong) (simp add: report_turn_def Let_def)
qed (simp_all add: worker_at_def in_flight_steps items_report_drop items_subset)

lemma owns_reserve: "owns_items w \<Longrightarrow> qi_DraftID x = dw_owner w \<Longrightarrow> owns_items (reserve_slot x w)"
proof -
  have "set (in_flight (reserve_slot x w)) = insert x (set (in_flight w))" by (simp add: in_flight_def reserve_slot_def)
  moreover assume "owns_items w" "qi_DraftID x = dw_owner w"
  ultimately show ?thesis by (simp add: owns_items_def)
qed

lemma enqueue_cases:
  obtains "snd (enqueue now q item only) = q"
  | "snd (enqueue now q item only) = snd (find_worker (qi_DraftID item) q)"
  | x where "snd (enqueue now q item only) = with_worker (fst (find_worker (qi_DraftID item) q)) (reserve_slot x)
        (snd (find_worker (qi_DraftID item) q))\<lparr>tq_tickets := Suc (tq_tickets q)\<rparr>"
      "qi_DraftID x = qi_DraftID item" "qi_ticket x = tq_tickets q"
proof -
  let ?d = "qi_DraftID item"
  let ?x = "item\<lparr>qi_ticket := tq_tickets q,
    qi_EnqueuedAt := (if time_IsZero (qi_EnqueuedAt item) then time_UTC now else qi_EnqueuedAt item)\<rparr>"
  let ?r = "snd (enqueue now q item only)" and ?q = "snd (find_worker ?d q)"
  have "?r = q \<or> ?r = ?q \<or> ?r = with_worker (fst (find_worker ?d q)) (reserve_slot ?x) ?q\<lparr>tq_tickets := Suc (tq_tickets q)\<rparr>"
    unfolding enqueue_def Let_def split_beta by (simp del: if_split split: if_split)
  moreover have "qi_DraftID ?x = ?d" "qi_ticket ?x = tq_tickets q" by simp_all
  ultimately show thesis using that by blast
qed

lemma items_enqueue:
  assumes "registry_ok q" and "items_ok q"
  shows "items_ok (snd (enqueue now q item only))"
proof -
  let ?d = "qi_DraftID item"
  let ?q = "snd (find_worker ?d q)" and ?i = "fst (find_worker ?d q)"
  have "owns_items (newDraftWorker ?d)" by (simp add: owns_items_def in_flight_def newDraftWorker_def)
  then have found: "items_ok ?q" using assms(2) by (simp add: items_ok_def find_worker_def split: option.split)
  have owner: "dw_owner (tq_pool ?q ! ?i) = ?d" using registered_worker(2) [OF assms(1)]
    by (simp add: find_worker_def newDraftWorker_def split: option.split)
  have "items_ok (with_worker ?i (reserve_slot x) ?q)" if "qi_DraftID x = ?d" for x
  proof (rule items_with_worker [OF found])
    assume "?i < length (tq_pool ?q)"
    then have "owns_items (tq_pool ?q ! ?i)" using found by (rule items_worker [rotated])
    then show "owns_items (reserve_slot x (tq_pool ?q ! ?i))" using that owner by (intro owns_reserve) simp_all
  qed
  then have "items_ok (with_worker ?i (reserve_slot x) ?q\<lparr>tq_tickets := t\<rparr>)" if "qi_DraftID x = ?d" for x t
    using that by (simp add: items_ok_def)
  with assms(2) found show ?thesis by (cases rule: enqueue_cases [of now q item only]) simp_all
qed

lemma items_flag: "items_ok q \<Longrightarrow> items_ok (with_worker i (stop_with e) q)" "items_ok q \<Longrightarrow> items_ok (with_worker i cancel_worker q)"
  "items_ok q \<Longrightarrow> items_ok (with_worker i sealWorker q)" "items_ok q \<Longrightarrow> items_ok (with_worker i (\<lambda>w. w\<lparr>dw_canceling := b\<rparr>) q)"
  "items_ok q \<Longrightarrow> items_ok (with_worker i (\<lambda>w. w\<lparr>dw_currentDurableTerminal := b\<rparr>) q)"
  by (auto intro: items_subset)

lemma items_context: "items_ok q \<Longrightarrow> items_ok (cancel_context q)"
  by (auto simp: items_ok_def cancel_context_def owns_items_def)

lemma queue_step_items: "queue_step q q' \<Longrightarrow> registry_ok q \<Longrightarrow> items_ok q \<Longrightarrow> items_ok q'"
proof (induction rule: queue_step.induct)
  case (Worker q i q')
  then show ?case by (blast intro: turn_step_items)
next
  case (Enqueue q now item only)
  then show ?case by (rule items_enqueue)
next
  case (Cancel q d)
  then show ?case using items_flag(2) [of q]
    by (auto simp: BeginDraftCancellation_def Let_def items_ok_def split: option.splits)
next
  case (ReleaseStart q k abandon)
  then show ?case using items_flag(3) [of q]
    by (auto simp: release_start_def Let_def items_ok_def split: option.splits)
next
  case (ReleaseFinish q k abandon retired)
  then show ?case using items_flag(4) [of q]
    by (auto simp: release_finish_def reopen_worker_def Let_def items_ok_def split: option.splits)
next
  case (Closing q)
  then show ?case using items_context [of q] by (simp add: Close_def items_ok_def)
qed (simp_all add: RequestStop_def CommitCurrentDurableTerminal_def worker_at_def items_context in_flight_steps
    items_flag items_subset split: option.split)

section \<open>Tickets\<close>

definition worker_tickets :: "draft_worker \<Rightarrow> nat multiset" where
  "worker_tickets w = mset (map qi_ticket (unreported w))"

definition open_tickets :: "turn_queue \<Rightarrow> nat multiset" where
  "open_tickets q = sum_list (map worker_tickets (tq_pool q))"

definition reported_tickets :: "turn_queue \<Rightarrow> nat multiset" where
  "reported_tickets q = mset (map (qi_ticket \<circ> fst) (tq_consumed q))"

definition tickets_ok :: "turn_queue \<Rightarrow> bool" where
  "tickets_ok q \<longleftrightarrow> reported_tickets q + open_tickets q = mset [0..<tq_tickets q]"

lemma sum_list_update_split:
  fixes f :: "'a \<Rightarrow> 'b :: comm_monoid_add"
  shows "i < length xs \<Longrightarrow> sum_list (map f (xs[i := x])) + f (xs ! i) = sum_list (map f xs) + f x"
  by (subst (3) id_take_nth_drop [of i]) (simp_all add: upd_conv_take_nth_drop ac_simps)

lemma open_with_worker:
  "i < length (tq_pool q) \<Longrightarrow> open_tickets (with_worker i f q) + worker_tickets (tq_pool q ! i)
     = open_tickets q + worker_tickets (f (tq_pool q ! i))"
  by (simp add: open_tickets_def sum_list_update_split)

lemma open_same: "worker_tickets (f (tq_pool q ! i)) = worker_tickets (tq_pool q ! i) \<Longrightarrow> open_tickets (with_worker i f q) = open_tickets q"
  by (cases "i < length (tq_pool q)") (use open_with_worker [of i q f] in \<open>simp_all add: open_tickets_def list_update_beyond\<close>)

lemma tickets_same:
  assumes "tickets_ok q" and "worker_tickets (f (tq_pool q ! i)) = worker_tickets (tq_pool q ! i)"
  shows "tickets_ok (with_worker i f q)"
  using assms open_same [of f q i] by (simp add: tickets_ok_def reported_tickets_def)

lemma tickets_cong:
  "tickets_ok q \<Longrightarrow> tq_pool q' = tq_pool q \<Longrightarrow> tq_consumed q' = tq_consumed q \<Longrightarrow> tq_tickets q' = tq_tickets q \<Longrightarrow> tickets_ok q'"
  by (simp add: tickets_ok_def reported_tickets_def open_tickets_def)

lemma tickets_fields [simp]:
  "tickets_ok (q\<lparr>tq_cancelLeases := m\<rparr>) = tickets_ok q" "tickets_ok (q\<lparr>tq_barriers := bs\<rparr>) = tickets_ok q"
  "tickets_ok (q\<lparr>tq_workers := ws\<rparr>) = tickets_ok q" "tickets_ok (q\<lparr>tq_closed := c\<rparr>) = tickets_ok q"
  "tickets_ok (q\<lparr>tq_cancelLeases := m, tq_barriers := bs\<rparr>) = tickets_ok q"
  "tickets_ok (q\<lparr>tq_closed := c, tq_workers := ws, tq_cancelLeases := m\<rparr>) = tickets_ok q"
  by (simp_all add: tickets_ok_def reported_tickets_def open_tickets_def)

lemma worker_tickets_flags [simp]:
  "worker_tickets (w\<lparr>dw_phase := p\<rparr>) = worker_tickets w" "worker_tickets (w\<lparr>dw_canceling := b\<rparr>) = worker_tickets w"
  "worker_tickets (w\<lparr>dw_currentDurableTerminal := b\<rparr>) = worker_tickets w" "worker_tickets (sealWorker w) = worker_tickets w"
  "worker_tickets (stop_with e w) = worker_tickets w" "worker_tickets (cancel_worker w) = worker_tickets w"
  "worker_tickets (newDraftWorker d) = {#}" "worker_tickets (finishPending w) = worker_tickets w"
  "worker_tickets (reserve_slot x w) = add_mset (qi_ticket x) (worker_tickets w)"
  by (simp_all add: worker_tickets_def unreported_def sealWorker_def stop_with_def cancel_worker_def newDraftWorker_def
      finishPending_def reserve_slot_def)

lemma mset_map_remove_nth: "k < length xs \<Longrightarrow> add_mset (f (xs ! k)) (mset (map f (remove_nth k xs))) = mset (map f xs)"
  by (metis image_mset_add_mset mset_map mset_remove_nth)

lemma worker_tickets_steps:
  "k < length (dw_sending w) \<Longrightarrow> worker_tickets (send k w) = worker_tickets w"
  "k < length (dw_sending w) \<Longrightarrow> worker_tickets (reject_send k e w) = worker_tickets w"
  "dw_queue w \<noteq> [] \<Longrightarrow> idle w \<Longrightarrow> worker_tickets (take_item w) = worker_tickets w"
  "dw_queue w \<noteq> [] \<Longrightarrow> worker_tickets (drop_item e w) = worker_tickets w"
  "dw_reported w \<Longrightarrow> worker_tickets (finish_turn w) = worker_tickets w"
  using mset_map_remove_nth [of k "dw_sending w" qi_ticket]
  by (auto simp: worker_tickets_def unreported_def send_def reject_send_def take_item_def drop_item_def finish_turn_def
      neq_Nil_conv idle_def)

lemma worker_tickets_begin:
  "worker_ok c w \<Longrightarrow> dw_taken w \<noteq> None \<Longrightarrow> worker_tickets (begin_turn b w) = worker_tickets w"
  by (auto simp: worker_tickets_def unreported_def begin_turn_def stop_with_def Let_def worker_ok_def)

lemma tickets_report:
  assumes "tickets_ok q" and "i < length (tq_pool q)"
    and "worker_tickets (tq_pool q ! i) = add_mset (qi_ticket x) (worker_tickets (f (tq_pool q ! i)))"
  shows "tickets_ok (with_worker i f q\<lparr>tq_consumed := tq_consumed q @ [(x, e)]\<rparr>)" (is "tickets_ok ?q")
proof -
  have "open_tickets ?q = open_tickets (with_worker i f q)" by (simp add: open_tickets_def)
  then have "open_tickets q = add_mset (qi_ticket x) (open_tickets ?q)"
    using open_with_worker [OF assms(2), of f] assms(3) by simp
  moreover have "reported_tickets ?q = add_mset (qi_ticket x) (reported_tickets q)" by (simp add: reported_tickets_def)
  ultimately show ?thesis using assms(1) by (simp add: tickets_ok_def)
qed

lemma tickets_report_turn:
  assumes "tickets_ok q" and "worker_at q i (\<lambda>w. dw_current w \<noteq> None \<and> \<not> dw_reported w)"
  shows "tickets_ok (report_turn i e q)"
  unfolding report_turn_def Let_def
  by (rule tickets_report [OF assms(1)]) (use assms(2) in \<open>auto simp: worker_at_def worker_tickets_def unreported_def\<close>)

lemma tickets_report_drop:
  assumes "tickets_ok q" and "worker_at q i (\<lambda>w. k < length (dw_dropping w))"
  shows "tickets_ok (report_drop i k q)"
  unfolding report_drop_def Let_def split_beta
proof (rule tickets_report [OF assms(1)])
  let ?w = "tq_pool q ! i"
  show "i < length (tq_pool q)" using assms(2) by (simp add: worker_at_def)
  show "worker_tickets ?w = add_mset (qi_ticket (fst (dw_dropping ?w ! k))) (worker_tickets
      (?w\<lparr>dw_dropping := remove_nth k (dw_dropping ?w), dw_dropped := dw_dropped ?w @ [fst (dw_dropping ?w ! k)]\<rparr>))"
    using mset_map_remove_nth [of k "dw_dropping ?w" "qi_ticket \<circ> fst"] assms(2)
    by (simp add: worker_tickets_def unreported_def worker_at_def multiset.map_comp)
qed

lemma turn_step_tickets: "turn_step q i q' \<Longrightarrow> pool_ok q \<Longrightarrow> tickets_ok q \<Longrightarrow> tickets_ok q'"
proof (induction rule: turn_step.induct)
  case (Begin q i)
  then show ?case by (auto simp: worker_at_def intro!: tickets_same worker_tickets_begin dest: pool_worker)
qed (simp_all add: worker_at_def tickets_same worker_tickets_steps tickets_report_turn tickets_report_drop)

lemma tickets_enqueue:
  assumes "pool_ok q" and "tickets_ok q"
  shows "tickets_ok (snd (enqueue now q item only))"
proof -
  let ?d = "qi_DraftID item"
  let ?q = "snd (find_worker ?d q)" and ?i = "fst (find_worker ?d q)"
  have found: "tickets_ok ?q" using assms(2)
    by (simp add: tickets_ok_def reported_tickets_def open_tickets_def find_worker_def split: option.split)
  have "?i < length (tq_pool ?q)" using pool_ok_find(2) [OF assms(1), of ?d ?i ?q] by simp
  then have "open_tickets (with_worker ?i (reserve_slot x) ?q) = add_mset (qi_ticket x) (open_tickets ?q)" for x
    using open_with_worker [of ?i ?q "reserve_slot x"] by simp
  then have "tickets_ok (with_worker ?i (reserve_slot x) ?q\<lparr>tq_tickets := Suc (tq_tickets q)\<rparr>)" if "qi_ticket x = tq_tickets q" for x
    using found that by (simp add: tickets_ok_def reported_tickets_def open_tickets_def)
  with assms(2) found show ?thesis by (cases rule: enqueue_cases [of now q item only]) simp_all
qed

lemma tickets_flag: "tickets_ok q \<Longrightarrow> tickets_ok (with_worker i (stop_with e) q)" "tickets_ok q \<Longrightarrow> tickets_ok (with_worker i cancel_worker q)"
  "tickets_ok q \<Longrightarrow> tickets_ok (with_worker i sealWorker q)" "tickets_ok q \<Longrightarrow> tickets_ok (with_worker i (\<lambda>w. w\<lparr>dw_canceling := b\<rparr>) q)"
  "tickets_ok q \<Longrightarrow> tickets_ok (with_worker i (\<lambda>w. w\<lparr>dw_currentDurableTerminal := b\<rparr>) q)"
  by (simp_all add: tickets_same)

lemma tickets_context: "tickets_ok q \<Longrightarrow> tickets_ok (cancel_context q)"
  by (simp add: tickets_ok_def open_tickets_def reported_tickets_def cancel_context_def comp_def)

lemma queue_step_tickets: "queue_step q q' \<Longrightarrow> pool_ok q \<Longrightarrow> tickets_ok q \<Longrightarrow> tickets_ok q'"
proof (induction rule: queue_step.induct)
  case (Worker q i q')
  then show ?case by (rule turn_step_tickets)
next
  case (Enqueue q now item only)
  then show ?case by (rule tickets_enqueue)
next
  case (Cancel q d)
  then show ?case using tickets_flag(2) [of q]
    by (auto simp: BeginDraftCancellation_def Let_def split: option.splits)
next
  case (ReleaseStart q k abandon)
  have "tickets_ok (set_phase k p q)" for p by (rule tickets_cong [OF ReleaseStart(3)]) simp_all
  then show ?case using tickets_flag(3)
    by (auto simp: release_start_def Let_def split: option.splits)
next
  case (ReleaseFinish q k abandon retired)
  have r: "tickets_ok (released k q)" by (rule tickets_cong [OF ReleaseFinish(4)]) (simp_all add: released_def Let_def)
  then show ?case using tickets_flag(4) [OF r]
    by (simp add: release_finish_released Let_def reopen_worker_def split: option.split)
next
  case (Closing q)
  then show ?case using tickets_context [of q] by (simp add: Close_def)
qed (simp_all add: RequestStop_def CommitCurrentDurableTerminal_def worker_at_def tickets_context worker_tickets_steps
    tickets_flag tickets_same split: option.split)

section \<open>All invariants together\<close>

definition queue_ok :: "turn_queue \<Rightarrow> bool" where
  "queue_ok q \<longleftrightarrow> pool_ok q \<and> registry_ok q \<and> items_ok q \<and> tickets_ok q"

lemma queue_ok_new: "queue_ok NewTurnQueue"
  by (simp add: queue_ok_def pool_ok_def registry_ok_def registered_def lease_counted_def leases_def items_ok_def tickets_ok_def
      reported_tickets_def open_tickets_def NewTurnQueue_def)

lemma queue_ok_step: "queue_step q q' \<Longrightarrow> queue_ok q \<Longrightarrow> queue_ok q'"
  by (simp add: queue_ok_def queue_step_pool queue_step_registry queue_step_items queue_step_tickets)

interpretation all_invariants: queue_invariant queue_ok
  by unfold_locales (rule queue_ok_step)

end
