(* ===== verification/Agent_Queue_Safety.thy ===== *)
theory Agent_Queue_Safety
  imports Agent_Queue_Items
begin

text \<open>
  What the turn queue promises in every reachable state: exact pending counts, one report per turn,
  closed drafts behind a cancellation barrier, and workers that come to rest.
\<close>

section \<open>Reports\<close>

lemma reachable_ok: "queue_steps NewTurnQueue q \<Longrightarrow> queue_ok q"
  by (rule all_invariants.always [OF _ queue_ok_new])

lemma mset_concat_map: "mset (concat (map f xs)) = sum_list (map (mset \<circ> f) xs)"
  by (induction xs) simp_all

text \<open>
  C25. However the goroutines interleave, every accepted turn is accounted for once: its ticket is
  among those already reported or it is still held by exactly one worker that will report it, and no
  turn is reported twice.
\<close>

theorem turns_reported_once:
  assumes "queue_steps NewTurnQueue q"
  shows "distinct (map (qi_ticket \<circ> fst) (tq_consumed q) @ concat (map (\<lambda>w. map qi_ticket (unreported w)) (tq_pool q)))
    \<and> set (map (qi_ticket \<circ> fst) (tq_consumed q) @ concat (map (\<lambda>w. map qi_ticket (unreported w)) (tq_pool q)))
        = {..<tq_tickets q}"
proof -
  have "mset (map (qi_ticket \<circ> fst) (tq_consumed q) @ concat (map (\<lambda>w. map qi_ticket (unreported w)) (tq_pool q)))
      = reported_tickets q + open_tickets q"
    by (simp add: reported_tickets_def open_tickets_def worker_tickets_def [abs_def] mset_concat_map comp_def)
  also have "\<dots> = mset [0..<tq_tickets q]"
    using reachable_ok [OF assms] by (simp add: queue_ok_def tickets_ok_def)
  finally have "mset (map (qi_ticket \<circ> fst) (tq_consumed q) @ concat (map (\<lambda>w. map qi_ticket (unreported w)) (tq_pool q)))
      = mset [0..<tq_tickets q]" .
  then show ?thesis by (metis atLeast_upt distinct_upt mset_eq_imp_distinct_iff mset_eq_setD)
qed

section \<open>Pending turns\<close>

definition pending_of :: "string \<Rightarrow> draft_worker \<Rightarrow> queue_item list" where
  "pending_of d w = (if dw_retired w then [] else filter (\<lambda>x. qi_DraftID x = d) (in_flight w))"

lemma unretired_registered:
  "registered q \<Longrightarrow> \<not> tq_closed q \<Longrightarrow> i < length (tq_pool q) \<Longrightarrow> \<not> dw_retired (tq_pool q ! i)
    \<Longrightarrow> tq_workers q (dw_owner (tq_pool q ! i)) = Some i"
  unfolding registered_def by blast

lemma concat_only:
  assumes "i < length xs" and "\<And>j. j < length xs \<Longrightarrow> j \<noteq> i \<Longrightarrow> f (xs ! j) = []"
  shows "concat (map f xs) = f (xs ! i)"
proof -
  have "f x = []" if "x \<in> set (take i xs @ drop (Suc i) xs)" for x
    using that assms(2) by (auto simp: in_set_conv_nth)
  then have "concat (map f (take i xs)) = []" "concat (map f (drop (Suc i) xs)) = []" by auto
  then show ?thesis by (subst id_take_nth_drop [OF assms(1)]) (simp del: concat_eq_Nil_conv)
qed

lemma pending_other:
  assumes "queue_ok q" and "\<not> tq_closed q" and "j < length (tq_pool q)" and "tq_workers q d \<noteq> Some j"
  shows "pending_of d (tq_pool q ! j) = []"
proof (cases "dw_retired (tq_pool q ! j)")
  case False
  then have "tq_workers q (dw_owner (tq_pool q ! j)) = Some j"
    using assms by (simp add: queue_ok_def registry_ok_def registered_def)
  then have "dw_owner (tq_pool q ! j) \<noteq> d" using assms(4) by auto
  moreover have "owns_items (tq_pool q ! j)" using assms by (simp add: queue_ok_def items_worker)
  ultimately show ?thesis by (auto simp: pending_of_def owns_items_def filter_empty_conv)
qed (simp add: pending_of_def)

lemma pending_registered:
  assumes "queue_ok q" and "tq_workers q d = Some i"
  shows "pending_of d (tq_pool q ! i) = in_flight (tq_pool q ! i)"
proof -
  have "i < length (tq_pool q)" "dw_owner (tq_pool q ! i) = d" "\<not> dw_retired (tq_pool q ! i)"
    using registered_worker assms by (auto simp: queue_ok_def)
  moreover from this have "owns_items (tq_pool q ! i)" using assms by (simp add: queue_ok_def items_worker)
  ultimately show ?thesis by (simp add: pending_of_def owns_items_def)
qed

lemma pending_count_ok:
  assumes "queue_ok q" and "\<not> tq_closed q"
  shows "PendingCount q d = int (length (concat (map (pending_of d) (tq_pool q))))"
proof (cases "tq_workers q d")
  case None
  have "pending_of d w = []" if "w \<in> set (tq_pool q)" for w
    using that pending_other [OF assms] None by (auto simp: in_set_conv_nth)
  then have "concat (map (pending_of d) (tq_pool q)) = []" by simp
  with None show ?thesis by (simp add: PendingCount_def del: concat_eq_Nil_conv)
next
  case (Some i)
  then have i: "i < length (tq_pool q)" using assms by (auto simp: queue_ok_def pool_ok_def)
  have "concat (map (pending_of d) (tq_pool q)) = pending_of d (tq_pool q ! i)"
    by (rule concat_only [OF i]) (use pending_other [OF assms] Some in auto)
  moreover have "worker_ok (tq_ctx_done q) (tq_pool q ! i)" using assms i by (simp add: queue_ok_def pool_worker)
  ultimately show ?thesis using Some pending_registered [OF assms(1) Some] by (simp add: PendingCount_def worker_ok_def)
qed

lemma pool_counts:
  assumes "queue_ok q"
  shows "[w \<leftarrow> tq_pool q. dw_pendingCount w \<noteq> int (length (in_flight w))] = []"
  using assms by (auto simp: filter_empty_conv queue_ok_def pool_ok_def worker_ok_def)

lemma closed_count: "queue_ok q \<Longrightarrow> tq_closed q \<Longrightarrow> PendingCount q d = 0"
  by (simp add: queue_ok_def registry_ok_def registered_def PendingCount_def)

text \<open>
  C26. However the goroutines interleave, the pending count of every worker, in service or given up, is
  exactly the number of turns it holds between their reservation and their end.  What \<open>PendingCount\<close>
  answers for a draft is the number of turns of that draft in the workers still in service of an
  open queue; the turns of a worker that an abandoned cancellation has given up are not in the answer,
  and a closed queue answers zero for every draft even while a last turn is still running.
\<close>

theorem pending_count_exact:
  assumes "queue_steps NewTurnQueue q"
  shows "[w \<leftarrow> tq_pool q. dw_pendingCount w \<noteq> int (length (in_flight w))] = []
    \<and> PendingCount q d = (if tq_closed q then 0 else int (length (concat (map (pending_of d) (tq_pool q)))))"
  using pool_counts closed_count pending_count_ok reachable_ok [OF assms] by simp

text \<open>
  C27. An idle-guarded enqueue accepts a turn only when no unretired worker holds a turn of the draft;
  afterwards the draft has exactly this one turn, so a second idle-guarded call is refused.
\<close>

theorem idle_enqueue_exclusive:
  assumes "queue_steps NewTurnQueue q" and "enqueue now q item True = (Some i, q')"
  shows "concat (map (pending_of (qi_DraftID item)) (tq_pool q)) = []
    \<and> PendingCount q' (qi_DraftID item) = 1
    \<and> fst (enqueue later q' item True) = None"
proof -
  let ?d = "qi_DraftID item"
  let ?q = "snd (find_worker ?d q)"
  have ok: "queue_ok q" by (rule reachable_ok [OF assms(1)])
  have accepted: "\<not> tq_closed q" "\<not> tq_ctx_done q" "i = fst (find_worker ?d q)" "\<not> dw_pendingCount (tq_pool ?q ! i) > 0"
    and q': "\<exists>x. q' = with_worker i (reserve_slot x) ?q\<lparr>tq_tickets := Suc (tq_tickets q)\<rparr>"
    using assms(2) by (auto simp: enqueue_def Let_def split_beta split: if_splits)
  have idx: "i < length (tq_pool ?q)" and ok': "worker_ok (tq_ctx_done q) (tq_pool ?q ! i)"
    using ok pool_ok_find [of q ?d i ?q] accepted(3) by (auto simp: queue_ok_def intro: pool_worker [of ?q, simplified])
  then have none: "dw_pendingCount (tq_pool ?q ! i) = 0" using accepted(4) by (simp add: worker_ok_def)
  have "PendingCount q ?d = 0"
    using none accepted(3) by (simp add: PendingCount_def find_worker_def split: option.splits)
  then have "concat (map (pending_of ?d) (tq_pool q)) = []"
    using pending_count_ok [OF ok accepted(1), of ?d] by (simp del: concat_eq_Nil_conv)
  moreover have registered: "tq_workers q' ?d = Some i" "tq_pool q' ! i = reserve_slot (SOME x. True) (tq_pool ?q ! i) \<or> dw_pendingCount (tq_pool q' ! i) = 1"
    using q' idx find_worker_registers [of ?d q] accepted(3) none by (auto simp: reserve_slot_def)
  have "dw_pendingCount (tq_pool q' ! i) = 1" using q' idx none by (auto simp: reserve_slot_def)
  moreover from this registered(1) have "fst (enqueue later q' item True) = None"
    by (simp add: enqueue_def Let_def split_beta find_worker_def)
  ultimately show ?thesis using registered(1) by (simp add: PendingCount_def del: concat_eq_Nil_conv)
qed

text \<open>
  C28. The preflight \<open>CanEnqueue\<close> agrees with \<open>enqueue\<close>: it allows a draft exactly when an unguarded
  enqueue of any item of that draft is accepted in the same state.
\<close>

theorem can_enqueue_agrees: "CanEnqueue q (qi_DraftID item) \<longleftrightarrow> fst (enqueue now q item False) \<noteq> None"
  by (auto simp: CanEnqueue_def enqueue_def Let_def split_beta find_worker_def newDraftWorker_def split: option.splits)

section \<open>Barriers\<close>

lemma fenced_worker:
  assumes "queue_ok q" and "\<not> tq_closed q" and "b \<in> set (tq_barriers q)" and "ba_phase b \<noteq> Released"
    and "w \<in> set (tq_pool q)" and "dw_owner w = ba_draftID b" and "\<not> dw_retired w"
  shows "dw_canceling w" "worker_ok (tq_ctx_done q) w"
proof -
  have reg: "registry_ok q" and pool: "pool_ok q" using assms(1) by (simp_all add: queue_ok_def)
  obtain j where j: "j < length (tq_pool q)" "w = tq_pool q ! j" using assms(5) by (auto simp: in_set_conv_nth)
  then have "tq_workers q (ba_draftID b) = Some j"
    using unretired_registered [OF _ assms(2) j(1)] reg assms(6,7) unfolding registry_ok_def by metis
  moreover have "fenced q b" using reg assms(2-4) by (simp add: registry_ok_def)
  ultimately show "dw_canceling w" using j by (auto simp: fenced_def split: option.splits)
  show "worker_ok (tq_ctx_done q) w" using pool assms(5) by (simp add: pool_ok_def)
qed

text \<open>What holds of a worker that is being cancelled: its turn is stopped, and so is the next it begins.\<close>

definition stopped_turns :: "bool \<Rightarrow> draft_worker \<Rightarrow> bool" where
  "stopped_turns ctx w \<longleftrightarrow> dw_canceling w \<and> (dw_current w = None \<or> dw_cause w \<noteq> None)
     \<and> (dw_taken w = None \<or> dw_cause (begin_turn ctx w) \<noteq> None)"

lemma cancelling_stops: "dw_canceling w \<Longrightarrow> worker_ok ctx w \<Longrightarrow> stopped_turns ctx w"
  by (auto simp: stopped_turns_def worker_ok_def begin_turn_def stop_with_def Let_def)

lemma cancelled_outcome:
  "dw_canceling w \<Longrightarrow> worker_ok False w \<Longrightarrow> dw_current w \<noteq> None \<Longrightarrow> turn_outcome e w = Some TurnCancelledByUser"
  by (auto simp: worker_ok_def turn_outcome_def)

text \<open>
  C29. Until a cancellation barrier of an open queue is released, its draft accepts no new turn, and every
  worker in service of the draft is being cancelled.  Its current turn has been told to stop, and an
  item it still takes from its channel begins as a turn that has been told to stop.  While the context
  of the queue lives, the turn is reported as cancelled by the user, whatever the runner returns.  The
  barrier reports completion exactly when the worker it covers holds no turn any more.
\<close>

theorem barrier_fences_draft:
  assumes "queue_steps NewTurnQueue q" and "\<not> tq_closed q" and "b \<in> set (tq_barriers q)" and "ba_phase b \<noteq> Released"
  shows "\<not> CanEnqueue q (ba_draftID b)
    \<and> enqueue now q (item\<lparr>qi_DraftID := ba_draftID b\<rparr>) only = (None, q)
    \<and> [w \<leftarrow> tq_pool q. dw_owner w = ba_draftID b \<and> \<not> dw_retired w \<and> \<not> stopped_turns (tq_ctx_done q) w] = []
    \<and> [w \<leftarrow> tq_pool q. dw_owner w = ba_draftID b \<and> \<not> dw_retired w \<and> \<not> tq_ctx_done q
          \<and> dw_current w \<noteq> None \<and> turn_outcome e w \<noteq> Some TurnCancelledByUser] = []
    \<and> barrier_done q b = (case ba_worker b of None \<Rightarrow> True | Some i \<Rightarrow> in_flight (tq_pool q ! i) = [])"
proof -
  have ok: "queue_ok q" by (rule reachable_ok [OF assms(1)])
  then have reg: "registry_ok q" and pool: "pool_ok q" by (simp_all add: queue_ok_def)
  have lease: "leases q (ba_draftID b) > 0" by (rule held_lease [OF reg assms(2,3,4)])
  have fence: "fenced q b" using reg assms by (simp add: registry_ok_def)
  note cancelling = fenced_worker [OF ok assms(2-4)]
  have rest: "barrier_done q b = (case ba_worker b of None \<Rightarrow> True | Some i \<Rightarrow> in_flight (tq_pool q ! i) = [])"
  proof (cases "ba_worker b")
    case (Some i)
    then have "dw_generation (tq_pool q ! i) = ba_generation b" and "i < length (tq_pool q)"
      using fence by (simp_all add: fenced_def)
    moreover from pool_worker [OF pool this(2)]
    have "dw_pendingCount (tq_pool q ! i) = int (length (in_flight (tq_pool q ! i)))" by (simp add: worker_ok_def)
    ultimately show ?thesis using Some by (simp add: barrier_done_def)
  qed (simp add: barrier_done_def)
  have "[w \<leftarrow> tq_pool q. dw_owner w = ba_draftID b \<and> \<not> dw_retired w \<and> \<not> stopped_turns (tq_ctx_done q) w] = []"
    using cancelling cancelling_stops unfolding filter_empty_conv by blast
  moreover have "[w \<leftarrow> tq_pool q. dw_owner w = ba_draftID b \<and> \<not> dw_retired w \<and> \<not> tq_ctx_done q
      \<and> dw_current w \<noteq> None \<and> turn_outcome e w \<noteq> Some TurnCancelledByUser] = []"
    using cancelling cancelled_outcome unfolding filter_empty_conv by (metis (full_types))
  moreover have "\<not> CanEnqueue q (ba_draftID b)" "enqueue now q (item\<lparr>qi_DraftID := ba_draftID b\<rparr>) only = (None, q)"
    using lease by (simp_all add: CanEnqueue_def enqueue_def Let_def)
  ultimately show ?thesis using rest by blast
qed

lemma distinct_filter_nth:
  "(\<And>i j. i < length xs \<Longrightarrow> j < length xs \<Longrightarrow> P (xs ! i) \<Longrightarrow> P (xs ! j) \<Longrightarrow> f (xs ! i) = f (xs ! j) \<Longrightarrow> i = j)
    \<Longrightarrow> distinct (map f (filter P xs))"
proof (induction xs)
  case (Cons x xs)
  have "distinct (map f (filter P xs))"
  proof (rule Cons.IH)
    show "i = j" if "i < length xs" "j < length xs" "P (xs ! i)" "P (xs ! j)" "f (xs ! i) = f (xs ! j)" for i j
      using Cons.prems [of "Suc i" "Suc j"] that by simp
  qed
  moreover have "f x \<notin> f ` {y \<in> set xs. P y}" if "P x"
  proof
    assume "f x \<in> f ` {y \<in> set xs. P y}"
    then obtain j where "j < length xs" "P (xs ! j)" "f (xs ! j) = f x" by (auto simp: in_set_conv_nth)
    with \<open>P x\<close> show False using Cons.prems [of 0 "Suc j"] by simp
  qed
  ultimately show ?case by simp
qed simp

text \<open>
  C30. Two unretired workers of an open queue never serve the same draft: turns of a draft run one
  after the other, except behind a worker that a cancellation has given up.
\<close>

theorem one_worker_per_draft:
  assumes "queue_steps NewTurnQueue q" and "\<not> tq_closed q"
  shows "distinct (map dw_owner [w \<leftarrow> tq_pool q. \<not> dw_retired w])"
proof (rule distinct_filter_nth)
  have reg: "registered q" using reachable_ok [OF assms(1)] by (simp add: queue_ok_def registry_ok_def)
  fix i j
  assume "i < length (tq_pool q)" "j < length (tq_pool q)" "\<not> dw_retired (tq_pool q ! i)" "\<not> dw_retired (tq_pool q ! j)"
    and same: "dw_owner (tq_pool q ! i) = dw_owner (tq_pool q ! j)"
  then have "tq_workers q (dw_owner (tq_pool q ! i)) = Some i" "tq_workers q (dw_owner (tq_pool q ! j)) = Some j"
    using unretired_registered [OF reg assms(2)] by blast+
  then show "i = j" unfolding same by (metis option.inject)
qed

end
