(* ===== verification/Agent_Queue_Rest.thy ===== *)
theory Agent_Queue_Rest
  imports Agent_Queue_Safety
begin

text \<open>
  The turns of the queue come to an end: the queue's own steps cannot go on forever, and when a queue
  whose context lives has none left, every turn it accepted has been reported.
\<close>

section \<open>Potential\<close>

text \<open>What is left to be done for the turns of a worker; every step of the worker pays at least one.\<close>

fun phase_potential :: "loop_phase \<Rightarrow> nat" where
  "phase_potential Looping = 2"
| "phase_potential Emptying = 1"
| "phase_potential Exited = 0"

definition potential :: "draft_worker \<Rightarrow> nat" where
  "potential w = 5 * length (dw_sending w) + 4 * length (dw_queue w) + (if dw_taken w = None then 0 else 3)
     + (if dw_current w = None then 0 else if dw_reported w then 1 else 2) + 2 * length (dw_dropping w)
     + length (dw_dropped w) + phase_potential (dw_phase w)"

definition queue_potential :: "turn_queue \<Rightarrow> nat" where
  "queue_potential q = sum_list (map potential (tq_pool q))"

lemma potential_worker_steps:
  "k < length (dw_sending w) \<Longrightarrow> potential (send k w) < potential w"
  "k < length (dw_sending w) \<Longrightarrow> potential (reject_send k e w) < potential w"
  "dw_queue w \<noteq> [] \<Longrightarrow> idle w \<Longrightarrow> potential (take_item w) < potential w"
  "dw_taken w \<noteq> None \<Longrightarrow> potential (begin_turn c w) < potential w"
  "dw_current w \<noteq> None \<Longrightarrow> \<not> dw_reported w \<Longrightarrow> potential (w\<lparr>dw_reported := True\<rparr>) < potential w"
  "dw_current w \<noteq> None \<Longrightarrow> potential (finish_turn w) < potential w"
  "dw_queue w \<noteq> [] \<Longrightarrow> potential (drop_item e w) < potential w"
  "dw_dropped w \<noteq> [] \<Longrightarrow> potential (finishPending w) < potential w"
  "k < length (dw_dropping w) \<Longrightarrow>
     potential (w\<lparr>dw_dropping := remove_nth k (dw_dropping w), dw_dropped := dw_dropped w @ [x]\<rparr>) < potential w"
  by (auto simp: potential_def send_def reject_send_def take_item_def idle_def begin_turn_def stop_with_def Let_def
      finish_turn_def drop_item_def finishPending_def neq_Nil_conv)

lemma potential_phases:
  "dw_phase w = Looping \<Longrightarrow> potential (w\<lparr>dw_phase := Exited\<rparr>) < potential w"
  "dw_phase w = Looping \<Longrightarrow> potential (w\<lparr>dw_phase := Emptying\<rparr>) < potential w"
  "dw_phase w = Emptying \<Longrightarrow> potential (w\<lparr>dw_phase := Exited\<rparr>) < potential w"
  by (simp_all add: potential_def)

lemma potential_with_worker:
  "i < length (tq_pool q) \<Longrightarrow> potential (f (tq_pool q ! i)) < potential (tq_pool q ! i) \<Longrightarrow>
     queue_potential (with_worker i f q) < queue_potential q"
  using sum_list_update_split [of i "tq_pool q" potential "f (tq_pool q ! i)"] by (simp add: queue_potential_def)

lemma potential_consumed [simp]: "queue_potential (q\<lparr>tq_consumed := c\<rparr>) = queue_potential q"
  by (simp add: queue_potential_def)

lemma turn_step_potential: "turn_step q i q' \<Longrightarrow> queue_potential q' < queue_potential q"
  by (induction rule: turn_step.induct)
    (simp_all add: worker_at_def report_turn_def report_drop_def Let_def split_beta potential_with_worker
      potential_worker_steps potential_phases)

text \<open>
  C31. The steps of the workers terminate: from no state of the queue is there an infinite sequence of
  sends, receives, turns, reports and drops without new calls from outside.
\<close>

theorem worker_steps_terminate: "wf {(q', q). \<exists>i. turn_step q i q'}"
  by (rule wf_subset [OF wf_measure [of queue_potential]]) (auto dest: turn_step_potential)

section \<open>Progress\<close>

text \<open>A loop ends only because its worker was retired or the queue lost its context.\<close>

definition phases_ok :: "turn_queue \<Rightarrow> bool" where
  "phases_ok q \<longleftrightarrow> tq_ctx_done q \<or> (\<forall>w \<in> set (tq_pool q). dw_phase w = Looping \<or> dw_retired w)"

lemma turn_step_context: "turn_step q i q' \<Longrightarrow> tq_ctx_done q' = tq_ctx_done q"
  by (induction rule: turn_step.induct) (simp_all add: report_turn_def report_drop_def Let_def split_beta)

lemma phases_with_worker:
  assumes "phases_ok q"
    and "i < length (tq_pool q) \<Longrightarrow> \<not> tq_ctx_done q \<Longrightarrow> dw_phase (tq_pool q ! i) = Looping \<or> dw_retired (tq_pool q ! i)
      \<Longrightarrow> dw_phase (f (tq_pool q ! i)) = Looping \<or> dw_retired (f (tq_pool q ! i))"
  shows "phases_ok (with_worker i f q)"
  using assms by (cases "i < length (tq_pool q)")
    (auto simp: phases_ok_def list_update_beyond dest!: set_update_subset_insert [THEN subsetD])

lemma phases_same:
  "phases_ok q \<Longrightarrow> dw_phase (f (tq_pool q ! i)) = dw_phase (tq_pool q ! i)
     \<Longrightarrow> dw_retired (tq_pool q ! i) \<longrightarrow> dw_retired (f (tq_pool q ! i)) \<Longrightarrow> phases_ok (with_worker i f q)"
  by (rule phases_with_worker) auto

lemma phase_steps [simp]:
  "dw_phase (send k w) = dw_phase w" "dw_phase (reject_send k e w) = dw_phase w" "dw_phase (take_item w) = dw_phase w"
  "dw_phase (begin_turn c w) = dw_phase w" "dw_phase (stop_with e w) = dw_phase w" "dw_phase (finish_turn w) = dw_phase w"
  "dw_phase (drop_item e w) = dw_phase w" "dw_phase (finishPending w) = dw_phase w" "dw_phase (sealWorker w) = dw_phase w"
  "dw_phase (cancel_worker w) = dw_phase w" "dw_phase (reserve_slot x w) = dw_phase w"
  by (simp_all add: send_def reject_send_def take_item_def begin_turn_def stop_with_def finish_turn_def
      drop_item_def finishPending_def sealWorker_def cancel_worker_def reserve_slot_def Let_def)

lemma retired_steps [simp]:
  "dw_retired (send k w) = dw_retired w" "dw_retired (reject_send k e w) = dw_retired w" "dw_retired (take_item w) = dw_retired w"
  "dw_retired (begin_turn c w) = dw_retired w" "dw_retired (stop_with e w) = dw_retired w" "dw_retired (finish_turn w) = dw_retired w"
  "dw_retired (drop_item e w) = dw_retired w" "dw_retired (finishPending w) = dw_retired w" "dw_retired (sealWorker w)"
  "dw_retired (cancel_worker w) = dw_retired w" "dw_retired (reserve_slot x w) = dw_retired w"
  by (simp_all add: send_def reject_send_def take_item_def begin_turn_def stop_with_def finish_turn_def
      drop_item_def finishPending_def sealWorker_def cancel_worker_def reserve_slot_def Let_def)

lemma phases_fields [simp]:
  "phases_ok (q\<lparr>tq_consumed := c\<rparr>) = phases_ok q" "phases_ok (q\<lparr>tq_cancelLeases := m\<rparr>) = phases_ok q"
  "phases_ok (q\<lparr>tq_barriers := bs\<rparr>) = phases_ok q" "phases_ok (q\<lparr>tq_workers := ws\<rparr>) = phases_ok q"
  "phases_ok (q\<lparr>tq_closed := b\<rparr>) = phases_ok q" "phases_ok (q\<lparr>tq_tickets := t\<rparr>) = phases_ok q"
  "phases_ok (set_phase k p q) = phases_ok q" "phases_ok (released k q) = phases_ok q"
  "phases_ok (q\<lparr>tq_cancelLeases := m, tq_barriers := bs\<rparr>) = phases_ok q"
  by (simp_all add: phases_ok_def released_def Let_def)

lemma turn_step_phases: "turn_step q i q' \<Longrightarrow> phases_ok q \<Longrightarrow> phases_ok q'"
proof (induction rule: turn_step.induct)
  case (Exit q i)
  then show ?case by (intro phases_with_worker) (auto simp: worker_at_def)
next
  case (EmptyExit q i)
  then show ?case by (intro phases_with_worker) (auto simp: worker_at_def)
qed (simp_all add: worker_at_def report_turn_def report_drop_def Let_def split_beta phases_same,
     simp add: phases_ok_def)

lemma queue_step_phases: "queue_step q q' \<Longrightarrow> phases_ok q \<Longrightarrow> phases_ok q'"
proof (induction rule: queue_step.induct)
  case (Worker q i q')
  then show ?case by (rule turn_step_phases)
next
  case (Enqueue q now item only)
  have "phases_ok (snd (find_worker (qi_DraftID item) q))" using Enqueue
    by (auto simp: phases_ok_def find_worker_def newDraftWorker_def split: option.split)
  with Enqueue show ?case by (cases rule: enqueue_cases [of now q item only]) (simp_all add: phases_same)
qed (auto simp: RequestStop_def CommitCurrentDurableTerminal_def BeginDraftCancellation_def release_start_def
    release_finish_released reopen_worker_def Let_def Close_def cancel_context_def phases_ok_def [of "_\<lparr>tq_ctx_done := True, tq_pool := _\<rparr>"] phases_same split: option.split)

interpretation loop_ends: queue_invariant phases_ok
  by unfold_locales (rule queue_step_phases)

lemma worker_moves:
  assumes "i < length (tq_pool q)" and "in_flight (tq_pool q ! i) \<noteq> []"
    and "dw_phase (tq_pool q ! i) = Looping \<or> dw_sending (tq_pool q ! i) = [] \<and> dw_queue (tq_pool q ! i) = []"
  shows "\<exists>q'. turn_step q i q'"
proof -
  let ?w = "tq_pool q ! i"
  have "worker_at q i P = P ?w" for P using assms(1) by (simp add: worker_at_def)
  note at_i = this
  consider "dw_current ?w \<noteq> None" | "dw_current ?w = None" "dw_taken ?w \<noteq> None" | "idle ?w" "dw_queue ?w \<noteq> []"
    | "idle ?w" "dw_queue ?w = []" "dw_sending ?w \<noteq> []" | "dw_dropping ?w \<noteq> []" | "dw_dropped ?w \<noteq> []"
    using assms(2) unfolding in_flight_def idle_def
    by (cases "dw_current ?w"; cases "dw_taken ?w"; cases "dw_queue ?w = []"; simp) blast+
  then show ?thesis
  proof cases
    case 1
    then show ?thesis using Report [of q i] Finish [of q i] by (auto simp: at_i)
  next
    case 2
    then show ?thesis using Begin [of q i] by (auto simp: at_i)
  next
    case 3
    then show ?thesis using Take [of q i] assms(3) by (auto simp: at_i)
  next
    case 4
    then show ?thesis using Send [of q i 0] by (auto simp: at_i queue_capacity_def)
  next
    case 5
    then show ?thesis using ReportDrop [of q i 0] by (auto simp: at_i)
  next
    case 6
    then show ?thesis using FinishDrop [of q i] by (auto simp: at_i)
  qed
qed

section \<open>Workers that were given up\<close>

text \<open>
  While the queue is open, whatever a retired worker still has in its channel, or on the way into it,
  waits for the release that retired it.
\<close>

definition drained_by :: "barrier list \<Rightarrow> nat \<Rightarrow> draft_worker \<Rightarrow> bool" where
  "drained_by bs i w \<longleftrightarrow> (dw_retired w \<longrightarrow>
     dw_sending w = [] \<and> dw_queue w = [] \<or> (\<exists>b \<in> set bs. ba_worker b = Some i \<and> ba_phase b = Draining True True))"

definition drains_ok :: "turn_queue \<Rightarrow> bool" where
  "drains_ok q \<longleftrightarrow> tq_closed q \<or> (\<forall>i < length (tq_pool q). drained_by (tq_barriers q) i (tq_pool q ! i))"

lemma drained_by_mono:
  "drained_by bs i w \<Longrightarrow> dw_retired v = dw_retired w \<Longrightarrow>
     (dw_sending w = [] \<and> dw_queue w = [] \<longrightarrow> dw_sending v = [] \<and> dw_queue v = []) \<Longrightarrow> drained_by bs i v"
  by (auto simp: drained_by_def)

lemma drains_with_worker:
  assumes "drains_ok q" and "i < length (tq_pool q) \<Longrightarrow> drained_by (tq_barriers q) i (tq_pool q ! i)
      \<Longrightarrow> drained_by (tq_barriers q) i (f (tq_pool q ! i))"
  shows "drains_ok (with_worker i f q)"
  using assms by (auto simp: drains_ok_def nth_update)

lemma drains_same:
  assumes "drains_ok q" and "dw_retired (f (tq_pool q ! i)) = dw_retired (tq_pool q ! i)"
    and "dw_sending (tq_pool q ! i) = [] \<and> dw_queue (tq_pool q ! i) = [] \<longrightarrow>
      dw_sending (f (tq_pool q ! i)) = [] \<and> dw_queue (f (tq_pool q ! i)) = []"
  shows "drains_ok (with_worker i f q)"
  by (rule drains_with_worker [OF assms(1)]) (rule drained_by_mono [OF _ assms(2,3)])

lemma channel_steps [simp]:
  "dw_sending (take_item w) = dw_sending w" "dw_sending (begin_turn c w) = dw_sending w" "dw_queue (begin_turn c w) = dw_queue w"
  "dw_sending (stop_with e w) = dw_sending w" "dw_queue (stop_with e w) = dw_queue w"
  "dw_sending (finish_turn w) = dw_sending w" "dw_queue (finish_turn w) = dw_queue w"
  "dw_sending (drop_item e w) = dw_sending w" "dw_queue (drop_item e w) = tl (dw_queue w)"
  "dw_sending (finishPending w) = dw_sending w" "dw_queue (finishPending w) = dw_queue w"
  "dw_sending (cancel_worker w) = dw_sending w" "dw_queue (cancel_worker w) = dw_queue w"
  "dw_queue (reject_send k e w) = dw_queue w" "dw_queue (take_item w) = tl (dw_queue w)"
  by (simp_all add: take_item_def begin_turn_def stop_with_def finish_turn_def
      drop_item_def finishPending_def cancel_worker_def reject_send_def Let_def)

lemma drains_fields [simp]:
  "drains_ok (q\<lparr>tq_consumed := c\<rparr>) = drains_ok q" "drains_ok (q\<lparr>tq_cancelLeases := m\<rparr>) = drains_ok q"
  "drains_ok (q\<lparr>tq_workers := ws\<rparr>) = drains_ok q" "drains_ok (q\<lparr>tq_tickets := t\<rparr>) = drains_ok q"
  by (simp_all add: drains_ok_def)

lemma drains_reject: "drains_ok q \<Longrightarrow> worker_at q i (\<lambda>w. k < length (dw_sending w)) \<Longrightarrow> drains_ok (with_worker i (reject_send k e) q)"
  by (rule drains_same) (auto simp: worker_at_def reject_send_def)

lemma turn_step_drains: "turn_step q i q' \<Longrightarrow> drains_ok q \<Longrightarrow> drains_ok q'"
proof (induction rule: turn_step.induct)
  case (Send q i k)
  then show ?case by (intro drains_same) (auto simp: worker_at_def send_def)
qed (simp_all add: worker_at_def drains_reject report_turn_def report_drop_def Let_def split_beta drains_same)

lemma drained_by_barriers:
  "drained_by bs i w \<Longrightarrow> (\<And>b. b \<in> set bs \<Longrightarrow> ba_phase b = Draining True True \<Longrightarrow> ba_worker b = Some i
     \<Longrightarrow> dw_sending w \<noteq> [] \<or> dw_queue w \<noteq> [] \<Longrightarrow> b \<in> set cs) \<Longrightarrow> drained_by cs i w"
  by (auto simp: drained_by_def)

lemma drains_enqueue: "drains_ok q \<Longrightarrow> registry_ok q \<Longrightarrow> drains_ok (snd (enqueue now q item only))"
proof -
  let ?q = "snd (find_worker (qi_DraftID item) q)" and ?i = "fst (find_worker (qi_DraftID item) q)"
  assume ok: "drains_ok q" and reg: "registry_ok q"
  have found: "drains_ok ?q" using ok
    by (auto simp: drains_ok_def find_worker_def nth_append drained_by_def newDraftWorker_def less_Suc_eq split: option.split)
  have "\<not> dw_retired (tq_pool ?q ! ?i)" using registered_worker(3) [OF reg]
    by (simp add: find_worker_def newDraftWorker_def split: option.split)
  then have "drains_ok (with_worker ?i (reserve_slot x) ?q)" for x
    by (intro drains_with_worker [OF found]) (simp add: drained_by_def)
  with ok found show ?thesis by (cases rule: enqueue_cases [of now q item only]) simp_all
qed

lemma drains_phase:
  assumes "drains_ok q" and "k < length (tq_barriers q)"
    and "\<And>i. ba_worker (tq_barriers q ! k) = Some i \<Longrightarrow> ba_phase (tq_barriers q ! k) = Draining True True
      \<Longrightarrow> dw_sending (tq_pool q ! i) = [] \<and> dw_queue (tq_pool q ! i) = []"
  shows "drains_ok (set_phase k p q)"
proof -
  have "drained_by (tq_barriers (set_phase k p q)) i (tq_pool q ! i)"
    if "drained_by (tq_barriers q) i (tq_pool q ! i)" for i
  proof (rule drained_by_barriers [OF that])
    fix b
    assume b: "b \<in> set (tq_barriers q)" "ba_phase b = Draining True True" "ba_worker b = Some i"
      "dw_sending (tq_pool q ! i) \<noteq> [] \<or> dw_queue (tq_pool q ! i) \<noteq> []"
    then obtain j where "j < length (tq_barriers q)" "b = tq_barriers q ! j" by (auto simp: in_set_conv_nth)
    moreover from this have "j \<noteq> k" using b assms(3) by auto
    ultimately show "b \<in> set (tq_barriers (set_phase k p q))" by (auto simp: in_set_conv_nth intro!: exI [of _ j])
  qed
  then show ?thesis using assms(1) by (auto simp: drains_ok_def)
qed

lemma drains_release_start:
  assumes "drains_ok q" and "barrier_at q k Held"
  shows "drains_ok (release_start k abandon q)"
proof -
  have k: "k < length (tq_barriers q)" "ba_phase (tq_barriers q ! k) = Held" using assms(2) by (simp_all add: barrier_at_def)
  then have phase: "drains_ok (set_phase k p q)" for p by (intro drains_phase [OF assms(1)]) simp_all
  have "drains_ok (with_worker i sealWorker (set_phase k (Draining True True) q))" if "ba_worker (tq_barriers q ! k) = Some i" for i
  proof (rule drains_with_worker [OF phase])
    have "(tq_barriers q ! k)\<lparr>ba_phase := Draining True True\<rparr> \<in> set (tq_barriers (set_phase k (Draining True True) q))"
      using k by (simp add: set_update_memI)
    then show "drained_by (tq_barriers (set_phase k (Draining True True) q)) i
        (sealWorker (tq_pool (set_phase k (Draining True True) q) ! i))"
      using that unfolding drained_by_def by (intro impI disjI2 bexI) simp_all
  qed
  with phase show ?thesis by (auto simp: release_start_def Let_def split: option.split)
qed

lemma drains_release_finish:
  assumes "drains_ok q" and "barrier_at q k (Draining abandon retired)" and "retired \<longrightarrow> drained_worker q k"
  shows "drains_ok (release_finish k abandon q)"
proof -
  have "drains_ok (set_phase k Released q)"
    by (rule drains_phase [OF assms(1)]) (use assms(2,3) in \<open>auto simp: barrier_at_def drained_worker_def\<close>)
  then have "drains_ok (released k q)" by (simp add: released_def Let_def)
  then show ?thesis
    by (auto simp: release_finish_released Let_def reopen_worker_def intro!: drains_same split: option.split)
qed

lemma drains_add_barrier: "drains_ok q \<Longrightarrow> drains_ok (q\<lparr>tq_cancelLeases := m, tq_barriers := tq_barriers q @ [b]\<rparr>)"
  by (auto simp: drains_ok_def intro: drained_by_barriers)

lemma queue_step_drains: "queue_step q q' \<Longrightarrow> registry_ok q \<Longrightarrow> drains_ok q \<Longrightarrow> drains_ok q'"
proof (induction rule: queue_step.induct)
  case (Worker q i q')
  then show ?case by (blast intro: turn_step_drains)
next
  case (Cancel q d)
  have "drains_ok (with_worker i cancel_worker q)" for i by (rule drains_same [OF Cancel(2)]) simp_all
  note added = drains_add_barrier [OF Cancel(2)] drains_add_barrier [OF this]
  show ?case using added Cancel(2) by (auto simp: BeginDraftCancellation_def Let_def split: option.split)
next
  case (Seal q i)
  then show ?case by (simp add: drains_ok_def)
next
  case (Cancelled q)
  then show ?case by (auto simp: drains_ok_def cancel_context_def intro: drained_by_mono)
qed (simp_all add: drains_enqueue drains_release_start drains_release_finish RequestStop_def
    CommitCurrentDurableTerminal_def Close_def drains_same worker_at_def drains_ok_def [of "_\<lparr>tq_closed := True\<rparr>"] split: option.split)

lemma queue_step_together: "queue_step q q' \<Longrightarrow> registry_ok q \<and> drains_ok q \<Longrightarrow> registry_ok q' \<and> drains_ok q'"
  by (blast intro: queue_step_registry queue_step_drains)

interpretation drains: queue_invariant "\<lambda>q. registry_ok q \<and> drains_ok q"
  by unfold_locales (rule queue_step_together)

section \<open>Rest\<close>

text \<open>The steps that need no new call from outside: those of the workers and of a release that is under way.\<close>

inductive own_step :: "turn_queue \<Rightarrow> turn_queue \<Rightarrow> bool" where
  OwnTurn: "turn_step q i q' \<Longrightarrow> own_step q q'"
| OwnDrain: "barrier_at q k (Draining True True) \<Longrightarrow> ba_worker (tq_barriers q ! k) = Some i \<Longrightarrow>
    worker_at q i (\<lambda>w. dw_sending w = [] \<and> dw_queue w \<noteq> []) \<Longrightarrow>
    own_step q (with_worker i (drop_item TurnCancelledByUser) q)"

abbreviation own_steps :: "turn_queue \<Rightarrow> turn_queue \<Rightarrow> bool" where "own_steps \<equiv> own_step\<^sup>*\<^sup>*"

definition at_rest :: "turn_queue \<Rightarrow> bool" where
  "at_rest q \<longleftrightarrow> (\<forall>q'. \<not> own_step q q')"

lemma own_step_queue: "own_step q q' \<Longrightarrow> queue_step q q'"
  by (induction rule: own_step.induct) (blast intro: Worker ReleaseDrain)+

lemma own_steps_queue: "own_steps q q' \<Longrightarrow> queue_steps q q'"
  by (induction rule: rtranclp_induct) (auto intro: rtranclp.rtrancl_into_rtrancl own_step_queue)

lemma turn_step_counts: "turn_step q i q' \<Longrightarrow> tq_tickets q' = tq_tickets q"
  by (induction rule: turn_step.induct) (simp_all add: report_turn_def report_drop_def Let_def split_beta)

lemma own_step_keeps: "own_step q q' \<Longrightarrow> tq_ctx_done q' = tq_ctx_done q \<and> tq_tickets q' = tq_tickets q"
  by (induction rule: own_step.induct) (simp_all add: turn_step_context turn_step_counts)

lemma own_steps_keep: "own_steps q q' \<Longrightarrow> tq_ctx_done q' = tq_ctx_done q \<and> tq_tickets q' = tq_tickets q"
  by (induction rule: rtranclp_induct) (auto dest: own_step_keeps)

lemma own_step_potential: "own_step q q' \<Longrightarrow> queue_potential q' < queue_potential q"
  by (induction rule: own_step.induct)
    (simp_all add: turn_step_potential worker_at_def potential_with_worker potential_worker_steps)

lemma own_steps_end: "\<exists>q'. own_steps q q' \<and> at_rest q'"
proof (induction q rule: measure_induct_rule [of queue_potential])
  case (less q)
  show ?case
  proof (cases "at_rest q")
    case False
    then obtain q1 where "own_step q q1" by (auto simp: at_rest_def)
    with less [of q1] show ?thesis by (blast intro: own_step_potential converse_rtranclp_into_rtranclp)
  qed blast
qed

lemma no_endless_run: "\<not> (\<forall>n. own_step (run n) (run (Suc n)))"
proof
  assume "\<forall>n. own_step (run n) (run (Suc n))"
  then have falling: "\<forall>n. queue_potential (run (Suc n)) < queue_potential (run n)" by (simp add: own_step_potential)
  obtain k where "(queue_potential (run (Suc k)), queue_potential (run k)) \<notin> {(x, y). x < y}"
    by (rule wf_no_infinite_down_chainE [OF wf_less, of "\<lambda>n. queue_potential (run n)"])
  with falling show False by simp
qed

lemma given_up_moves:
  assumes "drains_ok q" and "\<not> tq_closed q" and "i < length (tq_pool q)" and "dw_retired (tq_pool q ! i)"
    and "in_flight (tq_pool q ! i) \<noteq> []"
  shows "\<exists>q'. own_step q q'"
proof -
  let ?w = "tq_pool q ! i"
  have at_i: "worker_at q i P = P ?w" for P using assms(3) by (simp add: worker_at_def)
  consider "dw_sending ?w \<noteq> []" | "dw_sending ?w = []" "dw_queue ?w \<noteq> []" | "dw_sending ?w = []" "dw_queue ?w = []" by blast
  then show ?thesis
  proof cases
    case 1
    then show ?thesis using RejectRetired [of q i 0] assms(4) by (auto simp: at_i intro: OwnTurn)
  next
    case 2
    then obtain b where "b \<in> set (tq_barriers q)" "ba_worker b = Some i" "ba_phase b = Draining True True"
      using assms(1-4) by (auto simp: drains_ok_def drained_by_def)
    then obtain k where "barrier_at q k (Draining True True)" "ba_worker (tq_barriers q ! k) = Some i"
      by (metis barrier_at_def in_set_conv_nth)
    moreover have "worker_at q i (\<lambda>w. dw_sending w = [] \<and> dw_queue w \<noteq> [])" using 2 by (simp add: at_i)
    ultimately show ?thesis by (blast intro: OwnDrain)
  next
    case 3
    then show ?thesis using worker_moves [OF assms(3,5)] by (blast intro: OwnTurn)
  qed
qed

lemma rest_is_empty:
  assumes "queue_steps NewTurnQueue q" and "\<not> tq_ctx_done q" and "at_rest q"
  shows "\<forall>w \<in> set (tq_pool q). in_flight w = []"
proof -
  have "registry_ok NewTurnQueue \<and> drains_ok NewTurnQueue" "phases_ok NewTurnQueue"
    using queue_ok_new by (simp_all add: queue_ok_def drains_ok_def phases_ok_def NewTurnQueue_def)
  then have "registry_ok q" "drains_ok q" "phases_ok q"
    using drains.always [OF assms(1)] loop_ends.always [OF assms(1)] by simp_all
  moreover from this have "\<not> tq_closed q" using assms(2) by (auto simp: registry_ok_def registered_def)
  ultimately have "in_flight (tq_pool q ! i) = []" if "i < length (tq_pool q)" for i
    using given_up_moves [of q i] worker_moves [of i q] OwnTurn assms(2,3) that
    by (metis at_rest_def nth_mem phases_ok_def)
  then show ?thesis by (metis in_set_conv_nth)
qed

lemma rest_reported:
  assumes "queue_ok q" and "\<forall>w \<in> set (tq_pool q). in_flight w = []"
  shows "mset (map (qi_ticket \<circ> fst) (tq_consumed q)) = mset [0..<tq_tickets q]"
proof -
  have "worker_tickets w = {#}" if "w \<in> set (tq_pool q)" for w
    using assms(2) that by (auto simp: worker_tickets_def unreported_def in_flight_def)
  then have "map worker_tickets (tq_pool q) = map (\<lambda>_. {#}) (tq_pool q)" by simp
  then have "open_tickets q = {#}" unfolding open_tickets_def by (simp only: sum_list_0)
  then show ?thesis using assms(1) by (simp add: queue_ok_def tickets_ok_def reported_tickets_def)
qed

text \<open>
  C32. As long as the queue's context lives, every accepted turn comes to an end.  Without new calls from
  outside, the workers and the releases under way cannot go on forever; they can run until nothing
  moves; and whenever nothing moves, no worker holds a turn, not even one that an abandoned
  cancellation has given up, and every turn the queue ever accepted has been reported exactly once.
  Runners are taken to return: the step \<open>Report\<close> is that return.  Once the context has ended the
  statement no longer holds: a producer may still put its item into the channel of a worker that has
  left its loop, where it stays until \<open>Close\<close> drains the channel.
\<close>

theorem turns_come_to_an_end:
  assumes "queue_steps NewTurnQueue q" and "\<not> tq_ctx_done q"
  shows "\<not> (run 0 = q \<and> (\<forall>n. own_step (run n) (run (Suc n))))
    \<and> (\<exists>q'. own_steps q q' \<and> at_rest q')
    \<and> (\<forall>q'. own_steps q q' \<and> at_rest q' \<longrightarrow> (\<forall>w \<in> set (tq_pool q'). in_flight w = [])
        \<and> mset (map (qi_ticket \<circ> fst) (tq_consumed q')) = mset [0..<tq_tickets q])"
proof (intro conjI allI impI)
  fix q'
  assume run: "own_steps q q' \<and> at_rest q'"
  then have "queue_steps q q'" by (blast intro: own_steps_queue)
  with assms(1) have reached: "queue_steps NewTurnQueue q'" by (rule rtranclp_trans)
  moreover have "\<not> tq_ctx_done q'" "tq_tickets q' = tq_tickets q" using run assms(2) own_steps_keep by auto
  ultimately show "\<forall>w \<in> set (tq_pool q'). in_flight w = []"
    and "mset (map (qi_ticket \<circ> fst) (tq_consumed q')) = mset [0..<tq_tickets q]"
    using rest_is_empty [of q'] rest_reported [OF reachable_ok [OF reached]] run by simp_all
qed (use no_endless_run own_steps_end in blast)+

end
