(* ===== verification/Agent_Queue_Demo.thy ===== *)
theory Agent_Queue_Demo
  imports Agent_Queue_Rest
begin

text \<open>Concrete runs of the turn queue that meet the hypotheses of its properties.\<close>

definition demo_turn :: queue_item where
  "demo_turn = userMessageItem ''draft-1'' ''message-1'' ''cut the intro''"

text \<open>One turn is accepted, received and begun; then the draft is cancelled.\<close>

definition demo_waiting :: turn_queue where
  "demo_waiting = snd (enqueue zero_time NewTurnQueue demo_turn True)"

definition demo_running :: turn_queue where
  "demo_running = with_worker 0 (begin_turn False) (with_worker 0 take_item (with_worker 0 (send 0) demo_waiting))"

definition demo_cancelled :: turn_queue where
  "demo_cancelled = snd (BeginDraftCancellation demo_running ''draft-1'')"

lemma demo_waiting_reachable: "queue_steps NewTurnQueue demo_waiting"
  unfolding demo_waiting_def by (rule r_into_rtranclp) (rule Enqueue)

lemma demo_running_reachable: "queue_steps NewTurnQueue demo_running"
proof -
  let ?a = "with_worker 0 (send 0) demo_waiting" and ?b = "with_worker 0 take_item (with_worker 0 (send 0) demo_waiting)"
  have w: "worker_at demo_waiting 0 (\<lambda>w. 0 < length (dw_sending w) \<and> length (dw_queue w) < queue_capacity)"
    "worker_at ?a 0 (\<lambda>w. dw_phase w = Looping \<and> idle w \<and> dw_queue w \<noteq> [])"
    "worker_at ?b 0 (\<lambda>w. dw_taken w \<noteq> None)" "tq_ctx_done ?b = False"
    by code_simp+
  have "turn_step demo_waiting 0 ?a" by (rule Send [OF w(1)])
  moreover have "turn_step ?a 0 ?b" by (rule Take [OF w(2)])
  moreover have "turn_step ?b 0 demo_running" using Begin [OF w(3)] w(4) by (simp add: demo_running_def)
  ultimately show ?thesis using demo_waiting_reachable
    by (meson Worker rtranclp.rtrancl_into_rtrancl)
qed

lemma demo_cancelled_reachable: "queue_steps NewTurnQueue demo_cancelled"
  unfolding demo_cancelled_def by (rule rtranclp.rtrancl_into_rtrancl [OF demo_running_reachable Cancel])

lemma demo_facts: "\<not> tq_closed demo_cancelled" "hd (tq_barriers demo_cancelled) \<in> set (tq_barriers demo_cancelled)"
  "ba_phase (hd (tq_barriers demo_cancelled)) \<noteq> Released" "\<not> tq_ctx_done demo_cancelled"
  by code_simp+

theorem turns_reported_once_witness:
  "set (map (qi_ticket \<circ> fst) (tq_consumed demo_cancelled) @ concat (map (\<lambda>w. map qi_ticket (unreported w)) (tq_pool demo_cancelled)))
     = {..<tq_tickets demo_cancelled} \<and> tq_tickets demo_cancelled = 1"
proof
  show "tq_tickets demo_cancelled = 1" by code_simp
qed (use turns_reported_once [OF demo_cancelled_reachable] in blast)

text \<open>The cancellation is abandoned: the stuck worker keeps its turn, the draft no longer counts it.\<close>

definition demo_abandoned :: turn_queue where
  "demo_abandoned = release_start 0 True demo_cancelled"

lemma demo_abandoned_reachable: "queue_steps NewTurnQueue demo_abandoned"
proof -
  have "barrier_at demo_cancelled 0 Held" by code_simp
  from ReleaseStart [OF this, of True] show ?thesis unfolding demo_abandoned_def
    by (rule rtranclp.rtrancl_into_rtrancl [OF demo_cancelled_reachable])
qed

theorem pending_count_exact_witness:
  "PendingCount demo_cancelled ''draft-1'' = 1
     \<and> PendingCount demo_abandoned ''draft-1'' = 0
     \<and> [w \<leftarrow> tq_pool demo_abandoned. dw_pendingCount w \<noteq> int (length (in_flight w))] = []
     \<and> map dw_pendingCount (tq_pool demo_abandoned) = [1]"
proof (intro conjI)
  have "concat (map (pending_of ''draft-1'') (tq_pool demo_cancelled)) \<noteq> []"
    "length (concat (map (pending_of ''draft-1'') (tq_pool demo_cancelled))) = 1" by code_simp+
  then show "PendingCount demo_cancelled ''draft-1'' = 1"
    using pending_count_exact [OF demo_cancelled_reachable, of "''draft-1''"] demo_facts(1) by simp
  have "concat (map (pending_of ''draft-1'') (tq_pool demo_abandoned)) = []" by code_simp
  then show "PendingCount demo_abandoned ''draft-1'' = 0"
    using pending_count_exact [OF demo_abandoned_reachable, of "''draft-1''"] by (simp del: concat_eq_Nil_conv)
  show "map dw_pendingCount (tq_pool demo_abandoned) = [1]" by code_simp
qed (use pending_count_exact [OF demo_abandoned_reachable] in blast)

theorem idle_enqueue_exclusive_witness:
  "PendingCount demo_waiting ''draft-1'' = 1 \<and> fst (enqueue zero_time demo_waiting demo_turn True) = None"
proof -
  have "fst (enqueue zero_time NewTurnQueue demo_turn True) = Some 0" by code_simp
  then have "enqueue zero_time NewTurnQueue demo_turn True = (Some 0, demo_waiting)" by (simp add: demo_waiting_def prod_eq_iff)
  from idle_enqueue_exclusive [OF rtranclp.rtrancl_refl this, of zero_time] show ?thesis
    by (simp add: demo_turn_def userMessageItem_def)
qed

theorem barrier_fences_draft_witness:
  "\<not> CanEnqueue demo_cancelled (ba_draftID (hd (tq_barriers demo_cancelled)))
     \<and> [w \<leftarrow> tq_pool demo_cancelled. dw_owner w = ba_draftID (hd (tq_barriers demo_cancelled)) \<and> \<not> dw_retired w
          \<and> \<not> tq_ctx_done demo_cancelled \<and> dw_current w \<noteq> None
          \<and> turn_outcome (Some (RunError ''late'')) w \<noteq> Some TurnCancelledByUser] = []
     \<and> ba_draftID (hd (tq_barriers demo_cancelled)) = ''draft-1''
     \<and> [w \<leftarrow> tq_pool demo_cancelled. dw_owner w = ''draft-1'' \<and> dw_current w \<noteq> None \<and> dw_cause w = Some TurnCancelledByUser] \<noteq> []"
proof (intro conjI)
  show "ba_draftID (hd (tq_barriers demo_cancelled)) = ''draft-1''" by code_simp
  show "[w \<leftarrow> tq_pool demo_cancelled. dw_owner w = ''draft-1'' \<and> dw_current w \<noteq> None \<and> dw_cause w = Some TurnCancelledByUser] \<noteq> []"
    by code_simp
qed (use barrier_fences_draft [OF demo_cancelled_reachable demo_facts(1-3)] in blast)+

theorem one_worker_per_draft_witness:
  "distinct (map dw_owner [w \<leftarrow> tq_pool demo_cancelled. \<not> dw_retired w]) \<and> length (tq_pool demo_cancelled) = 1"
proof
  show "length (tq_pool demo_cancelled) = 1" by code_simp
qed (rule one_worker_per_draft [OF demo_cancelled_reachable demo_facts(1)])

theorem turns_come_to_an_end_witness:
  "(\<exists>q'. own_steps demo_abandoned q' \<and> at_rest q' \<and> mset (map (qi_ticket \<circ> fst) (tq_consumed q')) = {#0#})
     \<and> \<not> at_rest demo_abandoned"
proof
  have "worker_at demo_abandoned 0 (\<lambda>w. dw_current w \<noteq> None \<and> \<not> dw_reported w)" by code_simp
  then show "\<not> at_rest demo_abandoned" unfolding at_rest_def by (blast intro: Report OwnTurn)
  have "\<not> tq_ctx_done demo_abandoned" "mset [0..<tq_tickets demo_abandoned] = {#0#}" by code_simp+
  with turns_come_to_an_end [OF demo_abandoned_reachable, of run]
  show "\<exists>q'. own_steps demo_abandoned q' \<and> at_rest q' \<and> mset (map (qi_ticket \<circ> fst) (tq_consumed q')) = {#0#}" by metis
qed

end
