(* ===== verification/Reducer_Leases.thy ===== *)
theory Reducer_Leases
  imports Reducer_Safety Reducer_Versions
begin

text \<open>
  The lease table in a transaction: only the lease mutation of the result rows changes it, and a
  mutation that comes before a lease has run out leaves the lease with its holder, unless the
  holder itself gives it back.
\<close>

section \<open>Everything else keeps the leases\<close>

lemma db_step_leases: "db_step a b \<Longrightarrow> db_leases b = db_leases a"
  by (induction rule: db_step.induct) (auto simp: step_simps split: if_splits)

lemma st_step_leases: "st_step s t \<Longrightarrow> db_leases (st_db t) = db_leases (st_db s)"
proof (induction rule: st_step.induct)
  case (Touch s d t)
  then show ?case by (auto simp: touch_def st_version_def split: option.splits)
qed (auto simp: db_step_leases insert_draft_def split: if_splits)

lemma st_steps_leases: "st_steps s t \<Longrightarrow> db_leases (st_db t) = db_leases (st_db s)"
  by (induction rule: rtranclp_induct) (simp_all add: st_step_leases)

lemma apply_events_leases: "apply_events st seen evs = Inr st' \<Longrightarrow> db_leases (st_db st') = db_leases (st_db st)"
proof (induction evs arbitrary: st seen)
  case (Cons ev evs)
  then show ?case by (fastforce split: if_splits dest: applyEvent_steps st_steps_leases)
qed simp

lemma row_steps_leases: "row_steps a b \<Longrightarrow> db_leases b = db_leases a"
  by (induction rule: rtranclp_induct) (simp_all add: event_tables_eqs(6) [OF row_step_tables])

lemma bump_versions_leases: "bump_versions c orig ds db = Inr (None, vs, db') \<Longrightarrow> db_leases db' = db_leases db"
  by (induction ds arbitrary: db vs) (fastforce simp: Let_def split: if_splits)+

lemma append_event_leases: "append_event c vs ev db = Inr (a, db') \<Longrightarrow> db_leases db' = db_leases db"
  by (auto simp: append_event_def Let_def split: sum.splits if_splits)

lemma appendEvents_leases: "appendEvents c vs evs db = Inr (as, db') \<Longrightarrow> db_leases db' = db_leases db"
  by (induction evs arbitrary: db as) (auto dest: append_event_leases)

lemma begin_restore_leases: "begin_restore c r db = Inr db' \<Longrightarrow> db_leases db' = db_leases db"
  by (auto simp: begin_restore_def split: option.splits if_splits)

lemma finish_restore_leases [simp]: "db_leases (finish_restore r ids ms db) = db_leases db"
  by (simp add: finish_restore_def split: option.split)

lemma checkpoint_leases: "recordRewindCheckpoint i db = Inr db' \<Longrightarrow> db_leases db' = db_leases db"
  by (auto simp: recordRewindCheckpoint_def insert_checkpoint_def prune_checkpoints_def Let_def split: if_splits)

lemma message_leases:
  assumes "persistMessage c m db = Inr db'"
  shows "db_leases db' = db_leases db"
proof (cases m)
  case (Some x)
  with assms obtain ms t where "db' = db\<lparr>db_messages := ms\<rparr> \<or>
      recordMessageRewindCheckpoint (mi_ID x) (mi_DraftID x) (mi_Content x) t (db\<lparr>db_messages := ms\<rparr>) = Inr db'"
    by (auto simp: persistMessage_def Let_def split: if_splits)
  then show ?thesis by (auto simp: recordMessageRewindCheckpoint_def dest: checkpoint_leases)
qed (use assms in \<open>simp add: persistMessage_def\<close>)

lemma turn_rows_leases:
  "persistAgentTurnRunStart c r db = Inr db' \<Longrightarrow> db_leases db' = db_leases db"
  "persistAgentTurnRunFinish c f db = Inr db' \<Longrightarrow> db_leases db' = db_leases db"
  "persistAgentToolReceipt c x db = Inr db' \<Longrightarrow> db_leases db' = db_leases db"
  by (auto simp: persistAgentTurnRunStart_def persistAgentTurnRunFinish_def persistAgentToolReceipt_def Let_def
      split: option.splits)

text \<open>What a transaction's result rows may do to the leases.\<close>

definition leases_through :: "gotime \<Rightarrow> lease_mutation option \<Rightarrow> db \<Rightarrow> db \<Rightarrow> bool" where
  "leases_through clock mut a b \<longleftrightarrow> (case mut of None \<Rightarrow> db_leases b = db_leases a
     | Some m \<Rightarrow> \<exists>lo a' b'. db_leases a' = db_leases a \<and> persistAgentEditLeaseMutation clock m a' = Inr (lo, b')
         \<and> db_leases b = db_leases b')"

lemma persistResultRows_leases:
  assumes "persistResultRows n j sha c rows db = Inr (lo, mo, db')"
  shows "leases_through n (rs_Lease rows) db db'"
proof -
  from assms obtain d1 d2 where t: "persistTurnRows n j c rows db = Inr (lo, d1)"
    and m: "persistMemoryRows c rows d1 = Inr (mo, d2)" and a: "persistAnalysisRows sha c rows d2 = Inr db'"
    by (auto simp: persistResultRows_def)
  from t obtain lo1 db1 db2 db3 db4 where
    l: "(case rs_Lease rows of None \<Rightarrow> Inr (None, db)
       | Some m \<Rightarrow> bind_sum (persistAgentEditLeaseMutation n m db) (\<lambda>(o', db). Inr (Some o', db))) = Inr (lo1, db1)"
    and rest: "persistAgentTurnRunStart c (rs_TurnStart rows)
        (if rs_Interrupt rows then interruptRunningAgentTurns j c db1 else db1) = Inr db2"
      "persistAgentTurnRunFinish c (rs_TurnFinish rows) db2 = Inr db3"
      "persistAgentToolReceipt c (rs_Receipt rows) db3 = Inr db4" "persistMessage c (rs_Message rows) db4 = Inr d1"
    by (auto simp: persistTurnRows_def Let_def)
  have "db_leases (if rs_Interrupt rows then interruptRunningAgentTurns j c db1 else db1) = db_leases db1"
    by (simp add: interruptRunningAgentTurns_def Let_def)
  then have "db_leases db' = db_leases db1"
    using turn_rows_leases(1) [OF rest(1)] turn_rows_leases(2) [OF rest(2)] turn_rows_leases(3) [OF rest(3)]
      message_leases [OF rest(4)] event_tables_eqs(6) [OF row_step_tables [OF row_step.Memories [OF m]]]
      row_steps_leases [OF persistAnalysisRows_steps [OF a]] by simp
  with l show ?thesis by (auto simp: leases_through_def split: option.splits)
qed

lemma Apply_leases:
  assumes "Apply en op evs db = Inr (res, db')"
  shows "db_leases db' = db_leases db \<or> leases_through (en_now en) (rs_Lease (op_ResultRows op)) db db'"
  using assms
proof (cases rule: Apply_cases)
  case (2 evs' db1 st st')
  have "db_leases (st_db st) = db_leases db"
    using 2(3) begin_restore_leases preflightStrict_db [OF 2(4)] by (auto simp: initial_state_def admit_Inr)
  then have before: "db_leases (st_db st') = db_leases db" using apply_events_leases [OF 2(5)] by simp
  show ?thesis
    using 2(6)
  proof (cases rule: finish_cases)
    case (2 lease memory d1 vs d2 as d3)
    then have "db_leases db' = db_leases d1"
      using bump_versions_leases [OF 2(3)] appendEvents_leases [OF 2(4)] by simp
    with persistResultRows_leases [OF 2(2)] before show ?thesis
      by (auto simp: leases_through_def split: option.splits)
  qed (use 2(1) in simp)
qed simp

section \<open>A lease that has not run out\<close>

definition lease_of :: "string \<Rightarrow> db \<Rightarrow> lease_row option" where
  "lease_of d db = find (\<lambda>l. le_draft_id l = d) (db_leases db)"

lemma find_keeps: "find P xs = Some x \<Longrightarrow> Q x \<Longrightarrow> find P (filter Q xs) = Some x"
  by (induction xs) (auto split: if_splits)

lemma find_other: "find P xs = Some x \<Longrightarrow> \<forall>y. P y \<longrightarrow> \<not> Q y \<Longrightarrow> \<forall>y. Q y \<longrightarrow> \<not> P (f y) \<Longrightarrow> find P (update_where Q f xs) = Some x"
  by (induction xs) (auto simp: update_where_def split: if_splits)

lemma find_mapped: "find P xs = Some x \<Longrightarrow> \<forall>y. P (f y) = P y \<Longrightarrow> find P (update_where Q f xs) = Some (if Q x then f x else x)"
  by (induction xs) (auto simp: update_where_def split: if_splits)

text \<open>The mutation by which a holder gives its lease back.\<close>

definition gives_back :: "lease_mutation \<Rightarrow> lease_row \<Rightarrow> bool" where
  "gives_back m l \<longleftrightarrow> lm_Operation m = AgentEditLeaseRelease \<and> lm_DraftID m = le_draft_id l
     \<and> lm_TurnID m = le_turn_id l \<and> lm_LeaseToken m = le_lease_token l"

definition same_holder :: "lease_row \<Rightarrow> lease_row \<Rightarrow> bool" where
  "same_holder a b \<longleftrightarrow> le_turn_id b = le_turn_id a \<and> le_lease_token b = le_lease_token a"

lemma mutation_keeps_holder:
  assumes "persistAgentEditLeaseMutation clock m a = Inr (lo, b)" and "lease_of d a = Some l"
    and "editLeaseTimestamp (mutation_now clock m) < le_expires_at l" and "\<not> gives_back m l"
  shows "\<exists>l'. lease_of d b = Some l' \<and> same_holder l l'"
proof (cases "lm_Operation m")
  case AgentEditLeaseAcquire
  with assms(1) have "acquire_lease (mutation_now clock m) m a = Inr (lo, b)"
    by (simp add: persistAgentEditLeaseMutation_def Let_def split: if_splits)
  with assms(2,3) have "lease_of d b = Some l"
    by (cases "lm_DraftID m = d")
      (auto simp: acquire_lease_def lease_of_def Let_def find_append not_le intro!: find_other split: if_splits option.splits)
  then show ?thesis by (simp add: same_holder_def)
next
  case AgentEditLeaseRenew
  with assms(1) have "renew_lease (mutation_now clock m) m a = Inr (lo, b)"
    by (simp add: persistAgentEditLeaseMutation_def Let_def split: if_splits)
  then show ?thesis using assms(2)
    by (auto simp: renew_lease_def lease_of_def Let_def find_mapped same_holder_def split: if_splits option.splits)
next
  case AgentEditLeaseRelease
  have "le_draft_id l = d" using find_SomeD [of _ "db_leases a" l] assms(2) by (auto simp: lease_of_def)
  then have "\<not> holds_lease m l" using assms(4) AgentEditLeaseRelease by (auto simp: gives_back_def holds_lease_def)
  then show ?thesis using assms(1,2) AgentEditLeaseRelease
    by (auto simp: persistAgentEditLeaseMutation_def lease_of_def Let_def find_keeps same_holder_def split: if_splits)
next
  case AgentEditLeaseExpireStale
  then show ?thesis using assms(1-3)
    by (auto simp: persistAgentEditLeaseMutation_def lease_of_def Let_def find_keeps not_le same_holder_def)
qed (use assms(1) in \<open>simp add: persistAgentEditLeaseMutation_def Let_def\<close>)

end
