(* ===== verification/Agent_Lease.thy ===== *)
theory Agent_Lease
  imports Reducer_Leases
begin

text \<open>
  The edit lease of an agent turn (\<open>agent/edit_lease.go\<close>): a session acquires the lease of its draft
  with the first edit, renews it with every heartbeat, stops the turn when a renewal fails and
  releases the lease at the end.  All it does to the database goes through the reducer.  The methods
  lock the session, so each is one step; \<open>ls_heartbeat\<close> says that the heartbeat goroutine runs and
  \<open>ls_cause\<close> is the cause with which the turn's context was cancelled.
\<close>

section \<open>Sessions\<close>

datatype session_error = ApplyError apply_error | LeaseLost | LeaseNotReturned

record lease_session =
  ls_draftID :: string
  ls_turnID :: string
  ls_token :: string
  ls_acquired :: bool
  ls_lost :: bool
  ls_closed :: bool
  ls_heartbeat :: bool
  ls_cause :: "session_error option"

definition agentEditLeaseTTL :: duration where "agentEditLeaseTTL = 30000000000"

definition newTimelineEditLeaseSession :: "string \<Rightarrow> string \<Rightarrow> string \<Rightarrow> lease_session" where
  "newTimelineEditLeaseSession draftID turnID token = \<lparr>ls_draftID = draftID, ls_turnID = turnID, ls_token = token,
     ls_acquired = False, ls_lost = False, ls_closed = False, ls_heartbeat = False, ls_cause = None\<rparr>"

definition lease_options :: "lease_mutation \<Rightarrow> options" where
  "lease_options m = \<lparr>op_BaseVersion = None, op_Actor = ActorAgent, op_CreatedAt = zero_time,
     op_ResultRows = no_rows\<lparr>rs_Lease := Some m\<rparr>, op_Validate = None, op_JobClaim = None, op_RewindRestore = None,
     op_Admission = None\<rparr>"

definition applyAgentEditLeaseMutation :: "env \<Rightarrow> lease_mutation \<Rightarrow> db \<Rightarrow> apply_error + (apply_result \<times> db)" where
  "applyAgentEditLeaseMutation en m db = Apply en (lease_options m) [] db"

definition session_mutation :: "env \<Rightarrow> lease_operation \<Rightarrow> duration \<Rightarrow> lease_session \<Rightarrow> lease_mutation" where
  "session_mutation en operation ttl s = \<lparr>lm_Operation = operation, lm_DraftID = ls_draftID s, lm_TurnID = ls_turnID s,
     lm_LeaseToken = ls_token s, lm_Now = time_UTC (en_now en), lm_TTL = ttl\<rparr>"

definition returned_lease :: "apply_result \<Rightarrow> lease_row option" where
  "returned_lease r = Option.bind (ar_Lease r) lo_Lease"

text \<open>\<open>ensure\<close>: the error, the session and the database.\<close>

definition ensure :: "env \<Rightarrow> lease_session \<Rightarrow> db \<Rightarrow> session_error option \<times> lease_session \<times> db" where
  "ensure en s db = (if ls_closed s \<or> ls_lost s then (Some LeaseLost, s, db)
     else if ls_acquired s then (None, s, db)
     else case applyAgentEditLeaseMutation en (session_mutation en AgentEditLeaseAcquire agentEditLeaseTTL s) db of
         Inl e \<Rightarrow> (Some (ApplyError e), s, db)
       | Inr (r, db') \<Rightarrow> if returned_lease r = None then (Some LeaseNotReturned, s, db')
           else (None, s\<lparr>ls_acquired := True, ls_heartbeat := True\<rparr>, db'))"

definition markLost :: "session_error \<Rightarrow> lease_session \<Rightarrow> lease_session" where
  "markLost e s = (if ls_closed s \<or> ls_lost s then s
     else s\<lparr>ls_lost := True, ls_cause := (if ls_cause s = None then Some e else ls_cause s)\<rparr>)"

text \<open>One tick of the heartbeat while its context lives.\<close>

definition heartbeat :: "env \<Rightarrow> lease_session \<Rightarrow> db \<Rightarrow> lease_session \<times> db" where
  "heartbeat en s db = (case applyAgentEditLeaseMutation en (session_mutation en AgentEditLeaseRenew agentEditLeaseTTL s) db of
       Inl e \<Rightarrow> (markLost LeaseLost (s\<lparr>ls_heartbeat := False\<rparr>), db)
     | Inr (r, db') \<Rightarrow> (s, db'))"

definition close_session :: "env \<Rightarrow> lease_session \<Rightarrow> db \<Rightarrow> lease_session \<times> db" where
  "close_session en s db = (if ls_closed s then (s, db)
     else let s' = s\<lparr>ls_closed := True, ls_heartbeat := False\<rparr>
       in if \<not> ls_acquired s then (s', db)
          else case applyAgentEditLeaseMutation en (session_mutation en AgentEditLeaseRelease 0 s) db of
              Inl e \<Rightarrow> (s', db) | Inr (r, db') \<Rightarrow> (s', db'))"

definition activeTurnID :: "lease_session \<Rightarrow> string" where
  "activeTurnID s = (if \<not> ls_acquired s \<or> ls_closed s \<or> ls_lost s then [] else ls_turnID s)"

definition expireStaleAgentEditLeases :: "env \<Rightarrow> db \<Rightarrow> apply_error + (apply_result \<times> db)" where
  "expireStaleAgentEditLeases en db = applyAgentEditLeaseMutation en
     \<lparr>lm_Operation = AgentEditLeaseExpireStale, lm_DraftID = [], lm_TurnID = [], lm_LeaseToken = [],
      lm_Now = time_UTC (en_now en), lm_TTL = 0\<rparr> db"

definition toolRequiresTimelineEditLease :: "string \<Rightarrow> bool" where
  "toolRequiresTimelineEditLease name \<longleftrightarrow> name \<in> {''timeline.insert'', ''timeline.delete'', ''timeline.update'', ''timeline.split''}"

definition specsRequireTimelineEditLease :: "string list \<Rightarrow> bool" where
  "specsRequireTimelineEditLease names \<longleftrightarrow> list_ex toolRequiresTimelineEditLease names"

section \<open>The reducer on a lease alone\<close>

definition lease_result :: "lease_outcome \<Rightarrow> apply_result" where
  "lease_result l = (outcome StatusApplied)\<lparr>ar_Lease := Some l\<rparr>"

lemma persist_lease_row: "persistResultRows clock json_text sha c (no_rows\<lparr>rs_Lease := Some m\<rparr>) db =
    bind_sum (persistAgentEditLeaseMutation clock m db) (\<lambda>(l, db). Inr (Some l, no_outcome, db))"
  by (cases "persistAgentEditLeaseMutation clock m db")
    (simp_all add: persistResultRows_def persistTurnRows_def persistMemoryRows_def persistAnalysisRows_def no_rows_def
      persistAgentTurnRunStart_def persistAgentTurnRunFinish_def persistAgentToolReceipt_def persistMessage_def
      persistUserMemories_def touchUserMemories_def store_opt_def split_beta)

lemma lease_mutation_no_conflict: "persistAgentEditLeaseMutation clock m db = Inl e \<Longrightarrow> e \<noteq> ErrDraftPlanConflict"
  by (auto simp: persistAgentEditLeaseMutation_def acquire_lease_def renew_lease_def require_def Let_def
      split: lease_operation.splits if_splits option.splits)

lemma apply_lease: "applyAgentEditLeaseMutation en m db =
    map_sum id (\<lambda>(l, db'). (lease_result l, db')) (persistAgentEditLeaseMutation (en_now en) m db)"
proof -
  have rows: "op_ResultRows (lease_options m) = no_rows\<lparr>rs_Lease := Some m\<rparr>" "op_Actor (lease_options m) = ActorAgent"
    "op_Validate (lease_options m) = None" "op_JobClaim (lease_options m) = None" "op_RewindRestore (lease_options m) = None"
    by (simp_all add: lease_options_def)
  have checks: "check_rows ActorAgent (no_rows\<lparr>rs_Lease := Some m\<rparr>) = None" "\<not> emptyResultRows (no_rows\<lparr>rs_Lease := Some m\<rparr>)"
    "\<not> writes_memory (no_rows\<lparr>rs_Lease := Some m\<rparr>)"
    by (simp_all add: check_rows_def emptyResultRows_def writes_memory_def no_rows_def)
  show ?thesis
    by (cases "persistAgentEditLeaseMutation (en_now en) m db")
      (auto simp: applyAgentEditLeaseMutation_def Apply_def rows checks actor_valid_def admit_def validateTimelineWriteAdmission_def
        timelinePointerWriteDrafts_def begin_restore_def run_events_def initial_state_def finish_def persist_lease_row
        seal_def sortedKeys_def lease_result_def outcome_def finish_restore_def dest: lease_mutation_no_conflict)
qed

section \<open>Exclusive ownership\<close>

definition lease_until :: "env \<Rightarrow> string" where
  "lease_until en = editLeaseTimestamp (time_Add (time_UTC (en_now en)) agentEditLeaseTTL)"

lemma UTC_idem [simp]: "time_UTC (time_UTC t) = time_UTC t"
  by (simp add: time_UTC_def)

lemma session_now: "mutation_now (en_now en) (session_mutation en operation ttl s) = time_UTC (en_now en)"
  by (simp add: mutation_now_def session_mutation_def)

lemma find_conj: "find P xs = Some x \<Longrightarrow> Q x \<Longrightarrow> find (\<lambda>x. P x \<and> Q x) xs = Some x"
  by (induction xs) (auto split: if_splits)

lemma find_replaced: "find P xs = Some y \<Longrightarrow> P new \<Longrightarrow> find P (update_where P (\<lambda>_. new) xs) = Some new"
  by (induction xs) (auto simp: update_where_def split: if_splits)

lemma find_snoc: "find P xs = None \<Longrightarrow> P x \<Longrightarrow> find P (xs @ [x]) = Some x"
  by (induction xs) (auto split: if_splits)

lemma acquire_row:
  assumes "acquire_lease now m db = Inr (out, db')"
  shows "lease_of (lm_DraftID m) db' = Some \<lparr>le_draft_id = lm_DraftID m, le_turn_id = lm_TurnID m,
      le_lease_token = lm_LeaseToken m, le_acquired_at = editLeaseTimestamp now, le_heartbeat_at = editLeaseTimestamp now,
      le_expires_at = editLeaseTimestamp (time_Add now (lm_TTL m))\<rparr>"
  using assms by (auto simp: lease_of_def acquire_lease_def Let_def find_replaced find_snoc require_def split: if_splits option.splits)

lemma ensured_row:
  assumes "ensure en s db = (None, s', db')" and "\<not> ls_acquired s"
  shows "\<exists>l. lease_of (ls_draftID s) db' = Some l \<and> le_turn_id l = ls_turnID s \<and> le_lease_token l = ls_token s
    \<and> le_expires_at l = lease_until en"
proof -
  let ?m = "session_mutation en AgentEditLeaseAcquire agentEditLeaseTTL s"
  obtain l where "persistAgentEditLeaseMutation (en_now en) ?m db = Inr (l, db')"
    using assms by (cases "persistAgentEditLeaseMutation (en_now en) ?m db") (auto simp: ensure_def apply_lease split: if_splits)
  then have "acquire_lease (time_UTC (en_now en)) ?m db = Inr (l, db')"
    unfolding persistAgentEditLeaseMutation_def session_now Let_def by (simp add: session_mutation_def split: if_splits)
  from acquire_row [OF this] show ?thesis by (simp add: session_mutation_def lease_until_def)
qed

lemma normalized_writes: "map_bind (normalize_event op c) evs = Inr evs' \<Longrightarrow> timelinePointerWriteDrafts evs' = timelinePointerWriteDrafts evs"
proof -
  have one: "normalize_event op c ev = Inr ev' \<Longrightarrow> writes_pointer ev' = writes_pointer ev \<and> ev_DraftID ev' = ev_DraftID ev" for ev ev'
    by (auto simp: normalize_event_def writes_pointer_def payload_def Let_def split: option.splits if_splits)
  assume "map_bind (normalize_event op c) evs = Inr evs'"
  then have "map ev_DraftID (filter writes_pointer evs') = map ev_DraftID (filter writes_pointer evs)"
    by (induction evs arbitrary: evs') (auto dest: one)
  then show ?thesis by (simp add: timelinePointerWriteDrafts_def)
qed

lemma admitted_holder:
  assumes "validateTimelineWriteAdmission clock db evs actor admission = None" and "d \<in> set (timelinePointerWriteDrafts evs)"
    and "GetLiveAgentEditLease db d (admission_now clock admission) = Some l"
  shows "actor = ActorAgent \<and> (\<exists>a. admission = Some a \<and> wa_TurnID a = le_turn_id l \<and> wa_LeaseToken a = le_lease_token l)"
proof -
  let ?origin = "write_origin actor admission"
  have "timelinePointerWriteDrafts evs \<noteq> []" using assms(2) by auto
  with assms(1) have none: "List.map_filter (admits_draft db (admission_now clock admission) ?origin admission) (timelinePointerWriteDrafts evs) = []"
    and given: "(case admission of None \<Rightarrow> [] | Some a \<Rightarrow> TrimSpace (wa_Origin a)) = ''agent'' \<longrightarrow> actor = ActorAgent"
    by (auto simp: validateTimelineWriteAdmission_def Let_def split: if_splits list.splits)
  from none assms(2) have "admits_draft db (admission_now clock admission) ?origin admission d = None"
    by (auto simp: List.map_filter_def filter_empty_conv)
  then have "?origin = ''agent''" "\<exists>a. admission = Some a \<and> wa_TurnID a = le_turn_id l \<and> wa_LeaseToken a = le_lease_token l"
    using assms(3) by (auto simp: admits_draft_def split: if_splits option.splits)
  moreover from this have "actor = ActorAgent" using given by (auto simp: write_origin_def Let_def split: if_splits)
  ultimately show ?thesis by blast
qed

section \<open>Transactions during a lease\<close>

text \<open>
  A transaction of anyone, the holder's heartbeats included, while the draft has a lease: when it
  mutates leases, it does so before this lease has run out and is not the holder's own release.
\<close>

inductive lease_step :: "string \<Rightarrow> db \<Rightarrow> db \<Rightarrow> bool" for d where
  Transaction: "Apply en op evs a = Inr (res, b) \<Longrightarrow> lease_of d a = Some l \<Longrightarrow>
    (case rs_Lease (op_ResultRows op) of None \<Rightarrow> True
     | Some m \<Rightarrow> editLeaseTimestamp (mutation_now (en_now en) m) < le_expires_at l \<and> \<not> gives_back m l) \<Longrightarrow>
    lease_step d a b"

abbreviation lease_steps :: "string \<Rightarrow> db \<Rightarrow> db \<Rightarrow> bool" where "lease_steps d \<equiv> (lease_step d)\<^sup>*\<^sup>*"

lemma lease_of_same: "db_leases a = db_leases b \<Longrightarrow> lease_of d a = lease_of d b"
  by (simp add: lease_of_def)

lemma lease_step_holder:
  assumes "lease_step d a b" and "lease_of d a = Some l"
  shows "\<exists>l'. lease_of d b = Some l' \<and> same_holder l l'"
  using assms(1)
proof cases
  case (Transaction en op evs res k)
  with assms(2) have k: "k = l" by simp
  have kept: ?thesis if "db_leases b = db_leases a"
    using lease_of_same [OF that, of d] assms(2) by (simp add: same_holder_def)
  from Apply_leases [OF Transaction(1)] show ?thesis
  proof
    assume "leases_through (en_now en) (rs_Lease (op_ResultRows op)) a b"
    then consider "db_leases b = db_leases a"
      | m out a' b' where "rs_Lease (op_ResultRows op) = Some m" "db_leases a' = db_leases a"
        "persistAgentEditLeaseMutation (en_now en) m a' = Inr (out, b')" "db_leases b = db_leases b'"
      by (auto simp: leases_through_def split: option.splits)
    then show ?thesis
    proof cases
      case 2
      then show ?thesis
        using mutation_keeps_holder [OF 2(3), of d l] Transaction(3) assms(2) lease_of_same [OF 2(2)] lease_of_same [OF 2(4)]
        by (simp add: k)
    qed (rule kept)
  qed (rule kept)
qed

lemma lease_steps_holder:
  "lease_steps d a b \<Longrightarrow> lease_of d a = Some l \<Longrightarrow> \<exists>l'. lease_of d b = Some l' \<and> same_holder l l'"
proof (induction rule: rtranclp_induct)
  case (step b c)
  then show ?case using lease_step_holder [of d b c] by (auto simp: same_holder_def)
qed (simp add: same_holder_def)

lemma ensure_refused:
  assumes "lease_of (ls_draftID s) db = Some l" and "editLeaseTimestamp (time_UTC (en_now en)) < le_expires_at l"
    and "\<not> ls_acquired s"
  shows "\<exists>e. ensure en s db = (Some e, s, db)"
proof -
  let ?m = "session_mutation en AgentEditLeaseAcquire agentEditLeaseTTL s"
  have "\<exists>e. persistAgentEditLeaseMutation (en_now en) ?m db = Inl e"
    unfolding persistAgentEditLeaseMutation_def session_now Let_def
    using assms(1,2) by (auto simp: lease_of_def session_mutation_def acquire_lease_def Let_def)
  then show ?thesis using assms(3) by (auto simp: ensure_def apply_lease)
qed

lemma writer_holds:
  assumes "lease_of d db = Some l" and "editLeaseTimestamp (admission_now (en_now en) (op_Admission op)) < le_expires_at l"
    and "d \<in> set (timelinePointerWriteDrafts evs)" and "Apply en op evs db = Inr (r, db')"
  shows "op_Actor op = ActorAgent
    \<and> (\<exists>a. op_Admission op = Some a \<and> wa_TurnID a = le_turn_id l \<and> wa_LeaseToken a = le_lease_token l)"
proof -
  have "evs \<noteq> []" using assms(3) by (auto simp: timelinePointerWriteDrafts_def)
  with assms(4) obtain evs' where evs': "map_bind (normalize_event op (created_at en op)) evs = Inr evs'"
    and "validateTimelineWriteAdmission (en_now en) db evs' (op_Actor op) (op_Admission op) = None"
    by (auto simp: Apply_def admit_def split: if_splits option.splits)
  moreover have "GetLiveAgentEditLease db d (admission_now (en_now en) (op_Admission op)) = Some l"
    unfolding GetLiveAgentEditLease_def using find_conj [OF assms(1) [unfolded lease_of_def]] assms(2) by simp
  ultimately show ?thesis using admitted_holder assms(3) normalized_writes [OF evs'] by metis
qed

text \<open>
  C40. Once an agent turn has acquired the edit lease of a draft, the lease stays with this turn and its
  token through any sequence of transactions, the holder's heartbeats included, as long as no
  lease mutation of them comes after the current expiry and the holder does not give the lease
  back.  Until the lease's current expiry no other session of the draft acquires one, and every
  transaction that moves the draft's timeline, admitted at a time before it, comes from an agent that
  presents the turn and the token of the holder.
\<close>

theorem edit_session_exclusive:
  assumes "ensure en1 s1 db = (None, s1', db1)" and "\<not> ls_acquired s1" and "lease_steps (ls_draftID s1) db1 db2"
  shows "\<exists>l. lease_of (ls_draftID s1) db2 = Some l \<and> le_turn_id l = ls_turnID s1 \<and> le_lease_token l = ls_token s1
    \<and> (ls_draftID s2 = ls_draftID s1 \<and> \<not> ls_acquired s2 \<and> editLeaseTimestamp (time_UTC (en_now en2)) < le_expires_at l
        \<longrightarrow> (\<exists>e. ensure en2 s2 db2 = (Some e, s2, db2)))
    \<and> (editLeaseTimestamp (admission_now (en_now en2) (op_Admission op)) < le_expires_at l
        \<and> ls_draftID s1 \<in> set (timelinePointerWriteDrafts evs) \<and> Apply en2 op evs db2 = Inr (r, db3)
      \<longrightarrow> op_Actor op = ActorAgent
        \<and> (\<exists>a. op_Admission op = Some a \<and> wa_TurnID a = ls_turnID s1 \<and> wa_LeaseToken a = ls_token s1))"
proof -
  obtain l0 where "lease_of (ls_draftID s1) db1 = Some l0" "le_turn_id l0 = ls_turnID s1" "le_lease_token l0 = ls_token s1"
    using ensured_row [OF assms(1,2)] by blast
  with lease_steps_holder [OF assms(3)] obtain l where l: "lease_of (ls_draftID s1) db2 = Some l"
    "le_turn_id l = ls_turnID s1" "le_lease_token l = ls_token s1"
    by (auto simp: same_holder_def)
  then show ?thesis
    using ensure_refused [of s2 db2 l en2] writer_holds [OF l(1), of en2 op evs r db3] by (intro exI [of _ l]) simp
qed

end
