(* ===== verification/Agent_Lease_Demo.thy ===== *)
theory Agent_Lease_Demo
  imports Agent_Lease Reducer_Demo
begin

text \<open>One turn acquires the lease of the draft; a second turn and the user come a moment too early.\<close>

definition first_session :: lease_session where
  "first_session = newTimelineEditLeaseSession ''d'' ''turn1'' ''token1''"

definition second_session :: lease_session where
  "second_session = newTimelineEditLeaseSession ''d'' ''turn2'' ''token2''"

definition demo_lease :: lease_row where
  "demo_lease = \<lparr>le_draft_id = ''d'', le_turn_id = ''turn1'', le_lease_token = ''token1'',
     le_acquired_at = editLeaseTimestamp (time_UTC (en_now demo_env)),
     le_heartbeat_at = editLeaseTimestamp (time_UTC (en_now demo_env)), le_expires_at = lease_until demo_env\<rparr>"

definition leased_db :: db where
  "leased_db = demo_db\<lparr>db_leases := [demo_lease]\<rparr>"

definition user_cut :: event where
  "user_cut = \<lparr>ev_Type = ''TimelineVersionCreated'', ev_Actor = [], ev_DraftID = ''d'', ev_BaseVersion = Some 3,
     ev_Payload = Some [], ev_CreatedAt = []\<rparr>"

lemma demo_names: "TrimSpace ''d'' = ''d''" "TrimSpace ''turn1'' = ''turn1''" "TrimSpace ''token1'' = ''token1''"
  "TrimSpace ''turn2'' = ''turn2''" "TrimSpace ''token2'' = ''token2''"
  by (simp_all add: TrimSpace_graphic graphic_def)

lemma demo_years: "four_digit_year \<lparr>unix_ns = 0, zone_s = 0\<rparr>" "four_digit_year \<lparr>unix_ns = 30000000000, zone_s = 0\<rparr>"
  by (simp_all add: four_digit_year_def local_s_def civil_date_epoch)

lemma first_ensured: "ensure demo_env first_session demo_db
    = (None, first_session\<lparr>ls_acquired := True, ls_heartbeat := True\<rparr>, leased_db)"
proof -
  have "persistAgentEditLeaseMutation (en_now demo_env) (session_mutation demo_env AgentEditLeaseAcquire agentEditLeaseTTL first_session) demo_db
    = Inr (\<lparr>lo_Lease = Some demo_lease, lo_Released = False, lo_ExpiredCount = 0\<rparr>, leased_db)"
    unfolding persistAgentEditLeaseMutation_def session_now Let_def
    by (simp add: session_mutation_def first_session_def newTimelineEditLeaseSession_def identified_def demo_names
        require_def Let_def acquire_lease_def refers_def demo_lease_def leased_db_def lease_until_def agentEditLeaseTTL_def demo_rows)
  then show ?thesis
    by (simp add: ensure_def apply_lease first_session_def newTimelineEditLeaseSession_def returned_lease_def lease_result_def)
qed

lemma early: "editLeaseTimestamp (time_UTC (en_now demo_env)) < lease_until demo_env"
proof -
  have "FixedNano (time_UTC (en_now demo_env)) < FixedNano (time_UTC (time_Add (time_UTC (en_now demo_env)) agentEditLeaseTTL))"
    by (rule FixedNano_less) (simp_all add: demo_env_def agentEditLeaseTTL_def time_UTC_def time_Add_def demo_years)
  then show ?thesis by (simp add: editLeaseTimestamp_def lease_until_def)
qed

text \<open>Before a second turn tries, the same intruder attempts a release with a token of its own; it removes nothing.\<close>

lemma foreign_release: "lease_step ''d'' leased_db leased_db"
proof -
  let ?m = "session_mutation demo_env AgentEditLeaseRelease 0 second_session"
  have row: "lease_of ''d'' leased_db = Some demo_lease" by (simp add: lease_of_def leased_db_def demo_lease_def)
  have other: "\<not> holds_lease ?m demo_lease" "\<not> gives_back ?m demo_lease"
    by (simp_all add: holds_lease_def gives_back_def session_mutation_def second_session_def newTimelineEditLeaseSession_def demo_lease_def)
  have "identified ?m" by (simp add: identified_def session_mutation_def second_session_def newTimelineEditLeaseSession_def demo_names)
  then have "\<exists>out. persistAgentEditLeaseMutation (en_now demo_env) ?m leased_db = Inr (out, leased_db)"
    unfolding persistAgentEditLeaseMutation_def session_now Let_def
    using other(1) by (simp add: leased_db_def session_mutation_def)
  then obtain r where run: "Apply demo_env (lease_options ?m) [] leased_db = Inr (r, leased_db)"
    using apply_lease [of demo_env ?m leased_db] by (auto simp: applyAgentEditLeaseMutation_def)
  have "rs_Lease (op_ResultRows (lease_options ?m)) = Some ?m" by (simp add: lease_options_def)
  then show ?thesis
    using Transaction [OF run row] other(2) early by (simp add: session_now demo_lease_def)
qed

theorem edit_session_exclusive_witness:
  "(\<exists>e. ensure demo_env second_session leased_db = (Some e, second_session, leased_db))
   \<and> (\<nexists>r db2. Apply demo_env demo_op [user_cut] leased_db = Inr (r, db2))
   \<and> lease_step ''d'' leased_db leased_db"
proof -
  have row: "lease_of (ls_draftID first_session) leased_db = Some demo_lease"
    by (simp add: lease_of_def leased_db_def demo_lease_def first_session_def newTimelineEditLeaseSession_def)
  have apart: "ls_draftID second_session = ls_draftID first_session" "\<not> ls_acquired first_session" "\<not> ls_acquired second_session"
    by (simp_all add: first_session_def second_session_def newTimelineEditLeaseSession_def)
  have user: "op_Actor demo_op \<noteq> ActorAgent" "admission_now (en_now demo_env) (op_Admission demo_op) = time_UTC (en_now demo_env)"
    "ls_draftID first_session \<in> set (timelinePointerWriteDrafts [user_cut])" "le_expires_at demo_lease = lease_until demo_env"
    by (simp_all add: demo_op_def ActorUser_def ActorAgent_def admission_now_def timelinePointerWriteDrafts_def writes_pointer_def
        user_cut_def first_session_def newTimelineEditLeaseSession_def demo_lease_def)
  have "ls_draftID first_session = ''d''" by (simp add: first_session_def newTimelineEditLeaseSession_def)
  then have "lease_steps (ls_draftID first_session) leased_db leased_db" using foreign_release by auto
  from edit_session_exclusive [OF first_ensured apart(2) this, of second_session demo_env demo_op "[user_cut]"]
  show ?thesis using user row early apart(1,3) foreign_release by auto
qed

end
