(* ===== verification/Interval_Merge.thy ===== *)
theory Interval_Merge
  imports Rushes_Prelude
begin

text \<open>
  The sweep that joins neighbouring intervals of a list sorted by their starts.  Two places of the
  code run it: \<open>MergeSpeechPauses\<close> on persisted pauses and \<open>mergePausesWithBreath\<close> on detected
  ones; they differ in when two intervals are neighbours and in how two of them are joined.
\<close>

section \<open>The sweep\<close>

definition merge_step :: "('a \<Rightarrow> 'a \<Rightarrow> bool) \<Rightarrow> ('a \<Rightarrow> 'a \<Rightarrow> 'a) \<Rightarrow> 'a list \<Rightarrow> 'a \<Rightarrow> 'a list" where
  "merge_step near join merged x = (if merged \<noteq> [] \<and> near (last merged) x
     then butlast merged @ [join (last merged) x] else merged @ [x])"

definition merge_sweep :: "('a \<Rightarrow> 'a \<Rightarrow> bool) \<Rightarrow> ('a \<Rightarrow> 'a \<Rightarrow> 'a) \<Rightarrow> 'a list \<Rightarrow> 'a list" where
  "merge_sweep near join xs = foldl (merge_step near join) [] xs"

text \<open>\<open>apart near xs\<close>: no two neighbours of the list could still be joined.\<close>

fun apart :: "('a \<Rightarrow> 'a \<Rightarrow> bool) \<Rightarrow> 'a list \<Rightarrow> bool" where
  "apart near (x # y # ys) \<longleftrightarrow> \<not> near x y \<and> apart near (y # ys)"
| "apart near _ \<longleftrightarrow> True"

lemma apart_snoc: "apart near (xs @ [x]) \<longleftrightarrow> apart near xs \<and> (xs \<noteq> [] \<longrightarrow> \<not> near (last xs) x)"
  by (induction near xs rule: apart.induct) auto

section \<open>What it promises\<close>

locale interval_merge =
  fixes lo hi :: "'a \<Rightarrow> int" and near :: "'a \<Rightarrow> 'a \<Rightarrow> bool" and join :: "'a \<Rightarrow> 'a \<Rightarrow> 'a"
  assumes lo_join: "lo x \<le> lo y \<Longrightarrow> lo (join x y) = lo x"
    and hi_join: "hi (join x y) = max (hi x) (hi y)"
    and near_lo: "lo x = lo x' \<Longrightarrow> near z x = near z x'"
begin

definition swept :: "'a list \<Rightarrow> 'a list \<Rightarrow> bool" where
  "swept xs merged \<longleftrightarrow> apart near merged \<and> sorted (map lo merged)
     \<and> (\<forall>x \<in> set xs. \<exists>m \<in> set merged. lo m \<le> lo x \<and> hi x \<le> hi m)
     \<and> (\<forall>m \<in> set merged. (\<exists>x \<in> set xs. lo x = lo m) \<and> (\<exists>x \<in> set xs. hi x = hi m))
     \<and> (merged = [] \<longleftrightarrow> xs = [])"

lemma swept_ends: "swept xs merged \<Longrightarrow> m \<in> set merged \<Longrightarrow> lo m \<in> lo ` set xs \<and> hi m \<in> hi ` set xs"
  unfolding swept_def by (metis image_eqI)

lemma swept_append:
  assumes "swept xs merged" and "merged = [] \<or> \<not> near (last merged) x" and "\<And>y. y \<in> set xs \<Longrightarrow> lo y \<le> lo x"
  shows "swept (xs @ [x]) (merged @ [x])"
proof -
  have "\<forall>m \<in> set merged. lo m \<le> lo x" using assms(1,3) unfolding swept_def by metis
  then have "sorted (map lo (merged @ [x]))" using assms(1) by (simp add: swept_def sorted_append)
  moreover have "apart near (merged @ [x])" using assms(1,2) by (auto simp: swept_def apart_snoc)
  ultimately show ?thesis using assms(1) unfolding swept_def by (auto 5 3)
qed

lemma swept_join:
  assumes "swept xs (ms @ [m])" and "\<And>y. y \<in> set xs \<Longrightarrow> lo y \<le> lo x"
  shows "swept (xs @ [x]) (ms @ [join m x])"
proof -
  have m: "lo m \<le> lo x" using assms unfolding swept_def by (metis in_set_conv_decomp)
  have j: "lo (join m x) = lo m" "hi (join m x) = max (hi m) (hi x)" using lo_join [OF m] hi_join by blast+
  have "apart near (ms @ [join m x])" using assms(1) near_lo [OF j(1)] by (auto simp: swept_def apart_snoc)
  moreover have "sorted (map lo (ms @ [join m x]))" using assms(1) j by (simp add: swept_def)
  moreover have "\<exists>k \<in> set (ms @ [join m x]). lo k \<le> lo y \<and> hi y \<le> hi k" if "y \<in> set (xs @ [x])" for y
  proof (cases "y = x")
    case False
    then obtain k where "k \<in> set (ms @ [m])" "lo k \<le> lo y" "hi y \<le> hi k" using assms(1) \<open>y \<in> _\<close> by (auto simp: swept_def)
    then show ?thesis using j by (cases "k = m") auto
  qed (use m j in auto)
  moreover have "\<exists>y \<in> set (xs @ [x]). lo y = lo k" "\<exists>y \<in> set (xs @ [x]). hi y = hi k" if "k \<in> set (ms @ [join m x])" for k
    using that assms(1) j by (cases "hi m \<le> hi x"; auto simp: swept_def)+
  ultimately show ?thesis using assms(1) unfolding swept_def by blast
qed

lemma swept_sweep: "sorted (map lo xs) \<Longrightarrow> swept xs (merge_sweep near join xs)"
proof (induction xs rule: rev_induct)
  case Nil
  then show ?case by (simp add: swept_def merge_sweep_def)
next
  case (snoc x xs)
  let ?ms = "merge_sweep near join xs"
  have IH: "swept xs ?ms" using snoc by (simp add: sorted_append)
  have le: "\<And>y. y \<in> set xs \<Longrightarrow> lo y \<le> lo x" using snoc.prems by (simp add: sorted_append)
  have step: "merge_sweep near join (xs @ [x]) = merge_step near join ?ms x" by (simp add: merge_sweep_def)
  show ?case
  proof (cases "?ms \<noteq> [] \<and> near (last ?ms) x")
    case True
    then have "?ms = butlast ?ms @ [last ?ms]" by simp
    with IH have "swept xs (butlast ?ms @ [last ?ms])" by argo
    from swept_join [OF this le] True show ?thesis by (simp add: step merge_step_def)
  next
    case False
    then show ?thesis using swept_append [OF IH _ le] by (auto simp: step merge_step_def)
  qed
qed

end

text \<open>
  Where only intervals that meet are joined, the result covers exactly the points of the given intervals.
\<close>

locale exact_merge = interval_merge +
  assumes near_meets: "near x y \<Longrightarrow> lo y \<le> hi x"
begin

definition covered :: "'a list \<Rightarrow> int set" where
  "covered xs = (\<Union>x \<in> set xs. {lo x ..< hi x})"

lemma covered_simps: "covered [] = {}" "covered (xs @ [x]) = covered xs \<union> {lo x ..< hi x}"
  by (auto simp: covered_def)

lemma sweep_covers: "sorted (map lo xs) \<Longrightarrow> covered (merge_sweep near join xs) = covered xs"
proof (induction xs rule: rev_induct)
  case Nil
  then show ?case by (simp add: merge_sweep_def)
next
  case (snoc x xs)
  let ?ms = "merge_sweep near join xs"
  have sorted: "sorted (map lo xs)" and le: "\<And>y. y \<in> set xs \<Longrightarrow> lo y \<le> lo x"
    using snoc.prems by (simp_all add: sorted_append)
  have IH: "covered ?ms = covered xs" using snoc.IH sorted .
  have step: "merge_sweep near join (xs @ [x]) = merge_step near join ?ms x" by (simp add: merge_sweep_def)
  show ?case
  proof (cases "?ms \<noteq> [] \<and> near (last ?ms) x")
    case True
    let ?m = "last ?ms"
    have "?m \<in> set ?ms" using True by simp
    then have m: "lo ?m \<le> lo x" using swept_ends [OF swept_sweep [OF sorted]] le by force
    have "lo x \<le> hi ?m" using True near_meets by blast
    then have "{lo (join ?m x) ..< hi (join ?m x)} = {lo ?m ..< hi ?m} \<union> {lo x ..< hi x}"
      using m lo_join [OF m] hi_join [of ?m x] by auto
    moreover have "covered ?ms = covered (butlast ?ms) \<union> {lo ?m ..< hi ?m}"
      using True covered_simps(2) [of "butlast ?ms" ?m] by simp
    ultimately show ?thesis using True IH by (auto simp: step merge_step_def covered_simps)
  next
    case False
    then show ?thesis using IH by (auto simp: step merge_step_def covered_simps)
  qed
qed

end

end
