(* ===== verification/Speech_Model.thy ===== *)
theory Speech_Model
  imports Interval_Merge Timeline_Model "HOL-Library.Signed_Division"
begin

text \<open>
  Speech evidence (\<open>agentexec/speech_inspect.go\<close>): transcribed utterances with their words, pauses
  between words, the chunks an asset is cut into for recognition, merging and clamping of pauses,
  the JSON form of transcripts, and the text comparison that finds repeated takes.  Frames are Go
  integers; \<open>sha\<close> is the hexadecimal SHA-256 of a string, from the standard library.
\<close>

section \<open>Records\<close>

record speech_word =
  sw_ID :: string
  sw_StartFrame :: goint
  sw_EndFrame :: goint
  sw_Text :: string
  sw_Punctuation :: string

record speech_utterance =
  su_ID :: string
  su_StartFrame :: goint
  su_EndFrame :: goint
  su_Text :: string
  su_Language :: string
  su_Emotion :: string
  su_Words :: "speech_word list"

record speech_pause =
  sp_ID :: string
  sp_StartFrame :: goint
  sp_EndFrame :: goint
  sp_DeleteStart :: goint
  sp_DeleteEnd :: goint
  sp_Method :: string

definition MaxASRChunkFrames :: goint where "MaxASRChunkFrames = 25 * DefaultFPS"

definition StableSpeechID :: "(string \<Rightarrow> string) \<Rightarrow> string \<Rightarrow> string \<Rightarrow> goint \<Rightarrow> goint \<Rightarrow> string \<Rightarrow> string" where
  "StableSpeechID sha p assetID s e t =
     p @ ''_'' @ take 16 (sha (p @ '':'' @ assetID @ '':'' @ show_int s @ '':'' @ show_int e @ '':'' @ t))"

section \<open>Chunks for recognition\<close>

text \<open>The last pause whose middle lies in the chunk, but more than three seconds after its start.\<close>

definition chunk_cut :: "speech_pause list \<Rightarrow> goint \<Rightarrow> goint \<Rightarrow> goint" where
  "chunk_cut pauses start limit = fold (\<lambda>p e. let midpoint = i64 (sp_StartFrame p + sp_EndFrame p) sdiv 2
     in if midpoint > i64 (start + DefaultFPS * 3) \<and> midpoint \<le> limit then midpoint else e) pauses limit"

text \<open>The loop of \<open>BuildASRChunks\<close>; with overflowing sums it need not end.\<close>

partial_function (option) asr_chunks_from :: "goint \<Rightarrow> speech_pause list \<Rightarrow> goint \<Rightarrow> goint \<Rightarrow> (goint \<times> goint) list option" where
  "asr_chunks_from durationFrames pauses maxFrames start =
     (if \<not> start < durationFrames then Some [] else
        let limit = min durationFrames (i64 (start + maxFrames)); cut = chunk_cut pauses start limit;
            e = (if cut \<le> start then limit else cut)
        in Option.bind (asr_chunks_from durationFrames pauses maxFrames e) (\<lambda>rest. Some ((start, e) # rest)))"

definition BuildASRChunks :: "goint \<Rightarrow> speech_pause list \<Rightarrow> goint \<Rightarrow> (goint \<times> goint) list option" where
  "BuildASRChunks durationFrames pauses maxFrames = (if durationFrames \<le> 0 then Some []
     else asr_chunks_from durationFrames pauses (if maxFrames \<le> 0 then MaxASRChunkFrames else maxFrames) 0)"

section \<open>Detection methods\<close>

text \<open>\<open>strings.Split\<close> at one character and \<open>strings.Join\<close>.\<close>

fun split_at_char :: "char \<Rightarrow> string \<Rightarrow> string list" where
  "split_at_char c [] = [[]]"
| "split_at_char c (x # xs) = (case split_at_char c xs of [] \<Rightarrow> [[x]]
     | w # ws \<Rightarrow> if x = c then [] # w # ws else (x # w) # ws)"

fun join_with :: "string \<Rightarrow> string list \<Rightarrow> string" where
  "join_with sep [] = []"
| "join_with sep [w] = w"
| "join_with sep (w # ws) = w @ sep @ join_with sep ws"

definition joinSpeechDetectionMethods :: "string \<Rightarrow> string \<Rightarrow> string" where
  "joinSpeechDetectionMethods left right = join_with ''+''
     (sort (remdups (filter (\<lambda>v. v \<noteq> []) (map TrimSpace (split_at_char (CHR ''+'') (left @ ''+'' @ right))))))"

section \<open>Pauses\<close>

definition all_words :: "speech_utterance list \<Rightarrow> speech_word list" where
  "all_words us = sort_key sw_StartFrame (concat (map su_Words us))"

definition word_gap :: "(string \<Rightarrow> string) \<Rightarrow> string \<Rightarrow> speech_word \<Rightarrow> speech_word \<Rightarrow> speech_pause list" where
  "word_gap sha assetID before after = (let s = sw_EndFrame before; e = sw_StartFrame after;
       ds = i64 (s + 2); de = i64 (e - 2)
     in if i64 (e - s) < 5 \<or> de \<le> ds then [] else [\<lparr>sp_ID = StableSpeechID sha ''pause'' assetID s e ''asr_word_gap'',
          sp_StartFrame = s, sp_EndFrame = e, sp_DeleteStart = ds, sp_DeleteEnd = de, sp_Method = ''asr_word_gap''\<rparr>])"

definition DeriveASRWordGaps :: "(string \<Rightarrow> string) \<Rightarrow> string \<Rightarrow> speech_utterance list \<Rightarrow> speech_pause list" where
  "DeriveASRWordGaps sha assetID us = (let ws = all_words us
     in concat (map (\<lambda>(b, a). word_gap sha assetID b a) (zip ws (tl ws))))"

definition join_pauses :: "speech_pause \<Rightarrow> speech_pause \<Rightarrow> speech_pause" where
  "join_pauses prev v = prev\<lparr>sp_StartFrame := min (sp_StartFrame prev) (sp_StartFrame v),
     sp_EndFrame := max (sp_EndFrame prev) (sp_EndFrame v), sp_DeleteStart := min (sp_DeleteStart prev) (sp_DeleteStart v),
     sp_DeleteEnd := max (sp_DeleteEnd prev) (sp_DeleteEnd v),
     sp_Method := joinSpeechDetectionMethods (sp_Method prev) (sp_Method v)\<rparr>"

definition touches :: "speech_pause \<Rightarrow> speech_pause \<Rightarrow> bool" where
  "touches prev v \<longleftrightarrow> sp_StartFrame v \<le> sp_EndFrame prev"

definition renamed_pause :: "(string \<Rightarrow> string) \<Rightarrow> string \<Rightarrow> speech_pause \<Rightarrow> speech_pause" where
  "renamed_pause sha assetID p =
     p\<lparr>sp_ID := StableSpeechID sha ''pause'' assetID (sp_StartFrame p) (sp_EndFrame p) (sp_Method p)\<rparr>"

definition MergeSpeechPauses :: "(string \<Rightarrow> string) \<Rightarrow> string \<Rightarrow> speech_pause list \<Rightarrow> speech_pause list" where
  "MergeSpeechPauses sha assetID values = map (renamed_pause sha assetID)
     (merge_sweep touches join_pauses (sort_key (\<lambda>p. (sp_StartFrame p, sp_EndFrame p)) values))"

text \<open>
  \<open>ClampSpeechPausesToWordBoundaries\<close>: the parts of the deletion \<open>[cursor, deleteEnd)\<close> between the
  words, and whether a word was met.
\<close>

fun free_segments :: "goint \<Rightarrow> goint \<Rightarrow> speech_word list \<Rightarrow> (goint \<times> goint) list \<times> bool" where
  "free_segments deleteEnd cursor [] = (if cursor < deleteEnd then [(cursor, deleteEnd)] else [], False)"
| "free_segments deleteEnd cursor (w # ws) =
     (if sw_EndFrame w \<le> cursor then free_segments deleteEnd cursor ws
      else if sw_StartFrame w \<ge> deleteEnd then free_segments deleteEnd cursor []
      else let here = (if sw_StartFrame w > cursor then [(cursor, min (sw_StartFrame w) deleteEnd)] else []);
               next = max cursor (sw_EndFrame w)
        in if next \<ge> deleteEnd then (here, True)
           else (here @ fst (free_segments deleteEnd next ws), True))"

definition clamped_item :: "(string \<Rightarrow> string) \<Rightarrow> string \<Rightarrow> speech_pause \<Rightarrow> bool \<Rightarrow> goint \<times> goint \<Rightarrow> speech_pause" where
  "clamped_item sha assetID v clamped seg = (let item = v\<lparr>sp_DeleteStart := fst seg, sp_DeleteEnd := snd seg\<rparr>
     in if clamped \<or> fst seg \<noteq> sp_DeleteStart v \<or> snd seg \<noteq> sp_DeleteEnd v
        then let m = joinSpeechDetectionMethods (sp_Method item) ''word_boundary_clamped''
          in item\<lparr>sp_Method := m, sp_ID := StableSpeechID sha ''pause'' assetID (sp_StartFrame item) (sp_EndFrame item)
               (m @ '':'' @ show_int (fst seg) @ '':'' @ show_int (snd seg))\<rparr>
        else item)"

definition minimumSafeDeleteFrames :: goint where "minimumSafeDeleteFrames = 5"

definition clamp_pause :: "(string \<Rightarrow> string) \<Rightarrow> string \<Rightarrow> speech_word list \<Rightarrow> speech_pause \<Rightarrow> speech_pause list" where
  "clamp_pause sha assetID ws v = (let (segs, clamped) = free_segments (sp_DeleteEnd v) (sp_DeleteStart v) ws;
       segs' = (if \<not> clamped \<and> segs = [] then [(sp_DeleteStart v, sp_DeleteEnd v)] else segs)
     in map (clamped_item sha assetID v clamped) (filter (\<lambda>(s, e). \<not> i64 (e - s) < minimumSafeDeleteFrames) segs'))"

definition ClampSpeechPausesToWordBoundaries :: "(string \<Rightarrow> string) \<Rightarrow> string \<Rightarrow> speech_pause list \<Rightarrow> speech_utterance list
  \<Rightarrow> speech_pause list" where
  "ClampSpeechPausesToWordBoundaries sha assetID values us = sort_key (\<lambda>p. (sp_DeleteStart p, sp_DeleteEnd p))
     (concat (map (clamp_pause sha assetID (all_words us)) values))"

section \<open>Persisted form\<close>

definition interfaceString :: "gval \<Rightarrow> string" where
  "interfaceString v = stringValue v"

text \<open>\<open>NumericValue\<close>: unlike \<open>numericValue\<close> it knows neither \<open>int64\<close> nor a check for NaN.\<close>

fun NumericValue :: "gval \<Rightarrow> f64 option" where
  "NumericValue (GFloat x) = Some x"
| "NumericValue (GInt n) = Some (f_of_int n)"
| "NumericValue _ = None"

definition encodeSpeechWord :: "speech_word \<Rightarrow> gmap" where
  "encodeSpeechWord w = [(''word_id'', GStr (sw_ID w)), (''source_start_frame'', GInt (sw_StartFrame w)),
     (''source_end_frame'', GInt (sw_EndFrame w)), (''text'', GStr (sw_Text w)), (''punctuation'', GStr (sw_Punctuation w))]"

definition opt_field :: "string \<Rightarrow> string \<Rightarrow> gmap" where
  "opt_field k v = (if v = [] then [] else [(k, GStr v)])"

definition encodeSpeechUtterance :: "speech_utterance \<Rightarrow> gmap" where
  "encodeSpeechUtterance u = [(''utterance_id'', GStr (su_ID u)), (''source_start_frame'', GInt (su_StartFrame u)),
     (''source_end_frame'', GInt (su_EndFrame u)), (''text'', GStr (su_Text u)),
     (''words'', GArr (map (GObj \<circ> encodeSpeechWord) (su_Words u)))]
     @ opt_field ''language'' (su_Language u) @ opt_field ''emotion'' (su_Emotion u)"

definition EncodeSpeechUtterances :: "speech_utterance list \<Rightarrow> gmap list" where
  "EncodeSpeechUtterances us = map encodeSpeechUtterance us"

definition encodeSpeechPause :: "speech_pause \<Rightarrow> gmap" where
  "encodeSpeechPause p = [(''pause_id'', GStr (sp_ID p)), (''source_start_frame'', GInt (sp_StartFrame p)),
     (''source_end_frame'', GInt (sp_EndFrame p)), (''delete_start_frame'', GInt (sp_DeleteStart p)),
     (''delete_end_frame'', GInt (sp_DeleteEnd p))] @ opt_field ''detection_method'' (sp_Method p)"

definition EncodeSpeechPauses :: "speech_pause list \<Rightarrow> gmap list" where
  "EncodeSpeechPauses ps = map encodeSpeechPause ps"

datatype transcript_error = InvalidUtterance | InvalidWord | InvalidWords | InvalidPause

text \<open>A frame: zero when the value is no number.\<close>

definition frame_of :: "f64 option \<Rightarrow> goint" where
  "frame_of v = int_of_f (case v of None \<Rightarrow> Fin 0 | Some x \<Rightarrow> x)"

definition decodeSpeechWord :: "gmap \<Rightarrow> transcript_error + speech_word" where
  "decodeSpeechWord m = (let s = NumericValue (gget m ''source_start_frame''); e = NumericValue (gget m ''source_end_frame'');
       w = \<lparr>sw_ID = interfaceString (gget m ''word_id''), sw_StartFrame = frame_of s, sw_EndFrame = frame_of e,
            sw_Text = interfaceString (gget m ''text''), sw_Punctuation = interfaceString (gget m ''punctuation'')\<rparr>
     in if sw_ID w = [] \<or> sw_Text w = [] \<or> s = None \<or> e = None \<or> sw_EndFrame w \<le> sw_StartFrame w
        then Inl InvalidWord else Inr w)"

fun word_object :: "gval \<Rightarrow> transcript_error + gmap" where
  "word_object (GObj m) = Inr m"
| "word_object GNilMap = Inr []"
| "word_object _ = Inl InvalidWord"

definition decodeSpeechWords :: "gval \<Rightarrow> transcript_error + speech_word list" where
  "decodeSpeechWords raw = (case raw of GNil \<Rightarrow> Inr []
     | GArr vs \<Rightarrow> bind_sum (map_bind word_object vs) (\<lambda>ms.
         bind_sum (map_bind decodeSpeechWord ms) (\<lambda>ws. Inr (sort_key sw_StartFrame ws)))
     | _ \<Rightarrow> Inl InvalidWords)"

definition decodeSpeechUtterance :: "gmap \<Rightarrow> transcript_error + speech_utterance" where
  "decodeSpeechUtterance m = (let s = NumericValue (gget m ''source_start_frame''); e = NumericValue (gget m ''source_end_frame'');
       u = \<lparr>su_ID = interfaceString (gget m ''utterance_id''), su_StartFrame = frame_of s, su_EndFrame = frame_of e,
            su_Text = interfaceString (gget m ''text''), su_Language = interfaceString (gget m ''language''),
            su_Emotion = interfaceString (gget m ''emotion''), su_Words = []\<rparr>
     in if su_ID u = [] \<or> su_Text u = [] \<or> s = None \<or> e = None \<or> su_EndFrame u \<le> su_StartFrame u
        then Inl InvalidUtterance
        else bind_sum (decodeSpeechWords (gget m ''words'')) (\<lambda>ws. Inr (u\<lparr>su_Words := ws\<rparr>)))"

definition DecodeSpeechUtterances :: "gmap list \<Rightarrow> transcript_error + speech_utterance list" where
  "DecodeSpeechUtterances ms = bind_sum (map_bind decodeSpeechUtterance ms) (\<lambda>us. Inr (sort_key su_StartFrame us))"

definition decodeSpeechPause :: "gmap \<Rightarrow> transcript_error + speech_pause" where
  "decodeSpeechPause m = (let s = NumericValue (gget m ''source_start_frame''); e = NumericValue (gget m ''source_end_frame'');
       ds = NumericValue (gget m ''delete_start_frame''); de = NumericValue (gget m ''delete_end_frame'');
       p = \<lparr>sp_ID = interfaceString (gget m ''pause_id''), sp_StartFrame = frame_of s, sp_EndFrame = frame_of e,
            sp_DeleteStart = frame_of ds, sp_DeleteEnd = frame_of de, sp_Method = interfaceString (gget m ''detection_method'')\<rparr>
     in if sp_ID p = [] \<or> s = None \<or> e = None \<or> ds = None \<or> de = None \<or> sp_EndFrame p \<le> sp_StartFrame p
          \<or> sp_DeleteEnd p \<le> sp_DeleteStart p
        then Inl InvalidPause else Inr p)"

definition DecodeSpeechPauses :: "gmap list \<Rightarrow> transcript_error + speech_pause list" where
  "DecodeSpeechPauses ms = map_bind decodeSpeechPause ms"

definition TranscriptHasWordSchema :: "gmap list \<Rightarrow> bool" where
  "TranscriptHasWordSchema ms \<longleftrightarrow> (\<exists>m \<in> set ms. ghas m ''words'')"

end
