(* ===== verification/Speech_Text.thy ===== *)
theory Speech_Text
  imports Speech_Model
begin

text \<open>
  Text comparison of the speech evidence: the longest common subsequence with two rolling rows, and
  the longest repeated fragment inside one utterance.  Texts are lists of code points.
\<close>

section \<open>Longest common subsequence\<close>

text \<open>
  The inner loop over \<open>left\<close>: \<open>previous\<close> is the finished row, \<open>cell\<close> the last entry of the row being
  filled.  The row of the code is cleared before it is filled again, and every entry after the first
  is written, so it is the first entry, zero, followed by these.
\<close>

fun lcs_row :: "'a \<Rightarrow> 'a list \<Rightarrow> nat list \<Rightarrow> nat \<Rightarrow> nat list" where
  "lcs_row r (l # ls) (p # p' # ps) cell =
     (let c = (if l = r then p + 1 else max p' cell) in c # lcs_row r ls (p' # ps) c)"
| "lcs_row r _ _ cell = []"

definition lcs_loop :: "'a list \<Rightarrow> 'a list \<Rightarrow> nat list" where
  "lcs_loop left right = foldl (\<lambda>previous r. 0 # lcs_row r left previous 0) (replicate (length left + 1) 0) right"

definition speechLCSLength :: "'a list \<Rightarrow> 'a list \<Rightarrow> nat" where
  "speechLCSLength left right = (let (left, right) = (if length left > length right then (right, left) else (left, right))
     in lcs_loop left right ! length left)"

text \<open>The reference: the length of a longest common subsequence.\<close>

definition common_subseq :: "'a list \<Rightarrow> 'a list \<Rightarrow> 'a list \<Rightarrow> bool" where
  "common_subseq zs xs ys \<longleftrightarrow> subseq zs xs \<and> subseq zs ys"

fun lcs :: "'a list \<Rightarrow> 'a list \<Rightarrow> nat" where
  "lcs [] ys = 0"
| "lcs xs [] = 0"
| "lcs (x # xs) (y # ys) = (if x = y then Suc (lcs xs ys) else max (lcs (x # xs) ys) (lcs xs (y # ys)))"

lemma lcs_Nil2 [simp]: "lcs xs [] = 0"
  by (cases xs) simp_all

lemma lcs_sym: "lcs xs ys = lcs ys xs"
  by (induction xs ys rule: lcs.induct) (auto simp: max.commute)

lemma subseq_tl: "subseq zs (x # xs) \<Longrightarrow> subseq (tl zs) xs"
  by (cases zs) (auto simp: subseq_Cons2_iff dest: subseq_Cons' split: if_splits)

lemma lcs_upper: "common_subseq zs xs ys \<Longrightarrow> length zs \<le> lcs xs ys"
proof (induction xs ys arbitrary: zs rule: lcs.induct)
  case (3 x xs y ys)
  show ?case
  proof (cases "x = y")
    case True
    have "common_subseq (tl zs) xs ys" using "3.prems" by (auto simp: common_subseq_def intro: subseq_tl)
    from "3.IH"(1) [OF True this] True show ?thesis by simp
  next
    case False
    then have "common_subseq zs (x # xs) ys \<or> common_subseq zs xs (y # ys)" using "3.prems"
      by (cases zs) (auto simp: common_subseq_def subseq_Cons2_iff split: if_splits)
    then show ?thesis using "3.IH"(2,3) [OF False] False by (auto simp: max.coboundedI1 max.coboundedI2)
  qed
qed (auto simp: common_subseq_def)

lemma lcs_reached: "\<exists>zs. common_subseq zs xs ys \<and> length zs = lcs xs ys"
proof (induction xs ys rule: lcs.induct)
  case (3 x xs y ys)
  show ?case
  proof (cases "x = y")
    case True
    then obtain zs where "common_subseq zs xs ys" "length zs = lcs xs ys" using 3(1) by blast
    then have "common_subseq (x # zs) (x # xs) (y # ys) \<and> length (x # zs) = lcs (x # xs) (y # ys)"
      using True by (simp add: common_subseq_def)
    then show ?thesis by blast
  next
    case False
    then obtain zs zs' where "common_subseq zs (x # xs) ys" "length zs = lcs (x # xs) ys"
      "common_subseq zs' xs (y # ys)" "length zs' = lcs xs (y # ys)" using 3(2,3) by blast
    then show ?thesis using False by (auto simp: common_subseq_def max_def intro: list_emb_Cons)
  qed
qed (auto simp: common_subseq_def)

lemma subseq_rev_mono: "subseq xs ys \<Longrightarrow> subseq (rev xs) (rev ys)"
  by (induction rule: list_emb.induct) (auto intro: subseq_rev_drop_many list_emb_append_mono)

lemma lcs_rev: "lcs (rev xs) (rev ys) = lcs xs ys"
proof -
  have "lcs us vs \<le> lcs (rev us) (rev vs)" for us vs :: "'a list"
  proof -
    obtain zs where "common_subseq zs us vs" "length zs = lcs us vs" using lcs_reached by blast
    then have "common_subseq (rev zs) (rev us) (rev vs)" "length (rev zs) = lcs us vs"
      by (simp_all add: common_subseq_def subseq_rev_mono)
    then show ?thesis by (metis lcs_upper)
  qed
  from this [of xs ys] this [of "rev xs" "rev ys"] show ?thesis by simp
qed

lemma lcs_snoc: "lcs (xs @ [x]) (ys @ [y]) = (if x = y then Suc (lcs xs ys) else max (lcs (xs @ [x]) ys) (lcs xs (ys @ [y])))"
proof -
  have "lcs (xs @ [x]) (ys @ [y]) = lcs (x # rev xs) (y # rev ys)" using lcs_rev [of "xs @ [x]" "ys @ [y]"] by simp
  also have "\<dots> = (if x = y then Suc (lcs (rev xs) (rev ys))
      else max (lcs (rev (xs @ [x])) (rev ys)) (lcs (rev xs) (rev (ys @ [y]))))" by simp
  finally show ?thesis unfolding lcs_rev .
qed

section \<open>The rolling rows\<close>

text \<open>The row after \<open>right\<close>: for every prefix of \<open>left\<close> the length with that prefix.\<close>

definition lcs_prefixes :: "'a list \<Rightarrow> 'a list \<Rightarrow> 'a list \<Rightarrow> nat list" where
  "lcs_prefixes right pre left = map (\<lambda>zs. lcs (pre @ zs) right) (prefixes left)"

lemma lcs_prefixes_Cons [simp]: "lcs_prefixes right pre (l # ls) = lcs pre right # lcs_prefixes right (pre @ [l]) ls"
  by (simp add: lcs_prefixes_def comp_def)

lemma lcs_prefixes_Nil [simp]: "lcs_prefixes right pre [] = [lcs pre right]"
  by (simp add: lcs_prefixes_def)

lemma lcs_prefixes_hd: "\<exists>ns. lcs_prefixes right pre ls = lcs pre right # ns"
  by (cases ls) auto

lemma lcs_row_correct:
  "lcs pre (right @ [r]) # lcs_row r ls (lcs_prefixes right pre ls) (lcs pre (right @ [r])) = lcs_prefixes (right @ [r]) pre ls"
proof (induction ls arbitrary: pre)
  case (Cons l ls)
  obtain ns where ns: "lcs_prefixes right (pre @ [l]) ls = lcs (pre @ [l]) right # ns" using lcs_prefixes_hd by blast
  have "(if l = r then lcs pre right + 1 else max (lcs (pre @ [l]) right) (lcs pre (right @ [r]))) = lcs (pre @ [l]) (right @ [r])"
    by (simp add: lcs_snoc)
  then show ?case using Cons [of "pre @ [l]"] by (simp add: ns Let_def)
qed simp

lemma lcs_loop_correct: "lcs_loop left right = lcs_prefixes right [] left"
proof (induction right rule: rev_induct)
  case Nil
  have "map (\<lambda>zs. 0) (prefixes left) = replicate (length left + 1) (0 :: nat)" by (simp add: map_replicate_const)
  then show ?case by (simp add: lcs_loop_def lcs_prefixes_def)
next
  case (snoc r right)
  have "lcs_loop left (right @ [r]) = 0 # lcs_row r left (lcs_loop left right) 0" by (simp add: lcs_loop_def)
  then show ?case using lcs_row_correct [of "[]" right r left] by (simp add: snoc)
qed

lemma lcs_loop_length: "lcs_loop left right ! length left = lcs left right"
proof -
  have "last (prefixes zs) = zs \<and> length (prefixes zs) = Suc (length zs)" for zs :: "'a list"
    by (induction zs) (auto simp: last_map)
  then have "prefixes left ! length left = left" "length (prefixes left) = Suc (length left)"
    by (metis diff_Suc_1 last_conv_nth list.size(3) nat.distinct(1), blast)
  then show ?thesis by (simp add: lcs_loop_correct lcs_prefixes_def)
qed

lemma speechLCSLength_lcs: "speechLCSLength left right = lcs left right"
  by (simp add: speechLCSLength_def lcs_loop_length lcs_sym Let_def)

text \<open>
  C35. The comparison with two rolling rows computes the length of a longest common subsequence of the two
  texts: some common subsequence has this length, and none is longer.
\<close>

theorem lcs_length_exact:
  "(\<exists>zs. subseq zs left \<and> subseq zs right \<and> length zs = speechLCSLength left right)
    \<and> Max (length ` {zs. subseq zs left \<and> subseq zs right}) = speechLCSLength left right"
proof -
  let ?S = "{zs. subseq zs left \<and> subseq zs right}"
  obtain zs where zs: "zs \<in> ?S" "length zs = speechLCSLength left right"
    using lcs_reached [of left right] by (auto simp: common_subseq_def speechLCSLength_lcs)
  have "?S \<subseteq> set (subseqs left)" by auto
  then have "finite ?S" using finite_subset by blast
  moreover have "length us \<le> speechLCSLength left right" if "us \<in> ?S" for us
    using that lcs_upper [of us left right] by (simp add: common_subseq_def speechLCSLength_lcs)
  ultimately have "Max (length ` ?S) = speechLCSLength left right"
    using zs by (intro Max_eqI) (auto intro: rev_image_eqI)
  with zs show ?thesis by blast
qed

end
