(* ===== verification/GoJson.thy ===== *)
theory GoJson
  imports GoUtf8 GoValue
begin

text \<open>
  What \<open>json.Marshal\<close> and \<open>json.Unmarshal\<close> do to a text that need not be valid UTF-8: every byte that begins no
  rune comes back as the replacement character.  \<open>json_norm\<close> is the round trip for texts that are valid;
  \<open>json_stored\<close> is the round trip for any text.  The keys of the objects are names in the code.
\<close>

section \<open>Texts\<close>

definition json_string :: "string \<Rightarrow> string" where
  "json_string s = concat (runes s)"

function valid_utf8 :: "string \<Rightarrow> bool" where
  "valid_utf8 s = (if s = [] then True else if rune_width s = 0 then False else valid_utf8 (drop (rune_width s) s))"
  by pat_completeness auto
termination by (relation "measure length") auto

declare valid_utf8.simps [simp del]

lemma json_string_Nil [simp]: "json_string [] = []"
  by (simp add: json_string_def)

lemma json_string_valid: "valid_utf8 s \<Longrightarrow> json_string s = s"
proof (induction s rule: valid_utf8.induct)
  case (1 s)
  show ?case
  proof (cases "s = []")
    case False
    then have w: "rune_width s \<noteq> 0" "valid_utf8 (drop (rune_width s) s)"
      using "1.prems" by (subst (asm) valid_utf8.simps, simp split: if_splits)+
    have "runes s = take (rune_width s) s # runes (drop (rune_width s) s)"
      using False w(1) by (subst runes.simps) (simp add: Let_def)
    then have "json_string s = take (rune_width s) s @ json_string (drop (rune_width s) s)" by (simp add: json_string_def)
    also have "json_string (drop (rune_width s) s) = drop (rune_width s) s" by (rule "1.IH") (use False w in simp_all)
    finally show ?thesis by simp
  qed simp
qed

lemma json_string_eq_Nil [simp]: "json_string s = [] \<longleftrightarrow> s = []"
proof
  assume none: "json_string s = []"
  show "s = []"
  proof (rule ccontr)
    assume "s \<noteq> []"
    then have "\<exists>r rs. runes s = r # rs \<and> r \<noteq> []"
      by (subst runes.simps) (auto simp: rune_error_def bytes_def Let_def)
    with none show False by (auto simp: json_string_def)
  qed
qed simp

text \<open>A text of seven-bit characters is valid.\<close>

lemma ascii_valid: "list_all (\<lambda>c. byte c < 128) s \<Longrightarrow> valid_utf8 s"
proof (induction s)
  case (Cons c s)
  then have "rune_width (c # s) = 1" by (simp add: rune_width_def)
  with Cons show ?case by (subst valid_utf8.simps) simp
qed (subst valid_utf8.simps, simp)

section \<open>Values\<close>

fun json_text :: "gval \<Rightarrow> gval" where
  "json_text (GStr s) = GStr (json_string s)"
| "json_text (GStrs ss) = GStrs (map json_string ss)"
| "json_text (GArr vs) = GArr (map json_text vs)"
| "json_text (GObj m) = GObj (map (\<lambda>(k, v). (k, json_text v)) m)"
| "json_text v = v"

definition json_stored :: "gmap \<Rightarrow> gmap" where
  "json_stored m = json_norm_map (map (\<lambda>(k, v). (k, json_text v)) m)"

lemma gget_stored: "gget (json_stored m) k = json_norm (json_text (gget m k))"
proof -
  have "map_of (map (\<lambda>(k, v). (k, json_text v)) m) k = map_option json_text (map_of m k)" by (induction m) auto
  then show ?thesis by (simp add: gget_def json_stored_def map_of_json_norm_map split: option.split)
qed

end
