(* ===== verification/Speech_Pauses.thy ===== *)
theory Speech_Pauses
  imports Speech_Text GoJson
begin

text \<open>
  What the speech evidence promises about frames: recognition chunks tile the asset, merged pauses
  are apart and cover their inputs, a clamped deletion never touches a word, and transcripts survive
  their JSON form.
\<close>

section \<open>Chunks\<close>

fun chunks_tile :: "goint \<Rightarrow> (goint \<times> goint) list \<Rightarrow> goint \<Rightarrow> bool" where
  "chunks_tile from [] til \<longleftrightarrow> from = til"
| "chunks_tile from ((s, e) # cs) til \<longleftrightarrow> s = from \<and> s < e \<and> chunks_tile e cs til"

lemma fold_last_match:
  "fold (\<lambda>p e. if P (f p) then f p else e) ps e = e \<or> P (fold (\<lambda>p e. if P (f p) then f p else e) ps e)"
proof (induction ps arbitrary: e)
  case (Cons p ps)
  show ?case
  proof (cases "P (f p)")
    case True
    have "P (fold (\<lambda>p e. if P (f p) then f p else e) ps (f p))" using Cons.IH [of "f p"] True by metis
    with True show ?thesis by simp
  next
    case False
    then show ?thesis using Cons.IH [of e] by simp
  qed
qed simp

lemma chunk_cut_range:
  "chunk_cut pauses start limit = limit \<or> (i64 (start + DefaultFPS * 3) < chunk_cut pauses start limit \<and> chunk_cut pauses start limit \<le> limit)"
  using fold_last_match [of "\<lambda>m. i64 (start + DefaultFPS * 3) < m \<and> m \<le> limit" "\<lambda>p. i64 (sp_StartFrame p + sp_EndFrame p) sdiv 2" pauses limit]
  by (simp add: chunk_cut_def Let_def)

lemma asr_chunks_from_tile:
  assumes "0 < maxFrames" and "maxFrames \<le> 2 ^ 62" and "durationFrames \<le> 2 ^ 62" and "0 \<le> start" and "start \<le> durationFrames"
  shows "\<exists>cs. asr_chunks_from durationFrames pauses maxFrames start = Some cs \<and> chunks_tile start cs durationFrames
     \<and> list_all (\<lambda>(s, e). e - s \<le> maxFrames) cs"
  using assms(4,5)
proof (induction "nat (durationFrames - start)" arbitrary: start rule: less_induct)
  case less
  show ?case
  proof (cases "start < durationFrames")
    case False
    then show ?thesis using less.prems by (subst asr_chunks_from.simps) simp
  next
    case True
    let ?limit = "min durationFrames (start + maxFrames)"
    let ?cut = "chunk_cut pauses start ?limit"
    let ?e = "if ?cut \<le> start then ?limit else ?cut"
    have i: "i64 (start + maxFrames) = start + maxFrames" "i64 (start + DefaultFPS * 3) = start + DefaultFPS * 3"
      using assms less.prems True by (simp_all add: DefaultFPS_def)
    have e: "start < ?e" "?e \<le> ?limit"
      using chunk_cut_range [of pauses start ?limit] assms(1) True by auto
    then obtain cs where cs: "asr_chunks_from durationFrames pauses maxFrames ?e = Some cs" "chunks_tile ?e cs durationFrames"
      "list_all (\<lambda>(s, e). e - s \<le> maxFrames) cs"
      using less.hyps [of ?e] less.prems True by auto
    have "asr_chunks_from durationFrames pauses maxFrames start = Some ((start, ?e) # cs)"
      using True cs(1) by (subst asr_chunks_from.simps) (simp add: i Let_def)
    then show ?thesis using cs e by auto
  qed
qed

text \<open>
  C33. Cutting an asset for recognition terminates and yields consecutive non-empty chunks that cover it
  from its first to its last frame, none longer than the limit, wherever the pauses lie.
\<close>

theorem asr_chunks_cover:
  assumes "0 < durationFrames" and "durationFrames \<le> 2 ^ 62" and "maxFrames \<le> 2 ^ 62"
  shows "\<exists>cs. BuildASRChunks durationFrames pauses maxFrames = Some cs \<and> chunks_tile 0 cs durationFrames
     \<and> list_all (\<lambda>(s, e). e - s \<le> (if maxFrames \<le> 0 then 750 else maxFrames)) cs"
  using asr_chunks_from_tile [of "if maxFrames \<le> 0 then 750 else maxFrames" durationFrames 0 pauses] assms
  by (cases "maxFrames \<le> 0") (simp_all add: BuildASRChunks_def MaxASRChunkFrames_def DefaultFPS_def)

section \<open>Merged pauses\<close>

interpretation speech: exact_merge sp_StartFrame sp_EndFrame touches join_pauses
  by unfold_locales (auto simp: join_pauses_def touches_def)

lemma renamed_fields [simp]:
  "sp_StartFrame (renamed_pause sha a p) = sp_StartFrame p" "sp_EndFrame (renamed_pause sha a p) = sp_EndFrame p"
  "sp_DeleteStart (renamed_pause sha a p) = sp_DeleteStart p" "sp_DeleteEnd (renamed_pause sha a p) = sp_DeleteEnd p"
  by (simp_all add: renamed_pause_def)

lemma apart_map: "(\<And>x y. near (f x) (f y) = near x y) \<Longrightarrow> apart near (map f xs) = apart near xs"
  by (induction near xs rule: apart.induct) auto

lemma sorted_starts: "sorted (map sp_StartFrame (sort_key (\<lambda>p. (sp_StartFrame p, sp_EndFrame p)) ps))"
proof -
  have "sorted (map (\<lambda>p. (sp_StartFrame p, sp_EndFrame p)) (sort_key (\<lambda>p. (sp_StartFrame p, sp_EndFrame p)) ps))" by simp
  then show ?thesis by (auto simp: sorted_map less_eq_prod_def elim!: sorted_wrt_mono_rel [rotated])
qed

text \<open>
  C36. Merging pauses leaves pauses that are sorted and do not touch, and together they cover exactly the
  frames of the given pauses; every given pause lies inside one of them, and the ends of a result are
  ends of given pauses.
\<close>

theorem merged_pauses_apart:
  "apart touches (MergeSpeechPauses sha assetID ps)
   \<and> sorted (map sp_StartFrame (MergeSpeechPauses sha assetID ps))
   \<and> (\<Union>m \<in> set (MergeSpeechPauses sha assetID ps). {sp_StartFrame m ..< sp_EndFrame m})
      = (\<Union>p \<in> set ps. {sp_StartFrame p ..< sp_EndFrame p})
   \<and> [p \<leftarrow> ps. [m \<leftarrow> MergeSpeechPauses sha assetID ps. sp_StartFrame m \<le> sp_StartFrame p \<and> sp_EndFrame p \<le> sp_EndFrame m] = []] = []
   \<and> sp_StartFrame ` set (MergeSpeechPauses sha assetID ps) \<subseteq> sp_StartFrame ` set ps
   \<and> sp_EndFrame ` set (MergeSpeechPauses sha assetID ps) \<subseteq> sp_EndFrame ` set ps"
proof -
  define ms where "ms = merge_sweep touches join_pauses (sort_key (\<lambda>p. (sp_StartFrame p, sp_EndFrame p)) ps)"
  have "speech.swept (sort_key (\<lambda>p. (sp_StartFrame p, sp_EndFrame p)) ps) ms"
    unfolding ms_def by (rule speech.swept_sweep) (rule sorted_starts)
  moreover have "sort_key k xs = [] \<longleftrightarrow> xs = []" for k :: "speech_pause \<Rightarrow> int \<times> int" and xs
    by (metis set_empty set_sort)
  ultimately have swept: "speech.swept ps ms" by (simp add: speech.swept_def)
  have result: "MergeSpeechPauses sha assetID ps = map (renamed_pause sha assetID) ms"
    by (simp add: MergeSpeechPauses_def ms_def)
  have "apart touches (map (renamed_pause sha assetID) ms) = apart touches ms"
    by (rule apart_map) (simp add: touches_def)
  then have f1: "apart touches (MergeSpeechPauses sha assetID ps)" using swept by (simp add: result speech.swept_def)
  have f2: "sorted (map sp_StartFrame (MergeSpeechPauses sha assetID ps))"
    using swept by (simp add: result speech.swept_def comp_def)
  have "\<forall>p \<in> set ps. [m \<leftarrow> MergeSpeechPauses sha assetID ps. sp_StartFrame m \<le> sp_StartFrame p \<and> sp_EndFrame p \<le> sp_EndFrame m] \<noteq> []"
  proof
    fix p
    assume "p \<in> set ps"
    then obtain m where "m \<in> set ms" "sp_StartFrame m \<le> sp_StartFrame p" "sp_EndFrame p \<le> sp_EndFrame m"
      using swept unfolding speech.swept_def by blast
    then show "[m \<leftarrow> MergeSpeechPauses sha assetID ps. sp_StartFrame m \<le> sp_StartFrame p \<and> sp_EndFrame p \<le> sp_EndFrame m] \<noteq> []"
      by (auto simp: result filter_empty_conv)
  qed
  then have f3: "[p \<leftarrow> ps. [m \<leftarrow> MergeSpeechPauses sha assetID ps. sp_StartFrame m \<le> sp_StartFrame p \<and> sp_EndFrame p \<le> sp_EndFrame m] = []] = []"
    by (rule filter_False)
  have "sp_StartFrame ` set ms \<subseteq> sp_StartFrame ` set ps" "sp_EndFrame ` set ms \<subseteq> sp_EndFrame ` set ps"
    using speech.swept_ends [OF swept] by blast+
  then have f4: "sp_StartFrame ` set (MergeSpeechPauses sha assetID ps) \<subseteq> sp_StartFrame ` set ps"
    "sp_EndFrame ` set (MergeSpeechPauses sha assetID ps) \<subseteq> sp_EndFrame ` set ps"
    by (simp_all add: result image_image)
  have "speech.covered ms = speech.covered (sort_key (\<lambda>p. (sp_StartFrame p, sp_EndFrame p)) ps)"
    unfolding ms_def by (rule speech.sweep_covers) (rule sorted_starts)
  then have f5: "(\<Union>m \<in> set (MergeSpeechPauses sha assetID ps). {sp_StartFrame m ..< sp_EndFrame m})
      = (\<Union>p \<in> set ps. {sp_StartFrame p ..< sp_EndFrame p})"
    by (simp add: result speech.covered_def)
  show ?thesis by (intro conjI f1 f2 f3 f4 f5)
qed

section \<open>Clamped deletions\<close>

text \<open>A range and a word have a frame in common.\<close>

definition meets :: "goint \<Rightarrow> goint \<Rightarrow> speech_word \<Rightarrow> bool" where
  "meets s e w \<longleftrightarrow> sw_StartFrame w < e \<and> s < sw_EndFrame w"

lemma free_segments_range: "(s, e) \<in> set (fst (free_segments deleteEnd cursor ws)) \<Longrightarrow> cursor \<le> s \<and> s < e \<and> e \<le> deleteEnd"
  by (induction deleteEnd cursor ws rule: free_segments.induct) (fastforce simp: Let_def split: if_splits)+

lemma free_segments_spare:
  assumes "(s, e) \<in> set (fst (free_segments deleteEnd cursor ws))" and "sorted (map sw_StartFrame ws)" and "w \<in> set ws"
  shows "\<not> meets s e w"
  using assms
proof (induction deleteEnd cursor ws rule: free_segments.induct)
  case (2 deleteEnd cursor v ws)
  have later: "sw_StartFrame v \<le> sw_StartFrame u" if "u \<in> set ws" for u using "2.prems"(2) that by simp
  consider "sw_EndFrame v \<le> cursor" | "sw_EndFrame v > cursor" "sw_StartFrame v \<ge> deleteEnd"
    | "sw_EndFrame v > cursor" "sw_StartFrame v < deleteEnd" by linarith
  then show ?case
  proof cases
    case 1
    then have old: "(s, e) \<in> set (fst (free_segments deleteEnd cursor ws))" using "2.prems"(1) by simp
    have "sw_EndFrame v \<le> s" using free_segments_range [OF old] 1 by simp
    then show ?thesis using "2.IH"(1) [OF 1 old] "2.prems"(2,3) by (auto simp: meets_def)
  next
    case 2
    then have "e \<le> deleteEnd" using "2.prems"(1) free_segments_range [of s e deleteEnd cursor "v # ws"] by blast
    then show ?thesis using 2 "2.prems"(3) later by (force simp: meets_def)
  next
    case 3
    let ?next = "max cursor (sw_EndFrame v)"
    have "(s, e) = (cursor, min (sw_StartFrame v) deleteEnd) \<or>
        ?next < deleteEnd \<and> (s, e) \<in> set (fst (free_segments deleteEnd ?next ws))"
      using "2.prems"(1) 3 by (auto simp: Let_def split: if_splits)
    then show ?thesis
    proof
      assume "(s, e) = (cursor, min (sw_StartFrame v) deleteEnd)"
      then show ?thesis using "2.prems"(3) later by (force simp: meets_def)
    next
      assume rest: "?next < deleteEnd \<and> (s, e) \<in> set (fst (free_segments deleteEnd ?next ws))"
      then have "sw_EndFrame v \<le> s" using free_segments_range [of s e deleteEnd ?next ws] by simp
      moreover have "\<not> meets s e w" if "w \<in> set ws"
        using "2.IH"(3) [of "if sw_StartFrame v > cursor then [(cursor, min (sw_StartFrame v) deleteEnd)] else []" ?next]
          3 rest that "2.prems"(2) by simp
      ultimately show ?thesis using "2.prems"(3) by (auto simp: meets_def)
    qed
  qed
qed simp

lemma free_segments_none: "fst (free_segments deleteEnd cursor ws) = [] \<Longrightarrow> \<not> snd (free_segments deleteEnd cursor ws) \<Longrightarrow> deleteEnd \<le> cursor"
  by (induction deleteEnd cursor ws rule: free_segments.induct) (auto simp: Let_def split: if_splits)

lemma clamped_item_fields [simp]:
  "sp_DeleteStart (clamped_item sha a v c seg) = fst seg" "sp_DeleteEnd (clamped_item sha a v c seg) = snd seg"
  "sp_StartFrame (clamped_item sha a v c seg) = sp_StartFrame v" "sp_EndFrame (clamped_item sha a v c seg) = sp_EndFrame v"
  by (simp_all add: clamped_item_def Let_def)

definition inside_pause :: "speech_pause \<Rightarrow> speech_pause \<Rightarrow> bool" where
  "inside_pause p v \<longleftrightarrow> sp_StartFrame p = sp_StartFrame v \<and> sp_EndFrame p = sp_EndFrame v
     \<and> sp_DeleteStart v \<le> sp_DeleteStart p \<and> sp_DeleteEnd p \<le> sp_DeleteEnd v"

definition small_delete :: "speech_pause \<Rightarrow> bool" where
  "small_delete v \<longleftrightarrow> \<bar>sp_DeleteStart v\<bar> < 2 ^ 62 \<and> \<bar>sp_DeleteEnd v\<bar> < 2 ^ 62"

lemma clamp_pause_spares:
  assumes "p \<in> set (clamp_pause sha assetID ws v)" and "sorted (map sw_StartFrame ws)" and "small_delete v"
  shows "inside_pause p v \<and> sp_DeleteEnd p - sp_DeleteStart p \<ge> 5 \<and> (\<forall>w \<in> set ws. \<not> meets (sp_DeleteStart p) (sp_DeleteEnd p) w)"
proof -
  obtain segs clamped where r: "free_segments (sp_DeleteEnd v) (sp_DeleteStart v) ws = (segs, clamped)" by fastforce
  obtain s e where p: "p = clamped_item sha assetID v clamped (s, e)" and long: "\<not> i64 (e - s) < 5"
    and seg: "(s, e) \<in> set segs \<or> segs = [] \<and> (s, e) = (sp_DeleteStart v, sp_DeleteEnd v)"
    using assms(1) by (auto simp: clamp_pause_def r minimumSafeDeleteFrames_def split: if_splits)
  have "(s, e) \<in> set segs"
  proof (rule ccontr)
    assume "(s, e) \<notin> set segs"
    then have se: "segs = []" "(s, e) = (sp_DeleteStart v, sp_DeleteEnd v)" and "\<not> clamped"
      using assms(1) seg p by (auto simp: clamp_pause_def r split: if_splits)
    then have "e \<le> s" using free_segments_none [of "sp_DeleteEnd v" "sp_DeleteStart v" ws] r by simp
    moreover from this have "i64 (e - s) = e - s" using se(2) assms(3) by (intro i64_id) (auto simp: small_delete_def abs_less_iff)
    ultimately show False using long by simp
  qed
  then have range: "sp_DeleteStart v \<le> s \<and> s < e \<and> e \<le> sp_DeleteEnd v" and "\<forall>w \<in> set ws. \<not> meets s e w"
    using free_segments_range [of s e "sp_DeleteEnd v" "sp_DeleteStart v" ws]
      free_segments_spare [of s e "sp_DeleteEnd v" "sp_DeleteStart v" ws] assms(2) r by simp_all
  moreover have "i64 (e - s) = e - s" using range assms(3) by (intro i64_id) (auto simp: small_delete_def abs_less_iff)
  ultimately show ?thesis using p long by (simp add: inside_pause_def)
qed

text \<open>
  C34. Clamping pauses to the words of a transcript spares every word: each remaining deletion lies inside
  the deletion of an input pause, is at least five frames long and has no frame in common with any
  word of any utterance.
\<close>

theorem clamped_pauses_spare_words:
  assumes "list_all small_delete ps"
  shows "list_all (\<lambda>p. list_ex (inside_pause p) ps \<and> sp_DeleteEnd p - sp_DeleteStart p \<ge> 5
      \<and> list_all (\<lambda>u. list_all (\<lambda>w. \<not> meets (sp_DeleteStart p) (sp_DeleteEnd p) w) (su_Words u)) us)
    (ClampSpeechPausesToWordBoundaries sha assetID ps us)"
  unfolding list_all_iff
proof
  fix p
  assume "p \<in> set (ClampSpeechPausesToWordBoundaries sha assetID ps us)"
  then obtain v where v: "v \<in> set ps" "p \<in> set (clamp_pause sha assetID (all_words us) v)"
    by (auto simp: ClampSpeechPausesToWordBoundaries_def)
  have "sorted (map sw_StartFrame (all_words us))" by (simp add: all_words_def)
  moreover have "small_delete v" using assms v(1) by (simp add: list_all_iff)
  ultimately have p: "inside_pause p v" "sp_DeleteEnd p - sp_DeleteStart p \<ge> 5"
    "\<forall>w \<in> set (all_words us). \<not> meets (sp_DeleteStart p) (sp_DeleteEnd p) w"
    using clamp_pause_spares [OF v(2)] by blast+
  have "list_ex (inside_pause p) ps" using v(1) p(1) by (auto simp: list_ex_iff)
  moreover have "\<forall>u \<in> set us. \<forall>w \<in> set (su_Words u). \<not> meets (sp_DeleteStart p) (sp_DeleteEnd p) w"
    using p(3) by (auto simp: all_words_def)
  ultimately show "list_ex (inside_pause p) ps \<and> sp_DeleteEnd p - sp_DeleteStart p \<ge> 5
      \<and> (\<forall>u \<in> set us. \<forall>w \<in> set (su_Words u). \<not> meets (sp_DeleteStart p) (sp_DeleteEnd p) w)"
    using p(2) by blast
qed

section \<open>Persisted transcripts\<close>

definition exact_frame :: "goint \<Rightarrow> bool" where
  "exact_frame n \<longleftrightarrow> \<bar>n\<bar> \<le> 9007199254740992"

definition word_valid :: "speech_word \<Rightarrow> bool" where
  "word_valid w \<longleftrightarrow> sw_ID w \<noteq> [] \<and> sw_Text w \<noteq> [] \<and> sw_StartFrame w < sw_EndFrame w
     \<and> exact_frame (sw_StartFrame w) \<and> exact_frame (sw_EndFrame w)"

definition utterance_valid :: "speech_utterance \<Rightarrow> bool" where
  "utterance_valid u \<longleftrightarrow> su_ID u \<noteq> [] \<and> su_Text u \<noteq> [] \<and> su_StartFrame u < su_EndFrame u
     \<and> exact_frame (su_StartFrame u) \<and> exact_frame (su_EndFrame u)
     \<and> list_all word_valid (su_Words u) \<and> sorted (map sw_StartFrame (su_Words u))"

text \<open>
  What comes back: texts that are not valid UTF-8, such as those of a subtitle file in another encoding, have
  their bad bytes replaced.
\<close>

definition readable_word :: "speech_word \<Rightarrow> speech_word" where
  "readable_word w = w\<lparr>sw_ID := json_string (sw_ID w), sw_Text := json_string (sw_Text w),
     sw_Punctuation := json_string (sw_Punctuation w)\<rparr>"

definition readable_utterance :: "speech_utterance \<Rightarrow> speech_utterance" where
  "readable_utterance u = u\<lparr>su_ID := json_string (su_ID u), su_Text := json_string (su_Text u),
     su_Language := json_string (su_Language u), su_Emotion := json_string (su_Emotion u),
     su_Words := map readable_word (su_Words u)\<rparr>"

definition word_utf8 :: "speech_word \<Rightarrow> bool" where
  "word_utf8 w \<longleftrightarrow> valid_utf8 (sw_ID w) \<and> valid_utf8 (sw_Text w) \<and> valid_utf8 (sw_Punctuation w)"

definition utterance_utf8 :: "speech_utterance \<Rightarrow> bool" where
  "utterance_utf8 u \<longleftrightarrow> valid_utf8 (su_ID u) \<and> valid_utf8 (su_Text u) \<and> valid_utf8 (su_Language u)
     \<and> valid_utf8 (su_Emotion u) \<and> list_all word_utf8 (su_Words u)"

lemma readable_same: "utterance_utf8 u \<Longrightarrow> readable_utterance u = u"
proof -
  have "readable_word w = w" if "word_utf8 w" for w
    using that by (simp add: readable_word_def word_utf8_def json_string_valid)
  then have "map readable_word ws = ws" if "list_all word_utf8 ws" for ws
    using that by (induction ws) simp_all
  then show "utterance_utf8 u \<Longrightarrow> ?thesis" by (simp add: readable_utterance_def utterance_utf8_def json_string_valid)
qed

lemma frame_exact: "exact_frame n \<Longrightarrow> frame_of (Some (f_of_int n)) = n"
  by (auto simp: frame_of_def exact_frame_def trunc_rat_def abs_le_iff)

lemma decode_word: "word_valid w \<Longrightarrow> decodeSpeechWord (json_stored (encodeSpeechWord w)) = Inr (readable_word w)"
  by (simp add: decodeSpeechWord_def gget_stored encodeSpeechWord_def word_valid_def readable_word_def interfaceString_def
      frame_exact Let_def del: f_of_int_exact)

lemma decode_words:
  assumes "list_all word_valid ws" and "sorted (map sw_StartFrame ws)"
  shows "decodeSpeechWords (json_norm (json_text (GArr (map (GObj \<circ> encodeSpeechWord) ws)))) = Inr (map readable_word ws)"
proof -
  have "map_bind word_object (map (\<lambda>w. GObj (json_stored (encodeSpeechWord w))) ws) = Inr (map (\<lambda>w. json_stored (encodeSpeechWord w)) ws)"
    by (rule map_bind_map) simp
  moreover have "map_bind decodeSpeechWord (map (\<lambda>w. json_stored (encodeSpeechWord w)) ws) = Inr (map readable_word ws)"
    by (rule map_bind_map) (use assms(1) in \<open>simp add: decode_word list_all_iff\<close>)
  moreover have "sorted (map sw_StartFrame (map readable_word ws))" using assms(2) by (simp add: readable_word_def comp_def)
  ultimately show ?thesis
    by (simp add: decodeSpeechWords_def comp_def json_stored_def json_norm_map_def sort_key_id_if_sorted split_beta)
qed

lemma opt_field_get [simp]: "gget (opt_field k v @ m) k' = (if k' = k \<and> v \<noteq> [] then GStr v else gget m k')"
  "gget (opt_field k v) k' = (if k' = k \<and> v \<noteq> [] then GStr v else GNil)"
  by (simp_all add: opt_field_def)

lemma decode_utterance:
  assumes "utterance_valid u"
  shows "decodeSpeechUtterance (json_stored (encodeSpeechUtterance u)) = Inr (readable_utterance u)"
proof -
  have "decodeSpeechWords (gget (json_stored (encodeSpeechUtterance u)) ''words'') = Inr (map readable_word (su_Words u))"
    using decode_words [of "su_Words u"] assms
    by (simp only: gget_stored) (simp add: encodeSpeechUtterance_def utterance_valid_def)
  then show ?thesis using assms
    by (simp add: decodeSpeechUtterance_def gget_stored encodeSpeechUtterance_def utterance_valid_def readable_utterance_def
        interfaceString_def frame_exact Let_def del: f_of_int_exact)
qed

text \<open>
  C37. A valid transcript survives its persisted form: encoded, stored as JSON and decoded, sorted
  utterances come back with all their words, unchanged when their texts are valid UTF-8; in any other text
  the bad bytes have become replacement characters.
\<close>

theorem transcript_roundtrip:
  assumes "list_all utterance_valid us" and "sorted (map su_StartFrame us)"
  shows "DecodeSpeechUtterances (map json_stored (EncodeSpeechUtterances us)) = Inr (map readable_utterance us)
    \<and> [u \<leftarrow> us. utterance_utf8 u \<and> readable_utterance u \<noteq> u] = []"
proof
  have "map_bind decodeSpeechUtterance (map (\<lambda>u. json_stored (encodeSpeechUtterance u)) us) = Inr (map readable_utterance us)"
    by (rule map_bind_map) (use assms(1) in \<open>simp add: decode_utterance list_all_iff\<close>)
  moreover have "sorted (map su_StartFrame (map readable_utterance us))"
    using assms(2) by (simp add: readable_utterance_def comp_def)
  ultimately show "DecodeSpeechUtterances (map json_stored (EncodeSpeechUtterances us)) = Inr (map readable_utterance us)"
    by (simp add: DecodeSpeechUtterances_def EncodeSpeechUtterances_def comp_def sort_key_id_if_sorted)
  show "[u \<leftarrow> us. utterance_utf8 u \<and> readable_utterance u \<noteq> u] = []"
    by (auto simp: filter_empty_conv readable_same)
qed

end
