(* ===== verification/Media_Pauses.thy ===== *)
theory Media_Pauses
  imports Speech_Model
begin

text \<open>
  Detection of pauses in speech (\<open>media/speech_pauses.go\<close>) after \<open>ffmpeg\<close> has run: pairing the
  reported seconds, turning ranges into deletable frames, collecting flagged frames into breath
  ranges and merging both.  What \<open>ffmpeg\<close> prints enters as the parsed numbers; a second is a
  finite \<open>float64\<close>, given by its value.  \<open>sort.Slice\<close> may order equal keys either way; the model
  keeps their order.
\<close>

section \<open>Options\<close>

record pause_options =
  po_ThresholdDB :: f64
  po_MinPauseFrames :: goint
  po_KeepEdgeFrames :: goint
  po_MaxPauses :: goint
  po_IncludeBoundaries :: bool

text \<open>\<open>int(math.Round(x * float64(fps)))\<close>\<close>

definition frames_at :: "goint \<Rightarrow> rat \<Rightarrow> goint" where
  "frames_at fps x = int_of_f (Round (fmul (Fin x) (f_of_int fps)))"

definition fmin :: "f64 \<Rightarrow> f64 \<Rightarrow> f64" where
  "fmin x y = fneg (fmax (fneg x) (fneg y))"

text \<open>The literals \<open>0.18\<close> and \<open>0.06\<close> are the nearest \<open>float64\<close> values.\<close>

definition fps_share :: "goint \<Rightarrow> rat \<Rightarrow> goint" where
  "fps_share fps share = int_of_f (Round (fmul (f_of_int fps) (rnd64 share)))"

definition normalizeSpeechPauseOptions :: "goint \<Rightarrow> pause_options \<Rightarrow> pause_options" where
  "normalizeSpeechPauseOptions fps opts = (
     let threshold = (if feq (po_ThresholdDB opts) (Fin 0) then Fin (- 35) else po_ThresholdDB opts);
         minPause = (if po_MinPauseFrames opts \<le> 0 then max 4 (fps_share fps (18 / 100)) else po_MinPauseFrames opts);
         edge = (if po_KeepEdgeFrames opts < 0 then 0 else po_KeepEdgeFrames opts);
         edge = (if edge = 0 then max 1 (fps_share fps (6 / 100)) else edge);
         most = (if po_MaxPauses opts \<le> 0 then 200 else po_MaxPauses opts)
     in opts\<lparr>po_ThresholdDB := fmax (Fin (- 80)) (fmin (Fin (- 10)) threshold), po_MinPauseFrames := minPause,
          po_KeepEdgeFrames := edge, po_MaxPauses := min most 1000\<rparr>)"

section \<open>Silence\<close>

text \<open>The events of \<open>silencedetect\<close>, sorted by second, a start before an end.\<close>

definition silence_events :: "rat list \<Rightarrow> rat list \<Rightarrow> (rat \<times> bool) list" where
  "silence_events starts ends = sort_key (\<lambda>(second, start). (second, \<not> start))
     (map (\<lambda>x. (x, True)) starts @ map (\<lambda>x. (x, False)) ends)"

fun silence_loop :: "rat \<Rightarrow> rat \<Rightarrow> (rat \<times> bool) list \<Rightarrow> (rat \<times> rat) list" where
  "silence_loop duration current [] = (if current \<ge> 0 \<and> duration > current then [(current, duration)] else [])"
| "silence_loop duration current ((second, start) # vs) =
     (if start then silence_loop duration second vs
      else if current \<ge> 0 \<and> second > current then (current, second) # silence_loop duration (- 1) vs
      else silence_loop duration current vs)"

definition parseSilenceRanges :: "rat list \<Rightarrow> rat list \<Rightarrow> rat \<Rightarrow> (rat \<times> rat) list" where
  "parseSilenceRanges starts ends duration = silence_loop duration (- 1) (silence_events starts ends)"

section \<open>Pauses\<close>

record media_pause =
  mp_SourceStartFrame :: goint
  mp_SourceEndFrame :: goint
  mp_DeleteStartFrame :: goint
  mp_DeleteEndFrame :: goint
  mp_Method :: string

definition silence_pause :: "goint \<Rightarrow> pause_options \<Rightarrow> goint \<Rightarrow> rat \<times> rat \<Rightarrow> media_pause list" where
  "silence_pause fps opts durationFrames r = (
     let start = max 0 (frames_at fps (fst r)); e = min durationFrames (frames_at fps (snd r));
         ds = min e (i64 (start + po_KeepEdgeFrames opts)); de = max ds (i64 (e - po_KeepEdgeFrames opts))
     in if i64 (e - start) < po_MinPauseFrames opts then []
        else if \<not> po_IncludeBoundaries opts \<and> (start = 0 \<or> e \<ge> durationFrames) then []
        else if de \<le> ds then []
        else [\<lparr>mp_SourceStartFrame = start, mp_SourceEndFrame = e, mp_DeleteStartFrame = ds, mp_DeleteEndFrame = de,
               mp_Method = ''rms_silence''\<rparr>])"

definition dropBoundaryRanges :: "(goint \<times> goint) list \<Rightarrow> goint \<Rightarrow> (goint \<times> goint) list" where
  "dropBoundaryRanges ranges durationFrames = filter (\<lambda>(s, e). \<not> (s = 0 \<or> e \<ge> durationFrames)) ranges"

definition breath_pause :: "goint \<times> goint \<Rightarrow> media_pause" where
  "breath_pause r = \<lparr>mp_SourceStartFrame = fst r, mp_SourceEndFrame = snd r, mp_DeleteStartFrame = fst r,
     mp_DeleteEndFrame = snd r, mp_Method = ''rms_breath''\<rparr>"

definition near_pause :: "goint \<Rightarrow> media_pause \<Rightarrow> media_pause \<Rightarrow> bool" where
  "near_pause mergeGap prev seg \<longleftrightarrow> mp_SourceStartFrame seg \<le> i64 (mp_SourceEndFrame prev + mergeGap)"

definition combineDetectionMethods :: "string \<Rightarrow> string \<Rightarrow> string" where
  "combineDetectionMethods left right = join_with ''+''
     (sort (remdups (filter (\<lambda>v. v \<noteq> []) (map TrimSpace (split_at_char (CHR ''+'') (left @ ''+'' @ right))))))"

definition join_near :: "media_pause \<Rightarrow> media_pause \<Rightarrow> media_pause" where
  "join_near prev seg = prev\<lparr>mp_SourceEndFrame := max (mp_SourceEndFrame prev) (mp_SourceEndFrame seg),
     mp_DeleteStartFrame := min (mp_DeleteStartFrame prev) (mp_DeleteStartFrame seg),
     mp_DeleteEndFrame := max (mp_DeleteEndFrame prev) (mp_DeleteEndFrame seg),
     mp_Method := combineDetectionMethods (mp_Method prev) (mp_Method seg)\<rparr>"

definition mergePausesWithBreath :: "media_pause list \<Rightarrow> (goint \<times> goint) list \<Rightarrow> goint \<Rightarrow> media_pause list" where
  "mergePausesWithBreath silence breath mergeGap = merge_sweep (near_pause mergeGap) join_near
     (sort_key mp_SourceStartFrame (silence @ map breath_pause breath))"

text \<open>
  Frames flagged as breath, collected into ranges: \<open>start\<close> is \<open>-1\<close> outside a range, \<open>gap\<close> counts the
  unflagged frames since the last flagged one.
\<close>

fun flag_loop :: "goint \<Rightarrow> goint \<Rightarrow> goint \<Rightarrow> goint \<Rightarrow> goint \<Rightarrow> bool list \<Rightarrow> (goint \<times> goint) list" where
  "flag_loop minFrames mergeGap frame start gap [] =
     (if start \<ge> 0 \<and> frame - start \<ge> minFrames then [(start, frame)] else [])"
| "flag_loop minFrames mergeGap frame start gap (f # fs) =
     (if f then flag_loop minFrames mergeGap (frame + 1) (if start < 0 then frame else start) 0 fs
      else if start < 0 then flag_loop minFrames mergeGap (frame + 1) start gap fs
      else if gap + 1 > mergeGap then
        (let e = frame - (gap + 1) + 1 in (if e - start \<ge> minFrames then [(start, e)] else [])
           @ flag_loop minFrames mergeGap (frame + 1) (- 1) 0 fs)
      else flag_loop minFrames mergeGap (frame + 1) start (gap + 1) fs)"

definition mergeFrameFlags :: "bool list \<Rightarrow> goint \<Rightarrow> goint \<Rightarrow> (goint \<times> goint) list" where
  "mergeFrameFlags flags minFrames mergeGap = flag_loop minFrames mergeGap 0 (- 1) 0 flags"

record pause_analysis =
  pa_DurationFrames :: goint
  pa_Pauses :: "media_pause list"
  pa_Truncated :: bool
  pa_AnalysisMethod :: string

text \<open>
  \<open>AnalyzeSpeechPauses\<close> for an asset of \<open>duration\<close> seconds with audio: \<open>silence\<close> are the parsed events
  and \<open>breath_flags\<close> the flagged frames for the normalised threshold, \<open>None\<close> when that run failed.
\<close>

definition AnalyzeSpeechPauses :: "goint \<Rightarrow> pause_options \<Rightarrow> rat \<Rightarrow> rat list \<times> rat list \<Rightarrow> bool list option
  \<Rightarrow> string + pause_analysis" where
  "AnalyzeSpeechPauses fps options duration silence breath_flags = (if fps \<le> 0 then Inl ''fps'' else Inr (
     let opts = normalizeSpeechPauseOptions fps options;
         durationFrames = max 0 (frames_at fps duration);
         pauses = concat (map (silence_pause fps opts durationFrames) (parseSilenceRanges (fst silence) (snd silence) duration));
         breath = (case breath_flags of None \<Rightarrow> [] | Some flags \<Rightarrow>
           let rs = mergeFrameFlags flags (po_MinPauseFrames opts) (po_KeepEdgeFrames opts)
           in if po_IncludeBoundaries opts then rs else dropBoundaryRanges rs durationFrames);
         merged = (if breath = [] then pauses else mergePausesWithBreath pauses breath (po_KeepEdgeFrames opts));
         sorted_pauses = sort_key mp_SourceStartFrame merged
     in \<lparr>pa_DurationFrames = durationFrames, pa_Pauses = take (nat (po_MaxPauses opts)) sorted_pauses,
         pa_Truncated = (int (length sorted_pauses) > po_MaxPauses opts),
         pa_AnalysisMethod = (if breath = [] then ''ffmpeg-silencedetect-rms'' else ''ffmpeg-silencedetect-rms+spectral-breath'')\<rparr>))"

section \<open>Flagged ranges\<close>

definition flag_at :: "bool list \<Rightarrow> goint \<Rightarrow> bool" where
  "flag_at flags n \<longleftrightarrow> 0 \<le> n \<and> n < int (length flags) \<and> flags ! nat n"

definition bridged :: "bool list \<Rightarrow> goint \<Rightarrow> goint \<Rightarrow> goint \<Rightarrow> bool" where
  "bridged flags mergeGap s e \<longleftrightarrow> (\<forall>n. s \<le> n \<and> n + mergeGap < e \<longrightarrow> (\<exists>k. n \<le> k \<and> k \<le> n + mergeGap \<and> flag_at flags k))"

definition flagged_range :: "bool list \<Rightarrow> goint \<Rightarrow> goint \<Rightarrow> goint \<times> goint \<Rightarrow> bool" where
  "flagged_range flags minFrames mergeGap r \<longleftrightarrow> (case r of (s, e) \<Rightarrow> flag_at flags s \<and> s < e \<and> e \<le> int (length flags)
     \<and> minFrames \<le> e - s \<and> bridged flags mergeGap s e
     \<and> (e = int (length flags) \<or> flag_at flags (e - 1) \<and> (\<forall>k. e \<le> k \<and> k \<le> e + mergeGap \<longrightarrow> \<not> flag_at flags k)))"

text \<open>The state of the loop after the frames before \<open>frame\<close>.\<close>

definition open_range :: "bool list \<Rightarrow> goint \<Rightarrow> goint \<Rightarrow> goint \<Rightarrow> goint \<Rightarrow> bool" where
  "open_range flags mergeGap frame start gap \<longleftrightarrow> start < 0 \<or>
     (start < frame - gap \<and> 0 \<le> gap \<and> gap \<le> mergeGap \<and> flag_at flags start \<and> flag_at flags (frame - gap - 1)
      \<and> (\<forall>k. frame - gap \<le> k \<and> k < frame \<longrightarrow> \<not> flag_at flags k) \<and> bridged flags mergeGap start frame)"

lemma flag_at_append: "flag_at (pre @ f # fs) (int (length pre)) = f"
  by (simp add: flag_at_def nth_append)

lemma bridged_more:
  assumes "bridged flags g s frame" and "flag_at flags k" and "k \<le> frame" and "frame \<le> k + g"
  shows "bridged flags g s (frame + 1)"
  unfolding bridged_def
proof (intro allI impI)
  fix n
  assume n: "s \<le> n \<and> n + g < frame + 1"
  show "\<exists>k. n \<le> k \<and> k \<le> n + g \<and> flag_at flags k"
  proof (cases "n + g < frame")
    case True
    then show ?thesis using assms(1) n unfolding bridged_def by blast
  next
    case False
    then have "n + g = frame" using n by simp
    then show ?thesis using assms by (intro exI [of _ k]) auto
  qed
qed

lemma bridged_less: "bridged flags g s e \<Longrightarrow> e' \<le> e \<Longrightarrow> bridged flags g s e'"
  unfolding bridged_def by (meson less_le_trans)

lemma open_range_flag:
  assumes "open_range flags g frame start gap" and "flag_at flags frame" and "0 \<le> g" and "0 \<le> frame"
  shows "open_range flags g (frame + 1) (if start < 0 then frame else start) 0"
proof (cases "start < 0")
  case True
  moreover have "bridged flags g frame (frame + 1)" using assms unfolding bridged_def by (auto intro: exI [of _ frame])
  ultimately show ?thesis using assms by (auto simp: open_range_def)
next
  case False
  then have "bridged flags g start (frame + 1)" using assms by (intro bridged_more [of _ _ _ _ frame]) (auto simp: open_range_def)
  then show ?thesis using False assms by (auto simp: open_range_def)
qed

lemma open_range_gap:
  assumes "open_range flags g frame start gap" and "\<not> flag_at flags frame" and "\<not> start < 0" and "gap + 1 \<le> g"
  shows "open_range flags g (frame + 1) start (gap + 1)"
proof -
  have "bridged flags g start (frame + 1)" using assms by (intro bridged_more [of _ _ _ _ "frame - gap - 1"]) (auto simp: open_range_def)
  moreover have "\<not> flag_at flags k" if "frame - gap \<le> k" "k < frame + 1" for k
    using that assms by (cases "k = frame") (auto simp: open_range_def)
  ultimately show ?thesis using assms by (auto simp: open_range_def)
qed

lemma open_range_end:
  assumes "open_range flags g frame start gap" and "\<not> flag_at flags frame" and "\<not> start < 0" and "gap + 1 > g"
    and "0 \<le> frame" and "frame < int (length flags)" and "minFrames \<le> frame - gap - start"
  shows "flagged_range flags minFrames g (start, frame - gap)"
proof -
  have g: "gap = g" using assms by (auto simp: open_range_def)
  have "\<not> flag_at flags k" if "frame - gap \<le> k" "k \<le> frame - gap + g" for k
    using that assms g by (cases "k = frame") (auto simp: open_range_def)
  then show ?thesis using assms g by (auto simp: flagged_range_def open_range_def intro: bridged_less)
qed

lemma flag_loop_ranges:
  assumes "flags = pre @ fs" and "frame = int (length pre)" and "open_range flags g frame start gap" and "0 \<le> g"
    and "r \<in> set (flag_loop minFrames g frame start gap fs)"
  shows "flagged_range flags minFrames g r \<and> (if start < 0 then frame else start) \<le> fst r"
  using assms
proof (induction fs arbitrary: pre frame start gap)
  case Nil
  then show ?case by (auto simp: flagged_range_def open_range_def split: if_splits)
next
  case (Cons f fs)
  have f: "flag_at flags frame = f" using Cons.prems(1,2) flag_at_append by simp
  have pre: "flags = (pre @ [f]) @ fs" "frame + 1 = int (length (pre @ [f]))" using Cons.prems(1,2) by simp_all
  have len: "frame < int (length flags)" "0 \<le> frame" using Cons.prems(1,2) by simp_all
  consider "f" | "\<not> f" "start < 0" | "\<not> f" "\<not> start < 0" "gap + 1 > g" | "\<not> f" "\<not> start < 0" "\<not> gap + 1 > g" by blast
  then show ?case
  proof cases
    case 1
    then have "open_range flags g (frame + 1) (if start < 0 then frame else start) 0"
      using open_range_flag Cons.prems(3,4) f len by blast
    from Cons.IH [OF pre this Cons.prems(4)] Cons.prems(5) 1 len show ?thesis by (auto split: if_splits)
  next
    case 2
    have "open_range flags g (frame + 1) start gap" using 2 by (simp add: open_range_def)
    from Cons.IH [OF pre this Cons.prems(4)] Cons.prems(5) 2 show ?thesis by auto
  next
    case 3
    have start: "start < frame" using Cons.prems(3) 3 by (auto simp: open_range_def)
    have "open_range flags g (frame + 1) (- 1) 0" by (simp add: open_range_def)
    note rest = Cons.IH [OF pre this Cons.prems(4)]
    consider "r = (start, frame - gap)" "minFrames \<le> frame - gap - start" | "r \<in> set (flag_loop minFrames g (frame + 1) (- 1) 0 fs)"
      using Cons.prems(5) 3 by (auto simp: Let_def split: if_splits)
    then show ?thesis
    proof cases
      case 1
      then show ?thesis using open_range_end [OF Cons.prems(3) _ 3(2,3) len(2,1)] 3 f by simp
    next
      case 2
      then show ?thesis using rest start 3 by auto
    qed
  next
    case 4
    then have "open_range flags g (frame + 1) start (gap + 1)" using open_range_gap Cons.prems(3) f by simp
    from Cons.IH [OF pre this Cons.prems(4)] Cons.prems(5) 4 show ?thesis by auto
  qed
qed

definition close_ranges :: "goint \<Rightarrow> goint \<times> goint \<Rightarrow> goint \<times> goint \<Rightarrow> bool" where
  "close_ranges mergeGap r q \<longleftrightarrow> fst q \<le> snd r + mergeGap"

lemma apart_Cons: "apart near (x # xs) \<longleftrightarrow> apart near xs \<and> (xs \<noteq> [] \<longrightarrow> \<not> near x (hd xs))"
  by (cases xs) auto

lemma flag_loop_apart:
  assumes "flags = pre @ fs" and "frame = int (length pre)" and "open_range flags g frame start gap" and "0 \<le> g"
  shows "apart (close_ranges g) (flag_loop minFrames g frame start gap fs)"
  using assms
proof (induction fs arbitrary: pre frame start gap)
  case (Cons f fs)
  have f: "flag_at flags frame = f" using Cons.prems(1,2) flag_at_append by simp
  have pre: "flags = (pre @ [f]) @ fs" "frame + 1 = int (length (pre @ [f]))" using Cons.prems(1,2) by simp_all
  have nonneg: "0 \<le> frame" using Cons.prems(2) by simp
  have idle: "open_range flags g (frame + 1) (- 1) 0" by (simp add: open_range_def)
  consider "f" | "\<not> f" "start < 0" | "\<not> f" "\<not> start < 0" "gap + 1 > g" | "\<not> f" "\<not> start < 0" "\<not> gap + 1 > g" by blast
  then show ?case
  proof cases
    case 1
    then have "open_range flags g (frame + 1) (if start < 0 then frame else start) 0"
      using open_range_flag Cons.prems(3,4) f nonneg by blast
    from Cons.IH [OF pre this Cons.prems(4)] 1 show ?thesis by auto
  next
    case 2
    have "open_range flags g (frame + 1) start gap" using 2 by (simp add: open_range_def)
    from Cons.IH [OF pre this Cons.prems(4)] 2 show ?thesis by auto
  next
    case 3
    let ?rest = "flag_loop minFrames g (frame + 1) (- 1) 0 fs"
    have "gap = g" using Cons.prems(3) 3 by (auto simp: open_range_def)
    have far: "frame + 1 \<le> fst r" if "r \<in> set ?rest" for r
      using flag_loop_ranges [OF pre idle Cons.prems(4) that] by simp
    have "\<not> close_ranges g (start, frame - gap) (hd ?rest)" if "?rest \<noteq> []"
      using far [OF hd_in_set [OF that]] \<open>gap = g\<close> by (simp add: close_ranges_def)
    then show ?thesis using Cons.IH [OF pre idle Cons.prems(4)] 3 by (auto simp: Let_def apart_Cons)
  next
    case 4
    then have "open_range flags g (frame + 1) start (gap + 1)" using open_range_gap Cons.prems(3) f by simp
    from Cons.IH [OF pre this Cons.prems(4)] 4 show ?thesis by auto
  qed
qed simp

lemma flag_loop_cover:
  assumes "flags = pre @ fs" and "frame = int (length pre)" and "open_range flags g frame start gap" and "0 \<le> g"
    and "flag_at flags n" and "(if start < 0 then frame else start) \<le> n" and "minFrames \<le> 1"
  shows "\<exists>r \<in> set (flag_loop minFrames g frame start gap fs). fst r \<le> n \<and> n < snd r"
  using assms
proof (induction fs arbitrary: pre frame start gap)
  case Nil
  then have "n < frame" by (simp add: flag_at_def)
  with Nil show ?case by (auto simp: open_range_def split: if_splits)
next
  case (Cons f fs)
  have f: "flag_at flags frame = f" using Cons.prems(1,2) flag_at_append by simp
  have pre: "flags = (pre @ [f]) @ fs" "frame + 1 = int (length (pre @ [f]))" using Cons.prems(1,2) by simp_all
  have nonneg: "0 \<le> frame" using Cons.prems(2) by simp
  have idle: "open_range flags g (frame + 1) (- 1) 0" by (simp add: open_range_def)
  note IH = Cons.IH [OF pre _ Cons.prems(4,5) _ Cons.prems(7)]
  consider "f" | "\<not> f" "start < 0" | "\<not> f" "\<not> start < 0" "gap + 1 > g" | "\<not> f" "\<not> start < 0" "\<not> gap + 1 > g" by blast
  then show ?case
  proof cases
    case 1
    then have "open_range flags g (frame + 1) (if start < 0 then frame else start) 0"
      using open_range_flag Cons.prems(3,4) f nonneg by blast
    from IH [OF this] Cons.prems(2,6) 1 show ?thesis by (auto split: if_splits)
  next
    case 2
    have "open_range flags g (frame + 1) start gap" using 2 by (simp add: open_range_def)
    moreover have "n \<noteq> frame" using f 2 Cons.prems(5) by auto
    ultimately show ?thesis using IH Cons.prems(6) 2 by auto
  next
    case 3
    have g: "gap = g" "start < frame - gap" using Cons.prems(3) 3 by (auto simp: open_range_def)
    show ?thesis
    proof (cases "n < frame - gap")
      case True
      then show ?thesis using 3 g Cons.prems(6,7) by (auto simp: Let_def)
    next
      case False
      have "n \<noteq> k" if "frame - gap \<le> k" "k \<le> frame" for k
        using that Cons.prems(3,5) 3 f by (cases "k = frame") (auto simp: open_range_def)
      then have "frame + 1 \<le> n" using False by (metis not_less zless_imp_add1_zle)
      then show ?thesis using IH [OF idle] 3 by (auto simp: Let_def)
    qed
  next
    case 4
    then have "open_range flags g (frame + 1) start (gap + 1)" using open_range_gap Cons.prems(3) f by simp
    from IH [OF this] Cons.prems(6) 4 show ?thesis by auto
  qed
qed

text \<open>
  C38. Collecting flagged frames: every range starts at a flagged frame, is long enough, contains no run of
  more than \<open>mergeGap\<close> unflagged frames, and unless it reaches the end of the asset it ends right
  after a flagged frame that is followed by more than \<open>mergeGap\<close> unflagged ones; the ranges are in
  order and further apart than the gap; and with a minimum of one frame they cover every flagged frame.
\<close>

theorem frame_flags_collected:
  assumes "0 \<le> mergeGap"
  shows "list_all (flagged_range flags minFrames mergeGap) (mergeFrameFlags flags minFrames mergeGap)
    \<and> apart (close_ranges mergeGap) (mergeFrameFlags flags minFrames mergeGap)
    \<and> (minFrames \<le> 1 \<longrightarrow> (\<forall>n. flag_at flags n \<longrightarrow>
        list_ex (\<lambda>r. fst r \<le> n \<and> n < snd r) (mergeFrameFlags flags minFrames mergeGap)))"
proof -
  have pre: "flags = [] @ flags" "0 = int (length ([] :: bool list))" and idle: "open_range flags mergeGap 0 (- 1) 0"
    by (simp_all add: open_range_def)
  have "flagged_range flags minFrames mergeGap r" if "r \<in> set (flag_loop minFrames mergeGap 0 (- 1) 0 flags)" for r
    using flag_loop_ranges [OF pre idle assms that] by blast
  moreover have "\<exists>r \<in> set (flag_loop minFrames mergeGap 0 (- 1) 0 flags). fst r \<le> n \<and> n < snd r"
    if "flag_at flags n" "minFrames \<le> 1" for n
    by (rule flag_loop_cover [OF pre idle assms that(1) _ that(2)]) (use that(1) in \<open>simp add: flag_at_def\<close>)
  ultimately show ?thesis using flag_loop_apart [OF pre idle assms]
    by (auto simp: mergeFrameFlags_def list_all_iff list_ex_iff)
qed

text \<open>
  At the end of the asset the unflagged frames after the last flagged one are kept in the range, and
  count for its length: a breath of one frame there becomes a deletion of \<open>mergeGap\<close> more.
\<close>

lemma trailing_gap_kept:
  "0 < n \<Longrightarrow> k \<le> g \<Longrightarrow> mergeFrameFlags (replicate n True @ replicate k False) minFrames (int g)
     = (if int (n + k) \<ge> minFrames then [(0, int (n + k))] else [])"
proof -
  have gaps: "flag_loop m (int g) frame 0 gap (replicate k False) = (if frame + int k \<ge> m then [(0, frame + int k)] else [])"
    if "gap + int k \<le> int g" for m frame gap and k :: nat
    using that by (induction k arbitrary: frame gap) (auto simp: algebra_simps)
  have flags: "flag_loop m (int g) frame 0 0 (replicate n True @ fs) = flag_loop m (int g) (frame + int n) 0 0 fs" for m frame fs and n :: nat
    by (induction n arbitrary: frame) (auto simp: algebra_simps)
  assume "0 < n" "k \<le> g"
  then obtain j where "n = Suc j" by (cases n) auto
  then show ?thesis using \<open>k \<le> g\<close> by (simp add: mergeFrameFlags_def flags gaps algebra_simps)
qed

section \<open>Merged pauses\<close>

interpretation breath: interval_merge mp_SourceStartFrame mp_SourceEndFrame "near_pause g" join_near for g
  by unfold_locales (auto simp: join_near_def near_pause_def)

lemma merged_with_breath: "breath.swept g (sort_key mp_SourceStartFrame (silence @ map breath_pause rs)) (mergePausesWithBreath silence rs g)"
  unfolding mergePausesWithBreath_def by (rule breath.swept_sweep) simp

end
