(* ===== verification/Content_Contract.thy ===== *)
theory Content_Contract
  imports Speech_Model
begin

text \<open>
  The acceptance contract of a creative plan (\<open>agentexec/content_contract.go\<close>) read against a
  timeline: which clips are heard, whether an utterance plays through without a cut, and which
  ranges of the timeline lack an overlay.
\<close>

section \<open>Clips that are heard\<close>

definition isAudioTrack :: "string \<Rightarrow> bool" where
  "isAudioTrack t \<longleftrightarrow> t \<in> {''original_audio'', ''voiceover'', ''bgm'', ''sfx''}"

definition heard :: "bool \<Rightarrow> vtrack \<Rightarrow> bool" where
  "heard hasAudioSolo t \<longleftrightarrow> \<not> Muted t \<and> (\<not> hasAudioSolo \<or> Solo t)"

definition spoken_clips :: "bool \<Rightarrow> vtrack \<Rightarrow> vclip list" where
  "spoken_clips hasAudioSolo t = (if TrackID t \<in> {''original_audio'', ''voiceover''} \<and> heard hasAudioSolo t then Clips t else [])"

text \<open>\<open>originalAudioEnabled\<close> is set by the last track of that name, \<open>originalAudioExplicit\<close> by any that has clips.\<close>

definition ContentPreservingClips :: "vdoc \<Rightarrow> vclip list" where
  "ContentPreservingClips d = (
     let solo = list_ex (\<lambda>t. isAudioTrack (TrackID t) \<and> Solo t \<and> \<not> Muted t) (Tracks d);
         originals = filter (\<lambda>t. TrackID t = ''original_audio'') (Tracks d);
         enabled = (originals \<noteq> [] \<and> heard solo (last originals));
         explicit = list_ex (\<lambda>t. heard solo t \<and> Clips t \<noteq> []) originals
     in concat (map (spoken_clips solo) (Tracks d)) @
        (if enabled \<and> \<not> explicit
         then concat (map Clips (filter (\<lambda>t. TrackID t = ''visual_base'' \<and> \<not> Muted t) (Tracks d))) else []))"

section \<open>Utterances that play through\<close>

definition contentClipPlaybackRate :: "vclip \<Rightarrow> f64" where
  "contentClipPlaybackRate c = (if flt (Fin 0) (PlaybackRate c) then PlaybackRate c else Fin 1)"

definition contentClipPreservesSourceTiming :: "vclip \<Rightarrow> bool" where
  "contentClipPreservesSourceTiming c \<longleftrightarrow>
     \<not> (SourceEndFrame c \<le> SourceStartFrame c \<or> TimelineEndFrame c \<le> TimelineStartFrame c \<or> flt (PlaybackRate c) (Fin 0)) \<and>
     fle (fabs (fsub (f_of_int (i64 (SourceEndFrame c - SourceStartFrame c)))
       (fmul (f_of_int (i64 (TimelineEndFrame c - TimelineStartFrame c))) (contentClipPlaybackRate c)))) (Fin 1)"

definition clipsHaveContinuousSourceBoundary :: "vclip \<Rightarrow> vclip \<Rightarrow> bool" where
  "clipsHaveContinuousSourceBoundary prev next \<longleftrightarrow> AssetID prev \<noteq> [] \<and> AssetID prev = AssetID next
     \<and> SourceEndFrame prev = SourceStartFrame next"

definition plays_on :: "f64 \<Rightarrow> vclip \<Rightarrow> vclip \<Rightarrow> bool" where
  "plays_on rate prev c \<longleftrightarrow> clipsHaveContinuousSourceBoundary prev c \<and> TimelineStartFrame c = TimelineEndFrame prev
     \<and> \<not> flt (rnd64 (1 / 1000000)) (fabs (fsub (contentClipPlaybackRate c) rate))"

text \<open>The inner loop: follow the clips after \<open>prev\<close> that go on where it stops.\<close>

fun follows :: "goint \<Rightarrow> f64 \<Rightarrow> vclip \<Rightarrow> vclip list \<Rightarrow> bool" where
  "follows stop rate prev [] = False"
| "follows stop rate prev (c # cs) =
     (if \<not> plays_on rate prev c then follows stop rate prev cs
      else SourceEndFrame c \<ge> stop \<or> follows stop rate c cs)"

fun covered_from :: "goint \<Rightarrow> goint \<Rightarrow> vclip list \<Rightarrow> bool" where
  "covered_from start stop [] = False"
| "covered_from start stop (c # cs) =
     (if SourceStartFrame c > start \<or> SourceEndFrame c \<le> start then covered_from start stop cs
      else SourceEndFrame c \<ge> stop \<or> follows stop (contentClipPlaybackRate c) c cs \<or> covered_from start stop cs)"

definition UtteranceCoveredByClips :: "vclip list \<Rightarrow> string \<Rightarrow> goint \<Rightarrow> goint \<Rightarrow> bool" where
  "UtteranceCoveredByClips clips assetID start stop \<longleftrightarrow> assetID \<noteq> [] \<and> start < stop \<and>
     covered_from start stop (sort_key (\<lambda>c. (TimelineStartFrame c, SourceStartFrame c))
       (filter (\<lambda>c. \<not> (AssetID c \<noteq> assetID \<or> SourceEndFrame c \<le> start \<or> SourceStartFrame c \<ge> stop
          \<or> \<not> contentClipPreservesSourceTiming c)) clips))"

text \<open>
  \<open>missingRequiredUtterances\<close>: \<open>transcripts\<close> is what the database holds as the latest transcript of an
  asset.  The result is the sorted list of missing ids and the frames at which they are spoken.  Go
  lists those frames in the order of its map, which is not fixed; the model takes the sorted order.
\<close>

definition wanted_ids :: "string list \<Rightarrow> string list" where
  "wanted_ids required = remdups (filter (\<lambda>i. i \<noteq> []) (map TrimSpace required))"

definition utterance_span :: "gmap \<Rightarrow> (goint \<times> goint) option" where
  "utterance_span u = (case (NumericValue (gget u ''source_start_frame''), NumericValue (gget u ''source_end_frame'')) of
     (Some s, Some e) \<Rightarrow> Some (int_of_f s, int_of_f e) | _ \<Rightarrow> None)"

definition spoken_at :: "(string \<Rightarrow> gmap list option) \<Rightarrow> string list \<Rightarrow> string \<Rightarrow> (string \<times> goint \<times> goint) list" where
  "spoken_at transcripts assets uid = concat (map (\<lambda>a. case transcripts a of None \<Rightarrow> [] | Some us \<Rightarrow>
     map (Pair a) (List.map_filter utterance_span (filter (\<lambda>u. interfaceString (gget u ''utterance_id'') = uid) us))) assets)"

definition missingRequiredUtterances :: "(string \<Rightarrow> gmap list option) \<Rightarrow> vdoc \<Rightarrow> string list \<Rightarrow> string list \<times> goint list" where
  "missingRequiredUtterances transcripts d required = (
     let clips = ContentPreservingClips d; assets = sort (remdups (filter (\<lambda>a. a \<noteq> []) (map AssetID clips)));
         found = (\<lambda>uid. list_ex (\<lambda>(a, s, e). UtteranceCoveredByClips clips a s e) (spoken_at transcripts assets uid));
         missing = sort (filter (\<lambda>uid. \<not> found uid) (wanted_ids required))
     in (missing, concat (map (\<lambda>uid. case spoken_at transcripts assets uid of [] \<Rightarrow> [] | (_, s, e) # _ \<Rightarrow> [s, e]) missing)))"

section \<open>Overlay coverage\<close>

record frame_range =
  fr_StartFrame :: goint
  fr_EndFrame :: goint

definition overlay_clips :: "vdoc \<Rightarrow> vclip list" where
  "overlay_clips d = concat (map Clips (filter (\<lambda>t. TrackID t = ''visual_overlay'' \<and> \<not> Muted t) (Tracks d)))"

definition furthest_from :: "vclip list \<Rightarrow> goint \<Rightarrow> goint" where
  "furthest_from overlays cursor =
     fold (\<lambda>c furthest. if TimelineStartFrame c \<le> cursor \<and> TimelineEndFrame c > furthest then TimelineEndFrame c else furthest)
       overlays cursor"

lemma furthest_fold:
  "furthest \<le> fold (\<lambda>c furthest. if TimelineStartFrame c \<le> cursor \<and> TimelineEndFrame c > furthest then TimelineEndFrame c else furthest) overlays furthest"
proof (induction overlays arbitrary: furthest)
  case (Cons c cs)
  show ?case using Cons.IH [of furthest] Cons.IH [of "TimelineEndFrame c"] by auto
qed simp

lemma furthest_ge: "cursor \<le> furthest_from overlays cursor"
  unfolding furthest_from_def by (rule furthest_fold)

text \<open>The loop over one range; false when a frame of it has no overlay.\<close>

function broll_covered :: "vclip list \<Rightarrow> goint \<Rightarrow> goint \<Rightarrow> bool" where
  "broll_covered overlays stop cursor = (if \<not> cursor < stop then True
     else if furthest_from overlays cursor = cursor then False else broll_covered overlays stop (furthest_from overlays cursor))"
  by pat_completeness auto
termination
proof (relation "measure (\<lambda>(overlays, stop, cursor). nat (stop - cursor))", goal_cases)
  case (2 overlays stop cursor)
  then show ?case using furthest_ge [of cursor overlays] by auto
qed simp

declare broll_covered.simps [simp del]

definition UncoveredBrollRanges :: "vdoc \<Rightarrow> frame_range list \<Rightarrow> frame_range list" where
  "UncoveredBrollRanges d required =
     filter (\<lambda>r. \<not> broll_covered (overlay_clips d) (fr_EndFrame r) (fr_StartFrame r)) required"

section \<open>Correctness\<close>

definition overlaid :: "vclip list \<Rightarrow> goint \<Rightarrow> bool" where
  "overlaid overlays n \<longleftrightarrow> list_ex (\<lambda>c. TimelineStartFrame c \<le> n \<and> n < TimelineEndFrame c) overlays"

lemma furthest_max:
  assumes "c \<in> set overlays" and "TimelineStartFrame c \<le> cursor"
  shows "TimelineEndFrame c \<le> furthest_from overlays cursor"
proof -
  have "TimelineEndFrame c \<le> fold (\<lambda>c furthest. if TimelineStartFrame c \<le> cursor \<and> TimelineEndFrame c > furthest then TimelineEndFrame c else furthest) overlays f" for f
    using assms
  proof (induction overlays arbitrary: f)
    case (Cons x xs)
    show ?case
    proof (cases "c \<in> set xs")
      case False
      then have "c = x" using Cons.prems by simp
      then show ?thesis using Cons.prems furthest_fold [of "TimelineEndFrame c" cursor xs] furthest_fold [of f cursor xs] by auto
    qed (use Cons in simp)
  qed simp
  then show ?thesis unfolding furthest_from_def .
qed

lemma furthest_reached:
  "furthest_from overlays cursor = cursor \<or>
     (\<exists>c \<in> set overlays. TimelineStartFrame c \<le> cursor \<and> TimelineEndFrame c = furthest_from overlays cursor)"
proof -
  have "fold (\<lambda>c furthest. if TimelineStartFrame c \<le> cursor \<and> TimelineEndFrame c > furthest then TimelineEndFrame c else furthest) overlays f = f \<or>
     (\<exists>c \<in> set overlays. TimelineStartFrame c \<le> cursor \<and> TimelineEndFrame c =
        fold (\<lambda>c furthest. if TimelineStartFrame c \<le> cursor \<and> TimelineEndFrame c > furthest then TimelineEndFrame c else furthest) overlays f)" for f
  proof (induction overlays arbitrary: f)
    case (Cons x xs)
    show ?case
      using Cons.IH [of "if TimelineStartFrame x \<le> cursor \<and> TimelineEndFrame x > f then TimelineEndFrame x else f"]
      by (cases "TimelineStartFrame x \<le> cursor \<and> TimelineEndFrame x > f") auto
  qed simp
  then show ?thesis unfolding furthest_from_def .
qed

lemma broll_covered_overlaid: "broll_covered overlays stop cursor \<longleftrightarrow> (\<forall>n \<in> {cursor ..< stop}. overlaid overlays n)"
proof (induction overlays stop cursor rule: broll_covered.induct)
  case (1 overlays stop cursor)
  let ?f = "furthest_from overlays cursor"
  consider "\<not> cursor < stop" | "cursor < stop" "?f = cursor" | "cursor < stop" "?f \<noteq> cursor" by blast
  then show ?case
  proof cases
    case 1
    then show ?thesis by (subst broll_covered.simps) simp
  next
    case 2
    have "\<not> overlaid overlays cursor"
    proof
      assume "overlaid overlays cursor"
      then obtain c where c: "c \<in> set overlays" "TimelineStartFrame c \<le> cursor" "cursor < TimelineEndFrame c"
        by (auto simp: overlaid_def list_ex_iff)
      then show False using furthest_max [of c overlays cursor] 2 by simp
    qed
    then show ?thesis using 2 by (subst broll_covered.simps) auto
  next
    case 3
    obtain c where c: "c \<in> set overlays" "TimelineStartFrame c \<le> cursor" "TimelineEndFrame c = ?f"
      using furthest_reached [of overlays cursor] 3 by blast
    then have "overlaid overlays n" if "cursor \<le> n" "n < ?f" for n
      using that by (force simp: overlaid_def list_ex_iff)
    then have "(\<forall>n \<in> {cursor ..< stop}. overlaid overlays n) \<longleftrightarrow> (\<forall>n \<in> {?f ..< stop}. overlaid overlays n)"
      using furthest_ge [of cursor overlays] by (meson atLeastLessThan_iff not_less order_trans)
    then show ?thesis using "1.IH" [OF _ 3(2)] 3 by (subst broll_covered.simps) simp
  qed
qed

text \<open>
  C39. The overlay check of a plan terminates and reports exactly the ranges of which some frame is under
  no clip of an unmuted overlay track.
\<close>

theorem uncovered_ranges_exact:
  "UncoveredBrollRanges d required =
     [r \<leftarrow> required. \<exists>n \<in> {fr_StartFrame r ..< fr_EndFrame r}.
        \<not> list_ex (\<lambda>t. TrackID t = ''visual_overlay'' \<and> \<not> Muted t \<and>
            list_ex (\<lambda>c. TimelineStartFrame c \<le> n \<and> n < TimelineEndFrame c) (Clips t)) (Tracks d)]"
proof -
  have "overlaid (overlay_clips d) n \<longleftrightarrow> list_ex (\<lambda>t. TrackID t = ''visual_overlay'' \<and> \<not> Muted t \<and>
      list_ex (\<lambda>c. TimelineStartFrame c \<le> n \<and> n < TimelineEndFrame c) (Clips t)) (Tracks d)" for n
    by (auto simp: overlaid_def overlay_clips_def list_ex_iff)
  then show ?thesis by (simp add: UncoveredBrollRanges_def broll_covered_overlaid)
qed

section \<open>Chains of clips\<close>

text \<open>Clips that play one after the other: the source goes on where the timeline goes on.\<close>

fun chained :: "vclip list \<Rightarrow> bool" where
  "chained (c # c' # cs) \<longleftrightarrow> AssetID c' = AssetID c \<and> SourceStartFrame c' = SourceEndFrame c
     \<and> TimelineStartFrame c' = TimelineEndFrame c \<and> chained (c' # cs)"
| "chained _ \<longleftrightarrow> True"

lemma follows_chain:
  "follows stop rate prev cs \<Longrightarrow> \<exists>ds. set ds \<subseteq> set cs \<and> chained (prev # ds) \<and> ds \<noteq> [] \<and> SourceEndFrame (last ds) \<ge> stop"
proof (induction stop rate prev cs rule: follows.induct)
  case (2 stop rate prev c cs)
  show ?case
  proof (cases "plays_on rate prev c")
    case False
    with 2 obtain ds where "set ds \<subseteq> set cs" "chained (prev # ds)" "ds \<noteq> []" "SourceEndFrame (last ds) \<ge> stop" by auto
    then show ?thesis by (intro exI [of _ ds]) auto
  next
    case True
    then have step: "AssetID c = AssetID prev" "SourceStartFrame c = SourceEndFrame prev" "TimelineStartFrame c = TimelineEndFrame prev"
      by (simp_all add: plays_on_def clipsHaveContinuousSourceBoundary_def)
    show ?thesis
    proof (cases "SourceEndFrame c \<ge> stop")
      case True
      then show ?thesis using step by (intro exI [of _ "[c]"]) simp
    next
      case False
      with 2 True obtain ds where "set ds \<subseteq> set cs" "chained (c # ds)" "ds \<noteq> []" "SourceEndFrame (last ds) \<ge> stop" by auto
      then show ?thesis using step by (intro exI [of _ "c # ds"]) auto
    qed
  qed
qed simp

lemma covered_from_chain:
  "covered_from start stop cs \<Longrightarrow> \<exists>ds. ds \<noteq> [] \<and> set ds \<subseteq> set cs \<and> chained ds \<and> SourceStartFrame (hd ds) \<le> start
     \<and> SourceEndFrame (last ds) \<ge> stop"
proof (induction start stop cs rule: covered_from.induct)
  case (2 start stop c cs)
  consider "SourceStartFrame c \<le> start" "SourceEndFrame c \<ge> stop" | "SourceStartFrame c \<le> start" "follows stop (contentClipPlaybackRate c) c cs"
    | "covered_from start stop cs" using "2.prems" by (auto split: if_splits)
  then show ?case
  proof cases
    case 1
    then show ?thesis by (intro exI [of _ "[c]"]) simp
  next
    case 2
    obtain ds where "set ds \<subseteq> set cs" "chained (c # ds)" "ds \<noteq> []" "SourceEndFrame (last ds) \<ge> stop"
      using follows_chain [OF 2(2)] by blast
    then show ?thesis using 2(1) by (intro exI [of _ "c # ds"]) auto
  next
    case 3
    then obtain ds where "ds \<noteq> []" "set ds \<subseteq> set cs" "chained ds" "SourceStartFrame (hd ds) \<le> start" "SourceEndFrame (last ds) \<ge> stop"
      using 2 by (cases "SourceStartFrame c > start \<or> SourceEndFrame c \<le> start") blast+
    then show ?thesis by (intro exI [of _ ds]) auto
  qed
qed simp

lemma covered_utterance_plays_through:
  assumes "UtteranceCoveredByClips clips assetID start stop"
  shows "\<exists>ds. ds \<noteq> [] \<and> set ds \<subseteq> set clips \<and> chained ds \<and> list_all (\<lambda>c. AssetID c = assetID \<and> contentClipPreservesSourceTiming c) ds
    \<and> SourceStartFrame (hd ds) \<le> start \<and> SourceEndFrame (last ds) \<ge> stop"
proof -
  let ?P = "\<lambda>c. \<not> (AssetID c \<noteq> assetID \<or> SourceEndFrame c \<le> start \<or> SourceStartFrame c \<ge> stop
          \<or> \<not> contentClipPreservesSourceTiming c)"
  have "covered_from start stop (sort_key (\<lambda>c. (TimelineStartFrame c, SourceStartFrame c)) (filter ?P clips))"
    using assms by (simp add: UtteranceCoveredByClips_def)
  from covered_from_chain [OF this] obtain ds where ds: "ds \<noteq> []" "chained ds" "SourceStartFrame (hd ds) \<le> start"
    "SourceEndFrame (last ds) \<ge> stop" and sub: "set ds \<subseteq> set (filter ?P clips)" unfolding set_sort by blast
  have "list_all (\<lambda>c. AssetID c = assetID \<and> contentClipPreservesSourceTiming c) ds"
    using sub by (auto simp: list_all_iff)
  moreover have "set ds \<subseteq> set clips" using sub by auto
  ultimately show ?thesis using ds by blast
qed

end
