(* ===== verification/Speech_Demo.thy ===== *)
theory Speech_Demo
  imports Speech_Pauses Media_Pauses Content_Contract
begin

text \<open>Concrete transcripts, pauses and timelines that meet the hypotheses of the properties about speech.\<close>

definition demo_word :: speech_word where
  "demo_word = \<lparr>sw_ID = ''word_1'', sw_StartFrame = 12, sw_EndFrame = 30, sw_Text = ''hello'', sw_Punctuation = ''.''\<rparr>"

definition demo_utterance :: speech_utterance where
  "demo_utterance = \<lparr>su_ID = ''utt_1'', su_StartFrame = 12, su_EndFrame = 30, su_Text = ''hello.'', su_Language = ''en'',
     su_Emotion = [], su_Words = [demo_word]\<rparr>"

definition demo_pause :: speech_pause where
  "demo_pause = \<lparr>sp_ID = ''pause_1'', sp_StartFrame = 0, sp_EndFrame = 60, sp_DeleteStart = 2, sp_DeleteEnd = 58,
     sp_Method = ''rms_silence''\<rparr>"

definition plain_sha :: "string \<Rightarrow> string" where
  "plain_sha s = s"

theorem asr_chunks_cover_witness:
  "\<exists>cs. BuildASRChunks 1800 [demo_pause] 0 = Some cs \<and> chunks_tile 0 cs 1800 \<and> list_all (\<lambda>(s, e). e - s \<le> 750) cs"
  using asr_chunks_cover [of 1800 0 "[demo_pause]"] by simp

theorem clamped_pauses_spare_words_witness:
  "list_all (\<lambda>p. list_ex (inside_pause p) [demo_pause] \<and> sp_DeleteEnd p - sp_DeleteStart p \<ge> 5
      \<and> list_all (\<lambda>u. list_all (\<lambda>w. \<not> meets (sp_DeleteStart p) (sp_DeleteEnd p) w) (su_Words u)) [demo_utterance])
    (ClampSpeechPausesToWordBoundaries plain_sha ''a'' [demo_pause] [demo_utterance])
   \<and> map (\<lambda>p. (sp_DeleteStart p, sp_DeleteEnd p)) (ClampSpeechPausesToWordBoundaries plain_sha ''a'' [demo_pause] [demo_utterance])
      = [(2, 12), (30, 58)]"
proof (rule conjI)
  have "list_all small_delete [demo_pause]" by (simp add: small_delete_def demo_pause_def)
  then show "list_all (\<lambda>p. list_ex (inside_pause p) [demo_pause] \<and> sp_DeleteEnd p - sp_DeleteStart p \<ge> 5
      \<and> list_all (\<lambda>u. list_all (\<lambda>w. \<not> meets (sp_DeleteStart p) (sp_DeleteEnd p) w) (su_Words u)) [demo_utterance])
    (ClampSpeechPausesToWordBoundaries plain_sha ''a'' [demo_pause] [demo_utterance])"
    by (rule clamped_pauses_spare_words)
  show "map (\<lambda>p. (sp_DeleteStart p, sp_DeleteEnd p)) (ClampSpeechPausesToWordBoundaries plain_sha ''a'' [demo_pause] [demo_utterance])
      = [(2, 12), (30, 58)]"
    by (simp add: ClampSpeechPausesToWordBoundaries_def clamp_pause_def all_words_def demo_utterance_def demo_word_def
        demo_pause_def Let_def minimumSafeDeleteFrames_def)
qed

lemma demo_readable: "readable_utterance demo_utterance = demo_utterance"
  by (rule readable_same)
    (simp add: utterance_utf8_def word_utf8_def demo_utterance_def demo_word_def ascii_valid byte_def)

theorem transcript_roundtrip_witness:
  "DecodeSpeechUtterances (map json_stored (EncodeSpeechUtterances [demo_utterance])) = Inr [demo_utterance]"
proof -
  have "list_all utterance_valid [demo_utterance]" "sorted (map su_StartFrame [demo_utterance])"
    by (simp_all add: utterance_valid_def word_valid_def exact_frame_def demo_utterance_def demo_word_def)
  from transcript_roundtrip [OF this] show ?thesis by (simp add: demo_readable)
qed

text \<open>A byte that is no UTF-8 comes back as the replacement character.\<close>

lemma bad_byte_replaced: "json_string (bytes [97, 200, 98]) = bytes [97, 239, 191, 189, 98]"
  by code_simp

theorem frame_flags_collected_witness:
  "list_all (flagged_range [False, True, False, True, False, False, False, True] 1 1)
      (mergeFrameFlags [False, True, False, True, False, False, False, True] 1 1)
   \<and> mergeFrameFlags [False, True, False, True, False, False, False, True] 1 1 = [(1, 4), (7, 8)]"
proof
  show "mergeFrameFlags [False, True, False, True, False, False, False, True] 1 1 = [(1, 4), (7, 8)]"
    by (simp add: mergeFrameFlags_def)
qed (use frame_flags_collected [of 1 "[False, True, False, True, False, False, False, True]" 1] in simp)

definition demo_overlay :: vclip where
  "demo_overlay = zero_clip\<lparr>TimelineClipID := ''o1'', TimelineStartFrame := 0, TimelineEndFrame := 40\<rparr>"

definition demo_overlay_doc :: vdoc where
  "demo_overlay_doc = \<lparr>TimelineID = ''t'', DraftID = ''d'', Version = 1, FPS = 30, DurationFrames = 90,
     Tracks = [(empty_track (''visual_overlay'', ''visual_overlay''))\<lparr>Clips := [demo_overlay]\<rparr>]\<rparr>"

theorem uncovered_ranges_exact_witness:
  "UncoveredBrollRanges demo_overlay_doc [\<lparr>fr_StartFrame = 10, fr_EndFrame = 40\<rparr>, \<lparr>fr_StartFrame = 30, fr_EndFrame = 50\<rparr>]
     = [\<lparr>fr_StartFrame = 30, fr_EndFrame = 50\<rparr>]"
proof -
  have "\<exists>n \<in> {30 ..< 50 :: int}. \<not> n < 40" by (rule bexI [of _ 45]) simp_all
  then show ?thesis
    by (simp add: uncovered_ranges_exact demo_overlay_doc_def demo_overlay_def empty_track_def zero_clip_def)
qed

end
