(* ===== verification/Edit_Preserve.thy ===== *)
theory Edit_Preserve
  imports Timeline_Patch Timeline_Validate Timeline_Coalesce GoFormat
begin

text \<open>
  Independent audio under an atomic edit (\<open>agentexec/timeline_integrity.go\<close>).  The clips of the tracks
  \<open>bgm\<close> and \<open>sfx\<close> that an operation does not name keep their place even when the picture ripples: they
  are set aside before the patch, put back after it, and recognised in the patched document by a
  marker in their metadata whose prefix is a random nonce.  Clips that stick out over the end of the
  timeline are then tolerated when the edit did not make them stick out further.  A Go map from ids to
  tracks or clips is an association list with distinct keys.
\<close>

section \<open>Deep equality of clips and tracks\<close>

definition clip_deep_eq :: "vclip \<Rightarrow> vclip \<Rightarrow> bool" where
  "clip_deep_eq a b \<longleftrightarrow>
     a\<lparr>PlaybackRate := Fin 0, ClipGainDB := Fin 0, Effects := None, Metadata := None\<rparr>
       = b\<lparr>PlaybackRate := Fin 0, ClipGainDB := Fin 0, Effects := None, Metadata := None\<rparr>
     \<and> feq (PlaybackRate a) (PlaybackRate b) \<and> feq (ClipGainDB a) (ClipGainDB b)
     \<and> deep_eq_effects (Effects a) (Effects b) \<and> deep_eq_metadata (Metadata a) (Metadata b)"

definition ducking_deep_eq :: "TrackDucking option \<Rightarrow> TrackDucking option \<Rightarrow> bool" where
  "ducking_deep_eq a b = (case (a, b) of (None, None) \<Rightarrow> True
     | (Some k, Some l) \<Rightarrow> k\<lparr>DuckDB := Fin 0\<rparr> = l\<lparr>DuckDB := Fin 0\<rparr> \<and> feq (DuckDB k) (DuckDB l) | _ \<Rightarrow> False)"

definition track_deep_eq :: "vtrack \<Rightarrow> vtrack \<Rightarrow> bool" where
  "track_deep_eq a b \<longleftrightarrow> TrackID a = TrackID b \<and> TrackType a = TrackType b \<and> list_all2 clip_deep_eq (Clips a) (Clips b)
     \<and> Muted a = Muted b \<and> Solo a = Solo b \<and> Locked a = Locked b \<and> feq (GainDB a) (GainDB b)
     \<and> ducking_deep_eq (Ducking a) (Ducking b)"

type_synonym tracks_map = "(string \<times> vtrack) list"
type_synonym clips_map = "(string \<times> vclip) list"

text \<open>A map filled in a loop: of two entries with one key the later stays.\<close>

definition filled :: "('k \<times> 'v) list \<Rightarrow> ('k \<times> 'v) list" where
  "filled kvs = AList.clearjunk (rev kvs)"

definition clips_by_id :: "vclip list \<Rightarrow> clips_map" where
  "clips_by_id cs = filled (map (\<lambda>c. (TimelineClipID c, c)) cs)"

definition tracks_by_id :: "vdoc \<Rightarrow> tracks_map" where
  "tracks_by_id d = filled (map (\<lambda>t. (TrackID t, t)) (Tracks d))"

definition clips_deep_eq :: "clips_map \<Rightarrow> clips_map \<Rightarrow> bool" where
  "clips_deep_eq m n \<longleftrightarrow> length m = length n
     \<and> list_all (\<lambda>(k, c). case map_of n k of None \<Rightarrow> False | Some c' \<Rightarrow> clip_deep_eq c c') m"

section \<open>What an operation touches\<close>

definition independentAudioTrackIDs :: "string list" where
  "independentAudioTrackIDs = [''bgm'', ''sfx'']"

definition located :: "vdoc \<Rightarrow> (string \<times> vclip) list" where
  "located d = concat (map (\<lambda>t. map (Pair (TrackID t)) (Clips t)) (Tracks d))"

definition deletes_range :: "gmap \<Rightarrow> bool" where
  "deletes_range op \<longleftrightarrow> stringValue (gget op ''kind'') \<in> {''delete_range'', ''delete_source_range''}"

definition last_or :: "'a \<Rightarrow> 'a list \<Rightarrow> 'a" where
  "last_or x xs = (if xs = [] then x else last xs)"

definition touchedTimelineClipIDsForOperation :: "vdoc \<Rightarrow> gmap \<Rightarrow> string list" where
  "touchedTimelineClipIDsForOperation d op = (
     let target = stringValue (gget op ''timeline_clip_id'');
         hits = filter (\<lambda>(t, c). TimelineClipID c = target) (located d);
         source = last_or [] (map fst hits);
         grp = last_or [] (map (\<lambda>(t, c). ParentBlockID c) (filter (\<lambda>(t, c). Linked c) hits));
         goal = stringValue (gget op ''target_track_id'')
     in if deletes_range op then map TimelineClipID (doc_clips d)
        else if target = [] then []
        else map (\<lambda>(t, c). TimelineClipID c) hits
          @ (if grp = [] then [] else map TimelineClipID (filter (\<lambda>c. Linked c \<and> ParentBlockID c = grp) (doc_clips d)))
          @ (if stringValue (gget op ''kind'') = ''move_clip''
             then map (\<lambda>(t, c). TimelineClipID c) (filter (\<lambda>(t, c). t = (if goal = [] then source else goal)) (located d))
             else []))"

definition touchedTrackIDsForOperation :: "vdoc \<Rightarrow> gmap \<Rightarrow> string list" where
  "touchedTrackIDsForOperation d op = (
     let track = stringValue (gget op ''track_id'');
         track = (if stringValue (gget op ''kind'') = ''insert_clip'' \<and> track = [] then ''visual_base'' else track);
         hits = filter (\<lambda>(t, c). TimelineClipID c = stringValue (gget op ''timeline_clip_id'')) (located d);
         source = last_or [] (map fst hits);
         grp = last_or [] (map (\<lambda>(t, c). ParentBlockID c) (filter (\<lambda>(t, c). Linked c \<and> ParentBlockID c \<noteq> []) hits))
     in (if deletes_range op then independentAudioTrackIDs else [])
        @ filter (\<lambda>t. t \<noteq> []) [track, stringValue (gget op ''target_track_id''), source]
        @ (if grp = [] then [] else map fst (filter (\<lambda>(t, c). Linked c \<and> ParentBlockID c = grp) (located d))))"

definition untouched_clips :: "vdoc \<Rightarrow> gmap \<Rightarrow> vtrack \<Rightarrow> vclip list" where
  "untouched_clips d op t = (let changed = TrackID t \<in> set (touchedTrackIDsForOperation d op) in
     filter (\<lambda>c. \<not> Linked c \<and> \<not> (changed \<and> TimelineClipID c \<in> set (touchedTimelineClipIDsForOperation d op))) (Clips t))"

definition sets_aside :: "vdoc \<Rightarrow> gmap \<Rightarrow> vtrack \<Rightarrow> bool" where
  "sets_aside d op t \<longleftrightarrow> TrackID t \<in> set independentAudioTrackIDs
     \<and> \<not> (TrackID t \<in> set (touchedTrackIDsForOperation d op) \<and> touchedTimelineClipIDsForOperation d op = [])
     \<and> untouched_clips d op t \<noteq> []"

definition preserveIndependentAudioForOperation :: "vdoc \<Rightarrow> gmap \<Rightarrow> tracks_map" where
  "preserveIndependentAudioForOperation d op =
     filled (map (\<lambda>t. (TrackID t, t\<lparr>Clips := untouched_clips d op t\<rparr>)) (filter (sets_aside d op) (Tracks d)))"

section \<open>The marker of a clip\<close>

definition lineage_prefix :: "string \<Rightarrow> string" where
  "lineage_prefix nonce = ''rushes-internal-audio-lineage:'' @ nonce"

definition markerValue :: "string \<Rightarrow> string \<Rightarrow> string" where
  "markerValue pf cid = pf @ '':'' @ cid"

definition cut_prefix :: "string \<Rightarrow> string \<Rightarrow> string option" where
  "cut_prefix p s = (if prefix p s then Some (drop (length p) s) else None)"

text \<open>The id a clip is marked with, if it is marked.\<close>

definition preservedAudioLineageID :: "string \<Rightarrow> vclip \<Rightarrow> string option" where
  "preservedAudioLineageID pf c = (case Metadata c of None \<Rightarrow> None | Some m \<Rightarrow>
     (case gget m preservedAudioLineageMetadataKey of
        GStr marker \<Rightarrow> if pf = [] then None else (case cut_prefix (pf @ '':'') marker of
            Some i \<Rightarrow> if i = [] then None else Some i | None \<Rightarrow> None)
      | _ \<Rightarrow> None))"

definition mark_clip :: "string \<Rightarrow> vclip \<Rightarrow> vclip" where
  "mark_clip pf c = c\<lparr>Metadata := Some (gput preservedAudioLineageMetadataKey (GStr (markerValue pf (TimelineClipID c)))
     (the_map (Metadata c)))\<rparr>"

definition withoutPreservedAudioLineage :: "string \<Rightarrow> clips_map \<Rightarrow> vclip \<Rightarrow> vclip" where
  "withoutPreservedAudioLineage pf originals c = (case preservedAudioLineageID pf c of None \<Rightarrow> c | Some i \<Rightarrow>
     (case map_of originals i of None \<Rightarrow> c | Some origin \<Rightarrow>
        let m = filter (\<lambda>(k, v). k \<noteq> preservedAudioLineageMetadataKey) (the_map (Metadata c));
            om = the_map (Metadata origin);
            m = (if ghas om preservedAudioLineageMetadataKey
                 then gput preservedAudioLineageMetadataKey (gget om preservedAudioLineageMetadataKey) m else m)
        in c\<lparr>Metadata := (if m = [] then None else Some m)\<rparr>))"

definition originalIndependentAudioClipsByID :: "vdoc \<Rightarrow> clips_map" where
  "originalIndependentAudioClipsByID d =
     clips_by_id (concat (map Clips (filter (\<lambda>t. TrackID t \<in> set independentAudioTrackIDs) (Tracks d))))"

definition strip_track :: "string \<Rightarrow> vdoc \<Rightarrow> vtrack \<Rightarrow> vtrack" where
  "strip_track pf current t =
     t\<lparr>Clips := map (withoutPreservedAudioLineage pf (originalIndependentAudioClipsByID current)) (Clips t)\<rparr>"

definition stripPreservedAudioLineage :: "string \<Rightarrow> vdoc \<Rightarrow> vdoc \<Rightarrow> vdoc" where
  "stripPreservedAudioLineage pf current d = map_tracks (strip_track pf current) d"

definition stripPreservedAudioLineageFromTracks :: "string \<Rightarrow> vdoc \<Rightarrow> tracks_map \<Rightarrow> tracks_map" where
  "stripPreservedAudioLineageFromTracks pf current ts = map (\<lambda>(i, t). (i, strip_track pf current t)) ts"

section \<open>Before the patch\<close>

text \<open>Whether a patch changed nothing of a track but the clips set aside.\<close>

definition onlyPreservedClipsChanged :: "string \<Rightarrow> vtrack \<Rightarrow> vtrack \<Rightarrow> vtrack \<Rightarrow> bool" where
  "onlyPreservedClipsChanged pf current result preserved = (
     let ids = map TimelineClipID (Clips preserved);
         old = clips_by_id (filter (\<lambda>c. TimelineClipID c \<notin> set ids) (Clips current));
         kept_clips = filter (\<lambda>c. case preservedAudioLineageID pf c of None \<Rightarrow> True | Some i \<Rightarrow> i \<notin> set ids) (Clips result);
         new = filled (map (\<lambda>c. (TimelineClipID c, withoutPreservedAudioLineage pf (clips_by_id (Clips current)) c)) kept_clips)
     in clips_deep_eq old new)"

definition marked_track :: "string \<Rightarrow> tracks_map \<Rightarrow> vtrack \<Rightarrow> vtrack" where
  "marked_track pf preserved t = (if TrackID t \<notin> set independentAudioTrackIDs then t
     else t\<lparr>Clips := map (mark_clip pf) (Clips t), Locked := (Locked t \<and> map_of preserved (TrackID t) = None)\<rparr>)"

definition relock :: "string \<Rightarrow> tracks_map \<Rightarrow> vtrack \<Rightarrow> vtrack \<Rightarrow> vtrack \<Rightarrow> vtrack" where
  "relock pf preserved t copy probed = (case map_of preserved (TrackID t) of
       Some snapshot \<Rightarrow> if \<not> Locked t \<or> \<not> onlyPreservedClipsChanged pf t probed snapshot
           then copy\<lparr>Locked := Locked t\<rparr> else copy
     | None \<Rightarrow> copy\<lparr>Locked := Locked t\<rparr>)"

text \<open>
  \<open>unlockPreservedIndependentAudio\<close>: the document the patch runs on.  A locked track is opened for an
  operation that only touches clips which are put back afterwards; a trial run decides.
\<close>

definition unlockPreservedIndependentAudio :: "string \<Rightarrow> vdoc \<Rightarrow> tracks_map \<Rightarrow> gmap \<Rightarrow> vdoc" where
  "unlockPreservedIndependentAudio pf d preserved op = (
     let copy = map_tracks (marked_track pf preserved) d
     in case ApplyPatch copy op of Inl _ \<Rightarrow> d
        | Inr probe \<Rightarrow> copy\<lparr>Tracks := map (\<lambda>i. relock pf preserved (Tracks d ! i) (Tracks copy ! i) (Tracks probe ! i))
              [0 ..< length (Tracks d)]\<rparr>)"

section \<open>After the patch\<close>

definition restore_track :: "string \<Rightarrow> vdoc \<Rightarrow> tracks_map \<Rightarrow> vtrack \<Rightarrow> vtrack" where
  "restore_track pf current preserved t = (case map_of preserved (TrackID t) of None \<Rightarrow> t | Some snapshot \<Rightarrow>
     if (case map_of (tracks_by_id current) (TrackID t) of None \<Rightarrow> False
         | Some ct \<Rightarrow> list_all2 clip_deep_eq (Clips ct) (Clips snapshot)) then snapshot
     else let ids = map TimelineClipID (Clips snapshot);
              kept_clips = filter (\<lambda>c. case preservedAudioLineageID pf c of None \<Rightarrow> True | Some i \<Rightarrow> i \<notin> set ids) (Clips t)
       in t\<lparr>Clips := sort_key (\<lambda>c. (TimelineStartFrame c, TimelineClipID c)) (kept_clips @ Clips snapshot),
            Muted := Muted snapshot, Solo := Solo snapshot, Locked := Locked snapshot, GainDB := GainDB snapshot,
            Ducking := Ducking snapshot\<rparr>)"

definition protected_ids :: "tracks_map \<Rightarrow> string list" where
  "protected_ids preserved = map TimelineClipID (concat (map (Clips \<circ> snd) preserved))"

definition restoreIndependentAudioTracks :: "string \<Rightarrow> vdoc \<Rightarrow> vdoc \<Rightarrow> tracks_map \<Rightarrow> tl_error + vdoc" where
  "restoreIndependentAudioTracks pf d current preserved = (
     let found = filter (\<lambda>c. TimelineClipID c \<in> set (protected_ids preserved)) (doc_clips d)
     in if list_ex (\<lambda>c. preservedAudioLineageID pf c \<noteq> Some (TimelineClipID c)) found
          \<or> \<not> distinct (map TimelineClipID found)
        then Inl (ErrPlain ''duplicate timeline_clip_id'')
        else Inr (map_tracks (restore_track pf current preserved) d))"

section \<open>Clips over the end of the timeline\<close>

definition clipOverhangFrames :: "vclip \<Rightarrow> goint \<Rightarrow> goint" where
  "clipOverhangFrames c duration = max 0 (i64 (TimelineEndFrame c - duration))"

definition trackOverhangFrames :: "vtrack \<Rightarrow> goint \<Rightarrow> goint" where
  "trackOverhangFrames t duration = fold (\<lambda>c o'. max o' (i64 (TimelineEndFrame c - duration))) (Clips t) 0"

definition trackHasOverhang :: "vtrack \<Rightarrow> goint \<Rightarrow> bool" where
  "trackHasOverhang t duration \<longleftrightarrow> trackOverhangFrames t duration > 0"

definition overhang_allowed :: "goint \<Rightarrow> tracks_map \<Rightarrow> vtrack \<Rightarrow> string list" where
  "overhang_allowed duration preserved t = (case map_of preserved (TrackID t) of None \<Rightarrow> [] | Some snapshot \<Rightarrow>
     if TrackID t \<notin> set independentAudioTrackIDs \<or> \<not> track_deep_eq t snapshot then []
     else map TimelineClipID (filter (\<lambda>c. ClipTrackID c = TrackID t \<and> TimelineStartFrame c \<ge> 0
       \<and> TimelineEndFrame c > TimelineStartFrame c \<and> TimelineEndFrame c > duration) (Clips t)))"

definition validateWithPreservedIndependentAudio :: "vdoc \<Rightarrow> tracks_map \<Rightarrow> issue list" where
  "validateWithPreservedIndependentAudio d preserved = (
     let report = Validate d; allowed = concat (map (overhang_allowed (DurationFrames d) preserved) (Tracks d))
     in if report = [] \<or> preserved = [] then report
        else filter (\<lambda>(code, subject). \<not> (code = ''invalid_clip_range'' \<and> subject \<in> set allowed)) report)"

definition isSourceDescendant :: "vclip \<Rightarrow> vclip \<Rightarrow> bool" where
  "isSourceDescendant c candidate \<longleftrightarrow> ClipTrackID candidate = ClipTrackID c \<and> AssetID candidate = AssetID c
     \<and> AssetKind candidate = AssetKind c \<and> Role candidate = Role c \<and> feq (PlaybackRate candidate) (PlaybackRate c)
     \<and> SourceStartFrame c \<ge> SourceStartFrame candidate \<and> SourceEndFrame c \<le> SourceEndFrame candidate"

definition the_only :: "'a list \<Rightarrow> 'a option" where
  "the_only xs = (case xs of [x] \<Rightarrow> Some x | _ \<Rightarrow> None)"

definition derived_id :: "string \<Rightarrow> string \<Rightarrow> string \<Rightarrow> bool" where
  "derived_id cid origin marker \<longleftrightarrow> (case cut_prefix (origin @ marker) cid of None \<Rightarrow> False
     | Some suff \<Rightarrow> suff \<noteq> [] \<and> Atoi suff \<noteq> None)"

definition deterministicDerivedClipAncestor :: "vclip \<Rightarrow> clips_map \<Rightarrow> vclip option" where
  "deterministicDerivedClipAncestor c previous = the_only (concat (map (\<lambda>(i, candidate).
     map (\<lambda>_. candidate) (filter (\<lambda>marker. derived_id (TimelineClipID c) i marker \<and> isSourceDescendant c candidate)
       [''_after_'', ''_split_''])) previous))"

definition uniqueSourceAncestor :: "vclip \<Rightarrow> vclip list \<Rightarrow> vclip option" where
  "uniqueSourceAncestor c previous = the_only (filter (isSourceDescendant c) previous)"

definition independentAudioClipAncestor :: "string \<Rightarrow> vclip \<Rightarrow> vclip list \<Rightarrow> vclip option" where
  "independentAudioClipAncestor pf c previous = (let byID = clips_by_id previous in
     case map_of byID (TimelineClipID c) of Some origin \<Rightarrow> Some origin | None \<Rightarrow>
     (case preservedAudioLineageID pf c of
        Some i \<Rightarrow> (case map_of byID i of None \<Rightarrow> None
            | Some origin \<Rightarrow> if isSourceDescendant c origin then Some origin else None)
      | None \<Rightarrow> (case deterministicDerivedClipAncestor c byID of Some origin \<Rightarrow> Some origin
            | None \<Rightarrow> uniqueSourceAncestor c previous)))"

text \<open>The verdict on one clip of the result.\<close>

definition clip_overhang_ok :: "string \<Rightarrow> vtrack \<Rightarrow> goint \<Rightarrow> goint \<Rightarrow> bool \<Rightarrow> vtrack option \<Rightarrow> vclip \<Rightarrow> bool" where
  "clip_overhang_ok pf previous previousDuration resultDuration trusted snapshot c \<longleftrightarrow>
     (case snapshot of None \<Rightarrow> False | Some s \<Rightarrow> (case map_of (clips_by_id (Clips s)) (TimelineClipID c) of
         None \<Rightarrow> False | Some origin \<Rightarrow> clip_deep_eq origin c))
     \<or> trusted \<and> (case independentAudioClipAncestor pf c (Clips previous) of None \<Rightarrow> False
         | Some origin \<Rightarrow> clipOverhangFrames c resultDuration \<le> clipOverhangFrames origin previousDuration)"

definition independentAudioOverhangIsAuthorizedPerClip :: "string \<Rightarrow> vtrack \<Rightarrow> vtrack \<Rightarrow> goint \<Rightarrow> goint \<Rightarrow> bool
  \<Rightarrow> vtrack option \<Rightarrow> bool" where
  "independentAudioOverhangIsAuthorizedPerClip pf previous result previousDuration resultDuration trusted snapshot \<longleftrightarrow> (
     let over = filter (\<lambda>c. clipOverhangFrames c resultDuration \<noteq> 0) (Clips result)
     in over \<noteq> [] \<and> list_all (clip_overhang_ok pf previous previousDuration resultDuration trusted snapshot) over)"

definition deriveIndependentAudioValidationProof :: "string \<Rightarrow> vdoc \<Rightarrow> vdoc \<Rightarrow> tracks_map \<Rightarrow> tracks_map \<Rightarrow> bool \<Rightarrow> tracks_map" where
  "deriveIndependentAudioValidationProof pf current result trustedCurrent preserved currentValid =
     (if \<not> currentValid then [] else filled (map (\<lambda>t. (TrackID t, t)) (filter (\<lambda>t.
        TrackID t \<in> set independentAudioTrackIDs \<and> trackOverhangFrames t (DurationFrames result) \<noteq> 0 \<and>
        (case map_of (tracks_by_id current) (TrackID t) of None \<Rightarrow> False
         | Some previous \<Rightarrow> independentAudioOverhangIsAuthorizedPerClip pf previous t (DurationFrames current)
             (DurationFrames result) (map_of trustedCurrent (TrackID t) \<noteq> None) (map_of preserved (TrackID t))))
        (Tracks result))))"

end
