(* ===== verification/Timeline_Store.thy ===== *)
theory Timeline_Store
  imports Timeline_Validate Reducer_Rewind "HOL-Library.Monad_Syntax"
begin

text \<open>
  Timelines in the database (\<open>timeline/store.go\<close>): how a document is encoded (\<open>ToMap\<close>) and read back.
  A column holds the decoded JSON value, in which every number is a \<open>float64\<close>.  Two things of
  \<open>encoding/json\<close> are left out because stored documents have neither: keys that match a field only up
  to case, and the difference between a missing slice and an empty one.  Strings are valid UTF-8.
\<close>

section \<open>Encoding\<close>

text \<open>A field with \<open>omitempty\<close>.\<close>

definition omit :: "bool \<Rightarrow> string \<Rightarrow> gval \<Rightarrow> gmap" where
  "omit absent k v = (if absent then [] else [(k, v)])"

definition omit_str :: "string \<Rightarrow> string \<Rightarrow> gmap" where "omit_str k s = omit (s = []) k (GStr s)"
definition omit_int :: "string \<Rightarrow> goint \<Rightarrow> gmap" where "omit_int k n = omit (n = 0) k (GInt n)"
definition omit_float :: "string \<Rightarrow> f64 \<Rightarrow> gmap" where "omit_float k x = omit (x = Fin 0) k (GFloat x)"
definition omit_bool :: "string \<Rightarrow> bool \<Rightarrow> gmap" where "omit_bool k b = omit (\<not> b) k (GBool b)"

definition clip_fields :: "vclip \<Rightarrow> gmap" where
  "clip_fields c = [(''timeline_clip_id'', GStr (TimelineClipID c)), (''track_id'', GStr (ClipTrackID c))]
     @ omit_str ''asset_id'' (AssetID c) @ omit_str ''asset_kind'' (AssetKind c) @ omit_str ''role'' (Role c)
     @ omit_str ''text'' (ClipText c)
     @ [(''timeline_start_frame'', GInt (TimelineStartFrame c)), (''timeline_end_frame'', GInt (TimelineEndFrame c))]
     @ omit_int ''source_start_frame'' (SourceStartFrame c) @ omit_int ''source_end_frame'' (SourceEndFrame c)
     @ omit_float ''playback_rate'' (PlaybackRate c) @ omit_float ''gain_db'' (ClipGainDB c)
     @ omit_int ''fade_in_frames'' (FadeInFrames c) @ omit_int ''fade_out_frames'' (FadeOutFrames c)
     @ omit_str ''subtitle_style'' (SubtitleStyle c) @ omit_str ''parent_block_id'' (ParentBlockID c)
     @ omit_bool ''linked'' (Linked c)
     @ (case Effects c of None \<Rightarrow> [] | Some es \<Rightarrow> omit (es = []) ''effects'' (GArr (map GObj es)))
     @ (case Metadata c of None \<Rightarrow> [] | Some m \<Rightarrow> omit (m = []) ''metadata'' (GObj m))"

definition ducking_fields :: "TrackDucking \<Rightarrow> gmap" where
  "ducking_fields k = [(''enabled'', GBool (Enabled k)), (''duck_db'', GFloat (DuckDB k)),
     (''trigger_tracks'', GStrs (TriggerTracks k))]"

definition track_fields :: "vtrack \<Rightarrow> gmap" where
  "track_fields t = [(''track_id'', GStr (TrackID t)), (''track_type'', GStr (TrackType t)),
       (''clips'', GArr (map (GObj \<circ> clip_fields) (Clips t)))]
     @ omit_bool ''muted'' (Muted t) @ omit_bool ''solo'' (Solo t) @ omit_bool ''locked'' (Locked t)
     @ omit_float ''gain_db'' (GainDB t)
     @ (case Ducking t of None \<Rightarrow> [] | Some k \<Rightarrow> [(''ducking'', GObj (ducking_fields k))])"

definition document_fields :: "vdoc \<Rightarrow> gmap" where
  "document_fields d = [(''timeline_id'', GStr (TimelineID d)), (''draft_id'', GStr (DraftID d)), (''version'', GInt (Version d)),
     (''fps'', GInt (FPS d)), (''duration_frames'', GInt (DurationFrames d)),
     (''tracks'', GArr (map (GObj \<circ> track_fields) (Tracks d)))]"

definition ToMap :: "vdoc \<Rightarrow> tl_error + gmap" where
  "ToMap d = (if json_ok (GObj (document_fields d)) then Inr (json_norm_map (document_fields d))
     else Inl (ErrPlain ''json: unsupported value''))"

section \<open>Decoding\<close>

text \<open>\<open>json.Unmarshal\<close> into a struct: \<open>null\<close> and a missing key leave the zero value, another type is an error.\<close>

definition str_field :: "gmap \<Rightarrow> string \<Rightarrow> string option" where
  "str_field m k = (case gget m k of GNil \<Rightarrow> Some [] | GStr s \<Rightarrow> Some s | _ \<Rightarrow> None)"

definition whole :: "rat \<Rightarrow> goint option" where
  "whole x = (if x = of_int (floor x) \<and> - 9223372036854775808 \<le> floor x \<and> floor x < 9223372036854775808
     then Some (floor x) else None)"

definition int_field :: "gmap \<Rightarrow> string \<Rightarrow> goint option" where
  "int_field m k = (case gget m k of GNil \<Rightarrow> Some 0 | GFloat (Fin x) \<Rightarrow> whole x | _ \<Rightarrow> None)"

definition float_field :: "gmap \<Rightarrow> string \<Rightarrow> f64 option" where
  "float_field m k = (case gget m k of GNil \<Rightarrow> Some (Fin 0) | GFloat x \<Rightarrow> Some x | _ \<Rightarrow> None)"

definition bool_field :: "gmap \<Rightarrow> string \<Rightarrow> bool option" where
  "bool_field m k = (case gget m k of GNil \<Rightarrow> Some False | GBool b \<Rightarrow> Some b | _ \<Rightarrow> None)"

fun object_of :: "gval \<Rightarrow> gmap option" where
  "object_of GNil = Some []"
| "object_of (GObj m) = Some m"
| "object_of _ = None"

definition array_field :: "(gval \<Rightarrow> 'a option) \<Rightarrow> gmap \<Rightarrow> string \<Rightarrow> 'a list option" where
  "array_field f m k = (case gget m k of GNil \<Rightarrow> Some [] | GArr vs \<Rightarrow> those (map f vs) | _ \<Rightarrow> None)"

definition effects_field :: "gmap \<Rightarrow> gmap list option option" where
  "effects_field m = (case gget m ''effects'' of GNil \<Rightarrow> Some None
     | GArr vs \<Rightarrow> map_option Some (those (map object_of vs)) | _ \<Rightarrow> None)"

definition metadata_field :: "gmap \<Rightarrow> gmap option option" where
  "metadata_field m = (case gget m ''metadata'' of GNil \<Rightarrow> Some None | GObj x \<Rightarrow> Some (Some x) | _ \<Rightarrow> None)"

fun string_of :: "gval \<Rightarrow> string option" where
  "string_of GNil = Some []"
| "string_of (GStr s) = Some s"
| "string_of _ = None"

definition clip_of :: "gval \<Rightarrow> vclip option" where
  "clip_of v = do {
     m \<leftarrow> object_of v;
     cid \<leftarrow> str_field m ''timeline_clip_id''; track \<leftarrow> str_field m ''track_id'';
     asset \<leftarrow> str_field m ''asset_id''; kind \<leftarrow> str_field m ''asset_kind'';
     role \<leftarrow> str_field m ''role''; words \<leftarrow> str_field m ''text'';
     ts \<leftarrow> int_field m ''timeline_start_frame''; te \<leftarrow> int_field m ''timeline_end_frame'';
     ss \<leftarrow> int_field m ''source_start_frame''; se \<leftarrow> int_field m ''source_end_frame'';
     rate \<leftarrow> float_field m ''playback_rate''; gain \<leftarrow> float_field m ''gain_db'';
     fi \<leftarrow> int_field m ''fade_in_frames''; fo \<leftarrow> int_field m ''fade_out_frames'';
     style \<leftarrow> str_field m ''subtitle_style''; parent \<leftarrow> str_field m ''parent_block_id'';
     linked \<leftarrow> bool_field m ''linked''; es \<leftarrow> effects_field m; meta \<leftarrow> metadata_field m;
     Some \<lparr>TimelineClipID = cid, ClipTrackID = track, AssetID = asset, AssetKind = kind, Role = role, ClipText = words,
       TimelineStartFrame = ts, TimelineEndFrame = te, SourceStartFrame = ss, SourceEndFrame = se, PlaybackRate = rate,
       ClipGainDB = gain, FadeInFrames = fi, FadeOutFrames = fo, SubtitleStyle = style, ParentBlockID = parent,
       Linked = linked, Effects = es, Metadata = meta\<rparr> }"

definition ducking_field :: "gmap \<Rightarrow> TrackDucking option option" where
  "ducking_field m = (case gget m ''ducking'' of GNil \<Rightarrow> Some None
     | GObj k \<Rightarrow> do { on \<leftarrow> bool_field k ''enabled''; db \<leftarrow> float_field k ''duck_db'';
         ts \<leftarrow> array_field string_of k ''trigger_tracks'';
         Some (Some \<lparr>Enabled = on, DuckDB = db, TriggerTracks = ts\<rparr>) }
     | _ \<Rightarrow> None)"

definition track_of :: "gval \<Rightarrow> vtrack option" where
  "track_of v = do {
     m \<leftarrow> object_of v;
     tid \<leftarrow> str_field m ''track_id''; ty \<leftarrow> str_field m ''track_type''; cs \<leftarrow> array_field clip_of m ''clips'';
     mu \<leftarrow> bool_field m ''muted''; so \<leftarrow> bool_field m ''solo''; lo \<leftarrow> bool_field m ''locked'';
     gain \<leftarrow> float_field m ''gain_db''; du \<leftarrow> ducking_field m;
     Some \<lparr>TrackID = tid, TrackType = ty, Clips = cs, Muted = mu, Solo = so, Locked = lo, GainDB = gain, Ducking = du\<rparr> }"

definition document_of :: "gval \<Rightarrow> vdoc option" where
  "document_of v = do {
     m \<leftarrow> object_of v;
     i \<leftarrow> str_field m ''timeline_id''; d \<leftarrow> str_field m ''draft_id''; n \<leftarrow> int_field m ''version'';
     fps \<leftarrow> int_field m ''fps''; frames \<leftarrow> int_field m ''duration_frames''; ts \<leftarrow> array_field track_of m ''tracks'';
     Some \<lparr>TimelineID = i, DraftID = d, Version = n, FPS = fps, DurationFrames = frames, Tracks = ts\<rparr> }"

section \<open>Reading\<close>

datatype 'a read = Found 'a | Missing | ReadError tl_error

definition read_row :: "timeline_row option \<Rightarrow> vdoc read" where
  "read_row r = (case r of None \<Rightarrow> Missing | Some t \<Rightarrow>
     (case document_of (tl_document t) of None \<Rightarrow> ReadError (ErrPlain ''json'') | Some d \<Rightarrow> Found (ensureRequiredTracks d)))"

definition GetFromQuery :: "db \<Rightarrow> string \<Rightarrow> goint \<Rightarrow> vdoc read" where
  "GetFromQuery db d v = read_row (find_timeline d v db)"

definition GetByID :: "db \<Rightarrow> string \<Rightarrow> string \<Rightarrow> vdoc read" where
  "GetByID db d i = read_row (find (\<lambda>t. tl_draft_id t = d \<and> tl_timeline_id t = i) (db_timelines db))"

definition Latest :: "db \<Rightarrow> string \<Rightarrow> vdoc read" where
  "Latest db d = (case find_draft d db of None \<Rightarrow> Missing | Some r \<Rightarrow>
     (case dr_timeline_current_version r of None \<Rightarrow> Missing | Some v \<Rightarrow> GetFromQuery db d v))"

text \<open>\<open>ORDER BY created_at DESC, preview_id DESC LIMIT 1\<close>.\<close>

definition LatestPreviewID :: "db \<Rightarrow> string \<Rightarrow> goint \<Rightarrow> string option" where
  "LatestPreviewID db d v = (case sort_key (\<lambda>p. (pv_created_at p, pv_preview_id p))
       (filter (\<lambda>p. pv_draft_id p = d \<and> pv_timeline_version p = v) (db_previews db)) of
     [] \<Rightarrow> None | ps \<Rightarrow> Some (pv_preview_id (last ps)))"

section \<open>The round trip\<close>

text \<open>What a document is after a trip through the database: empty effects and metadata are dropped, numbers in them are floats.\<close>

definition stored_clip :: "vclip \<Rightarrow> vclip" where
  "stored_clip c = c\<lparr>Effects := norm_effects (Effects c), Metadata := (case Metadata c of None \<Rightarrow> None
     | Some m \<Rightarrow> if m = [] then None else Some (json_norm_map m))\<rparr>"

definition stored :: "vdoc \<Rightarrow> vdoc" where
  "stored d = map_tracks (\<lambda>t. t\<lparr>Clips := map stored_clip (Clips t)\<rparr>) d"

text \<open>Integers go through \<open>float64\<close> on their way into the column.\<close>

definition exact :: "goint \<Rightarrow> bool" where
  "exact n \<longleftrightarrow> \<bar>n\<bar> \<le> 9007199254740992"

definition exact_clip :: "vclip \<Rightarrow> bool" where
  "exact_clip c \<longleftrightarrow> exact (TimelineStartFrame c) \<and> exact (TimelineEndFrame c) \<and> exact (SourceStartFrame c)
     \<and> exact (SourceEndFrame c) \<and> exact (FadeInFrames c) \<and> exact (FadeOutFrames c)"

definition exact_document :: "vdoc \<Rightarrow> bool" where
  "exact_document d \<longleftrightarrow> exact (Version d) \<and> exact (FPS d) \<and> exact (DurationFrames d) \<and> list_all exact_clip (doc_clips d)"

lemma norm_simps [simp]: "json_norm_map [] = []" "json_norm_map ((k, v) # m) = (k, json_norm v) # json_norm_map m"
  "json_norm_map (a @ b) = json_norm_map a @ json_norm_map b" "json_norm (GObj m) = GObj (json_norm_map m)"
  by (simp_all add: json_norm_map_def)

declare json_norm.simps(5) [simp del]

lemma gget_omit [simp]: "gget (json_norm_map (omit p k v) @ m) k' = (if k' = k \<and> \<not> p then json_norm v else gget m k')"
  "gget (json_norm_map (omit p k v)) k' = (if k' = k \<and> \<not> p then json_norm v else GNil)"
  by (simp_all add: omit_def)

lemma whole_exact: "exact n \<Longrightarrow> whole (of_int n) = Some n"
  by (auto simp: whole_def exact_def)

lemma number_exact: "exact n \<Longrightarrow> f_of_int n = Fin (of_int n) \<and> whole (of_int n) = Some n"
  using whole_exact [of n] by (simp add: exact_def)

lemma those_map: "(\<And>x. x \<in> set xs \<Longrightarrow> f x = Some (g x)) \<Longrightarrow> those (map f xs) = Some (map g xs)"
  by (induction xs) auto

lemmas omit_defs = omit_str_def omit_int_def omit_float_def omit_bool_def

lemma effects_stored: "effects_field (json_norm_map (clip_fields c)) = Some (norm_effects (Effects c))"
proof -
  have "gget (json_norm_map (clip_fields c)) ''effects''
      = (case Effects c of None \<Rightarrow> GNil | Some es \<Rightarrow> if es = [] then GNil else GArr (map (\<lambda>m. GObj (json_norm_map m)) es))"
    by (cases "Effects c"; cases "Metadata c") (simp_all add: clip_fields_def omit_defs comp_def)
  then show ?thesis
    using those_map [of "the (Effects c)" "\<lambda>m. object_of (GObj (json_norm_map m))" json_norm_map]
    by (cases "Effects c") (auto simp: effects_field_def norm_effects_def comp_def split: list.splits)
qed

lemma metadata_stored: "metadata_field (json_norm_map (clip_fields c)) = Some (Metadata (stored_clip c))"
proof -
  have "gget (json_norm_map (clip_fields c)) ''metadata''
      = (case Metadata c of None \<Rightarrow> GNil | Some m \<Rightarrow> if m = [] then GNil else GObj (json_norm_map m))"
    by (cases "Effects c"; cases "Metadata c") (simp_all add: clip_fields_def omit_defs comp_def)
  then show ?thesis by (cases "Metadata c") (simp_all add: metadata_field_def stored_clip_def)
qed

lemma clip_roundtrip:
  assumes "exact_clip c"
  shows "clip_of (GObj (json_norm_map (clip_fields c))) = Some (stored_clip c)"
proof -
  let ?m = "json_norm_map (clip_fields c)"
  have str: "str_field ?m ''timeline_clip_id'' = Some (TimelineClipID c)" "str_field ?m ''track_id'' = Some (ClipTrackID c)"
    "str_field ?m ''asset_id'' = Some (AssetID c)" "str_field ?m ''asset_kind'' = Some (AssetKind c)"
    "str_field ?m ''role'' = Some (Role c)" "str_field ?m ''text'' = Some (ClipText c)"
    "str_field ?m ''subtitle_style'' = Some (SubtitleStyle c)" "str_field ?m ''parent_block_id'' = Some (ParentBlockID c)"
    by (cases "Effects c"; cases "Metadata c"; simp add: clip_fields_def omit_defs str_field_def)+
  have num: "int_field ?m ''timeline_start_frame'' = Some (TimelineStartFrame c)" "int_field ?m ''timeline_end_frame'' = Some (TimelineEndFrame c)"
    "int_field ?m ''source_start_frame'' = Some (SourceStartFrame c)" "int_field ?m ''source_end_frame'' = Some (SourceEndFrame c)"
    "int_field ?m ''fade_in_frames'' = Some (FadeInFrames c)" "int_field ?m ''fade_out_frames'' = Some (FadeOutFrames c)"
    using assms by (cases "Effects c"; cases "Metadata c"; simp add: clip_fields_def omit_defs int_field_def number_exact exact_clip_def)+
  have rest: "float_field ?m ''playback_rate'' = Some (PlaybackRate c)" "float_field ?m ''gain_db'' = Some (ClipGainDB c)"
    "bool_field ?m ''linked'' = Some (Linked c)"
    by (cases "Effects c"; cases "Metadata c"; simp add: clip_fields_def omit_defs float_field_def bool_field_def)+
  show ?thesis
    by (simp add: clip_of_def str num rest effects_stored metadata_stored) (simp add: stored_clip_def)
qed

lemma ducking_roundtrip: "ducking_field (json_norm_map (track_fields t)) = Some (Ducking t)"
proof -
  have "gget (json_norm_map (track_fields t)) ''ducking'' = (case Ducking t of None \<Rightarrow> GNil | Some k \<Rightarrow> GObj (json_norm_map (ducking_fields k)))"
    by (cases "Ducking t") (simp_all add: track_fields_def omit_defs)
  moreover have "those (map string_of (map GStr ss)) = Some ss" for ss
    using those_map [of ss "\<lambda>s. string_of (GStr s)" id] by (simp add: comp_def)
  ultimately show ?thesis
    by (cases "Ducking t") (simp_all add: ducking_field_def ducking_fields_def bool_field_def float_field_def array_field_def)
qed

lemma track_roundtrip:
  assumes "list_all exact_clip (Clips t)"
  shows "track_of (GObj (json_norm_map (track_fields t))) = Some (t\<lparr>Clips := map stored_clip (Clips t)\<rparr>)"
proof -
  let ?m = "json_norm_map (track_fields t)"
  have "gget ?m ''clips'' = GArr (map (\<lambda>c. GObj (json_norm_map (clip_fields c))) (Clips t))"
    by (simp add: track_fields_def comp_def)
  then have cs: "array_field clip_of ?m ''clips'' = Some (map stored_clip (Clips t))"
    using those_map [of "Clips t" "\<lambda>c. clip_of (GObj (json_norm_map (clip_fields c)))" stored_clip] clip_roundtrip assms
    by (simp add: array_field_def comp_def list_all_iff)
  have rest: "str_field ?m ''track_id'' = Some (TrackID t)" "str_field ?m ''track_type'' = Some (TrackType t)"
    "bool_field ?m ''muted'' = Some (Muted t)" "bool_field ?m ''solo'' = Some (Solo t)" "bool_field ?m ''locked'' = Some (Locked t)"
    "float_field ?m ''gain_db'' = Some (GainDB t)"
    by (cases "Ducking t"; simp add: track_fields_def omit_defs str_field_def bool_field_def float_field_def)+
  show ?thesis by (simp add: track_of_def cs rest ducking_roundtrip)
qed

text \<open>
  A document that is encoded, stored and read back is the document itself, as long as its integers
  fit into a \<open>float64\<close>.
\<close>

lemma document_roundtrip:
  assumes "ToMap d = Inr m" and "exact_document d"
  shows "document_of (GObj m) = Some (stored d)"
proof -
  have m: "m = json_norm_map (document_fields d)" using assms(1) by (simp add: ToMap_def split: if_splits)
  have clips: "list_all exact_clip (Clips t)" if "t \<in> set (Tracks d)" for t
    using assms(2) that by (auto simp: exact_document_def doc_clips_def list_all_iff)
  have "gget m ''tracks'' = GArr (map (\<lambda>t. GObj (json_norm_map (track_fields t))) (Tracks d))"
    by (simp add: m document_fields_def comp_def)
  then have ts: "array_field track_of m ''tracks'' = Some (map (\<lambda>t. t\<lparr>Clips := map stored_clip (Clips t)\<rparr>) (Tracks d))"
    using those_map [of "Tracks d" "\<lambda>t. track_of (GObj (json_norm_map (track_fields t)))"] track_roundtrip clips
    by (simp add: array_field_def comp_def)
  have rest: "str_field m ''timeline_id'' = Some (TimelineID d)" "str_field m ''draft_id'' = Some (DraftID d)"
    "int_field m ''version'' = Some (Version d)" "int_field m ''fps'' = Some (FPS d)" "int_field m ''duration_frames'' = Some (DurationFrames d)"
    using assms(2) by (simp_all add: m document_fields_def str_field_def int_field_def number_exact exact_document_def)
  show ?thesis by (simp add: document_of_def ts rest stored_def map_tracks_def)
qed

end
