(* ===== verification/Edit_Proofs.thy ===== *)
theory Edit_Proofs
  imports Edit_Preserve Timeline_Store
begin

text \<open>
  The proofs an edit stores with its validation report, so that a later validation of the same
  timeline knows which overhanging audio was accepted (\<open>agentexec/timeline_integrity.go\<close>).
  \<open>sha\<close> is the hexadecimal SHA-256 of the JSON text of a value, from the standard library.
\<close>

section \<open>Proofs\<close>

record audio_proof =
  ap_Type :: string
  ap_TrackID :: string
  ap_TimingSHA256 :: string
  ap_OverhangFrames :: goint

definition independentAudioPreservationProofType :: string where
  "independentAudioPreservationProofType = ''bounded_independent_audio_v1''"

definition clip_timing :: "vclip \<Rightarrow> gval" where
  "clip_timing c = GObj [(''timeline_clip_id'', GStr (TimelineClipID c)), (''track_id'', GStr (ClipTrackID c)),
     (''asset_id'', GStr (AssetID c)), (''asset_kind'', GStr (AssetKind c)), (''role'', GStr (Role c)),
     (''timeline_start_frame'', GInt (TimelineStartFrame c)), (''timeline_end_frame'', GInt (TimelineEndFrame c)),
     (''source_start_frame'', GInt (SourceStartFrame c)), (''source_end_frame'', GInt (SourceEndFrame c)),
     (''playback_rate'', GFloat (PlaybackRate c)), (''parent_block_id'', GStr (ParentBlockID c)), (''linked'', GBool (Linked c))]"

text \<open>The list of clips of an empty track is \<open>nil\<close> and encodes as \<open>null\<close>.\<close>

definition independentAudioTiming :: "vtrack \<Rightarrow> gval" where
  "independentAudioTiming t = GObj [(''track_id'', GStr (TrackID t)),
     (''clips'', if Clips t = [] then GNil else GArr (map clip_timing (Clips t)))]"

definition timelineTrackTimingSHA256 :: "(gval \<Rightarrow> string) \<Rightarrow> vtrack \<Rightarrow> tl_error + string" where
  "timelineTrackTimingSHA256 sha t = (if json_ok (independentAudioTiming t) then Inr (sha (independentAudioTiming t))
     else Inl (ErrPlain ''json: unsupported value''))"

definition track_proof :: "(gval \<Rightarrow> string) \<Rightarrow> goint \<Rightarrow> vtrack \<Rightarrow> tl_error + audio_proof" where
  "track_proof sha duration t = bind_sum (timelineTrackTimingSHA256 sha t) (\<lambda>h. Inr
     \<lparr>ap_Type = independentAudioPreservationProofType, ap_TrackID = TrackID t, ap_TimingSHA256 = h,
      ap_OverhangFrames = trackOverhangFrames t duration\<rparr>)"

text \<open>The proofs a report is given; the code leaves the field out when there are none.\<close>

definition addIndependentAudioPreservationProofs :: "(gval \<Rightarrow> string) \<Rightarrow> vdoc \<Rightarrow> tracks_map \<Rightarrow> tl_error + audio_proof list" where
  "addIndependentAudioPreservationProofs sha d preserved = map_bind
     (\<lambda>(i, t). bind_sum (track_proof sha (DurationFrames d) t) (\<lambda>p. Inr (p\<lparr>ap_TrackID := i\<rparr>)))
     (List.map_filter (\<lambda>i. case map_of preserved i of None \<Rightarrow> None
        | Some t \<Rightarrow> if trackHasOverhang t (DurationFrames d) then Some (i, t) else None) independentAudioTrackIDs)"

text \<open>A proof counts when it is about a track of the document and its hash and overhang are still right.\<close>

definition proof_track :: "(gval \<Rightarrow> string) \<Rightarrow> vdoc \<Rightarrow> audio_proof \<Rightarrow> tl_error + (string \<times> vtrack) list" where
  "proof_track sha d p = (case map_of (tracks_by_id d) (ap_TrackID p) of
       None \<Rightarrow> Inr []
     | Some t \<Rightarrow> if ap_Type p \<noteq> independentAudioPreservationProofType \<or> ap_TrackID p \<notin> set independentAudioTrackIDs
         then Inr []
         else bind_sum (timelineTrackTimingSHA256 sha t) (\<lambda>h. Inr
           (if h = ap_TimingSHA256 p \<and> ap_OverhangFrames p > 0
               \<and> trackOverhangFrames t (DurationFrames d) = ap_OverhangFrames p then [(ap_TrackID p, t)] else [])))"

text \<open>
  What a stored report says about proofs: its text is no JSON object, the field is missing, the field
  is not a list of proofs, or the proofs.
\<close>

datatype stored_proofs = BadReport | NoProofField | BadProofs | Proofs "audio_proof list"

definition verifiedIndependentAudioProofs :: "(gval \<Rightarrow> string) \<Rightarrow> vdoc \<Rightarrow> stored_proofs \<Rightarrow> tl_error + (tracks_map \<times> bool)" where
  "verifiedIndependentAudioProofs sha d r = (case r of
       BadReport \<Rightarrow> Inl (ErrPlain ''report'')
     | NoProofField \<Rightarrow> Inr ([], False)
     | BadProofs \<Rightarrow> Inl (ErrPlain ''preservation_proofs'')
     | Proofs ps \<Rightarrow> bind_sum (map_bind (proof_track sha d) ps) (\<lambda>ts. Inr (filled (concat ts), True)))"

section \<open>The chain of versions\<close>

text \<open>The part of a version row that is read.\<close>

record version_report =
  vr_parent :: "goint option"
  vr_report :: "stored_proofs option"

definition sameLogicalTimelineSnapshot :: "vdoc \<Rightarrow> vdoc \<Rightarrow> bool" where
  "sameLogicalTimelineSnapshot left right \<longleftrightarrow> FPS left = FPS right \<and> DurationFrames left = DurationFrames right
     \<and> list_all2 track_deep_eq (Tracks left) (Tracks right)"

text \<open>
  The walk from a version to its parents while the snapshot stays the same, at most 64 versions deep:
  \<open>fuel\<close> is the number of versions that may still be read, so the bound is the code's own.
\<close>

fun proof_chain :: "(gval \<Rightarrow> string) \<Rightarrow> (goint \<Rightarrow> version_report read) \<Rightarrow> (goint \<Rightarrow> vdoc read) \<Rightarrow> vdoc \<Rightarrow> nat
  \<Rightarrow> goint list \<Rightarrow> goint \<Rightarrow> vdoc \<Rightarrow> tl_error + tracks_map" where
  "proof_chain sha rows docs d 0 visited version logical = Inl (ErrPlain ''exceeds 64 versions'')"
| "proof_chain sha rows docs d (Suc fuel) visited version logical =
     (if version \<in> set visited then Inl (ErrPlain ''cycle'') else
      case rows version of ReadError e \<Rightarrow> Inl e | Missing \<Rightarrow> Inr [] | Found row \<Rightarrow>
        bind_sum (case vr_report row of None \<Rightarrow> Inr ([], False) | Some r \<Rightarrow> verifiedIndependentAudioProofs sha d r)
          (\<lambda>(proofs, authoritative).
          if authoritative then Inr proofs else
          case vr_parent row of None \<Rightarrow> Inr [] | Some parent \<Rightarrow>
            (case docs parent of Missing \<Rightarrow> Inr [] | ReadError e \<Rightarrow> Inl e | Found p \<Rightarrow>
               if \<not> sameLogicalTimelineSnapshot logical p then Inr []
               else proof_chain sha rows docs d fuel (version # visited) parent p)))"

definition preservedIndependentAudioFromStoredProof :: "(gval \<Rightarrow> string) \<Rightarrow> (goint \<Rightarrow> version_report read)
  \<Rightarrow> (goint \<Rightarrow> vdoc read) \<Rightarrow> vdoc \<Rightarrow> tl_error + tracks_map" where
  "preservedIndependentAudioFromStoredProof sha rows docs d = proof_chain sha rows docs d 64 [] (Version d) d"

definition validateStoredTimeline :: "(gval \<Rightarrow> string) \<Rightarrow> (goint \<Rightarrow> version_report read) \<Rightarrow> (goint \<Rightarrow> vdoc read)
  \<Rightarrow> vdoc \<Rightarrow> tl_error + issue list" where
  "validateStoredTimeline sha rows docs d = bind_sum (preservedIndependentAudioFromStoredProof sha rows docs d)
     (\<lambda>preserved. Inr (validateWithPreservedIndependentAudio d preserved))"

end
