(* ===== verification/Edit_Reports.thy ===== *)
theory Edit_Reports
  imports Edit_Preserve Content_Contract
begin

text \<open>
  What is reported about a timeline (\<open>agentexec/timeline_integrity.go\<close>, \<open>agentexec/tool_exec_timeline.go\<close>):
  how the cuts of the picture fall on the beats of the music, how the sound effects lie under the
  music, and what an edit changed.  A JSON object of the code is a record here.
\<close>

section \<open>Beats\<close>

definition frame_value :: "f64 \<Rightarrow> goint list" where
  "frame_value x = (if fle (Fin 0) x \<and> feq x (Trunc x) then [int_of_f x] else [])"

text \<open>A \<open>[]float64\<close> does not occur: JSON arrays decode to \<open>[]any\<close>, and the code builds \<open>[]int\<close> only.\<close>

fun EffectFrameValues :: "gval \<Rightarrow> goint list" where
  "EffectFrameValues (GArr vs) = concat (map (\<lambda>v. case NumericValue v of None \<Rightarrow> [] | Some x \<Rightarrow> frame_value x) vs)"
| "EffectFrameValues _ = []"

definition mapEffectFramesToTimeline :: "vclip \<Rightarrow> gval \<Rightarrow> goint list" where
  "mapEffectFramesToTimeline c v = (let rate = (if fle (PlaybackRate c) (Fin 0) then Fin 1 else PlaybackRate c)
     in map (\<lambda>n. i64 (TimelineStartFrame c + int_of_f (Round (fdiv (f_of_int (i64 (n - SourceStartFrame c))) rate))))
       (filter (\<lambda>n. \<not> (n < SourceStartFrame c \<or> n > SourceEndFrame c)) (EffectFrameValues v)))"

fun drop_repeats :: "goint \<Rightarrow> goint list \<Rightarrow> goint list" where
  "drop_repeats previous [] = []"
| "drop_repeats previous (n # ns) = (if n = previous then drop_repeats previous ns else n # drop_repeats n ns)"

definition sortedUniqueInts :: "goint list \<Rightarrow> goint list" where
  "sortedUniqueInts ns = drop_repeats (- 1) (sort ns)"

definition clip_beats :: "string \<Rightarrow> vclip \<Rightarrow> goint list" where
  "clip_beats k c = (case objectValue (gget (the_map (Metadata c)) ''beat_grid'') of None \<Rightarrow> []
       | Some grid \<Rightarrow> mapEffectFramesToTimeline c (gget grid k))
     @ concat (map (\<lambda>e. if stringValue (gget e ''kind'') = ''beat_grid'' then mapEffectFramesToTimeline c (gget e k) else [])
         (case Effects c of None \<Rightarrow> [] | Some es \<Rightarrow> es))"

definition beats_of :: "string \<Rightarrow> vdoc \<Rightarrow> goint list" where
  "beats_of k d = sortedUniqueInts (concat (map (\<lambda>t. if TrackID t \<noteq> ''bgm'' then [] else concat (map (clip_beats k) (Clips t)))
     (Tracks d)))"

text \<open>The ends of the picture clips inside the timeline, where the source does not run on.\<close>

fun inner_cuts :: "goint \<Rightarrow> vclip list \<Rightarrow> goint list" where
  "inner_cuts duration [] = []"
| "inner_cuts duration (c # cs) = (if TimelineEndFrame c > 0 \<and> TimelineEndFrame c < duration
     \<and> \<not> (case cs of [] \<Rightarrow> False | next # _ \<Rightarrow> clipsHaveContinuousSourceBoundary c next)
     then TimelineEndFrame c # inner_cuts duration cs else inner_cuts duration cs)"

definition cut_frames :: "vdoc \<Rightarrow> goint list" where
  "cut_frames d = concat (map (\<lambda>t. if TrackID t \<noteq> ''visual_base'' then []
     else inner_cuts (DurationFrames d) (sort_key TimelineStartFrame (Clips t))) (Tracks d))"



text \<open>\<open>sort.SearchInts\<close>, and a beat within the tolerance of a frame.\<close>

definition beatSnapToleranceFrames :: goint where "beatSnapToleranceFrames = 1"

function search_ints :: "goint list \<Rightarrow> goint \<Rightarrow> nat \<Rightarrow> nat \<Rightarrow> nat" where
  "search_ints ns x i j = (if i < j
     then (let h = (i + j) div 2 in if ns ! h < x then search_ints ns x (h + 1) j else search_ints ns x i h)
     else i)"
  by pat_completeness auto
termination
  by (relation "measure (\<lambda>(ns, x, i, j). j - i)") auto

declare search_ints.simps [simp del]

definition ContainsFrame :: "goint list \<Rightarrow> goint \<Rightarrow> bool" where
  "ContainsFrame ns target \<longleftrightarrow> (let k = search_ints ns (i64 (target - beatSnapToleranceFrames)) 0 (length ns)
     in k < length ns \<and> ns ! k \<le> i64 (target + beatSnapToleranceFrames))"

definition ratio3 :: "nat \<Rightarrow> nat \<Rightarrow> f64" where
  "ratio3 k n = (if n = 0 then Fin 0
     else fdiv (Round (fmul (fdiv (f_of_int (int k)) (f_of_int (int n))) (Fin 1000))) (Fin 1000))"

record beat_alignment =
  bt_beat_grid_present :: bool
  bt_cut_count :: nat
  bt_on_beat_cut_count :: nat
  bt_on_accent_cut_count :: nat
  bt_alignment_ratio :: f64
  bt_accent_alignment_ratio :: f64
  bt_off_beat_cut_frames :: "goint list"
  bt_off_accent_cut_frames :: "goint list"
  bt_all_cuts_on_beat_grid :: bool
  bt_beat_marker_count :: nat
  bt_strong_marker_count :: nat
  bt_downbeat_marker_count :: nat
  bt_warning :: bool

definition BeatAlignmentData :: "vdoc \<Rightarrow> beat_alignment" where
  "BeatAlignmentData d = (
     let beats = beats_of ''beat_frames'' d; strong = beats_of ''strong_beat_frames'' d;
         down = beats_of ''downbeat_frames'' d; cuts = cut_frames d;
         on_beat = (\<lambda>n. ContainsFrame beats n);
         accent = (\<lambda>n. on_beat n \<and> (ContainsFrame strong n \<or> ContainsFrame down n));
         hits = length (filter on_beat cuts); accents = length (filter accent cuts)
     in \<lparr>bt_beat_grid_present = (beats \<noteq> []), bt_cut_count = length cuts, bt_on_beat_cut_count = hits,
         bt_on_accent_cut_count = accents, bt_alignment_ratio = ratio3 hits (length cuts),
         bt_accent_alignment_ratio = ratio3 accents (length cuts),
         bt_off_beat_cut_frames = filter (\<lambda>n. \<not> on_beat n) cuts, bt_off_accent_cut_frames = filter (\<lambda>n. \<not> accent n) cuts,
         bt_all_cuts_on_beat_grid = (cuts \<noteq> [] \<and> hits = length cuts), bt_beat_marker_count = length beats,
         bt_strong_marker_count = length strong, bt_downbeat_marker_count = length down, bt_warning = (beats = [])\<rparr>)"

section \<open>Music and effects\<close>

definition clips_on :: "string \<Rightarrow> vdoc \<Rightarrow> vclip list" where
  "clips_on tid d = concat (map Clips (filter (\<lambda>t. TrackID t = tid) (Tracks d)))"

definition overlaps_clip :: "vclip \<Rightarrow> vclip \<Rightarrow> bool" where
  "overlaps_clip a b \<longleftrightarrow> TimelineStartFrame a < TimelineEndFrame b \<and> TimelineStartFrame b < TimelineEndFrame a"

record audio_layout =
  al_bgm_ranges :: "(goint \<times> goint) list"
  al_sfx_ranges :: "(string \<times> goint \<times> goint \<times> bool) list"
  al_bgm_coverage_end_frame :: goint
  al_sfx_without_bgm :: "string list"
  al_tail_uncovered :: bool
  al_sfx_warning :: bool

definition AudioLayoutData :: "vdoc \<Rightarrow> audio_layout" where
  "AudioLayoutData d = (let bgm = clips_on ''bgm'' d; sfx = clips_on ''sfx'' d;
       bgmEnd = fold (\<lambda>c n. max n (TimelineEndFrame c)) bgm 0;
       overlaps = (\<lambda>s. list_ex (overlaps_clip s) bgm);
       alone = (if bgm = [] then [] else map TimelineClipID (filter (\<lambda>s. \<not> overlaps s) sfx))
     in \<lparr>al_bgm_ranges = map (\<lambda>c. (TimelineStartFrame c, TimelineEndFrame c)) bgm,
         al_sfx_ranges = map (\<lambda>s. (TimelineClipID s, TimelineStartFrame s, TimelineEndFrame s, overlaps s)) sfx,
         al_bgm_coverage_end_frame = bgmEnd, al_sfx_without_bgm = alone,
         al_tail_uncovered = (bgm \<noteq> [] \<and> bgmEnd < DurationFrames d), al_sfx_warning = (alone \<noteq> [])\<rparr>)"

section \<open>What an edit changed\<close>

definition located_by_id :: "vdoc \<Rightarrow> (string \<times> string \<times> vclip) list" where
  "located_by_id d = filled (map (\<lambda>(t, c). (TimelineClipID c, t, c)) (located d))"

definition bare_tracks :: "vdoc \<Rightarrow> tracks_map" where
  "bare_tracks d = filled (map (\<lambda>t. (TrackID t, t\<lparr>Clips := []\<rparr>)) (Tracks d))"

datatype change = Inserted | Deleted | Updated

record changed_target =
  ct_timeline_clip_id :: "string option"
  ct_track_id :: string
  ct_change :: change

definition clip_target :: "(string \<times> string \<times> vclip) list \<Rightarrow> (string \<times> string \<times> vclip) list \<Rightarrow> string \<Rightarrow> changed_target list" where
  "clip_target before after cid = (case (map_of before cid, map_of after cid) of
       (Some (t, c), Some (t', c')) \<Rightarrow> if t = t' \<and> clip_deep_eq c c' then []
         else [\<lparr>ct_timeline_clip_id = Some cid, ct_track_id = t', ct_change = Updated\<rparr>]
     | (None, Some (t', c')) \<Rightarrow> [\<lparr>ct_timeline_clip_id = Some cid, ct_track_id = t', ct_change = Inserted\<rparr>]
     | (Some (t, c), None) \<Rightarrow> [\<lparr>ct_timeline_clip_id = Some cid, ct_track_id = t, ct_change = Deleted\<rparr>]
     | (None, None) \<Rightarrow> [])"

text \<open>Only the tracks after the edit are compared; a track that was not there before counts as changed.\<close>

definition track_target :: "tracks_map \<Rightarrow> tracks_map \<Rightarrow> string \<Rightarrow> changed_target list" where
  "track_target before after tid = (case (map_of before tid, map_of after tid) of
       (Some t, Some t') \<Rightarrow> if track_deep_eq t t' then []
         else [\<lparr>ct_timeline_clip_id = None, ct_track_id = tid, ct_change = Updated\<rparr>]
     | _ \<Rightarrow> [\<lparr>ct_timeline_clip_id = None, ct_track_id = tid, ct_change = Updated\<rparr>])"

definition atomicChangedTargets :: "vdoc \<Rightarrow> vdoc \<Rightarrow> changed_target list" where
  "atomicChangedTargets before after = (
     let b = located_by_id before; a = located_by_id after
     in concat (map (clip_target b a) (sort (remdups (map fst b @ map fst a))))
      @ concat (map (track_target (bare_tracks before) (bare_tracks after)) (sort (map fst (bare_tracks after)))))"

definition existingTimelineCoordinatesChanged :: "vdoc \<Rightarrow> vdoc \<Rightarrow> bool" where
  "existingTimelineCoordinatesChanged before after \<longleftrightarrow> list_ex (\<lambda>(t, c).
     case map_of (located_by_id after) (TimelineClipID c) of None \<Rightarrow> True
     | Some (t', c') \<Rightarrow> t' \<noteq> t \<or> TimelineStartFrame c' \<noteq> TimelineStartFrame c \<or> TimelineEndFrame c' \<noteq> TimelineEndFrame c)
     (located before)"

record coordinate_effect =
  ce_duration_frames_before :: goint
  ce_duration_frames_after :: goint
  ce_ripple_delta_frames :: goint
  ce_observation_required :: bool

definition atomicTimelineCoordinateEffect :: "vdoc \<Rightarrow> vdoc \<Rightarrow> coordinate_effect" where
  "atomicTimelineCoordinateEffect before after = (let changed = existingTimelineCoordinatesChanged before after
     in \<lparr>ce_duration_frames_before = DurationFrames before, ce_duration_frames_after = DurationFrames after,
         ce_ripple_delta_frames = (if changed then i64 (DurationFrames after - DurationFrames before) else 0),
         ce_observation_required = changed\<rparr>)"

section \<open>Facts\<close>

text \<open>The binary search finds the first entry that is large enough.\<close>

lemma search_ints_bounds:
  assumes "sorted ns" and "i \<le> j" and "j \<le> length ns" and "\<forall>k < i. ns ! k < x" and "\<forall>k. j \<le> k \<and> k < length ns \<longrightarrow> x \<le> ns ! k"
  shows "search_ints ns x i j \<le> length ns \<and> (\<forall>k < search_ints ns x i j. ns ! k < x)
    \<and> (\<forall>k. search_ints ns x i j \<le> k \<and> k < length ns \<longrightarrow> x \<le> ns ! k)"
  using assms
proof (induction ns x i j rule: search_ints.induct)
  case (1 ns x i j)
  show ?case
  proof (cases "i < j")
    case True
    define h where "h = (i + j) div 2"
    have h: "i \<le> h" "h < j" using True by (auto simp: h_def)
    show ?thesis
    proof (cases "ns ! h < x")
      case less: True
      have "ns ! k < x" if "k < h + 1" for k
        using sorted_nth_mono [OF "1.prems"(1), of k h] that h "1.prems"(3) less by (cases "k = h") auto
      with "1.IH"(1) [OF True h_def less] "1.prems" h True less show ?thesis
        by (simp add: search_ints.simps [of ns x i j] h_def [symmetric] Let_def)
    next
      case False
      have "x \<le> ns ! k" if "h \<le> k" "k < length ns" for k
        using sorted_nth_mono [OF "1.prems"(1) that] False by auto
      with "1.IH"(2) [OF True h_def False] "1.prems" h True False show ?thesis
        by (simp add: search_ints.simps [of ns x i j] h_def [symmetric] Let_def)
    qed
  next
    case False
    then have "search_ints ns x i j = i" by (subst search_ints.simps) simp
    with "1.prems" False show ?thesis by auto
  qed
qed

lemma ContainsFrame_near:
  assumes "sorted ns" and "\<bar>target\<bar> < 9223372036854775807"
  shows "ContainsFrame ns target \<longleftrightarrow> (\<exists>n \<in> set ns. \<bar>n - target\<bar> \<le> 1)"
proof -
  define k where "k = search_ints ns (target - 1) 0 (length ns)"
  have k: "\<forall>m < k. ns ! m < target - 1" "\<And>m. k \<le> m \<Longrightarrow> m < length ns \<Longrightarrow> target - 1 \<le> ns ! m"
    using search_ints_bounds [OF assms(1), of 0 "length ns" "target - 1"] by (auto simp: k_def)
  have c: "ContainsFrame ns target \<longleftrightarrow> k < length ns \<and> ns ! k \<le> target + 1"
    using assms(2) by (simp add: ContainsFrame_def beatSnapToleranceFrames_def k_def Let_def)
  show ?thesis
  proof
    assume "\<exists>n \<in> set ns. \<bar>n - target\<bar> \<le> 1"
    then obtain m where m: "m < length ns" "\<bar>ns ! m - target\<bar> \<le> 1" by (auto simp: in_set_conv_nth)
    then have "\<not> m < k" using k(1) by (metis abs_le_iff linorder_not_less minus_diff_eq le_diff_eq diff_le_eq add.commute)
    then have "k \<le> m" by simp
    moreover from this have "ns ! k \<le> ns ! m" using assms(1) m(1) by (simp add: sorted_nth_mono)
    ultimately show "ContainsFrame ns target" unfolding c using m by auto
  qed (use c k(2) in \<open>force simp: in_set_conv_nth\<close>)
qed

text \<open>An accented cut is a cut on a beat, and what is not reported as off the beat lies on it.\<close>

lemma accents_are_beats: "bt_on_accent_cut_count (BeatAlignmentData d) \<le> bt_on_beat_cut_count (BeatAlignmentData d)"
  "bt_on_beat_cut_count (BeatAlignmentData d) + length (bt_off_beat_cut_frames (BeatAlignmentData d)) = bt_cut_count (BeatAlignmentData d)"
proof -
  have "length (filter (\<lambda>n. P n \<and> Q n) ns) \<le> length (filter P ns)" for P Q and ns :: "goint list"
    by (induction ns) auto
  then show "bt_on_accent_cut_count (BeatAlignmentData d) \<le> bt_on_beat_cut_count (BeatAlignmentData d)"
    by (simp add: BeatAlignmentData_def Let_def)
  show "bt_on_beat_cut_count (BeatAlignmentData d) + length (bt_off_beat_cut_frames (BeatAlignmentData d)) = bt_cut_count (BeatAlignmentData d)"
    by (simp add: BeatAlignmentData_def Let_def sum_length_filter_compl)
qed

lemma drop_repeats_set: "sorted ns \<Longrightarrow> list_all (\<lambda>n. previous \<le> n) ns \<Longrightarrow>
    set (drop_repeats previous ns) = set ns - {previous} \<and> sorted (drop_repeats previous ns) \<and> distinct (drop_repeats previous ns)"
proof (induction ns arbitrary: previous)
  case (Cons n ns)
  then have "sorted ns" "list_all (\<lambda>m. n \<le> m) ns" "previous \<le> n" by (auto simp: list_all_iff)
  with Cons.IH [of n] Cons.IH [of previous] Cons.prems show ?case by (auto simp: list_all_iff)
qed simp

text \<open>Frames are never negative, so the first value the loop compares with loses none of them.\<close>

lemma sortedUniqueInts_set: "list_all (\<lambda>n. 0 \<le> n) ns \<Longrightarrow>
    set (sortedUniqueInts ns) = set ns \<and> sorted (sortedUniqueInts ns) \<and> distinct (sortedUniqueInts ns)"
  using drop_repeats_set [of "sort ns" "- 1"] by (force simp: sortedUniqueInts_def list_all_iff)

end
