(* ===== verification/Edit_Atomic.thy ===== *)
theory Edit_Atomic
  imports Edit_Proofs Edit_Reports Store_Tables
begin

text \<open>
  One atomic timeline edit by the agent (\<open>agentexec/tool_exec_timeline.go\<close>, \<open>atomic_edit_admission.go\<close>):
  the operation is admitted, completed from the material catalogue and checked against its asset; the
  independent audio is set aside, the patch is applied, the audio is put back, the original audio is
  derived again where the picture was replaced, and the result is validated.  What the edit reads from
  the database, the beat analysis of an asset and the random nonce are in an \<open>edit_world\<close>.
\<close>

section \<open>Admission inside one assistant message\<close>

datatype admission_decision = Admitted | NewClipTarget | UnobservedTimelineCoordinate

record admission_draft =
  ad_initialClipIDs :: "string list"
  ad_coordinatesChanged :: bool

type_synonym admission_state = "string \<rightharpoonup> admission_draft"

definition ValueOr :: "string \<Rightarrow> string \<Rightarrow> string" where
  "ValueOr v fallback = (if v \<noteq> [] then v else fallback)"

definition usesTimelineCoordinates :: "gmap \<Rightarrow> bool" where
  "usesTimelineCoordinates op \<longleftrightarrow> (let kind = stringValue (gget op ''kind'') in
     kind = ''insert_clip'' \<and> ValueOr (stringValue (gget op ''track_id'')) ''visual_base'' \<noteq> ''visual_base''
     \<or> kind \<in> {''insert_subtitle'', ''delete_range'', ''split_clip'', ''reorder_clip'', ''move_clip'', ''trim_clip_edge''})"

definition changesTimelineCoordinates :: "gmap \<Rightarrow> bool" where
  "changesTimelineCoordinates op \<longleftrightarrow> stringValue (gget op ''kind'') \<in> {''trim_clip'', ''split_clip'', ''reorder_clip'',
     ''move_clip'', ''trim_clip_edge'', ''delete_clip'', ''delete_range'', ''delete_source_range'', ''insert_clip'',
     ''set_playback_rate''}"

definition admission_of :: "admission_state \<Rightarrow> string \<Rightarrow> vdoc \<Rightarrow> admission_draft" where
  "admission_of st draftID d = (case st draftID of Some a \<Rightarrow> a
     | None \<Rightarrow> \<lparr>ad_initialClipIDs = filter (\<lambda>i. i \<noteq> []) (map TimelineClipID (doc_clips d)), ad_coordinatesChanged = False\<rparr>)"

definition admit_edit :: "admission_state \<Rightarrow> string \<Rightarrow> vdoc \<Rightarrow> gmap \<Rightarrow> admission_decision \<times> admission_state" where
  "admit_edit st draftID d op = (let a = admission_of st draftID d; target = stringValue (gget op ''timeline_clip_id'')
     in (if target \<noteq> [] \<and> target \<notin> set (ad_initialClipIDs a) then NewClipTarget
         else if ad_coordinatesChanged a \<and> usesTimelineCoordinates op then UnobservedTimelineCoordinate else Admitted,
         st(draftID \<mapsto> a)))"

definition recordSuccess :: "admission_state \<Rightarrow> string \<Rightarrow> gmap \<Rightarrow> admission_state" where
  "recordSuccess st draftID op = (if \<not> changesTimelineCoordinates op then st
     else case st draftID of None \<Rightarrow> st | Some a \<Rightarrow> st(draftID \<mapsto> a\<lparr>ad_coordinatesChanged := True\<rparr>))"

section \<open>Clips and assets\<close>

definition atomicTimelineClip :: "vdoc \<Rightarrow> string \<Rightarrow> vclip option" where
  "atomicTimelineClip d cid = find (\<lambda>c. TimelineClipID c = cid) (doc_clips d)"

definition atomicClipTrackID :: "vdoc \<Rightarrow> string \<Rightarrow> string" where
  "atomicClipTrackID d cid = (case atomicTimelineClip d cid of None \<Rightarrow> [] | Some c \<Rightarrow> ClipTrackID c)"

definition atomicReplaceTouchesPrimary :: "vdoc \<Rightarrow> gmap \<Rightarrow> bool" where
  "atomicReplaceTouchesPrimary d op \<longleftrightarrow> stringValue (gget op ''kind'') = ''replace_clip''
     \<and> atomicClipTrackID d (stringValue (gget op ''timeline_clip_id'')) = ''visual_base''"

definition probe_of :: "asset_row \<Rightarrow> gmap" where
  "probe_of a = (case as_probe a of Some (GObj m) \<Rightarrow> m | _ \<Rightarrow> [])"

definition probed_audio :: "asset_row \<Rightarrow> bool" where
  "probed_audio a \<longleftrightarrow> gget (probe_of a) ''has_audio'' = GBool True"

definition draftAudioVideoAssetIDs :: "asset_row list \<Rightarrow> string list" where
  "draftAudioVideoAssetIDs assets = sort (map as_asset_id (filter (\<lambda>a. as_kind a = ''video'' \<and> probed_audio a) assets))"

text \<open>The length of an asset in frames, zero when it was not probed.\<close>

definition asset_frames :: "asset_row \<Rightarrow> goint" where
  "asset_frames a = int_of_f (Round (fmul (case NumericValue (gget (probe_of a) ''duration_sec'') of None \<Rightarrow> Fin 0 | Some x \<Rightarrow> x)
     (f_of_int DefaultFPS)))"

section \<open>Completing the operation\<close>

record waveform =
  wf_SampleIntervalFrames :: goint
  wf_SampleFrames :: "goint list"
  wf_Samples :: "goint list"
  wf_Encoding :: string
  wf_FloorDB :: f64
  wf_CeilingDB :: f64

record beat_analysis =
  ba_AnalysisID :: string
  ba_BPM :: f64
  ba_TimelineFPS :: goint
  ba_DurationFrames :: goint
  ba_BeatFrames :: "goint list"
  ba_StrongBeatFrames :: "goint list"
  ba_DownbeatFrames :: "goint list"
  ba_EveryTwoBeatFrames :: "goint list"
  ba_EveryFourBeatFrames :: "goint list"
  ba_BarPhase :: goint
  ba_AnalysisMethod :: string
  ba_Truncated :: bool
  ba_PhaseNote :: string
  ba_WaveformUsageNote :: string
  ba_Waveform :: waveform

text \<open>A \<open>[]int\<close> inside an interface is an array of integers.\<close>

definition ints :: "goint list \<Rightarrow> gval" where
  "ints ns = GArr (map GInt ns)"

definition beatAnalysisTimelineEvidence :: "beat_analysis \<Rightarrow> gmap" where
  "beatAnalysisTimelineEvidence b = (let w = ba_Waveform b in
     [(''analysis_id'', GStr (ba_AnalysisID b)), (''bpm'', GFloat (ba_BPM b)), (''timeline_fps'', GInt (ba_TimelineFPS b)),
      (''duration_frames'', GInt (ba_DurationFrames b)), (''beat_frames'', ints (ba_BeatFrames b)),
      (''strong_beat_frames'', ints (ba_StrongBeatFrames b)), (''downbeat_frames'', ints (ba_DownbeatFrames b)),
      (''every_two_beat_frames'', ints (ba_EveryTwoBeatFrames b)), (''every_four_beat_frames'', ints (ba_EveryFourBeatFrames b)),
      (''bar_phase'', GInt (ba_BarPhase b)), (''analysis_method'', GStr (ba_AnalysisMethod b)),
      (''truncated'', GBool (ba_Truncated b)), (''phase_note'', GStr (ba_PhaseNote b)),
      (''waveform_usage_note'', GStr (ba_WaveformUsageNote b)),
      (''waveform'', GObj [(''sample_interval_frames'', GInt (wf_SampleIntervalFrames w)), (''sample_frames'', ints (wf_SampleFrames w)),
         (''samples'', ints (wf_Samples w)), (''encoding'', GStr (wf_Encoding w)), (''floor_db'', GFloat (wf_FloorDB w)),
         (''ceiling_db'', GFloat (wf_CeilingDB w))])])"

definition bgm_metadata :: "beat_analysis \<Rightarrow> gmap \<Rightarrow> gmap" where
  "bgm_metadata b op = gput ''beat_grid'' (GObj (beatAnalysisTimelineEvidence b))
     (gput ''beat_analysis_id'' (GStr (ba_AnalysisID b))
       (filter (\<lambda>(k, v). k \<noteq> ''beat_grid'' \<and> k \<noteq> ''beat_analysis_id'')
         (case objectValue (gget op ''metadata'') of None \<Rightarrow> [] | Some m \<Rightarrow> m)))"

definition enrichTimelineOperation :: "asset_row list \<Rightarrow> tl_error + vdoc \<Rightarrow> (string \<Rightarrow> tl_error + beat_analysis) \<Rightarrow> gmap
  \<Rightarrow> tl_error + gmap" where
  "enrichTimelineOperation assets latest beats op = (
     let kind = stringValue (gget op ''kind''); assetID = stringValue (gget op ''asset_id'') in
     if kind \<noteq> ''insert_clip'' \<and> kind \<noteq> ''replace_clip'' then Inr op
     else case find (\<lambda>a. as_asset_id a = assetID) (rev assets) of None \<Rightarrow> Inr op | Some a \<Rightarrow>
       let op1 = (if stringValue (gget op ''asset_kind'') = [] then gput ''asset_kind'' (GStr (as_kind a)) op else op)
       in bind_sum (if kind = ''replace_clip''
            then bind_sum latest (\<lambda>d. Inr (atomicClipTrackID d (stringValue (gget op ''timeline_clip_id''))))
            else Inr (ValueOr (stringValue (gget op ''track_id'')) ''visual_base'')) (\<lambda>track.
          if track = ''bgm'' then bind_sum (beats assetID) (\<lambda>b. Inr (gput ''metadata'' (GObj (bgm_metadata b op)) op1))
          else if kind = ''replace_clip'' \<or> track \<noteq> ''visual_base'' \<or> ghas op ''include_original_audio'' then Inr op1
          else Inr (gput ''include_original_audio'' (GBool (as_kind a = ''video'' \<and> probed_audio a)) op1)))"

section \<open>Checking the asset\<close>

datatype asset_failure =
    AssetsUnreadable tl_error
  | AssetNotInDraft string
  | ReplacementTooShort string goint
  | BadSourceRange string goint
  | DerivedTrack
  | WrongAssetKind string
  | BadBeatGrid "string list"

definition frame_number :: "gval \<Rightarrow> bool" where
  "frame_number v \<longleftrightarrow> (case NumericValue v of None \<Rightarrow> False | Some x \<Rightarrow> \<not> IsNaN x \<and> \<not> IsInf x \<and> \<not> flt x (Fin 0) \<and> feq x (Trunc x))"

definition validAtomicFrameArray :: "gval \<Rightarrow> bool \<Rightarrow> bool" where
  "validAtomicFrameArray v requireNonEmpty \<longleftrightarrow> (case v of
       GArr vs \<Rightarrow> \<not> (requireNonEmpty \<and> vs = []) \<and> list_all frame_number vs
     | GStrs ss \<Rightarrow> ss = [] \<and> \<not> requireNonEmpty
     | _ \<Rightarrow> False)"

definition incompleteAtomicBeatGridFields :: "gmap \<Rightarrow> string list" where
  "incompleteAtomicBeatGridFields op = (
     if \<not> ghas op ''metadata'' then [] else
     case objectValue (gget op ''metadata'') of None \<Rightarrow> [''metadata''] | Some m \<Rightarrow>
       if \<not> ghas m ''beat_grid'' then [] else
       case objectValue (gget m ''beat_grid'') of None \<Rightarrow> [''beat_grid''] | Some grid \<Rightarrow>
         (case NumericValue (gget grid ''bpm'') of None \<Rightarrow> [''bpm''] | Some x \<Rightarrow> if fle x (Fin 0) then [''bpm''] else [])
         @ filter (\<lambda>name. \<not> validAtomicFrameArray (gget grid name) (name = ''beat_frames''))
             [''beat_frames'', ''strong_beat_frames'', ''downbeat_frames'']
         @ (case NumericValue (gget grid ''bar_phase'') of None \<Rightarrow> [''bar_phase'']
            | Some x \<Rightarrow> if flt x (Fin 0) \<or> \<not> feq x (Trunc x) then [''bar_phase''] else [])
         @ (if TrimSpace (stringValue (gget grid ''analysis_method'')) = [] then [''analysis_method''] else []))"

text \<open>The source range an insertion or a trim asks for, against the length of the asset.\<close>

definition bad_source_range :: "gmap \<Rightarrow> asset_row \<Rightarrow> bool" where
  "bad_source_range op a \<longleftrightarrow> (case (NumericValue (gget op ''source_start_frame''), NumericValue (gget op ''source_end_frame'')) of
     (Some s, Some e) \<Rightarrow> flt s (Fin 0) \<or> fle e s \<or> asset_frames a > 0 \<and> int_of_f e > asset_frames a | _ \<Rightarrow> True)"

definition wrong_kind :: "string \<Rightarrow> asset_row \<Rightarrow> bool" where
  "wrong_kind track a \<longleftrightarrow> track \<in> {''visual_base'', ''visual_overlay''} \<and> as_kind a \<notin> {''video'', ''image''}
     \<or> track \<in> {''voiceover'', ''bgm'', ''sfx''} \<and> as_kind a \<notin> {''audio'', ''video''}"

definition edited_track :: "vdoc \<Rightarrow> gmap \<Rightarrow> string" where
  "edited_track d op = (let kind = stringValue (gget op ''kind'') in
     if kind = ''replace_clip'' \<or> kind = ''trim_clip'' then atomicClipTrackID d (stringValue (gget op ''timeline_clip_id''))
     else ValueOr (stringValue (gget op ''track_id'')) ''visual_base'')"

definition check_asset :: "vdoc \<Rightarrow> gmap \<Rightarrow> asset_row \<Rightarrow> asset_failure option" where
  "check_asset d op a = (
     let kind = stringValue (gget op ''kind''); track = edited_track d op; n = asset_frames a;
         too_short = (case atomicTimelineClip d (stringValue (gget op ''timeline_clip_id'')) of None \<Rightarrow> False
           | Some c \<Rightarrow> n > 0 \<and> SourceEndFrame c > n)
     in if kind = ''replace_clip'' \<and> too_short then Some (ReplacementTooShort (as_asset_id a) n)
        else if kind = ''trim_clip'' \<and> bad_source_range op a then Some (BadSourceRange (as_asset_id a) n)
        else if kind = ''insert_clip'' \<and> track = ''original_audio'' then Some DerivedTrack
        else if wrong_kind track a then Some (WrongAssetKind track)
        else if kind = ''insert_clip'' \<and> bad_source_range op a then Some (BadSourceRange (as_asset_id a) n)
        else if kind = ''insert_clip'' \<and> track = ''bgm'' \<and> incompleteAtomicBeatGridFields op \<noteq> []
          then Some (BadBeatGrid (incompleteAtomicBeatGridFields op))
        else None)"

definition validateAtomicTimelineAsset :: "tl_error + asset_row list \<Rightarrow> vdoc \<Rightarrow> gmap \<Rightarrow> asset_failure option" where
  "validateAtomicTimelineAsset assets d op = (
     let kind = stringValue (gget op ''kind''); target = atomicTimelineClip d (stringValue (gget op ''timeline_clip_id''));
         assetID = (case target of Some c \<Rightarrow> if kind = ''trim_clip'' then AssetID c else stringValue (gget op ''asset_id'')
           | None \<Rightarrow> stringValue (gget op ''asset_id''))
     in if kind \<notin> {''insert_clip'', ''replace_clip'', ''trim_clip''} \<or> kind = ''trim_clip'' \<and> target = None then None
        else case assets of Inl e \<Rightarrow> Some (AssetsUnreadable e)
          | Inr as \<Rightarrow> (case find (\<lambda>a. as_asset_id a = assetID) as of None \<Rightarrow> Some (AssetNotInDraft assetID)
              | Some a \<Rightarrow> check_asset d op a))"

section \<open>The edit\<close>

record edit_world =
  ew_assets :: "tl_error + asset_row list"
  ew_latest :: "tl_error + vdoc"
  ew_beats :: "string \<Rightarrow> tl_error + beat_analysis"
  ew_rows :: "goint \<Rightarrow> version_report read"
  ew_docs :: "goint \<Rightarrow> vdoc read"
  ew_sha :: "gval \<Rightarrow> string"
  ew_nonce :: string

datatype edit_failure =
    ToolError tl_error
  | TimelineAbsent
  | NotAdmitted admission_decision
  | BadAsset asset_failure
  | PatchFailed tl_error
  | InvalidResult "issue list"

record planned_edit =
  pe_operation :: gmap
  pe_document :: vdoc
  pe_proof :: tracks_map
  pe_changed :: "changed_target list"
  pe_effect :: coordinate_effect

definition failing :: "('e \<Rightarrow> 'f) \<Rightarrow> 'e + 'a \<Rightarrow> 'f + 'a" where
  "failing f r = (case r of Inl e \<Rightarrow> Inl (f e) | Inr x \<Rightarrow> Inr x)"

lemma failing_Inr [simp]: "failing f r = Inr x \<longleftrightarrow> r = Inr x"
  by (cases r) (simp_all add: failing_def)

text \<open>From the patch to the document that is validated.\<close>

definition patched :: "edit_world \<Rightarrow> vdoc \<Rightarrow> gmap \<Rightarrow> edit_failure + vdoc" where
  "patched w current op = (let pf = lineage_prefix (ew_nonce w); preserved = preserveIndependentAudioForOperation current op in
     bind_sum (failing PatchFailed (ApplyPatch (unlockPreservedIndependentAudio pf current preserved op) op)) (\<lambda>d1.
     bind_sum (failing PatchFailed (restoreIndependentAudioTracks pf d1 current preserved)) (\<lambda>d2.
     if \<not> atomicReplaceTouchesPrimary current op then Inr d2
     else bind_sum (failing ToolError (ew_assets w)) (\<lambda>as. failing PatchFailed (DeriveOriginalAudio d2 (draftAudioVideoAssetIDs as))))))"

definition plan_edit :: "edit_world \<Rightarrow> vdoc \<Rightarrow> gmap \<Rightarrow> edit_failure + planned_edit" where
  "plan_edit w current operation =
     bind_sum (failing ToolError (bind_sum (ew_assets w) (\<lambda>as. enrichTimelineOperation as (ew_latest w) (ew_beats w) operation))) (\<lambda>op.
     case validateAtomicTimelineAsset (ew_assets w) current op of Some f \<Rightarrow> Inl (BadAsset f) | None \<Rightarrow>
     bind_sum (failing ToolError (preservedIndependentAudioFromStoredProof (ew_sha w) (ew_rows w) (ew_docs w) current)) (\<lambda>trusted.
     bind_sum (patched w current op) (\<lambda>d.
     let pf = lineage_prefix (ew_nonce w);
         preserved = preserveIndependentAudioForOperation current op;
         valid = (validateWithPreservedIndependentAudio current trusted = []);
         proof = stripPreservedAudioLineageFromTracks pf current
           (deriveIndependentAudioValidationProof pf current d trusted preserved valid);
         result = stripPreservedAudioLineage pf current d;
         report = validateWithPreservedIndependentAudio result proof
     in if report \<noteq> [] then Inl (InvalidResult report)
        else Inr \<lparr>pe_operation = op, pe_document = result, pe_proof = proof,
          pe_changed = atomicChangedTargets current result, pe_effect = atomicTimelineCoordinateEffect current result\<rparr>)))"

text \<open>
  \<open>toolAtomicTimelineEdit\<close> up to the commit: \<open>timelineVersion\<close> is zero for a draft without a timeline,
  and an edit outside an assistant message has no admission.
\<close>

definition toolAtomicTimelineEdit :: "edit_world \<Rightarrow> string \<Rightarrow> string \<Rightarrow> goint \<Rightarrow> vdoc \<Rightarrow> admission_state option \<Rightarrow> gmap
  \<Rightarrow> (edit_failure + planned_edit) \<times> admission_state option" where
  "toolAtomicTimelineEdit w draftID toolName timelineVersion current admission op = (
     if timelineVersion = 0 \<and> \<not> (toolName = ''timeline.insert'' \<and> stringValue (gget op ''kind'') = ''insert_clip''
          \<and> ValueOr (stringValue (gget op ''track_id'')) ''visual_base'' = ''visual_base'')
     then (Inl TimelineAbsent, admission)
     else case admission of None \<Rightarrow> (plan_edit w current op, None)
       | Some st \<Rightarrow> (case admit_edit st draftID current op of (decision, st') \<Rightarrow>
           (if decision = Admitted then plan_edit w current op else Inl (NotAdmitted decision), Some st')))"

end
