(* ===== verification/Timeline_Ids.thy ===== *)
theory Timeline_Ids
  imports Timeline_Contract
begin

text \<open>
  A patch neither adds, removes nor renames a track: whatever the operation and whatever the document,
  the list of track ids is the same afterwards.
\<close>

definition track_ids :: "'m Document \<Rightarrow> string list" where
  "track_ids d = map TrackID (Tracks d)"

lemma kept_track_ids: "kept d d' \<Longrightarrow> track_ids d' = track_ids d"
  by (simp add: kept_def track_ids_def)

lemma track_ids_update_track [simp]: "(\<And>t. TrackID (f t) = TrackID t) \<Longrightarrow> track_ids (update_track i f d) = track_ids d"
  by (cases "i < length (Tracks d)")
    (simp_all add: track_ids_def update_track_def map_update list_update_beyond list_update_same_conv)

lemma track_ids_map_tracks [simp]: "(\<And>t. TrackID (f t) = TrackID t) \<Longrightarrow> track_ids (map_tracks f d) = track_ids d"
  by (simp add: track_ids_def map_tracks_def comp_def)

lemma track_ids_duration [simp]: "track_ids (d\<lparr>DurationFrames := n\<rparr>) = track_ids d"
  by (simp add: track_ids_def)

lemma track_ids_update_clip [simp]: "track_ids (update_clip l f d) = track_ids d"
  by (simp add: update_clip_def)

lemma track_ids_update_members [simp]: "track_ids (update_members ms f d) = track_ids d"
  unfolding update_members_def by (induction ms arbitrary: d) simp_all

lemma track_ids_shiftAfter: "shiftAfter d b delta = (d', ws) \<Longrightarrow> track_ids d' = track_ids d"
  by (auto simp: shiftAfter_def split: if_splits)

lemma track_ids_sync_fold [simp]: "track_ids (fold syncLinkedTiming cs d) = track_ids d"
  by (induction cs arbitrary: d) (simp_all add: syncLinkedTiming_def)

section \<open>The handlers\<close>

lemma retime_ids: "retime_members d l n f = Inr (d', ws) \<Longrightarrow> track_ids d' = track_ids d"
  by (auto simp: retime_members_def Let_def split: if_splits prod.splits dest: track_ids_shiftAfter)

lemma trimClip_ids: "trimClip d op = Inr (d', ws) \<Longrightarrow> track_ids d' = track_ids d"
  by (auto simp: trimClip_def split: prod.splits dest: retime_ids)

lemma setPlaybackRate_ids: "setPlaybackRate d op = Inr (d', ws) \<Longrightarrow> track_ids d' = track_ids d"
  by (auto simp: setPlaybackRate_def Let_def dest: retime_ids)

lemma deleteRange_ids: "deleteRange d op = Inr (d', ws) \<Longrightarrow> track_ids d' = track_ids d"
  by (auto simp: deleteRange_def Let_def)

lemma deleteSourceRange_ids: "deleteSourceRange d op = Inr (d', ws) \<Longrightarrow> track_ids d' = track_ids d"
  by (auto simp: deleteSourceRange_def Let_def split: prod.splits dest: deleteRange_ids)

lemma split_tracks_ids: "list_all2 (\<lambda>t r. split_track f t = Inr r) ts rs \<Longrightarrow> map TrackID (map fst rs) = map TrackID ts"
  by (induction rule: list_all2_induct) (auto simp: split_track_def)

lemma splitClip_ids: "splitClip d op = Inr (d', ws) \<Longrightarrow> track_ids d' = track_ids d"
  by (auto simp: splitClip_def Let_def map_bind_Inr track_ids_def dest: split_tracks_ids)

lemma reorderClip_ids: "reorderClip d op = Inr (d', ws) \<Longrightarrow> track_ids d' = track_ids d"
  by (auto simp: reorderClip_def Let_def)

lemma splitDocument_ids: "splitDocumentPrimaryAt d frame = Inr (d', ws) \<Longrightarrow> track_ids d' = track_ids d"
  by (auto simp: splitDocumentPrimaryAt_def split: if_splits option.splits dest: splitClip_ids)

lemma insertIntoPrimary_ids: "insertIntoPrimary d c target = Inr (d', ws) \<Longrightarrow> track_ids d' = track_ids d"
  by (auto simp: insertIntoPrimary_def Let_def split: prod.splits dest: splitDocument_ids)

lemma overwritePrimary_ids: "overwritePrimary d c target = Inr (d', ws) \<Longrightarrow> track_ids d' = track_ids d"
  by (auto simp: overwritePrimary_def eraseTrackRange_def Let_def)

lemma place_on_track_ids: "place_on_track d c s t m target = Inr (d', ws) \<Longrightarrow> track_ids d' = track_ids d"
  by (auto simp: place_on_track_def eraseTrackRange_def shiftTrackForInsert_def Let_def split: if_splits)

lemma place_clip_ids: "place_clip d c s t m target = Inr (d', ws) \<Longrightarrow> track_ids d' = track_ids d"
  by (auto simp: place_clip_def Let_def split: if_splits
      dest: insertIntoPrimary_ids overwritePrimary_ids place_on_track_ids)

lemma detach_ids: "detach d l target = Inr (d', ws, n) \<Longrightarrow> track_ids d' = track_ids d"
  by (auto simp: detach_def Let_def split: if_splits prod.splits dest: deleteRange_ids)

lemma detach_and_place_ids: "detach_and_place d l m t target = Inr (d', ws) \<Longrightarrow> track_ids d' = track_ids d"
  by (auto simp: detach_and_place_def Let_def split: prod.splits dest!: detach_ids place_clip_ids)

lemma moveClip_ids:
  assumes ok: "moveClip d op = Inr (d', ws)"
  shows "track_ids d' = track_ids d"
proof -
  obtain l where l: "editableLocation d op = Inr l" using ok by (auto simp: moveClip_def)
  have "(\<exists>op'. reorderClip d op' = Inr (d', ws)) \<or> (\<exists>mode tt target. detach_and_place d l mode tt target = Inr (d', ws))"
    using ok l by (auto simp: moveClip_def Let_def split: option.splits if_splits)
  then show ?thesis using reorderClip_ids detach_and_place_ids by blast
qed

lemma trimClipEdge_ids: "trimClipEdge d op = Inr (d', ws) \<Longrightarrow> track_ids d' = track_ids d"
  by (auto simp: trimClipEdge_def Let_def split: if_splits dest: deleteRange_ids)

lemma deleteClip_ids: "deleteClip d op = Inr (d', ws) \<Longrightarrow> track_ids d' = track_ids d"
  by (auto simp: deleteClip_def Let_def split: if_splits dest: deleteRange_ids)

lemma insertClip_ids: "insertClip d op = Inr (d', ws) \<Longrightarrow> track_ids d' = track_ids d"
  by (auto simp: insertClip_def attach_inserted_def Let_def split: if_splits prod.splits)

section \<open>Every patch\<close>

lemma dispatch_ids: "dispatch d op = Inr (d', ws) \<Longrightarrow> track_ids d' = track_ids d"
proof -
  assume ok: "dispatch d op = Inr (d', ws)"
  note moved = trimClip_ids splitClip_ids reorderClip_ids moveClip_ids trimClipEdge_ids deleteClip_ids deleteRange_ids
    deleteSourceRange_ids insertClip_ids setPlaybackRate_ids
  note same = setTrackState_kept [of "[''muted'', ''solo'', ''locked'']", folded setTrackState_def, THEN kept_track_ids]
    setTrackDucking_kept [THEN kept_track_ids] setClipLinked_kept [THEN kept_track_ids] insertSubtitle_kept [THEN kept_track_ids]
    replaceClip_kept [THEN kept_track_ids] adjustGain_kept [THEN kept_track_ids] setClipFades_kept [THEN kept_track_ids]
    editSubtitleText_kept [THEN kept_track_ids] removeTrackClips_kept [THEN kept_track_ids]
  from dispatch_Inr [OF ok] show ?thesis
    by (elim disjE conjE) (erule moved same | assumption)+
qed

interpretation ids: patch_contract dispatch "\<lambda>_ _. True" "\<lambda>d d'. track_ids d' = track_ids d"
proof
  fix d d' op ws assume "dispatch d op = Inr (d', ws)"
  then have "track_ids d' = track_ids d" by (rule dispatch_ids)
  then show "track_ids (core d') = track_ids (core d)" by (simp add: track_ids_def comp_def)
next
  fix c c' :: "unit Document" assume "track_ids c' = track_ids c"
  then show "track_ids (next_version (clampClipFades c')) = track_ids c"
    by (simp add: track_ids_def next_version_def clampClipFades_def comp_def)
qed

lemma ApplyPatch_ids: "ApplyPatch d op = Inr d' \<Longrightarrow> track_ids d' = track_ids d"
  using ids.applied [of d op d'] by (simp add: ApplyPatch_Inr track_ids_def comp_def)

end
