(* ===== verification/Edit_Audio.thy ===== *)
theory Edit_Audio
  imports Edit_Atomic Timeline_Ids
begin

text \<open>
  What an atomic edit promises about independent audio: the clips of \<open>bgm\<close> and \<open>sfx\<close> it does not touch
  come out where they were.
\<close>

section \<open>Maps filled in a loop\<close>

lemma map_of_filled: "map_of (filled kvs) = map_of (rev kvs)"
  by (simp add: filled_def map_of_clearjunk)

lemma map_of_filled_distinct: "distinct (map fst kvs) \<Longrightarrow> (k, v) \<in> set kvs \<Longrightarrow> map_of (filled kvs) k = Some v"
  by (simp add: map_of_filled rev_map [symmetric])

lemma filled_mem: "map_of (filled kvs) k = Some v \<Longrightarrow> (k, v) \<in> set kvs"
  by (auto simp: map_of_filled dest: map_of_SomeD)

lemma filled_set: "kv \<in> set (filled kvs) \<Longrightarrow> kv \<in> set kvs"
  unfolding filled_def by (metis map_of_SomeD map_of_clearjunk map_of_is_SomeI distinct_clearjunk set_rev surj_pair)

section \<open>Setting aside\<close>

definition untouched :: "vdoc \<Rightarrow> gmap \<Rightarrow> vtrack \<Rightarrow> vclip \<Rightarrow> bool" where
  "untouched d op t c \<longleftrightarrow> TrackID t \<notin> set (touchedTrackIDsForOperation d op)
     \<or> touchedTimelineClipIDsForOperation d op \<noteq> [] \<and> TimelineClipID c \<notin> set (touchedTimelineClipIDsForOperation d op)"

lemma preserved_track:
  "map_of (preserveIndependentAudioForOperation d op) i = Some s \<Longrightarrow> TrackID s = i \<and> i \<in> set independentAudioTrackIDs"
  by (auto simp: preserveIndependentAudioForOperation_def sets_aside_def dest!: filled_mem)

lemma preserved_clip:
  assumes "distinct (map TrackID (Tracks d))" and "t \<in> set (Tracks d)" and "TrackID t \<in> set independentAudioTrackIDs"
    and "c \<in> set (Clips t)" and "\<not> Linked c" and "untouched d op t c"
  obtains s where "map_of (preserveIndependentAudioForOperation d op) (TrackID t) = Some s" and "c \<in> set (Clips s)"
proof -
  have c: "c \<in> set (untouched_clips d op t)" using assms(4-6) by (auto simp: untouched_clips_def untouched_def Let_def)
  then have "sets_aside d op t" using assms(3,6) by (auto simp: sets_aside_def untouched_def)
  moreover have "distinct (map fst (map (\<lambda>t. (TrackID t, t\<lparr>Clips := untouched_clips d op t\<rparr>)) (filter (sets_aside d op) (Tracks d))))"
    using assms(1) by (simp add: comp_def distinct_map_filter)
  ultimately have "map_of (preserveIndependentAudioForOperation d op) (TrackID t) = Some (t\<lparr>Clips := untouched_clips d op t\<rparr>)"
    unfolding preserveIndependentAudioForOperation_def using assms(2) by (intro map_of_filled_distinct) auto
  with c that show ?thesis by simp
qed

section \<open>Putting back\<close>

lemma restore_track_id: "preserved = preserveIndependentAudioForOperation d op \<Longrightarrow> TrackID (restore_track pf current preserved t) = TrackID t"
  by (auto simp: restore_track_def Let_def dest: preserved_track split: option.split)

lemma restored_clip:
  "map_of preserved (TrackID t) = Some s \<Longrightarrow> c \<in> set (Clips s) \<Longrightarrow> c \<in> set (Clips (restore_track pf current preserved t))"
  by (simp add: restore_track_def Let_def)

text \<open>
  All that putting the audio back asks of the patch in between: it keeps the tracks.
\<close>

locale track_keeper =
  fixes patch :: "vdoc \<Rightarrow> 'a \<Rightarrow> tl_error + vdoc"
  assumes keeps_tracks: "patch d x = Inr d' \<Longrightarrow> track_ids d' = track_ids d"
begin

lemma put_back:
  assumes "track_ids input = track_ids current" and "patch input x = Inr d1"
    and "restoreIndependentAudioTracks pf d1 current (preserveIndependentAudioForOperation current op) = Inr d2"
    and "t \<in> set (Tracks current)" and "map_of (preserveIndependentAudioForOperation current op) (TrackID t) = Some s"
    and "c \<in> set (Clips s)"
  obtains t' where "t' \<in> set (Tracks d2)" and "TrackID t' = TrackID t" and "c \<in> set (Clips t')"
proof -
  have "track_ids d1 = track_ids current" using keeps_tracks [OF assms(2)] assms(1) by simp
  then obtain t1 where t1: "t1 \<in> set (Tracks d1)" "TrackID t1 = TrackID t"
    using assms(4) unfolding track_ids_def by (metis (no_types, lifting) image_iff list.set_map)
  let ?t' = "restore_track pf current (preserveIndependentAudioForOperation current op) t1"
  have "?t' \<in> set (Tracks d2)"
    using assms(3) t1(1) by (auto simp: restoreIndependentAudioTracks_def map_tracks_def Let_def)
  moreover have "TrackID ?t' = TrackID t" by (simp add: restore_track_id t1(2))
  moreover have "c \<in> set (Clips ?t')" using assms(5,6) t1(2) by (intro restored_clip) simp_all
  ultimately show ?thesis using that by blast
qed

end

interpretation patching: track_keeper ApplyPatch
  by unfold_locales (rule ApplyPatch_ids)

text \<open>The document the patch runs on has the tracks of the current one.\<close>

lemma unlocked_ids: "track_ids (unlockPreservedIndependentAudio pf d preserved op) = track_ids d"
proof -
  have copy: "TrackID (marked_track pf preserved t) = TrackID t" "TrackID (relock pf preserved t u p) = TrackID u" for t u p
    by (simp_all add: marked_track_def relock_def split: option.split)
  show ?thesis
    by (auto simp: unlockPreservedIndependentAudio_def Let_def track_ids_def copy comp_def map_tracks_def
        intro!: nth_equalityI split: sum.split)
qed

section \<open>Deriving the original audio\<close>

lemma core_update_track_other: "core_track (Tracks (update_track i f d) ! k) = core_track (Tracks d ! k)" if "k \<noteq> i"
  using that by (simp add: update_track_def)

lemma derived_tracks:
  assumes "DeriveOriginalAudio d as = Inr d'"
  shows "track_ids d' = track_ids d"
    and "k < length (Tracks d) \<Longrightarrow> TrackID (Tracks d ! k) \<notin> {''visual_base'', ''original_audio''} \<Longrightarrow>
      core_track (Tracks d' ! k) = core_track (Tracks d ! k)"
proof -
  obtain copy st d1 where c: "clone d = Inr (copy, st)" and r: "rebuildOriginalAudio (filter (\<lambda>a. a \<noteq> []) as) copy = Inr d1"
    and d': "d' = resolve st d1" using assms by (auto simp: DeriveOriginalAudio_def)
  have cores: "map core_track (Tracks copy) = map core_track (Tracks d)" "map core_track (Tracks d') = map core_track (Tracks d1)"
    using core_clone [OF c] core_resolve [of st d1] d' by (metis core_simps(6))+
  have core_ids: "track_ids x = map TrackID (map core_track (Tracks x))" for x :: "'x Document" by (simp add: track_ids_def comp_def)
  obtain p a f g where pa: "trackByID copy ''visual_base'' = Some p" "trackByID copy ''original_audio'' = Some a"
    and d1: "d1 = update_track a (\<lambda>t. sortTrack (t\<lparr>Clips := g\<rparr>)) (update_track p (\<lambda>t. t\<lparr>Clips := f (Clips t)\<rparr>) copy)"
    using r by (auto simp: rebuildOriginalAudio_def Let_def split: option.splits)
  have "track_ids d1 = track_ids copy" unfolding d1 by simp
  then show "track_ids d' = track_ids d" using cores by (simp add: core_ids)
  assume k: "k < length (Tracks d)" "TrackID (Tracks d ! k) \<notin> {''visual_base'', ''original_audio''}"
  then have len: "k < length (Tracks copy)" "k < length (Tracks d')" and idk: "TrackID (Tracks copy ! k) = TrackID (Tracks d ! k)"
    using cores \<open>track_ids d' = track_ids d\<close> by (metis length_map track_ids_def core_track_simps(1) nth_map)+
  with pa k have "k \<noteq> p" "k \<noteq> a" by (auto dest: trackByID_Some)
  then have "core_track (Tracks d1 ! k) = core_track (Tracks copy ! k)" unfolding d1 by (simp add: update_track_def)
  moreover have "core_track (Tracks d' ! k) = core_track (Tracks d1 ! k)" "core_track (Tracks copy ! k) = core_track (Tracks d ! k)"
    using cores len k(1) by (metis length_map nth_map)+
  ultimately show "core_track (Tracks d' ! k) = core_track (Tracks d ! k)" by simp
qed

section \<open>The edit\<close>

lemma core_without: "core_clip (withoutPreservedAudioLineage pf originals c) = core_clip c"
  by (simp add: withoutPreservedAudioLineage_def core_clip_def with_meta_def Let_def split: option.split)

lemma patched_keeps:
  assumes p: "patched w current op = Inr d" and ids: "distinct (map TrackID (Tracks current))"
    and t: "t \<in> set (Tracks current)" "TrackID t \<in> set independentAudioTrackIDs"
    and c: "c \<in> set (Clips t)" "\<not> Linked c" "untouched current op t c"
  obtains t' where "t' \<in> set (Tracks d)" and "TrackID t' = TrackID t" and "core_clip c \<in> core_clip ` set (Clips t')"
proof -
  let ?pf = "lineage_prefix (ew_nonce w)" and ?preserved = "preserveIndependentAudioForOperation current op"
  obtain d1 d2 where d1: "ApplyPatch (unlockPreservedIndependentAudio ?pf current ?preserved op) op = Inr d1"
    and d2: "restoreIndependentAudioTracks ?pf d1 current ?preserved = Inr d2"
    and d: "d = d2 \<or> (\<exists>as. DeriveOriginalAudio d2 as = Inr d)"
    using p by (auto simp: patched_def Let_def split: if_splits)
  obtain s where s: "map_of ?preserved (TrackID t) = Some s" "c \<in> set (Clips s)"
    using preserved_clip [OF ids t c] .
  obtain t2 where t2: "t2 \<in> set (Tracks d2)" "TrackID t2 = TrackID t" "c \<in> set (Clips t2)"
    using patching.put_back [OF unlocked_ids d1 d2 t(1) s] .
  from d show ?thesis
  proof
    assume "\<exists>as. DeriveOriginalAudio d2 as = Inr d"
    then obtain as where a: "DeriveOriginalAudio d2 as = Inr d" by blast
    obtain k where k: "k < length (Tracks d2)" "Tracks d2 ! k = t2" using t2(1) by (auto simp: in_set_conv_nth)
    then have same: "core_track (Tracks d ! k) = core_track t2"
      using derived_tracks(2) [OF a k(1)] t2(2) t(2) by (auto simp: independentAudioTrackIDs_def)
    moreover have "k < length (Tracks d)" using derived_tracks(1) [OF a] k(1) by (metis length_map track_ids_def)
    moreover have "map core_clip (Clips (Tracks d ! k)) = map core_clip (Clips t2)" "TrackID (Tracks d ! k) = TrackID t2"
      using same by (metis core_track_simps)+
    ultimately show ?thesis using that [of "Tracks d ! k"] t2 by (metis image_eqI list.set_map nth_mem)
  qed (use t2 that in blast)
qed

text \<open>
  An atomic edit leaves the independent audio alone: whenever an edit is planned, every unlinked
  clip of \<open>bgm\<close> and \<open>sfx\<close> that the operation does not touch is in the planned document on the same track,
  with the same placement, source range, rate, gain and fades, even where the picture under it rippled;
  and the planned document has no validation issue but the overhang of audio the edit accounts for.
\<close>

lemma plan_keeps_audio:
  assumes "plan_edit w current operation = Inr p" and "distinct (map TrackID (Tracks current))"
    and "t \<in> set (Tracks current)" and "TrackID t = ''bgm'' \<or> TrackID t = ''sfx''" and "c \<in> set (Clips t)" and "\<not> Linked c"
    and "untouched current (pe_operation p) t c"
  shows "list_ex (\<lambda>t'. TrackID t' = TrackID t \<and> core_clip c \<in> core_clip ` set (Clips t')) (Tracks (pe_document p))
    \<and> validateWithPreservedIndependentAudio (pe_document p) (pe_proof p) = []"
proof -
  obtain d where d: "patched w current (pe_operation p) = Inr d"
    and doc: "pe_document p = stripPreservedAudioLineage (lineage_prefix (ew_nonce w)) current d"
    and valid: "validateWithPreservedIndependentAudio (pe_document p) (pe_proof p) = []"
    using assms(1) by (auto simp: plan_edit_def Let_def split: if_splits option.splits)
  obtain t' where t': "t' \<in> set (Tracks d)" "TrackID t' = TrackID t" "core_clip c \<in> core_clip ` set (Clips t')"
    using patched_keeps [OF d assms(2,3) _ assms(5-7)] assms(4) by (auto simp: independentAudioTrackIDs_def)
  let ?t = "strip_track (lineage_prefix (ew_nonce w)) current t'"
  have "?t \<in> set (Tracks (pe_document p))" using t'(1) by (simp add: doc stripPreservedAudioLineage_def map_tracks_def)
  moreover have "TrackID ?t = TrackID t" "core_clip c \<in> core_clip ` set (Clips ?t)"
    using t'(2,3) by (auto simp: strip_track_def image_image core_without)
  ultimately show ?thesis using valid by (auto simp: list_ex_iff)
qed

end
