(* ===== verification/Edit_Overhang.thy ===== *)
theory Edit_Overhang
  imports Edit_Audio
begin

text \<open>
  A planned document may have clips over the end of the timeline, but only independent audio, and only
  as far as the current timeline accounts for it.
\<close>

section \<open>What the validation still rejects\<close>

definition range_only :: "issue list \<Rightarrow> bool" where
  "range_only is \<longleftrightarrow> (\<forall>i \<in> set is. fst i = ''invalid_clip_range'')"

lemma range_only_append [simp]: "range_only (a @ b) \<longleftrightarrow> range_only a \<and> range_only b"
  by (auto simp: range_only_def)

lemma range_only_if [simp]: "range_only (issue_if b code subject) \<longleftrightarrow> b \<longrightarrow> code = ''invalid_clip_range''"
  by (simp add: range_only_def issue_if_def)

lemma range_only_Cons [simp]: "range_only (i # is) \<longleftrightarrow> fst i = ''invalid_clip_range'' \<and> range_only is"
  by (simp add: range_only_def)

lemma clip_range_only:
  "range_only (clip_issues D t seen c) \<Longrightarrow> TimelineClipID c \<noteq> [] \<and> TimelineClipID c \<notin> set seen \<and> ClipTrackID c = TrackID t"
  by (auto simp: clip_issues_def Let_def split: if_splits)

lemma clips_range_only:
  "range_only (clips_issues D t seen cs) \<Longrightarrow> distinct (map TimelineClipID cs) \<and> set seen \<inter> TimelineClipID ` set cs = {}
    \<and> (\<forall>c \<in> set cs. TimelineClipID c \<noteq> [] \<and> ClipTrackID c = TrackID t)"
proof (induction cs arbitrary: seen)
  case (Cons c cs)
  then have c: "TimelineClipID c \<noteq> []" "TimelineClipID c \<notin> set seen" "ClipTrackID c = TrackID t"
    using clip_range_only [of D t seen c] by simp_all
  with Cons.IH [of "see_id c seen"] Cons.prems show ?case by (auto simp: see_id_def split: if_splits)
qed simp

lemma tracks_range_only:
  assumes "range_only (tracks_issues D seenTracks seen ts)"
  shows "distinct (map TimelineClipID (concat (map Clips ts))) \<and> set seen \<inter> TimelineClipID ` set (concat (map Clips ts)) = {}
    \<and> (\<forall>t \<in> set ts. \<forall>c \<in> set (Clips t). TimelineClipID c \<noteq> [] \<and> ClipTrackID c = TrackID t)"
  using assms
proof (induction ts arbitrary: seenTracks seen)
  case (Cons t ts)
  from Cons.prems have cs: "range_only (clips_issues D t seen (Clips t))" by simp
  note here = clips_range_only [OF cs]
  have rest: "set (fold see_id (Clips t) seen) \<inter> TimelineClipID ` set (concat (map Clips ts)) = {}"
    and IH: "distinct (map TimelineClipID (concat (map Clips ts)))"
      "\<forall>t \<in> set ts. \<forall>c \<in> set (Clips t). TimelineClipID c \<noteq> [] \<and> ClipTrackID c = TrackID t"
    using Cons.IH [of "TrackID t # seenTracks" "fold see_id (Clips t) seen"] Cons.prems by auto
  have "\<forall>i \<in> TimelineClipID ` set (concat (map Clips ts)). i \<noteq> []" using IH(2) by auto
  then have "(set seen \<union> TimelineClipID ` set (Clips t)) \<inter> TimelineClipID ` set (concat (map Clips ts)) = {}"
    using rest unfolding set_see_id by blast
  then show ?case using here IH by auto
qed simp

lemma clips_range_issue:
  "c \<in> set cs \<Longrightarrow> TimelineEndFrame c > D \<Longrightarrow> (''invalid_clip_range'', TimelineClipID c) \<in> set (clips_issues D t seen cs)"
  by (induction cs arbitrary: seen) (auto simp: clip_issues_def issue_if_def Let_def)

lemma tracks_range_issue:
  "t \<in> set ts \<Longrightarrow> c \<in> set (Clips t) \<Longrightarrow> TimelineEndFrame c > D \<Longrightarrow>
    (''invalid_clip_range'', TimelineClipID c) \<in> set (tracks_issues D seenTracks seen ts)"
  by (induction ts arbitrary: seenTracks seen) (auto intro: clips_range_issue)

text \<open>A clip over the end of an accepted document is on a track the proof speaks of.\<close>

lemma overhang_proved:
  assumes v: "validateWithPreservedIndependentAudio d preserved = []" and t: "t \<in> set (Tracks d)"
    and c: "c \<in> set (Clips t)" and over: "TimelineEndFrame c > DurationFrames d"
  obtains s where "map_of preserved (TrackID t) = Some s" and "TrackID t \<in> set independentAudioTrackIDs"
    and "list_ex (\<lambda>b. clip_deep_eq c b) (Clips s)"
proof -
  let ?allowed = "concat (map (overhang_allowed (DurationFrames d) preserved) (Tracks d))"
  have "filter (\<lambda>(code, subject). \<not> (code = ''invalid_clip_range'' \<and> subject \<in> set ?allowed)) (Validate d) = []"
    using v unfolding validateWithPreservedIndependentAudio_def Let_def by (cases "Validate d = [] \<or> preserved = []") auto
  then have issues: "fst i = ''invalid_clip_range'' \<and> snd i \<in> set ?allowed" if "i \<in> set (Validate d)" for i
    using that unfolding filter_empty_conv by (auto simp: split_beta)
  have sub: "set (tracks_issues (DurationFrames d) [] [] (Tracks d)) \<subseteq> set (Validate d)" by (auto simp: Validate_def)
  then have "range_only (tracks_issues (DurationFrames d) [] [] (Tracks d))" using issues by (auto simp: range_only_def)
  note unique = tracks_range_only [OF this, THEN conjunct1, folded doc_clips_def]
    and home = tracks_range_only [OF this, THEN conjunct2, THEN conjunct2]
  have "(''invalid_clip_range'', TimelineClipID c) \<in> set (Validate d)"
    using sub tracks_range_issue [OF t c over, of "[]" "[]"] by blast
  from issues [OF this] have "TimelineClipID c \<in> set ?allowed" by (simp only: snd_conv simp_thms)
  then obtain t2 where t2: "t2 \<in> set (Tracks d)" "TimelineClipID c \<in> set (overhang_allowed (DurationFrames d) preserved t2)"
    by auto
  then obtain s c2 where s: "map_of preserved (TrackID t2) = Some s" "TrackID t2 \<in> set independentAudioTrackIDs" "track_deep_eq t2 s"
    and c2: "c2 \<in> set (Clips t2)" "TimelineClipID c2 = TimelineClipID c"
    by (cases "map_of preserved (TrackID t2)") (auto simp: overhang_allowed_def split: if_splits)
  have "c2 \<in> set (doc_clips d)" "c \<in> set (doc_clips d)" using t2(1) c2(1) t c by (auto simp: doc_clips_def)
  then have "c2 = c" using unique c2(2) by (auto simp: distinct_map dest: inj_onD)
  then have "TrackID t2 = TrackID t" using home t2(1) c2(1) t c by metis
  moreover have "list_ex (\<lambda>b. clip_deep_eq c b) (Clips s)"
    using s(3) c2(1) \<open>c2 = c\<close> by (fastforce simp: track_deep_eq_def list_ex_iff list_all2_conv_all_nth in_set_conv_nth)
  ultimately show ?thesis using that s by simp
qed

section \<open>Where the overhang comes from\<close>

lemma clip_deep_eq_frames:
  assumes "clip_deep_eq a b"
  shows "TimelineClipID a = TimelineClipID b" "TimelineStartFrame a = TimelineStartFrame b" "TimelineEndFrame a = TimelineEndFrame b"
    "SourceStartFrame a = SourceStartFrame b" "SourceEndFrame a = SourceEndFrame b" "AssetID a = AssetID b"
    "ClipTrackID a = ClipTrackID b" "AssetKind a = AssetKind b" "Role a = Role b" "PlaybackRate a = PlaybackRate b"
proof -
  let ?bare = "\<lambda>c. c\<lparr>PlaybackRate := Fin 0, ClipGainDB := Fin 0, Effects := None, Metadata := None\<rparr>"
  have e: "?bare a = ?bare b" and rate: "feq (PlaybackRate a) (PlaybackRate b)" using assms by (simp_all add: clip_deep_eq_def)
  from arg_cong [OF e, of TimelineClipID] arg_cong [OF e, of TimelineStartFrame] arg_cong [OF e, of TimelineEndFrame]
    arg_cong [OF e, of SourceStartFrame] arg_cong [OF e, of SourceEndFrame] arg_cong [OF e, of AssetID]
    arg_cong [OF e, of ClipTrackID] arg_cong [OF e, of AssetKind] arg_cong [OF e, of Role]
  show "TimelineClipID a = TimelineClipID b" "TimelineStartFrame a = TimelineStartFrame b" "TimelineEndFrame a = TimelineEndFrame b"
    "SourceStartFrame a = SourceStartFrame b" "SourceEndFrame a = SourceEndFrame b" "AssetID a = AssetID b"
    "ClipTrackID a = ClipTrackID b" "AssetKind a = AssetKind b" "Role a = Role b" by simp_all
  show "PlaybackRate a = PlaybackRate b" using rate by (cases "PlaybackRate a"; cases "PlaybackRate b") simp_all
qed

definition same_place :: "vclip \<Rightarrow> vclip \<Rightarrow> bool" where
  "same_place a b \<longleftrightarrow> TimelineClipID a = TimelineClipID b \<and> AssetID a = AssetID b \<and> TimelineStartFrame a = TimelineStartFrame b
     \<and> TimelineEndFrame a = TimelineEndFrame b \<and> SourceStartFrame a = SourceStartFrame b \<and> SourceEndFrame a = SourceEndFrame b"

text \<open>
  Where an overhanging clip may come from: it is the clip of that id, or a piece cut out of \<open>origin\<close>, with
  the same material, role and rate and a source range inside the one of \<open>origin\<close>.
\<close>

definition comes_from :: "vclip \<Rightarrow> vclip \<Rightarrow> bool" where
  "comes_from origin c \<longleftrightarrow> TimelineClipID origin = TimelineClipID c
     \<or> ClipTrackID origin = ClipTrackID c \<and> AssetID origin = AssetID c \<and> AssetKind origin = AssetKind c \<and> Role origin = Role c
       \<and> feq (PlaybackRate origin) (PlaybackRate c)
       \<and> SourceStartFrame origin \<le> SourceStartFrame c \<and> SourceEndFrame c \<le> SourceEndFrame origin"

lemma descendant_comes: "isSourceDescendant c origin \<Longrightarrow> comes_from origin c"
  by (simp add: isSourceDescendant_def comes_from_def)

lemma clips_by_id_mem: "map_of (clips_by_id cs) i = Some c \<Longrightarrow> c \<in> set cs \<and> TimelineClipID c = i"
  by (auto simp: clips_by_id_def dest!: filled_mem)

lemma the_only_mem: "the_only xs = Some x \<Longrightarrow> x \<in> set xs"
  by (auto simp: the_only_def split: list.splits)

lemma derived_ancestor:
  "deterministicDerivedClipAncestor c (clips_by_id cs) = Some origin \<Longrightarrow> origin \<in> set cs \<and> isSourceDescendant c origin"
  by (auto simp: deterministicDerivedClipAncestor_def clips_by_id_def simp del: filter.simps dest!: the_only_mem filled_set)

lemma source_ancestor: "uniqueSourceAncestor c cs = Some origin \<Longrightarrow> origin \<in> set cs \<and> isSourceDescendant c origin"
  by (auto simp: uniqueSourceAncestor_def dest!: the_only_mem)

lemma ancestor_comes:
  assumes "independentAudioClipAncestor pf c previous = Some origin"
  shows "origin \<in> set previous \<and> comes_from origin c"
proof (cases "map_of (clips_by_id previous) (TimelineClipID c)")
  case None
  then consider i where "map_of (clips_by_id previous) i = Some origin" "isSourceDescendant c origin"
    | "deterministicDerivedClipAncestor c (clips_by_id previous) = Some origin" | "uniqueSourceAncestor c previous = Some origin"
    using assms unfolding independentAudioClipAncestor_def Let_def by (auto split: option.splits if_splits)
  then show ?thesis
    by cases (use clips_by_id_mem derived_ancestor source_ancestor descendant_comes in blast)+
next
  case (Some x)
  then have "x = origin" using assms by (simp add: independentAudioClipAncestor_def)
  with Some clips_by_id_mem [OF Some] show ?thesis by (simp add: comes_from_def)
qed

definition accounted :: "vdoc \<Rightarrow> vdoc \<Rightarrow> string \<Rightarrow> vclip \<Rightarrow> bool" where
  "accounted current result tid c \<longleftrightarrow> list_ex (\<lambda>t. TrackID t = tid \<and> list_ex (\<lambda>origin. same_place origin c
     \<or> comes_from origin c \<and> clipOverhangFrames c (DurationFrames result) \<le> clipOverhangFrames origin (DurationFrames current)) (Clips t)) (Tracks current)"

lemma authorized_accounted:
  assumes a: "independentAudioOverhangIsAuthorizedPerClip pf previous t (DurationFrames current) (DurationFrames result) trusted
      (map_of (preserveIndependentAudioForOperation current op) (TrackID t))"
    and p: "previous \<in> set (Tracks current)" "TrackID previous = TrackID t"
    and ids: "distinct (map TrackID (Tracks current))"
    and c: "c \<in> set (Clips t)" "clipOverhangFrames c (DurationFrames result) \<noteq> 0"
  shows "accounted current result (TrackID t) c"
proof -
  have "clip_overhang_ok pf previous (DurationFrames current) (DurationFrames result) trusted
      (map_of (preserveIndependentAudioForOperation current op) (TrackID t)) c"
    using a c by (simp add: independentAudioOverhangIsAuthorizedPerClip_def Let_def list_all_iff)
  then consider (kept) s origin where "map_of (preserveIndependentAudioForOperation current op) (TrackID t) = Some s"
      "map_of (clips_by_id (Clips s)) (TimelineClipID c) = Some origin" "clip_deep_eq origin c"
    | (derived) origin where "independentAudioClipAncestor pf c (Clips previous) = Some origin"
      "clipOverhangFrames c (DurationFrames result) \<le> clipOverhangFrames origin (DurationFrames current)"
    by (auto simp: clip_overhang_ok_def split: option.splits)
  then show ?thesis
  proof cases
    case kept
    from kept(1) obtain t' where t': "t' \<in> set (Tracks current)" "TrackID t' = TrackID t" "set (Clips s) \<subseteq> set (Clips t')"
      by (auto simp: preserveIndependentAudioForOperation_def untouched_clips_def Let_def dest!: filled_mem)
    moreover have "origin \<in> set (Clips s)" using clips_by_id_mem [OF kept(2)] by simp
    moreover have "same_place origin c" using clip_deep_eq_frames [OF kept(3)] by (simp add: same_place_def)
    ultimately show ?thesis unfolding accounted_def list_ex_iff by blast
  next
    case derived
    with ancestor_comes [OF derived(1)] p show ?thesis unfolding accounted_def list_ex_iff by blast
  qed
qed

lemma derived_proof:
  assumes "map_of (deriveIndependentAudioValidationProof pf current result trusted preserved valid) i = Some s"
  obtains previous trust where "TrackID s = i" and "map_of (tracks_by_id current) i = Some previous"
    and "independentAudioOverhangIsAuthorizedPerClip pf previous s (DurationFrames current) (DurationFrames result) trust (map_of preserved i)"
proof -
  have valid using assms by (cases valid) (simp_all add: deriveIndependentAudioValidationProof_def)
  with assms have "(i, s) \<in> set (map (\<lambda>t. (TrackID t, t)) (filter (\<lambda>t.
        TrackID t \<in> set independentAudioTrackIDs \<and> trackOverhangFrames t (DurationFrames result) \<noteq> 0 \<and>
        (case map_of (tracks_by_id current) (TrackID t) of None \<Rightarrow> False
         | Some previous \<Rightarrow> independentAudioOverhangIsAuthorizedPerClip pf previous t (DurationFrames current)
             (DurationFrames result) (map_of trusted (TrackID t) \<noteq> None) (map_of preserved (TrackID t))))
        (Tracks result)))"
    unfolding deriveIndependentAudioValidationProof_def by (intro filled_mem) simp
  then have i: "TrackID s = i" and "case map_of (tracks_by_id current) (TrackID s) of None \<Rightarrow> False
         | Some previous \<Rightarrow> independentAudioOverhangIsAuthorizedPerClip pf previous s (DurationFrames current)
             (DurationFrames result) (map_of trusted (TrackID s) \<noteq> None) (map_of preserved (TrackID s))"
    by auto
  then show ?thesis using that [OF i] by (cases "map_of (tracks_by_id current) i") simp_all
qed

text \<open>
  C7. Overhang is accounted for.  When the tracks of the current document have distinct ids, a clip of the
  planned document that ends after the timeline, by a number of frames that fits an \<open>int\<close>, is on \<open>bgm\<close> or \<open>sfx\<close>, and the current document has on that track either the same clip in the same place, or the
  clip it comes from, which stuck out at least as far: the clip of the same id, or one of the same material, role
  and rate whose source range contains the range of the new one.
\<close>

theorem overhang_accounted:
  assumes "plan_edit w current operation = Inr p" and "distinct (map TrackID (Tracks current))"
    and "t \<in> set (Tracks (pe_document p))" and "c \<in> set (Clips t)"
    and "TimelineEndFrame c > DurationFrames (pe_document p)"
    and "TimelineEndFrame c - DurationFrames (pe_document p) < 9223372036854775808"
  shows "(TrackID t = ''bgm'' \<or> TrackID t = ''sfx'') \<and> accounted current (pe_document p) (TrackID t) c"
proof -
  let ?pf = "lineage_prefix (ew_nonce w)" and ?preserved = "preserveIndependentAudioForOperation current (pe_operation p)"
  obtain d trusted where doc: "pe_document p = stripPreservedAudioLineage ?pf current d"
    and proof_def: "pe_proof p = stripPreservedAudioLineageFromTracks ?pf current (deriveIndependentAudioValidationProof ?pf current d
        trusted ?preserved (validateWithPreservedIndependentAudio current trusted = []))"
    and valid: "validateWithPreservedIndependentAudio (pe_document p) (pe_proof p) = []"
    using assms(1) by (auto simp: plan_edit_def Let_def split: if_splits option.splits)
  obtain s b where s: "map_of (pe_proof p) (TrackID t) = Some s" and tid: "TrackID t \<in> set independentAudioTrackIDs"
    and b: "b \<in> set (Clips s)" "clip_deep_eq c b"
    by (rule overhang_proved [OF valid assms(3-5)]) (auto simp: list_ex_iff)
  obtain s0 where s0: "map_of (deriveIndependentAudioValidationProof ?pf current d trusted ?preserved
      (validateWithPreservedIndependentAudio current trusted = [])) (TrackID t) = Some s0" and ss: "s = strip_track ?pf current s0"
    using s unfolding proof_def stripPreservedAudioLineageFromTracks_def
    by (auto simp: map_of_map)
  obtain previous trust where sid: "TrackID s0 = TrackID t" and prev: "map_of (tracks_by_id current) (TrackID t) = Some previous"
    and auth: "independentAudioOverhangIsAuthorizedPerClip ?pf previous s0 (DurationFrames current) (DurationFrames d)
        trust (map_of ?preserved (TrackID t))"
    using derived_proof [OF s0] .
  have previous: "previous \<in> set (Tracks current)" "TrackID previous = TrackID s0"
    using prev sid by (auto simp: tracks_by_id_def dest!: filled_mem)
  obtain c0 where c0: "c0 \<in> set (Clips s0)" "core_clip c0 = core_clip b"
    using b(1) unfolding ss strip_track_def by (auto simp: core_without)
  have D: "DurationFrames (pe_document p) = DurationFrames d" by (simp add: doc stripPreservedAudioLineage_def map_tracks_def)
  have frames: "TimelineClipID c0 = TimelineClipID c" "AssetID c0 = AssetID c" "TimelineStartFrame c0 = TimelineStartFrame c"
    "TimelineEndFrame c0 = TimelineEndFrame c" "SourceStartFrame c0 = SourceStartFrame c" "SourceEndFrame c0 = SourceEndFrame c"
    "ClipTrackID c0 = ClipTrackID c" "AssetKind c0 = AssetKind c" "Role c0 = Role c" "PlaybackRate c0 = PlaybackRate c"
    using clip_deep_eq_frames [OF b(2)] c0(2) by (metis core_clip_simps)+
  have over: "clipOverhangFrames x y = clipOverhangFrames x' y" if "TimelineEndFrame x = TimelineEndFrame x'" for x x' y
    using that by (simp add: clipOverhangFrames_def)
  have "clipOverhangFrames c0 (DurationFrames d) \<noteq> 0"
    using assms(5,6) frames(4) by (simp add: clipOverhangFrames_def D)
  from authorized_accounted [OF auth [folded sid] previous assms(2) c0(1) this]
  have "accounted current d (TrackID t) c0" unfolding sid .
  then have "accounted current (pe_document p) (TrackID t) c"
    unfolding accounted_def D over [OF frames(4)] by (simp add: same_place_def comes_from_def frames list_ex_iff)
  with tid show ?thesis by (auto simp: independentAudioTrackIDs_def)
qed

end
