(* ===== verification/Edit_Persist.thy ===== *)
theory Edit_Persist
  imports Edit_Overhang Edit_Audio Reducer_Versions
begin

text \<open>
  The atomic edit against the database (\<open>agentexec/tool_exec_timeline.go\<close>, \<open>agentexec/tool_receipt.go\<close>):
  the snapshot it starts from, the commit through \<open>reducer.Apply\<close> with its receipt, and the whole tool.
  The database may change between the snapshot and the commit.  A Go context is a record of the values
  the code reads from it.
\<close>

section \<open>The snapshot\<close>

record mutation_base =
  mb_stateVersion :: goint
  mb_timelineVersion :: goint
  mb_timelineID :: string

definition timelineMutationSnapshot :: "db \<Rightarrow> string \<Rightarrow> (vdoc \<times> mutation_base) read" where
  "timelineMutationSnapshot db d = (case find_draft d db of None \<Rightarrow> Missing | Some r \<Rightarrow>
     (case dr_timeline_current_version r of
        None \<Rightarrow> Found ((EmptyDocument d 0)\<lparr>DurationFrames := 0\<rparr>,
          \<lparr>mb_stateVersion = dr_state_version r, mb_timelineVersion = 0, mb_timelineID = []\<rparr>)
      | Some v \<Rightarrow> (case GetFromQuery db d v of Missing \<Rightarrow> Missing | ReadError e \<Rightarrow> ReadError e
          | Found doc \<Rightarrow> Found (doc, \<lparr>mb_stateVersion = dr_state_version r, mb_timelineVersion = v,
              mb_timelineID = TimelineID doc\<rparr>))))"

text \<open>The materials of a draft, and the stored report of a version.\<close>

definition ListDraftAssets :: "db \<Rightarrow> string \<Rightarrow> asset_row list" where
  "ListDraftAssets db d = map snd (sort_key (\<lambda>(l, a). (li_linked_at l, as_asset_id a))
     (concat (map (\<lambda>l. map (Pair l) (filter (\<lambda>a. as_asset_id a = li_asset_id l) (db_assets db)))
       (filter (\<lambda>l. li_draft_id l = d) (db_links db)))))"

definition proof_of :: "gval \<Rightarrow> audio_proof option" where
  "proof_of v = do {
     m \<leftarrow> object_of v;
     ty \<leftarrow> str_field m ''type''; tid \<leftarrow> str_field m ''track_id''; h \<leftarrow> str_field m ''timing_sha256'';
     n \<leftarrow> int_field m ''overhang_frames'';
     Some \<lparr>ap_Type = ty, ap_TrackID = tid, ap_TimingSHA256 = h, ap_OverhangFrames = n\<rparr> }"

definition report_proofs :: "gval \<Rightarrow> stored_proofs" where
  "report_proofs v = (case object_of v of None \<Rightarrow> BadReport | Some m \<Rightarrow>
     if \<not> ghas m ''preservation_proofs'' then NoProofField
     else case array_field proof_of m ''preservation_proofs'' of None \<Rightarrow> BadProofs | Some ps \<Rightarrow> Proofs ps)"

definition version_row :: "db \<Rightarrow> string \<Rightarrow> goint \<Rightarrow> version_report read" where
  "version_row db d v = (case find_timeline d v db of None \<Rightarrow> Missing | Some t \<Rightarrow>
     Found \<lparr>vr_parent = tl_parent_version t, vr_report = map_option report_proofs (tl_validation_report t)\<rparr>)"

definition or_error :: "'a read \<Rightarrow> tl_error + 'a" where
  "or_error r = (case r of Found x \<Rightarrow> Inr x | Missing \<Rightarrow> Inl (ErrPlain ''not found'') | ReadError e \<Rightarrow> Inl e)"

definition db_world :: "(gval \<Rightarrow> string) \<Rightarrow> (string \<Rightarrow> tl_error + beat_analysis) \<Rightarrow> string \<Rightarrow> db \<Rightarrow> string \<Rightarrow> edit_world" where
  "db_world sha beats nonce db d = \<lparr>ew_assets = Inr (ListDraftAssets db d), ew_latest = or_error (Latest db d),
     ew_beats = beats, ew_rows = version_row db d, ew_docs = GetFromQuery db d, ew_sha = sha, ew_nonce = nonce\<rparr>"

section \<open>The commit\<close>

definition validation_checks :: "string list" where
  "validation_checks = [''schema'', ''required_tracks'', ''clip_ranges'', ''primary_visual_coverage'', ''linked_av_alignment'']"

definition proof_value :: "audio_proof \<Rightarrow> gval" where
  "proof_value p = GObj [(''type'', GStr (ap_Type p)), (''track_id'', GStr (ap_TrackID p)),
     (''timing_sha256'', GStr (ap_TimingSHA256 p)), (''overhang_frames'', GInt (ap_OverhangFrames p))]"

definition structural_report :: "(gval \<Rightarrow> string) \<Rightarrow> vdoc \<Rightarrow> tracks_map \<Rightarrow> tl_error + (gmap \<times> bool)" where
  "structural_report sha d preserved = (
     let issues = validateWithPreservedIndependentAudio d preserved; valid = (issues = []);
         m = [(''valid'', GBool valid), (''structural_valid'', GBool valid), (''checks'', GStrs validation_checks),
           (''issues'', GArr (map (\<lambda>(code, message). GObj [(''code'', GStr code), (''message'', GStr message)]) issues))]
     in if \<not> valid then Inr (m, False)
        else bind_sum (addIndependentAudioPreservationProofs sha d preserved) (\<lambda>ps.
          Inr (if ps = [] then m else m @ [(''preservation_proofs'', GArr (map proof_value ps))], True)))"

record tool_context =
  tc_origin :: string
  tc_turnID :: string
  tc_sourceMessageID :: string
  tc_toolCallID :: string
  tc_toolName :: string
  tc_fingerprint :: string
  tc_admission :: "(string \<times> string) option"

record tool_result =
  to_status :: string
  to_document :: vdoc
  to_base :: mutation_base
  to_report :: gmap
  to_alignment :: beat_alignment
  to_edit :: "planned_edit option"

text \<open>What the commit takes from the environment: a random id, a SHA-256, and the JSON text of a result.\<close>

record commit_world =
  cw_env :: env
  cw_patch :: string
  cw_hex :: "string \<Rightarrow> string"
  cw_text :: "tool_result \<Rightarrow> tl_error + string"

definition timelineMutationReceipt :: "commit_world \<Rightarrow> tool_context \<Rightarrow> string \<Rightarrow> mutation_base \<Rightarrow> vdoc \<Rightarrow> tool_result
  \<Rightarrow> tl_error + receipt_row option" where
  "timelineMutationReceipt w tc d base after result = (
     let call = TrimSpace (tc_toolCallID tc) in
     if tc_origin tc = ''harness'' \<or> tc_turnID tc = [] \<or> tc_sourceMessageID tc = [] \<or> call = []
        \<or> tc_toolName tc = [] \<or> tc_fingerprint tc = [] then Inr None
     else if \<not> prefix ''timeline.'' (tc_toolName tc) then Inl (ErrPlain ''tool name'')
     else bind_sum (cw_text w result) (\<lambda>encoded. Inr (Some
       \<lparr>rc_invocation_key = ''sha256:'' @ cw_hex w (tc_turnID tc @ [CHR 0x00] @ call), rc_draft_id = d,
        rc_source_message_id = tc_sourceMessageID tc, rc_turn_id = tc_turnID tc, rc_tool_call_id = call,
        rc_tool_name = tc_toolName tc, rc_argument_fingerprint = tc_fingerprint tc,
        rc_before_timeline_id = (if mb_timelineID base \<noteq> [] then Some (mb_timelineID base) else None),
        rc_before_version = mb_timelineVersion base, rc_after_timeline_id = TimelineID after,
        rc_after_version = Version after, rc_terminal_status = to_status result, rc_result = encoded,
        rc_created_at = []\<rparr>)))"

definition timeline_event :: "string \<Rightarrow> string \<Rightarrow> gmap \<Rightarrow> event" where
  "timeline_event ty d m = \<lparr>ev_Type = ty, ev_Actor = [], ev_DraftID = d, ev_BaseVersion = None, ev_Payload = Some m,
     ev_CreatedAt = []\<rparr>"

definition created_payload :: "mutation_base \<Rightarrow> vdoc \<Rightarrow> gmap \<Rightarrow> string \<Rightarrow> string \<Rightarrow> gmap option \<Rightarrow> gmap" where
  "created_payload base d doc patch origin op =
     [(''timeline_id'', GStr (TimelineID d)), (''timeline_version'', GInt (Version d)), (''patch_id'', GStr patch),
      (''document_json'', GObj doc), (''edit_origin'', GStr origin),
      (''edit_operations'', GArr (case op of None \<Rightarrow> [] | Some m \<Rightarrow> [GObj m]))]
     @ (if mb_timelineVersion base > 0 then [(''parent_version'', GInt (mb_timelineVersion base))] else [])"

definition write_admission_of :: "tool_context \<Rightarrow> write_admission option" where
  "write_admission_of tc = (if tc_origin tc = ''manual''
     then Some \<lparr>wa_Origin = ''manual'', wa_TurnID = [], wa_LeaseToken = [], wa_Now = zero_time\<rparr>
     else case tc_admission tc of None \<Rightarrow> None | Some (turn, lease) \<Rightarrow> if turn = [] \<or> lease = [] then None
       else Some \<lparr>wa_Origin = ''agent'', wa_TurnID = turn, wa_LeaseToken = lease, wa_Now = zero_time\<rparr>)"

definition commit_options :: "tool_context \<Rightarrow> mutation_base \<Rightarrow> receipt_row option \<Rightarrow> options" where
  "commit_options tc base receipt = \<lparr>op_BaseVersion = Some (mb_stateVersion base),
     op_Actor = (if tc_origin tc = ''manual'' then ActorUser else ActorAgent), op_CreatedAt = zero_time,
     op_ResultRows = no_rows\<lparr>rs_Receipt := receipt\<rparr>, op_Validate = None, op_JobClaim = None, op_RewindRestore = None,
     op_Admission = write_admission_of tc\<rparr>"

datatype commit_failure = VersionMismatch goint goint | NotEncoded tl_error | ReducerFailed apply_error | OtherStatus status

text \<open>The batch of a commit: the new version and the verdict on it.\<close>

definition commit_events :: "string \<Rightarrow> vdoc \<Rightarrow> gmap \<Rightarrow> gmap \<Rightarrow> bool \<Rightarrow> event list" where
  "commit_events d doc created report valid = [timeline_event ''TimelineVersionCreated'' d created,
     timeline_event (if valid then ''TimelineValidated'' else ''TimelineValidationFailed'') d
       [(''timeline_version'', GInt (Version doc)), (''validation_report'', GObj report)]]"

text \<open>A conflict carries the state version the reducer met, when it reports one.\<close>

datatype commit_outcome = Committed tool_result | Rejected mutation_base "goint option"

definition persistTimelineFromSnapshot :: "commit_world \<Rightarrow> tool_context \<Rightarrow> string \<Rightarrow> vdoc \<Rightarrow> string \<Rightarrow> gmap option \<Rightarrow> mutation_base
  \<Rightarrow> tracks_map \<Rightarrow> planned_edit option \<Rightarrow> db \<Rightarrow> commit_failure + (commit_outcome \<times> db)" where
  "persistTimelineFromSnapshot w tc d doc operation op base preserved edit db = (
     if Version doc \<noteq> i64 (mb_timelineVersion base + 1) then Inl (VersionMismatch (mb_timelineVersion base) (Version doc)) else
     bind_sum (failing NotEncoded (ToMap doc)) (\<lambda>m.
     bind_sum (failing NotEncoded (structural_report (en_sha (cw_env w)) doc preserved)) (\<lambda>(report, valid).
     let origin = (if tc_origin tc = [] then ''agent'' else tc_origin tc);
         result = \<lparr>to_status = (if valid then ''succeeded'' else ''validation_failed''), to_document = doc, to_base = base,
           to_report = report, to_alignment = BeatAlignmentData doc, to_edit = edit\<rparr>
     in bind_sum (failing NotEncoded (timelineMutationReceipt w tc d base doc result)) (\<lambda>receipt.
        bind_sum (failing ReducerFailed (Apply (cw_env w) (commit_options tc base receipt)
           (commit_events d doc (created_payload base doc m (operation @ '':'' @ cw_patch w) origin op) report valid) db)) (\<lambda>(res, db').
        case ar_Status res of
          StatusVersionConflict \<Rightarrow> Inr (Rejected base (map_option vc_ActualStateVersion (ar_Conflict res)), db')
        | StatusApplied \<Rightarrow> Inr (Committed result, db')
        | other \<Rightarrow> Inl (OtherStatus other))))))"

section \<open>The tool\<close>

datatype edit_outcome =
    SnapshotUnreadable "tl_error option"
  | EditFailed edit_failure
  | CommitFailed commit_failure
  | EditDone commit_outcome

definition trim_tool :: "string \<Rightarrow> string" where
  "trim_tool name = (case cut_prefix ''timeline.'' name of None \<Rightarrow> name | Some s \<Rightarrow> s)"

text \<open>
  \<open>db\<close> is the database the edit is planned on and \<open>db'\<close> the one it is committed to; the result is the
  outcome, the admission state and the database after the commit.
\<close>

definition atomicTimelineEdit :: "edit_world \<Rightarrow> commit_world \<Rightarrow> tool_context \<Rightarrow> string \<Rightarrow> string \<Rightarrow> gmap \<Rightarrow> admission_state option
  \<Rightarrow> db \<Rightarrow> db \<Rightarrow> edit_outcome \<times> admission_state option \<times> db" where
  "atomicTimelineEdit ew w tc d toolName op admission db db' = (
     case timelineMutationSnapshot db d of Missing \<Rightarrow> (SnapshotUnreadable None, admission, db')
     | ReadError e \<Rightarrow> (SnapshotUnreadable (Some e), admission, db')
     | Found (current, base) \<Rightarrow>
       (case toolAtomicTimelineEdit ew d toolName (mb_timelineVersion base) current admission op of
          (Inl e, adm) \<Rightarrow> (EditFailed e, adm, db')
        | (Inr p, adm) \<Rightarrow>
          (case persistTimelineFromSnapshot w tc d (pe_document p) (trim_tool toolName) (Some (pe_operation p)) base (pe_proof p)
              (Some p) db' of
             Inl e \<Rightarrow> (CommitFailed e, adm, db')
           | Inr (r, db2) \<Rightarrow> (EditDone r, (case (r, adm) of (Committed res, Some st) \<Rightarrow>
                 if to_status res = ''succeeded'' then Some (recordSuccess st d (pe_operation p)) else Some st
               | _ \<Rightarrow> adm), db2))))"

end
