(* ===== verification/Edit_Commit.thy ===== *)
theory Edit_Commit
  imports Edit_Persist
begin

text \<open>
  What a commit does to the database: an edit planned on an old state is refused, and a committed
  document is the latest timeline of its draft.
\<close>

section \<open>The view of a timeline\<close>

text \<open>What reading the latest timeline looks at.\<close>

definition pointer :: "db \<Rightarrow> string \<Rightarrow> goint option option" where
  "pointer db d = map_option dr_timeline_current_version (find_draft d db)"

lemma Latest_view: "pointer db d = Some (Some v) \<Longrightarrow> Latest db d = GetFromQuery db d v"
  by (auto simp: pointer_def Latest_def)

lemma pointer_update:
  "(\<And>r. dr_draft_id (f r) = dr_draft_id r) \<Longrightarrow>
    pointer (update_draft e f db) d = (if d = e then map_option (\<lambda>r. dr_timeline_current_version (f r)) (find_draft d db) else pointer db d)"
  unfolding pointer_def find_draft_def update_draft_def
  by (cases "find (\<lambda>r. dr_draft_id r = d) (db_drafts db)") (auto simp: find_update_where dest: find_SomeD)

lemma pointer_cong: "db_drafts a = db_drafts b \<Longrightarrow> pointer a d = pointer b d"
  by (simp add: pointer_def find_draft_def)

lemma pointer_bumped:
  "pointer (db\<lparr>db_drafts := update_where (\<lambda>r. dr_draft_id r = e \<and> dr_state_version r = v)
      (\<lambda>r. r\<lparr>dr_state_version := w, dr_updated_at := c\<rparr>) (db_drafts db)\<rparr>) d = pointer db d"
  unfolding pointer_def find_draft_def
  by (cases "find (\<lambda>r. dr_draft_id r = d) (db_drafts db)") (auto simp: find_update_where)

lemma bump_view: "bump_versions c orig ds db = Inr (None, vs, db') \<Longrightarrow> pointer db' d = pointer db d \<and> db_timelines db' = db_timelines db"
proof (induction ds arbitrary: db vs)
  case (Cons e ds)
  then show ?case by (auto simp: Let_def pointer_bumped split: if_splits)
qed simp

lemma append_view: "appendEvents c vs evs db = Inr (as, db') \<Longrightarrow> db_drafts db' = db_drafts db \<and> db_timelines db' = db_timelines db"
  by (induction evs arbitrary: db as) (auto simp: append_event_def Let_def split: sum.splits if_splits)

lemma receipt_view:
  assumes "persistResultRows n j sha c (no_rows\<lparr>rs_Receipt := r\<rparr>) db = Inr (lease, memory, db')"
  shows "db_drafts db' = db_drafts db \<and> db_timelines db' = db_timelines db"
proof -
  have "persistAgentToolReceipt c r db = Inr db1 \<Longrightarrow> db_drafts db1 = db_drafts db \<and> db_timelines db1 = db_timelines db" for db1
    by (auto simp: persistAgentToolReceipt_def Let_def split: option.splits if_splits)
  with assms show ?thesis
    by (auto simp: persistResultRows_def persistTurnRows_def persistMemoryRows_def persistAnalysisRows_def no_rows_def
      persistAgentTurnRunStart_def persistAgentTurnRunFinish_def persistMessage_def
      persistUserMemories_def touchUserMemories_def store_opt_def)
qed

section \<open>Stale edits\<close>

lemma timeline_event_fields [simp]: "ev_Type (timeline_event ty d m) = ty" "ev_DraftID (timeline_event ty d m) = d"
  "ev_BaseVersion (timeline_event ty d m) = None" "payload (timeline_event ty d m) k = gget m k"
  by (simp_all add: timeline_event_def payload_def)

lemma created_strict: "VersionMode (timeline_event ''TimelineVersionCreated'' d m) = Some VersionStrict"
  by (simp add: VersionMode_def event_Spec_def EventRegistry_def)

lemma verdict_strict: "VersionMode (timeline_event (if valid then ''TimelineValidated'' else ''TimelineValidationFailed'') d m) = Some VersionStrict"
  if "gget m ''scope_type'' = GNil"
  using that by (simp add: VersionMode_def event_Spec_def EventRegistry_def)

lemma persist_cases:
  assumes "persistTimelineFromSnapshot w tc d doc operation op base preserved edit db = Inr (r, db')"
  obtains m report valid receipt res patch origin where "ToMap doc = Inr m" and "Version doc = i64 (mb_timelineVersion base + 1)"
    and "Apply (cw_env w) (commit_options tc base receipt)
      (commit_events d doc (created_payload base doc m patch origin op) report valid) db = Inr (res, db')"
    and "ar_Status res = StatusVersionConflict \<and> r = Rejected base (map_option vc_ActualStateVersion (ar_Conflict res))
      \<or> ar_Status res = StatusApplied \<and> (\<exists>result. r = Committed result \<and> to_document result = doc \<and> to_edit result = edit)"
proof -
  have v: "Version doc = i64 (mb_timelineVersion base + 1)"
    using assms by (auto simp: persistTimelineFromSnapshot_def split: if_splits)
  let ?result = "\<lambda>report valid. \<lparr>to_status = (if valid then ''succeeded'' else ''validation_failed''), to_document = doc,
    to_base = base, to_report = report, to_alignment = BeatAlignmentData doc, to_edit = edit\<rparr>"
  from v assms obtain m report valid receipt res db2 origin where m: "ToMap doc = Inr m"
    and a: "Apply (cw_env w) (commit_options tc base receipt)
      (commit_events d doc (created_payload base doc m (operation @ '':'' @ cw_patch w) origin op) report valid) db = Inr (res, db2)"
    and r: "(case ar_Status res of StatusVersionConflict \<Rightarrow> Inr (Rejected base (map_option vc_ActualStateVersion (ar_Conflict res)), db2)
        | StatusApplied \<Rightarrow> Inr (Committed (?result report valid), db2) | other \<Rightarrow> Inl (OtherStatus other)) = Inr (r, db')"
    unfolding persistTimelineFromSnapshot_def Let_def by (auto split: if_splits)
  show ?thesis
  proof (rule that [OF m v])
    show "Apply (cw_env w) (commit_options tc base receipt)
      (commit_events d doc (created_payload base doc m (operation @ '':'' @ cw_patch w) origin op) report valid) db = Inr (res, db')"
      using a r by (auto split: status.splits)
    show "ar_Status res = StatusVersionConflict \<and> r = Rejected base (map_option vc_ActualStateVersion (ar_Conflict res))
      \<or> ar_Status res = StatusApplied \<and> (\<exists>result. r = Committed result \<and> to_document result = doc \<and> to_edit result = edit)"
      using r by (auto split: status.splits)
  qed
qed

lemma persist_stale:
  assumes "persistTimelineFromSnapshot w tc d doc operation op base preserved edit db = Inr (r, db')"
    and "draft_version db d \<noteq> Some (mb_stateVersion base)"
  shows "(\<exists>v. r = Rejected base v) \<and> db' = db"
  using assms(1)
proof (cases rule: persist_cases)
  case (1 m report valid receipt res patch origin)
  let ?ev = "timeline_event ''TimelineVersionCreated'' d (created_payload base doc m patch origin op)"
  have "?ev \<in> set (commit_events d doc (created_payload base doc m patch origin op) report valid)" by (simp add: commit_events_def)
  moreover have "VersionMode ?ev = Some VersionStrict" by (rule created_strict)
  moreover have "based_on (commit_options tc base receipt) ?ev (mb_stateVersion base)"
    by (simp add: based_on_def commit_options_def)
  ultimately have "ar_Status res \<noteq> StatusApplied \<and> db' = db"
    using stale_batch_refused [OF 1(3)] assms(2) by simp
  with 1(4) show ?thesis by auto
qed

section \<open>The committed document\<close>

definition version_document :: "db \<Rightarrow> string \<Rightarrow> goint \<Rightarrow> gval option" where
  "version_document db d v = map_option tl_document (find_timeline d v db)"

lemma ToMap_stored: "ToMap d = Inr m \<Longrightarrow> json_norm (GObj m) = GObj m \<and> m \<noteq> []"
  by (auto simp: ToMap_def document_fields_def split: if_splits)

lemma created_view:
  assumes "applyTimelineCreated st ev = Inr st'" and d: "ev_DraftID ev = d"
    and doc: "payload ev ''document_json'' = GObj m" "m \<noteq> []" "json_norm (GObj m) = GObj m"
    and v: "payload ev ''timeline_version'' = GInt v"
  shows "pointer (st_db st') d = Some (Some v) \<and> version_document (st_db st') d v = Some (GObj m)"
proof -
  from assms obtain row db1 db2 st2 c j where draft: "find_draft d (st_db st) \<noteq> None" and j: "mustJSON (GObj m) = Inr j"
    and row: "insert_timeline row (st_db st) = Inr db1" "tl_draft_id row = d" "tl_version row = v" "tl_document row = j"
    and batch: "record_edit_batch st ev v c db1 = Inr db2" and t: "touch (st\<lparr>st_db := db2\<rparr>) d = Inr st2"
    and st': "st' = with_db (update_draft d (\<lambda>r. r\<lparr>dr_timeline_current_version := Some v, dr_timeline_validated := False\<rparr>)) st2"
    unfolding applyTimelineCreated_def Let_def by (fastforce split: if_splits option.splits)
  have "j = GObj m" using j doc(3) by (simp add: mustJSON_def split: if_splits)
  have db1: "db_timelines db1 = db_timelines (st_db st) @ [row]" "db_drafts db1 = db_drafts (st_db st)"
    and new: "\<forall>x \<in> set (db_timelines (st_db st)). \<not> (tl_draft_id x = d \<and> tl_version x = v)"
    using row(1-3) by (auto simp: insert_timeline_def insert_unique_def image_iff split: if_splits)
  have db2: "db_timelines db2 = db_timelines db1" "db_drafts db2 = db_drafts db1"
    using batch by (auto simp: record_edit_batch_def insert_edit_batch_def Let_def split: if_splits)
  have "st_db st2 = db2" using touch_db [OF t] by simp
  then have "pointer (st_db st') d = map_option (\<lambda>r. Some v) (find_draft d db2)"
    by (simp add: st' pointer_update)
  moreover have "find_draft d db2 \<noteq> None" using draft db1 db2 by (simp add: find_draft_def)
  moreover have "find (\<lambda>t. tl_draft_id t = d \<and> tl_version t = v) (db_timelines (st_db st)) = None"
    using new by (auto simp: find_None_iff)
  then have "find_timeline d v (st_db st') = Some row"
    using row(2,3) \<open>st_db st2 = db2\<close> db1 db2 by (simp add: st' update_draft_def find_timeline_def find_append)
  ultimately show ?thesis using row(4) \<open>j = GObj m\<close> by (auto simp: version_document_def)
qed

lemma verdict_view:
  assumes "applyTimelineValidation st ev = Inr st'"
  shows "pointer (st_db st') d = pointer (st_db st) d \<and> version_document (st_db st') d v = version_document (st_db st) d v"
proof -
  from assms obtain P r f st1 where t: "touch (with_db (\<lambda>db. db\<lparr>db_timelines := update_where P
        (\<lambda>t. t\<lparr>tl_validation_report := r\<rparr>) (db_timelines db)\<rparr>) st) (ev_DraftID ev) = Inr st1"
    and st': "st' = with_db (update_draft (ev_DraftID ev) f) st1"
    and f: "\<And>x. dr_draft_id (f x) = dr_draft_id x" "\<And>x. dr_timeline_current_version (f x) = dr_timeline_current_version x"
    unfolding applyTimelineValidation_def Let_def by fastforce
  have db1: "st_db st1 = (st_db st)\<lparr>db_timelines := update_where P (\<lambda>t. t\<lparr>tl_validation_report := r\<rparr>) (db_timelines (st_db st))\<rparr>"
    using touch_db [OF t] by simp
  have "pointer (st_db st') d = pointer (st_db st1) d" using f by (simp add: st' pointer_update) (simp add: pointer_def)
  moreover have "pointer (st_db st1) d = pointer (st_db st) d" by (rule pointer_cong) (simp add: db1)
  moreover have "version_document (st_db st') d v = version_document (st_db st) d v"
    unfolding version_document_def find_timeline_def
    by (cases "find (\<lambda>t. tl_draft_id t = d \<and> tl_version t = v) (db_timelines (st_db st))")
      (simp_all add: st' update_draft_def db1 find_update_where)
  ultimately show ?thesis by simp
qed

lemma strict_event_key: "VersionMode ev = Some VersionStrict \<Longrightarrow> existingMergeEvent db ev = Inr ([], False)"
  by (auto simp: existingMergeEvent_def MergeKey_def VersionMode_def split: option.splits if_splits)

lemma two_strict_events:
  assumes "apply_events st [] [e1, e2] = Inr st'" and "VersionMode e1 = Some VersionStrict" and "VersionMode e2 = Some VersionStrict"
  obtains s1 s2 where "applyEvent st e1 = Inr s1" and "applyEvent (s1\<lparr>st_eventsToLog := st_eventsToLog s1 @ [e1]\<rparr>) e2 = Inr s2"
    and "st_db st' = st_db s2"
  using assms(1) by (auto simp: strict_event_key [OF assms(2)] strict_event_key [OF assms(3)])

lemma finish_view:
  assumes "finish en (commit_options tc base receipt) c st db0 = Inr (res, db')" and "ar_Status res = StatusApplied"
  shows "pointer db' d = pointer (st_db st) d \<and> version_document db' d v = version_document (st_db st) d v"
  using assms(1)
proof (cases rule: finish_cases)
  case (2 lease memory db1 vs db2 as db3)
  have "pointer db' d = pointer (st_db st) d" "db_timelines db' = db_timelines (st_db st)"
    using receipt_view [OF 2(2) [unfolded commit_options_def options.simps]] bump_view [OF 2(3)] append_view [OF 2(4)]
      pointer_cong [of db1 "st_db st"] pointer_cong [of db3 db2] 2(5)
    by (simp_all add: finish_restore_def commit_options_def)
  then show ?thesis by (simp add: version_document_def find_timeline_def)
qed (use assms(2) in simp)

lemma applied_created: "ev_Type ev = ''TimelineVersionCreated'' \<Longrightarrow> applyEvent st ev = applyTimelineCreated st ev"
  by (simp add: applyEvent_def eventApplyRegistry_def)

lemma applied_verdict: "ev_Type ev = ''TimelineValidated'' \<or> ev_Type ev = ''TimelineValidationFailed'' \<Longrightarrow>
    applyEvent st ev = applyTimelineValidation st ev"
  by (auto simp: applyEvent_def eventApplyRegistry_def)

lemma persist_view:
  assumes "persistTimelineFromSnapshot w tc d doc operation op base preserved edit db = Inr (Committed result, db')"
  obtains m where "ToMap doc = Inr m" and "to_document result = doc" and "to_edit result = edit" and "pointer db' d = Some (Some (Version doc))"
    and "version_document db' d (Version doc) = Some (GObj m)"
  using assms
proof (cases rule: persist_cases)
  case (1 m report valid receipt res patch origin)
  then have applied: "ar_Status res = StatusApplied" and doc: "to_document result = doc" "to_edit result = edit" by auto
  let ?op = "commit_options tc base receipt" and ?c = "created_at (cw_env w) (commit_options tc base receipt)"
    and ?created = "created_payload base doc m patch origin op"
  from 1(3) show ?thesis
  proof (cases rule: Apply_cases)
    case 1
    then show ?thesis using applied by (simp add: commit_events_def)
  next
    case (2 evs' db1 st st')
    obtain e1 e2 where evs': "evs' = [e1, e2]"
      and e1: "normalize_event ?op ?c (timeline_event ''TimelineVersionCreated'' d ?created) = Inr e1"
      and e2: "normalize_event ?op ?c (timeline_event (if valid then ''TimelineValidated'' else ''TimelineValidationFailed'') d
        [(''timeline_version'', GInt (Version doc)), (''validation_report'', GObj report)]) = Inr e2"
      using 2(2) unfolding commit_events_def by auto
    note k1 = normalize_event_keys(1-4) [OF e1] and k2 = normalize_event_keys(1-4) [OF e2]
    have p1: "payload e1 k = gget ?created k" for k using k1(3) by (simp add: payload_def timeline_event_def)
    have strict: "VersionMode e1 = Some VersionStrict" "VersionMode e2 = Some VersionStrict"
      unfolding k1(4) k2(4) by (rule created_strict, rule verdict_strict) simp
    obtain s1 s2 where s1: "applyEvent st e1 = Inr s1"
      and s2: "applyEvent (s1\<lparr>st_eventsToLog := st_eventsToLog s1 @ [e1]\<rparr>) e2 = Inr s2" and st': "st_db st' = st_db s2"
      using two_strict_events [OF 2(5) [unfolded evs'] strict] .
    have "applyTimelineCreated st e1 = Inr s1" using s1 k1(1) by (simp add: applied_created)
    then have v1: "pointer (st_db s1) d = Some (Some (Version doc)) \<and> version_document (st_db s1) d (Version doc) = Some (GObj m)"
      by (rule created_view) (use k1(2) ToMap_stored [OF \<open>ToMap doc = Inr m\<close>] in \<open>simp_all add: p1 created_payload_def\<close>)
    have "applyTimelineValidation (s1\<lparr>st_eventsToLog := st_eventsToLog s1 @ [e1]\<rparr>) e2 = Inr s2"
      using s2 k2(1) by (simp add: applied_verdict split: if_splits)
    from verdict_view [OF this] finish_view [OF 2(6,1)] v1 st'
    have "pointer db' d = Some (Some (Version doc))" "version_document db' d (Version doc) = Some (GObj m)" by simp_all
    with that doc \<open>ToMap doc = Inr m\<close> show ?thesis by blast
  qed
qed

lemma core_stored: "core_clip (stored_clip c) = core_clip c"
  by (simp add: core_clip_def stored_clip_def with_meta_def)

lemma stored_keeps:
  assumes "list_ex (\<lambda>t'. TrackID t' = i \<and> core_clip c \<in> core_clip ` set (Clips t')) (Tracks d)"
  shows "list_ex (\<lambda>t'. TrackID t' = i \<and> core_clip c \<in> core_clip ` set (Clips t')) (Tracks (ensureRequiredTracks (stored d)))"
proof -
  from assms obtain t' where t': "t' \<in> set (Tracks d)" "TrackID t' = i" "core_clip c \<in> core_clip ` set (Clips t')"
    by (auto simp: list_ex_iff)
  let ?t = "t'\<lparr>Clips := map stored_clip (Clips t')\<rparr>"
  have "?t \<in> set (Tracks (ensureRequiredTracks (stored d)))" using t'(1) by (simp add: ensureRequiredTracks_def stored_def map_tracks_def)
  moreover have "core_clip c \<in> core_clip ` set (Clips ?t)" using t'(3) by (auto simp: image_image core_stored)
  moreover have "TrackID ?t = i" using t'(2) by simp
  ultimately show ?thesis unfolding list_ex_iff by blast
qed

section \<open>The whole edit\<close>

lemma snapshot_version: "timelineMutationSnapshot db d = Found (current, base) \<Longrightarrow> draft_version db d = Some (mb_stateVersion base)"
  by (auto simp: timelineMutationSnapshot_def draft_version_def split: option.splits read.splits)

lemma edit_cases:
  assumes "atomicTimelineEdit ew w tc d tool op adm db db' = (EditDone r, adm', db2)"
  obtains current base p where "timelineMutationSnapshot db d = Found (current, base)" and "\<exists>op'. plan_edit ew current op' = Inr p"
    and "persistTimelineFromSnapshot w tc d (pe_document p) (trim_tool tool) (Some (pe_operation p)) base (pe_proof p) (Some p) db'
      = Inr (r, db2)"
proof -
  from assms obtain current base p adm1 where s: "timelineMutationSnapshot db d = Found (current, base)"
    and p: "toolAtomicTimelineEdit ew d tool (mb_timelineVersion base) current adm op = (Inr p, adm1)"
    and c: "persistTimelineFromSnapshot w tc d (pe_document p) (trim_tool tool) (Some (pe_operation p)) base (pe_proof p) (Some p) db'
      = Inr (r, db2)"
    by (auto simp: atomicTimelineEdit_def split: read.splits prod.splits sum.splits)
  have "plan_edit ew current op = Inr p"
    using p by (auto simp: toolAtomicTimelineEdit_def split: if_splits option.splits prod.splits)
  then show ?thesis using that s c by blast
qed

text \<open>
  C6. An edit planned on a state that another writer has advanced in the meantime is rejected and
  writes nothing.
\<close>

theorem stale_edit_rejected:
  assumes "atomicTimelineEdit ew w tc d tool op adm db db' = (EditDone r, adm', db2)"
    and "draft_version db' d \<noteq> draft_version db d"
  shows "(\<exists>base v. r = Rejected base v) \<and> db2 = db'"
  using assms(1)
proof (cases rule: edit_cases)
  case (1 current base p)
  with assms(2) persist_stale [OF 1(3)] snapshot_version [OF 1(1)] show ?thesis by auto
qed

text \<open>
  C5. A committed edit is what the next reader sees, and it leaves the independent audio alone: the
  latest timeline of the draft is the planned document, and it has, on the same track, every unlinked
  clip of \<open>bgm\<close> and \<open>sfx\<close> of the timeline before that the operation does not touch, with the same
  placement, source range, rate, gain and fades, even where the picture under it rippled.
\<close>

theorem committed_edit_keeps_audio:
  assumes edit: "atomicTimelineEdit ew w tc d tool op adm db db' = (EditDone (Committed result), adm', db2)"
    and exact: "exact_document (to_document result)"
    and before: "timelineMutationSnapshot db d = Found (current, base)" and "distinct (map TrackID (Tracks current))"
    and "t \<in> set (Tracks current)" and "TrackID t = ''bgm'' \<or> TrackID t = ''sfx''" and "c \<in> set (Clips t)" and "\<not> Linked c"
    and "untouched current (pe_operation (the (to_edit result))) t c"
  shows "\<exists>latest. Latest db2 d = Found latest \<and> latest = ensureRequiredTracks (stored (to_document result))
    \<and> list_ex (\<lambda>t'. TrackID t' = TrackID t \<and> core_clip c \<in> core_clip ` set (Clips t')) (Tracks latest)"
  using edit
proof (cases rule: edit_cases)
  case (1 current' base' p)
  then obtain op' where p: "plan_edit ew current op' = Inr p" using before by auto
  from 1(3) obtain m where m: "ToMap (pe_document p) = Inr m" "to_document result = pe_document p" "to_edit result = Some p"
    "pointer db2 d = Some (Some (Version (pe_document p)))" "version_document db2 d (Version (pe_document p)) = Some (GObj m)"
    by (rule persist_view)
  have "document_of (GObj m) = Some (stored (pe_document p))"
    using document_roundtrip [OF m(1)] exact m(2) by simp
  then have "Latest db2 d = Found (ensureRequiredTracks (stored (pe_document p)))"
    unfolding Latest_view [OF m(4)] using m(5)
    by (auto simp: GetFromQuery_def read_row_def version_document_def split: option.splits)
  moreover have "list_ex (\<lambda>t'. TrackID t' = TrackID t \<and> core_clip c \<in> core_clip ` set (Clips t')) (Tracks (pe_document p))"
    using plan_keeps_audio [OF p assms(4-8)] assms(9) m(3) by simp
  ultimately show ?thesis using stored_keeps m(2) by auto
qed

end
