(* ===== verification/Edit_Demo.thy ===== *)
theory Edit_Demo
  imports Edit_Commit Timeline_Demo
begin

text \<open>
  A project of two shots under one piece of music, and the edit that deletes the second shot: the
  picture then ends at frame 90 and the music still plays to frame 150.
\<close>

definition tune :: "'m option \<Rightarrow> goint \<Rightarrow> 'm option Clip" where
  "tune m e = zero_clip\<lparr>TimelineClipID := ''m'', ClipTrackID := ''bgm'', AssetID := ''M'', AssetKind := ''audio'',
     Role := ''bgm'', TimelineEndFrame := e, SourceEndFrame := e, PlaybackRate := Fin 1, Metadata := m\<rparr>"

definition picture :: "string \<Rightarrow> goint \<Rightarrow> goint \<Rightarrow> 'm option Clip" where
  "picture i s e = zero_clip\<lparr>TimelineClipID := i, ClipTrackID := ''visual_base'', AssetID := ''A'', AssetKind := ''video'',
     Role := ''a_roll'', TimelineStartFrame := s, TimelineEndFrame := e, SourceStartFrame := s, SourceEndFrame := e,
     PlaybackRate := Fin 1\<rparr>"

definition track_with :: "string \<Rightarrow> string \<Rightarrow> 'm Clip list \<Rightarrow> 'm Track" where
  "track_with i ty cs = (empty_track (i, ty))\<lparr>Clips := cs\<rparr>"

definition music :: "goint \<Rightarrow> goint \<Rightarrow> 'm Clip list \<Rightarrow> 'm Clip \<Rightarrow> 'm Document" where
  "music v D shots t = \<lparr>TimelineID = ''d:v'' @ show_int v, DraftID = ''d'', Version = v, FPS = 30, DurationFrames = D, Tracks =
     [track_with ''visual_base'' ''primary_visual'' shots, track_with ''visual_overlay'' ''visual_overlay'' [],
      track_with ''original_audio'' ''audio'' [], track_with ''voiceover'' ''audio'' [], track_with ''bgm'' ''audio'' [t],
      track_with ''subtitles'' ''text'' [], track_with ''sfx'' ''audio'' []]\<rparr>"

definition song :: vdoc where
  "song = music 1 150 [picture ''a'' 0 90, picture ''b'' 90 150] (tune None 150)"

definition drop_shot :: gmap where
  "drop_shot = [(''kind'', GStr ''delete_clip''), (''timeline_clip_id'', GStr ''b'')]"

definition quiet_world :: edit_world where
  "quiet_world = \<lparr>ew_assets = Inr [], ew_latest = Inr song, ew_beats = (\<lambda>_. Inl (ErrPlain [])), ew_rows = (\<lambda>_. Missing),
     ew_docs = (\<lambda>_. Missing), ew_sha = (\<lambda>_. []), ew_nonce = ''7''\<rparr>"

section \<open>Fields\<close>

lemma track_fields [simp]: "TrackID (track_with i ty cs) = i" "Clips (track_with i ty cs) = cs" "Locked (track_with i ty cs) = False"
  "track_with i ty cs\<lparr>Clips := cs'\<rparr> = track_with i ty cs'" "track_with i ty cs\<lparr>Locked := False\<rparr> = track_with i ty cs"
  by (simp_all add: track_with_def empty_track_def)

lemma tune_fields [simp]: "TimelineClipID (tune m e) = ''m''" "ClipTrackID (tune m e) = ''bgm''" "Linked (tune m e) = False"
  "Metadata (tune m e) = m" "TimelineStartFrame (tune m e) = 0" "TimelineEndFrame (tune m e) = e" "ParentBlockID (tune m e) = []"
  "tune m e\<lparr>Metadata := m'\<rparr> = tune m' e"
  by (simp_all add: tune_def zero_clip_def)

lemma picture_fields [simp]: "TimelineClipID (picture i s e) = i" "ClipTrackID (picture i s e) = ''visual_base''"
  "Linked (picture i s e) = False" "Metadata (picture i s e) = None" "TimelineStartFrame (picture i s e) = s"
  "TimelineEndFrame (picture i s e) = e" "ParentBlockID (picture i s e) = []"
  by (simp_all add: picture_def zero_clip_def)

lemma music_fields [simp]: "DurationFrames (music v D shots t) = D" "Tracks (music v D shots t) =
     [track_with ''visual_base'' ''primary_visual'' shots, track_with ''visual_overlay'' ''visual_overlay'' [],
      track_with ''original_audio'' ''audio'' [], track_with ''voiceover'' ''audio'' [], track_with ''bgm'' ''audio'' [t],
      track_with ''subtitles'' ''text'' [], track_with ''sfx'' ''audio'' []]"
  by (simp_all add: music_def)

lemma map_music: "map_tracks f (music v D shots t) =
  \<lparr>TimelineID = ''d:v'' @ show_int v, DraftID = ''d'', Version = v, FPS = 30, DurationFrames = D, Tracks =
    [f (track_with ''visual_base'' ''primary_visual'' shots), f (track_with ''visual_overlay'' ''visual_overlay'' []),
      f (track_with ''original_audio'' ''audio'' []), f (track_with ''voiceover'' ''audio'' []), f (track_with ''bgm'' ''audio'' [t]),
      f (track_with ''subtitles'' ''text'' []), f (track_with ''sfx'' ''audio'' [])]\<rparr>"
  by (simp add: map_tracks_def music_def sortTrack_def)

lemma drop_fields [simp]: "gget drop_shot ''kind'' = GStr ''delete_clip''" "gget drop_shot ''timeline_clip_id'' = GStr ''b''"
  "gget drop_shot ''track_id'' = GNil" "gget drop_shot ''target_track_id'' = GNil"
  by (simp_all add: drop_shot_def)

section \<open>Before the patch\<close>

lemma touched: "touchedTimelineClipIDsForOperation song drop_shot = [''b'']" "touchedTrackIDsForOperation song drop_shot = [''visual_base'']"
  by (simp_all add: touchedTimelineClipIDsForOperation_def touchedTrackIDsForOperation_def song_def
      deletes_range_def located_def last_or_def Let_def doc_clips_def)

definition music_track :: vtrack where "music_track = track_with ''bgm'' ''audio'' [tune None 150]"

lemma song_set_aside: "preserveIndependentAudioForOperation song drop_shot = [(''bgm'', music_track)]"
proof -
  have "Tracks song = Tracks (music 1 150 [picture ''a'' 0 90, picture ''b'' 90 150] (tune None 150))" by (simp only: song_def)
  then show ?thesis
    by (simp add: preserveIndependentAudioForOperation_def sets_aside_def untouched_clips_def touched independentAudioTrackIDs_def
        filled_def music_track_def)
qed

definition song_mark :: gmap where
  "song_mark = [(preservedAudioLineageMetadataKey, GStr ''rushes-internal-audio-lineage:7:m'')]"

definition marked_song :: vdoc where
  "marked_song = music 1 150 [picture ''a'' 0 90, picture ''b'' 90 150] (tune (Some song_mark) 150)"

definition cut_song :: vdoc where
  "cut_song = music 2 90 [picture ''a'' 0 90] (tune (Some song_mark) 90)"

lemma song_marked: "map_tracks (marked_track (lineage_prefix ''7'') [(''bgm'', s)]) song = marked_song"
  unfolding song_def map_music marked_song_def
  by (simp add: music_def marked_track_def independentAudioTrackIDs_def mark_clip_def markerValue_def gput_def the_map_def
      song_mark_def lineage_prefix_def)

section \<open>The patch\<close>

lemma marked_clone: "\<exists>st. clone marked_song = Inr (music 1 150 [picture ''a'' 0 90, picture ''b'' 90 150] (tune (Some (4, 0)) 150), st)
  \<and> st (4, 0) = song_mark"
  by (simp add: clone_ops marked_song_def music_def tune_def picture_def track_with_def empty_track_def zero_clip_def song_mark_def doc_store_def
     json_norm_map_def)

lemma clamp_music: "0 \<le> s \<Longrightarrow> s \<le> e \<Longrightarrow> e < 1000 \<Longrightarrow> clamp_fades (picture i s e) = picture i s e"
  "0 \<le> e \<Longrightarrow> e < 1000 \<Longrightarrow> clamp_fades (tune m e) = tune m e" for s e :: goint
  by (auto simp: clamp_fades_def picture_def tune_def zero_clip_def clampInt_def i64_def Let_def)

lemma song_located: "editableLocation (music 1 150 [picture ''a'' 0 90, picture ''b'' 90 150] u) drop_shot = Inr (0, 1)"
  by (simp add: editableLocation_def locateClip_def track_at_def Let_def)

lemma song_steps: "delete_range_step 90 150 (picture ''a'' 0 90) = ([picture ''a'' 0 90], [])"
  "delete_range_step 90 150 (picture ''b'' 90 150) = ([], [])"
  "delete_range_step 90 150 (tune (Some r) 150) = ([tune (Some r) 90], [MPlace r 0 90])"
  by (simp_all add: delete_range_step_def Let_def tune_def zero_clip_def syncClipPlacementMetadata_def effectiveRate_def)

lemma song_deleted: "deleteClip (music 1 150 [picture ''a'' 0 90, picture ''b'' 90 150] (tune (Some r) 150)) drop_shot
    = Inr (music 1 90 [picture ''a'' 0 90] (tune (Some r) 90), [MPlace r 0 90])"
proof -
  let ?d = "music 1 150 [picture ''a'' 0 90, picture ''b'' 90 150] (tune (Some r) 150)"
  have unlocked: "ensureRippleUnlocked ?d 90 [] = Inr ()" by (simp add: ensureRippleUnlocked_def)
  have "deleteRange ?d (range_op 90 150) = Inr (music 1 90 [picture ''a'' 0 90] (tune (Some r) 90), [MPlace r 0 90])"
    by (simp add: deleteRange_def range_op_def frameValue_def join2_def unlocked step_track_def step_writes_def doc_clips_def
        map_music song_steps sortTrack_def Let_def) (simp add: map_tracks_def music_def sortTrack_def)
  then show ?thesis
    by (simp add: deleteClip_def song_located edit_members_def clip_at_def track_at_def has_primary_def deletable_members_def
        unlocked Let_def)
qed

lemma song_mark_plain: "semantic_anchor song_mark = False"
  by (simp add: semantic_anchor_def song_mark_def preservedAudioLineageMetadataKey_def)

lemma song_cut: "ApplyPatch marked_song drop_shot = Inr cut_song"
proof -
  have "ValidateOpFields drop_shot = Inr ()" by (simp add: drop_shot_def validate_ops)
  moreover obtain st where st: "clone marked_song = Inr (music 1 150 [picture ''a'' 0 90, picture ''b'' 90 150] (tune (Some (4, 0)) 150), st)"
    "st (4, 0) = song_mark" using marked_clone by blast
  moreover have "clampClipFades (music 1 90 [picture ''a'' 0 90] (tune (Some r) 90)) = music 1 90 [picture ''a'' 0 90] (tune (Some r) 90)" for r :: ref
    by (simp add: clampClipFades_def clamp_music map_music) (simp add: music_def)
  moreover have "resolve (store_writes [MPlace (4, 0) 0 90] st) (next_version (music 1 90 [picture ''a'' 0 90] (tune (Some (4, 0)) 90))) = cut_song"
    using st(2) by (simp add: resolve_def store_writes_def place_meta_def song_mark_plain next_version_def cut_song_def music_def
        with_tracks_def with_clips_def with_meta_def track_with_def empty_track_def picture_def tune_def zero_clip_def timeline_id_def)
  ultimately show ?thesis
    by (simp add: ApplyPatch_def apply_handler_def dispatch_def run_handler_def song_deleted)
qed

lemma song_unlocked: "unlockPreservedIndependentAudio (lineage_prefix ''7'') song [(''bgm'', music_track)] drop_shot = marked_song"
  by (simp add: unlockPreservedIndependentAudio_def song_marked song_cut Let_def)
    (simp add: song_def marked_song_def cut_song_def relock_def upt_Suc music_def)

section \<open>After the patch\<close>

definition sung :: vdoc where
  "sung = music 2 90 [picture ''a'' 0 90] (tune None 150)"

lemma song_restored: "restoreIndependentAudioTracks (lineage_prefix ''7'') cut_song song [(''bgm'', music_track)] = Inr sung"
proof -
  have mark: "preservedAudioLineageID (lineage_prefix ''7'') (tune (Some song_mark) 90) = Some ''m''"
    by (simp add: preservedAudioLineageID_def song_mark_def lineage_prefix_def cut_prefix_def)
  have same: "clip_deep_eq (tune None 150) (tune None 150)"
    by (simp add: clip_deep_eq_def tune_def zero_clip_def deep_eq_effects_def deep_eq_metadata_def)
  have track: "restore_track (lineage_prefix ''7'') song [(''bgm'', music_track)] t
      = (if TrackID t = ''bgm'' then music_track else t)" for t
    by (simp add: restore_track_def tracks_by_id_def filled_def song_def music_track_def same)
  show ?thesis
    by (simp add: restoreIndependentAudioTracks_def protected_ids_def music_track_def [symmetric] doc_clips_def mark
        cut_song_def map_music track Let_def) (simp add: music_track_def sung_def music_def mark)
qed

lemma song_patched: "patched quiet_world song drop_shot = Inr sung"
  by (simp add: patched_def quiet_world_def song_set_aside song_unlocked song_cut song_restored atomicReplaceTouchesPrimary_def Let_def)

section \<open>The verdict\<close>

lemma song_valid: "Validate song = []"
  by (simp add: Validate_def song_def music_def track_with_def empty_track_def picture_def tune_def zero_clip_def clip_issues_def
      Let_def ducking_issues_def issue_if_def see_id_def requiredTracks_def primary_issues_def last_track_def group_issues_def
      group_ids_def doc_clips_def effectiveRate_def isSubtitleStyle_def SubtitleStyleNames_def)

lemma sung_issues: "Validate sung = [(''invalid_clip_range'', ''m'')]"
  by (simp add: Validate_def sung_def music_def track_with_def empty_track_def picture_def tune_def zero_clip_def clip_issues_def
      Let_def ducking_issues_def issue_if_def see_id_def requiredTracks_def primary_issues_def last_track_def group_issues_def
      group_ids_def doc_clips_def effectiveRate_def isSubtitleStyle_def SubtitleStyleNames_def)

lemma music_same: "track_deep_eq music_track music_track" "clip_deep_eq (tune None 150) (tune None 150)"
  by (simp_all add: track_deep_eq_def music_track_def ducking_deep_eq_def track_with_def empty_track_def
      clip_deep_eq_def tune_def zero_clip_def deep_eq_effects_def deep_eq_metadata_def)

lemma song_proof: "deriveIndependentAudioValidationProof pf song sung [] [(''bgm'', music_track)] True = [(''bgm'', music_track)]"
proof -
  have over: "trackOverhangFrames music_track 90 = 60" "clipOverhangFrames (tune None 150) 90 = 60"
    by (simp_all add: trackOverhangFrames_def clipOverhangFrames_def music_track_def)
  have "map_of (tracks_by_id song) ''bgm'' = Some music_track"
    by (simp add: tracks_by_id_def filled_def song_def music_track_def)
  moreover have "independentAudioOverhangIsAuthorizedPerClip pf music_track music_track 150 90 False (Some music_track)"
    by (simp add: independentAudioOverhangIsAuthorizedPerClip_def clip_overhang_ok_def clips_by_id_def filled_def music_track_def
        over music_same Let_def)
  ultimately show ?thesis
    by (simp add: deriveIndependentAudioValidationProof_def sung_def song_def independentAudioTrackIDs_def filled_def
        music_track_def [symmetric] over trackOverhangFrames_def) (simp add: music_track_def)
qed

lemma song_mark_free: "preservedAudioLineageID pf (tune None e) = None" "preservedAudioLineageID pf (picture i a e) = None"
  by (simp_all add: preservedAudioLineageID_def)

lemma song_stripped: "stripPreservedAudioLineage pf song sung = sung" "stripPreservedAudioLineageFromTracks pf song [(''bgm'', music_track)] = [(''bgm'', music_track)]"
  by (simp_all add: stripPreservedAudioLineage_def stripPreservedAudioLineageFromTracks_def strip_track_def
      withoutPreservedAudioLineage_def song_mark_free sung_def map_music music_track_def) (simp add: music_def)

lemma sung_accepted: "validateWithPreservedIndependentAudio sung [(''bgm'', music_track)] = []"
proof -
  have "overhang_allowed 90 [(''bgm'', music_track)] (track_with ''bgm'' ''audio'' [tune None 150]) = [''m'']"
    using music_same(1) by (simp add: overhang_allowed_def independentAudioTrackIDs_def music_track_def [symmetric]) (simp add: music_track_def)
  then show ?thesis
    by (simp add: validateWithPreservedIndependentAudio_def sung_issues Let_def) (simp add: sung_def)
qed

lemma quiet_fields: "ew_assets quiet_world = Inr []" "ew_rows quiet_world = (\<lambda>_. Missing)" "ew_nonce quiet_world = ''7''"
  by (simp_all add: quiet_world_def)

lemma song_planned: "\<exists>p. plan_edit quiet_world song drop_shot = Inr p \<and> pe_operation p = drop_shot \<and> pe_document p = sung
    \<and> pe_proof p = [(''bgm'', music_track)]"
proof -
  have "validateAtomicTimelineAsset as song drop_shot = None" for as
    by (simp add: validateAtomicTimelineAsset_def Let_def)
  moreover have "enrichTimelineOperation [] l b drop_shot = Inr drop_shot" for l b
    by (simp add: enrichTimelineOperation_def)
  moreover have "preservedIndependentAudioFromStoredProof s (ew_rows quiet_world) ds song = Inr []" for s ds
    using proof_chain.simps(2) [where fuel = 63] by (simp add: preservedIndependentAudioFromStoredProof_def quiet_fields)
  moreover have "validateWithPreservedIndependentAudio song [] = []"
    by (simp add: validateWithPreservedIndependentAudio_def song_valid)
  ultimately show ?thesis
    by (simp add: plan_edit_def quiet_fields song_patched song_set_aside song_proof song_stripped sung_accepted Let_def)
qed

lemma overhang_accounted_witness:
  "\<exists>p. plan_edit quiet_world song drop_shot = Inr p \<and> accounted song (pe_document p) ''bgm'' (tune None 150)"
proof -
  obtain p where p: "plan_edit quiet_world song drop_shot = Inr p" "pe_document p = sung" using song_planned by blast
  with overhang_accounted [of quiet_world song drop_shot p music_track "tune None 150"] show ?thesis
    by (simp add: song_def sung_def music_track_def)
qed

end
