(* ===== verification/Edit_Commit_Demo.thy ===== *)
theory Edit_Commit_Demo
  imports Edit_Demo Reducer_Demo
begin

text \<open>
  The edit of \<open>Edit_Demo\<close> against a workspace: a draft at version 3 whose timeline is the song, edited by
  hand; and the same edit after another writer has advanced the draft.
\<close>

definition song_map :: gmap where "song_map = json_norm_map (document_fields song)"

definition song_row :: timeline_row where
  "song_row = demo_timeline\<lparr>tl_document := GObj song_map\<rparr>"

definition song_draft :: draft_row where
  "song_draft = (new_draft ''d'' ''Cut'' ''t0'')\<lparr>dr_state_version := 3, dr_timeline_current_version := Some 1\<rparr>"

definition song_db :: db where
  "song_db = empty_db\<lparr>db_drafts := [song_draft], db_timelines := [song_row]\<rparr>"

definition song_base :: mutation_base where
  "song_base = \<lparr>mb_stateVersion = 3, mb_timelineVersion = 1, mb_timelineID = ''d:v'' @ show_int 1\<rparr>"

definition by_hand :: tool_context where
  "by_hand = \<lparr>tc_origin = ''manual'', tc_turnID = [], tc_sourceMessageID = [], tc_toolCallID = [], tc_toolName = [],
     tc_fingerprint = [], tc_admission = None\<rparr>"

definition hand_world :: commit_world where
  "hand_world = \<lparr>cw_env = demo_env, cw_patch = ''p'', cw_hex = id, cw_text = (\<lambda>_. Inr [])\<rparr>"

section \<open>The snapshot\<close>

lemmas song_parts = song_def sung_def music_def picture_def tune_def track_with_def empty_track_def zero_clip_def

lemma song_encodes: "ToMap song = Inr song_map"
  by (simp add: ToMap_def song_map_def document_fields_def track_fields_def clip_fields_def omit_defs omit_def song_parts)

lemma song_exact: "exact_document song" "exact_document sung"
  by (simp_all add: exact_document_def exact_clip_def exact_def doc_clips_def song_parts)

lemma song_stored: "stored song = song" "ensureRequiredTracks song = song"
  by (simp_all add: stored_def stored_clip_def norm_effects_def map_tracks_def ensureRequiredTracks_def requiredTracks_def song_parts)

lemma song_snapshot: "timelineMutationSnapshot song_db ''d'' = Found (song, song_base)"
proof -
  have "document_of (GObj song_map) = Some song" using document_roundtrip [OF song_encodes song_exact(1)] by (simp add: song_stored)
  then have "GetFromQuery song_db ''d'' 1 = Found song"
    by (simp add: GetFromQuery_def read_row_def find_timeline_def song_db_def song_row_def demo_timeline_def song_stored)
  moreover have "find_draft ''d'' song_db = Some song_draft"
    by (simp add: find_draft_def song_db_def song_draft_def new_draft_def)
  moreover have "TimelineID song = ''d:v'' @ show_int 1" by (simp add: song_def music_def)
  ultimately show ?thesis by (simp add: timelineMutationSnapshot_def song_base_def song_draft_def)
qed

section \<open>The commit\<close>

definition sung_map :: gmap where "sung_map = json_norm_map (document_fields sung)"

definition sung_proof :: audio_proof where
  "sung_proof = \<lparr>ap_Type = independentAudioPreservationProofType, ap_TrackID = ''bgm'', ap_TimingSHA256 = ''sha'', ap_OverhangFrames = 60\<rparr>"

definition sung_report :: gmap where
  "sung_report = [(''valid'', GBool True), (''structural_valid'', GBool True), (''checks'', GStrs validation_checks),
     (''issues'', GArr []), (''preservation_proofs'', GArr [proof_value sung_proof])]"

lemma sung_encodes: "ToMap sung = Inr sung_map"
  by (simp add: ToMap_def sung_map_def document_fields_def track_fields_def clip_fields_def omit_defs omit_def song_parts)

lemma sung_json: "mustJSON (GObj sung_map) = Inr (GObj sung_map)" "sung_map \<noteq> []"
proof -
  have "json_ok (GObj sung_map)"
    by (simp add: sung_map_def document_fields_def track_fields_def clip_fields_def omit_defs omit_def song_parts)
  moreover have "json_norm (GObj sung_map) = GObj sung_map" using ToMap_stored [OF sung_encodes] by simp
  ultimately show "mustJSON (GObj sung_map) = Inr (GObj sung_map)" by (simp add: mustJSON_def)
  show "sung_map \<noteq> []" using ToMap_stored [OF sung_encodes] by simp
qed

lemma report_json: "mustJSON (GObj sung_report) = Inr (json_norm (GObj sung_report))"
  by (simp add: mustJSON_def sung_report_def proof_value_def)

lemma sung_reported: "structural_report (en_sha demo_env) sung [(''bgm'', music_track)] = Inr (sung_report, True)"
proof -
  have over: "trackOverhangFrames music_track 90 = 60" by (simp add: trackOverhangFrames_def music_track_def)
  have "json_ok (independentAudioTiming music_track)"
    by (simp add: independentAudioTiming_def clip_timing_def music_track_def tune_def zero_clip_def)
  then have "track_proof (en_sha demo_env) 90 music_track = Inr sung_proof"
    by (simp add: track_proof_def timelineTrackTimingSHA256_def sung_proof_def demo_env_def over) (simp add: music_track_def)
  then have "addIndependentAudioPreservationProofs (en_sha demo_env) sung [(''bgm'', music_track)] = Inr [sung_proof]"
    by (simp add: addIndependentAudioPreservationProofs_def independentAudioTrackIDs_def List.map_filter_simps trackHasOverhang_def
        over sung_def sung_proof_def)
  then show ?thesis by (simp add: structural_report_def sung_accepted sung_report_def Let_def)
qed

definition hand_payload :: gmap where
  "hand_payload = created_payload song_base sung sung_map ''delete_clip:p'' ''manual'' (Some drop_shot)"

definition verdict_payload :: gmap where
  "verdict_payload = [(''timeline_version'', GInt 2), (''validation_report'', GObj sung_report)]"

definition hand_options :: options where
  "hand_options = commit_options by_hand song_base None"

text \<open>The two events of the batch as they are applied at the time \<open>c\<close>.\<close>

definition made :: "string \<Rightarrow> event" where
  "made c = \<lparr>ev_Type = ''TimelineVersionCreated'', ev_Actor = ''user'', ev_DraftID = ''d'', ev_BaseVersion = Some 3,
     ev_Payload = Some hand_payload, ev_CreatedAt = c\<rparr>"

definition judged :: "string \<Rightarrow> event" where
  "judged c = \<lparr>ev_Type = ''TimelineValidated'', ev_Actor = ''user'', ev_DraftID = ''d'', ev_BaseVersion = Some 3,
     ev_Payload = Some verdict_payload, ev_CreatedAt = c\<rparr>"

lemma batch_fields [simp]: "ev_Type (made c) = ''TimelineVersionCreated''" "ev_DraftID (made c) = ''d''" "ev_Actor (made c) = ''user''"
  "ev_BaseVersion (made c) = Some 3" "ev_Payload (made c) = Some hand_payload"
  "ev_Type (judged c) = ''TimelineValidated''" "ev_DraftID (judged c) = ''d''" "ev_Actor (judged c) = ''user''"
  "ev_BaseVersion (judged c) = Some 3" "ev_Payload (judged c) = Some verdict_payload"
  by (simp_all add: made_def judged_def)

lemma hand_payload_fields: "gget hand_payload ''timeline_id'' = GStr (TimelineID sung)"
  "gget hand_payload ''timeline_version'' = GInt 2" "gget hand_payload ''patch_id'' = GStr ''delete_clip:p''"
  "gget hand_payload ''document_json'' = GObj sung_map" "gget hand_payload ''edit_origin'' = GStr ''manual''"
  "gget hand_payload ''edit_operations'' = GArr [GObj drop_shot]" "gget hand_payload ''parent_version'' = GInt 1"
  "gget hand_payload ''validation_report'' = GNil" "gget hand_payload ''scope_type'' = GNil"
  by (simp_all add: hand_payload_def created_payload_def song_base_def gget_def) (simp add: sung_def music_def)

lemma batch_payloads: "payload (made c) k = gget hand_payload k" "payload (judged c) k = gget verdict_payload k"
  by (simp_all add: payload_def)

lemma verdict_fields: "gget verdict_payload ''timeline_version'' = GInt 2"
  "gget verdict_payload ''validation_report'' = GObj sung_report" "gget verdict_payload ''scope_type'' = GNil"
  by (simp_all add: verdict_payload_def gget_def)

lemma batch_specs: "event_Spec (made c) = Some (event_spec VersionStrict VersionNone [] [] True RouteDraft)"
  "event_Spec (judged c) = Some (event_spec VersionStrict VersionNone [] [] True RouteDraft)"
  by (simp_all add: event_Spec_def EventRegistry_def)

lemma batch_modes: "VersionMode (made c) = Some VersionStrict" "VersionMode (judged c) = Some VersionStrict"
  by (simp_all add: VersionMode_def batch_specs batch_payloads hand_payload_fields verdict_fields)

lemma batch_keys: "MergeKey (made c) = Inr []" "MergeKey (judged c) = Inr []"
  by (simp_all add: MergeKey_def batch_specs batch_modes)

lemma batch_valid: "event_Validate (made c) = None" "event_Validate (judged c) = None"
  by (simp_all add: event_Validate_def batch_specs actor_valid_def ActorUser_def)

lemma batch_normal:
  "normalize_event hand_options c (timeline_event ''TimelineVersionCreated'' ''d'' hand_payload) = Inr (made c)"
  "normalize_event hand_options c (timeline_event ''TimelineValidated'' ''d'' verdict_payload) = Inr (judged c)"
proof -
  have op: "op_Actor hand_options = ''user''" "op_BaseVersion hand_options = Some 3"
    by (simp_all add: hand_options_def commit_options_def by_hand_def song_base_def ActorUser_def)
  let ?m = "made c\<lparr>ev_BaseVersion := None\<rparr>" and ?j = "judged c\<lparr>ev_BaseVersion := None\<rparr>"
  have stamped: "(timeline_event ''TimelineVersionCreated'' ''d'' hand_payload)\<lparr>ev_Actor := ''user'', ev_CreatedAt := c\<rparr> = ?m"
    "(timeline_event ''TimelineValidated'' ''d'' verdict_payload)\<lparr>ev_Actor := ''user'', ev_CreatedAt := c\<rparr> = ?j"
    "?m\<lparr>ev_BaseVersion := Some 3\<rparr> = made c" "?j\<lparr>ev_BaseVersion := Some 3\<rparr> = judged c"
    by (simp_all add: timeline_event_def made_def judged_def)
  have "event_Spec ?m = event_Spec (made c)" "event_Spec ?j = event_Spec (judged c)"
    "VersionMode ?m = VersionMode (made c)" "VersionMode ?j = VersionMode (judged c)"
    by (simp_all add: event_Spec_def VersionMode_def payload_def cong: option.case_cong)
  then show "normalize_event hand_options c (timeline_event ''TimelineVersionCreated'' ''d'' hand_payload) = Inr (made c)"
    "normalize_event hand_options c (timeline_event ''TimelineValidated'' ''d'' verdict_payload) = Inr (judged c)"
    by (simp_all add: normalize_event_def op stamped batch_specs batch_modes batch_valid Let_def)
qed

lemma trim_manual: "TrimSpace ''manual'' = ''manual''"
  by (rule TrimSpace_graphic) (simp_all add: graphic_def)

lemma batch_admitted: "admit demo_env hand_options c [made c, judged c] song_db = Inr song_db"
  by (simp add: admit_def validateTimelineWriteAdmission_def timelinePointerWriteDrafts_def writes_pointer_def batch_fields
      hand_options_def commit_options_def by_hand_def write_admission_of_def admits_draft_def write_origin_def
      GetLiveAgentEditLease_def song_db_def empty_db_def begin_restore_def trim_manual ActorUser_def ActorAgent_def)

text \<open>The workspace after the first event and after the second.\<close>

definition new_row :: "string \<Rightarrow> gval option \<Rightarrow> timeline_row" where
  "new_row c report = \<lparr>tl_timeline_id = TimelineID sung, tl_draft_id = ''d'', tl_version = 2, tl_parent_version = Some 1,
     tl_created_by_patch_id = Some ''delete_clip:p'', tl_document = GObj sung_map, tl_validation_report = report,
     tl_created_at = c\<rparr>"

definition hand_batch :: "string \<Rightarrow> edit_batch_row" where
  "hand_batch c = \<lparr>eb_edit_batch_id = ''delete_clip:p'', eb_draft_id = ''d'', eb_actor = ''user'', eb_origin = ''manual'',
     eb_operations = json_norm (GArr [GObj drop_shot]), eb_before_version = 1, eb_after_version = 2,
     eb_affected_refs = timelineEditAffectedRefs [GObj drop_shot], eb_created_at = c\<rparr>"

definition pointed :: "bool \<Rightarrow> draft_row" where
  "pointed ok = song_draft\<lparr>dr_timeline_current_version := Some 2, dr_timeline_validated := ok\<rparr>"

definition db_after :: "string \<Rightarrow> gval option \<Rightarrow> bool \<Rightarrow> db" where
  "db_after c report ok = song_db\<lparr>db_drafts := [pointed ok], db_timelines := [song_row, new_row c report],
     db_edit_batches := [hand_batch c]\<rparr>"

definition state_after :: "string \<Rightarrow> gval option \<Rightarrow> bool \<Rightarrow> event list \<Rightarrow> apply_state" where
  "state_after c report ok evs = \<lparr>st_db = db_after c report ok, st_createdAt = c, st_original = [''d'' \<mapsto> 3],
     st_touched = [''d''], st_eventsToLog = evs, st_skipped = 0, st_affected = None\<rparr>"

definition seen_state :: "string \<Rightarrow> apply_state" where
  "seen_state c = (initial_state c song_db)\<lparr>st_original := [''d'' \<mapsto> 3]\<rparr>"

lemma song_draft_fields [simp]: "dr_draft_id song_draft = ''d''" "dr_state_version song_draft = 3"
  "dr_timeline_current_version song_draft = Some 1" "dr_draft_id (pointed ok) = ''d''" "dr_state_version (pointed ok) = 3"
  "dr_timeline_current_version (pointed ok) = Some 2" "(pointed ok)\<lparr>dr_timeline_validated := ok'\<rparr> = pointed ok'"
  "song_draft\<lparr>dr_timeline_current_version := Some 2, dr_timeline_validated := ok\<rparr> = pointed ok"
  by (simp_all add: song_draft_def new_draft_def pointed_def)

lemma song_db_fields [simp]: "db_drafts song_db = [song_draft]" "db_timelines song_db = [song_row]" "db_edit_batches song_db = []"
  "db_event_log song_db = []" "db_event_seq song_db = 0"
  "tl_draft_id song_row = ''d''" "tl_version song_row = 1" "tl_timeline_id song_row = ''d:v1''"
  by (simp_all add: song_db_def empty_db_def song_row_def demo_timeline_def)

lemma batch_preflight: "preflightStrict (initial_state c song_db) [made c, judged c] = Inr (None, seen_state c)"
  by (simp add: batch_modes st_version_def initial_state_def seen_state_def lookupDraftVersion_def find_draft_def)

lemma hand_row_inserted: "insert_timeline (new_row c None) song_db = Inr (song_db\<lparr>db_timelines := [song_row, new_row c None]\<rparr>)"
proof -
  have "show_int 2 = ''2''" by code_simp
  then have "TimelineID sung \<noteq> ''d:v1''" by (simp add: sung_def music_def)
  then show ?thesis
    by (simp add: insert_timeline_def insert_unique_def require_def refers_def new_row_def)
qed

lemma hand_batch_recorded:
  "record_edit_batch (seen_state c) (made c) 2 (Some 1) (song_db\<lparr>db_timelines := ts\<rparr>)
    = Inr (song_db\<lparr>db_timelines := ts, db_edit_batches := [hand_batch c]\<rparr>)"
proof -
  have "mustJSON (GArr [GObj drop_shot]) = Inr (json_norm (GArr [GObj drop_shot]))"
    by (simp add: mustJSON_def drop_shot_def)
  then show ?thesis
    by (simp add: record_edit_batch_def insert_edit_batch_def insert_unique_def require_def refers_def batch_payloads
        hand_payload_fields rows_affected_def edit_batch_limit_def seen_state_def initial_state_def hand_batch_def)
qed

lemma hand_touch: "st_original st ''d'' = Some 3 \<Longrightarrow> find_draft ''d'' (st_db st) \<noteq> None
  \<Longrightarrow> touch st ''d'' = Inr (st\<lparr>st_touched := List.insert ''d'' (st_touched st)\<rparr>)"
  by (simp add: touch_def st_version_def)

lemma seen_fields [simp]: "st_db (seen_state c) = song_db" "st_createdAt (seen_state c) = c" "st_original (seen_state c) = [''d'' \<mapsto> 3]"
  "st_touched (seen_state c) = []"
  by (simp_all add: seen_state_def initial_state_def)

lemma hand_created: "applyEvent (seen_state c) (made c) = Inr (state_after c None False [])"
proof -
  have row: "\<lparr>tl_timeline_id = TimelineID sung, tl_draft_id = ''d'', tl_version = 2, tl_parent_version = Some 1,
     tl_created_by_patch_id = nullableText ''delete_clip:p'', tl_document = GObj sung_map, tl_validation_report = None,
     tl_created_at = c\<rparr> = new_row c None" by (simp add: new_row_def nullableText_def)
  have "TimelineID sung \<noteq> []" by (simp add: sung_def music_def)
  then have "applyTimelineCreated (seen_state c) (made c) = bind_sum (touch ((seen_state c)\<lparr>st_db :=
        song_db\<lparr>db_timelines := [song_row, new_row c None], db_edit_batches := [hand_batch c]\<rparr>\<rparr>) ''d'')
      (\<lambda>st. Inr (with_db (update_draft ''d'' (\<lambda>r. r\<lparr>dr_timeline_current_version := Some 2, dr_timeline_validated := False\<rparr>)) st))"
    by (simp add: applyTimelineCreated_def batch_payloads hand_payload_fields find_draft_def sung_json nullableJSON_def Let_def row
        hand_row_inserted hand_batch_recorded)
  also have "\<dots> = Inr (state_after c None False [])"
    by (simp add: hand_touch find_draft_def with_db_def update_draft_def update_where_def state_after_def db_after_def
        seen_state_def initial_state_def)
  finally show ?thesis by (simp add: applied_created)
qed

lemma after_fields [simp]: "st_db (state_after c r ok evs) = db_after c r ok" "st_original (state_after c r ok evs) = [''d'' \<mapsto> 3]"
  "st_touched (state_after c r ok evs) = [''d'']" "st_eventsToLog (state_after c r ok evs) = evs"
  "(state_after c r ok evs)\<lparr>st_eventsToLog := evs'\<rparr> = state_after c r ok evs'"
  "(state_after c r ok evs)\<lparr>st_db := db_after c r' ok'\<rparr> = state_after c r' ok' evs"
  "db_drafts (db_after c r ok) = [pointed ok]" "db_timelines (db_after c r ok) = [song_row, new_row c r]"
  "db_event_log (db_after c r ok) = []" "db_event_seq (db_after c r ok) = 0"
  by (simp_all add: state_after_def db_after_def)

lemma new_row_fields [simp]: "tl_draft_id (new_row c r) = ''d''" "tl_version (new_row c r) = 2"
  "(new_row c r)\<lparr>tl_validation_report := r'\<rparr> = new_row c r'"
  by (simp_all add: new_row_def)

lemma hand_judged: "applyEvent (state_after c None False [made c]) (judged c)
    = Inr (state_after c (Some (json_norm (GObj sung_report))) True [made c])"
proof -
  let ?r = "Some (json_norm (GObj sung_report))"
  have 1: "(db_after c None False)\<lparr>db_timelines := [song_row, new_row c r], db_drafts := [pointed True]\<rparr> = db_after c r True" for r
    by (simp add: db_after_def)
  have 3: "(state_after c r ok evs)\<lparr>st_touched := [''d'']\<rparr> = state_after c r ok evs" for r ok evs by (simp add: state_after_def)
  have "applyTimelineValidation (state_after c None False [made c]) (judged c) = Inr (state_after c ?r True [made c])"
    by (simp add: applyTimelineValidation_def batch_payloads verdict_fields report_json update_where_def with_db_def 1 hand_touch
        find_draft_def 3 update_draft_def Let_def)
  then show ?thesis by (simp add: applied_verdict)
qed

lemma hand_applied: "apply_events (seen_state c) [] [made c, judged c]
    = Inr (state_after c (Some (json_norm (GObj sung_report))) True [made c, judged c])"
  by (simp add: existingMergeEvent_def batch_keys hand_created hand_judged)

lemma hand_encodes: "payload_encodes (made c)" "payload_encodes (judged c)"
proof -
  have "json_ok (GObj sung_map)" using sung_json(1) by (simp add: mustJSON_def split: if_splits)
  then show "payload_encodes (made c)"
    by (simp add: payload_encodes_def hand_payload_def created_payload_def drop_shot_def song_base_def)
  have "json_ok (GObj sung_report)" using report_json by (simp add: mustJSON_def split: if_splits)
  then show "payload_encodes (judged c)" by (simp add: payload_encodes_def verdict_payload_def)
qed

lemma hand_finished: "\<exists>res db2. finish demo_env hand_options c
    (state_after c r ok [made c, judged c]) song_db = Inr (res, db2) \<and> ar_Status res = StatusApplied"
proof -
  have "op_ResultRows hand_options = no_rows" "op_Validate hand_options = None" "op_RewindRestore hand_options = None"
    by (simp_all add: hand_options_def commit_options_def no_rows_def)
  then show ?thesis
    by (simp add: finish_def seal_def persist_no_rows sortedKeys_def rows_affected_def update_where_def append_event_def
        hand_encodes batch_keys log_draft_def log_version_def nullableText_def refers_def Let_def)
qed

lemma hand_committed: "\<exists>res db2. Apply demo_env hand_options
    (commit_events ''d'' sung hand_payload sung_report True) song_db = Inr (res, db2) \<and> ar_Status res = StatusApplied"
proof -
  have events: "commit_events ''d'' sung hand_payload sung_report True
      = [timeline_event ''TimelineVersionCreated'' ''d'' hand_payload, timeline_event ''TimelineValidated'' ''d'' verdict_payload]"
    by (simp add: commit_events_def verdict_payload_def) (simp add: sung_def music_def)
  have "actor_valid (op_Actor hand_options)" by (simp add: hand_options_def commit_options_def by_hand_def actor_valid_def)
  then show ?thesis
    using hand_finished [of "created_at demo_env hand_options"]
    by (simp add: Apply_def events batch_normal batch_admitted run_events_def batch_preflight hand_applied
        del: preflightStrict.simps apply_events.simps)
qed

section \<open>The edit\<close>

definition planned :: planned_edit where
  "planned = (case plan_edit quiet_world song drop_shot of Inr p \<Rightarrow> p | Inl _ \<Rightarrow> undefined)"

lemma planned: "plan_edit quiet_world song drop_shot = Inr planned" "pe_operation planned = drop_shot" "pe_document planned = sung"
  "pe_proof planned = [(''bgm'', music_track)]"
  using song_planned by (auto simp: planned_def)

definition hand_edit :: "db \<Rightarrow> edit_outcome \<times> admission_state option \<times> db" where
  "hand_edit db' = atomicTimelineEdit quiet_world hand_world by_hand ''d'' ''timeline.delete_clip'' drop_shot None song_db db'"

lemma hand_edit: "hand_edit db' = (case persistTimelineFromSnapshot hand_world by_hand ''d'' sung ''delete_clip'' (Some drop_shot) song_base
    [(''bgm'', music_track)] (Some planned) db' of
      Inl e \<Rightarrow> (CommitFailed e, None, db') | Inr (r, db2) \<Rightarrow> (EditDone r, None, db2))"
proof -
  have "toolAtomicTimelineEdit quiet_world ''d'' ''timeline.delete_clip'' 1 song None drop_shot = (Inr planned, None)"
    by (simp add: toolAtomicTimelineEdit_def planned)
  moreover have "mb_timelineVersion song_base = 1" by (simp add: song_base_def)
  ultimately show ?thesis
    by (auto simp: hand_edit_def atomicTimelineEdit_def song_snapshot planned trim_tool_def cut_prefix_def
        split: sum.splits commit_outcome.splits)
qed

lemma hand_persisted: "persistTimelineFromSnapshot hand_world by_hand ''d'' sung ''delete_clip'' (Some drop_shot) song_base
    [(''bgm'', music_track)] (Some planned) db' = bind_sum (failing ReducerFailed (Apply demo_env hand_options
      (commit_events ''d'' sung hand_payload sung_report True) db')) (\<lambda>(res, db2).
    case ar_Status res of
      StatusVersionConflict \<Rightarrow> Inr (Rejected song_base (map_option vc_ActualStateVersion (ar_Conflict res)), db2)
    | StatusApplied \<Rightarrow> Inr (Committed \<lparr>to_status = ''succeeded'', to_document = sung, to_base = song_base, to_report = sung_report,
        to_alignment = BeatAlignmentData sung, to_edit = Some planned\<rparr>, db2)
    | other \<Rightarrow> Inl (OtherStatus other))"
proof -
  have "Version sung = i64 (mb_timelineVersion song_base + 1)" by (simp add: sung_def music_def song_base_def i64_def)
  moreover have "timelineMutationReceipt hand_world by_hand ''d'' song_base sung r = Inr None" for r
    by (simp add: timelineMutationReceipt_def by_hand_def)
  ultimately show ?thesis
    by (simp add: persistTimelineFromSnapshot_def sung_encodes hand_world_def sung_reported by_hand_def hand_options_def
        hand_payload_def failing_def Let_def)
qed

lemma hand_edit_committed: "\<exists>result db2. hand_edit song_db = (EditDone (Committed result), None, db2)
    \<and> to_document result = sung \<and> to_edit result = Some planned"
  using hand_committed by (auto simp: hand_edit hand_persisted failing_def)

theorem committed_edit_keeps_audio_witness:
  "\<exists>result db2. hand_edit song_db = (EditDone (Committed result), None, db2)
    \<and> (\<exists>latest. Latest db2 ''d'' = Found latest \<and> latest = ensureRequiredTracks (stored sung)
      \<and> list_ex (\<lambda>t. TrackID t = ''bgm'' \<and> core_clip (tune None 150 :: vclip) \<in> core_clip ` set (Clips t)) (Tracks latest))"
proof -
  obtain result db2 where e: "hand_edit song_db = (EditDone (Committed result), None, db2)" "to_document result = sung"
    "to_edit result = Some planned" using hand_edit_committed by blast
  have "untouched song drop_shot music_track (tune None 150)" by (simp add: untouched_def touched music_track_def)
  then have "\<exists>latest. Latest db2 ''d'' = Found latest \<and> latest = ensureRequiredTracks (stored sung)
      \<and> list_ex (\<lambda>t. TrackID t = ''bgm'' \<and> core_clip (tune None 150 :: vclip) \<in> core_clip ` set (Clips t)) (Tracks latest)"
    using committed_edit_keeps_audio [OF e(1) [unfolded hand_edit_def] _ song_snapshot, of music_track "tune None 150"]
      song_exact(2) by (simp add: e(2,3) planned(2) song_def music_track_def)
  with e(1) show ?thesis by blast
qed

text \<open>Another writer has renamed the draft between the snapshot and the commit.\<close>

definition ahead :: db where
  "ahead = song_db\<lparr>db_drafts := [song_draft\<lparr>dr_name := ''Final'', dr_state_version := 4\<rparr>]\<rparr>"

lemma ahead_conflict: "\<exists>res. Apply demo_env hand_options (commit_events ''d'' sung hand_payload sung_report True) ahead
    = Inr (res, ahead) \<and> ar_Status res = StatusVersionConflict"
proof -
  have events: "commit_events ''d'' sung hand_payload sung_report True
      = [timeline_event ''TimelineVersionCreated'' ''d'' hand_payload, timeline_event ''TimelineValidated'' ''d'' verdict_payload]"
    by (simp add: commit_events_def verdict_payload_def) (simp add: sung_def music_def)
  have "db_leases ahead = []" by (simp add: ahead_def song_db_def empty_db_def)
  then have "admit demo_env hand_options c [made c, judged c] ahead = Inr ahead" for c
    by (simp add: admit_def validateTimelineWriteAdmission_def timelinePointerWriteDrafts_def writes_pointer_def batch_fields
      hand_options_def commit_options_def by_hand_def write_admission_of_def admits_draft_def write_origin_def
      GetLiveAgentEditLease_def begin_restore_def trim_manual ActorUser_def ActorAgent_def)
  moreover have "actor_valid (op_Actor hand_options)" by (simp add: hand_options_def commit_options_def by_hand_def actor_valid_def)
  moreover have "lookupDraftVersion ahead ''d'' = Inr 4" by (simp add: lookupDraftVersion_def find_draft_def ahead_def)
  ultimately show ?thesis
    by (simp add: Apply_def events batch_normal run_events_def batch_modes st_version_def initial_state_def outcome_def)
qed

theorem stale_edit_rejected_witness:
  "\<exists>r. hand_edit ahead = (EditDone r, None, ahead) \<and> (\<exists>base v. r = Rejected base v)"
proof -
  obtain r where e: "hand_edit ahead = (EditDone r, None, ahead)"
    using ahead_conflict by (auto simp: hand_edit hand_persisted failing_def)
  have "draft_version ahead ''d'' \<noteq> draft_version song_db ''d''" by (simp add: draft_version_def find_draft_def ahead_def)
  then show ?thesis using stale_edit_rejected [OF e [unfolded hand_edit_def]] e by blast
qed

end
