(* ===== verification/Spec2Isabelle.thy ===== *)
theory Spec2Isabelle
  imports Timeline_Demo Timeline_Coalesce Timeline_Contract Timeline_Locks Worker_Demo Reducer_Row_Demo Agent_Queue_Demo
    Agent_Lease_Demo Speech_Demo Edit_Commit_Demo
begin

text \<open>
  Verification library of Rushes, a conversational video editor written in Go.

  The program.  A workspace is a SQLite database of drafts.  The timeline of a draft is a chain of immutable versions;
  an edit is a patch of the latest document.  The language-model agent and the user both edit: the
  agent's turns wait in a queue, an agent turn holds the edit lease of its draft while it edits, and every write
  goes through one function, \<open>reducer.Apply\<close>, as a batch of events against a version of the draft.  Slow work
  (import, understanding, rendering) is done by workers that claim jobs from a table and report back with events.
  The paths below are under \<open>src/go/internal\<close>.

  Base theories.
  \<^item> \<open>Rushes_Prelude\<close>: Go's 64-bit \<open>int\<close> (\<open>i64\<close> wraps), \<open>bind_sum\<close> for \<open>if err != nil\<close>, number
    printing, \<open>strings.TrimSpace\<close> on byte strings.
  \<^item> \<open>GoFloat\<close>, \<open>GoFormat\<close>: \<open>float64\<close> with round-to-even on exact rationals, \<open>Atoi\<close>, the \<open>%g\<close> verb.
  \<^item> \<open>GoValue\<close>: the dynamic type \<open>any\<close>, its JSON form and \<open>reflect.DeepEqual\<close>; \<open>GoJson\<close>: the JSON form of texts that
    need not be valid UTF-8.
  \<^item> \<open>GoTime\<close>, \<open>GoTimeParse\<close>, \<open>GoUtf8\<close>: times, the RFC 3339 layouts printed and parsed, runes.

  Timelines (\<open>timeline/\<close>).
  \<^item> \<open>Timeline_Model\<close>: documents, tracks, clips.  A clone shares metadata maps where Go does, so metadata is a
    reference into a store while an operation runs.
  \<^item> \<open>Timeline_Catalog\<close> (\<open>op_catalog.go\<close>), \<open>Timeline_Ripple\<close> and \<open>Timeline_Edit\<close> (\<open>timeline.go\<close>, \<open>editing.go\<close>): the
    fields of an operation, the frame arithmetic and the nineteen handlers; \<open>Timeline_Patch\<close>: \<open>ApplyPatch\<close>;
    \<open>Timeline_Validate\<close>: \<open>Validate\<close>; \<open>Timeline_Coalesce\<close>: \<open>coalesce.go\<close>.
  \<^item> \<open>Timeline_Frames\<close>, \<open>Timeline_Wf\<close>, \<open>Timeline_Geometry\<close>, \<open>Timeline_Tiling\<close>, \<open>Timeline_Picture\<close>, \<open>Timeline_Moves\<close>:
    the abstract picture, a multiset of intervals that tile the timeline, and that each handler acts on it like an
    interval function.  \<open>Timeline_Contract\<close> has the locale \<open>patch_contract\<close>: a relation every handler keeps is kept by
    \<open>ApplyPatch\<close>.  It is interpreted for the tiled picture, for locked tracks (\<open>Timeline_Locks\<close>) and for track ids
    (\<open>Timeline_Ids\<close>).
  \<^item> \<open>Timeline_Store\<close>: the JSON form of a document, reading versions (\<open>store.go\<close>), and that a stored document reads back.

  Events and the reducer (\<open>contracts/\<close>, \<open>storage/\<close>, \<open>reducer/\<close>).
  \<^item> \<open>Contracts_Events\<close>: the registry of events, version modes, merge keys, validation.
  \<^item> \<open>Store_Tables\<close>: the rows, unique keys and foreign keys of the tables; \<open>db\<close> is the whole database.
  \<^item> \<open>Reducer_State\<close>, \<open>_Drafts\<close>, \<open>_Assets\<close>, \<open>_Jobs\<close>, \<open>_Timeline\<close>, \<open>_Rewind\<close>: the event handlers; \<open>Reducer_Memories\<close>,
    \<open>_Analyses\<close>, \<open>_Lease\<close>, \<open>_Rows\<close>: the rows stored in the same transaction; \<open>Reducer_Apply\<close>: the transaction.
  \<^item> \<open>Reducer_Steps\<close>: every handler is a sequence of primitive steps.  \<open>Reducer_Invariants\<close>, \<open>Reducer_Row_Facts\<close> and the
    locale \<open>tx_relation\<close> of \<open>Reducer_Safety\<close> lift a relation that every step keeps to \<open>Apply\<close>: immutable versions, the
    append-only log, bounded history, final cancellations, bounded memories, one ready snapshot (\<open>Reducer_Row_Safety\<close>).
    \<open>Reducer_Versions\<close>: versions of drafts, and that a stale writer is refused.  \<open>Reducer_Leases\<close>: a lease that has not
    run out stays with its holder through every transaction.  The stored times of memories compare like the instants
    (\<open>Reducer_Memories\<close>).

  Workers (\<open>worker/\<close>).  \<open>Worker_Jobs\<close> (\<open>job.go\<close>) and \<open>Worker_Runner\<close> (\<open>runner.go\<close>, \<open>registry.go\<close>) are the queue and the
  life of one job; \<open>Worker_Facts\<close> shows that the queue implements the abstract queue of the locale \<open>work_queue\<close>,
  \<open>Worker_Retries\<close> that attempts stay within their limit and failed runs come back.  A worker that lost its claim writes
  nothing, with one exception the reducer leaves open: a progress report that comes after the end of the job is
  accepted and reopens it.

  Turns (\<open>agent/\<close>).
  \<^item> \<open>Agent_Queue\<close> (\<open>turn_queue.go\<close>): one function per critical section; \<open>queue_step\<close> interleaves them freely.
    \<open>Agent_Queue_Facts\<close>, \<open>_Order\<close>, \<open>_Items\<close>, \<open>_Safety\<close>: invariants of all reachable states (locale
    \<open>queue_invariant\<close>).  A cancelled draft accepts no turn; an item its worker still takes from the channel begins, as in
    the code, with a context that is cancelled already.  \<open>Agent_Queue_Rest\<close>: the queue's own steps end, and when its
    context lives every turn it accepted has been reported then.  After the context has ended this holds no more: a
    producer can put its item into the channel of a worker that has left its loop, where only \<open>Close\<close> finds it.
  \<^item> \<open>Agent_Lease\<close> (\<open>edit_lease.go\<close>): a session and its reducer transactions; the holder stays the holder through any
    sequence of transactions before the current expiry, and two sessions exclude each other.

  Speech and content (\<open>agentexec/speech_inspect.go\<close>, \<open>media/speech_pauses.go\<close>, \<open>agentexec/content_contract.go\<close>).
  \<open>Interval_Merge\<close> has the sweep two components share as a locale, and as \<open>exact_merge\<close> its extension to merges that add no
  frame; \<open>Speech_Model\<close>, \<open>Speech_Text\<close>, \<open>Speech_Pauses\<close>,
  \<open>Media_Pauses\<close> and \<open>Content_Contract\<close> hold chunks, pauses, transcripts, common subsequences and coverage.

  The atomic edit (\<open>agentexec/tool_exec_timeline.go\<close>, \<open>timeline_integrity.go\<close>, \<open>atomic_edit_admission.go\<close>).
  \<^item> \<open>Edit_Preserve\<close>: independent audio is set aside before the patch and put back after it; \<open>Edit_Proofs\<close>: the proofs
    stored with a version; \<open>Edit_Reports\<close>: alignment, layout and difference reports; \<open>Edit_Atomic\<close>: admission, checks and
    the plan of an edit (\<open>plan_edit\<close>).
  \<^item> \<open>Edit_Audio\<close>, \<open>Edit_Overhang\<close>: untouched audio keeps its place, and whatever overhangs was in its place before or
    comes from a clip that overhung as far.
  \<^item> \<open>Edit_Persist\<close>: the snapshot, the commit through \<open>Apply\<close> and the whole tool; \<open>Edit_Commit\<close>: an edit planned on an old
    state is rejected, and a committed document is what \<open>Latest\<close> reads.

  The theories \<open>*_Demo\<close> run the properties on small concrete workspaces.

  Bounds and fuel.  Frame arithmetic is exact integers reduced by \<open>i64\<close> where Go adds; the properties about the picture
  ask for frames of at most \<open>2 ^ 52\<close> (\<open>small\<close>) and those about JSON for numbers of at most \<open>2 ^ 53\<close> (\<open>exact\<close>), where no sum
  wraps and no \<open>float64\<close> loses digits.  \<open>proof_chain\<close> follows at most 64 parents, the code's own bound.
  \<open>BuildASRChunks\<close> is a partial function and is proved to return; every other recursion is total.

  Assumptions.  A database error other than a missing row or a violated constraint does not happen.  The reads of one
  edit see the same list of materials.  A nil slice and an empty one, and names of JSON fields that differ in case,
  are not distinguished.  Two float zeros are one.  Texts that are stored as JSON are valid UTF-8, except in
  transcripts, where the raw bytes of a subtitle file are replaced as Go replaces them.  Versions and event numbers do
  not reach \<open>2 ^ 63\<close>.  Time, random identifiers, SHA-256 and the JSON text of values come
  from the environment (\<open>env\<close>, \<open>edit_world\<close>, \<open>commit_world\<close>), as does the beat analysis.  Goroutines, tickers and
  contexts are steps and flags.  A message for the reader is represented by the subject it names.  The order of equal
  elements after \<open>sort.Slice\<close> is that of the input.

  Not modelled.  The job handlers and everything that runs \<open>ffmpeg\<close>; the conversation service around the language
  model and the agent tools other than the atomic edit; material understanding; connections, migrations and garbage
  collection of the storage; the HTTP interface, providers, configuration, telemetry, commands and the web client.
\<close>

end
